(* ===== verification/Dobby_Prelude.thy ===== *)
theory Dobby_Prelude
  imports Main "HOL-Library.Word"
begin

text \<open>
  The shared base of the development: the machine integer types, the ways a call can stop
  (\<open>fatal\<close>), the bit macros of \<^verbatim>\<open>source/common/macros/utilities_macro.h\<close> on machine words, the
  little-endian byte images that every \<^verbatim>\<open>Emit16/32/64\<close> and every literal load of the program
  depends on, and the bit-field calculus the encoder and decoder theories compute with.
\<close>

unbundle bit_operations_syntax

named_theorems field_simps_of \<open>how a bit field of an instruction word is read out of its parts\<close>
named_theorems le_simps \<open>little-endian byte images\<close>

type_synonym u8 = "8 word"
type_synonym u16 = "16 word"
type_synonym u32 = "32 word"
type_synonym u64 = "64 word"

section \<open>Ways to stop\<close>

text \<open>
  With \<^verbatim>\<open>DOBBY_DEBUG\<close> (the default of the build) \<^verbatim>\<open>FATAL\<close> logs and calls \<^verbatim>\<open>abort()\<close>;
  \<^verbatim>\<open>UNREACHABLE\<close> and \<^verbatim>\<open>UNIMPLEMENTED\<close> are \<^verbatim>\<open>FATAL\<close> with a fixed message. \<open>OVERREAD\<close>, \<open>OVERWRITE\<close> and
  \<open>BAD_POINTER\<close> are not checks of the code: they mark the places where the C program would read
  or write outside the object it points into, or use a pointer it did not check.
\<close>

datatype fatal =
    FATAL string
  | UNREACHABLE
  | UNIMPLEMENTED
  | OVERREAD
  | OVERWRITE
  | BAD_POINTER
  | UNINITIALISED

type_synonym 'a result = "fatal + 'a"

definition rbind :: "'a result \<Rightarrow> ('a \<Rightarrow> 'b result) \<Rightarrow> 'b result" where
  "rbind m f = (case m of Inl e \<Rightarrow> Inl e | Inr x \<Rightarrow> f x)"

lemma rbind_simps [simp]:
  "rbind (Inl e) f = Inl e"
  "rbind (Inr x) f = f x"
  by (simp_all add: rbind_def)

lemma rbind_Inr_iff: "rbind m f = Inr y \<longleftrightarrow> (\<exists>x. m = Inr x \<and> f x = Inr y)"
  by (cases m) auto

lemma rbind_InrE [elim]:
  assumes "rbind m f = Inr y"
  obtains x where "m = Inr x" and "f x = Inr y"
  using assms by (cases m) auto

lemma rbind_cong [fundef_cong]:
  assumes "m = m'" and "\<And>x. m' = Inr x \<Longrightarrow> f x = g x"
  shows "rbind m f = rbind m' g"
  using assms by (cases m') auto

fun rfold :: "('a \<Rightarrow> 's \<Rightarrow> 's result) \<Rightarrow> 'a list \<Rightarrow> 's \<Rightarrow> 's result" where
  "rfold f [] s = Inr s"
| "rfold f (x # xs) s = rbind (f x s) (rfold f xs)"

fun do_all :: "('s \<Rightarrow> 's result) list \<Rightarrow> 's \<Rightarrow> 's result" where
  "do_all [] s = Inr s"
| "do_all (f # fs) s = rbind (f s) (do_all fs)"

lemma do_all_append: "do_all (fs @ gs) s = rbind (do_all fs s) (do_all gs)"
  by (induction fs arbitrary: s) (simp_all add: rbind_def split: sum.split)

section \<open>The bit macros\<close>

text \<open>
  \<^verbatim>\<open>bits(obj, st, fn)\<close>, \<^verbatim>\<open>bit(obj, st)\<close>, \<^verbatim>\<open>LeftShift(a, b, c)\<close>, \<^verbatim>\<open>RightShift(a, b, c)\<close>,
  \<^verbatim>\<open>set_bit\<close>, \<^verbatim>\<open>set_bits\<close>, \<^verbatim>\<open>ALIGN_FLOOR\<close> and \<^verbatim>\<open>ALIGN_CEIL\<close>. The C macros apply to signed and
  unsigned operands alike; below the mask an arithmetic and a logical right shift agree, so one
  word operation stands for both.
\<close>

definition submask :: "nat \<Rightarrow> 'a::len word" where
  "submask x = push_bit (x + 1) 1 - 1"

definition bits_of :: "'a::len word \<Rightarrow> nat \<Rightarrow> nat \<Rightarrow> 'a word" where
  "bits_of obj st fn = drop_bit st obj AND submask (fn - st)"

definition bit_of :: "'a::len word \<Rightarrow> nat \<Rightarrow> 'a word" where
  "bit_of obj st = drop_bit st obj AND 1"

definition sbits_of :: "'a::len word \<Rightarrow> nat \<Rightarrow> nat \<Rightarrow> 'a word" where
  "sbits_of obj st fn = bits_of obj st fn OR (bit_of obj fn * NOT (submask (fn - st)))"

definition LeftShift :: "'a::len word \<Rightarrow> nat \<Rightarrow> nat \<Rightarrow> 'a word" where
  "LeftShift a b c = push_bit c (a AND (push_bit b 1 - 1))"

definition RightShift :: "'a::len word \<Rightarrow> nat \<Rightarrow> nat \<Rightarrow> 'a word" where
  "RightShift a b c = drop_bit c a AND (push_bit b 1 - 1)"

definition set_bit_of :: "'a::len word \<Rightarrow> nat \<Rightarrow> 'a word \<Rightarrow> 'a word" where
  "set_bit_of obj st b = (NOT (push_bit st 1) AND obj) OR push_bit st b"

definition set_bits_of :: "'a::len word \<Rightarrow> nat \<Rightarrow> nat \<Rightarrow> 'a word \<Rightarrow> 'a word" where
  "set_bits_of obj st fn b = (NOT (push_bit st (submask (fn - st))) AND obj) OR push_bit st b"

definition ALIGN_FLOOR :: "'a::len word \<Rightarrow> 'a word \<Rightarrow> 'a word" where
  "ALIGN_FLOOR address rng = address AND NOT (rng - 1)"

definition ALIGN_CEIL :: "'a::len word \<Rightarrow> 'a word \<Rightarrow> 'a word" where
  "ALIGN_CEIL address rng = (address + rng - 1) AND NOT (rng - 1)"

lemma push_bit_one_minus_one: "push_bit n 1 - 1 = (mask n :: 'a::len word)"
  by (simp add: mask_eq_exp_minus_1 push_bit_eq_mult)

lemma submask_eq_mask: "submask x = (mask (x + 1) :: 'a::len word)"
  by (simp only: submask_def push_bit_one_minus_one)

lemma bits_of_eq_take_bit:
  "bits_of obj st fn = take_bit (fn - st + 1) (drop_bit st (obj :: 'a::len word))"
  by (simp only: bits_of_def submask_eq_mask take_bit_eq_mask)

lemma bit_of_eq_take_bit: "bit_of obj st = take_bit 1 (drop_bit st (obj :: 'a::len word))"
  by (simp add: bit_of_def take_bit_eq_mask)

lemma LeftShift_eq: "LeftShift a b c = push_bit c (take_bit b (a :: 'a::len word))"
  by (simp only: LeftShift_def push_bit_one_minus_one take_bit_eq_mask)

lemma RightShift_eq: "RightShift a b c = take_bit b (drop_bit c (a :: 'a::len word))"
  by (simp only: RightShift_def push_bit_one_minus_one take_bit_eq_mask)

lemma bit_of_cases: "bit_of (w :: 'a::len word) n = (if bit w n then 1 else 0)"
proof (rule bit_word_eqI)
  fix i
  show "bit (bit_of w n) i = bit (if bit w n then 1 else 0 :: 'a word) i"
    by (cases i) (auto simp: bit_of_def bit_and_iff bit_drop_bit_eq bit_1_iff)
qed

section \<open>Fields of an instruction word\<close>

text \<open>
  \<open>field st n w\<close> is the \<open>n\<close>-bit field of \<open>w\<close> that starts at bit \<open>st\<close>. Encoders build a word
  as the disjunction of shifted parts, decoders read fields: the lemmas below push a field through
  a disjunction and decide, for a shifted part, whether the field is that part or misses it.
\<close>

definition field :: "nat \<Rightarrow> nat \<Rightarrow> 'a::len word \<Rightarrow> 'a word" where
  "field st n w = take_bit n (drop_bit st w)"

lemma bits_of_field: "bits_of w st fn = field st (fn - st + 1) w"
  by (simp add: bits_of_eq_take_bit field_def)

lemma bit_of_field: "bit_of w st = field st 1 w"
  by (simp only: bit_of_eq_take_bit field_def)

lemma bit_field_iff:
  "bit (field st n w) i \<longleftrightarrow> i < n \<and> bit (w :: 'a::len word) (st + i)"
  by (simp add: field_def bit_take_bit_iff bit_drop_bit_eq)

lemma field_or [field_simps_of]: "field st n (a OR b) = field st n a OR field st n b"
  by (rule bit_word_eqI) (auto simp: bit_field_iff bit_or_iff)

lemma field_and: "field st n (a AND b) = field st n a AND field st n b"
  by (rule bit_word_eqI) (auto simp: bit_field_iff bit_and_iff)

lemma field_push_eq:
  fixes a :: "'a::len word"
  assumes "st + n \<le> LENGTH('a)"
  shows "field st n (push_bit st a) = take_bit n a"
  using assms by (intro bit_word_eqI) (auto simp: bit_field_iff bit_take_bit_iff bit_push_bit_iff)

lemma field_push_below:
  fixes a :: "'a::len word"
  assumes "st + n \<le> k"
  shows "field st n (push_bit k a) = 0"
  using assms by (intro bit_word_eqI) (auto simp: bit_field_iff bit_push_bit_iff)

lemma field_push_above:
  fixes a :: "'a::len word"
  assumes "k + m \<le> st"
  shows "field st n (push_bit k (take_bit m a)) = 0"
  using assms by (intro bit_word_eqI) (auto simp: bit_field_iff bit_push_bit_iff bit_take_bit_iff)

lemma field_push_same:
  fixes a :: "'a::len word"
  assumes "st + n \<le> LENGTH('a)"
  shows "field st n (push_bit st (take_bit n a)) = take_bit n a"
  using assms
  by (intro bit_word_eqI) (auto simp: bit_field_iff bit_push_bit_iff bit_take_bit_iff)

lemma field_take_bit_above:
  fixes a :: "'a::len word"
  assumes "m \<le> st"
  shows "field st n (take_bit m a) = 0"
  using assms by (intro bit_word_eqI) (auto simp: bit_field_iff bit_take_bit_iff)

lemma field_take_bit_same:
  fixes a :: "'a::len word"
  shows "field 0 n (take_bit n a) = take_bit n a"
  by (intro bit_word_eqI) (auto simp: bit_field_iff bit_take_bit_iff)

lemma take_bit_word_less:
  fixes a :: "'a::len word"
  assumes "unat a < 2 ^ n"
  shows "take_bit n a = a"
proof -
  have "unat (take_bit n a) = unat a"
    using assms by (simp add: unsigned_take_bit_eq take_bit_nat_eq_self_iff)
  then show ?thesis by (simp only: word_unat_eq_iff)
qed

lemma unat_take_bit_less: "unat (take_bit n (a :: 'a::len word)) < 2 ^ n"
  by (simp add: unsigned_take_bit_eq)

lemma unat_ucast_up:
  fixes n :: "'a::len word"
  assumes "LENGTH('a) \<le> LENGTH('b::len)"
  shows "unat (ucast n :: 'b word) = unat n"
proof -
  have "unat n < 2 ^ LENGTH('a)" by (rule unsigned_less)
  also have "\<dots> \<le> (2 :: nat) ^ LENGTH('b)" using assms by simp
  finally show ?thesis by (simp add: unsigned_ucast_eq take_bit_nat_eq_self_iff)
qed

lemma scast_small:
  fixes n :: u32
  assumes "unat n < 2 ^ 31"
  shows "unat (scast n :: u64) = unat n"
proof -
  have "\<not> bit n 31"
  proof -
    have "\<not> bit (unat n) 31" using assms by (simp add: bit_iff_odd)
    then show ?thesis by (simp add: bit_unsigned_iff)
  qed
  then have "(scast n :: u64) = ucast n"
  proof (intro bit_word_eqI)
    fix i assume "i < LENGTH(64)"
    moreover have "\<not> bit n i" if "31 \<le> i"
      using that \<open>\<not> bit n 31\<close> bit_imp_le_length [of n i] by (cases "i = 31") auto
    ultimately show "bit (scast n :: u64) i = bit (ucast n :: u64) i"
      using \<open>\<not> bit n 31\<close> by (auto simp: bit_signed_iff bit_unsigned_iff min_def)
  qed
  then show ?thesis by (simp add: unat_ucast_up)
qed

text \<open>A difference of addresses that fits a signed 32-bit displacement survives the narrowing.\<close>

lemma scast_ucast_fits:
  fixes d :: "'a::len word"
  assumes "LENGTH('b::len) \<le> LENGTH('a)"
    and "- (2 ^ (LENGTH('b) - 1)) \<le> sint d" and "sint d < 2 ^ (LENGTH('b) - 1)"
  shows "scast (ucast d :: 'b word) = d"
proof (rule bit_word_eqI)
  let ?k = "LENGTH('b) - 1"
  fix n assume n: "n < LENGTH('a)"
  have "signed_take_bit ?k (sint d) = sint d"
    using assms(2,3) by (intro signed_take_bit_int_eq_self)
  moreover have "bit (signed_take_bit ?k (sint d)) n = bit (sint d) (min n ?k)"
    by (simp add: bit_signed_take_bit_iff min.commute)
  ultimately have "bit (sint d) n = bit (sint d) (min n ?k)" by simp
  moreover have "bit (sint d) m = bit d m" if "m < LENGTH('a)" for m using that by (simp add: bit_sint_iff)
  ultimately have "bit d n = bit d (min n ?k)" using n by simp
  moreover have "bit (scast (ucast d :: 'b word) :: 'a word) n = bit d (min n ?k)"
    using n assms(1)
    by (cases "n = LENGTH('b) - Suc 0") (auto simp: bit_signed_iff bit_unsigned_iff min_def)
  ultimately show "bit (scast (ucast d :: 'b word) :: 'a word) n = bit d n" by blast
qed

lemma scast_ucast_near:
  fixes d :: u64
  assumes "- (2 ^ 31) \<le> sint d" and "sint d < 2 ^ 31"
  shows "scast (ucast d :: u32) = d"
  using assms by (intro scast_ucast_fits) simp_all

lemma sint_of_int_fits:
  "- (2 ^ (LENGTH('a) - 1)) \<le> k \<Longrightarrow> k < 2 ^ (LENGTH('a) - 1) \<Longrightarrow> sint (of_int k :: 'a::len word) = k"
  by (simp only: sint_sbintrunc' signed_take_bit_int_eq_self)

lemma sint_of_int_small:
  "- (2 ^ 31) \<le> k \<Longrightarrow> k < 2 ^ 31 \<Longrightarrow> sint (of_int k :: u32) = k"
  by (rule sint_of_int_fits) simp_all

lemma sint_diff_small:
  fixes a b :: u64
  assumes "\<bar>int (unat a) - int (unat b)\<bar> < 2 ^ 63"
  shows "sint (a - b) = int (unat a) - int (unat b)"
proof -
  have "a - b = of_int (int (unat a) - int (unat b))" by simp
  then show ?thesis using assms by (simp only:) (rule sint_of_int_fits, simp_all)
qed

lemma ucast_scast_u32 [simp]: "ucast (scast (w :: u32) :: u64) = w"
  by (rule bit_word_eqI) (simp add: bit_unsigned_iff bit_signed_iff)

section \<open>Little-endian byte images\<close>

text \<open>
  Every supported target is little-endian, so \<^verbatim>\<open>*(uint32_t *)p = v\<close> stores the bytes of \<open>v\<close>
  from the least significant one up.
\<close>

definition le_bytes :: "nat \<Rightarrow> 'a::len word \<Rightarrow> u8 list" where
  "le_bytes n w = map (\<lambda>i. ucast (drop_bit (8 * i) w)) [0..<n]"

fun le_word :: "u8 list \<Rightarrow> 'a::len word" where
  "le_word [] = 0"
| "le_word (b # bs) = ucast b OR push_bit 8 (le_word bs)"

lemma length_le_bytes [simp]: "length (le_bytes n w) = n"
  by (simp add: le_bytes_def)

lemma le_bytes_0 [simp]: "le_bytes 0 w = []"
  by (simp add: le_bytes_def)

lemma le_bytes_Suc:
  "le_bytes (Suc n) w = ucast w # le_bytes n (drop_bit 8 (w :: 'a::len word))"
  unfolding le_bytes_def upt_conv_Cons [OF zero_less_Suc]
  by (simp add: map_Suc_upt [symmetric] comp_def ac_simps del: upt_Suc)

lemma le_bytes_1: "le_bytes 1 w = [ucast (w :: 'a::len word)]"
  by (simp add: le_bytes_Suc)

lemma le_bytes_numeral [le_simps]:
  fixes w :: "'a::len word"
  shows "le_bytes (Suc 0) w = [ucast w]"
    and "le_bytes 2 w = [ucast w, ucast (drop_bit 8 w)]"
    and "le_bytes 4 w = [ucast w, ucast (drop_bit 8 w), ucast (drop_bit 16 w), ucast (drop_bit 24 w)]"
    and "le_bytes 8 w = [ucast w, ucast (drop_bit 8 w), ucast (drop_bit 16 w), ucast (drop_bit 24 w),
      ucast (drop_bit 32 w), ucast (drop_bit 40 w), ucast (drop_bit 48 w), ucast (drop_bit 56 w)]"
  by (simp_all add: le_bytes_def upt_rec)

lemma le_word_le_bytes:
  "le_word (le_bytes n w) = (take_bit (8 * n) w :: 'a::len word)"
proof (induction n arbitrary: w)
  case 0
  then show ?case by simp
next
  case (Suc n)
  have "le_word (le_bytes (Suc n) w)
      = ucast (ucast w :: u8) OR push_bit 8 (take_bit (8 * n) (drop_bit 8 w))"
    by (simp add: le_bytes_Suc Suc.IH)
  also have "\<dots> = take_bit (8 * Suc n) w"
    by (rule bit_word_eqI)
      (auto simp: bit_or_iff bit_unsigned_iff bit_push_bit_iff bit_drop_bit_eq bit_take_bit_iff)
  finally show ?case .
qed

lemma le_word_le_bytes_full:
  assumes "LENGTH('a::len) \<le> 8 * n"
  shows "le_word (le_bytes n w) = (w :: 'a word)"
  using assms by (simp add: le_word_le_bytes take_bit_word_eq_self)

lemma le32_round_trip [simp]: "le_word (le_bytes 4 w) = (w :: u32)"
  by (rule le_word_le_bytes_full) simp

lemma le64_round_trip [simp]: "le_word (le_bytes 8 w) = (w :: u64)"
  by (rule le_word_le_bytes_full) simp

lemma le16_round_trip [simp]: "le_word (le_bytes 2 w) = (w :: u16)"
  by (rule le_word_le_bytes_full) simp

lemma le_word_append: "le_word (xs @ ys) = le_word xs OR push_bit (8 * length xs) (le_word ys :: 'a::len word)"
  by (induction xs) (simp_all add: push_bit_or or.assoc)

lemma bit_le_word:
  "bit (le_word bs :: 'a::len word) n \<longleftrightarrow> n < LENGTH('a) \<and> n div 8 < length bs \<and> bit (bs ! (n div 8)) (n mod 8)"
proof (induction bs arbitrary: n)
  case (Cons b bs)
  show ?case
  proof (cases "n < 8")
    case True
    then show ?thesis using bit_imp_le_length by (auto simp: bit_or_iff bit_push_bit_iff bit_unsigned_iff)
  next
    case False
    then obtain m where n: "n = m + 8" by (metis add.commute le_Suc_ex not_less)
    have "\<not> bit b (m + 8)" using bit_imp_le_length [of b "m + 8"] by auto
    moreover have "(m + 8) div 8 = Suc (m div 8)" by simp
    ultimately show ?thesis using Cons [of m] by (auto simp: n bit_or_iff bit_push_bit_iff bit_unsigned_iff)
  qed
qed simp

section \<open>Alignment\<close>

lemma ALIGN_FLOOR_le: "ALIGN_FLOOR a r \<le> (a :: 'a::len word)"
  unfolding ALIGN_FLOOR_def by (rule word_and_le2)

lemma ALIGN_FLOOR_pow2:
  fixes a :: "'a::len word"
  shows "ALIGN_FLOOR a (2 ^ n) = a - take_bit n a"
proof -
  have "ALIGN_FLOOR a (2 ^ n) = a AND NOT (mask n)"
    by (simp add: ALIGN_FLOOR_def mask_eq_exp_minus_1)
  moreover have "(a AND NOT (mask n)) + (a AND mask n) = a"
  proof -
    have "(a AND NOT (mask n)) + (a AND mask n) = (a AND NOT (mask n)) OR (a AND mask n)"
      by (rule disjunctive_add_eq_or)
        (rule bit_word_eqI, auto simp: bit_and_iff bit_not_iff bit_mask_iff)
    also have "\<dots> = a"
      by (rule bit_word_eqI) (auto simp: bit_or_iff bit_and_iff bit_not_iff bit_mask_iff)
    finally show ?thesis .
  qed
  then have "a AND NOT (mask n) = a - (a AND mask n)"
    by (simp only: eq_diff_eq)
  ultimately show ?thesis
    by (simp add: take_bit_eq_mask)
qed

lemma unat_ALIGN_FLOOR:
  fixes x :: "'a::len word"
  shows "unat (ALIGN_FLOOR x (2 ^ p)) = unat x - unat x mod 2 ^ p"
proof -
  have tb: "unat (take_bit p x) = unat x mod 2 ^ p" by (simp only: unsigned_take_bit_eq) (simp add: take_bit_eq_mod)
  then have "take_bit p x \<le> x" by (simp add: word_le_nat_alt)
  then show ?thesis unfolding ALIGN_FLOOR_pow2 using tb by (simp add: unat_sub)
qed

lemma same_page:
  fixes a :: u64
  assumes "p < 64" and "unat a mod 2 ^ p + i < 2 ^ p"
  shows "ALIGN_FLOOR (a + of_nat i) (2 ^ p) = ALIGN_FLOOR a (2 ^ p)"
proof -
  let ?P = "2 ^ p :: nat" and ?q = "unat a div 2 ^ p"
  have d: "unat a = ?q * ?P + unat a mod ?P" by (rule div_mult_mod_eq [symmetric])
  have top: "(2 :: nat) ^ 64 = 2 ^ (64 - p) * ?P" using assms(1) by (simp flip: power_add)
  moreover have "unat a < 2 ^ 64" using unsigned_less [of a] by simp
  ultimately have "?q < 2 ^ (64 - p)" by (simp add: less_mult_imp_div_less)
  then have "(?q + 1) * ?P \<le> 2 ^ (64 - p) * ?P" by (intro mult_right_mono) auto
  then have "?q * ?P + ?P \<le> 2 ^ (64 - p) * ?P" by (simp only: distrib_right mult_1_left)
  then have "unat a + i < 2 ^ 64" unfolding top using d assms(2) by linarith
  then have u: "unat (a + of_nat i) = unat a + i" by (simp add: unat_word_ariths unat_of_nat)
  have "(unat a + i) mod ?P = unat a mod ?P + i" using assms(2) by (metis mod_add_left_eq mod_less)
  then have "unat (ALIGN_FLOOR (a + of_nat i) (2 ^ p)) = unat (ALIGN_FLOOR a (2 ^ p))"
    by (simp add: unat_ALIGN_FLOOR u)
  then show ?thesis by (rule unsigned_word_eqI)
qed

lemma ucast_add_small:
  fixes p :: u32
  assumes "unat p + k < 2 ^ 32"
  shows "(ucast (p + of_nat k) :: u64) = ucast p + of_nat k"
proof -
  have "unat (p + of_nat k) = unat p + k" using assms by (simp add: unat_word_ariths unat_of_nat)
  moreover have "unat (ucast p + of_nat k :: u64) = unat p + k" using assms by (simp add: unat_word_ariths unat_of_nat unat_ucast_up)
  ultimately have "unat (ucast (p + of_nat k) :: u64) = unat (ucast p + of_nat k :: u64)" by (simp add: unat_ucast_up)
  then show ?thesis by (rule unsigned_word_eqI)
qed

end
