(* ===== verification/X86_Opcode_Tables.thy ===== *)
theory X86_Opcode_Tables
  imports Dobby_Prelude
begin

text \<open>
  The opcode tables of the x86 instruction decoder
  (\<^verbatim>\<open>source/InstructionRelocation/x86/x86_insn_decode/\<close>): the one-byte and two-byte opcode maps, one
  definition per row of sixteen opcodes as the source groups them, the ModR/M-extended groups and
  the three SSE group arrays (which the decoder declares and never consults). Each entry is built by
  the same \<^verbatim>\<open>op0 .. op3f\<close> macros as in the source.
\<close>

section \<open>Instruction specifications\<close>

text \<open>
  \<^verbatim>\<open>x86_insn_spec_t\<close>: a name (\<^verbatim>\<open>NULL\<close> in a zero-initialised entry), three operand
  specifications of two characters each, and the flags. An operand specification is the union of
  \<^verbatim>\<open>{code, type}\<close> and \<^verbatim>\<open>data[2]\<close>, filled from a two-letter literal such as \<^verbatim>\<open>Ev\<close>.
\<close>

type_synonym x86_insn_operand_spec = "char \<times> char"

record x86_insn_spec =
  spec_name :: "string option"
  spec_operands :: "x86_insn_operand_spec list"
  spec_flags :: u16

type_synonym x86_insn_group8 = "x86_insn_spec list"

definition operand_data :: "string \<Rightarrow> x86_insn_operand_spec" where
  "operand_data s = (s ! 0, s ! 1)"

definition op3_flag :: "string \<Rightarrow> u16 \<Rightarrow> string \<Rightarrow> string \<Rightarrow> string \<Rightarrow> x86_insn_spec" where
  "op3_flag x f o0 o1 o2 =
     \<lparr>spec_name = Some x, spec_operands = [operand_data o0, operand_data o1, operand_data o2], spec_flags = f\<rparr>"

abbreviation op3f :: "string \<Rightarrow> u16 \<Rightarrow> string \<Rightarrow> string \<Rightarrow> string \<Rightarrow> x86_insn_spec" where
  "op3f \<equiv> op3_flag"

definition op2f :: "string \<Rightarrow> u16 \<Rightarrow> string \<Rightarrow> string \<Rightarrow> x86_insn_spec" where
  "op2f x f o0 o1 = op3_flag x f o0 o1 ''__''"

definition op1f :: "string \<Rightarrow> u16 \<Rightarrow> string \<Rightarrow> x86_insn_spec" where
  "op1f x f o0 = op2f x f o0 ''__''"

definition op0f :: "string \<Rightarrow> u16 \<Rightarrow> x86_insn_spec" where
  "op0f x f = op1f x f ''__''"

definition op3 :: "string \<Rightarrow> string \<Rightarrow> string \<Rightarrow> string \<Rightarrow> x86_insn_spec" where
  "op3 x o0 o1 o2 = op3f x 0 o0 o1 o2"

definition op2 :: "string \<Rightarrow> string \<Rightarrow> string \<Rightarrow> x86_insn_spec" where
  "op2 x o0 o1 = op2f x 0 o0 o1"

definition op1 :: "string \<Rightarrow> string \<Rightarrow> x86_insn_spec" where
  "op1 x o0 = op1f x 0 o0"

definition op0 :: "string \<Rightarrow> x86_insn_spec" where
  "op0 x = op0f x 0"

definition zero_spec :: x86_insn_spec where
  "zero_spec = \<lparr>spec_name = None, spec_operands = replicate 3 (CHR 0x00, CHR 0x00), spec_flags = 0\<rparr>"

lemmas op_defs = op0_def op1_def op2_def op3_def op0f_def op1f_def op2f_def op3_flag_def operand_data_def

section \<open>Groups and their flags\<close>

text \<open>
  The anonymous enums of \<^verbatim>\<open>x86_insn_decode.c\<close>: group numbers 1 to 18 name the ModR/M groups,
  \<^verbatim>\<open>X86_INSN_SSE_GROUP_START\<close> is 19 and 20 to 34 name the SSE groups. A group is carried in the
  flags from bit 5 up.
\<close>

definition X86_INSN_GROUP_START :: nat where
  "X86_INSN_GROUP_START = 0"

definition X86_INSN_SSE_GROUP_START :: nat where
  "X86_INSN_SSE_GROUP_START = 19"

definition X86_INSN_GROUP_END :: nat where
  "X86_INSN_GROUP_END = 35"

definition X86_INSN_SPEC_DEFAULT_64_BIT :: u16 where
  "X86_INSN_SPEC_DEFAULT_64_BIT = push_bit 0 1"

definition X86_INSN_FLAG_SET_GROUP :: "nat \<Rightarrow> u16" where
  "X86_INSN_FLAG_SET_GROUP n = push_bit 5 (of_nat n)"

definition X86_INSN_FLAG_GET_GROUP :: "u16 \<Rightarrow> nat" where
  "X86_INSN_FLAG_GET_GROUP f = unat (drop_bit 5 f AND (push_bit 6 1 - 1))"

abbreviation X86_INSN_FLAG_MODRM_REG_GROUP_1 :: u16 where
  "X86_INSN_FLAG_MODRM_REG_GROUP_1 \<equiv> X86_INSN_FLAG_SET_GROUP 1"

abbreviation X86_INSN_FLAG_MODRM_REG_GROUP_1a :: u16 where
  "X86_INSN_FLAG_MODRM_REG_GROUP_1a \<equiv> X86_INSN_FLAG_SET_GROUP 2"

abbreviation X86_INSN_FLAG_MODRM_REG_GROUP_2 :: u16 where
  "X86_INSN_FLAG_MODRM_REG_GROUP_2 \<equiv> X86_INSN_FLAG_SET_GROUP 3"

abbreviation X86_INSN_FLAG_MODRM_REG_GROUP_3 :: u16 where
  "X86_INSN_FLAG_MODRM_REG_GROUP_3 \<equiv> X86_INSN_FLAG_SET_GROUP 4"

abbreviation X86_INSN_FLAG_MODRM_REG_GROUP_4 :: u16 where
  "X86_INSN_FLAG_MODRM_REG_GROUP_4 \<equiv> X86_INSN_FLAG_SET_GROUP 5"

abbreviation X86_INSN_FLAG_MODRM_REG_GROUP_5 :: u16 where
  "X86_INSN_FLAG_MODRM_REG_GROUP_5 \<equiv> X86_INSN_FLAG_SET_GROUP 6"

abbreviation X86_INSN_FLAG_MODRM_REG_GROUP_6 :: u16 where
  "X86_INSN_FLAG_MODRM_REG_GROUP_6 \<equiv> X86_INSN_FLAG_SET_GROUP 7"

abbreviation X86_INSN_FLAG_MODRM_REG_GROUP_7 :: u16 where
  "X86_INSN_FLAG_MODRM_REG_GROUP_7 \<equiv> X86_INSN_FLAG_SET_GROUP 8"

abbreviation X86_INSN_FLAG_MODRM_REG_GROUP_8 :: u16 where
  "X86_INSN_FLAG_MODRM_REG_GROUP_8 \<equiv> X86_INSN_FLAG_SET_GROUP 9"

abbreviation X86_INSN_FLAG_MODRM_REG_GROUP_9 :: u16 where
  "X86_INSN_FLAG_MODRM_REG_GROUP_9 \<equiv> X86_INSN_FLAG_SET_GROUP 10"

abbreviation X86_INSN_FLAG_MODRM_REG_GROUP_10 :: u16 where
  "X86_INSN_FLAG_MODRM_REG_GROUP_10 \<equiv> X86_INSN_FLAG_SET_GROUP 11"

abbreviation X86_INSN_FLAG_MODRM_REG_GROUP_11 :: u16 where
  "X86_INSN_FLAG_MODRM_REG_GROUP_11 \<equiv> X86_INSN_FLAG_SET_GROUP 12"

abbreviation X86_INSN_FLAG_MODRM_REG_GROUP_12 :: u16 where
  "X86_INSN_FLAG_MODRM_REG_GROUP_12 \<equiv> X86_INSN_FLAG_SET_GROUP 13"

abbreviation X86_INSN_FLAG_MODRM_REG_GROUP_13 :: u16 where
  "X86_INSN_FLAG_MODRM_REG_GROUP_13 \<equiv> X86_INSN_FLAG_SET_GROUP 14"

abbreviation X86_INSN_FLAG_MODRM_REG_GROUP_14 :: u16 where
  "X86_INSN_FLAG_MODRM_REG_GROUP_14 \<equiv> X86_INSN_FLAG_SET_GROUP 15"

abbreviation X86_INSN_FLAG_MODRM_REG_GROUP_15 :: u16 where
  "X86_INSN_FLAG_MODRM_REG_GROUP_15 \<equiv> X86_INSN_FLAG_SET_GROUP 16"

abbreviation X86_INSN_FLAG_MODRM_REG_GROUP_16 :: u16 where
  "X86_INSN_FLAG_MODRM_REG_GROUP_16 \<equiv> X86_INSN_FLAG_SET_GROUP 17"

abbreviation X86_INSN_FLAG_MODRM_REG_GROUP_p :: u16 where
  "X86_INSN_FLAG_MODRM_REG_GROUP_p \<equiv> X86_INSN_FLAG_SET_GROUP 18"

abbreviation X86_INSN_FLAG_SSE_GROUP_10 :: u16 where
  "X86_INSN_FLAG_SSE_GROUP_10 \<equiv> X86_INSN_FLAG_SET_GROUP 20"

abbreviation X86_INSN_FLAG_SSE_GROUP_28 :: u16 where
  "X86_INSN_FLAG_SSE_GROUP_28 \<equiv> X86_INSN_FLAG_SET_GROUP 21"

abbreviation X86_INSN_FLAG_SSE_GROUP_50 :: u16 where
  "X86_INSN_FLAG_SSE_GROUP_50 \<equiv> X86_INSN_FLAG_SET_GROUP 22"

abbreviation X86_INSN_FLAG_SSE_GROUP_58 :: u16 where
  "X86_INSN_FLAG_SSE_GROUP_58 \<equiv> X86_INSN_FLAG_SET_GROUP 23"

abbreviation X86_INSN_FLAG_SSE_GROUP_60 :: u16 where
  "X86_INSN_FLAG_SSE_GROUP_60 \<equiv> X86_INSN_FLAG_SET_GROUP 24"

abbreviation X86_INSN_FLAG_SSE_GROUP_68 :: u16 where
  "X86_INSN_FLAG_SSE_GROUP_68 \<equiv> X86_INSN_FLAG_SET_GROUP 25"

abbreviation X86_INSN_FLAG_SSE_GROUP_70 :: u16 where
  "X86_INSN_FLAG_SSE_GROUP_70 \<equiv> X86_INSN_FLAG_SET_GROUP 26"

abbreviation X86_INSN_FLAG_SSE_GROUP_78 :: u16 where
  "X86_INSN_FLAG_SSE_GROUP_78 \<equiv> X86_INSN_FLAG_SET_GROUP 27"

abbreviation X86_INSN_FLAG_SSE_GROUP_c0 :: u16 where
  "X86_INSN_FLAG_SSE_GROUP_c0 \<equiv> X86_INSN_FLAG_SET_GROUP 28"

abbreviation X86_INSN_FLAG_SSE_GROUP_d0 :: u16 where
  "X86_INSN_FLAG_SSE_GROUP_d0 \<equiv> X86_INSN_FLAG_SET_GROUP 29"

abbreviation X86_INSN_FLAG_SSE_GROUP_d8 :: u16 where
  "X86_INSN_FLAG_SSE_GROUP_d8 \<equiv> X86_INSN_FLAG_SET_GROUP 30"

abbreviation X86_INSN_FLAG_SSE_GROUP_e0 :: u16 where
  "X86_INSN_FLAG_SSE_GROUP_e0 \<equiv> X86_INSN_FLAG_SET_GROUP 31"

abbreviation X86_INSN_FLAG_SSE_GROUP_e8 :: u16 where
  "X86_INSN_FLAG_SSE_GROUP_e8 \<equiv> X86_INSN_FLAG_SET_GROUP 32"

abbreviation X86_INSN_FLAG_SSE_GROUP_f0 :: u16 where
  "X86_INSN_FLAG_SSE_GROUP_f0 \<equiv> X86_INSN_FLAG_SET_GROUP 33"

abbreviation X86_INSN_FLAG_SSE_GROUP_f8 :: u16 where
  "X86_INSN_FLAG_SSE_GROUP_f8 \<equiv> X86_INSN_FLAG_SET_GROUP 34"

section \<open>Macro lists\<close>

definition foreach_x86_gp_reg :: "string list" where
  "foreach_x86_gp_reg = [''AX'', ''CX'', ''DX'', ''BX'', ''SP'', ''BP'', ''SI'', ''DI'']"

definition foreach_x86_condition :: "string list" where
  "foreach_x86_condition =
     [''o'', ''no'', ''b'', ''nb'', ''z'', ''nz'', ''be'', ''nbe'',
      ''s'', ''ns'', ''p'', ''np'', ''l'', ''nl'', ''le'', ''nle'']"

definition foreach_x86_operand_combine :: "string \<Rightarrow> x86_insn_spec list" where
  "foreach_x86_operand_combine x =
     [op2 x ''Eb'' ''Gb'', op2 x ''Ev'' ''Gv'', op2 x ''Gb'' ''Eb'', op2 x ''Gv'' ''Ev'',
      op2 x ''AL'' ''Ib'', op2 x ''AX'' ''Iz'']"

section \<open>One-byte opcodes\<close>

definition x86_opcode_map_one_byte_00 :: "x86_insn_spec list" where
  "x86_opcode_map_one_byte_00 =
     foreach_x86_operand_combine ''add''
     @ [op0 ''push_es'',
     op0f ''pop_es'' X86_INSN_SPEC_DEFAULT_64_BIT]
     @ foreach_x86_operand_combine ''or''
     @ [op0f ''push_cs'' X86_INSN_SPEC_DEFAULT_64_BIT,
     op0 ''escape_two_byte'']"

definition x86_opcode_map_one_byte_10 :: "x86_insn_spec list" where
  "x86_opcode_map_one_byte_10 =
     foreach_x86_operand_combine ''adc''
     @ [op0 ''push_ss'',
     op0 ''pop_ss'']
     @ foreach_x86_operand_combine ''sbb''
     @ [op0 ''push_ds'',
     op0 ''pop_ds'']"

definition x86_opcode_map_one_byte_20 :: "x86_insn_spec list" where
  "x86_opcode_map_one_byte_20 =
     foreach_x86_operand_combine ''and''
     @ [op0 ''segment_es'',
     op0 ''daa'']
     @ foreach_x86_operand_combine ''sub''
     @ [op0 ''segment_cs'',
     op0 ''das'']"

definition x86_opcode_map_one_byte_30 :: "x86_insn_spec list" where
  "x86_opcode_map_one_byte_30 =
     foreach_x86_operand_combine ''xor''
     @ [op0 ''segment_ss'',
     op0 ''aaa'']
     @ foreach_x86_operand_combine ''cmp''
     @ [op0 ''segment_ds'',
     op0 ''aas'']"

definition x86_opcode_map_one_byte_40 :: "x86_insn_spec list" where
  "x86_opcode_map_one_byte_40 =
     map (\<lambda>x. op1 ''inc'' x) foreach_x86_gp_reg
     @ map (\<lambda>x. op1 ''dec'' x) foreach_x86_gp_reg"

definition x86_opcode_map_one_byte_50 :: "x86_insn_spec list" where
  "x86_opcode_map_one_byte_50 =
     map (\<lambda>x. op1f ''push'' X86_INSN_SPEC_DEFAULT_64_BIT x) foreach_x86_gp_reg
     @ map (\<lambda>x. op1f ''pop'' X86_INSN_SPEC_DEFAULT_64_BIT x) foreach_x86_gp_reg"

definition x86_opcode_map_one_byte_60 :: "x86_insn_spec list" where
  "x86_opcode_map_one_byte_60 =
     [op0 ''pusha'',
     op0 ''popa'',
     op2 ''bound'' ''Gv'' ''Ma'',
     op2 ''movsxd'' ''Gv'' ''Ed'',
     op0 ''segment_fs'',
     op0 ''segment_gs'',
     op0 ''operand_type'',
     op0 ''address_size'',
     op1f ''push'' X86_INSN_SPEC_DEFAULT_64_BIT ''Iz'',
     op3 ''imul'' ''Gv'' ''Ev'' ''Iz'',
     op1f ''push'' X86_INSN_SPEC_DEFAULT_64_BIT ''Ib'',
     op3 ''imul'' ''Gv'' ''Ev'' ''Ib'',
     op1 ''insb'' ''DX'',
     op1 ''insw'' ''DX'',
     op1 ''outsb'' ''DX'',
     op1 ''outsw'' ''DX'']"

definition x86_opcode_map_one_byte_70 :: "x86_insn_spec list" where
  "x86_opcode_map_one_byte_70 =
     map (\<lambda>x. op1 (''j'' @ x) ''Jb'') foreach_x86_condition"

definition x86_opcode_map_one_byte_80 :: "x86_insn_spec list" where
  "x86_opcode_map_one_byte_80 =
     [op2f ''modrm_group_1'' X86_INSN_FLAG_MODRM_REG_GROUP_1 ''Eb'' ''Ib'',
     op2f ''modrm_group_1'' X86_INSN_FLAG_MODRM_REG_GROUP_1 ''Ev'' ''Iz'',
     op2f ''modrm_group_1'' X86_INSN_FLAG_MODRM_REG_GROUP_1 ''Eb'' ''Ib'',
     op2f ''modrm_group_1'' X86_INSN_FLAG_MODRM_REG_GROUP_1 ''Ev'' ''Ib'',
     op2 ''test'' ''Eb'' ''Gb'',
     op2 ''test'' ''Ev'' ''Gv'',
     op2 ''xchg'' ''Eb'' ''Gb'',
     op2 ''xchg'' ''Ev'' ''Gv'',
     op2 ''mov'' ''Eb'' ''Gb'',
     op2 ''mov'' ''Ev'' ''Gv'',
     op2 ''mov'' ''Gb'' ''Eb'',
     op2 ''mov'' ''Gv'' ''Ev'',
     op2 ''mov'' ''Ev'' ''Sw'',
     op2 ''lea'' ''Gv'' ''Ev'',
     op2 ''mov'' ''Sw'' ''Ew'',
     op1f ''modrm_group_1a'' X86_INSN_FLAG_MODRM_REG_GROUP_1a ''Ev'']"

definition x86_opcode_map_one_byte_90 :: "x86_insn_spec list" where
  "x86_opcode_map_one_byte_90 =
     [op0 ''nop'',
     op1 ''xchg'' ''CX'',
     op1 ''xchg'' ''DX'',
     op1 ''xchg'' ''BX'',
     op1 ''xchg'' ''SP'',
     op1 ''xchg'' ''BP'',
     op1 ''xchg'' ''SI'',
     op1 ''xchg'' ''DI'',
     op0 ''cbw'',
     op0 ''cwd'',
     op1 ''call'' ''Ap'',
     op0 ''wait'',
     op0 ''pushf'',
     op0 ''popf'',
     op0 ''sahf'',
     op0 ''lahf'']"

definition x86_opcode_map_one_byte_a0 :: "x86_insn_spec list" where
  "x86_opcode_map_one_byte_a0 =
     [op2 ''mov'' ''AL'' ''Ob'',
     op2 ''mov'' ''AX'' ''Ov'',
     op2 ''mov'' ''Ob'' ''AL'',
     op2 ''mov'' ''Ov'' ''AX'',
     op0 ''movsb'',
     op0 ''movsw'',
     op0 ''cmpsb'',
     op0 ''cmpsw'',
     op2 ''test'' ''AL'' ''Ib'',
     op2 ''test'' ''AX'' ''Iz'',
     op1 ''stosb'' ''AL'',
     op1 ''stosw'' ''AX'',
     op1 ''lodsb'' ''AL'',
     op1 ''lodsw'' ''AX'',
     op1 ''scasb'' ''AL'',
     op1 ''scasw'' ''AX'']"

definition x86_opcode_map_one_byte_b0 :: "x86_insn_spec list" where
  "x86_opcode_map_one_byte_b0 =
     [op2 ''mov'' ''AL'' ''Ib'',
     op2 ''mov'' ''CL'' ''Ib'',
     op2 ''mov'' ''DL'' ''Ib'',
     op2 ''mov'' ''BL'' ''Ib'',
     op2 ''mov'' ''AH'' ''Ib'',
     op2 ''mov'' ''CH'' ''Ib'',
     op2 ''mov'' ''DH'' ''Ib'',
     op2 ''mov'' ''BH'' ''Ib'']
     @ map (\<lambda>x. op2 ''mov'' x ''Iv'') foreach_x86_gp_reg"

definition x86_opcode_map_one_byte_c0 :: "x86_insn_spec list" where
  "x86_opcode_map_one_byte_c0 =
     [op2f ''modrm_group_2'' X86_INSN_FLAG_MODRM_REG_GROUP_2 ''Eb'' ''Ib'',
     op2f ''modrm_group_2'' X86_INSN_FLAG_MODRM_REG_GROUP_2 ''Ev'' ''Ib'',
     op1 ''ret'' ''Iw'',
     op0 ''ret'',
     op2 ''les'' ''Gz'' ''Mp'',
     op2 ''lds'' ''Gz'' ''Mp'',
     op2f ''modrm_group_11'' X86_INSN_FLAG_MODRM_REG_GROUP_11 ''Eb'' ''Ib'',
     op2f ''modrm_group_11'' X86_INSN_FLAG_MODRM_REG_GROUP_11 ''Ev'' ''Iz'',
     op2 ''enter'' ''Iw'' ''Ib'',
     op0 ''leave'',
     op1 ''ret'' ''Iw'',
     op0 ''ret'',
     op0 ''int3'',
     op1 ''int'' ''Ib'',
     op0 ''into'',
     op0 ''iret'']"

definition x86_opcode_map_one_byte_d0 :: "x86_insn_spec list" where
  "x86_opcode_map_one_byte_d0 =
     [op2f ''modrm_group_2'' X86_INSN_FLAG_MODRM_REG_GROUP_2 ''Eb'' ''1b'',
     op2f ''modrm_group_2'' X86_INSN_FLAG_MODRM_REG_GROUP_2 ''Ev'' ''1b'',
     op2f ''modrm_group_2'' X86_INSN_FLAG_MODRM_REG_GROUP_2 ''Eb'' ''CL'',
     op2f ''modrm_group_2'' X86_INSN_FLAG_MODRM_REG_GROUP_2 ''Ev'' ''CL'',
     op0 ''aam'',
     op0 ''aad'',
     op0 ''salc'',
     op0 ''xlat'',
     op0 ''bad'',
     op0 ''bad'',
     op0 ''bad'',
     op0 ''bad'',
     op0 ''bad'',
     op0 ''bad'',
     op0 ''bad'',
     op0 ''bad'']"

definition x86_opcode_map_one_byte_e0 :: "x86_insn_spec list" where
  "x86_opcode_map_one_byte_e0 =
     [op1 ''loopnz'' ''Jb'',
     op1 ''loopz'' ''Jb'',
     op1 ''loop'' ''Jb'',
     op1 ''jcxz'' ''Jb'',
     op2 ''in'' ''AL'' ''Ib'',
     op2 ''in'' ''AX'' ''Ib'',
     op2 ''out'' ''Ib'' ''AL'',
     op2 ''out'' ''Ib'' ''AX'',
     op1f ''call'' X86_INSN_SPEC_DEFAULT_64_BIT ''Jz'',
     op1f ''jmp'' X86_INSN_SPEC_DEFAULT_64_BIT ''Jz'',
     op1 ''jmp'' ''Ap'',
     op1 ''jmp'' ''Jb'',
     op2 ''in'' ''AL'' ''DX'',
     op2 ''in'' ''AX'' ''DX'',
     op2 ''out'' ''DX'' ''AL'',
     op2 ''out'' ''DX'' ''AX'']"

definition x86_opcode_map_one_byte_f0 :: "x86_insn_spec list" where
  "x86_opcode_map_one_byte_f0 =
     [op0 ''lock'',
     op0 ''int1'',
     op0 ''repne'',
     op0 ''rep'',
     op0 ''hlt'',
     op0 ''cmc'',
     op0f ''modrm_group_3'' X86_INSN_FLAG_MODRM_REG_GROUP_3,
     op0f ''modrm_group_3'' X86_INSN_FLAG_MODRM_REG_GROUP_3,
     op0 ''clc'',
     op0 ''stc'',
     op0 ''cli'',
     op0 ''sti'',
     op0 ''cld'',
     op0 ''std'',
     op1f ''modrm_group_4'' X86_INSN_FLAG_MODRM_REG_GROUP_4 ''Eb'',
     op0f ''modrm_group_5'' X86_INSN_FLAG_MODRM_REG_GROUP_5]"

definition x86_opcode_map_one_byte :: "x86_insn_spec list" where
  "x86_opcode_map_one_byte =
      x86_opcode_map_one_byte_00
      @ x86_opcode_map_one_byte_10
      @ x86_opcode_map_one_byte_20
      @ x86_opcode_map_one_byte_30
      @ x86_opcode_map_one_byte_40
      @ x86_opcode_map_one_byte_50
      @ x86_opcode_map_one_byte_60
      @ x86_opcode_map_one_byte_70
      @ x86_opcode_map_one_byte_80
      @ x86_opcode_map_one_byte_90
      @ x86_opcode_map_one_byte_a0
      @ x86_opcode_map_one_byte_b0
      @ x86_opcode_map_one_byte_c0
      @ x86_opcode_map_one_byte_d0
      @ x86_opcode_map_one_byte_e0
      @ x86_opcode_map_one_byte_f0"

section \<open>Two-byte opcodes\<close>

definition x86_opcode_map_two_byte_00 :: "x86_insn_spec list" where
  "x86_opcode_map_two_byte_00 =
     [op0f ''modrm_group_6'' X86_INSN_FLAG_MODRM_REG_GROUP_6,
     op0f ''modrm_group_7'' X86_INSN_FLAG_MODRM_REG_GROUP_7,
     op2 ''lar'' ''Gv'' ''Ew'',
     op2 ''lsl'' ''Gv'' ''Ew'',
     op0 ''bad'',
     op0 ''syscall'',
     op0 ''clts'',
     op0 ''sysret'',
     op0 ''invd'',
     op0 ''wbinvd'',
     op0 ''bad'',
     op0 ''ud2'',
     op0 ''bad'',
     op0f ''modrm_group_p'' X86_INSN_FLAG_MODRM_REG_GROUP_p,
     op0 ''femms'',
     op0 ''escape_3dnow'']"

definition x86_opcode_map_two_byte_10 :: "x86_insn_spec list" where
  "x86_opcode_map_two_byte_10 =
     [op2f ''movups'' X86_INSN_FLAG_SSE_GROUP_10 ''Gx'' ''Ex'',
     op2f ''movups'' X86_INSN_FLAG_SSE_GROUP_10 ''Ex'' ''Gx'',
     op2f ''movlps'' X86_INSN_FLAG_SSE_GROUP_10 ''Ex'' ''Gx'',
     op2f ''movlps'' X86_INSN_FLAG_SSE_GROUP_10 ''Gx'' ''Ex'',
     op2f ''unpcklps'' X86_INSN_FLAG_SSE_GROUP_10 ''Gx'' ''Ex'',
     op2f ''unpckhps'' X86_INSN_FLAG_SSE_GROUP_10 ''Gx'' ''Ex'',
     op2f ''movhps'' X86_INSN_FLAG_SSE_GROUP_10 ''Ex'' ''Gx'',
     op2f ''movhps'' X86_INSN_FLAG_SSE_GROUP_10 ''Gx'' ''Ex'',
     op0f ''modrm_group_16'' X86_INSN_FLAG_MODRM_REG_GROUP_16,
     op0 ''nop'',
     op0 ''nop'',
     op0 ''nop'',
     op0 ''nop'',
     op0 ''nop'',
     op0 ''nop'',
     op0 ''nop'']"

definition x86_opcode_map_two_byte_20 :: "x86_insn_spec list" where
  "x86_opcode_map_two_byte_20 =
     [op2 ''mov'' ''Rv'' ''Cv'',
     op2 ''mov'' ''Rv'' ''Dv'',
     op2 ''mov'' ''Cv'' ''Rv'',
     op2 ''mov'' ''Dv'' ''Rv'',
     op0 ''bad'',
     op0 ''bad'',
     op0 ''bad'',
     op0 ''bad'',
     op2f ''movaps'' X86_INSN_FLAG_SSE_GROUP_28 ''Gx'' ''Ex'',
     op2f ''movaps'' X86_INSN_FLAG_SSE_GROUP_28 ''Ex'' ''Gx'',
     op2f ''cvtpi2ps'' X86_INSN_FLAG_SSE_GROUP_28 ''Gx'' ''Ex'',
     op2f ''movntps'' X86_INSN_FLAG_SSE_GROUP_28 ''Mx'' ''Gx'',
     op2f ''cvttps2pi'' X86_INSN_FLAG_SSE_GROUP_28 ''Gx'' ''Ex'',
     op2f ''cvtps2pi'' X86_INSN_FLAG_SSE_GROUP_28 ''Gx'' ''Ex'',
     op2f ''ucomiss'' X86_INSN_FLAG_SSE_GROUP_28 ''Gx'' ''Ex'',
     op2f ''comiss'' X86_INSN_FLAG_SSE_GROUP_28 ''Gx'' ''Ex'']"

definition x86_opcode_map_two_byte_30 :: "x86_insn_spec list" where
  "x86_opcode_map_two_byte_30 =
     [op0 ''wrmsr'',
     op0 ''rdtsc'',
     op0 ''rdmsr'',
     op0 ''rdpmc'',
     op0 ''sysenter'',
     op0 ''sysexit'',
     op0 ''bad'',
     op0 ''bad'',
     op0 ''bad'',
     op0 ''bad'',
     op0 ''bad'',
     op0 ''bad'',
     op0 ''bad'',
     op0 ''bad'',
     op0 ''bad'',
     op0 ''bad'']"

definition x86_opcode_map_two_byte_40 :: "x86_insn_spec list" where
  "x86_opcode_map_two_byte_40 =
     map (\<lambda>x. op2 (''cmov'' @ x) ''Gv'' ''Ev'') foreach_x86_condition"

definition x86_opcode_map_two_byte_50 :: "x86_insn_spec list" where
  "x86_opcode_map_two_byte_50 =
     [op2f ''movmskps'' X86_INSN_FLAG_SSE_GROUP_50 ''Gd'' ''Rx'',
     op2f ''sqrtps'' X86_INSN_FLAG_SSE_GROUP_50 ''Gx'' ''Ex'',
     op2f ''rsqrtps'' X86_INSN_FLAG_SSE_GROUP_50 ''Gx'' ''Ex'',
     op2f ''rcpps'' X86_INSN_FLAG_SSE_GROUP_50 ''Gx'' ''Ex'',
     op2f ''andps'' X86_INSN_FLAG_SSE_GROUP_50 ''Gx'' ''Ex'',
     op2f ''andnps'' X86_INSN_FLAG_SSE_GROUP_50 ''Gx'' ''Ex'',
     op2f ''orps'' X86_INSN_FLAG_SSE_GROUP_50 ''Gx'' ''Ex'',
     op2f ''xorps'' X86_INSN_FLAG_SSE_GROUP_50 ''Gx'' ''Ex'',
     op2f ''addps'' X86_INSN_FLAG_SSE_GROUP_58 ''Gx'' ''Ex'',
     op2f ''mulps'' X86_INSN_FLAG_SSE_GROUP_58 ''Gx'' ''Ex'',
     op2f ''cvtps2pd'' X86_INSN_FLAG_SSE_GROUP_58 ''Gx'' ''Ex'',
     op2f ''cvtdq2ps'' X86_INSN_FLAG_SSE_GROUP_58 ''Gx'' ''Ex'',
     op2f ''subps'' X86_INSN_FLAG_SSE_GROUP_58 ''Gx'' ''Ex'',
     op2f ''minps'' X86_INSN_FLAG_SSE_GROUP_58 ''Gx'' ''Ex'',
     op2f ''divps'' X86_INSN_FLAG_SSE_GROUP_58 ''Gx'' ''Ex'',
     op2f ''maxps'' X86_INSN_FLAG_SSE_GROUP_58 ''Gx'' ''Ex'']"

definition x86_opcode_map_two_byte_60 :: "x86_insn_spec list" where
  "x86_opcode_map_two_byte_60 =
     [op2f ''punpcklbw'' X86_INSN_FLAG_SSE_GROUP_60 ''Gm'' ''Em'',
     op2f ''punpcklwd'' X86_INSN_FLAG_SSE_GROUP_60 ''Gm'' ''Em'',
     op2f ''punpckldq'' X86_INSN_FLAG_SSE_GROUP_60 ''Gm'' ''Em'',
     op2f ''packsswb'' X86_INSN_FLAG_SSE_GROUP_60 ''Gm'' ''Em'',
     op2f ''pcmpgtb'' X86_INSN_FLAG_SSE_GROUP_60 ''Gm'' ''Em'',
     op2f ''pcmpgtw'' X86_INSN_FLAG_SSE_GROUP_60 ''Gm'' ''Em'',
     op2f ''pcmpgtd'' X86_INSN_FLAG_SSE_GROUP_60 ''Gm'' ''Em'',
     op2f ''packuswb'' X86_INSN_FLAG_SSE_GROUP_60 ''Gm'' ''Em'',
     op2f ''punpckhbw'' X86_INSN_FLAG_SSE_GROUP_68 ''Gm'' ''Em'',
     op2f ''punpckhwd'' X86_INSN_FLAG_SSE_GROUP_68 ''Gm'' ''Em'',
     op2f ''punpckhdq'' X86_INSN_FLAG_SSE_GROUP_68 ''Gm'' ''Em'',
     op2f ''packssdw'' X86_INSN_FLAG_SSE_GROUP_68 ''Gm'' ''Em'',
     op0f ''bad'' X86_INSN_FLAG_SSE_GROUP_68,
     op0f ''bad'' X86_INSN_FLAG_SSE_GROUP_68,
     op2f ''movd'' X86_INSN_FLAG_SSE_GROUP_68 ''Gm'' ''Em'',
     op2f ''movq'' X86_INSN_FLAG_SSE_GROUP_68 ''Gm'' ''Em'']"

definition x86_opcode_map_two_byte_70 :: "x86_insn_spec list" where
  "x86_opcode_map_two_byte_70 =
     [op3f ''pshufw'' X86_INSN_FLAG_SSE_GROUP_70 ''Gm'' ''Em'' ''Ib'',
     op0f ''modrm_group_12'' X86_INSN_FLAG_MODRM_REG_GROUP_12,
     op0f ''modrm_group_13'' X86_INSN_FLAG_MODRM_REG_GROUP_13,
     op0f ''modrm_group_14'' X86_INSN_FLAG_MODRM_REG_GROUP_14,
     op2f ''pcmpeqb'' X86_INSN_FLAG_SSE_GROUP_70 ''Gm'' ''Em'',
     op2f ''pcmpeqw'' X86_INSN_FLAG_SSE_GROUP_70 ''Gm'' ''Em'',
     op2f ''pcmpeqd'' X86_INSN_FLAG_SSE_GROUP_70 ''Gm'' ''Em'',
     op0f ''emms'' X86_INSN_FLAG_SSE_GROUP_70,
     op0f ''bad'' X86_INSN_FLAG_SSE_GROUP_78,
     op0f ''bad'' X86_INSN_FLAG_SSE_GROUP_78,
     op0f ''bad'' X86_INSN_FLAG_SSE_GROUP_78,
     op0f ''bad'' X86_INSN_FLAG_SSE_GROUP_78,
     op0f ''bad'' X86_INSN_FLAG_SSE_GROUP_78,
     op0f ''bad'' X86_INSN_FLAG_SSE_GROUP_78,
     op2f ''movd'' X86_INSN_FLAG_SSE_GROUP_78 ''Em'' ''Gm'',
     op2f ''movq'' X86_INSN_FLAG_SSE_GROUP_78 ''Em'' ''Gm'']"

definition x86_opcode_map_two_byte_80 :: "x86_insn_spec list" where
  "x86_opcode_map_two_byte_80 =
     map (\<lambda>x. op1 (''jmp'' @ x) ''Jz'') foreach_x86_condition"

definition x86_opcode_map_two_byte_90 :: "x86_insn_spec list" where
  "x86_opcode_map_two_byte_90 =
     map (\<lambda>x. op1 (''set'' @ x) ''Eb'') foreach_x86_condition"

definition x86_opcode_map_two_byte_a0 :: "x86_insn_spec list" where
  "x86_opcode_map_two_byte_a0 =
     [op0 ''push_fs'',
     op0 ''pop_fs'',
     op0 ''cpuid'',
     op2 ''bt'' ''Ev'' ''Gv'',
     op3 ''shld'' ''Ev'' ''Gv'' ''Ib'',
     op3 ''shld'' ''Ev'' ''Gv'' ''CL'',
     op0 ''bad'',
     op0 ''bad'',
     op0 ''push_gs'',
     op0 ''pop_gs'',
     op0 ''rsm'',
     op2 ''bts'' ''Ev'' ''Gv'',
     op3 ''shrd'' ''Ev'' ''Gv'' ''Ib'',
     op3 ''shrd'' ''Ev'' ''Gv'' ''CL'',
     op0f ''modrm_group_15'' X86_INSN_FLAG_MODRM_REG_GROUP_15,
     op2 ''imul'' ''Gv'' ''Ev'']"

definition x86_opcode_map_two_byte_b0 :: "x86_insn_spec list" where
  "x86_opcode_map_two_byte_b0 =
     [op2 ''cmpxchg'' ''Eb'' ''Gb'',
     op2 ''cmpxchg'' ''Ev'' ''Gv'',
     op2 ''lss'' ''Gz'' ''Mp'',
     op2 ''btr'' ''Ev'' ''Gv'',
     op2 ''lfs'' ''Gz'' ''Mp'',
     op2 ''lgs'' ''Gz'' ''Mp'',
     op2 ''movzbl'' ''Gv'' ''Eb'',
     op2 ''movzwl'' ''Gv'' ''Ew'',
     op0 ''bad'',
     op0f ''modrm_group_10'' X86_INSN_FLAG_MODRM_REG_GROUP_10,
     op2f ''modrm_group_8'' X86_INSN_FLAG_MODRM_REG_GROUP_8 ''Ev'' ''Ib'',
     op2 ''btc'' ''Ev'' ''Gv'',
     op2 ''bsf'' ''Gv'' ''Ev'',
     op2 ''bsr'' ''Gv'' ''Ev'',
     op2 ''movsx'' ''Gv'' ''Eb'',
     op2 ''movsx'' ''Gv'' ''Ew'']"

definition x86_opcode_map_two_byte_c0 :: "x86_insn_spec list" where
  "x86_opcode_map_two_byte_c0 =
     [op2 ''xadd'' ''Eb'' ''Gb'',
     op2 ''xadd'' ''Ev'' ''Gv'',
     op3f ''cmpps'' X86_INSN_FLAG_SSE_GROUP_c0 ''Gx'' ''Ex'' ''Ib'',
     op2 ''movnti'' ''Mv'' ''Gv'',
     op3f ''pinsrw'' X86_INSN_FLAG_SSE_GROUP_c0 ''Gm'' ''Ew'' ''Ib'',
     op3f ''pextrw'' X86_INSN_FLAG_SSE_GROUP_c0 ''Gd'' ''Rm'' ''Ib'',
     op3f ''shufps'' X86_INSN_FLAG_SSE_GROUP_c0 ''Gx'' ''Ex'' ''Ib'',
     op1f ''modrm_group_9'' X86_INSN_FLAG_MODRM_REG_GROUP_9 ''Mx'']
     @ map (\<lambda>x. op1 ''bswap'' x) foreach_x86_gp_reg"

definition x86_opcode_map_two_byte_d0 :: "x86_insn_spec list" where
  "x86_opcode_map_two_byte_d0 =
     [op0f ''bad'' X86_INSN_FLAG_SSE_GROUP_d0,
     op2f ''psrlw'' X86_INSN_FLAG_SSE_GROUP_d0 ''Gm'' ''Em'',
     op2f ''psrld'' X86_INSN_FLAG_SSE_GROUP_d0 ''Gm'' ''Em'',
     op2f ''psrlq'' X86_INSN_FLAG_SSE_GROUP_d0 ''Gm'' ''Em'',
     op2f ''paddq'' X86_INSN_FLAG_SSE_GROUP_d0 ''Gm'' ''Em'',
     op2f ''pmullw'' X86_INSN_FLAG_SSE_GROUP_d0 ''Gm'' ''Em'',
     op0f ''bad'' X86_INSN_FLAG_SSE_GROUP_d0,
     op2f ''pmovmskb'' X86_INSN_FLAG_SSE_GROUP_d0 ''Gd'' ''Rm'',
     op2f ''psubusb'' X86_INSN_FLAG_SSE_GROUP_d8 ''Gm'' ''Em'',
     op2f ''psubusw'' X86_INSN_FLAG_SSE_GROUP_d8 ''Gm'' ''Em'',
     op2f ''pminub'' X86_INSN_FLAG_SSE_GROUP_d8 ''Gm'' ''Em'',
     op2f ''pand'' X86_INSN_FLAG_SSE_GROUP_d8 ''Gm'' ''Em'',
     op2f ''paddusb'' X86_INSN_FLAG_SSE_GROUP_d8 ''Gm'' ''Em'',
     op2f ''paddusw'' X86_INSN_FLAG_SSE_GROUP_d8 ''Gm'' ''Em'',
     op2f ''pmaxub'' X86_INSN_FLAG_SSE_GROUP_d8 ''Gm'' ''Em'',
     op2f ''pandn'' X86_INSN_FLAG_SSE_GROUP_d8 ''Gm'' ''Em'']"

definition x86_opcode_map_two_byte_e0 :: "x86_insn_spec list" where
  "x86_opcode_map_two_byte_e0 =
     [op2f ''pavgb'' X86_INSN_FLAG_SSE_GROUP_e0 ''Gm'' ''Em'',
     op2f ''psraw'' X86_INSN_FLAG_SSE_GROUP_e0 ''Gm'' ''Em'',
     op2f ''psrad'' X86_INSN_FLAG_SSE_GROUP_e0 ''Gm'' ''Em'',
     op2f ''pavgw'' X86_INSN_FLAG_SSE_GROUP_e0 ''Gm'' ''Em'',
     op2f ''pmulhuw'' X86_INSN_FLAG_SSE_GROUP_e0 ''Gm'' ''Em'',
     op2f ''pmulhw'' X86_INSN_FLAG_SSE_GROUP_e0 ''Gm'' ''Em'',
     op2f ''bad'' X86_INSN_FLAG_SSE_GROUP_e0 ''Gm'' ''Em'',
     op2f ''movntq'' X86_INSN_FLAG_SSE_GROUP_e0 ''Mm'' ''Gm'',
     op2f ''psubsb'' X86_INSN_FLAG_SSE_GROUP_e8 ''Gm'' ''Em'',
     op2f ''psubsw'' X86_INSN_FLAG_SSE_GROUP_e8 ''Gm'' ''Em'',
     op2f ''pminsw'' X86_INSN_FLAG_SSE_GROUP_e8 ''Gm'' ''Em'',
     op2f ''por'' X86_INSN_FLAG_SSE_GROUP_e8 ''Gm'' ''Em'',
     op2f ''paddsb'' X86_INSN_FLAG_SSE_GROUP_e8 ''Gm'' ''Em'',
     op2f ''paddsw'' X86_INSN_FLAG_SSE_GROUP_e8 ''Gm'' ''Em'',
     op2f ''pmaxsw'' X86_INSN_FLAG_SSE_GROUP_e8 ''Gm'' ''Em'',
     op2f ''pxor'' X86_INSN_FLAG_SSE_GROUP_e8 ''Gm'' ''Em'']"

definition x86_opcode_map_two_byte_f0 :: "x86_insn_spec list" where
  "x86_opcode_map_two_byte_f0 =
     [op0f ''bad'' X86_INSN_FLAG_SSE_GROUP_f0,
     op2f ''psllw'' X86_INSN_FLAG_SSE_GROUP_f0 ''Gm'' ''Em'',
     op2f ''pslld'' X86_INSN_FLAG_SSE_GROUP_f0 ''Gm'' ''Em'',
     op2f ''psllq'' X86_INSN_FLAG_SSE_GROUP_f0 ''Gm'' ''Em'',
     op2f ''pmuludq'' X86_INSN_FLAG_SSE_GROUP_f0 ''Gm'' ''Em'',
     op2f ''pmaddwd'' X86_INSN_FLAG_SSE_GROUP_f0 ''Gm'' ''Em'',
     op2f ''psadbw'' X86_INSN_FLAG_SSE_GROUP_f0 ''Gm'' ''Em'',
     op2f ''maskmovq'' X86_INSN_FLAG_SSE_GROUP_f0 ''Gm'' ''Em'',
     op2f ''psubb'' X86_INSN_FLAG_SSE_GROUP_f8 ''Gm'' ''Em'',
     op2f ''psubw'' X86_INSN_FLAG_SSE_GROUP_f8 ''Gm'' ''Em'',
     op2f ''psubd'' X86_INSN_FLAG_SSE_GROUP_f8 ''Gm'' ''Em'',
     op2f ''psubq'' X86_INSN_FLAG_SSE_GROUP_f8 ''Gm'' ''Em'',
     op2f ''paddb'' X86_INSN_FLAG_SSE_GROUP_f8 ''Gm'' ''Em'',
     op2f ''paddw'' X86_INSN_FLAG_SSE_GROUP_f8 ''Gm'' ''Em'',
     op2f ''paddd'' X86_INSN_FLAG_SSE_GROUP_f8 ''Gm'' ''Em'',
     op0f ''bad'' X86_INSN_FLAG_SSE_GROUP_f8]"

definition x86_opcode_map_two_byte :: "x86_insn_spec list" where
  "x86_opcode_map_two_byte =
      x86_opcode_map_two_byte_00
      @ x86_opcode_map_two_byte_10
      @ x86_opcode_map_two_byte_20
      @ x86_opcode_map_two_byte_30
      @ x86_opcode_map_two_byte_40
      @ x86_opcode_map_two_byte_50
      @ x86_opcode_map_two_byte_60
      @ x86_opcode_map_two_byte_70
      @ x86_opcode_map_two_byte_80
      @ x86_opcode_map_two_byte_90
      @ x86_opcode_map_two_byte_a0
      @ x86_opcode_map_two_byte_b0
      @ x86_opcode_map_two_byte_c0
      @ x86_opcode_map_two_byte_d0
      @ x86_opcode_map_two_byte_e0
      @ x86_opcode_map_two_byte_f0"

section \<open>ModR/M groups\<close>

definition x86_insn_modrm_reg_groups_1 :: x86_insn_group8 where
  "x86_insn_modrm_reg_groups_1 =
    [op0 ''add'',
     op0 ''or'',
     op0 ''adc'',
     op0 ''sbb'',
     op0 ''and'',
     op0 ''sub'',
     op0 ''xor'',
     op0 ''cmp'']"

definition x86_insn_modrm_reg_groups_1a :: x86_insn_group8 where
  "x86_insn_modrm_reg_groups_1a =
    [op0f ''pop'' X86_INSN_SPEC_DEFAULT_64_BIT,
     op0 ''bad'',
     op0 ''bad'',
     op0 ''bad'',
     op0 ''bad'',
     op0 ''bad'',
     op0 ''bad'',
     op0 ''bad'']"

definition x86_insn_modrm_reg_groups_2 :: x86_insn_group8 where
  "x86_insn_modrm_reg_groups_2 =
    [op0 ''rol'',
     op0 ''ror'',
     op0 ''rcl'',
     op0 ''rcr'',
     op0 ''shl'',
     op0 ''shr'',
     op0 ''sal'',
     op0 ''sar'']"

definition x86_insn_modrm_reg_groups_3 :: x86_insn_group8 where
  "x86_insn_modrm_reg_groups_3 =
    [op0 ''test'',
     op0 ''test'',
     op0 ''not'',
     op0 ''neg'',
     op0 ''mul'',
     op0 ''imul'',
     op0 ''div'',
     op0 ''idiv'']"

definition x86_insn_modrm_reg_groups_4 :: x86_insn_group8 where
  "x86_insn_modrm_reg_groups_4 =
    [op0 ''inc'',
     op0 ''dec'',
     op0 ''bad'',
     op0 ''bad'',
     op0 ''bad'',
     op0 ''bad'',
     op0 ''bad'',
     op0 ''bad'']"

definition x86_insn_modrm_reg_groups_5 :: x86_insn_group8 where
  "x86_insn_modrm_reg_groups_5 =
    [op1 ''inc'' ''Ev'',
     op1 ''dec'' ''Ev'',
     op1f ''call'' X86_INSN_SPEC_DEFAULT_64_BIT ''Ev'',
     op1 ''call'' ''Mp'',
     op1f ''jmp'' X86_INSN_SPEC_DEFAULT_64_BIT ''Ev'',
     op1 ''jmp'' ''Mp'',
     op1f ''push'' X86_INSN_SPEC_DEFAULT_64_BIT ''Ev'',
     op0 ''bad'']"

definition x86_insn_modrm_reg_groups_6 :: x86_insn_group8 where
  "x86_insn_modrm_reg_groups_6 =
    [op1 ''sldt'' ''Ev'',
     op1 ''str'' ''Ev'',
     op1 ''lldt'' ''Ev'',
     op1 ''ltr'' ''Ev'',
     op1 ''verr'' ''Ev'',
     op1 ''verw'' ''Ev'',
     op0 ''bad'',
     op0 ''bad'']"

definition x86_insn_modrm_reg_groups_7 :: x86_insn_group8 where
  "x86_insn_modrm_reg_groups_7 =
    [op1 ''sgdt'' ''Mv'',
     op1 ''sidt'' ''Mv'',
     op1 ''lgdt'' ''Mv'',
     op1 ''lidt'' ''Mv'',
     op1 ''smsw'' ''Ev'',
     op0 ''bad'',
     op1 ''lmsw'' ''Ew'',
     op1 ''invlpg'' ''Mv'']"

definition x86_insn_modrm_reg_groups_8 :: x86_insn_group8 where
  "x86_insn_modrm_reg_groups_8 =
    [op0 ''bad'',
     op0 ''bad'',
     op0 ''bad'',
     op0 ''bad'',
     op2 ''bt'' ''Ev'' ''Ib'',
     op2 ''bts'' ''Ev'' ''Ib'',
     op2 ''btr'' ''Ev'' ''Ib'',
     op2 ''btc'' ''Ev'' ''Ib'']"

definition x86_insn_modrm_reg_groups_9 :: x86_insn_group8 where
  "x86_insn_modrm_reg_groups_9 =
    [op0 ''bad'',
     op1 ''cmpxchg'' ''Mx'',
     op0 ''bad'',
     op0 ''bad'',
     op0 ''bad'',
     op0 ''bad'',
     op0 ''bad'',
     op0 ''bad'']"

definition x86_insn_modrm_reg_groups_10 :: x86_insn_group8 where
  "x86_insn_modrm_reg_groups_10 =
    [op0 ''bad'',
     op0 ''bad'',
     op0 ''bad'',
     op0 ''bad'',
     op0 ''bad'',
     op0 ''bad'',
     op0 ''bad'',
     op0 ''bad'']"

definition x86_insn_modrm_reg_groups_11 :: x86_insn_group8 where
  "x86_insn_modrm_reg_groups_11 =
    [op0 ''mov'',
     op0 ''bad'',
     op0 ''bad'',
     op0 ''bad'',
     op0 ''bad'',
     op0 ''bad'',
     op0 ''bad'',
     op0 ''bad'']"

definition x86_insn_modrm_reg_groups_12 :: x86_insn_group8 where
  "x86_insn_modrm_reg_groups_12 =
    [op0 ''bad'',
     op0 ''bad'',
     op2 ''psrlw'' ''Rm'' ''Ib'',
     op0 ''bad'',
     op2 ''psraw'' ''Rm'' ''Ib'',
     op0 ''bad'',
     op2 ''psllw'' ''Rm'' ''Ib'',
     op0 ''bad'']"

definition x86_insn_modrm_reg_groups_13 :: x86_insn_group8 where
  "x86_insn_modrm_reg_groups_13 =
    [op0 ''bad'',
     op0 ''bad'',
     op2 ''psrld'' ''Rm'' ''Ib'',
     op0 ''bad'',
     op2 ''psrad'' ''Rm'' ''Ib'',
     op0 ''bad'',
     op2 ''pslld'' ''Rm'' ''Ib'',
     op0 ''bad'']"

definition x86_insn_modrm_reg_groups_14 :: x86_insn_group8 where
  "x86_insn_modrm_reg_groups_14 =
    [op0 ''bad'',
     op0 ''bad'',
     op2 ''psrlq'' ''Rm'' ''Ib'',
     op0 ''bad'',
     op0 ''bad'',
     op0 ''bad'',
     op2 ''psllq'' ''Rm'' ''Ib'',
     op0 ''bad'']"

definition x86_insn_modrm_reg_groups_15 :: x86_insn_group8 where
  "x86_insn_modrm_reg_groups_15 =
    [op1 ''fxsave'' ''Mv'',
     op1 ''fxrstor'' ''Mv'',
     op1 ''ldmxcsr'' ''Mv'',
     op1 ''stmxcsr'' ''Mv'',
     op0 ''bad'',
     op1 ''lfence'' ''Mv'',
     op1 ''mfence'' ''Mv'',
     op1 ''sfence'' ''Mv'']"

definition x86_insn_modrm_reg_groups_16 :: x86_insn_group8 where
  "x86_insn_modrm_reg_groups_16 =
    [op1 ''prefetch_nta'' ''Mv'',
     op1 ''prefetch_t0'' ''Mv'',
     op1 ''prefetch_t1'' ''Mv'',
     op1 ''prefetch_t2'' ''Mv'',
     op1 ''prefetch_nop'' ''Mv'',
     op1 ''prefetch_nop'' ''Mv'',
     op1 ''prefetch_nop'' ''Mv'',
     op1 ''prefetch_nop'' ''Mv'']"

definition x86_insn_modrm_reg_groups_p :: x86_insn_group8 where
  "x86_insn_modrm_reg_groups_p =
    [op1 ''prefetch_exclusive'' ''Mv'',
     op1 ''prefetch_modified'' ''Mv'',
     op1 ''prefetch_nop'' ''Mv'',
     op1 ''prefetch_modified'' ''Mv'',
     op1 ''prefetch_nop'' ''Mv'',
     op1 ''prefetch_nop'' ''Mv'',
     op1 ''prefetch_nop'' ''Mv'',
     op1 ''prefetch_nop'' ''Mv'']"

text \<open>Designated initialisers start at index 1, so entry 0 is a group of zeroed specifications.\<close>

definition zero_group :: x86_insn_group8 where
  "zero_group = replicate 8 zero_spec"

definition x86_insn_modrm_reg_groups :: "x86_insn_group8 list" where
  "x86_insn_modrm_reg_groups =
     [zero_group,
      x86_insn_modrm_reg_groups_1,
      x86_insn_modrm_reg_groups_1a,
      x86_insn_modrm_reg_groups_2,
      x86_insn_modrm_reg_groups_3,
      x86_insn_modrm_reg_groups_4,
      x86_insn_modrm_reg_groups_5,
      x86_insn_modrm_reg_groups_6,
      x86_insn_modrm_reg_groups_7,
      x86_insn_modrm_reg_groups_8,
      x86_insn_modrm_reg_groups_9,
      x86_insn_modrm_reg_groups_10,
      x86_insn_modrm_reg_groups_11,
      x86_insn_modrm_reg_groups_12,
      x86_insn_modrm_reg_groups_13,
      x86_insn_modrm_reg_groups_14,
      x86_insn_modrm_reg_groups_15,
      x86_insn_modrm_reg_groups_16,
      x86_insn_modrm_reg_groups_p]"

section \<open>SSE groups\<close>

definition x86_insn_sse_groups_repz_10 :: x86_insn_group8 where
  "x86_insn_sse_groups_repz_10 =
    [op2 ''movss'' ''Gx'' ''Ex'',
     op2 ''movss'' ''Ex'' ''Gx'',
     op2 ''movsldup'' ''Gx'' ''Ex'',
     op0 ''bad'',
     op0 ''bad'',
     op0 ''bad'',
     op2 ''movshdup'' ''Gx'' ''Ex'',
     op0 ''bad'']"

definition x86_insn_sse_groups_repz_28 :: x86_insn_group8 where
  "x86_insn_sse_groups_repz_28 =
    [op0 ''bad'',
     op0 ''bad'',
     op2 ''cvtsi2ss'' ''Gx'' ''Ev'',
     op0 ''bad'',
     op2 ''cvttss2si'' ''Gv'' ''Ex'',
     op2 ''cvtss2si'' ''Gv'' ''Ex'',
     op0 ''bad'',
     op0 ''bad'']"

definition x86_insn_sse_groups_repz_50 :: x86_insn_group8 where
  "x86_insn_sse_groups_repz_50 =
    [op0 ''bad'',
     op2 ''sqrtss'' ''Gx'' ''Ex'',
     op2 ''rsqrtps'' ''Gx'' ''Ex'',
     op2 ''rcpss'' ''Gx'' ''Ex'',
     op0 ''bad'',
     op0 ''bad'',
     op0 ''bad'',
     op0 ''bad'']"

definition x86_insn_sse_groups_repz_58 :: x86_insn_group8 where
  "x86_insn_sse_groups_repz_58 =
    [op2 ''addss'' ''Gx'' ''Ex'',
     op2 ''mulss'' ''Gx'' ''Ex'',
     op2 ''cvtss2sd'' ''Gx'' ''Ex'',
     op2 ''cvttps2dq'' ''Gx'' ''Ex'',
     op2 ''subss'' ''Gx'' ''Ex'',
     op2 ''minss'' ''Gx'' ''Ex'',
     op2 ''divss'' ''Gx'' ''Ex'',
     op2 ''maxss'' ''Gx'' ''Ex'']"

definition x86_insn_sse_groups_repz_60 :: x86_insn_group8 where
  "x86_insn_sse_groups_repz_60 =
    [op0 ''bad'',
     op0 ''bad'',
     op0 ''bad'',
     op0 ''bad'',
     op0 ''bad'',
     op0 ''bad'',
     op0 ''bad'',
     op0 ''bad'']"

definition x86_insn_sse_groups_repz_68 :: x86_insn_group8 where
  "x86_insn_sse_groups_repz_68 =
    [op0 ''bad'',
     op0 ''bad'',
     op0 ''bad'',
     op0 ''bad'',
     op0 ''bad'',
     op0 ''bad'',
     op0 ''bad'',
     op2 ''movdqu'' ''Gx'' ''Ex'']"

definition x86_insn_sse_groups_repz_70 :: x86_insn_group8 where
  "x86_insn_sse_groups_repz_70 =
    [op3 ''pshufhw'' ''Gx'' ''Ex'' ''Ib'',
     op0 ''bad'',
     op0 ''bad'',
     op0 ''bad'',
     op0 ''bad'',
     op0 ''bad'',
     op0 ''bad'',
     op0 ''bad'']"

definition x86_insn_sse_groups_repz_78 :: x86_insn_group8 where
  "x86_insn_sse_groups_repz_78 =
    [op0 ''bad'',
     op0 ''bad'',
     op0 ''bad'',
     op0 ''bad'',
     op0 ''bad'',
     op0 ''bad'',
     op2 ''movq'' ''Gx'' ''Ex'',
     op2 ''movdqu'' ''Ex'' ''Gx'']"

definition x86_insn_sse_groups_repz_c0 :: x86_insn_group8 where
  "x86_insn_sse_groups_repz_c0 =
    [op0 ''bad'',
     op0 ''bad'',
     op3 ''cmpss'' ''Gx'' ''Ex'' ''Ib'',
     op0 ''bad'',
     op0 ''bad'',
     op0 ''bad'',
     op0 ''bad'',
     op0 ''bad'']"

definition x86_insn_sse_groups_repz_d0 :: x86_insn_group8 where
  "x86_insn_sse_groups_repz_d0 =
    [op0 ''bad'',
     op0 ''bad'',
     op0 ''bad'',
     op0 ''bad'',
     op0 ''bad'',
     op0 ''bad'',
     op2 ''movq2dq'' ''Gx'' ''Em'',
     op0 ''bad'']"

definition x86_insn_sse_groups_repz_d8 :: x86_insn_group8 where
  "x86_insn_sse_groups_repz_d8 =
    [op0 ''bad'',
     op0 ''bad'',
     op0 ''bad'',
     op0 ''bad'',
     op0 ''bad'',
     op0 ''bad'',
     op0 ''bad'',
     op0 ''bad'']"

definition x86_insn_sse_groups_repz_e0 :: x86_insn_group8 where
  "x86_insn_sse_groups_repz_e0 =
    [op0 ''bad'',
     op0 ''bad'',
     op0 ''bad'',
     op0 ''bad'',
     op0 ''bad'',
     op0 ''bad'',
     op2 ''cvtdq2pd'' ''Gx'' ''Ex'',
     op0 ''bad'']"

definition x86_insn_sse_groups_repz_e8 :: x86_insn_group8 where
  "x86_insn_sse_groups_repz_e8 =
    [op0 ''bad'',
     op0 ''bad'',
     op0 ''bad'',
     op0 ''bad'',
     op0 ''bad'',
     op0 ''bad'',
     op0 ''bad'',
     op0 ''bad'']"

definition x86_insn_sse_groups_repz_f0 :: x86_insn_group8 where
  "x86_insn_sse_groups_repz_f0 =
    [op0 ''bad'',
     op0 ''bad'',
     op0 ''bad'',
     op0 ''bad'',
     op0 ''bad'',
     op0 ''bad'',
     op0 ''bad'',
     op0 ''bad'']"

definition x86_insn_sse_groups_repz_f8 :: x86_insn_group8 where
  "x86_insn_sse_groups_repz_f8 =
    [op0 ''bad'',
     op0 ''bad'',
     op0 ''bad'',
     op0 ''bad'',
     op0 ''bad'',
     op0 ''bad'',
     op0 ''bad'',
     op0 ''bad'']"

definition x86_insn_sse_groups_operand_size_10 :: x86_insn_group8 where
  "x86_insn_sse_groups_operand_size_10 =
    [op2 ''movupd'' ''Gx'' ''Ex'',
     op2 ''movupd'' ''Ex'' ''Gx'',
     op2 ''movlpd'' ''Gx'' ''Ex'',
     op2 ''movlpd'' ''Ex'' ''Gx'',
     op2 ''unpcklpd'' ''Gx'' ''Ex'',
     op2 ''unpckhpd'' ''Gx'' ''Ex'',
     op2 ''movhpd'' ''Gx'' ''Mx'',
     op2 ''movhpd'' ''Mx'' ''Gx'']"

definition x86_insn_sse_groups_operand_size_28 :: x86_insn_group8 where
  "x86_insn_sse_groups_operand_size_28 =
    [op2 ''movapd'' ''Gx'' ''Ex'',
     op2 ''movapd'' ''Ex'' ''Gx'',
     op2 ''cvtpi2pd'' ''Gx'' ''Ex'',
     op2 ''movntpd'' ''Mx'' ''Gx'',
     op2 ''cvttpd2pi'' ''Gx'' ''Mx'',
     op2 ''cvtpd2pi'' ''Gx'' ''Mx'',
     op2 ''ucomisd'' ''Gx'' ''Ex'',
     op2 ''comisd'' ''Gx'' ''Ex'']"

definition x86_insn_sse_groups_operand_size_50 :: x86_insn_group8 where
  "x86_insn_sse_groups_operand_size_50 =
    [op2 ''movmskpd'' ''Gd'' ''Rx'',
     op2 ''sqrtpd'' ''Gx'' ''Ex'',
     op0 ''bad'',
     op0 ''bad'',
     op2 ''andpd'' ''Gx'' ''Ex'',
     op2 ''andnpd'' ''Gx'' ''Ex'',
     op2 ''orpd'' ''Gx'' ''Ex'',
     op2 ''xorpd'' ''Gx'' ''Ex'']"

definition x86_insn_sse_groups_operand_size_58 :: x86_insn_group8 where
  "x86_insn_sse_groups_operand_size_58 =
    [op2 ''addpd'' ''Gx'' ''Ex'',
     op2 ''mulpd'' ''Gx'' ''Ex'',
     op2 ''cvtpd2ps'' ''Gx'' ''Ex'',
     op2 ''cvtps2dq'' ''Gx'' ''Ex'',
     op2 ''subpd'' ''Gx'' ''Ex'',
     op2 ''minpd'' ''Gx'' ''Ex'',
     op2 ''divpd'' ''Gx'' ''Ex'',
     op2 ''maxpd'' ''Gx'' ''Ex'']"

definition x86_insn_sse_groups_operand_size_60 :: x86_insn_group8 where
  "x86_insn_sse_groups_operand_size_60 =
    [op2 ''punpcklbw'' ''Gx'' ''Ex'',
     op2 ''punpcklwd'' ''Gx'' ''Ex'',
     op2 ''punpckldq'' ''Gx'' ''Ex'',
     op2 ''packsswb'' ''Gx'' ''Ex'',
     op2 ''pcmpgtb'' ''Gx'' ''Ex'',
     op2 ''pcmpgtw'' ''Gx'' ''Ex'',
     op2 ''pcmpgtd'' ''Gx'' ''Ex'',
     op2 ''packuswb'' ''Gx'' ''Ex'']"

definition x86_insn_sse_groups_operand_size_68 :: x86_insn_group8 where
  "x86_insn_sse_groups_operand_size_68 =
    [op2 ''punpckhbw'' ''Gx'' ''Ex'',
     op2 ''punpckhwd'' ''Gx'' ''Ex'',
     op2 ''punpckhdq'' ''Gx'' ''Ex'',
     op2 ''packssdw'' ''Gx'' ''Ex'',
     op2 ''punpcklqdq'' ''Gx'' ''Ex'',
     op2 ''punpckhqdq'' ''Gx'' ''Ex'',
     op2 ''movd'' ''Gx'' ''Ev'',
     op2 ''movdqa'' ''Gx'' ''Ex'']"

definition x86_insn_sse_groups_operand_size_70 :: x86_insn_group8 where
  "x86_insn_sse_groups_operand_size_70 =
    [op3 ''pshufd'' ''Gx'' ''Ex'' ''Ib'',
     op0f ''modrm_group_12'' X86_INSN_FLAG_MODRM_REG_GROUP_12,
     op0f ''modrm_group_13'' X86_INSN_FLAG_MODRM_REG_GROUP_13,
     op0f ''modrm_group_14'' X86_INSN_FLAG_MODRM_REG_GROUP_14,
     op2 ''pcmpeqb'' ''Gx'' ''Ex'',
     op2 ''pcmpeqw'' ''Gx'' ''Ex'',
     op2 ''pcmpeqd'' ''Gx'' ''Ex'',
     op0 ''bad'']"

definition x86_insn_sse_groups_operand_size_78 :: x86_insn_group8 where
  "x86_insn_sse_groups_operand_size_78 =
    [op0 ''bad'',
     op0 ''bad'',
     op0 ''bad'',
     op0 ''bad'',
     op2 ''haddpd'' ''Gx'' ''Ex'',
     op2 ''hsubpd'' ''Gx'' ''Ex'',
     op2 ''movd'' ''Ev'' ''Gx'',
     op2 ''movdqa'' ''Ex'' ''Gx'']"

definition x86_insn_sse_groups_operand_size_c0 :: x86_insn_group8 where
  "x86_insn_sse_groups_operand_size_c0 =
    [op0 ''bad'',
     op0 ''bad'',
     op3 ''cmppd'' ''Gx'' ''Ex'' ''Ib'',
     op0 ''bad'',
     op3 ''pinsrw'' ''Gx'' ''Ew'' ''Ib'',
     op3 ''pextrw'' ''Gd'' ''Gx'' ''Ib'',
     op3 ''shufpd'' ''Gx'' ''Ex'' ''Ib'',
     op0 ''bad'']"

definition x86_insn_sse_groups_operand_size_d0 :: x86_insn_group8 where
  "x86_insn_sse_groups_operand_size_d0 =
    [op2 ''addsubpd'' ''Gx'' ''Ex'',
     op2 ''psrlw'' ''Gx'' ''Ex'',
     op2 ''psrld'' ''Gx'' ''Ex'',
     op2 ''psrlq'' ''Gx'' ''Ex'',
     op2 ''paddq'' ''Gx'' ''Ex'',
     op2 ''pmullw'' ''Gx'' ''Ex'',
     op2 ''movq'' ''Ex'' ''Gx'',
     op2 ''pmovmskb'' ''Gd'' ''Rx'']"

definition x86_insn_sse_groups_operand_size_d8 :: x86_insn_group8 where
  "x86_insn_sse_groups_operand_size_d8 =
    [op2 ''psubusb'' ''Gx'' ''Ex'',
     op2 ''psubusw'' ''Gx'' ''Ex'',
     op2 ''pminub'' ''Gx'' ''Ex'',
     op2 ''pand'' ''Gx'' ''Ex'',
     op2 ''paddusb'' ''Gx'' ''Ex'',
     op2 ''paddusw'' ''Gx'' ''Ex'',
     op2 ''pmaxub'' ''Gx'' ''Ex'',
     op2 ''pandn'' ''Gx'' ''Ex'']"

definition x86_insn_sse_groups_operand_size_e0 :: x86_insn_group8 where
  "x86_insn_sse_groups_operand_size_e0 =
    [op2 ''pavgb'' ''Gx'' ''Ex'',
     op2 ''psraw'' ''Gx'' ''Ex'',
     op2 ''psrad'' ''Gx'' ''Ex'',
     op2 ''pavgw'' ''Gx'' ''Ex'',
     op2 ''pmulhuw'' ''Gx'' ''Ex'',
     op2 ''pmulhw'' ''Gx'' ''Ex'',
     op2 ''cvttpd2dq'' ''Gx'' ''Ex'',
     op2 ''movntdq'' ''Mx'' ''Gx'']"

definition x86_insn_sse_groups_operand_size_e8 :: x86_insn_group8 where
  "x86_insn_sse_groups_operand_size_e8 =
    [op2 ''psubsb'' ''Gx'' ''Ex'',
     op2 ''psubsw'' ''Gx'' ''Ex'',
     op2 ''pminsw'' ''Gx'' ''Ex'',
     op2 ''por'' ''Gx'' ''Ex'',
     op2 ''paddsb'' ''Gx'' ''Ex'',
     op2 ''paddsw'' ''Gx'' ''Ex'',
     op2 ''pmaxsw'' ''Gx'' ''Ex'',
     op2 ''pxor'' ''Gx'' ''Ex'']"

definition x86_insn_sse_groups_operand_size_f0 :: x86_insn_group8 where
  "x86_insn_sse_groups_operand_size_f0 =
    [op0 ''bad'',
     op2 ''psllw'' ''Gx'' ''Ex'',
     op2 ''pslld'' ''Gx'' ''Ex'',
     op2 ''psllq'' ''Gx'' ''Ex'',
     op2 ''pmuludq'' ''Gx'' ''Ex'',
     op2 ''pmaddwd'' ''Gx'' ''Ex'',
     op2 ''psadbw'' ''Gx'' ''Ex'',
     op2 ''maskmovdqu'' ''Gx'' ''Ex'']"

definition x86_insn_sse_groups_operand_size_f8 :: x86_insn_group8 where
  "x86_insn_sse_groups_operand_size_f8 =
    [op2 ''psubb'' ''Gx'' ''Ex'',
     op2 ''psubw'' ''Gx'' ''Ex'',
     op2 ''psubd'' ''Gx'' ''Ex'',
     op2 ''psubq'' ''Gx'' ''Ex'',
     op2 ''paddb'' ''Gx'' ''Ex'',
     op2 ''paddw'' ''Gx'' ''Ex'',
     op2 ''paddd'' ''Gx'' ''Ex'',
     op0 ''bad'']"

definition x86_insn_sse_groups_repnz_10 :: x86_insn_group8 where
  "x86_insn_sse_groups_repnz_10 =
    [op2 ''movsd'' ''Gx'' ''Ex'',
     op2 ''movsd'' ''Ex'' ''Gx'',
     op2 ''movddup'' ''Gx'' ''Ex'',
     op0 ''bad'',
     op0 ''bad'',
     op0 ''bad'',
     op0 ''bad'',
     op0 ''bad'']"

definition x86_insn_sse_groups_repnz_28 :: x86_insn_group8 where
  "x86_insn_sse_groups_repnz_28 =
    [op0 ''bad'',
     op0 ''bad'',
     op2 ''cvtsi2sd'' ''Gx'' ''Ev'',
     op0 ''bad'',
     op2 ''cvttsd2si'' ''Gv'' ''Ex'',
     op2 ''cvtsd2si'' ''Gv'' ''Ex'',
     op0 ''bad'',
     op0 ''bad'']"

definition x86_insn_sse_groups_repnz_50 :: x86_insn_group8 where
  "x86_insn_sse_groups_repnz_50 =
    [op0 ''bad'',
     op2 ''sqrtsd'' ''Gx'' ''Ex'',
     op0 ''bad'',
     op0 ''bad'',
     op0 ''bad'',
     op0 ''bad'',
     op0 ''bad'',
     op0 ''bad'']"

definition x86_insn_sse_groups_repnz_58 :: x86_insn_group8 where
  "x86_insn_sse_groups_repnz_58 =
    [op2 ''addsd'' ''Gx'' ''Ex'',
     op2 ''mulsd'' ''Gx'' ''Ex'',
     op2 ''cvtsd2ss'' ''Gx'' ''Ex'',
     op0 ''bad'',
     op2 ''subsd'' ''Gx'' ''Ex'',
     op2 ''minsd'' ''Gx'' ''Ex'',
     op2 ''divsd'' ''Gx'' ''Ex'',
     op2 ''maxsd'' ''Gx'' ''Ex'']"

definition x86_insn_sse_groups_repnz_60 :: x86_insn_group8 where
  "x86_insn_sse_groups_repnz_60 =
    [op0 ''bad'',
     op0 ''bad'',
     op0 ''bad'',
     op0 ''bad'',
     op0 ''bad'',
     op0 ''bad'',
     op0 ''bad'',
     op0 ''bad'']"

definition x86_insn_sse_groups_repnz_68 :: x86_insn_group8 where
  "x86_insn_sse_groups_repnz_68 =
    [op0 ''bad'',
     op0 ''bad'',
     op0 ''bad'',
     op0 ''bad'',
     op0 ''bad'',
     op0 ''bad'',
     op0 ''bad'',
     op0 ''bad'']"

definition x86_insn_sse_groups_repnz_70 :: x86_insn_group8 where
  "x86_insn_sse_groups_repnz_70 =
    [op3 ''pshuflw'' ''Gx'' ''Ex'' ''Ib'',
     op0 ''bad'',
     op0 ''bad'',
     op0 ''bad'',
     op0 ''bad'',
     op0 ''bad'',
     op0 ''bad'',
     op0 ''bad'']"

definition x86_insn_sse_groups_repnz_78 :: x86_insn_group8 where
  "x86_insn_sse_groups_repnz_78 =
    [op0 ''bad'',
     op0 ''bad'',
     op0 ''bad'',
     op0 ''bad'',
     op2 ''haddps'' ''Gx'' ''Ex'',
     op2 ''hsubps'' ''Gx'' ''Ex'',
     op0 ''bad'',
     op0 ''bad'']"

definition x86_insn_sse_groups_repnz_c0 :: x86_insn_group8 where
  "x86_insn_sse_groups_repnz_c0 =
    [op0 ''bad'',
     op0 ''bad'',
     op3 ''cmpsd'' ''Gx'' ''Ex'' ''Ib'',
     op0 ''bad'',
     op0 ''bad'',
     op0 ''bad'',
     op0 ''bad'',
     op0 ''bad'']"

definition x86_insn_sse_groups_repnz_d0 :: x86_insn_group8 where
  "x86_insn_sse_groups_repnz_d0 =
    [op2 ''addsubps'' ''Gx'' ''Ex'',
     op0 ''bad'',
     op0 ''bad'',
     op0 ''bad'',
     op0 ''bad'',
     op0 ''bad'',
     op2 ''movdq2q'' ''Gm'' ''Ex'',
     op0 ''bad'']"

definition x86_insn_sse_groups_repnz_d8 :: x86_insn_group8 where
  "x86_insn_sse_groups_repnz_d8 =
    [op0 ''bad'',
     op0 ''bad'',
     op0 ''bad'',
     op0 ''bad'',
     op0 ''bad'',
     op0 ''bad'',
     op0 ''bad'',
     op0 ''bad'']"

definition x86_insn_sse_groups_repnz_e0 :: x86_insn_group8 where
  "x86_insn_sse_groups_repnz_e0 =
    [op0 ''bad'',
     op0 ''bad'',
     op0 ''bad'',
     op0 ''bad'',
     op0 ''bad'',
     op0 ''bad'',
     op2 ''cvtpd2dq'' ''Gx'' ''Ex'',
     op0 ''bad'']"

definition x86_insn_sse_groups_repnz_e8 :: x86_insn_group8 where
  "x86_insn_sse_groups_repnz_e8 =
    [op0 ''bad'',
     op0 ''bad'',
     op0 ''bad'',
     op0 ''bad'',
     op0 ''bad'',
     op0 ''bad'',
     op0 ''bad'',
     op0 ''bad'']"

definition x86_insn_sse_groups_repnz_f0 :: x86_insn_group8 where
  "x86_insn_sse_groups_repnz_f0 =
    [op2 ''lddqu'' ''Gx'' ''Mx'',
     op0 ''bad'',
     op0 ''bad'',
     op0 ''bad'',
     op0 ''bad'',
     op0 ''bad'',
     op0 ''bad'',
     op0 ''bad'']"

definition x86_insn_sse_groups_repnz_f8 :: x86_insn_group8 where
  "x86_insn_sse_groups_repnz_f8 =
    [op0 ''bad'',
     op0 ''bad'',
     op0 ''bad'',
     op0 ''bad'',
     op0 ''bad'',
     op0 ''bad'',
     op0 ''bad'',
     op0 ''bad'']"

definition x86_insn_sse_groups_repz :: "x86_insn_group8 list" where
  "x86_insn_sse_groups_repz =
     replicate 20 zero_group
      @ [x86_insn_sse_groups_repz_10,
         x86_insn_sse_groups_repz_28,
         x86_insn_sse_groups_repz_50,
         x86_insn_sse_groups_repz_58,
         x86_insn_sse_groups_repz_60,
         x86_insn_sse_groups_repz_68,
         x86_insn_sse_groups_repz_70,
         x86_insn_sse_groups_repz_78,
         x86_insn_sse_groups_repz_c0,
         x86_insn_sse_groups_repz_d0,
         x86_insn_sse_groups_repz_d8,
         x86_insn_sse_groups_repz_e0,
         x86_insn_sse_groups_repz_e8,
         x86_insn_sse_groups_repz_f0,
         x86_insn_sse_groups_repz_f8]"

definition x86_insn_sse_groups_operand_size :: "x86_insn_group8 list" where
  "x86_insn_sse_groups_operand_size =
     replicate 20 zero_group
      @ [x86_insn_sse_groups_operand_size_10,
         x86_insn_sse_groups_operand_size_28,
         x86_insn_sse_groups_operand_size_50,
         x86_insn_sse_groups_operand_size_58,
         x86_insn_sse_groups_operand_size_60,
         x86_insn_sse_groups_operand_size_68,
         x86_insn_sse_groups_operand_size_70,
         x86_insn_sse_groups_operand_size_78,
         x86_insn_sse_groups_operand_size_c0,
         x86_insn_sse_groups_operand_size_d0,
         x86_insn_sse_groups_operand_size_d8,
         x86_insn_sse_groups_operand_size_e0,
         x86_insn_sse_groups_operand_size_e8,
         x86_insn_sse_groups_operand_size_f0,
         x86_insn_sse_groups_operand_size_f8]"

definition x86_insn_sse_groups_repnz :: "x86_insn_group8 list" where
  "x86_insn_sse_groups_repnz =
     replicate 20 zero_group
      @ [x86_insn_sse_groups_repnz_10,
         x86_insn_sse_groups_repnz_28,
         x86_insn_sse_groups_repnz_50,
         x86_insn_sse_groups_repnz_58,
         x86_insn_sse_groups_repnz_60,
         x86_insn_sse_groups_repnz_68,
         x86_insn_sse_groups_repnz_70,
         x86_insn_sse_groups_repnz_78,
         x86_insn_sse_groups_repnz_c0,
         x86_insn_sse_groups_repnz_d0,
         x86_insn_sse_groups_repnz_d8,
         x86_insn_sse_groups_repnz_e0,
         x86_insn_sse_groups_repnz_e8,
         x86_insn_sse_groups_repnz_f0,
         x86_insn_sse_groups_repnz_f8]"

section \<open>What the tables guarantee\<close>

lemmas one_byte_rows =
  x86_opcode_map_one_byte_00_def
  x86_opcode_map_one_byte_10_def
  x86_opcode_map_one_byte_20_def
  x86_opcode_map_one_byte_30_def
  x86_opcode_map_one_byte_40_def
  x86_opcode_map_one_byte_50_def
  x86_opcode_map_one_byte_60_def
  x86_opcode_map_one_byte_70_def
  x86_opcode_map_one_byte_80_def
  x86_opcode_map_one_byte_90_def
  x86_opcode_map_one_byte_a0_def
  x86_opcode_map_one_byte_b0_def
  x86_opcode_map_one_byte_c0_def
  x86_opcode_map_one_byte_d0_def
  x86_opcode_map_one_byte_e0_def
  x86_opcode_map_one_byte_f0_def

lemmas two_byte_rows =
  x86_opcode_map_two_byte_00_def
  x86_opcode_map_two_byte_10_def
  x86_opcode_map_two_byte_20_def
  x86_opcode_map_two_byte_30_def
  x86_opcode_map_two_byte_40_def
  x86_opcode_map_two_byte_50_def
  x86_opcode_map_two_byte_60_def
  x86_opcode_map_two_byte_70_def
  x86_opcode_map_two_byte_80_def
  x86_opcode_map_two_byte_90_def
  x86_opcode_map_two_byte_a0_def
  x86_opcode_map_two_byte_b0_def
  x86_opcode_map_two_byte_c0_def
  x86_opcode_map_two_byte_d0_def
  x86_opcode_map_two_byte_e0_def
  x86_opcode_map_two_byte_f0_def

lemmas modrm_groups =
  x86_insn_modrm_reg_groups_1_def
  x86_insn_modrm_reg_groups_1a_def
  x86_insn_modrm_reg_groups_2_def
  x86_insn_modrm_reg_groups_3_def
  x86_insn_modrm_reg_groups_4_def
  x86_insn_modrm_reg_groups_5_def
  x86_insn_modrm_reg_groups_6_def
  x86_insn_modrm_reg_groups_7_def
  x86_insn_modrm_reg_groups_8_def
  x86_insn_modrm_reg_groups_9_def
  x86_insn_modrm_reg_groups_10_def
  x86_insn_modrm_reg_groups_11_def
  x86_insn_modrm_reg_groups_12_def
  x86_insn_modrm_reg_groups_13_def
  x86_insn_modrm_reg_groups_14_def
  x86_insn_modrm_reg_groups_15_def
  x86_insn_modrm_reg_groups_16_def
  x86_insn_modrm_reg_groups_p_def

lemmas sse_repz_groups =
  x86_insn_sse_groups_repz_10_def
  x86_insn_sse_groups_repz_28_def
  x86_insn_sse_groups_repz_50_def
  x86_insn_sse_groups_repz_58_def
  x86_insn_sse_groups_repz_60_def
  x86_insn_sse_groups_repz_68_def
  x86_insn_sse_groups_repz_70_def
  x86_insn_sse_groups_repz_78_def
  x86_insn_sse_groups_repz_c0_def
  x86_insn_sse_groups_repz_d0_def
  x86_insn_sse_groups_repz_d8_def
  x86_insn_sse_groups_repz_e0_def
  x86_insn_sse_groups_repz_e8_def
  x86_insn_sse_groups_repz_f0_def
  x86_insn_sse_groups_repz_f8_def

lemmas sse_operand_size_groups =
  x86_insn_sse_groups_operand_size_10_def
  x86_insn_sse_groups_operand_size_28_def
  x86_insn_sse_groups_operand_size_50_def
  x86_insn_sse_groups_operand_size_58_def
  x86_insn_sse_groups_operand_size_60_def
  x86_insn_sse_groups_operand_size_68_def
  x86_insn_sse_groups_operand_size_70_def
  x86_insn_sse_groups_operand_size_78_def
  x86_insn_sse_groups_operand_size_c0_def
  x86_insn_sse_groups_operand_size_d0_def
  x86_insn_sse_groups_operand_size_d8_def
  x86_insn_sse_groups_operand_size_e0_def
  x86_insn_sse_groups_operand_size_e8_def
  x86_insn_sse_groups_operand_size_f0_def
  x86_insn_sse_groups_operand_size_f8_def

lemmas sse_repnz_groups =
  x86_insn_sse_groups_repnz_10_def
  x86_insn_sse_groups_repnz_28_def
  x86_insn_sse_groups_repnz_50_def
  x86_insn_sse_groups_repnz_58_def
  x86_insn_sse_groups_repnz_60_def
  x86_insn_sse_groups_repnz_68_def
  x86_insn_sse_groups_repnz_70_def
  x86_insn_sse_groups_repnz_78_def
  x86_insn_sse_groups_repnz_c0_def
  x86_insn_sse_groups_repnz_d0_def
  x86_insn_sse_groups_repnz_d8_def
  x86_insn_sse_groups_repnz_e0_def
  x86_insn_sse_groups_repnz_e8_def
  x86_insn_sse_groups_repnz_f0_def
  x86_insn_sse_groups_repnz_f8_def

lemmas foreach_defs =
  foreach_x86_gp_reg_def foreach_x86_condition_def foreach_x86_operand_combine_def

lemma length_one_byte [simp]: "length x86_opcode_map_one_byte = 256"
  by (simp add: x86_opcode_map_one_byte_def one_byte_rows foreach_defs)

lemma length_two_byte [simp]: "length x86_opcode_map_two_byte = 256"
  by (simp add: x86_opcode_map_two_byte_def two_byte_rows foreach_defs)

lemma length_modrm_groups [simp]: "length x86_insn_modrm_reg_groups = 19"
  by (simp add: x86_insn_modrm_reg_groups_def)

lemma modrm_group_length8: "list_all (\<lambda>g. length g = 8) x86_insn_modrm_reg_groups"
  by (simp add: x86_insn_modrm_reg_groups_def zero_group_def modrm_groups)

text \<open>
  \<open>spec_ok\<close>: three operands; the group number is a ModR/M group, none, or a proper SSE group
  (never the boundary value 19, and below \<^verbatim>\<open>X86_INSN_GROUP_END\<close>); the low byte of the flags is not
  the code letter of any operand class. The last part matters because the operand scans of the
  decoder run past the third operand into the flags.
\<close>

definition operand_letters :: "char set" where
  "operand_letters = {CHR ''G'', CHR ''E'', CHR ''M'', CHR ''R'', CHR ''J'', CHR ''I'', CHR ''O''}"

definition flags_ok :: "u16 \<Rightarrow> bool" where
  "flags_ok f \<longleftrightarrow> X86_INSN_FLAG_GET_GROUP f \<noteq> X86_INSN_SSE_GROUP_START
     \<and> X86_INSN_FLAG_GET_GROUP f < X86_INSN_GROUP_END
     \<and> (f AND 0xFF) \<notin> {0x47, 0x45, 0x4D, 0x52, 0x4A, 0x49, 0x4F}"

definition spec_ok :: "x86_insn_spec \<Rightarrow> bool" where
  "spec_ok s \<longleftrightarrow> length (spec_operands s) = 3 \<and> flags_ok (spec_flags s)"

lemma flags_ok_none: "flags_ok 0"
  by (simp add: flags_ok_def X86_INSN_FLAG_GET_GROUP_def X86_INSN_SSE_GROUP_START_def
      X86_INSN_GROUP_END_def)

lemma flags_ok_default64: "flags_ok X86_INSN_SPEC_DEFAULT_64_BIT"
  by (simp add: flags_ok_def X86_INSN_FLAG_GET_GROUP_def X86_INSN_SSE_GROUP_START_def
      X86_INSN_GROUP_END_def X86_INSN_SPEC_DEFAULT_64_BIT_def)

lemma all_flags_ok_groups:
  "\<forall>n \<in> set ([0..<19] @ [20..<35]). flags_ok (X86_INSN_FLAG_SET_GROUP n)"
  by (simp add: flags_ok_def X86_INSN_FLAG_GET_GROUP_def X86_INSN_FLAG_SET_GROUP_def
      X86_INSN_SSE_GROUP_START_def X86_INSN_GROUP_END_def upt_rec)

lemma flags_ok_group: "n < 35 \<Longrightarrow> n \<noteq> 19 \<Longrightarrow> flags_ok (X86_INSN_FLAG_SET_GROUP n)"
  by (rule all_flags_ok_groups [rule_format]) (auto simp del: upt.simps upt_rec_numeral)

lemma spec_ok_op [simp]:
  "spec_ok (op3f x f o0 o1 o2) = flags_ok f"
  "spec_ok (op2f x f o0 o1) = flags_ok f"
  "spec_ok (op1f x f o0) = flags_ok f"
  "spec_ok (op0f x f) = flags_ok f"
  by (simp_all add: spec_ok_def op_defs)

lemma spec_ok_plain_op [simp]:
  "spec_ok (op3 x o0 o1 o2)" "spec_ok (op2 x o0 o1)" "spec_ok (op1 x o0)" "spec_ok (op0 x)"
  by (simp_all add: op3_def op2_def op1_def op0_def flags_ok_none)

lemma one_byte_spec_ok: "list_all spec_ok x86_opcode_map_one_byte"
  by (simp add: x86_opcode_map_one_byte_def one_byte_rows foreach_defs flags_ok_group
      flags_ok_default64)

lemma two_byte_spec_ok: "list_all spec_ok x86_opcode_map_two_byte"
  by (simp add: x86_opcode_map_two_byte_def two_byte_rows foreach_defs flags_ok_group
      flags_ok_default64)

lemma spec_ok_zero: "length zero_group = 8 \<and> list_all spec_ok zero_group"
  by (simp add: spec_ok_def zero_spec_def zero_group_def flags_ok_none list_all_length)

lemma modrm_groups_spec_ok: "list_all (list_all spec_ok) x86_insn_modrm_reg_groups"
  by (simp add: x86_insn_modrm_reg_groups_def spec_ok_zero modrm_groups flags_ok_group
      flags_ok_default64 flags_ok_none)

lemma sse_groups_spec_ok:
  "list_all (\<lambda>g. length g = 8 \<and> list_all spec_ok g) x86_insn_sse_groups_repz"
  "list_all (\<lambda>g. length g = 8 \<and> list_all spec_ok g) x86_insn_sse_groups_operand_size"
  "list_all (\<lambda>g. length g = 8 \<and> list_all spec_ok g) x86_insn_sse_groups_repnz"
  by (simp_all add: x86_insn_sse_groups_repz_def x86_insn_sse_groups_operand_size_def
      x86_insn_sse_groups_repnz_def sse_repz_groups sse_operand_size_groups sse_repnz_groups
      numeral_eq_Suc spec_ok_zero flags_ok_group flags_ok_none)

end
