(* ===== verification/X86_Decode.thy ===== *)
theory X86_Decode
  imports X86_Opcode_Tables
begin

text \<open>
  The x86 instruction decoder of \<^verbatim>\<open>x86_insn_decode.c\<close> over the byte reader of
  \<^verbatim>\<open>x86_insn_reader.c\<close>: prefixes, opcode and ModR/M group lookup, ModR/M, SIB and displacement,
  immediate, and the whole \<^verbatim>\<open>x86_insn_decode\<close>. The reader keeps its own 20-byte window; reading past
  it is the result \<open>OVERREAD\<close>. The scans over an instruction's operands run for six two-byte entries
  although the array has three: the fourth is the flags word, the last two are the memory that follows
  the instruction record, which the definitions take as the argument \<open>over\<close>.
\<close>

section \<open>Data\<close>

datatype x86_ia32e_register =
  RNone | RAX | RBX | RCX | RDX | RDI | RSI | RBP | RSP
  | R8 | R9 | R10 | R11 | R12 | R13 | R14 | R15 | RIP

fun ia32e_code :: "x86_ia32e_register \<Rightarrow> u8" where
  "ia32e_code RNone = 0" | "ia32e_code RAX = 1" | "ia32e_code RBX = 2" | "ia32e_code RCX = 3"
| "ia32e_code RDX = 4" | "ia32e_code RDI = 5" | "ia32e_code RSI = 6" | "ia32e_code RBP = 7"
| "ia32e_code RSP = 8" | "ia32e_code R8 = 9" | "ia32e_code R9 = 10" | "ia32e_code R10 = 11"
| "ia32e_code R11 = 12" | "ia32e_code R12 = 13" | "ia32e_code R13 = 14" | "ia32e_code R14 = 15"
| "ia32e_code R15 = 16" | "ia32e_code RIP = 17"

datatype x86_insn_gp_register = GP_AX | GP_CX | GP_DX | GP_BX | GP_SP | GP_BP | GP_SI | GP_DI

fun gp_code :: "x86_insn_gp_register \<Rightarrow> u8" where
  "gp_code GP_AX = 0" | "gp_code GP_CX = 1" | "gp_code GP_DX = 2" | "gp_code GP_BX = 3"
| "gp_code GP_SP = 4" | "gp_code GP_BP = 5" | "gp_code GP_SI = 6" | "gp_code GP_DI = 7"

definition FLAG_HAS_BASE :: u32 where "FLAG_HAS_BASE = 0x01"
definition FLAG_HAS_INDEX :: u32 where "FLAG_HAS_INDEX = 0x02"
definition FLAG_IS_ADDRESS :: u32 where "FLAG_IS_ADDRESS = 0x04"
definition FLAG_IP_RELATIVE :: u32 where "FLAG_IP_RELATIVE = 0x08"
definition FLAG_OPERAND_SIZE_64 :: u32 where "FLAG_OPERAND_SIZE_64 = 0x10"

definition INSN_PREFIX_LOCK :: u32 where "INSN_PREFIX_LOCK = 0x01"
definition INSN_PREFIX_REPNE :: u32 where "INSN_PREFIX_REPNE = 0x02"
definition INSN_PREFIX_REPE :: u32 where "INSN_PREFIX_REPE = 0x04"
definition INSN_PREFIX_ES :: u32 where "INSN_PREFIX_ES = 0x08"
definition INSN_PREFIX_CS :: u32 where "INSN_PREFIX_CS = 0x10"
definition INSN_PREFIX_SS :: u32 where "INSN_PREFIX_SS = 0x20"
definition INSN_PREFIX_DS :: u32 where "INSN_PREFIX_DS = 0x40"
definition INSN_PREFIX_FS :: u32 where "INSN_PREFIX_FS = 0x80"
definition INSN_PREFIX_GS :: u32 where "INSN_PREFIX_GS = 0x100"
definition INSN_PREFIX_OPERAND_SIZE :: u32 where "INSN_PREFIX_OPERAND_SIZE = 0x200"
definition INSN_PREFIX_ADDRESS_SIZE :: u32 where "INSN_PREFIX_ADDRESS_SIZE = 0x400"

lemmas insn_flag_defs =
  FLAG_HAS_BASE_def FLAG_HAS_INDEX_def FLAG_IS_ADDRESS_def FLAG_IP_RELATIVE_def
  FLAG_OPERAND_SIZE_64_def

lemmas insn_prefix_defs =
  INSN_PREFIX_LOCK_def INSN_PREFIX_REPNE_def INSN_PREFIX_REPE_def INSN_PREFIX_ES_def
  INSN_PREFIX_CS_def INSN_PREFIX_SS_def INSN_PREFIX_DS_def INSN_PREFIX_FS_def
  INSN_PREFIX_GS_def INSN_PREFIX_OPERAND_SIZE_def INSN_PREFIX_ADDRESS_SIZE_def

record x86_insn_operand =
  op_reg :: u8
  mem_base :: u8
  mem_index :: u8
  mem_scale :: u8
  mem_disp :: u32

record x86_insn_decode_t =
  insn_flags :: u32
  insn_length :: u32
  displacement_offset :: u8
  immediate_offset :: u8
  insn_operands :: "x86_insn_operand list"
  insn_prefix :: u32
  insn_rex :: u8
  primary_opcode :: u8
  insn_modrm :: u8
  insn_sib :: u8
  immediate :: u64
  insn_spec :: x86_insn_spec

record x86_options_t =
  opt_mode :: int

text \<open>\<^verbatim>\<open>x86_insn_decode_t insn = {0}\<close>, as the relocators initialise it.\<close>

definition zero_operand :: x86_insn_operand where
  "zero_operand = \<lparr>op_reg = 0, mem_base = 0, mem_index = 0, mem_scale = 0, mem_disp = 0\<rparr>"

definition zero_insn :: x86_insn_decode_t where
  "zero_insn = \<lparr>insn_flags = 0, insn_length = 0, displacement_offset = 0, immediate_offset = 0,
     insn_operands = [zero_operand, zero_operand, zero_operand], insn_prefix = 0, insn_rex = 0,
     primary_opcode = 0, insn_modrm = 0, insn_sib = 0, immediate = 0, insn_spec = zero_spec\<rparr>"

definition set_flag :: "u32 \<Rightarrow> x86_insn_decode_t \<Rightarrow> x86_insn_decode_t" where
  "set_flag f insn = insn\<lparr>insn_flags := insn_flags insn OR f\<rparr>"

definition upd_operand ::
  "nat \<Rightarrow> (x86_insn_operand \<Rightarrow> x86_insn_operand) \<Rightarrow> x86_insn_decode_t \<Rightarrow> x86_insn_decode_t" where
  "upd_operand i g insn =
     insn\<lparr>insn_operands := (insn_operands insn)[i := g (insn_operands insn ! i)]\<rparr>"

section \<open>Bit fields of REX, ModR/M and SIB\<close>

definition REX_W :: "u8 \<Rightarrow> u8" where "REX_W b = drop_bit 3 (b AND 0x08)"
definition REX_R :: "u8 \<Rightarrow> u8" where "REX_R b = drop_bit 2 (b AND 0x04)"
definition REX_X :: "u8 \<Rightarrow> u8" where "REX_X b = drop_bit 1 (b AND 0x02)"
definition REX_B :: "u8 \<Rightarrow> u8" where "REX_B b = drop_bit 0 (b AND 0x01)"

definition modrm_rm :: "u8 \<Rightarrow> u8" where "modrm_rm b = b AND 7"
definition modrm_reg :: "u8 \<Rightarrow> u8" where "modrm_reg b = drop_bit 3 b AND 7"
definition modrm_mode :: "u8 \<Rightarrow> u8" where "modrm_mode b = drop_bit 6 b"

definition sib_base :: "u8 \<Rightarrow> u8" where "sib_base b = b AND 7"
definition sib_index :: "u8 \<Rightarrow> u8" where "sib_index b = drop_bit 3 b AND 7"
definition sib_log2_scale :: "u8 \<Rightarrow> u8" where "sib_log2_scale b = drop_bit 6 b"

lemmas rex_defs = REX_W_def REX_R_def REX_X_def REX_B_def
lemmas modrm_defs = modrm_rm_def modrm_reg_def modrm_mode_def
lemmas sib_defs = sib_base_def sib_index_def sib_log2_scale_def

section \<open>The reader\<close>

text \<open>
  \<^verbatim>\<open>x86_insn_reader_t\<close>. The four pointers are offsets into the memory they point into: the reader's
  own buffer, or, when \<^verbatim>\<open>init_reader\<close> finds at least 20 bytes, the caller's memory.
\<close>

record x86_insn_reader_t =
  rd_prefix :: nat
  rd_opcode :: nat
  rd_modrm :: nat
  rd_buffer :: "u8 list"
  rd_cursor :: nat
  rd_in_buffer :: bool
  rd_source :: "u8 list"

definition rd_mem :: "x86_insn_reader_t \<Rightarrow> u8 list" where
  "rd_mem rd = (if rd_in_buffer rd then rd_buffer rd else rd_source rd)"

definition init_reader :: "u8 list \<Rightarrow> nat \<Rightarrow> x86_insn_reader_t result" where
  "init_reader src n =
     (if n < 20
      then if length src < n then Inl OVERREAD
           else Inr \<lparr>rd_prefix = 0, rd_opcode = 0, rd_modrm = 0,
                     rd_buffer = take n src @ replicate (20 - n) 0xCC, rd_cursor = 0,
                     rd_in_buffer = True, rd_source = src\<rparr>
      else Inr \<lparr>rd_prefix = 0, rd_opcode = 0, rd_modrm = 0, rd_buffer = [], rd_cursor = 0,
                rd_in_buffer = False, rd_source = src\<rparr>)"

definition reader_offset :: "x86_insn_reader_t \<Rightarrow> nat result" where
  "reader_offset rd = (if rd_in_buffer rd then Inr (rd_cursor rd) else Inl BAD_POINTER)"

definition rd_peek :: "nat \<Rightarrow> x86_insn_reader_t \<Rightarrow> u8 list result" where
  "rd_peek k rd =
     (if rd_cursor rd + k \<le> length (rd_mem rd) then Inr (take k (drop (rd_cursor rd) (rd_mem rd)))
      else Inl OVERREAD)"

definition rd_advance :: "nat \<Rightarrow> x86_insn_reader_t \<Rightarrow> x86_insn_reader_t" where
  "rd_advance k rd = rd\<lparr>rd_cursor := rd_cursor rd + k\<rparr>"

definition peek_byte :: "x86_insn_reader_t \<Rightarrow> u8 result" where
  "peek_byte rd = rbind (rd_peek 1 rd) (\<lambda>p. Inr (p ! 0))"

definition read_byte :: "x86_insn_reader_t \<Rightarrow> (u8 \<times> x86_insn_reader_t) result" where
  "read_byte rd = rbind (rd_peek 1 rd) (\<lambda>p. Inr (p ! 0, rd_advance 1 rd))"

definition read_word :: "x86_insn_reader_t \<Rightarrow> (u16 \<times> x86_insn_reader_t) result" where
  "read_word rd = rbind (rd_peek 2 rd) (\<lambda>p. Inr (le_word p, rd_advance 2 rd))"

definition read_dword :: "x86_insn_reader_t \<Rightarrow> (u32 \<times> x86_insn_reader_t) result" where
  "read_dword rd = rbind (rd_peek 4 rd) (\<lambda>p. Inr (le_word p, rd_advance 4 rd))"

text \<open>\<^verbatim>\<open>read_qword\<close> loads eight bytes and moves the cursor by four.\<close>

definition read_qword :: "x86_insn_reader_t \<Rightarrow> (u64 \<times> x86_insn_reader_t) result" where
  "read_qword rd = rbind (rd_peek 8 rd) (\<lambda>p. Inr (le_word p, rd_advance 4 rd))"

definition read_imm :: "x86_insn_reader_t \<Rightarrow> int \<Rightarrow> (u32 \<times> x86_insn_reader_t) result" where
  "read_imm rd sz =
     (if sz = 8 then rbind (read_byte rd) (\<lambda>(b, rd'). Inr (ucast b, rd'))
      else if sz = 16 then rbind (read_word rd) (\<lambda>(w, rd'). Inr (ucast w, rd'))
      else if sz = 32 then read_dword rd
      else Inr (0, rd))"

definition read_modrm :: "x86_insn_reader_t \<Rightarrow> (u8 \<times> x86_insn_reader_t) result" where
  "read_modrm rd =
     (let rd' = (if rd_cursor rd = rd_modrm rd then rd_advance 1 rd else rd)
      in if rd_modrm rd < length (rd_mem rd) then Inr (rd_mem rd ! rd_modrm rd, rd')
         else Inl OVERREAD)"

definition continue_modrm :: "x86_insn_reader_t \<Rightarrow> x86_insn_reader_t" where
  "continue_modrm rd = rd\<lparr>rd_modrm := rd_cursor rd\<rparr>"

definition continue_opcode :: "x86_insn_reader_t \<Rightarrow> x86_insn_reader_t" where
  "continue_opcode rd = rd\<lparr>rd_modrm := rd_cursor rd, rd_opcode := rd_cursor rd\<rparr>"

subsection \<open>Reading never moves the window\<close>

definition rd_step :: "nat \<Rightarrow> x86_insn_reader_t \<Rightarrow> x86_insn_reader_t \<Rightarrow> bool" where
  "rd_step k rd rd' \<longleftrightarrow> rd_mem rd' = rd_mem rd \<and> rd_in_buffer rd' = rd_in_buffer rd
     \<and> rd_cursor rd' = rd_cursor rd + k \<and> rd_cursor rd' \<le> length (rd_mem rd)"

definition rd_ext :: "x86_insn_reader_t \<Rightarrow> x86_insn_reader_t \<Rightarrow> bool" where
  "rd_ext rd rd' \<longleftrightarrow> rd_mem rd' = rd_mem rd \<and> rd_in_buffer rd' = rd_in_buffer rd
     \<and> rd_cursor rd \<le> rd_cursor rd' \<and> (rd_cursor rd \<le> length (rd_mem rd)
           \<longrightarrow> rd_cursor rd' \<le> length (rd_mem rd))"

lemma rd_ext_refl [simp]: "rd_ext rd rd"
  by (simp add: rd_ext_def)

lemma rd_ext_trans: "rd_ext a b \<Longrightarrow> rd_ext b c \<Longrightarrow> rd_ext a c"
  by (auto simp: rd_ext_def)

lemma rd_step_ext: "rd_step k rd rd' \<Longrightarrow> rd_ext rd rd'"
  by (auto simp: rd_step_def rd_ext_def)

lemma rd_mem_advance [simp]:
  "rd_mem (rd_advance k rd) = rd_mem rd"
  "rd_in_buffer (rd_advance k rd) = rd_in_buffer rd"
  "rd_cursor (rd_advance k rd) = rd_cursor rd + k"
  by (simp_all add: rd_advance_def rd_mem_def)

lemma rd_peek_Inr:
  "rd_peek k rd = Inr p \<longleftrightarrow>
     rd_cursor rd + k \<le> length (rd_mem rd) \<and> p = take k (drop (rd_cursor rd) (rd_mem rd))"
  by (auto simp: rd_peek_def)

lemma read_step:
  "read_byte rd = Inr (b, rd1) \<Longrightarrow> rd_step 1 rd rd1"
  "read_word rd = Inr (w, rd2) \<Longrightarrow> rd_step 2 rd rd2"
  "read_dword rd = Inr (d, rd4) \<Longrightarrow> rd_step 4 rd rd4"
  "read_qword rd = Inr (q, rd8) \<Longrightarrow> rd_step 4 rd rd8"
  by (auto simp: rd_step_def read_byte_def read_word_def read_dword_def read_qword_def
      rbind_Inr_iff rd_peek_Inr)

section \<open>Prefixes\<close>

text \<open>The \<^verbatim>\<open>switch\<close> over the legacy prefix bytes; 0 when the byte is none.\<close>

definition legacy_prefix :: "u8 \<Rightarrow> u32" where
  "legacy_prefix c =
     (if c = 0xF0 then INSN_PREFIX_LOCK
      else if c = 0xF2 then INSN_PREFIX_REPNE
      else if c = 0xF3 then INSN_PREFIX_REPE
      else if c = 0x2E then INSN_PREFIX_CS
      else if c = 0x36 then INSN_PREFIX_SS
      else if c = 0x3E then INSN_PREFIX_DS
      else if c = 0x26 then INSN_PREFIX_ES
      else if c = 0x64 then INSN_PREFIX_FS
      else if c = 0x65 then INSN_PREFIX_GS
      else if c = 0x66 then INSN_PREFIX_OPERAND_SIZE
      else if c = 0x67 then INSN_PREFIX_ADDRESS_SIZE
      else 0)"

definition is_rex :: "x86_options_t \<Rightarrow> u8 \<Rightarrow> bool" where
  "is_rex conf c \<longleftrightarrow> opt_mode conf = 64 \<and> 0x40 \<le> c \<and> c \<le> 0x4F"

function (sequential) x86_insn_decode_prefix ::
  "x86_insn_reader_t \<Rightarrow> x86_insn_decode_t \<Rightarrow> x86_options_t \<Rightarrow> u32
     \<Rightarrow> (u32 \<times> x86_insn_reader_t \<times> x86_insn_decode_t) result" where
  "x86_insn_decode_prefix rd insn conf insn_pfx =
     rbind (peek_byte rd) (\<lambda>c.
       if is_rex conf c then
         rbind (read_byte rd) (\<lambda>(rex, rd').
           let insn' = (if REX_W rex \<noteq> 0 then set_flag FLAG_OPERAND_SIZE_64 insn else insn)
           in Inr (insn_pfx, rd', insn'\<lparr>insn_rex := rex\<rparr>))
       else
         (let t = legacy_prefix c
          in if t = 0 then Inr (insn_pfx, rd, insn)
             else rbind (read_byte rd) (\<lambda>(_, rd').
                    x86_insn_decode_prefix rd' insn conf (insn_pfx OR t))))"
  by pat_completeness auto
termination
  by (relation "measure (\<lambda>(rd, _). length (rd_mem rd) - rd_cursor rd)")
    (auto dest!: read_step(1) simp: rd_step_def)

declare x86_insn_decode_prefix.simps [simp del]

section \<open>Operand scans\<close>

text \<open>
  What \<^verbatim>\<open>insn->operands[i]\<close> reads for \<open>i\<close> from 0 to 5: the three operands, the two bytes of the flags
  (low byte first), and two more entries past the end of the record.
\<close>

definition flags_operand :: "u16 \<Rightarrow> x86_insn_operand_spec" where
  "flags_operand f = (char_of (unat (f AND 0xFF)), char_of (unat (drop_bit 8 f)))"

definition operand_view ::
  "x86_insn_operand_spec list \<Rightarrow> x86_insn_spec \<Rightarrow> x86_insn_operand_spec list" where
  "operand_view over insn = spec_operands insn @ flags_operand (spec_flags insn) # over"

definition x86_insn_has_modrm_byte :: "x86_insn_operand_spec list \<Rightarrow> x86_insn_spec \<Rightarrow> bool" where
  "x86_insn_has_modrm_byte over insn =
     list_ex (\<lambda>(c, _). c = CHR ''G'' \<or> c = CHR ''E'' \<or> c = CHR ''M'' \<or> c = CHR ''R'')
       (operand_view over insn)"

definition is_imm_code :: "char \<Rightarrow> bool" where
  "is_imm_code c \<longleftrightarrow> c = CHR ''J'' \<or> c = CHR ''I'' \<or> c = CHR ''O''"

fun first_immediate_type :: "x86_insn_operand_spec list \<Rightarrow> char option" where
  "first_immediate_type [] = None"
| "first_immediate_type ((c, t) # os) = (if is_imm_code c then Some t else first_immediate_type os)"

definition x86_insn_immediate_type ::
  "x86_insn_operand_spec list \<Rightarrow> x86_insn_spec \<Rightarrow> char option" where
  "x86_insn_immediate_type over insn = first_immediate_type (operand_view over insn)"

definition x86_insn_has_immediate :: "x86_insn_operand_spec list \<Rightarrow> x86_insn_spec \<Rightarrow> bool" where
  "x86_insn_has_immediate over insn =
     list_ex (\<lambda>(c, _). is_imm_code c) (operand_view over insn)"

section \<open>Numbers, ModR/M, SIB and displacement\<close>

definition x86_insn_decode_number ::
  "x86_insn_reader_t \<Rightarrow> u8 \<Rightarrow> (u64 \<times> x86_insn_reader_t) result" where
  "x86_insn_decode_number rd number_bits =
     (if number_bits = 64 then read_qword rd
      else if number_bits = 32 then rbind (read_dword rd) (\<lambda>(d, rd'). Inr (ucast d, rd'))
      else if number_bits = 16 then rbind (read_word rd) (\<lambda>(w, rd'). Inr (ucast w, rd'))
      else if number_bits = 8 then rbind (read_byte rd) (\<lambda>(b, rd'). Inr (ucast b, rd'))
      else Inl UNREACHABLE)"

definition effective_address_bits :: "x86_options_t \<Rightarrow> x86_insn_decode_t \<Rightarrow> u8 result" where
  "effective_address_bits conf insn =
     (if opt_mode conf = 64
      then Inr (if insn_prefix insn AND INSN_PREFIX_ADDRESS_SIZE \<noteq> 0 then 32 else 64)
      else if opt_mode conf = 32
      then Inr (if insn_prefix insn AND INSN_PREFIX_ADDRESS_SIZE \<noteq> 0 then 16 else 32)
      else Inl (FATAL ''16-bit address mode not supported''))"

text \<open>The SIB part of \<^verbatim>\<open>x86_insn_decode_modrm_sib\<close>, for 32- and 64-bit addresses.\<close>

definition sib_disp_bits :: "u8 \<Rightarrow> u8 \<Rightarrow> u8 \<Rightarrow> u8 \<Rightarrow> u8" where
  "sib_disp_bits eab md base disp_bits =
     (if (eab = 64 \<and> (base = ia32e_code RBP \<or> base = ia32e_code R13))
         \<or> (eab = 32 \<and> base = ia32e_code RBP)
      then (if md = 1 then 8 else 32) else disp_bits)"

definition sib_mem_base :: "u8 \<Rightarrow> u8 \<Rightarrow> u8 \<Rightarrow> u8" where
  "sib_mem_base eab md base =
     (if ((eab = 64 \<and> (base = ia32e_code RBP \<or> base = ia32e_code R13))
          \<or> (eab = 32 \<and> base = ia32e_code RBP)) \<and> md = 0
      then ia32e_code RNone else base)"

definition decode_sib ::
  "u8 \<Rightarrow> u8 \<Rightarrow> u8 \<Rightarrow> x86_insn_decode_t \<Rightarrow> x86_insn_reader_t
     \<Rightarrow> (u8 \<times> x86_insn_decode_t \<times> x86_insn_reader_t) result" where
  "decode_sib eab md disp_bits insn rd =
     rbind (read_byte rd) (\<lambda>(s, rd').
       let base = sib_base s OR push_bit 3 (REX_B (insn_rex insn));
           index = sib_index s OR push_bit 3 (REX_X (insn_rex insn));
           scale = push_bit (unat (sib_log2_scale s)) 1;
           no_index = (sib_index s = gp_code GP_SP);
           insn1 = set_flag FLAG_HAS_BASE (insn\<lparr>insn_sib := s\<rparr>);
           insn2 = (if no_index then insn1 else set_flag FLAG_HAS_INDEX insn1);
           insn3 = upd_operand 1 (\<lambda>m. m\<lparr>mem_base := sib_mem_base eab md base,
                     mem_index := (if no_index then ia32e_code RNone else index),
                     mem_scale := (if no_index then 0 else scale)\<rparr>) insn2
       in Inr (sib_disp_bits eab md base disp_bits, insn3, rd'))"

text \<open>32- and 64-bit addressing.\<close>

definition modrm_disp_bits :: "u8 \<Rightarrow> u8 \<Rightarrow> u8" where
  "modrm_disp_bits md rm =
     (if md = 0 \<and> rm AND 7 = 5 then 32
      else if md = 0 then 0
      else if md = 1 then 8
      else if md = 2 then 32
      else 0)"

definition decode_mem_32_64 ::
  "u8 \<Rightarrow> u8 \<Rightarrow> u8 \<Rightarrow> x86_insn_decode_t \<Rightarrow> x86_insn_reader_t
     \<Rightarrow> (u8 \<times> x86_insn_decode_t \<times> x86_insn_reader_t) result" where
  "decode_mem_32_64 eab md rm insn rd =
     (let insn1 = set_flag FLAG_HAS_BASE (upd_operand 1 (\<lambda>m. m\<lparr>mem_base := rm\<rparr>) insn);
          insn2 = (if md = 0 \<and> rm AND 7 = 5
                   then upd_operand 1 (\<lambda>m. m\<lparr>mem_base := ia32e_code RIP\<rparr>)
                          (insn1\<lparr>insn_flags := FLAG_IP_RELATIVE\<rparr>)
                   else insn1);
          disp_bits = modrm_disp_bits md rm
      in if rm AND 7 = 4 then decode_sib eab md disp_bits insn2 rd
         else Inr (disp_bits, insn2, rd))"

text \<open>
  16-bit addressing. In mode 0 with \<^verbatim>\<open>rm\<close> other than 6 the displacement width keeps its initial
  value 255.
\<close>

definition mem16_base :: "u8 \<Rightarrow> u8" where
  "mem16_base rm =
     (if rm = 0 \<or> rm = 1 then gp_code GP_BX
      else if rm = 2 \<or> rm = 3 then gp_code GP_BP
      else if rm = 4 \<or> rm = 5 then gp_code GP_SI + (rm AND 1)
      else if rm = 6 then gp_code GP_BP
      else gp_code GP_BX)"

definition decode_mem_16 :: "u8 \<Rightarrow> u8 \<Rightarrow> x86_insn_decode_t \<Rightarrow> u8 \<times> x86_insn_decode_t" where
  "decode_mem_16 modrm disp_bits insn =
     (let md = modrm_mode modrm; rm = modrm_rm modrm
      in if md = 0 \<and> rm = 6 then (16, insn)
         else if md = 3 then (disp_bits, insn)
         else
           (let insn1 = upd_operand 1 (\<lambda>m. m\<lparr>mem_base := mem16_base rm\<rparr>) (set_flag FLAG_HAS_BASE insn);
                insn2 = (if rm < 4
                         then upd_operand 1 (\<lambda>m. m\<lparr>mem_index := gp_code GP_SI + (rm AND 1)\<rparr>)
                                (set_flag FLAG_HAS_INDEX insn1)
                         else insn1)
            in (if md \<noteq> 0 then (if md = 1 then 8 else 16) else disp_bits, insn2)))"

definition decode_displacement ::
  "u8 \<Rightarrow> x86_insn_decode_t \<Rightarrow> x86_insn_reader_t \<Rightarrow> (x86_insn_decode_t \<times> x86_insn_reader_t) result" where
  "decode_displacement disp_bits insn rd =
     (if disp_bits \<noteq> 0
      then rbind (reader_offset rd) (\<lambda>off.
           rbind (x86_insn_decode_number rd disp_bits) (\<lambda>(disp, rd').
             Inr (upd_operand 1 (\<lambda>m. m\<lparr>mem_disp := ucast disp\<rparr>)
                    (insn\<lparr>displacement_offset := of_nat off\<rparr>), rd')))
      else Inr (insn, rd))"

definition x86_insn_decode_modrm_sib ::
  "x86_insn_reader_t \<Rightarrow> x86_insn_decode_t \<Rightarrow> x86_options_t
     \<Rightarrow> (x86_insn_decode_t \<times> x86_insn_reader_t) result" where
  "x86_insn_decode_modrm_sib rd insn conf =
     rbind (read_byte rd) (\<lambda>(b, rd1).
       let insn1 = insn\<lparr>insn_modrm := b\<rparr>;
           md = modrm_mode b;
           rm = push_bit 3 (REX_B (insn_rex insn)) OR modrm_rm b;
           reg = push_bit 3 (REX_R (insn_rex insn)) OR modrm_reg b;
           insn2 = upd_operand 0 (\<lambda>m. m\<lparr>op_reg := reg\<rparr>) insn1
       in if md = 3 then Inr (upd_operand 1 (\<lambda>m. m\<lparr>op_reg := rm\<rparr>) insn2, rd1)
          else
            (let insn3 = set_flag FLAG_IS_ADDRESS insn2
             in rbind (effective_address_bits conf insn3) (\<lambda>eab.
                rbind (if eab = 32 \<or> eab = 64 then decode_mem_32_64 eab md rm insn3 rd1
                       else Inr (255, insn3, rd1)) (\<lambda>(disp_bits, insn4, rd2).
                let (disp_bits', insn5) =
                      (if eab = 16 then decode_mem_16 b disp_bits insn4 else (disp_bits, insn4))
                in decode_displacement disp_bits' insn5 rd2))))"

section \<open>Opcode\<close>

definition lookup_opcode ::
  "x86_insn_reader_t \<Rightarrow> (u8 \<times> x86_insn_spec \<times> x86_insn_reader_t) result" where
  "lookup_opcode rd =
     rbind (read_byte rd) (\<lambda>(opcode, rd1).
       if opcode = 0x0F
       then rbind (read_byte rd1) (\<lambda>(opcode2, rd2).
              Inr (opcode2, x86_opcode_map_two_byte ! unat opcode2, rd2))
       else Inr (opcode, x86_opcode_map_one_byte ! unat opcode, rd1))"

definition group_entry :: "x86_insn_spec \<Rightarrow> u8 \<Rightarrow> x86_insn_spec" where
  "group_entry spec modrm =
     x86_insn_modrm_reg_groups ! X86_INSN_FLAG_GET_GROUP (spec_flags spec) ! unat (modrm_reg modrm)"

text \<open>Only the name and the flags of the group's entry are taken; the operands stay.\<close>

definition x86_insn_decode_opcode ::
  "x86_insn_reader_t \<Rightarrow> x86_insn_decode_t \<Rightarrow> x86_options_t
     \<Rightarrow> (x86_insn_decode_t \<times> x86_insn_reader_t) result" where
  "x86_insn_decode_opcode rd insn conf =
     rbind (lookup_opcode rd) (\<lambda>(opcode, spec, rd1).
       let group = X86_INSN_FLAG_GET_GROUP (spec_flags spec)
       in if group > X86_INSN_SSE_GROUP_START then Inl UNIMPLEMENTED
          else rbind (if group > X86_INSN_GROUP_START \<and> group < X86_INSN_SSE_GROUP_START
                      then rbind (peek_byte rd1) (\<lambda>m.
                             let g = group_entry spec m
                             in Inr (spec\<lparr>spec_name := spec_name g, spec_flags := spec_flags g\<rparr>))
                      else Inr spec) (\<lambda>spec'.
               Inr (insn\<lparr>primary_opcode := opcode, insn_spec := spec'\<rparr>, rd1)))"

section \<open>Immediate\<close>

definition x86_insn_imm_bits ::
  "x86_insn_operand_spec list \<Rightarrow> x86_insn_spec \<Rightarrow> u8 \<Rightarrow> u8" where
  "x86_insn_imm_bits over insn operand_bits =
     (case x86_insn_immediate_type over insn of
        None \<Rightarrow> 0
      | Some t \<Rightarrow>
          if t = CHR ''b'' then 8
          else if t = CHR ''w'' then 16
          else if t = CHR ''d'' then 32
          else if t = CHR ''q'' then 64
          else if t = CHR ''z'' then (if operand_bits = 64 then 32 else operand_bits)
          else if t = CHR ''v'' then operand_bits
          else 0)"

definition effective_operand_bits :: "x86_options_t \<Rightarrow> x86_insn_decode_t \<Rightarrow> u8 result" where
  "effective_operand_bits conf insn =
     (if opt_mode conf = 64 \<and> spec_flags (insn_spec insn) AND X86_INSN_SPEC_DEFAULT_64_BIT \<noteq> 0
      then Inr 64
      else if insn_flags insn AND FLAG_OPERAND_SIZE_64 \<noteq> 0 then Inr 64
      else if opt_mode conf = 64 \<or> opt_mode conf = 32
      then Inr (if insn_prefix insn AND INSN_PREFIX_OPERAND_SIZE \<noteq> 0 then 16 else 32)
      else Inl UNINITIALISED)"

definition x86_insn_decode_immediate ::
  "x86_insn_operand_spec list \<Rightarrow> x86_insn_reader_t \<Rightarrow> x86_insn_decode_t \<Rightarrow> x86_options_t
     \<Rightarrow> (x86_insn_decode_t \<times> x86_insn_reader_t) result" where
  "x86_insn_decode_immediate over rd insn conf =
     rbind (effective_operand_bits conf insn) (\<lambda>operand_bits.
       let imm_bits = x86_insn_imm_bits over (insn_spec insn) operand_bits
       in if imm_bits = 0 then Inr (insn, rd)
          else rbind (reader_offset rd) (\<lambda>off.
               rbind (x86_insn_decode_number rd imm_bits) (\<lambda>(imm, rd').
                 Inr (insn\<lparr>immediate_offset := of_nat off, immediate := imm\<rparr>, rd'))))"

section \<open>The decoder\<close>

definition x86_insn_decode ::
  "x86_insn_operand_spec list \<Rightarrow> x86_insn_decode_t \<Rightarrow> u8 list \<Rightarrow> x86_options_t
     \<Rightarrow> x86_insn_decode_t result" where
  "x86_insn_decode over insn buffer conf =
     rbind (init_reader buffer 15) (\<lambda>rd.
     rbind (x86_insn_decode_prefix rd insn conf 0) (\<lambda>(pfx, rd1, insn1).
     rbind (x86_insn_decode_opcode rd1 (insn1\<lparr>insn_prefix := pfx\<rparr>) conf) (\<lambda>(insn2, rd2).
     rbind (if x86_insn_has_modrm_byte over (insn_spec insn2)
            then x86_insn_decode_modrm_sib rd2 insn2 conf else Inr (insn2, rd2)) (\<lambda>(insn3, rd3).
     rbind (if x86_insn_has_immediate over (insn_spec insn3)
            then x86_insn_decode_immediate over rd3 insn3 conf
            else Inr (insn3, rd3)) (\<lambda>(insn4, rd4).
     rbind (reader_offset rd4) (\<lambda>off. Inr (insn4\<lparr>insn_length := of_nat off\<rparr>)))))))"

end
