(* ===== verification/X86_Decode_Correct.thy ===== *)
theory X86_Decode_Correct
  imports X86_Decode
begin

text \<open>
  What the decoder of \<^verbatim>\<open>X86_Decode\<close> does: the cursor stays in the window, decoding is total in 64-bit
  mode, the operand scans see only the three operands whenever the memory behind the record is not an
  operand letter, and the exact result on the instructions the relocators rewrite.
\<close>

section \<open>The cursor only moves forward, inside the window\<close>

lemma rd_ext_read:
  "read_byte rd = Inr (b, rd1) \<Longrightarrow> rd_ext rd rd1"
  "read_word rd = Inr (w, rd2) \<Longrightarrow> rd_ext rd rd2"
  "read_dword rd = Inr (d, rd4) \<Longrightarrow> rd_ext rd rd4"
  "read_qword rd = Inr (q, rd8) \<Longrightarrow> rd_ext rd rd8"
  by (blast intro: rd_step_ext dest: read_step)+

lemma decode_number_ext:
  "x86_insn_decode_number rd n = Inr (v, rd') \<Longrightarrow> rd_ext rd rd'"
  by (auto simp: x86_insn_decode_number_def rbind_Inr_iff dest: rd_ext_read split: if_splits)

lemma decode_prefix_ext:
  "x86_insn_decode_prefix rd insn conf p = Inr (q, rd', insn') \<Longrightarrow> rd_ext rd rd'"
proof (induction rd insn conf p rule: x86_insn_decode_prefix.induct)
  case (1 rd insn conf p)
  show ?case
    using "1.prems"
    by (subst (asm) x86_insn_decode_prefix.simps)
      (auto simp: Let_def rbind_Inr_iff split: if_splits
        dest: rd_ext_read "1.IH" intro: rd_ext_trans)
qed

lemma lookup_opcode_ext:
  "lookup_opcode rd = Inr (opc, spec, rd') \<Longrightarrow> rd_ext rd rd' \<and> rd_cursor rd < rd_cursor rd'"
  by (auto simp: lookup_opcode_def rbind_Inr_iff rd_ext_def rd_step_def dest!: read_step split: if_splits)

lemma decode_opcode_ext:
  "x86_insn_decode_opcode rd insn conf = Inr (insn', rd')
     \<Longrightarrow> rd_ext rd rd' \<and> rd_cursor rd < rd_cursor rd'"
  by (auto simp: x86_insn_decode_opcode_def Let_def rbind_Inr_iff dest: lookup_opcode_ext split: if_splits)

lemma decode_sib_ext:
  "decode_sib eab md n insn rd = Inr (m, insn', rd') \<Longrightarrow> rd_ext rd rd'"
  by (auto simp: decode_sib_def Let_def rbind_Inr_iff dest: rd_ext_read)

lemma decode_mem_ext:
  "decode_mem_32_64 eab md rm insn rd = Inr (m, insn', rd') \<Longrightarrow> rd_ext rd rd'"
  by (auto simp: decode_mem_32_64_def Let_def dest: decode_sib_ext split: if_splits)

lemma decode_displacement_ext:
  "decode_displacement n insn rd = Inr (insn', rd') \<Longrightarrow> rd_ext rd rd'"
  by (auto simp: decode_displacement_def rbind_Inr_iff dest: decode_number_ext split: if_splits)

lemma decode_modrm_sib_ext:
  "x86_insn_decode_modrm_sib rd insn conf = Inr (insn', rd') \<Longrightarrow> rd_ext rd rd'"
  apply (auto simp: x86_insn_decode_modrm_sib_def Let_def rbind_Inr_iff
      dest: rd_ext_read split: if_splits prod.splits)
  apply (meson decode_mem_ext decode_displacement_ext rd_ext_read(1) rd_ext_trans)+
  done

lemma decode_immediate_ext:
  "x86_insn_decode_immediate over rd insn conf = Inr (insn', rd') \<Longrightarrow> rd_ext rd rd'"
  by (auto simp: x86_insn_decode_immediate_def Let_def rbind_Inr_iff dest: decode_number_ext split: if_splits)

lemma init_reader_15:
  "15 \<le> length src \<Longrightarrow> init_reader src 15 =
     Inr \<lparr>rd_prefix = 0, rd_opcode = 0, rd_modrm = 0, rd_buffer = take 15 src @ replicate 5 0xCC,
          rd_cursor = 0, rd_in_buffer = True, rd_source = src\<rparr>"
  by (simp add: init_reader_def)

lemma decode_length_range:
  assumes "x86_insn_decode over insn buffer conf = Inr insn'"
  shows "1 \<le> insn_length insn' \<and> insn_length insn' \<le> 20"
proof -
  obtain rd pfx rd1 insn1 insn2 rd2 insn3 rd3 insn4 rd4 where
    rd: "init_reader buffer 15 = Inr rd" and
    p: "x86_insn_decode_prefix rd insn conf 0 = Inr (pfx, rd1, insn1)" and
    o': "x86_insn_decode_opcode rd1 (insn1\<lparr>insn_prefix := pfx\<rparr>) conf = Inr (insn2, rd2)" and
    m: "(if x86_insn_has_modrm_byte over (insn_spec insn2)
            then x86_insn_decode_modrm_sib rd2 insn2 conf else Inr (insn2, rd2)) = Inr (insn3, rd3)" and
    i: "(if x86_insn_has_immediate over (insn_spec insn3)
            then x86_insn_decode_immediate over rd3 insn3 conf
            else Inr (insn3, rd3)) = Inr (insn4, rd4)" and
    l: "rbind (reader_offset rd4) (\<lambda>off. Inr (insn4\<lparr>insn_length := of_nat off\<rparr>)) = Inr insn'"
    using assms by (auto simp: x86_insn_decode_def rbind_Inr_iff)
  have "rd_ext rd rd1" by (rule decode_prefix_ext [OF p])
  moreover have "rd_ext rd1 rd2 \<and> rd_cursor rd1 < rd_cursor rd2" by (rule decode_opcode_ext [OF o'])
  moreover have "rd_ext rd2 rd3" using m by (auto dest: decode_modrm_sib_ext split: if_splits)
  moreover have "rd_ext rd3 rd4" using i by (auto dest: decode_immediate_ext split: if_splits)
  moreover have "rd_cursor rd = 0 \<and> length (rd_mem rd) = 20"
    using rd by (auto simp: init_reader_def rd_mem_def split: if_splits)
  ultimately have "1 \<le> rd_cursor rd4 \<and> rd_cursor rd4 \<le> 20"
    by (auto simp: rd_ext_def)
  moreover have "insn_length insn' = of_nat (rd_cursor rd4)"
    using l by (auto simp: reader_offset_def split: if_splits)
  ultimately show ?thesis
    by (simp add: word_le_nat_alt unat_of_nat)
qed



section \<open>Prefixes\<close>

definition rex_insn :: "u8 \<Rightarrow> x86_insn_decode_t \<Rightarrow> x86_insn_decode_t" where
  "rex_insn c insn =
     (if REX_W c \<noteq> 0 then set_flag FLAG_OPERAND_SIZE_64 insn else insn)\<lparr>insn_rex := c\<rparr>"

lemma rd_peek_1:
  assumes "drop (rd_cursor rd) (rd_mem rd) = c # rest"
  shows "peek_byte rd = Inr c" "read_byte rd = Inr (c, rd_advance 1 rd)"
    "drop (rd_cursor (rd_advance 1 rd)) (rd_mem (rd_advance 1 rd)) = rest"
proof -
  have len: "length (rd_mem rd) - rd_cursor rd = Suc (length rest)"
    using arg_cong [OF assms, of length] by simp
  then show "peek_byte rd = Inr c" "read_byte rd = Inr (c, rd_advance 1 rd)"
    using assms by (simp_all add: peek_byte_def read_byte_def rd_peek_def)
  show "drop (rd_cursor (rd_advance 1 rd)) (rd_mem (rd_advance 1 rd)) = rest"
    using arg_cong [OF assms, of "drop 1"] by simp
qed

lemma rd_advance_advance [simp]: "rd_advance a (rd_advance b rd) = rd_advance (a + b) rd"
  by (simp add: rd_advance_def ac_simps)

lemma rd_advance_0 [simp]: "rd_advance 0 rd = rd"
  by (simp add: rd_advance_def)

lemma legacy_prefix_not_rex: "legacy_prefix c \<noteq> 0 \<Longrightarrow> \<not> is_rex conf c"
  by (auto simp: legacy_prefix_def is_rex_def split: if_splits)

fun prefix_flags :: "u8 list \<Rightarrow> u32" where
  "prefix_flags [] = 0"
| "prefix_flags (p # ps) = legacy_prefix p OR prefix_flags ps"

lemma decode_prefix_run:
  assumes "drop (rd_cursor rd) (rd_mem rd) = ps @ c # rest"
    and "\<forall>p \<in> set ps. legacy_prefix p \<noteq> 0" and "legacy_prefix c = 0"
  shows "x86_insn_decode_prefix rd insn conf acc =
     Inr (acc OR prefix_flags ps,
          rd_advance (length ps + (if is_rex conf c then 1 else 0)) rd,
          if is_rex conf c then rex_insn c insn else insn)"
  using assms
proof (induction ps arbitrary: rd acc)
  case Nil
  from Nil.prems(1) have d: "drop (rd_cursor rd) (rd_mem rd) = c # rest" by simp
  show ?case
    by (subst x86_insn_decode_prefix.simps)
      (simp add: rd_peek_1 [OF d] Nil.prems(3) rex_insn_def Let_def)
next
  case (Cons p ps)
  from Cons.prems(1) have d: "drop (rd_cursor rd) (rd_mem rd) = p # ps @ c # rest" by simp
  have "x86_insn_decode_prefix rd insn conf acc
      = x86_insn_decode_prefix (rd_advance 1 rd) insn conf (acc OR legacy_prefix p)"
    using Cons.prems(2)
    by (subst x86_insn_decode_prefix.simps)
      (simp add: rd_peek_1 [OF d] legacy_prefix_not_rex Let_def)
  also have "\<dots> = Inr ((acc OR legacy_prefix p) OR prefix_flags ps,
          rd_advance (length ps + (if is_rex conf c then 1 else 0)) (rd_advance 1 rd),
          if is_rex conf c then rex_insn c insn else insn)"
    by (rule Cons.IH) (use Cons.prems rd_peek_1(3) [OF d] in auto)
  finally show ?case by (simp add: or.assoc)
qed

section \<open>The operand scans\<close>

lemma flags_operand_clean:
  assumes "flags_ok f"
  shows "fst (flags_operand f) \<notin> operand_letters"
proof
  have less: "unat (f AND 0xFF) < 256"
  proof -
    have "f AND 0xFF \<le> 0xFF" by (rule word_and_le1)
    then show ?thesis by (simp add: word_le_nat_alt)
  qed
  assume "fst (flags_operand f) \<in> operand_letters"
  then have "char_of (unat (f AND 0xFF)) \<in> operand_letters"
    by (simp add: flags_operand_def)
  then have "of_char (char_of (unat (f AND 0xFF)) :: char) \<in> (of_char ` operand_letters :: nat set)"
    by blast
  then have "unat (f AND 0xFF) \<in> {0x47, 0x45, 0x4D, 0x52, 0x4A, 0x49, 0x4F}"
    using less by (simp add: operand_letters_def of_char_of)
  then have "f AND 0xFF = of_nat 0x47 \<or> f AND 0xFF = of_nat 0x45 \<or> f AND 0xFF = of_nat 0x4D
      \<or> f AND 0xFF = of_nat 0x52 \<or> f AND 0xFF = of_nat 0x4A \<or> f AND 0xFF = of_nat 0x49
      \<or> f AND 0xFF = of_nat 0x4F"
    by (auto dest!: arg_cong [of _ _ "of_nat :: nat \<Rightarrow> u16"])
  then show False using assms by (simp add: flags_ok_def)
qed

definition over_clean :: "x86_insn_operand_spec list \<Rightarrow> bool" where
  "over_clean over \<longleftrightarrow> list_all (\<lambda>(c, _). c \<notin> operand_letters) over"

lemma first_immediate_clean:
  "list_all (\<lambda>(c, _). c \<notin> operand_letters) xs \<Longrightarrow> first_immediate_type xs = None"
  by (induction xs rule: first_immediate_type.induct) (auto simp: operand_letters_def is_imm_code_def)

lemma first_immediate_append:
  "first_immediate_type (xs @ ys) =
     (case first_immediate_type xs of None \<Rightarrow> first_immediate_type ys | Some t \<Rightarrow> Some t)"
  by (induction xs rule: first_immediate_type.induct) auto

lemma list_ex_clean:
  "list_all (\<lambda>(c, _). c \<notin> operand_letters) xs \<Longrightarrow> \<forall>c. P c \<longrightarrow> c \<in> operand_letters
     \<Longrightarrow> \<not> list_ex (\<lambda>(c, _). P c) xs"
  by (induction xs) auto

lemma scans_three:
  assumes "flags_ok (spec_flags s)" and "over_clean over"
  shows "x86_insn_has_modrm_byte over s =
      list_ex (\<lambda>(c, _). c = CHR ''G'' \<or> c = CHR ''E'' \<or> c = CHR ''M'' \<or> c = CHR ''R'') (spec_operands s)"
    and "x86_insn_immediate_type over s = first_immediate_type (spec_operands s)"
    and "x86_insn_has_immediate over s = list_ex (\<lambda>(c, _). is_imm_code c) (spec_operands s)"
proof -
  have rest: "list_all (\<lambda>(c, _). c \<notin> operand_letters) (flags_operand (spec_flags s) # over)"
    using flags_operand_clean [OF assms(1)] assms(2)
    by (cases "flags_operand (spec_flags s)") (simp add: over_clean_def)
  show "x86_insn_has_modrm_byte over s =
      list_ex (\<lambda>(c, _). c = CHR ''G'' \<or> c = CHR ''E'' \<or> c = CHR ''M'' \<or> c = CHR ''R'') (spec_operands s)"
    using list_ex_clean [OF rest, of "\<lambda>c. c = CHR ''G'' \<or> c = CHR ''E'' \<or> c = CHR ''M'' \<or> c = CHR ''R''"]
    by (simp add: x86_insn_has_modrm_byte_def operand_view_def operand_letters_def)
  show "x86_insn_has_immediate over s = list_ex (\<lambda>(c, _). is_imm_code c) (spec_operands s)"
    using list_ex_clean [OF rest, of is_imm_code]
    by (simp add: x86_insn_has_immediate_def operand_view_def operand_letters_def is_imm_code_def)
  show "x86_insn_immediate_type over s = first_immediate_type (spec_operands s)"
    using first_immediate_clean [OF rest]
    by (simp add: x86_insn_immediate_type_def operand_view_def first_immediate_append
        split: option.splits)
qed

lemma unat_u8_less: "unat (b :: u8) < 256"
  using unsigned_less [of b] by simp

lemma lookup_opcode_spec_ok:
  "lookup_opcode rd = Inr (opc, spec, rd') \<Longrightarrow> spec_ok spec"
  using one_byte_spec_ok two_byte_spec_ok unat_u8_less
  by (auto simp: lookup_opcode_def rbind_Inr_iff list_all_length split: if_splits)

lemma modrm_reg_less: "unat (modrm_reg b) < 8"
proof -
  have "modrm_reg b \<le> 7" unfolding modrm_reg_def by (rule word_and_le1)
  then show ?thesis by (simp add: word_le_nat_alt)
qed

lemma group_entry_spec_ok:
  assumes "X86_INSN_FLAG_GET_GROUP (spec_flags spec) < X86_INSN_SSE_GROUP_START"
  shows "spec_ok (group_entry spec m)"
proof -
  let ?g = "x86_insn_modrm_reg_groups ! X86_INSN_FLAG_GET_GROUP (spec_flags spec)"
  have "?g \<in> set x86_insn_modrm_reg_groups"
    using assms by (simp add: X86_INSN_SSE_GROUP_START_def)
  then have "list_all spec_ok ?g" "length ?g = 8"
    using modrm_groups_spec_ok modrm_group_length8 by (auto simp: list_all_iff)
  then show ?thesis
    using modrm_reg_less [of m] by (simp add: group_entry_def list_all_length)
qed

lemma decode_opcode_spec_ok:
  "x86_insn_decode_opcode rd insn conf = Inr (insn', rd') \<Longrightarrow> spec_ok (insn_spec insn')"
  using group_entry_spec_ok lookup_opcode_spec_ok
  by (fastforce simp: x86_insn_decode_opcode_def Let_def rbind_Inr_iff spec_ok_def split: if_splits)

lemma imm_bits_clean:
  assumes "flags_ok (spec_flags s)" and "over_clean over" and "over_clean over'"
  shows "x86_insn_imm_bits over s n = x86_insn_imm_bits over' s n"
  by (simp add: x86_insn_imm_bits_def scans_three(2) assms)

lemma decode_number_error:
  "n \<in> {8, 16, 32, 64} \<Longrightarrow> rd_cursor rd + 8 \<le> length (rd_mem rd)
     \<Longrightarrow> \<exists>v rd'. x86_insn_decode_number rd n = Inr (v, rd')"
  by (auto simp: x86_insn_decode_number_def read_qword_def read_dword_def read_word_def
      read_byte_def rd_peek_def)

lemma decode_number_room:
  "n \<in> {8, 32} \<Longrightarrow> rd_cursor rd + 4 \<le> length (rd_mem rd)
     \<Longrightarrow> \<exists>v rd'. x86_insn_decode_number rd n = Inr (v, rd') \<and> rd_ext rd rd'
          \<and> rd_cursor rd' \<le> rd_cursor rd + 4"
  by (auto simp: x86_insn_decode_number_def read_dword_def 
      read_byte_def rd_peek_def rd_ext_def)


section \<open>Totality in 64-bit mode\<close>

lemma room_read_byte:
  "rd_cursor rd < length (rd_mem rd)
     \<Longrightarrow> \<exists>b. peek_byte rd = Inr b \<and> read_byte rd = Inr (b, rd_advance 1 rd)"
  by (auto simp: peek_byte_def read_byte_def rd_peek_def)

lemma decode_displacement_total:
  assumes "n \<in> {0, 8, 32}" and "rd_in_buffer rd" and "rd_cursor rd + 4 \<le> length (rd_mem rd)"
  shows "\<exists>insn' rd'. decode_displacement n insn rd = Inr (insn', rd')
     \<and> rd_ext rd rd' \<and> rd_cursor rd' \<le> rd_cursor rd + 4"
proof (cases "n = 0")
  case False
  then obtain v rd' where "x86_insn_decode_number rd n = Inr (v, rd')" "rd_ext rd rd'"
    "rd_cursor rd' \<le> rd_cursor rd + 4"
    using decode_number_room [of n rd] assms by auto
  then show ?thesis
    using False assms(2) by (simp add: decode_displacement_def reader_offset_def)
qed (simp add: decode_displacement_def)

lemma modrm_disp_bits_cases: "modrm_disp_bits md rm \<in> {0, 8, 32}"
  by (simp add: modrm_disp_bits_def)

lemma decode_mem_total:
  assumes "rd_cursor rd + 1 \<le> length (rd_mem rd)"
  shows "\<exists>n insn' rd'. decode_mem_32_64 eab md rm insn rd = Inr (n, insn', rd')
     \<and> n \<in> {0, 8, 32} \<and> rd_ext rd rd' \<and> rd_cursor rd' \<le> rd_cursor rd + 1"
proof -
  obtain b where b: "read_byte rd = Inr (b, rd_advance 1 rd)"
    using room_read_byte [of rd] assms by auto
  have "rd_ext rd (rd_advance 1 rd)" using assms by (simp add: rd_ext_def)
  then show ?thesis
    using modrm_disp_bits_cases [of md rm]
    by (auto simp: decode_mem_32_64_def decode_sib_def Let_def b sib_disp_bits_def)
qed

lemma decode_modrm_sib_total:
  assumes mode: "opt_mode conf = 64" and inb: "rd_in_buffer rd"
    and room: "rd_cursor rd + 6 \<le> length (rd_mem rd)"
  shows "\<exists>insn' rd'. x86_insn_decode_modrm_sib rd insn conf = Inr (insn', rd')
     \<and> rd_ext rd rd' \<and> rd_cursor rd' \<le> rd_cursor rd + 6"
proof -
  obtain b where b: "read_byte rd = Inr (b, rd_advance 1 rd)"
    using room_read_byte [of rd] room by auto
  define insn3 where "insn3 = set_flag FLAG_IS_ADDRESS (upd_operand 0
     (\<lambda>m. m\<lparr>op_reg := push_bit 3 (REX_R (insn_rex insn)) OR modrm_reg b\<rparr>) (insn\<lparr>insn_modrm := b\<rparr>))"
  define rm where "rm = push_bit 3 (REX_B (insn_rex insn)) OR modrm_rm b"
  obtain eab :: u8 where eab: "effective_address_bits conf insn3 = Inr eab" "eab = 32 \<or> eab = 64"
    using mode by (auto simp: effective_address_bits_def)
  obtain n insn4 rd2 where m: "decode_mem_32_64 eab (modrm_mode b) rm insn3 (rd_advance 1 rd)
       = Inr (n, insn4, rd2)" "n \<in> {0, 8, 32}" "rd_ext (rd_advance 1 rd) rd2"
       "rd_cursor rd2 \<le> rd_cursor rd + 2"
    using decode_mem_total [of "rd_advance 1 rd" eab "modrm_mode b" rm insn3] room by auto
  obtain insn5 rd3 where d: "decode_displacement n insn4 rd2 = Inr (insn5, rd3)" "rd_ext rd2 rd3"
      "rd_cursor rd3 \<le> rd_cursor rd2 + 4"
    using decode_displacement_total [of n rd2 insn4] m inb room by (auto simp: rd_ext_def)
  have "eab \<noteq> 16" using eab(2) by auto
  moreover have ext: "rd_ext rd (rd_advance 1 rd)" using room by (simp add: rd_ext_def)
  ultimately show ?thesis
    using b eab m d rd_ext_trans [OF ext rd_ext_trans [OF m(3) d(2)]]
    by (auto simp: x86_insn_decode_modrm_sib_def Let_def insn3_def [symmetric] rm_def [symmetric])
qed

lemma imm_bits_cases:
  "opt_mode conf = 64 \<Longrightarrow> \<exists>n. effective_operand_bits conf insn = Inr n
     \<and> x86_insn_imm_bits over s n \<in> {0, 8, 16, 32, 64}"
  by (auto simp: effective_operand_bits_def x86_insn_imm_bits_def split: option.splits)

lemma decode_immediate_total:
  assumes "opt_mode conf = 64" and "rd_in_buffer rd" and "rd_cursor rd + 8 \<le> length (rd_mem rd)"
  shows "\<exists>insn' rd'. x86_insn_decode_immediate over rd insn conf = Inr (insn', rd')"
proof -
  obtain n where n: "effective_operand_bits conf insn = Inr n"
    "x86_insn_imm_bits over (insn_spec insn) n \<in> {0, 8, 16, 32, 64}"
    using imm_bits_cases [OF assms(1)] by blast
  show ?thesis
  proof (cases "x86_insn_imm_bits over (insn_spec insn) n = 0")
    case False
    then obtain v rd' where "x86_insn_decode_number rd (x86_insn_imm_bits over (insn_spec insn) n) = Inr (v, rd')"
      using decode_number_error [OF _ assms(3)] n(2) by blast
    then show ?thesis
      using False assms(2) by (simp add: x86_insn_decode_immediate_def n(1) reader_offset_def Let_def)
  qed (simp add: x86_insn_decode_immediate_def n(1))
qed

definition is_sse_opcode :: "u8 \<Rightarrow> u8 \<Rightarrow> bool" where
  "is_sse_opcode opc opc2 \<longleftrightarrow> opc = 0x0F \<and>
     X86_INSN_FLAG_GET_GROUP (spec_flags (x86_opcode_map_two_byte ! unat opc2)) > X86_INSN_SSE_GROUP_START"

lemma one_byte_no_sse:
  "X86_INSN_FLAG_GET_GROUP (spec_flags (x86_opcode_map_one_byte ! unat (b :: u8))) < X86_INSN_SSE_GROUP_START"
proof -
  have "list_all (\<lambda>s. X86_INSN_FLAG_GET_GROUP (spec_flags s) < X86_INSN_SSE_GROUP_START)
      x86_opcode_map_one_byte"
    by (simp add: x86_opcode_map_one_byte_def one_byte_rows foreach_defs op_defs
        X86_INSN_FLAG_GET_GROUP_def X86_INSN_FLAG_SET_GROUP_def X86_INSN_SSE_GROUP_START_def
        X86_INSN_SPEC_DEFAULT_64_BIT_def)
  then show ?thesis using unat_u8_less [of b] by (simp add: list_all_length)
qed

lemma decode_opcode_total:
  assumes d: "drop (rd_cursor rd) (rd_mem rd) = opc # opc2 # m # rest"
  shows "if is_sse_opcode opc opc2 then x86_insn_decode_opcode rd insn conf = Inl UNIMPLEMENTED
     else \<exists>insn' rd'. x86_insn_decode_opcode rd insn conf = Inr (insn', rd')
        \<and> rd_ext rd rd' \<and> rd_cursor rd' \<le> rd_cursor rd + 2"
proof -
  have len: "rd_cursor rd + 3 \<le> length (rd_mem rd)"
    using arg_cong [OF d, of length] by simp
  note b1 = rd_peek_1(2) [OF d, simplified]
  note b2 = rd_peek_1(1,2) [OF rd_peek_1(3) [OF d]]
  note b3 = rd_peek_1(1) [OF rd_peek_1(3) [OF rd_peek_1(3) [OF d]]]
  show ?thesis
    using len one_byte_no_sse [of opc]
    by (auto simp: x86_insn_decode_opcode_def lookup_opcode_def is_sse_opcode_def b1 b2 [simplified]
        b3 [simplified] Let_def rd_ext_def)
qed

lemma decode_tail_total:
  assumes mode: "opt_mode conf = 64" and inb: "rd_in_buffer rd"
    and room: "rd_cursor rd + 14 \<le> length (rd_mem rd)"
  shows "\<exists>insn'. rbind (if mm then x86_insn_decode_modrm_sib rd insn conf else Inr (insn, rd)) (\<lambda>(insn3, rd3).
     rbind (if x86_insn_has_immediate over (insn_spec insn3)
            then x86_insn_decode_immediate over rd3 insn3 conf
            else Inr (insn3, rd3)) (\<lambda>(insn4, rd4).
     rbind (reader_offset rd4) (\<lambda>off. Inr (insn4\<lparr>insn_length := of_nat off\<rparr>)))) = Inr insn'"
proof -
  obtain insn3 rd3 where 3: "(if mm then x86_insn_decode_modrm_sib rd insn conf else Inr (insn, rd))
      = Inr (insn3, rd3)" "rd_ext rd rd3" "rd_cursor rd3 \<le> rd_cursor rd + 6"
    using decode_modrm_sib_total [OF mode inb, of insn] room by (cases mm) auto
  have r3: "rd_in_buffer rd3" "rd_cursor rd3 + 8 \<le> length (rd_mem rd3)"
    using 3(2,3) inb room by (auto simp: rd_ext_def)
  obtain insn4 rd4 where 4: "(if x86_insn_has_immediate over (insn_spec insn3)
      then x86_insn_decode_immediate over rd3 insn3 conf else Inr (insn3, rd3)) = Inr (insn4, rd4)"
      "rd_ext rd3 rd4"
  proof (cases "x86_insn_has_immediate over (insn_spec insn3)")
    case True
    then show thesis
      using decode_immediate_total [OF mode r3, of over insn3] that decode_immediate_ext by metis
  next
    case False
    then show thesis using that [of insn3 rd3] by simp
  qed
  have "rd_in_buffer rd4" using 3(2) 4(2) inb by (simp add: rd_ext_def)
  then show ?thesis using 3(1) 4(1) by (simp add: reader_offset_def)
qed

definition rex_bytes :: "x86_options_t \<Rightarrow> u8 list \<Rightarrow> bool" where
  "rex_bytes conf rex \<longleftrightarrow> rex = [] \<or> (\<exists>r. rex = [r] \<and> is_rex conf r)"

text \<open>
  C19: in 64-bit mode an instruction with at most three legacy prefixes and an optional REX prefix is
  always decoded without reading outside the reader's window: the decoder stops only for a two-byte
  opcode of an SSE group, with \<^verbatim>\<open>UNIMPLEMENTED\<close>, and otherwise it returns an instruction.
\<close>

theorem decode_total_64:
  assumes mode: "opt_mode conf = 64" and len: "15 \<le> length buffer"
    and buf: "buffer = ps @ rex @ opc # opc2 # rest"
    and ps: "\<forall>p \<in> set ps. legacy_prefix p \<noteq> 0" "length ps \<le> 3"
    and rex: "rex_bytes conf rex" "rex = [] \<longrightarrow> legacy_prefix opc = 0 \<and> \<not> is_rex conf opc"
  shows "if is_sse_opcode opc opc2 then x86_insn_decode over insn buffer conf = Inl UNIMPLEMENTED
     else \<exists>insn'. x86_insn_decode over insn buffer conf = Inr insn'"
proof -
  define rd where "rd = \<lparr>rd_prefix = 0, rd_opcode = 0, rd_modrm = 0,
      rd_buffer = take 15 buffer @ replicate 5 0xCC, rd_cursor = 0, rd_in_buffer = True, rd_source = buffer\<rparr>"
  have rd0: "init_reader buffer 15 = Inr rd"
    using init_reader_15 [OF len] by (simp add: rd_def)
  have mem: "rd_cursor rd = 0" "rd_in_buffer rd" "rd_mem rd = take 15 buffer @ replicate 5 0xCC"
    by (simp_all add: rd_def rd_mem_def)
  let ?k = "length ps + length rex"
  have k: "?k \<le> 4" using ps(2) rex(1) by (auto simp: rex_bytes_def)
  obtain m tail where tail: "take (13 - ?k) rest @ replicate 5 0xCC = m # tail"
    by (cases "take (13 - ?k) rest") (auto simp: numeral_eq_Suc)
  have t15: "take 15 buffer = ps @ rex @ opc # opc2 # take (13 - ?k) rest"
    using k by (simp add: buf take_Cons' )
  have memd: "rd_mem rd = ps @ rex @ opc # opc2 # m # tail"
    using mem(3) t15 tail by simp
  obtain c rest' where c: "rex @ opc # opc2 # m # tail = c # rest'" "legacy_prefix c = 0"
      "length rex = (if is_rex conf c then 1 else 0)"
    using rex by (cases rex) (auto simp: rex_bytes_def dest: legacy_prefix_not_rex)
  obtain pfx insn1 where p: "x86_insn_decode_prefix rd insn conf 0 = Inr (pfx, rd_advance ?k rd, insn1)"
    using decode_prefix_run [of rd ps c rest' insn conf 0] memd mem(1) ps(1) c by auto
  have d: "drop (rd_cursor (rd_advance ?k rd)) (rd_mem (rd_advance ?k rd)) = opc # opc2 # m # tail"
    using mem(1) memd by simp
  have len20: "length (rd_mem rd) = 20" using mem(3) len by simp
  note o' = decode_opcode_total [OF d, of "insn1\<lparr>insn_prefix := pfx\<rparr>" conf]
  show ?thesis
  proof (cases "is_sse_opcode opc opc2")
    case True
    then show ?thesis using o' by (simp add: x86_insn_decode_def rd0 p)
  next
    case False
    then obtain insn2 rd2 where 2: "x86_insn_decode_opcode (rd_advance ?k rd) (insn1\<lparr>insn_prefix := pfx\<rparr>) conf
        = Inr (insn2, rd2)" "rd_ext (rd_advance ?k rd) rd2" "rd_cursor rd2 \<le> ?k + 2"
      using o' mem(1) by auto
    have "rd_in_buffer rd2" "rd_cursor rd2 + 14 \<le> length (rd_mem rd2)"
      using 2 k mem(2) len20 by (auto simp: rd_ext_def)
    then show ?thesis
      using False 2(1) decode_tail_total [OF mode, of rd2]
      by (simp add: x86_insn_decode_def rd0 p)
  qed
qed

theorem decode_total_64_witness:
  "\<exists>i. x86_insn_decode [] zero_insn ([0x66] @ [0x48] @ 0xC3 # 0x90 # replicate 11 0) \<lparr>opt_mode = 64\<rparr> = Inr i"
proof -
  have "\<not> is_sse_opcode 0xC3 0x90" by (simp add: is_sse_opcode_def)
  then show ?thesis
    using decode_total_64 [of "\<lparr>opt_mode = 64\<rparr>" "[0x66] @ [0x48] @ 0xC3 # 0x90 # replicate 11 0" "[0x66]" "[0x48]"
        "0xC3" "0x90" "replicate 11 0" "[]" zero_insn]
    by (simp add: rex_bytes_def is_rex_def legacy_prefix_def insn_prefix_defs)
qed

section \<open>Exact decoding of the instructions the relocators rewrite\<close>

lemma rd_peek_4:
  assumes "drop (rd_cursor rd) (rd_mem rd) = le_bytes 4 d @ rest"
  shows "read_dword rd = Inr (d, rd_advance 4 rd)"
proof -
  have "length (rd_mem rd) - rd_cursor rd = 4 + length rest"
    using arg_cong [OF assms, of length] by simp
  then show ?thesis using assms by (simp add: read_dword_def rd_peek_def)
qed

lemma rd_drop_advance:
  "drop (rd_cursor rd) (rd_mem rd) = xs @ rest \<Longrightarrow> length xs = n
     \<Longrightarrow> drop (rd_cursor (rd_advance n rd)) (rd_mem (rd_advance n rd)) = rest"
  by (metis append_eq_conv_conj drop_drop rd_mem_advance(1,3) add.commute)

definition reader15 :: "u8 list \<Rightarrow> x86_insn_reader_t" where
  "reader15 src = \<lparr>rd_prefix = 0, rd_opcode = 0, rd_modrm = 0,
      rd_buffer = take 15 src @ replicate 5 0xCC, rd_cursor = 0, rd_in_buffer = True, rd_source = src\<rparr>"

lemma reader15_simps [simp]:
  "rd_cursor (reader15 src) = 0" "rd_in_buffer (reader15 src)"
  "rd_mem (reader15 src) = take 15 src @ replicate 5 0xCC"
  by (simp_all add: reader15_def rd_mem_def)

lemma init_reader15: "15 \<le> length src \<Longrightarrow> init_reader src 15 = Inr (reader15 src)"
  by (simp add: init_reader_def reader15_def)

text \<open>One-byte opcodes outside every group.\<close>

definition plain_opcode :: "x86_options_t \<Rightarrow> u8 \<Rightarrow> bool" where
  "plain_opcode conf opc \<longleftrightarrow> opc \<noteq> 0x0F \<and> legacy_prefix opc = 0 \<and> \<not> is_rex conf opc
     \<and> X86_INSN_FLAG_GET_GROUP (spec_flags (x86_opcode_map_one_byte ! unat opc)) = 0"

lemma decode_opcode_plain:
  assumes "plain_opcode conf opc" and d: "drop (rd_cursor rd) (rd_mem rd) = opc # rest"
  shows "x86_insn_decode_opcode rd insn conf =
     Inr (insn\<lparr>primary_opcode := opc, insn_spec := x86_opcode_map_one_byte ! unat opc\<rparr>, rd_advance 1 rd)"
  using assms(1)
  by (simp add: x86_insn_decode_opcode_def lookup_opcode_def rd_peek_1(2) [OF d, simplified]
      plain_opcode_def X86_INSN_SSE_GROUP_START_def X86_INSN_GROUP_START_def)

lemma spec_ok_one_byte: "spec_ok (x86_opcode_map_one_byte ! unat (opc :: u8))"
  using one_byte_spec_ok unat_u8_less [of opc] by (simp add: list_all_length)

lemma decode_prefix_none:
  assumes "drop (rd_cursor rd) (rd_mem rd) = opc # rest" and "plain_opcode conf opc"
  shows "x86_insn_decode_prefix rd insn conf 0 = Inr (0, rd, insn)"
  using decode_prefix_run [of rd "[]" opc rest insn conf 0] assms by (simp add: plain_opcode_def)

definition imm_only :: "x86_insn_spec \<Rightarrow> char \<Rightarrow> bool" where
  "imm_only s t \<longleftrightarrow> first_immediate_type (spec_operands s) = Some t
     \<and> \<not> list_ex (\<lambda>(c, _). c = CHR ''G'' \<or> c = CHR ''E'' \<or> c = CHR ''M'' \<or> c = CHR ''R'') (spec_operands s)"

lemma imm_only_scans:
  assumes "imm_only s t" and "spec_ok s" and "over_clean over"
  shows "\<not> x86_insn_has_modrm_byte over s" "x86_insn_has_immediate over s"
    "x86_insn_immediate_type over s = Some t"
proof -
  note sc = scans_three [OF _ assms(3), of s]
  have f: "flags_ok (spec_flags s)" using assms(2) by (simp add: spec_ok_def)
  have imm: "first_immediate_type os = Some t \<Longrightarrow> list_ex (\<lambda>(c, _). is_imm_code c) os" for os
    by (induction os rule: first_immediate_type.induct) (auto split: if_splits)
  show "\<not> x86_insn_has_modrm_byte over s" "x86_insn_has_immediate over s"
    "x86_insn_immediate_type over s = Some t"
    using assms(1) imm sc [OF f] by (auto simp: imm_only_def)
qed

lemma effective_bits_no_prefix:
  "opt_mode conf = 32 \<or> opt_mode conf = 64 \<Longrightarrow> insn_prefix insn = 0 \<Longrightarrow>
     effective_operand_bits conf insn = Inr 32 \<or> effective_operand_bits conf insn = Inr 64"
  by (auto simp: effective_operand_bits_def)

lemma decode_rel8:
  assumes conf: "opt_mode conf = 32 \<or> opt_mode conf = 64" and clean: "over_clean over"
    and opc: "plain_opcode conf opc" "imm_only (x86_opcode_map_one_byte ! unat opc) CHR ''b''"
    and len: "13 \<le> length rest"
  shows "x86_insn_decode over insn (opc # b # rest) conf =
     Inr (insn\<lparr>insn_prefix := 0, primary_opcode := opc, insn_spec := x86_opcode_map_one_byte ! unat opc,
               immediate_offset := 1, immediate := ucast b, insn_length := 2\<rparr>)"
proof -
  let ?s = "x86_opcode_map_one_byte ! unat opc" and ?rd = "reader15 (opc # b # rest)"
  have d: "drop (rd_cursor ?rd) (rd_mem ?rd) = opc # b # take 13 rest @ replicate 5 0xCC" by simp
  note d1 = rd_peek_1(3) [OF d]
  note scans = imm_only_scans [OF opc(2) spec_ok_one_byte clean]
  obtain n where n: "effective_operand_bits conf (insn\<lparr>insn_prefix := 0, primary_opcode := opc, insn_spec := ?s\<rparr>)
      = Inr n"
    using effective_bits_no_prefix [OF conf, of "insn\<lparr>insn_prefix := 0, primary_opcode := opc, insn_spec := ?s\<rparr>"]
    by auto
  show ?thesis
    using len
    by (simp add: x86_insn_decode_def init_reader15 decode_prefix_none [OF d opc(1)]
        decode_opcode_plain [OF opc(1) d] scans x86_insn_decode_immediate_def n x86_insn_imm_bits_def
        reader_offset_def x86_insn_decode_number_def rd_peek_1(2) [OF d1, simplified])
qed

lemma decode_rel32:
  fixes d :: u32
  assumes conf: "opt_mode conf = 32 \<or> opt_mode conf = 64" and clean: "over_clean over"
    and opc: "plain_opcode conf opc" "imm_only (x86_opcode_map_one_byte ! unat opc) CHR ''z''"
    and len: "10 \<le> length rest"
  shows "x86_insn_decode over insn (opc # le_bytes 4 d @ rest) conf =
     Inr (insn\<lparr>insn_prefix := 0, primary_opcode := opc, insn_spec := x86_opcode_map_one_byte ! unat opc,
               immediate_offset := 1, immediate := ucast d, insn_length := 5\<rparr>)"
proof -
  let ?s = "x86_opcode_map_one_byte ! unat opc" and ?rd = "reader15 (opc # le_bytes 4 d @ rest)"
  have d: "drop (rd_cursor ?rd) (rd_mem ?rd) = opc # le_bytes 4 d @ take 10 rest @ replicate 5 0xCC"
    by simp
  note d1 = rd_peek_1(3) [OF d]
  note scans = imm_only_scans [OF opc(2) spec_ok_one_byte clean]
  obtain n where n: "effective_operand_bits conf (insn\<lparr>insn_prefix := 0, primary_opcode := opc, insn_spec := ?s\<rparr>)
      = Inr n" "n = 32 \<or> n = 64"
    using effective_bits_no_prefix [OF conf, of "insn\<lparr>insn_prefix := 0, primary_opcode := opc, insn_spec := ?s\<rparr>"]
    by auto
  then show ?thesis
    using len
    by (auto simp: x86_insn_decode_def init_reader15 decode_prefix_none [OF d opc(1)]
        decode_opcode_plain [OF opc(1) d] scans x86_insn_decode_immediate_def x86_insn_imm_bits_def
        reader_offset_def x86_insn_decode_number_def rd_peek_4 [OF d1, simplified])
qed

subsection \<open>Relative branches\<close>

lemma relative_branch_specs:
  "x86_opcode_map_one_byte ! 0xE8 = op1f ''call'' X86_INSN_SPEC_DEFAULT_64_BIT ''Jz''"
  "x86_opcode_map_one_byte ! 0xE9 = op1f ''jmp'' X86_INSN_SPEC_DEFAULT_64_BIT ''Jz''"
  "x86_opcode_map_one_byte ! 0xEB = op1 ''jmp'' ''Jb''"
  by (simp_all add: x86_opcode_map_one_byte_def one_byte_rows foreach_defs)

lemma jcc_specs:
  "\<forall>i \<in> set [0..<16]. x86_opcode_map_one_byte ! (0x70 + i) = op1 (''j'' @ foreach_x86_condition ! i) ''Jb''"
  by (simp add: x86_opcode_map_one_byte_def one_byte_rows foreach_defs upt_rec)

lemma jcc_spec:
  assumes "0x70 \<le> opc" and "opc \<le> (0x7F :: u8)"
  shows "x86_opcode_map_one_byte ! unat opc = op1 (''j'' @ foreach_x86_condition ! (unat opc - 0x70)) ''Jb''"
  using jcc_specs [rule_format, of "unat opc - 0x70"] assms by (simp add: word_le_nat_alt)

lemma imm_only_op [simp]:
  "imm_only (op1f x f ''Jz'') CHR ''z''" "imm_only (op1 x ''Jb'') CHR ''b''"
  by (simp_all add: imm_only_def op_defs is_imm_code_def)

lemma op_flags [simp]: "spec_flags (op1f x f a) = f" "spec_flags (op1 x a) = 0"
  by (simp_all add: op_defs)

lemma group_of_flags [simp]:
  "X86_INSN_FLAG_GET_GROUP 0 = 0" "X86_INSN_FLAG_GET_GROUP X86_INSN_SPEC_DEFAULT_64_BIT = 0"
  by (simp_all add: X86_INSN_FLAG_GET_GROUP_def X86_INSN_SPEC_DEFAULT_64_BIT_def)

lemma jcc_range_no_prefix:
  assumes "0x70 \<le> opc" and "opc \<le> (0x7F :: u8)"
  shows "opc \<noteq> 0x0F" "legacy_prefix opc = 0" "\<not> is_rex conf opc"
proof -
  from assms have "112 \<le> unat opc" "unat opc \<le> 127" by (simp_all add: word_le_nat_alt)
  then show "opc \<noteq> 0x0F" "legacy_prefix opc = 0" "\<not> is_rex conf opc"
    by (auto simp: legacy_prefix_def is_rex_def word_le_nat_alt)
qed

lemma decode_short_branch_insn:
  assumes "opt_mode conf = 32 \<or> opt_mode conf = 64" and "over_clean over"
    and "(0x70 \<le> opc \<and> opc \<le> 0x7F) \<or> opc = 0xEB" and "13 \<le> length rest"
  shows "x86_insn_decode over zero_insn (opc # rel # rest) conf =
     Inr (zero_insn\<lparr>primary_opcode := opc, insn_spec := x86_opcode_map_one_byte ! unat opc,
               immediate_offset := 1, immediate := ucast rel, insn_length := 2\<rparr>)"
proof -
  have "plain_opcode conf opc \<and> imm_only (x86_opcode_map_one_byte ! unat opc) CHR ''b''"
  proof (cases "opc = 0xEB")
    case True
    then show ?thesis
      by (simp add: plain_opcode_def relative_branch_specs legacy_prefix_def is_rex_def)
  next
    case False
    then show ?thesis
      using assms(3) by (simp add: plain_opcode_def jcc_spec jcc_range_no_prefix)
  qed
  then show ?thesis
    using decode_rel8 [OF assms(1,2) _ _ assms(4), of opc zero_insn rel] by (simp add: zero_insn_def)
qed

text \<open>
  A conditional branch \<^verbatim>\<open>7x rel8\<close> or \<^verbatim>\<open>EB rel8\<close> decodes, in 32- and 64-bit mode, to a two-byte
  instruction with its opcode, the immediate at offset 1 and the displacement zero-extended, whatever
  bytes follow, as long as the memory behind the record holds no operand letter.
\<close>

theorem decode_short_branch:
  assumes "opt_mode conf = 32 \<or> opt_mode conf = 64" and "over_clean over"
    and "(0x70 \<le> opc \<and> opc \<le> 0x7F) \<or> opc = 0xEB" and "13 \<le> length rest"
  shows "x86_insn_decode over zero_insn (opc # rel # rest) conf =
     Inr (zero_insn\<lparr>primary_opcode := opc, insn_spec := x86_opcode_map_one_byte ! unat opc,
               immediate_offset := 1, immediate := ucast rel, insn_length := 2\<rparr>)"
  using assms by (rule decode_short_branch_insn)

theorem decode_short_branch_witness:
  "x86_insn_decode [] zero_insn (0x74 # 0x10 # replicate 13 0) \<lparr>opt_mode = 64\<rparr> =
     Inr (zero_insn\<lparr>primary_opcode := 0x74, insn_spec := x86_opcode_map_one_byte ! 0x74,
               immediate_offset := 1, immediate := 0x10, insn_length := 2\<rparr>)"
  using decode_short_branch [of "\<lparr>opt_mode = 64\<rparr>" "[]" "0x74" "replicate 13 0" "0x10"]
  by (simp add: over_clean_def)

lemma decode_near_branch_insn:
  fixes rel :: u32
  assumes "opt_mode conf = 32 \<or> opt_mode conf = 64" and "over_clean over"
    and "opc = 0xE8 \<or> opc = 0xE9" and "10 \<le> length rest"
  shows "x86_insn_decode over zero_insn (opc # le_bytes 4 rel @ rest) conf =
     Inr (zero_insn\<lparr>primary_opcode := opc, insn_spec := x86_opcode_map_one_byte ! unat opc,
               immediate_offset := 1, immediate := ucast rel, insn_length := 5\<rparr>)"
proof -
  have "plain_opcode conf opc \<and> imm_only (x86_opcode_map_one_byte ! unat opc) CHR ''z''"
    using assms(3) by (auto simp: plain_opcode_def relative_branch_specs legacy_prefix_def is_rex_def)
  then show ?thesis
    using decode_rel32 [OF assms(1,2) _ _ assms(4), of opc zero_insn rel] by (simp add: zero_insn_def)
qed

text \<open>
  C17: \<^verbatim>\<open>E8 rel32\<close> and \<^verbatim>\<open>E9 rel32\<close> decode to five-byte instructions with the immediate at offset 1 and
  the displacement zero-extended to 64 bits.
\<close>

theorem decode_near_branch:
  fixes rel :: u32
  assumes "opt_mode conf = 32 \<or> opt_mode conf = 64" and "over_clean over"
    and "opc = 0xE8 \<or> opc = 0xE9" and "10 \<le> length rest"
  shows "x86_insn_decode over zero_insn (opc # le_bytes 4 rel @ rest) conf =
     Inr (zero_insn\<lparr>primary_opcode := opc, insn_spec := x86_opcode_map_one_byte ! unat opc,
               immediate_offset := 1, immediate := ucast rel, insn_length := 5\<rparr>)"
  using assms by (rule decode_near_branch_insn)

theorem decode_near_branch_witness:
  "x86_insn_decode [] zero_insn (0xE8 # le_bytes 4 (0x12345678 :: u32) @ replicate 10 0) \<lparr>opt_mode = 64\<rparr> =
     Inr (zero_insn\<lparr>primary_opcode := 0xE8, insn_spec := x86_opcode_map_one_byte ! 0xE8,
               immediate_offset := 1, immediate := 0x12345678, insn_length := 5\<rparr>)"
  using decode_near_branch [of "\<lparr>opt_mode = 64\<rparr>" "[]" "0xE8" "replicate 10 0" "0x12345678"]
  by (simp add: over_clean_def)

subsection \<open>RIP-relative operands\<close>

definition modrm_only :: "x86_insn_spec \<Rightarrow> bool" where
  "modrm_only s \<longleftrightarrow> first_immediate_type (spec_operands s) = None
     \<and> list_ex (\<lambda>(c, _). c = CHR ''G'' \<or> c = CHR ''E'' \<or> c = CHR ''M'' \<or> c = CHR ''R'') (spec_operands s)"

lemma modrm_only_scans:
  assumes "modrm_only s" and "spec_ok s" and "over_clean over"
  shows "x86_insn_has_modrm_byte over s" "\<not> x86_insn_has_immediate over s"
proof -
  have f: "flags_ok (spec_flags s)" using assms(2) by (simp add: spec_ok_def)
  have imm: "first_immediate_type os = None \<Longrightarrow> \<not> list_ex (\<lambda>(c, _). is_imm_code c) os" for os
    by (induction os rule: first_immediate_type.induct) (auto split: if_splits)
  show "x86_insn_has_modrm_byte over s" "\<not> x86_insn_has_immediate over s"
    using assms(1) imm scans_three [OF f assms(3)] by (auto simp: modrm_only_def)
qed

lemma rip_rm: "modrm_rm m = 5 \<Longrightarrow> (push_bit 3 r OR modrm_rm m) AND 7 = (5 :: u8)"
proof -
  have "push_bit 3 r AND mask 3 = (0 :: u8)"
    by (rule bit_word_eqI) (auto simp: bit_and_iff bit_push_bit_iff bit_mask_iff)
  then have "push_bit 3 r AND 7 = (0 :: u8)"
    by (simp add: mask_eq_exp_minus_1)
  then show "modrm_rm m = 5 \<Longrightarrow> (push_bit 3 r OR modrm_rm m) AND 7 = (5 :: u8)"
    by (simp add: and.commute bit.conj_disj_distrib)
qed

definition rip_insn :: "u8 list \<Rightarrow> u8 \<Rightarrow> u8 \<Rightarrow> u32 \<Rightarrow> x86_insn_decode_t" where
  "rip_insn rex opc m disp = zero_insn\<lparr>
     insn_flags := FLAG_IP_RELATIVE, insn_length := of_nat (length rex + 6),
     displacement_offset := of_nat (length rex + 2),
     insn_operands := [zero_operand\<lparr>op_reg := push_bit 3 (REX_R (if rex = [] then 0 else hd rex)) OR modrm_reg m\<rparr>,
        zero_operand\<lparr>mem_base := ia32e_code RIP, mem_disp := disp\<rparr>, zero_operand],
     insn_rex := (if rex = [] then 0 else hd rex), primary_opcode := opc, insn_modrm := m,
     insn_spec := x86_opcode_map_one_byte ! unat opc\<rparr>"

lemma decode_prefix_rex:
  assumes "drop (rd_cursor rd) (rd_mem rd) = rex @ opc # rest" and "rex_bytes conf rex" and "plain_opcode conf opc"
  shows "x86_insn_decode_prefix rd insn conf 0 =
    Inr (0, rd_advance (length rex) rd, if rex = [] then insn else rex_insn (hd rex) insn)"
proof (cases rex)
  case Nil
  then show ?thesis using decode_prefix_none [of rd opc rest conf insn] assms by simp
next
  case (Cons r rs)
  then have "rs = []" "is_rex conf r" using assms(2) by (auto simp: rex_bytes_def)
  moreover have "legacy_prefix r = 0" using \<open>is_rex conf r\<close> legacy_prefix_not_rex by blast
  ultimately show ?thesis
    using decode_prefix_run [of rd "[]" r "opc # rest" insn conf 0] assms(1) Cons by simp
qed

lemma decode_modrm_rip:
  fixes disp :: u32
  assumes mode: "opt_mode conf = 64" and inb: "rd_in_buffer rd" and pfx: "insn_prefix insn = 0"
    and ops: "insn_operands insn = [a, b, c]" and m: "modrm_mode m = 0" "modrm_rm m = 5"
    and d: "drop (rd_cursor rd) (rd_mem rd) = m # le_bytes 4 disp @ tail"
  shows "x86_insn_decode_modrm_sib rd insn conf =
     Inr (insn\<lparr>insn_flags := FLAG_IP_RELATIVE, displacement_offset := of_nat (rd_cursor rd + 1),
        insn_modrm := m,
        insn_operands := [a\<lparr>op_reg := push_bit 3 (REX_R (insn_rex insn)) OR modrm_reg m\<rparr>,
           b\<lparr>mem_base := ia32e_code RIP, mem_disp := disp\<rparr>, c]\<rparr>, rd_advance 5 rd)"
proof -
  note d1 = rd_peek_1(3) [OF d]
  have disp: "ucast (ucast disp :: u64) = disp"
    by (rule bit_word_eqI) (simp add: bit_unsigned_iff)
  show ?thesis
    using mode inb pfx ops
    by (simp add: x86_insn_decode_modrm_sib_def rd_peek_1(2) [OF d, simplified] m
        rip_rm [OF m(2), unfolded m(2), simplified] effective_address_bits_def decode_mem_32_64_def Let_def
        modrm_disp_bits_def decode_displacement_def reader_offset_def x86_insn_decode_number_def
        rd_peek_4 [OF d1, simplified] upd_operand_def set_flag_def disp)
qed

lemma decode_rip_relative_insn:
  fixes disp :: u32
  assumes mode: "opt_mode conf = 64" and clean: "over_clean over"
    and opc: "plain_opcode conf opc" "modrm_only (x86_opcode_map_one_byte ! unat opc)"
    and rex: "rex_bytes conf rex" and m: "modrm_mode m = 0" "modrm_rm m = 5"
    and len: "9 \<le> length rest"
  shows "x86_insn_decode over zero_insn (rex @ opc # m # le_bytes 4 disp @ rest) conf =
     Inr (rip_insn rex opc m disp)"
proof -
  let ?s = "x86_opcode_map_one_byte ! unat opc" and ?buf = "rex @ opc # m # le_bytes 4 disp @ rest"
  let ?k = "length rex"
  define rd where "rd = reader15 ?buf"
  have k: "?k \<le> 1" using rex by (auto simp: rex_bytes_def)
  have l15: "15 \<le> length ?buf" using len by simp
  have rd0: "init_reader ?buf 15 = Inr rd" "rd_in_buffer rd" "rd_cursor rd = 0"
    using init_reader15 [OF l15] by (simp_all add: rd_def)
  have d: "drop (rd_cursor rd) (rd_mem rd)
      = rex @ opc # m # le_bytes 4 disp @ take (9 - ?k) rest @ replicate 5 0xCC"
    using k by (auto simp: rd_def take_Cons' le_Suc_eq)
  note d0 = rd_drop_advance [OF d refl]
  have d1: "drop (rd_cursor (rd_advance (Suc ?k) rd)) (rd_mem (rd_advance (Suc ?k) rd))
      = m # le_bytes 4 disp @ take (9 - ?k) rest @ replicate 5 0xCC"
    using rd_peek_1(3) [OF d0] by simp
  note scans = modrm_only_scans [OF opc(2) spec_ok_one_byte clean]
  have inb: "rd_in_buffer (rd_advance (Suc ?k) rd)" using rd0(2) by simp
  note mod = decode_modrm_rip [OF mode inb _ _ m d1]
  define insn1 where "insn1 = (if rex = [] then zero_insn else rex_insn (hd rex) zero_insn)"
  have ops: "insn_operands insn1 = [zero_operand, zero_operand, zero_operand]"
    by (simp add: insn1_def zero_insn_def rex_insn_def set_flag_def)
  have "x86_insn_decode over zero_insn ?buf conf =
     Inr (insn1\<lparr>insn_prefix := 0, primary_opcode := opc, insn_spec := ?s,
        insn_flags := FLAG_IP_RELATIVE, displacement_offset := of_nat (Suc ?k + 1), insn_modrm := m,
        insn_operands := [zero_operand\<lparr>op_reg := push_bit 3 (REX_R (insn_rex insn1)) OR modrm_reg m\<rparr>,
           zero_operand\<lparr>mem_base := ia32e_code RIP, mem_disp := disp\<rparr>, zero_operand],
        insn_length := of_nat (5 + Suc ?k)\<rparr>)"
    using rd0(2,3) ops
    by (simp add: x86_insn_decode_def rd0(1) decode_prefix_rex [OF d rex opc(1)] insn1_def [symmetric]
        decode_opcode_plain [OF opc(1) d0] scans mod reader_offset_def)
  also have "\<dots> = Inr (rip_insn rex opc m disp)"
    by (simp add: insn1_def rip_insn_def zero_insn_def rex_insn_def set_flag_def)
  finally show ?thesis .
qed



subsection \<open>Where the decoded length is wrong\<close>

text \<open>
  C18: \<^verbatim>\<open>mov r64, imm64\<close> (\<^verbatim>\<open>REX.W B8+r\<close>) is ten bytes long, but the decoder reports six, because
  \<^verbatim>\<open>read_qword\<close> loads eight bytes and advances by four: the immediate is right and the length is not.
\<close>

theorem decode_mov_imm64_length:
  fixes v :: u64
  assumes clean: "over_clean over" and len: "5 \<le> length rest"
  shows "\<exists>insn. x86_insn_decode over zero_insn (0x48 # 0xB8 # le_bytes 8 v @ rest) \<lparr>opt_mode = 64\<rparr> = Inr insn
     \<and> immediate insn = v \<and> immediate_offset insn = 2 \<and> insn_length insn = 6"
proof -
  let ?c = "\<lparr>opt_mode = 64\<rparr>" and ?buf = "0x48 # 0xB8 # le_bytes 8 v @ rest"
  define rd where "rd = reader15 ?buf"
  have rd0: "init_reader ?buf 15 = Inr rd" "rd_in_buffer rd" "rd_cursor rd = 0"
    using init_reader15 [of ?buf] len by (simp_all add: rd_def)
  have d: "drop (rd_cursor rd) (rd_mem rd) = [0x48] @ 0xB8 # le_bytes 8 v @ take 5 rest @ replicate 5 0xCC"
    by (simp add: rd_def)
  have spec: "x86_opcode_map_one_byte ! unat (0xB8 :: u8) = op2f ''mov'' 0 ''AX'' ''Iv''"
    by (simp add: x86_opcode_map_one_byte_def one_byte_rows foreach_defs op2_def)
  have plain: "plain_opcode ?c 0xB8"
    by (simp add: plain_opcode_def spec [simplified] op_defs legacy_prefix_def is_rex_def)
  have only: "imm_only (x86_opcode_map_one_byte ! unat (0xB8 :: u8)) CHR ''v''"
    by (simp only: spec) (simp add: imm_only_def op_defs is_imm_code_def)
  have rex: "rex_bytes ?c [0x48]" by (simp add: rex_bytes_def is_rex_def)
  note d0 = rd_drop_advance [OF d refl]
  have d1: "drop (rd_cursor (rd_advance 2 rd)) (rd_mem (rd_advance 2 rd)) = le_bytes 8 v @ take 5 rest @ replicate 5 0xCC"
    using rd_peek_1(3) [OF d0] by simp
  have q: "read_qword (rd_advance 2 rd) = Inr (v, rd_advance 6 rd)"
    using d1 rd0(3) len by (simp add: read_qword_def rd_peek_def rd_def)
  note scans = imm_only_scans [OF only spec_ok_one_byte clean]
  have w: "REX_W 0x48 \<noteq> 0" by (simp add: REX_W_def)
  have o': "x86_insn_decode_opcode (rd_advance (Suc 0) rd) insn ?c =
      Inr (insn\<lparr>primary_opcode := 0xB8, insn_spec := x86_opcode_map_one_byte ! unat (0xB8 :: u8)\<rparr>,
           rd_advance 2 rd)" for insn
    using decode_opcode_plain [OF plain d0, of insn] by (simp add: numeral_2_eq_2)
  show ?thesis
    using rd0 q w
    by (simp add: x86_insn_decode_def decode_prefix_rex [OF d rex plain] o'
        scans [simplified] x86_insn_decode_immediate_def x86_insn_imm_bits_def effective_operand_bits_def
        rex_insn_def zero_insn_def set_flag_def insn_flag_defs x86_insn_decode_number_def reader_offset_def)
qed

theorem decode_mov_imm64_length_witness:
  "\<exists>insn. x86_insn_decode [] zero_insn (0x48 # 0xB8 # le_bytes 8 (7 :: u64) @ replicate 5 0) \<lparr>opt_mode = 64\<rparr> = Inr insn
     \<and> immediate insn = 7 \<and> immediate_offset insn = 2 \<and> insn_length insn = 6"
  by (rule decode_mov_imm64_length) (simp_all add: over_clean_def)

lemma group35_specs:
  "x86_opcode_map_one_byte ! 0xF6 = op0f ''modrm_group_3'' X86_INSN_FLAG_MODRM_REG_GROUP_3"
  "x86_opcode_map_one_byte ! 0xF7 = op0f ''modrm_group_3'' X86_INSN_FLAG_MODRM_REG_GROUP_3"
  "x86_opcode_map_one_byte ! 0xFF = op0f ''modrm_group_5'' X86_INSN_FLAG_MODRM_REG_GROUP_5"
  by (simp_all add: x86_opcode_map_one_byte_def one_byte_rows foreach_defs)

lemma group35_of:
  "opc = 0xF6 \<or> opc = 0xF7 \<or> opc = (0xFF :: u8) \<Longrightarrow>
     (x86_opcode_map_one_byte ! unat opc = op0f ''modrm_group_3'' X86_INSN_FLAG_MODRM_REG_GROUP_3)
     \<or> (x86_opcode_map_one_byte ! unat opc = op0f ''modrm_group_5'' X86_INSN_FLAG_MODRM_REG_GROUP_5)"
  using group35_specs by (elim disjE) simp_all

lemma spec_op0f:
  "spec_operands (op0f x f) = replicate 3 (CHR ''_'', CHR ''_'')" "spec_flags (op0f x f) = f"
  by (simp_all add: op_defs numeral_3_eq_3)

lemma group35_numbers:
  "X86_INSN_FLAG_GET_GROUP (X86_INSN_FLAG_SET_GROUP 4) = 4"
  "X86_INSN_FLAG_GET_GROUP (X86_INSN_FLAG_SET_GROUP 6) = 6"
  by (simp_all add: X86_INSN_FLAG_GET_GROUP_def X86_INSN_FLAG_SET_GROUP_def)

text \<open>
  The opcodes \<^verbatim>\<open>F6\<close>, \<^verbatim>\<open>F7\<close> and \<^verbatim>\<open>FF\<close> take their operands from a ModR/M group, but the decoder
  copies only the group entry's name and flags: whatever ModR/M byte follows, the instruction (for
  example the \<^verbatim>\<open>FF 25\<close> of a PLT stub) decodes with length 1.
\<close>

theorem decode_group35_length_one:
  assumes clean: "over_clean over" and opc: "opc \<in> {0xF6, 0xF7, 0xFF}" and len: "13 \<le> length rest"
  shows "\<exists>insn. x86_insn_decode over zero_insn (opc # m # rest) conf = Inr insn
     \<and> primary_opcode insn = opc \<and> insn_length insn = 1"
proof -
  let ?s = "x86_opcode_map_one_byte ! unat opc" and ?buf = "opc # m # rest"
  define rd where "rd = reader15 ?buf"
  have rd0: "init_reader ?buf 15 = Inr rd" "rd_in_buffer rd" "rd_cursor rd = 0"
    using init_reader15 [of ?buf] len by (simp_all add: rd_def)
  have d: "drop (rd_cursor rd) (rd_mem rd) = opc # m # take 13 rest @ replicate 5 0xCC"
    by (simp add: rd_def)
  have opc': "legacy_prefix opc = 0" "\<not> is_rex conf opc" "opc \<noteq> 0x0F"
    using opc by (auto simp: legacy_prefix_def is_rex_def)
  have p: "x86_insn_decode_prefix rd zero_insn conf 0 = Inr (0, rd, zero_insn)"
    using decode_prefix_run [of rd "[]" opc _ zero_insn conf 0] d opc' by simp
  have spec: "spec_operands ?s = replicate 3 (CHR ''_'', CHR ''_'')"
      "X86_INSN_FLAG_GET_GROUP (spec_flags ?s) = 4 \<or> X86_INSN_FLAG_GET_GROUP (spec_flags ?s) = 6"
    using opc group35_of [of opc] by (auto simp: spec_op0f group35_numbers)
  define s' where "s' = ?s\<lparr>spec_name := spec_name (group_entry ?s m), spec_flags := spec_flags (group_entry ?s m)\<rparr>"
  have o': "x86_insn_decode_opcode rd (zero_insn\<lparr>insn_prefix := 0\<rparr>) conf
      = Inr (zero_insn\<lparr>insn_prefix := 0, primary_opcode := opc, insn_spec := s'\<rparr>, rd_advance 1 rd)"
  proof -
    have l: "lookup_opcode rd = Inr (opc, ?s, rd_advance 1 rd)"
      using opc'(3) by (simp add: lookup_opcode_def rd_peek_1(2) [OF d, simplified])
    have g: "X86_INSN_FLAG_GET_GROUP (spec_flags ?s) > X86_INSN_GROUP_START"
        "X86_INSN_FLAG_GET_GROUP (spec_flags ?s) < X86_INSN_SSE_GROUP_START"
      using spec(2) by (auto simp: X86_INSN_SSE_GROUP_START_def X86_INSN_GROUP_START_def)
    then show ?thesis
      by (simp add: x86_insn_decode_opcode_def l rd_peek_1(1) [OF rd_peek_1(3) [OF d], simplified]
          Let_def s'_def)
  qed
  have ok: "flags_ok (spec_flags s')"
    using group_entry_spec_ok [of ?s m] spec(2)
    by (auto simp: s'_def spec_ok_def X86_INSN_SSE_GROUP_START_def)
  have ops: "spec_operands s' = replicate 3 (CHR ''_'', CHR ''_'')" by (simp add: s'_def spec(1))
  show ?thesis
    using rd0 scans_three [OF ok clean] ops
    by (simp add: x86_insn_decode_def p o' is_imm_code_def reader_offset_def numeral_3_eq_3)
qed

theorem decode_group35_length_one_witness:
  "\<exists>insn. x86_insn_decode [] zero_insn (0xFF # 0x25 # replicate 13 0) \<lparr>opt_mode = 64\<rparr> = Inr insn
     \<and> primary_opcode insn = 0xFF \<and> insn_length insn = 1"
  by (rule decode_group35_length_one) (simp_all add: over_clean_def)

end
