(* ===== verification/Lite_Containers.thy ===== *)
theory Lite_Containers
  imports Dobby_Prelude
begin

text \<open>
  The container classes of \<^verbatim>\<open>external/xnucxx\<close> and the code buffers built on them: \<^verbatim>\<open>LiteMemOpt\<close>,
  \<^verbatim>\<open>LiteMutableBuffer\<close>, \<^verbatim>\<open>LiteMutableArray\<close>, the collection iterator, \<^verbatim>\<open>CodeBufferBase\<close> and the
  per-architecture \<^verbatim>\<open>CodeBuffer\<close>. The C library's \<^verbatim>\<open>malloc\<close> is a parameter: it gives, for a size,
  either nothing or a block of that many bytes of any content. The interface \<open>growable\<close> states what
  the clients rely on: what is appended is what is read back, in order.
\<close>

section \<open>Allocation\<close>

type_synonym malloc_fun = "u64 \<Rightarrow> u8 list option"

text \<open>The size parameter of \<^verbatim>\<open>LiteMemOpt::alloc\<close> is an \<^verbatim>\<open>int\<close>, widened to \<^verbatim>\<open>size_t\<close> with its sign.\<close>

definition LiteMemOpt_alloc :: "malloc_fun \<Rightarrow> u32 \<Rightarrow> u8 list option" where
  "LiteMemOpt_alloc malloc sz = malloc (scast sz)"

definition malloc_blocks :: "malloc_fun \<Rightarrow> bool" where
  "malloc_blocks malloc \<longleftrightarrow> (\<forall>n b. malloc n = Some b \<longrightarrow> length b = unat n)"

definition malloc_serves :: "malloc_fun \<Rightarrow> bool" where
  "malloc_serves malloc \<longleftrightarrow> malloc_blocks malloc \<and> (\<forall>n. unat n < 2 ^ 31 \<longrightarrow> malloc n \<noteq> None)"

section \<open>LiteMutableBuffer\<close>

record LiteMutableBuffer =
  lb_buffer :: "u8 list option"
  lb_cursor :: nat
  lb_capacity :: u32

definition lb_initWithCapacity :: "malloc_fun \<Rightarrow> u32 \<Rightarrow> LiteMutableBuffer result" where
  "lb_initWithCapacity malloc initCapacity =
     (if initCapacity = 0 then Inl UNINITIALISED
      else Inr \<lparr>lb_buffer = LiteMemOpt_alloc malloc initCapacity, lb_cursor = 0,
                lb_capacity = initCapacity\<rparr>)"

definition lb_getSize :: "LiteMutableBuffer \<Rightarrow> u32" where
  "lb_getSize lb = of_nat (lb_cursor lb)"

definition block_of :: "u8 list option \<Rightarrow> u8 list" where
  "block_of m = (case m of None \<Rightarrow> [] | Some b \<Rightarrow> b)"

text \<open>Copying \<open>bs\<close> over a block at an offset: \<^verbatim>\<open>memcpy\<close> and the typed stores.\<close>

definition store_bytes :: "nat \<Rightarrow> u8 list \<Rightarrow> u8 list \<Rightarrow> u8 list result" where
  "store_bytes off bs m =
     (if off + length bs \<le> length m then Inr (take off m @ bs @ drop (off + length bs) m)
      else Inl OVERWRITE)"

definition lb_ensureCapacity ::
  "malloc_fun \<Rightarrow> u32 \<Rightarrow> LiteMutableBuffer \<Rightarrow> (u32 \<times> LiteMutableBuffer) result" where
  "lb_ensureCapacity malloc newCapacity0 lb =
     (if newCapacity0 \<le> lb_capacity lb then Inr (lb_capacity lb, lb)
      else
        (let newCapacity = newCapacity0 + newCapacity0 div 2
         in case LiteMemOpt_alloc malloc newCapacity of
              None \<Rightarrow> Inr (0, lb)
            | Some newBuffer \<Rightarrow>
                (let origin = lb_cursor lb
                 in if origin \<le> length (block_of (lb_buffer lb))
                    then rbind (store_bytes 0 (take origin (block_of (lb_buffer lb)))
                                  (replicate (length newBuffer) 0x41)) (\<lambda>m.
                         Inr (newCapacity, lb\<lparr>lb_buffer := Some m, lb_cursor := origin,
                                              lb_capacity := newCapacity\<rparr>))
                    else Inl OVERREAD)))"

definition lb_release :: "LiteMutableBuffer \<Rightarrow> LiteMutableBuffer" where
  "lb_release lb = (if lb_buffer lb \<noteq> None then lb\<lparr>lb_buffer := None\<rparr> else lb)"

section \<open>CodeBufferBase\<close>

text \<open>
  The bodies of \<^verbatim>\<open>Emit8\<close> to \<^verbatim>\<open>Emit64\<close> and \<^verbatim>\<open>EmitBuffer\<close> are the same: reserve, store, advance. The
  result of \<^verbatim>\<open>ensureCapacity\<close> is not looked at.
\<close>

definition lb_emit :: "malloc_fun \<Rightarrow> u8 list \<Rightarrow> LiteMutableBuffer \<Rightarrow> LiteMutableBuffer result" where
  "lb_emit malloc bs lb =
     rbind (lb_ensureCapacity malloc (of_nat (length bs) + lb_getSize lb) lb) (\<lambda>(_, lb').
     rbind (store_bytes (lb_cursor lb') bs (block_of (lb_buffer lb'))) (\<lambda>m.
       Inr (lb'\<lparr>lb_buffer := Some m, lb_cursor := lb_cursor lb' + length bs\<rparr>)))"

definition Emit8 :: "malloc_fun \<Rightarrow> u8 \<Rightarrow> LiteMutableBuffer \<Rightarrow> LiteMutableBuffer result" where
  "Emit8 malloc v lb = lb_emit malloc (le_bytes 1 v) lb"

definition Emit16 :: "malloc_fun \<Rightarrow> u16 \<Rightarrow> LiteMutableBuffer \<Rightarrow> LiteMutableBuffer result" where
  "Emit16 malloc v lb = lb_emit malloc (le_bytes 2 v) lb"

definition Emit32 :: "malloc_fun \<Rightarrow> u32 \<Rightarrow> LiteMutableBuffer \<Rightarrow> LiteMutableBuffer result" where
  "Emit32 malloc v lb = lb_emit malloc (le_bytes 4 v) lb"

definition Emit64 :: "malloc_fun \<Rightarrow> u64 \<Rightarrow> LiteMutableBuffer \<Rightarrow> LiteMutableBuffer result" where
  "Emit64 malloc v lb = lb_emit malloc (le_bytes 8 v) lb"

definition EmitBuffer :: "malloc_fun \<Rightarrow> u8 list \<Rightarrow> LiteMutableBuffer \<Rightarrow> LiteMutableBuffer result" where
  "EmitBuffer malloc bs lb = lb_emit malloc bs lb"

definition CodeBufferBase_Copy :: "malloc_fun \<Rightarrow> LiteMutableBuffer \<Rightarrow> LiteMutableBuffer result" where
  "CodeBufferBase_Copy malloc lb =
     rbind (lb_initWithCapacity malloc (lb_capacity lb)) (\<lambda>result.
       EmitBuffer malloc (take (lb_cursor lb) (block_of (lb_buffer lb))) result)"

text \<open>
  \<^verbatim>\<open>FixBindLabel\<close> of the arm64, x64 and x86 code buffers and the \<^verbatim>\<open>Rewrite*\<close> of the arm one store at an
  offset; \<^verbatim>\<open>LoadInst\<close>, \<^verbatim>\<open>LoadARMInst\<close> and \<^verbatim>\<open>LoadThumb2Inst\<close> load four bytes, \<^verbatim>\<open>LoadThumb1Inst\<close> two.
\<close>

definition lb_rewrite :: "nat \<Rightarrow> u8 list \<Rightarrow> LiteMutableBuffer \<Rightarrow> LiteMutableBuffer result" where
  "lb_rewrite off bs lb =
     rbind (store_bytes off bs (block_of (lb_buffer lb))) (\<lambda>m. Inr (lb\<lparr>lb_buffer := Some m\<rparr>))"

definition FixBindLabel :: "nat \<Rightarrow> u32 \<Rightarrow> LiteMutableBuffer \<Rightarrow> LiteMutableBuffer result" where
  "FixBindLabel off v lb = lb_rewrite off (le_bytes 4 v) lb"

definition RewriteThumb1Inst :: "nat \<Rightarrow> u16 \<Rightarrow> LiteMutableBuffer \<Rightarrow> LiteMutableBuffer result" where
  "RewriteThumb1Inst off v lb = lb_rewrite off (le_bytes 2 v) lb"

definition LoadInst :: "nat \<Rightarrow> LiteMutableBuffer \<Rightarrow> u32 result" where
  "LoadInst off lb =
     (if off + 4 \<le> length (block_of (lb_buffer lb))
      then Inr (le_word (take 4 (drop off (block_of (lb_buffer lb))))) else Inl OVERREAD)"

definition LoadThumb1Inst :: "nat \<Rightarrow> LiteMutableBuffer \<Rightarrow> u16 result" where
  "LoadThumb1Inst off lb =
     (if off + 2 \<le> length (block_of (lb_buffer lb))
      then Inr (le_word (take 2 (drop off (block_of (lb_buffer lb))))) else Inl OVERREAD)"

section \<open>LiteMutableArray\<close>

text \<open>Pointers are 64-bit words; the block the allocator returns is read eight bytes at a time.\<close>

fun words8 :: "u8 list \<Rightarrow> u64 list" where
  "words8 (a # b # c # d # e # f # g # h # bs) = le_word [a, b, c, d, e, f, g, h] # words8 bs"
| "words8 _ = []"

record LiteMutableArray =
  la_array :: "u64 list option"
  la_count :: u32
  la_capacity :: u32

definition CAPACITY_STEP :: u64 where
  "CAPACITY_STEP = 64"

definition la_new :: "malloc_fun \<Rightarrow> u32 \<Rightarrow> LiteMutableArray" where
  "la_new malloc initCapacity =
     \<lparr>la_array = map_option words8 (LiteMemOpt_alloc malloc (initCapacity * 8)),
      la_count = 0, la_capacity = initCapacity\<rparr>"

definition words_of :: "u64 list option \<Rightarrow> u64 list" where
  "words_of m = (case m of None \<Rightarrow> [] | Some b \<Rightarrow> b)"

definition la_getObject :: "LiteMutableArray \<Rightarrow> nat \<Rightarrow> u64 result" where
  "la_getObject la ndx =
     (if ndx < length (words_of (la_array la)) then Inr (words_of (la_array la) ! ndx) else Inl OVERREAD)"

definition la_ensureCapacity ::
  "malloc_fun \<Rightarrow> u32 \<Rightarrow> LiteMutableArray \<Rightarrow> (u32 \<times> LiteMutableArray) result" where
  "la_ensureCapacity malloc newCapacity0 la =
     (if newCapacity0 \<le> la_capacity la then Inr (la_capacity la, la)
      else
        (let newCapacity = ucast (ALIGN_FLOOR (ucast newCapacity0 + CAPACITY_STEP) CAPACITY_STEP) :: u32
         in case LiteMemOpt_alloc malloc (8 * newCapacity) of
              None \<Rightarrow> Inr (0, la)
            | Some newArray \<Rightarrow>
                (let n = unat (scast (8 * la_count la) :: u64) div 8; cleared = replicate (length (words8 newArray)) 0x4141414141414141
                 in if length (words_of (la_array la)) < n then Inl OVERREAD
                    else if length cleared < n then Inl OVERWRITE
                    else Inr (newCapacity,
                              la\<lparr>la_array := Some (take n (words_of (la_array la)) @ drop n cleared),
                                 la_capacity := newCapacity\<rparr>))))"

definition la_pushObject ::
  "malloc_fun \<Rightarrow> u64 \<Rightarrow> LiteMutableArray \<Rightarrow> (bool \<times> LiteMutableArray) result" where
  "la_pushObject malloc obj la =
     (let newCount = la_count la + 1
      in rbind (if newCount > la_capacity la
                then rbind (la_ensureCapacity malloc newCount la) (\<lambda>(c, la'). Inr (newCount > c, la'))
                else Inr (False, la)) (\<lambda>(failed, la').
         if failed then Inr (False, la')
         else if unat (la_count la') < length (words_of (la_array la'))
              then Inr (True, la'\<lparr>la_array := Some ((words_of (la_array la'))[unat (la_count la') := obj]),
                                  la_count := la_count la' + 1\<rparr>)
              else Inl OVERWRITE))"

definition la_release :: "LiteMutableArray \<Rightarrow> LiteMutableArray" where
  "la_release la = (if la_array la \<noteq> None then la\<lparr>la_array := None\<rparr> else la)"

subsection \<open>The iterator\<close>

text \<open>The iterator's state is the index cell \<^verbatim>\<open>innerIterator\<close> points to; a null object is 0.\<close>

definition la_initIterator :: u32 where
  "la_initIterator = 0"

definition la_getNextObjectForIterator :: "LiteMutableArray \<Rightarrow> u32 \<Rightarrow> (bool \<times> u64 \<times> u32) result" where
  "la_getNextObjectForIterator la ndx =
     (if ndx < la_count la
      then rbind (la_getObject la (unat ndx)) (\<lambda>obj. Inr (True, obj, ndx + 1))
      else Inr (False, 0, ndx + 1))"

definition LiteCollectionIterator_getNextObject :: "LiteMutableArray \<Rightarrow> u32 \<Rightarrow> (u64 \<times> u32) result" where
  "LiteCollectionIterator_getNextObject la ndx =
     rbind (la_getNextObjectForIterator la ndx) (\<lambda>(_, obj, ndx'). Inr (obj, ndx'))"

text \<open>The clients' loop \<^verbatim>\<open>while ((obj = iter->getNextObject()) != NULL)\<close>, with fuel.\<close>

fun iterate_objects :: "nat \<Rightarrow> LiteMutableArray \<Rightarrow> u32 \<Rightarrow> u64 list result option" where
  "iterate_objects 0 la ndx = None"
| "iterate_objects (Suc fuel) la ndx =
     (case LiteCollectionIterator_getNextObject la ndx of
        Inl e \<Rightarrow> Some (Inl e)
      | Inr (obj, ndx') \<Rightarrow>
          if obj = 0 then Some (Inr [])
          else map_option (\<lambda>r. rbind r (\<lambda>os. Inr (obj # os))) (iterate_objects fuel la ndx'))"


section \<open>The interface\<close>

text \<open>
  A growable store: an abstraction to the list of what was put in, an invariant, and room for the next
  \<open>n\<close> items. Appending succeeds while there is room, keeps the invariant and extends the list.
\<close>

locale growable =
  fixes contents :: "'s \<Rightarrow> 'a list"
    and ok :: "'s \<Rightarrow> bool"
    and room :: "nat \<Rightarrow> 's \<Rightarrow> bool"
    and append_chunk :: "'a list \<Rightarrow> 's \<Rightarrow> 's result"
  assumes append_ok: "ok s \<Longrightarrow> room (length xs) s \<Longrightarrow> \<exists>s'. append_chunk xs s = Inr s' \<and> ok s'
      \<and> contents s' = contents s @ xs \<and> (\<forall>n. room (length xs + n) s \<longrightarrow> room n s')"
    and room_mono: "room n s \<Longrightarrow> m \<le> n \<Longrightarrow> room m s"
begin

lemma append_all_concat:
  assumes "ok s" and "room (length (concat xss)) s"
  shows "\<exists>s'. rfold append_chunk xss s = Inr s' \<and> ok s' \<and> contents s' = contents s @ concat xss"
  using assms
proof (induction xss arbitrary: s)
  case (Cons xs xss)
  have "room (length xs) s"
    using room_mono [OF Cons.prems(2)] by simp
  then obtain s1 where s1: "append_chunk xs s = Inr s1" "ok s1" "contents s1 = contents s @ xs"
      "room (length (concat xss)) s1"
    using append_ok [OF Cons.prems(1)] Cons.prems(2) by auto
  then show ?case using Cons.IH [of s1] by auto
qed simp

end

section \<open>The buffer is growable\<close>

definition lb_ok :: "LiteMutableBuffer \<Rightarrow> bool" where
  "lb_ok lb \<longleftrightarrow> (\<exists>m. lb_buffer lb = Some m \<and> length m = unat (lb_capacity lb) \<and> lb_cursor lb \<le> length m)"

definition lb_contents :: "LiteMutableBuffer \<Rightarrow> u8 list" where
  "lb_contents lb = take (lb_cursor lb) (block_of (lb_buffer lb))"

text \<open>
  Room for \<open>n\<close> more bytes: the allocator serves every request below two gigabytes, and the grown
  capacity, one and a half times what is needed, stays below that.
\<close>

definition lb_room :: "malloc_fun \<Rightarrow> nat \<Rightarrow> LiteMutableBuffer \<Rightarrow> bool" where
  "lb_room malloc n lb \<longleftrightarrow> malloc_serves malloc \<and> (lb_cursor lb + n) + (lb_cursor lb + n) div 2 < 2 ^ 31"

lemma malloc_served:
  assumes "malloc_serves malloc" and "unat n < 2 ^ 31"
  obtains b where "LiteMemOpt_alloc malloc n = Some b" and "length b = unat n"
proof -
  have "unat (scast n :: u64) < 2 ^ 31" using scast_small [OF assms(2)] assms(2) by simp
  then obtain b where b: "malloc (scast n) = Some b"
    using assms(1) unfolding malloc_serves_def by blast
  then have "length b = unat n"
    using assms(1) scast_small [OF assms(2)] by (simp add: malloc_serves_def malloc_blocks_def)
  with b that show thesis by (simp add: LiteMemOpt_alloc_def)
qed

lemma unat_grow:
  fixes n :: u32
  assumes "unat n + unat n div 2 < 2 ^ 31"
  shows "unat (n + n div 2) = unat n + unat n div 2"
  using assms by (simp add: unat_word_ariths unat_div)

lemma lb_ensureCapacity_ok:
  assumes ok: "lb_ok lb" and serves: "malloc_serves malloc"
    and small: "unat cap + unat cap div 2 < 2 ^ 31"
  shows "\<exists>c lb'. lb_ensureCapacity malloc cap lb = Inr (c, lb') \<and> lb_ok lb' \<and> lb_contents lb' = lb_contents lb
     \<and> lb_cursor lb' = lb_cursor lb \<and> cap \<le> lb_capacity lb' \<and> lb_capacity lb \<le> lb_capacity lb'"
proof (cases "cap \<le> lb_capacity lb")
  case True
  then show ?thesis using ok by (simp add: lb_ensureCapacity_def)
next
  case False
  obtain m where m: "lb_buffer lb = Some m" "length m = unat (lb_capacity lb)" "lb_cursor lb \<le> length m"
    using ok by (auto simp: lb_ok_def)
  let ?new = "cap + cap div 2"
  have new: "unat ?new = unat cap + unat cap div 2" by (rule unat_grow [OF small])
  obtain b where b: "LiteMemOpt_alloc malloc ?new = Some b" "length b = unat ?new"
    using malloc_served [OF serves, of ?new] new small by auto
  have le: "unat (lb_capacity lb) < unat cap" using False by (simp add: word_le_nat_alt)
  have cur: "lb_cursor lb \<le> unat ?new" using m le new by simp
  show ?thesis
    using False b m cur le new
    by (auto simp: lb_ensureCapacity_def Let_def block_of_def store_bytes_def lb_ok_def lb_contents_def
        word_le_nat_alt)
qed

lemma lb_emit_appends:
  assumes ok: "lb_ok lb" and room: "lb_room malloc (length bs) lb"
  shows "\<exists>lb'. lb_emit malloc bs lb = Inr lb' \<and> lb_ok lb' \<and> lb_contents lb' = lb_contents lb @ bs
     \<and> lb_cursor lb' = lb_cursor lb + length bs \<and> lb_capacity lb \<le> lb_capacity lb'"
proof -
  let ?cap = "of_nat (length bs) + lb_getSize lb"
  have cap: "unat ?cap = lb_cursor lb + length bs"
    using room by (simp add: lb_room_def lb_getSize_def unat_of_nat flip: of_nat_add)
  have small: "unat ?cap + unat ?cap div 2 < 2 ^ 31" and serves: "malloc_serves malloc"
    using room by (simp_all add: cap lb_room_def)
  obtain c lb' where e: "lb_ensureCapacity malloc ?cap lb = Inr (c, lb')" "lb_ok lb'"
      "lb_contents lb' = lb_contents lb" "lb_cursor lb' = lb_cursor lb" "?cap \<le> lb_capacity lb'"
      "lb_capacity lb \<le> lb_capacity lb'"
    using lb_ensureCapacity_ok [OF ok serves small] by blast
  obtain m where m: "lb_buffer lb' = Some m" "length m = unat (lb_capacity lb')"
    using e(2) by (auto simp: lb_ok_def)
  have fits: "lb_cursor lb + length bs \<le> length m"
    using e(5) cap m(2) by (simp add: word_le_nat_alt)
  have cont: "take (lb_cursor lb) m = lb_contents lb"
    using e(3,4) m(1) by (simp add: lb_contents_def block_of_def)
  show ?thesis
    using e(1,4,6) m fits
    by (auto simp: lb_emit_def store_bytes_def block_of_def lb_ok_def cont [symmetric])
      (simp add: lb_contents_def block_of_def)
qed

interpretation lb: growable lb_contents lb_ok "lb_room malloc" "lb_emit malloc" for malloc
proof
  fix s :: LiteMutableBuffer and xs :: "u8 list"
  assume "lb_ok s" and room: "lb_room malloc (length xs) s"
  then obtain s' where s': "lb_emit malloc xs s = Inr s'" "lb_ok s'" "lb_contents s' = lb_contents s @ xs"
      "lb_cursor s' = lb_cursor s + length xs"
    using lb_emit_appends by blast
  moreover have "lb_room malloc (length xs + n) s \<longrightarrow> lb_room malloc n s'" for n
    using s'(4) by (simp add: lb_room_def ac_simps)
  ultimately show "\<exists>s'. lb_emit malloc xs s = Inr s' \<and> lb_ok s' \<and> lb_contents s' = lb_contents s @ xs
      \<and> (\<forall>n. lb_room malloc (length xs + n) s \<longrightarrow> lb_room malloc n s')"
    by blast
next
  fix n m and s :: LiteMutableBuffer
  assume "lb_room malloc n s" and "m \<le> n"
  moreover have "m \<le> n \<Longrightarrow> (lb_cursor s + m) div 2 \<le> (lb_cursor s + n) div 2" by (intro div_le_mono) simp
  ultimately show "lb_room malloc m s" by (auto simp: lb_room_def)
qed

text \<open>
  C25: emitting any sequence of chunks into a buffer with room appends exactly their concatenation to its
  contents and keeps it well-formed, whatever the sequence of reallocations on the way; this is the
  contract every assembler relies on.
\<close>

theorem code_buffer_appends:
  assumes "lb_ok lb" and "lb_room malloc (length (concat chunks)) lb"
  shows "\<exists>lb'. rfold (EmitBuffer malloc) chunks lb = Inr lb' \<and> lb_ok lb' \<and> lb_contents lb' = lb_contents lb @ concat chunks"
  using lb.append_all_concat [OF assms] by (simp add: EmitBuffer_def [abs_def])

definition unit_malloc :: malloc_fun where
  "unit_malloc n = (if unat n < 2 ^ 31 then Some (replicate (unat n) 0) else None)"

lemma unit_malloc_serves: "malloc_serves unit_malloc"
  by (auto simp: malloc_serves_def malloc_blocks_def unit_malloc_def split: if_splits)

theorem code_buffer_appends_witness:
  "\<exists>lb'. rfold (EmitBuffer unit_malloc) [[1, 2], [3]] \<lparr>lb_buffer = Some [0, 0], lb_cursor = 0, lb_capacity = 2\<rparr> = Inr lb'
     \<and> lb_ok lb' \<and> lb_contents lb' = [1, 2, 3]"
  using code_buffer_appends [of "\<lparr>lb_buffer = Some [0, 0], lb_cursor = 0, lb_capacity = 2\<rparr>" unit_malloc "[[1, 2], [3]]"]
  by (simp add: lb_ok_def lb_room_def unit_malloc_serves lb_contents_def)

text \<open>
  A copy of a code buffer has the contents of the original, in a block of its own capacity.
\<close>

theorem code_buffer_copy:
  assumes ok: "lb_ok lb" and serves: "malloc_serves malloc"
    and cap: "0 < unat (lb_capacity lb)" "unat (lb_capacity lb) + unat (lb_capacity lb) div 2 < 2 ^ 31"
  shows "\<exists>lb'. CodeBufferBase_Copy malloc lb = Inr lb' \<and> lb_ok lb' \<and> lb_contents lb' = lb_contents lb"
proof -
  obtain b where b: "LiteMemOpt_alloc malloc (lb_capacity lb) = Some b" "length b = unat (lb_capacity lb)"
    using malloc_served [OF serves, of "lb_capacity lb"] cap by auto
  let ?new = "\<lparr>lb_buffer = Some b, lb_cursor = 0, lb_capacity = lb_capacity lb\<rparr>"
  have init: "lb_initWithCapacity malloc (lb_capacity lb) = Inr ?new"
    using cap(1) b(1) by (auto simp: lb_initWithCapacity_def)
  have new: "lb_ok ?new" "lb_contents ?new = []" using b by (simp_all add: lb_ok_def lb_contents_def)
  have le: "length (lb_contents lb) \<le> unat (lb_capacity lb)"
    using ok by (auto simp: lb_ok_def lb_contents_def block_of_def)
  have "length (lb_contents lb) + length (lb_contents lb) div 2 < 2 ^ 31"
    using cap(2) le div_le_mono [OF le, of 2] by linarith
  then have "lb_room malloc (length (lb_contents lb)) ?new" using serves by (simp add: lb_room_def)
  then obtain lb' where "lb_emit malloc (lb_contents lb) ?new = Inr lb'" "lb_ok lb'" "lb_contents lb' = lb_contents lb"
    using lb_emit_appends [OF new(1), of malloc "lb_contents lb"] new(2) by auto
  then show ?thesis
    by (simp add: CodeBufferBase_Copy_def init EmitBuffer_def lb_contents_def [symmetric])
qed

theorem code_buffer_copy_witness:
  "\<exists>lb'. CodeBufferBase_Copy unit_malloc \<lparr>lb_buffer = Some [7, 8], lb_cursor = 1, lb_capacity = 2\<rparr> = Inr lb'
     \<and> lb_ok lb' \<and> lb_contents lb' = [7]"
  using code_buffer_copy [of "\<lparr>lb_buffer = Some [7, 8], lb_cursor = 1, lb_capacity = 2\<rparr>" unit_malloc]
  by (simp add: lb_ok_def unit_malloc_serves lb_contents_def block_of_def)

text \<open>
  A displacement patched into emitted code is what a later load at the same offset returns, and no
  byte outside the patched four changes.
\<close>

theorem FixBindLabel_load:
  assumes "lb_ok lb" and "off + 4 \<le> lb_cursor lb"
  shows "\<exists>lb'. FixBindLabel off v lb = Inr lb' \<and> LoadInst off lb' = Inr v
     \<and> take off (lb_contents lb') = take off (lb_contents lb)
     \<and> drop (off + 4) (lb_contents lb') = drop (off + 4) (lb_contents lb)"
  using assms
  by (auto simp: FixBindLabel_def lb_rewrite_def lb_ok_def store_bytes_def block_of_def LoadInst_def
      lb_contents_def min_def drop_take)

theorem FixBindLabel_load_witness:
  "\<exists>lb'. FixBindLabel 1 0x11223344 \<lparr>lb_buffer = Some [0, 0, 0, 0, 0], lb_cursor = 5, lb_capacity = 5\<rparr> = Inr lb'
     \<and> LoadInst 1 lb' = Inr 0x11223344"
  using FixBindLabel_load [of "\<lparr>lb_buffer = Some [0, 0, 0, 0, 0], lb_cursor = 5, lb_capacity = 5\<rparr>" 1 "0x11223344"]
  by (auto simp: lb_ok_def)

text \<open>
  When the allocator refuses to grow the buffer the emit functions do not notice: they store past
  the end of the old block.
\<close>

theorem emit_after_failed_growth:
  assumes "lb_ok lb" and "\<forall>n. malloc n = None" and "bs \<noteq> []"
    and "unat (lb_capacity lb) < lb_cursor lb + length bs" and "lb_cursor lb + length bs < 2 ^ 32"
  shows "EmitBuffer malloc bs lb = Inl OVERWRITE"
proof -
  have cap: "unat (of_nat (length bs) + lb_getSize lb) = lb_cursor lb + length bs"
    using assms(5) by (simp add: lb_getSize_def unat_of_nat flip: of_nat_add)
  have "\<not> of_nat (length bs) + lb_getSize lb \<le> lb_capacity lb"
    using assms(4) cap by (simp add: word_le_nat_alt)
  then show ?thesis
    using assms(1,2,4)
    by (auto simp: EmitBuffer_def lb_emit_def lb_ensureCapacity_def LiteMemOpt_alloc_def store_bytes_def
        lb_ok_def block_of_def)
qed

theorem emit_after_failed_growth_witness:
  "EmitBuffer (\<lambda>_. None) [1, 2] \<lparr>lb_buffer = Some [0], lb_cursor = 0, lb_capacity = 1\<rparr> = Inl OVERWRITE"
  by (rule emit_after_failed_growth) (simp_all add: lb_ok_def)

section \<open>The array is growable\<close>

definition la_ok :: "LiteMutableArray \<Rightarrow> bool" where
  "la_ok la \<longleftrightarrow> (\<exists>a. la_array la = Some a \<and> length a = unat (la_capacity la) \<and> unat (la_count la) \<le> length a)"

definition la_contents :: "LiteMutableArray \<Rightarrow> u64 list" where
  "la_contents la = take (unat (la_count la)) (words_of (la_array la))"

definition la_room :: "malloc_fun \<Rightarrow> nat \<Rightarrow> LiteMutableArray \<Rightarrow> bool" where
  "la_room malloc n la \<longleftrightarrow> malloc_serves malloc \<and> unat (la_count la) + n + 64 < 2 ^ 28"

definition la_push_all :: "malloc_fun \<Rightarrow> u64 list \<Rightarrow> LiteMutableArray \<Rightarrow> LiteMutableArray result" where
  "la_push_all malloc = rfold (\<lambda>obj la. rbind (la_pushObject malloc obj la) (\<lambda>(_, la'). Inr la'))"

lemma length_words8: "length (words8 bs) = length bs div 8"
  by (induction bs rule: words8.induct) auto

lemma unat_times8:
  fixes n :: u32
  assumes "unat n < 2 ^ 28"
  shows "unat (8 * n) = 8 * unat n"
  using assms by (simp add: unat_word_ariths)

lemma array_growth:
  fixes n :: u32
  assumes "unat n + 64 < 2 ^ 28"
  defines "c \<equiv> ucast (ALIGN_FLOOR (ucast n + CAPACITY_STEP) CAPACITY_STEP) :: u32"
  shows "unat n < unat c" "unat c \<le> unat n + 64"
proof -
  let ?a = "ucast n + 64 :: u64"
  have a: "unat ?a = unat n + 64"
    using assms(1) by (simp add: unat_word_ariths unat_ucast_up)
  have fl: "ALIGN_FLOOR ?a 64 = ?a - take_bit 6 ?a"
    using ALIGN_FLOOR_pow2 [of ?a 6] by simp
  have tb: "unat (take_bit 6 ?a) = unat ?a mod 64"
    by (simp only: unsigned_take_bit_eq) (simp add: take_bit_eq_mod)
  have sub: "unat (?a - take_bit 6 ?a) = unat ?a - unat ?a mod 64"
  proof -
    have "take_bit 6 ?a \<le> ?a" using tb by (simp add: word_le_nat_alt)
    then show ?thesis using tb by (simp add: unat_sub)
  qed
  have "unat c = (unat n + 64) - (unat n + 64) mod 64"
  proof -
    have "unat c = unat (ALIGN_FLOOR ?a 64) mod 2 ^ 32"
      by (simp add: c_def CAPACITY_STEP_def unsigned_ucast_eq take_bit_eq_mod)
    then show ?thesis using fl sub a assms(1) by simp
  qed
  then show "unat n < unat c" "unat c \<le> unat n + 64" by auto
qed

lemma la_ensureCapacity_ok:
  assumes ok: "la_ok la" and serves: "malloc_serves malloc" and small: "unat cap + 64 < 2 ^ 28"
    and cnt: "la_count la \<le> cap"
  shows "\<exists>c la'. la_ensureCapacity malloc cap la = Inr (c, la') \<and> la_ok la' \<and> la_contents la' = la_contents la
     \<and> la_count la' = la_count la \<and> cap \<le> c \<and> c = la_capacity la'"
proof (cases "cap \<le> la_capacity la")
  case True
  then show ?thesis using ok by (simp add: la_ensureCapacity_def)
next
  case False
  obtain a where a: "la_array la = Some a" "length a = unat (la_capacity la)" "unat (la_count la) \<le> length a"
    using ok by (auto simp: la_ok_def)
  define c :: u32 where "c = ucast (ALIGN_FLOOR (ucast cap + CAPACITY_STEP) CAPACITY_STEP)"
  have c: "unat cap < unat c" "unat c \<le> unat cap + 64" using array_growth [OF small] by (simp_all add: c_def)
  have c8: "unat (8 * c) = 8 * unat c" using c small by (intro unat_times8) simp
  obtain b where b: "LiteMemOpt_alloc malloc (8 * c) = Some b" "length b = 8 * unat c"
    using malloc_served [OF serves, of "8 * c"] c8 c small by auto
  have cnt8: "unat (scast (8 * la_count la) :: u64) div 8 = unat (la_count la)"
    using cnt small scast_small [of "8 * la_count la"] unat_times8 [of "la_count la"]
    by (simp add: word_le_nat_alt)
  have cntc: "unat (la_count la) \<le> unat c" using cnt c by (simp add: word_le_nat_alt)
  show ?thesis
    using False a b c cntc
    by (simp add: la_ensureCapacity_def Let_def c_def [symmetric] cnt8 words_of_def length_words8 la_ok_def
        la_contents_def word_le_nat_alt)
qed

lemma la_pushObject_ok:
  assumes ok: "la_ok la" and room: "la_room malloc 1 la"
  shows "\<exists>la'. la_pushObject malloc obj la = Inr (True, la') \<and> la_ok la' \<and> la_contents la' = la_contents la @ [obj]
     \<and> unat (la_count la') = unat (la_count la) + 1"
proof -
  have cnt: "unat (la_count la + 1) = unat (la_count la) + 1"
    using room by (simp add: la_room_def unat_word_ariths)
  obtain c la1 where e: "la_ensureCapacity malloc (la_count la + 1) la = Inr (c, la1)" "la_ok la1"
      "la_contents la1 = la_contents la" "la_count la1 = la_count la" "la_count la + 1 \<le> c" "c = la_capacity la1"
    using la_ensureCapacity_ok [OF ok, of malloc "la_count la + 1"] room cnt
    by (auto simp: la_room_def word_le_nat_alt)
  define la2 where "la2 = (if la_count la + 1 > la_capacity la then la1 else la)"
  have 2: "la_ok la2" "la_contents la2 = la_contents la" "la_count la2 = la_count la"
      "unat (la_count la) < unat (la_capacity la2)"
    using e ok cnt by (auto simp: la2_def word_le_nat_alt word_less_nat_alt)
  obtain a where a: "la_array la2 = Some a" "length a = unat (la_capacity la2)" using 2(1) by (auto simp: la_ok_def)
  have cont: "take (unat (la_count la)) a = la_contents la"
    using 2 a by (simp add: la_contents_def words_of_def)
  have "la_pushObject malloc obj la =
      Inr (True, la2\<lparr>la_array := Some (a[unat (la_count la) := obj]), la_count := la_count la + 1\<rparr>)"
  proof (cases "la_count la + 1 > la_capacity la")
    case True
    then have "la2 = la1" by (simp add: la2_def)
    then show ?thesis
      using True e(1,5) 2 a by (simp add: la_pushObject_def Let_def words_of_def not_less [symmetric])
  next
    case False
    then have "la2 = la" by (simp add: la2_def)
    then show ?thesis
      using False 2 a by (simp add: la_pushObject_def Let_def words_of_def)
  qed
  moreover have "take (Suc (unat (la_count la))) (a[unat (la_count la) := obj]) = la_contents la @ [obj]"
    using 2(4) a(2) by (simp add: take_Suc_conv_app_nth cont [symmetric])
  ultimately show ?thesis
    using 2(4) a(2) cnt by (auto simp: la_ok_def la_contents_def words_of_def)
qed

lemma la_push_all_ok:
  "la_ok la \<Longrightarrow> la_room malloc (length xs) la \<Longrightarrow> \<exists>la'. la_push_all malloc xs la = Inr la' \<and> la_ok la'
     \<and> la_contents la' = la_contents la @ xs \<and> unat (la_count la') = unat (la_count la) + length xs"
proof (induction xs arbitrary: la)
  case (Cons x xs)
  have "la_room malloc 1 la" using Cons.prems(2) by (simp add: la_room_def)
  then obtain la1 where 1: "la_pushObject malloc x la = Inr (True, la1)" "la_ok la1"
      "la_contents la1 = la_contents la @ [x]" "unat (la_count la1) = unat (la_count la) + 1"
    using la_pushObject_ok [OF Cons.prems(1)] by blast
  have "la_room malloc (length xs) la1" using Cons.prems(2) 1(4) by (simp add: la_room_def)
  from Cons.IH [OF 1(2) this] show ?case using 1 by (auto simp: la_push_all_def)
qed (simp add: la_push_all_def)

interpretation la: growable la_contents la_ok "la_room malloc" "la_push_all malloc" for malloc
proof
  fix s :: LiteMutableArray and xs :: "u64 list"
  assume "la_ok s" and "la_room malloc (length xs) s"
  then obtain s' where s': "la_push_all malloc xs s = Inr s'" "la_ok s'" "la_contents s' = la_contents s @ xs"
      "unat (la_count s') = unat (la_count s) + length xs"
    using la_push_all_ok by blast
  moreover have "la_room malloc (length xs + n) s \<longrightarrow> la_room malloc n s'" for n
    using s'(4) by (simp add: la_room_def ac_simps)
  ultimately show "\<exists>s'. la_push_all malloc xs s = Inr s' \<and> la_ok s' \<and> la_contents s' = la_contents s @ xs
      \<and> (\<forall>n. la_room malloc (length xs + n) s \<longrightarrow> la_room malloc n s')"
    by blast
qed (auto simp: la_room_def)

section \<open>Iteration\<close>

lemma la_getObject_contents:
  assumes "la_ok la" and "i < unat (la_count la)"
  shows "la_getObject la i = Inr (la_contents la ! i)"
  using assms by (auto simp: la_ok_def la_getObject_def la_contents_def words_of_def)

lemma iterate_from:
  assumes ok: "la_ok la" and "unat ndx \<le> unat (la_count la)" and "unat (la_count la) < 2 ^ 32 - 1"
    and "unat (la_count la) - unat ndx < fuel"
  shows "iterate_objects fuel la ndx = Some (Inr (takeWhile (\<lambda>x. x \<noteq> 0) (drop (unat ndx) (la_contents la))))"
  using assms(2-)
proof (induction fuel arbitrary: ndx)
  case (Suc fuel)
  have len: "length (la_contents la) = unat (la_count la)"
    using ok by (auto simp: la_ok_def la_contents_def words_of_def)
  show ?case
  proof (cases "ndx < la_count la")
    case True
    then have lt: "unat ndx < unat (la_count la)" by (simp add: word_less_nat_alt)
    have ndx1: "unat (ndx + 1) = Suc (unat ndx)" using lt Suc.prems(2) by (simp add: unat_word_ariths)
    have "iterate_objects fuel la (ndx + 1)
        = Some (Inr (takeWhile (\<lambda>x. x \<noteq> 0) (drop (unat (ndx + 1)) (la_contents la))))"
      by (rule Suc.IH) (use lt ndx1 Suc.prems in auto)
    moreover have "drop (unat ndx) (la_contents la) = la_contents la ! unat ndx # drop (Suc (unat ndx)) (la_contents la)"
      using lt len by (simp add: Cons_nth_drop_Suc)
    ultimately show ?thesis
      using True la_getObject_contents [OF ok lt] ndx1
      by (simp add: LiteCollectionIterator_getNextObject_def la_getNextObjectForIterator_def)
  next
    case False
    then have "length (la_contents la) \<le> unat ndx" using len by (simp add: word_le_nat_alt not_less)
    with False show ?thesis
      by (simp add: LiteCollectionIterator_getNextObject_def la_getNextObjectForIterator_def)
  qed
qed simp

text \<open>
  Pushing a sequence of non-null objects and then iterating visits exactly those objects, after the
  ones already there, in the order they were pushed, and the iteration ends.
\<close>

theorem push_then_iterate:
  assumes "la_ok la" and "la_room malloc (length objs) la" and "0 \<notin> set (la_contents la @ objs)"
    and "unat (la_count la) + length objs < fuel"
  shows "\<exists>la'. la_push_all malloc objs la = Inr la' \<and> la_ok la'
     \<and> iterate_objects fuel la' la_initIterator = Some (Inr (la_contents la @ objs))"
proof -
  obtain la' where la': "la_push_all malloc objs la = Inr la'" "la_ok la'" "la_contents la' = la_contents la @ objs"
      "unat (la_count la') = unat (la_count la) + length objs"
    using la_push_all_ok [OF assms(1,2)] by blast
  have "iterate_objects fuel la' 0 = Some (Inr (takeWhile (\<lambda>x. x \<noteq> 0) (drop (unat (0 :: u32)) (la_contents la'))))"
    by (rule iterate_from) (use la' assms in \<open>auto simp: la_room_def\<close>)
  moreover have "takeWhile (\<lambda>x. x \<noteq> 0) (la_contents la @ objs) = la_contents la @ objs"
    using assms(3) by (subst takeWhile_eq_all_conv) auto
  ultimately show ?thesis using la' by (simp add: la_initIterator_def)
qed

theorem push_then_iterate_witness:
  "\<exists>la'. la_push_all unit_malloc [5, 6] \<lparr>la_array = Some [0], la_count = 0, la_capacity = 1\<rparr> = Inr la' \<and> la_ok la'
     \<and> iterate_objects 3 la' la_initIterator = Some (Inr [5, 6])"
  using push_then_iterate [of "\<lparr>la_array = Some [0], la_count = 0, la_capacity = 1\<rparr>" unit_malloc "[5, 6]" 3]
  by (simp add: la_ok_def la_room_def unit_malloc_serves la_contents_def)

end
