(* ===== verification/Assembler_Base.thy ===== *)
theory Assembler_Base
  imports Lite_Containers
begin

text \<open>
  \<^verbatim>\<open>core/modules/assembler/assembler.h\<close> and \<^verbatim>\<open>.cc\<close>: labels and the assembler's common state. The code
  buffer of an assembler is represented by its contents, the abstraction \<open>lb_contents\<close> of
  \<open>Lite_Containers\<close>: emitting appends to it, \<^verbatim>\<open>FixBindLabel\<close> replaces four bytes inside it.
\<close>

section \<open>Labels\<close>

record Label =
  pos_raw :: int
  near_link :: int

definition new_Label :: Label where
  "new_Label = \<lparr>pos_raw = 0, near_link = 0\<rparr>"

definition is_bound :: "'a Label_scheme \<Rightarrow> bool" where
  "is_bound l \<longleftrightarrow> pos_raw l < 0"

definition is_unused :: "'a Label_scheme \<Rightarrow> bool" where
  "is_unused l \<longleftrightarrow> pos_raw l = 0 \<and> near_link l = 0"

definition is_linked :: "'a Label_scheme \<Rightarrow> bool" where
  "is_linked l \<longleftrightarrow> pos_raw l > 0"

definition is_near_linked :: "'a Label_scheme \<Rightarrow> bool" where
  "is_near_linked l \<longleftrightarrow> near_link l > 0"

definition label_pos :: "'a Label_scheme \<Rightarrow> int" where
  "label_pos l = (if pos_raw l < 0 then - pos_raw l - 1 else if pos_raw l > 0 then pos_raw l - 1 else 0)"

definition bind_to :: "int \<Rightarrow> 'a Label_scheme \<Rightarrow> 'a Label_scheme" where
  "bind_to p l = l\<lparr>pos_raw := - p - 1\<rparr>"

definition link_to :: "int \<Rightarrow> 'a Label_scheme \<Rightarrow> 'a Label_scheme" where
  "link_to p l = l\<lparr>pos_raw := p + 1\<rparr>"

lemma label_bind_link:
  assumes "0 \<le> p"
  shows "label_pos (bind_to p l) = p \<and> is_bound (bind_to p l) \<and> \<not> is_linked (bind_to p l) \<and> \<not> is_unused (bind_to p l)
     \<and> label_pos (link_to p l) = p \<and> is_linked (link_to p l) \<and> \<not> is_bound (link_to p l) \<and> \<not> is_unused (link_to p l)"
  using assms by (simp add: label_pos_def bind_to_def link_to_def is_bound_def is_linked_def is_unused_def)

section \<open>Assembler state\<close>

record asm_state =
  asm_buffer :: "u8 list"
  realized_address :: u64

definition new_AssemblerBase :: "u64 \<Rightarrow> asm_state" where
  "new_AssemblerBase address = \<lparr>asm_buffer = [], realized_address = address\<rparr>"

definition ip_offset :: "'a asm_state_scheme \<Rightarrow> nat" where
  "ip_offset a = length (asm_buffer a)"

definition pc_offset :: "'a asm_state_scheme \<Rightarrow> nat" where
  "pc_offset a = length (asm_buffer a)"

definition SetRealizedAddress :: "u64 \<Rightarrow> 'a asm_state_scheme \<Rightarrow> 'a asm_state_scheme" where
  "SetRealizedAddress address a = a\<lparr>realized_address := address\<rparr>"

definition GetRealizedAddress :: "'a asm_state_scheme \<Rightarrow> u64" where
  "GetRealizedAddress a = realized_address a"

definition emit_bytes :: "u8 list \<Rightarrow> 'a asm_state_scheme \<Rightarrow> 'a asm_state_scheme result" where
  "emit_bytes bs a = Inr (a\<lparr>asm_buffer := asm_buffer a @ bs\<rparr>)"

definition fix_bytes :: "int \<Rightarrow> u8 list \<Rightarrow> 'a asm_state_scheme \<Rightarrow> 'a asm_state_scheme result" where
  "fix_bytes off bs a =
     (if off < 0 then Inl OVERWRITE
      else rbind (store_bytes (nat off) bs (asm_buffer a)) (\<lambda>m. Inr (a\<lparr>asm_buffer := m\<rparr>)))"

text \<open>
  The buffer contents after \<^verbatim>\<open>emit_bytes\<close> are those of the growable buffer after the corresponding
  \<^verbatim>\<open>EmitBuffer\<close>, and likewise for a fix-up.
\<close>

lemma emit_bytes_refines:
  assumes "lb_ok lb" and "lb_room malloc (length bs) lb" and "asm_buffer a = lb_contents lb"
  shows "\<exists>lb' a'. EmitBuffer malloc bs lb = Inr lb' \<and> emit_bytes bs a = Inr a' \<and> lb_ok lb'
     \<and> asm_buffer a' = lb_contents lb'"
  using lb_emit_appends [OF assms(1,2)] assms(3) by (auto simp: EmitBuffer_def emit_bytes_def)

lemma fix_bytes_refines:
  assumes "lb_ok lb" and "asm_buffer a = lb_contents lb" and "off + 4 \<le> lb_cursor lb"
  shows "\<exists>lb' a'. FixBindLabel off v lb = Inr lb' \<and> fix_bytes (int off) (le_bytes 4 v) a = Inr a' \<and> lb_ok lb'
     \<and> asm_buffer a' = lb_contents lb'"
  using assms
  by (auto simp: FixBindLabel_def lb_rewrite_def fix_bytes_def store_bytes_def lb_ok_def lb_contents_def
      block_of_def min_def drop_take)

end
