(* ===== verification/X64_Assembler.thy ===== *)
theory X64_Assembler
  imports Assembler_Base
begin

text \<open>
  The x86-64 assembler of \<^verbatim>\<open>assembler-x64.h\<close> and \<^verbatim>\<open>assembler-x64.cc\<close>, its registers and constants, and
  \<^verbatim>\<open>CodeGen::JmpNearIndirect\<close>. An operation appends bytes to the assembler's buffer; the fatal stops of
  the source (\<^verbatim>\<open>UNREACHABLE\<close>, \<^verbatim>\<open>UNIMPLEMENTED\<close>) are error results. \<^verbatim>\<open>ASSERT\<close> is defined empty in the
  source and so absent here.
\<close>

section \<open>Registers and constants\<close>

datatype ScaleFactor = TIMES_1 | TIMES_2 | TIMES_4 | TIMES_8 | TIMES_16

fun scale_code :: "ScaleFactor \<Rightarrow> u8" where
  "scale_code TIMES_1 = 0" | "scale_code TIMES_2 = 1" | "scale_code TIMES_4 = 2"
| "scale_code TIMES_8 = 3" | "scale_code TIMES_16 = 4"

definition RexBits_B :: u8 where "RexBits_B = push_bit 0 1"
definition RexBits_X :: u8 where "RexBits_X = push_bit 1 1"
definition RexBits_R :: u8 where "RexBits_R = push_bit 2 1"
definition RexBits_W :: u8 where "RexBits_W = push_bit 3 1"
definition RexBits_PREFIX :: u8 where "RexBits_PREFIX = push_bit 6 1"

lemmas RexBits_defs = RexBits_B_def RexBits_X_def RexBits_R_def RexBits_W_def RexBits_PREFIX_def

record CPURegister =
  reg_code :: u8
  reg_size :: nat

definition from_code :: "u8 \<Rightarrow> CPURegister" where
  "from_code c = \<lparr>reg_code = c, reg_size = 0\<rparr>"

definition Is :: "CPURegister \<Rightarrow> CPURegister \<Rightarrow> bool" where
  "Is r s \<longleftrightarrow> reg_code s = reg_code r"

definition high_bit :: "CPURegister \<Rightarrow> u8" where
  "high_bit r = drop_bit 3 (reg_code r)"

definition low_bits :: "CPURegister \<Rightarrow> u8" where
  "low_bits r = reg_code r AND 0x7"

definition Is64Bits :: "CPURegister \<Rightarrow> bool" where
  "Is64Bits r \<longleftrightarrow> reg_size r = 64"

definition is_byte_register :: "CPURegister \<Rightarrow> bool" where
  "is_byte_register r \<longleftrightarrow> reg_code r \<le> 3"

text \<open>\<^verbatim>\<open>GENERAL_REGISTERS\<close>, in the order that gives their codes.\<close>

definition GENERAL_REGISTERS :: "CPURegister list" where
  "GENERAL_REGISTERS = map (\<lambda>c. \<lparr>reg_code = of_nat c, reg_size = 64\<rparr>) [0..<16]"

definition rax :: CPURegister where "rax = \<lparr>reg_code = 0, reg_size = 64\<rparr>"
definition rcx :: CPURegister where "rcx = \<lparr>reg_code = 1, reg_size = 64\<rparr>"
definition rdx :: CPURegister where "rdx = \<lparr>reg_code = 2, reg_size = 64\<rparr>"
definition rbx :: CPURegister where "rbx = \<lparr>reg_code = 3, reg_size = 64\<rparr>"
definition rsp :: CPURegister where "rsp = \<lparr>reg_code = 4, reg_size = 64\<rparr>"
definition rbp :: CPURegister where "rbp = \<lparr>reg_code = 5, reg_size = 64\<rparr>"
definition rsi :: CPURegister where "rsi = \<lparr>reg_code = 6, reg_size = 64\<rparr>"
definition rdi :: CPURegister where "rdi = \<lparr>reg_code = 7, reg_size = 64\<rparr>"
definition r8 :: CPURegister where "r8 = \<lparr>reg_code = 8, reg_size = 64\<rparr>"
definition r9 :: CPURegister where "r9 = \<lparr>reg_code = 9, reg_size = 64\<rparr>"
definition r10 :: CPURegister where "r10 = \<lparr>reg_code = 10, reg_size = 64\<rparr>"
definition r11 :: CPURegister where "r11 = \<lparr>reg_code = 11, reg_size = 64\<rparr>"
definition r12 :: CPURegister where "r12 = \<lparr>reg_code = 12, reg_size = 64\<rparr>"
definition r13 :: CPURegister where "r13 = \<lparr>reg_code = 13, reg_size = 64\<rparr>"
definition r14 :: CPURegister where "r14 = \<lparr>reg_code = 14, reg_size = 64\<rparr>"
definition r15 :: CPURegister where "r15 = \<lparr>reg_code = 15, reg_size = 64\<rparr>"

definition VOLATILE_REGISTER :: CPURegister where
  "VOLATILE_REGISTER = r11"

section \<open>Immediates\<close>

record Immediate =
  imm_value :: u64
  imm_size :: nat

text \<open>\<^verbatim>\<open>Immediate(int64_t)\<close>: a value that fits 16 bits and not 8 gets the size 8.\<close>

definition new_Immediate :: "u64 \<Rightarrow> Immediate" where
  "new_Immediate imm =
     \<lparr>imm_value = imm,
      imm_size = (if (scast (ucast imm :: u8) :: u64) = imm then 8
                  else if (scast (ucast imm :: u16) :: u64) = imm then 8
                  else if (scast (ucast imm :: u32) :: u64) = imm then 32
                  else 64)\<rparr>"

definition sized_Immediate :: "u64 \<Rightarrow> nat \<Rightarrow> Immediate" where
  "sized_Immediate imm sz = \<lparr>imm_value = imm, imm_size = sz\<rparr>"

section \<open>Operands\<close>

record Operand =
  opd_rex :: u8
  opd_encoding :: "u8 list"

definition new_Operand :: Operand where
  "new_Operand = \<lparr>opd_rex = 0, opd_encoding = []\<rparr>"

definition SetModRM :: "u8 \<Rightarrow> CPURegister \<Rightarrow> Operand \<Rightarrow> Operand" where
  "SetModRM md rm opd =
     opd\<lparr>opd_rex := (if reg_code rm > 7 \<and> \<not> (Is rm r12 \<and> md \<noteq> 3) then opd_rex opd OR RexBits_B else opd_rex opd),
         opd_encoding := [push_bit 6 md OR (reg_code rm AND 7)]\<rparr>"

definition SetSIB :: "ScaleFactor \<Rightarrow> CPURegister \<Rightarrow> CPURegister \<Rightarrow> Operand \<Rightarrow> Operand" where
  "SetSIB sc index base opd =
     (let rex1 = (if reg_code base > 7 then opd_rex opd OR RexBits_B else opd_rex opd);
          rex2 = (if reg_code index > 7 then rex1 OR RexBits_X else rex1)
      in opd\<lparr>opd_rex := rex2,
             opd_encoding := take 1 (opd_encoding opd) @
               [push_bit 6 (scale_code sc) OR push_bit 3 (reg_code index AND 7) OR (reg_code base AND 7)]\<rparr>)"

definition SetDisp8 :: "u8 \<Rightarrow> Operand \<Rightarrow> Operand" where
  "SetDisp8 d opd = opd\<lparr>opd_encoding := opd_encoding opd @ [d]\<rparr>"

definition SetDisp32 :: "u32 \<Rightarrow> Operand \<Rightarrow> Operand" where
  "SetDisp32 d opd = opd\<lparr>opd_encoding := opd_encoding opd @ le_bytes 4 d\<rparr>"

definition opd_modrm :: "Operand \<Rightarrow> u8" where
  "opd_modrm opd = opd_encoding opd ! 0"

definition IsInt8 :: "u32 \<Rightarrow> bool" where
  "IsInt8 imm \<longleftrightarrow> -128 \<le> sint imm \<and> sint imm \<le> 127"

definition Address_base_disp :: "CPURegister \<Rightarrow> u32 \<Rightarrow> Operand" where
  "Address_base_disp base disp =
     (let with_sib = (\<lambda>opd. if reg_code base AND 7 = reg_code rsp then SetSIB TIMES_1 rsp base opd else opd)
      in if disp = 0 \<and> reg_code base AND 7 \<noteq> reg_code rbp then with_sib (SetModRM 0 base new_Operand)
         else if IsInt8 disp then SetDisp8 (ucast disp) (with_sib (SetModRM 1 base new_Operand))
         else SetDisp32 disp (with_sib (SetModRM 2 base new_Operand)))"

definition Address_index_disp :: "CPURegister \<Rightarrow> ScaleFactor \<Rightarrow> u32 \<Rightarrow> Operand" where
  "Address_index_disp index sc disp = SetDisp32 disp (SetSIB sc index rbp (SetModRM 0 rsp new_Operand))"

definition Address_base_index_disp :: "CPURegister \<Rightarrow> CPURegister \<Rightarrow> ScaleFactor \<Rightarrow> u32 \<Rightarrow> Operand" where
  "Address_base_index_disp base index sc disp =
     (if disp = 0 \<and> reg_code base AND 7 \<noteq> reg_code rbp then SetSIB sc index base (SetModRM 0 rsp new_Operand)
      else if IsInt8 disp then SetDisp8 (ucast disp) (SetSIB sc index base (SetModRM 1 rsp new_Operand))
      else SetDisp32 disp (SetSIB sc index base (SetModRM 2 rsp new_Operand)))"

definition Address_fixed :: "CPURegister \<Rightarrow> u32 \<Rightarrow> Operand" where
  "Address_fixed base disp =
     (let opd = SetModRM 2 base new_Operand
      in SetDisp32 disp (if reg_code base AND 7 = reg_code rsp then SetSIB TIMES_1 rsp base opd else opd))"

section \<open>The assembler\<close>

datatype PseudoLabelType = kDisp32_off_9

record PseudoLabelInstruction =
  position :: int
  pl_type :: PseudoLabelType

record RelocLabelEntry = Label +
  instructions :: "PseudoLabelInstruction list"
  label_data :: u64

record x64_asm = asm_state +
  data_labels :: "RelocLabelEntry list option"

definition new_TurboAssembler :: "u64 \<Rightarrow> x64_asm" where
  "new_TurboAssembler address = \<lparr>asm_buffer = [], realized_address = address, data_labels = None\<rparr>"

type_synonym x64_op = "x64_asm \<Rightarrow> x64_asm result"

definition Emit1 :: "u8 \<Rightarrow> x64_op" where
  "Emit1 val = emit_bytes (le_bytes 1 val)"

definition Emit_int32 :: "u32 \<Rightarrow> x64_op" where
  "Emit_int32 v = emit_bytes (le_bytes 4 v)"

definition EmitInt64 :: "u64 \<Rightarrow> x64_op" where
  "EmitInt64 v = emit_bytes (le_bytes 8 v)"

definition EmitOptionalRex :: "bool \<Rightarrow> bool \<Rightarrow> bool \<Rightarrow> bool \<Rightarrow> bool \<Rightarrow> u8" where
  "EmitOptionalRex force w r x b =
     (if force then 0x40 else 0) OR (if w then 0x48 else 0) OR (if r then 0x44 else 0)
       OR (if x then 0x42 else 0) OR (if b then 0x41 else 0)"

definition emit_rex :: "u8 \<Rightarrow> x64_op" where
  "emit_rex rex = (if rex \<noteq> 0 then Emit1 rex else Inr)"

definition Emit_64REX :: "u8 \<Rightarrow> x64_op" where
  "Emit_64REX extra = emit_rex (EmitOptionalRex False True False False False OR extra)"

definition EmitREX_ExtraRegister :: "CPURegister \<Rightarrow> x64_op" where
  "EmitREX_ExtraRegister r =
     emit_rex (EmitOptionalRex False (reg_size r = 64) (reg_code r > 7) False (reg_code r > 7))"

definition EmitREX_Register :: "CPURegister \<Rightarrow> x64_op" where
  "EmitREX_Register r = emit_rex (EmitOptionalRex False (reg_size r = 64) (reg_code r > 7) False False)"

definition EmitREX_Register_Operand :: "CPURegister \<Rightarrow> Operand \<Rightarrow> x64_op" where
  "EmitREX_Register_Operand r opd =
     (if reg_size r \<noteq> 64 then (\<lambda>_. Inl UNIMPLEMENTED)
      else emit_rex (opd_rex opd OR EmitOptionalRex True (reg_size r = 64) (reg_code r > 7) False False))"

definition EmitREX_Operand :: "Operand \<Rightarrow> x64_op" where
  "EmitREX_Operand opd = emit_rex (opd_rex opd OR RexBits_PREFIX)"

definition EmitImmediate :: "Immediate \<Rightarrow> nat \<Rightarrow> x64_op" where
  "EmitImmediate imm sz =
     (if sz = 8 then emit_bytes (le_bytes 1 (ucast (imm_value imm) :: u8))
      else if sz = 32 then emit_bytes (le_bytes 4 (ucast (imm_value imm) :: u32))
      else if sz = 64 then emit_bytes (le_bytes 8 (imm_value imm))
      else (\<lambda>_. Inl UNREACHABLE))"

definition ModRM_Mod :: "u8 \<Rightarrow> u8" where "ModRM_Mod b = drop_bit 6 (b AND 0xC0)"
definition ModRM_RegOpcode :: "u8 \<Rightarrow> u8" where "ModRM_RegOpcode b = drop_bit 3 (b AND 0x38)"
definition ModRM_RM :: "u8 \<Rightarrow> u8" where "ModRM_RM b = b AND 0x07"

definition EmitModRM :: "u8 \<Rightarrow> u8 \<Rightarrow> u8 \<Rightarrow> x64_op" where
  "EmitModRM md regop rm = Emit1 (push_bit 6 md OR push_bit 3 regop OR rm)"

definition EmitModRM_ExtraOpcode_Register :: "u8 \<Rightarrow> CPURegister \<Rightarrow> x64_op" where
  "EmitModRM_ExtraOpcode_Register extra r = EmitModRM 3 extra (reg_code r)"

definition EmitModRM_Register_Register :: "CPURegister \<Rightarrow> CPURegister \<Rightarrow> x64_op" where
  "EmitModRM_Register_Register reg1 reg2 = EmitModRM 3 (reg_code reg1) (reg_code reg2)"

definition EmitModRM_Update_Register :: "u8 \<Rightarrow> CPURegister \<Rightarrow> x64_op" where
  "EmitModRM_Update_Register modRM r = EmitModRM (ModRM_Mod modRM) (low_bits r) (ModRM_RM modRM)"

definition EmitModRM_Update_ExtraOpcode :: "u8 \<Rightarrow> u8 \<Rightarrow> x64_op" where
  "EmitModRM_Update_ExtraOpcode modRM extra = EmitModRM (ModRM_Mod modRM) extra (ModRM_RM modRM)"

definition EmitOpcode :: "u8 \<Rightarrow> x64_op" where
  "EmitOpcode opcode = Emit1 opcode"

definition EmitOpcode_Register :: "u8 \<Rightarrow> CPURegister \<Rightarrow> x64_op" where
  "EmitOpcode_Register opcode r = EmitOpcode (opcode OR low_bits r)"

definition Emit_OpEn_Register_MemOperand :: "CPURegister \<Rightarrow> Operand \<Rightarrow> x64_op" where
  "Emit_OpEn_Register_MemOperand dst opd =
     do_all [EmitModRM_Update_Register (opd_modrm opd) dst, emit_bytes (drop 1 (opd_encoding opd))]"

definition Emit_OpEn_Register_RegOperand :: "CPURegister \<Rightarrow> CPURegister \<Rightarrow> x64_op" where
  "Emit_OpEn_Register_RegOperand dst src = EmitModRM_Register_Register dst src"

definition Emit_OpEn_MemOperand_Immediate :: "u8 \<Rightarrow> Operand \<Rightarrow> Immediate \<Rightarrow> x64_op" where
  "Emit_OpEn_MemOperand_Immediate extra opd imm =
     do_all [EmitModRM_Update_ExtraOpcode (opd_modrm opd) extra, emit_bytes (drop 1 (opd_encoding opd)),
             EmitImmediate imm (imm_size imm)]"

definition Emit_OpEn_RegOperand_Immediate :: "u8 \<Rightarrow> CPURegister \<Rightarrow> Immediate \<Rightarrow> x64_op" where
  "Emit_OpEn_RegOperand_Immediate extra r imm =
     do_all [EmitModRM_ExtraOpcode_Register extra r, EmitImmediate imm (imm_size imm)]"

definition Emit_OpEn_MemOperand :: "u8 \<Rightarrow> Operand \<Rightarrow> x64_op" where
  "Emit_OpEn_MemOperand extra opd =
     do_all [EmitModRM_Update_ExtraOpcode (opd_modrm opd) extra, emit_bytes (drop 1 (opd_encoding opd))]"

definition Emit_OpEn_RegOperand :: "u8 \<Rightarrow> CPURegister \<Rightarrow> x64_op" where
  "Emit_OpEn_RegOperand extra r = EmitModRM_ExtraOpcode_Register extra r"

definition Emit_OpEn_OpcodeRegister_Immediate :: "u8 \<Rightarrow> CPURegister \<Rightarrow> Immediate \<Rightarrow> x64_op" where
  "Emit_OpEn_OpcodeRegister_Immediate opcode dst imm =
     do_all [EmitOpcode_Register opcode dst, EmitImmediate imm (imm_size imm)]"

section \<open>Instructions\<close>

definition x64_pushfq :: x64_op where
  "x64_pushfq = Emit1 0x9C"

definition x64_jmp :: "Immediate \<Rightarrow> x64_op" where
  "x64_jmp imm = do_all [emit_bytes (le_bytes 1 (0xE9 :: u8)), emit_bytes (le_bytes 4 (ucast (imm_value imm) :: u32))]"

definition x64_sub :: "CPURegister \<Rightarrow> Immediate \<Rightarrow> x64_op" where
  "x64_sub dst imm = do_all [EmitREX_Register dst, EmitOpcode 0x81, Emit_OpEn_RegOperand_Immediate 0x5 dst imm]"

definition x64_add :: "CPURegister \<Rightarrow> Immediate \<Rightarrow> x64_op" where
  "x64_add dst imm = do_all [EmitREX_Register dst, EmitOpcode 0x81, Emit_OpEn_RegOperand_Immediate 0x0 dst imm]"

definition x64_mov_ri :: "CPURegister \<Rightarrow> Immediate \<Rightarrow> x64_op" where
  "x64_mov_ri dst imm = do_all [EmitREX_Register dst, Emit_OpEn_OpcodeRegister_Immediate 0xb8 dst imm]"

definition x64_mov_mi :: "Operand \<Rightarrow> Immediate \<Rightarrow> x64_op" where
  "x64_mov_mi dst imm = do_all [EmitREX_Operand dst, EmitOpcode 0xc7, Emit_OpEn_MemOperand_Immediate 0x0 dst imm]"

definition x64_mov_rm :: "CPURegister \<Rightarrow> Operand \<Rightarrow> x64_op" where
  "x64_mov_rm dst src = do_all [EmitREX_Register dst, EmitOpcode 0x8B, Emit_OpEn_Register_MemOperand dst src]"

definition x64_mov_mr :: "Operand \<Rightarrow> CPURegister \<Rightarrow> x64_op" where
  "x64_mov_mr dst src = do_all [EmitREX_Register_Operand src dst, EmitOpcode 0x89, Emit_OpEn_Register_MemOperand src dst]"

definition x64_mov_rr :: "CPURegister \<Rightarrow> CPURegister \<Rightarrow> x64_op" where
  "x64_mov_rr dst src = do_all [EmitREX_Register dst, Emit1 0x8B, Emit_OpEn_Register_RegOperand dst src]"

definition x64_call_m :: "Operand \<Rightarrow> x64_op" where
  "x64_call_m opd = do_all [EmitREX_Operand opd, EmitOpcode 0xFF, Emit_OpEn_MemOperand 0x2 opd]"

definition x64_call_i :: "Immediate \<Rightarrow> x64_op" where
  "x64_call_i imm = do_all [EmitOpcode 0xe8, EmitImmediate imm (imm_size imm)]"

definition x64_call_r :: "CPURegister \<Rightarrow> x64_op" where
  "x64_call_r r = do_all [EmitREX_Register r, EmitOpcode 0xFF, Emit_OpEn_RegOperand 0x2 r]"

definition x64_pop :: "CPURegister \<Rightarrow> x64_op" where
  "x64_pop r = do_all [EmitREX_ExtraRegister r, EmitOpcode_Register 0x58 r]"

definition x64_push :: "CPURegister \<Rightarrow> x64_op" where
  "x64_push r = do_all [EmitREX_ExtraRegister r, EmitOpcode_Register 0x50 r]"

definition x64_ret :: x64_op where
  "x64_ret = EmitOpcode 0xc3"

definition x64_nop :: x64_op where
  "x64_nop = EmitOpcode 0x90"

section \<open>TurboAssembler\<close>

definition CurrentIP :: "x64_asm \<Rightarrow> u64" where
  "CurrentIP a = of_nat (pc_offset a) + realized_address a"

definition MovRipToRegister :: "CPURegister \<Rightarrow> x64_op" where
  "MovRipToRegister dst = do_all [x64_call_i (sized_Immediate 0 32), x64_pop dst]"

definition new_RelocLabelEntry :: "u64 \<Rightarrow> RelocLabelEntry" where
  "new_RelocLabelEntry d = \<lparr>pos_raw = 0, near_link = 0, instructions = [], label_data = d\<rparr>"

definition PseudoLabel_link_to :: "int \<Rightarrow> PseudoLabelType \<Rightarrow> RelocLabelEntry \<Rightarrow> RelocLabelEntry" where
  "PseudoLabel_link_to p t l = l\<lparr>instructions := instructions l @ [\<lparr>position = p, pl_type = t\<rparr>]\<rparr>"

definition has_confused_instructions :: "RelocLabelEntry \<Rightarrow> bool" where
  "has_confused_instructions l \<longleftrightarrow> length (instructions l) > 0"

definition AppendRelocLabelEntry :: "RelocLabelEntry \<Rightarrow> x64_op" where
  "AppendRelocLabelEntry l a =
     Inr (a\<lparr>data_labels := Some ((case data_labels a of None \<Rightarrow> [] | Some ls \<Rightarrow> ls) @ [l])\<rparr>)"

definition CallFunction :: "u64 \<Rightarrow> x64_op" where
  "CallFunction function =
     do_all [x64_nop, MovRipToRegister VOLATILE_REGISTER,
             x64_call_m (Address_base_disp VOLATILE_REGISTER 0x7FFFFFFF),
             (\<lambda>a. AppendRelocLabelEntry
                (PseudoLabel_link_to (int (ip_offset a)) kDisp32_off_9 (new_RelocLabelEntry function)) a),
             x64_nop]"

definition link_confused_instruction :: "RelocLabelEntry \<Rightarrow> PseudoLabelInstruction \<Rightarrow> x64_op" where
  "link_confused_instruction l i =
     (let offset = of_int (label_pos l - position i) :: u32
      in case pl_type i of kDisp32_off_9 \<Rightarrow> fix_bytes (position i - 4) (le_bytes 4 (offset + 9)))"

definition link_confused_instructions :: "RelocLabelEntry \<Rightarrow> x64_op" where
  "link_confused_instructions l = rfold (link_confused_instruction l) (instructions l)"

definition PseudoBind :: "RelocLabelEntry \<Rightarrow> x64_asm \<Rightarrow> (RelocLabelEntry \<times> x64_asm) result" where
  "PseudoBind l a =
     (let l' = bind_to (int (length (asm_buffer a))) l
      in if has_confused_instructions l'
         then rbind (link_confused_instructions l' a) (\<lambda>a'. Inr (l', a'))
         else Inr (l', a))"

fun reloc_bind_labels ::
  "RelocLabelEntry list \<Rightarrow> x64_asm \<Rightarrow> (RelocLabelEntry list \<times> x64_asm) result" where
  "reloc_bind_labels [] a = Inr ([], a)"
| "reloc_bind_labels (l # ls) a =
     rbind (PseudoBind l a) (\<lambda>(l', a1).
     rbind (EmitInt64 (label_data l') a1) (\<lambda>a2.
     rbind (reloc_bind_labels ls a2) (\<lambda>(ls', a3). Inr (l' # ls', a3))))"

definition RelocBind :: x64_op where
  "RelocBind a =
     (case data_labels a of
        None \<Rightarrow> Inr a
      | Some ls \<Rightarrow> rbind (reloc_bind_labels ls a) (\<lambda>(ls', a'). Inr (a'\<lparr>data_labels := Some ls'\<rparr>)))"

section \<open>CodeGen\<close>

definition JmpNearIndirect :: "u64 \<Rightarrow> x64_op" where
  "JmpNearIndirect address a =
     (let currIP = CurrentIP a + 6; offset = ucast (address - currIP) :: u32
      in do_all [emit_bytes (le_bytes 1 (0xFF :: u8)), emit_bytes (le_bytes 1 (0x25 :: u8)),
                 emit_bytes (le_bytes 4 offset)] a)"

end
