(* ===== verification/X64_Assembler_Correct.thy ===== *)
theory X64_Assembler_Correct
  imports X64_Assembler
begin

text \<open>
  The code the x86-64 assembler emits does what it is asked for: label fix-ups, the call sequence of
  \<^verbatim>\<open>CallFunction\<close>, the indirect jump, and the memory operands against the processor's addressing rules.
\<close>

section \<open>Patching and slices\<close>

definition byte_slice :: "nat \<Rightarrow> nat \<Rightarrow> 'b list \<Rightarrow> 'b list" where
  "byte_slice k n bs = take n (drop k bs)"

lemma byte_slice_eqI:
  assumes "k + n \<le> length xs" and "k + n \<le> length ys" and "\<And>j. k \<le> j \<Longrightarrow> j < k + n \<Longrightarrow> xs ! j = ys ! j"
  shows "byte_slice k n xs = byte_slice k n ys"
  using assms by (intro nth_equalityI) (auto simp: byte_slice_def)

lemma byte_slice_append: "length xs = k \<Longrightarrow> byte_slice k n (xs @ ys) = take n ys"
  by (simp add: byte_slice_def)

lemma store_bytes_frame:
  assumes "store_bytes off bs m = Inr m'"
  shows "length m' = length m" "off + length bs \<le> length m" "byte_slice off (length bs) m' = bs"
    "\<And>j. j < length m \<Longrightarrow> j < off \<or> off + length bs \<le> j \<Longrightarrow> m' ! j = m ! j"
  using assms by (auto simp: store_bytes_def byte_slice_def nth_append split: if_splits)

lemma fix_bytes_frame:
  assumes "0 \<le> off" and "nat off + length bs \<le> length (asm_buffer a)"
  shows "\<exists>m. fix_bytes off bs a = Inr (a\<lparr>asm_buffer := m\<rparr>) \<and> length m = length (asm_buffer a)
     \<and> byte_slice (nat off) (length bs) m = bs
     \<and> (\<forall>j < length m. j < nat off \<or> nat off + length bs \<le> j \<longrightarrow> m ! j = asm_buffer a ! j)"
proof -
  obtain m where m: "store_bytes (nat off) bs (asm_buffer a) = Inr m"
    using assms(2) by (simp add: store_bytes_def)
  show ?thesis
    using assms(1) store_bytes_frame [OF m] m by (auto simp: fix_bytes_def)
qed

text \<open>The displacement slot of an instruction that ends at position \<open>p\<close> ins the four bytes before \<open>p\<close>.\<close>

definition slots_ok :: "nat \<Rightarrow> PseudoLabelInstruction list \<Rightarrow> bool" where
  "slots_ok n ins \<longleftrightarrow> sorted_wrt (\<lambda>i j. position i + 4 \<le> position j) ins
     \<and> (\<forall>i \<in> set ins. 4 \<le> position i \<and> position i \<le> int n)"

definition outside_slots :: "PseudoLabelInstruction list \<Rightarrow> nat \<Rightarrow> bool" where
  "outside_slots ins j \<longleftrightarrow> (\<forall>i \<in> set ins. int j < position i - 4 \<or> position i \<le> int j)"

definition slot_disp :: "PseudoLabelInstruction \<Rightarrow> u8 list \<Rightarrow> u32" where
  "slot_disp i bs = le_word (byte_slice (nat (position i - 4)) 4 bs)"

lemma link_confused_ok:
  assumes "slots_ok (length (asm_buffer a)) ins"
  shows "\<exists>m. rfold (link_confused_instruction l) ins a = Inr (a\<lparr>asm_buffer := m\<rparr>)
     \<and> length m = length (asm_buffer a)
     \<and> (\<forall>i \<in> set ins. slot_disp i m = of_int (label_pos l - position i) + 9)
     \<and> (\<forall>j < length m. outside_slots ins j \<longrightarrow> m ! j = asm_buffer a ! j)"
  using assms
proof (induction "ins" arbitrary: a)
  case Nil
  then show ?case by (auto intro: exI [of _ "asm_buffer a"])
next
  case (Cons i ins)
  let ?off = "position i - 4" and ?v = "of_int (label_pos l - position i) + 9 :: u32"
  have pos: "4 \<le> position i" "position i \<le> int (length (asm_buffer a))"
    and apart: "\<forall>k \<in> set ins. position i + 4 \<le> position k"
    using Cons.prems by (auto simp: slots_ok_def)
  obtain m where m: "fix_bytes ?off (le_bytes 4 ?v) a = Inr (a\<lparr>asm_buffer := m\<rparr>)"
      "length m = length (asm_buffer a)" "byte_slice (nat ?off) 4 m = le_bytes 4 ?v"
      "\<forall>j < length m. j < nat ?off \<or> nat ?off + 4 \<le> j \<longrightarrow> m ! j = asm_buffer a ! j"
  proof -
    have "nat ?off + length (le_bytes 4 ?v) \<le> length (asm_buffer a)" using pos by simp
    then show thesis using fix_bytes_frame [of ?off "le_bytes 4 ?v" a] pos that by auto
  qed
  have step: "link_confused_instruction l i a = Inr (a\<lparr>asm_buffer := m\<rparr>)"
    using m(1) by (cases "pl_type i") (simp add: link_confused_instruction_def Let_def)
  have "slots_ok (length (asm_buffer (a\<lparr>asm_buffer := m\<rparr>))) ins"
    using Cons.prems m(2) by (simp add: slots_ok_def)
  from Cons.IH [OF this] obtain m' where m':
      "rfold (link_confused_instruction l) ins (a\<lparr>asm_buffer := m\<rparr>) = Inr (a\<lparr>asm_buffer := m'\<rparr>)"
      "length m' = length m" "\<forall>i \<in> set ins. slot_disp i m' = of_int (label_pos l - position i) + 9"
      "\<forall>j < length m'. outside_slots ins j \<longrightarrow> m' ! j = m ! j"
    by auto
  have "byte_slice (nat ?off) 4 m' = byte_slice (nat ?off) 4 m"
  proof (rule byte_slice_eqI)
    fix j assume "nat ?off \<le> j" "j < nat ?off + 4"
    then have "outside_slots ins j" using apart pos by (fastforce simp: outside_slots_def)
    then show "m' ! j = m ! j" using m'(2,4) m(2) \<open>j < nat ?off + 4\<close> pos by auto
  qed (use m'(2) m(2) pos in auto)
  then have head: "slot_disp i m' = ?v" using m(3) by (simp add: slot_disp_def)
  have frame: "m' ! j = asm_buffer a ! j" if "j < length m'" "outside_slots (i # ins) j" for j
  proof -
    have o: "outside_slots ins j" "int j < position i - 4 \<or> position i \<le> int j"
      using that(2) by (auto simp: outside_slots_def)
    then have "j < nat ?off \<or> nat ?off + 4 \<le> j" using pos by linarith
    then show ?thesis using o(1) m'(2,4) m(2,4) that(1) by auto
  qed
  show ?case using step m' m(2) head frame by auto
qed

definition all_instructions :: "RelocLabelEntry list \<Rightarrow> PseudoLabelInstruction list" where
  "all_instructions ls = concat (map instructions ls)"

definition label_resolved :: "u8 list \<Rightarrow> RelocLabelEntry \<Rightarrow> nat \<Rightarrow> bool" where
  "label_resolved bs l q \<longleftrightarrow> byte_slice q 8 bs = le_bytes 8 (label_data l)
     \<and> (\<forall>i \<in> set (instructions l). slot_disp i bs = of_int (int q - position i) + 9)"

lemma slots_ok_append:
  "slots_ok n (xs @ ys) \<Longrightarrow> slots_ok n xs \<and> slots_ok n ys \<and> (\<forall>x \<in> set xs. \<forall>y \<in> set ys. position x + 4 \<le> position y)"
  by (auto simp: slots_ok_def sorted_wrt_append)

lemma reloc_bind_labels_ok:
  assumes "slots_ok n (all_instructions ls)" and "n \<le> length (asm_buffer a)"
  shows "\<exists>ls' m. reloc_bind_labels ls a = Inr (ls', a\<lparr>asm_buffer := m\<rparr>)
     \<and> length m = length (asm_buffer a) + 8 * length ls
     \<and> (\<forall>k < length ls. label_resolved m (ls ! k) (length (asm_buffer a) + 8 * k))
     \<and> ls' = map (\<lambda>k. bind_to (int (length (asm_buffer a) + 8 * k)) (ls ! k)) [0..<length ls]
     \<and> (\<forall>j < length (asm_buffer a). outside_slots (all_instructions ls) j \<longrightarrow> m ! j = asm_buffer a ! j)"
  using assms
proof (induction ls arbitrary: a)
  case Nil
  then show ?case by (auto intro: exI [of _ "asm_buffer a"])
next
  case (Cons l ls)
  let ?B = "asm_buffer a" and ?l = "bind_to (int (length (asm_buffer a))) l"
  have s: "slots_ok n (instructions l)" "slots_ok n (all_instructions ls)"
      and apart: "\<forall>x \<in> set (instructions l). \<forall>y \<in> set (all_instructions ls). position x + 4 \<le> position y"
    using Cons.prems(1) slots_ok_append [of n "instructions l" "all_instructions ls"]
    by (simp_all add: all_instructions_def)
  have s0: "slots_ok (length ?B) (instructions ?l)" using s(1) Cons.prems(2) by (auto simp: slots_ok_def bind_to_def)
  obtain m where m: "rfold (link_confused_instruction ?l) (instructions ?l) a = Inr (a\<lparr>asm_buffer := m\<rparr>)"
      "length m = length ?B" "\<forall>i \<in> set (instructions l). slot_disp i m = of_int (int (length ?B) - position i) + 9"
      "\<forall>j < length m. outside_slots (instructions l) j \<longrightarrow> m ! j = ?B ! j"
    using link_confused_ok [OF s0, of ?l] by (auto simp: label_bind_link bind_to_def label_pos_def)
  let ?m1 = "m @ le_bytes 8 (label_data l)"
  have bind: "PseudoBind l a = Inr (?l, a\<lparr>asm_buffer := m\<rparr>)"
  proof (cases "instructions l = []")
    case True
    then have "a\<lparr>asm_buffer := m\<rparr> = a" using m(1) by (simp add: bind_to_def)
    then show ?thesis using True by (simp add: PseudoBind_def Let_def has_confused_instructions_def bind_to_def)
  next
    case False
    then show ?thesis
      using m(1) by (simp add: PseudoBind_def Let_def has_confused_instructions_def link_confused_instructions_def bind_to_def)
  qed
  have n1: "n \<le> length (asm_buffer (a\<lparr>asm_buffer := ?m1\<rparr>))" using Cons.prems(2) m(2) by simp
  obtain ls' m' where m': "reloc_bind_labels ls (a\<lparr>asm_buffer := ?m1\<rparr>) = Inr (ls', a\<lparr>asm_buffer := m'\<rparr>)"
      "length m' = length ?m1 + 8 * length ls"
      "\<forall>k < length ls. label_resolved m' (ls ! k) (length ?m1 + 8 * k)"
      "ls' = map (\<lambda>k. bind_to (int (length ?m1 + 8 * k)) (ls ! k)) [0..<length ls]"
      "\<forall>j < length ?m1. outside_slots (all_instructions ls) j \<longrightarrow> m' ! j = ?m1 ! j"
    using Cons.IH [OF s(2) n1] by auto
  have above: "outside_slots (all_instructions ls) j" if "length ?B \<le> j" for j
    using s(2) Cons.prems(2) that by (fastforce simp: slots_ok_def outside_slots_def)
  have data: "byte_slice (length ?B) 8 m' = le_bytes 8 (label_data l)"
  proof -
    have "byte_slice (length ?B) 8 m' = byte_slice (length ?B) 8 ?m1"
      by (rule byte_slice_eqI) (use m' m(2) above in auto)
    then show ?thesis using m(2) by (simp add: byte_slice_append)
  qed
  have fixd: "slot_disp i m' = of_int (int (length ?B) - position i) + 9" if i: "i \<in> set (instructions l)" for i
  proof -
    have p: "4 \<le> position i" "position i \<le> int n" using s(1) i by (auto simp: slots_ok_def)
    have "byte_slice (nat (position i - 4)) 4 m' = byte_slice (nat (position i - 4)) 4 m"
    proof (rule byte_slice_eqI)
      fix j assume j: "nat (position i - 4) \<le> j" "j < nat (position i - 4) + 4"
      then have "outside_slots (all_instructions ls) j" using apart i p by (fastforce simp: outside_slots_def)
      moreover have "j < length m" using j p Cons.prems(2) m(2) by linarith
      ultimately show "m' ! j = m ! j" using m'(5) by (simp add: nth_append)
    qed (use m' m(2) p Cons.prems(2) in auto)
    then show ?thesis using m(3) i by (simp add: slot_disp_def)
  qed
  have res: "label_resolved m' ((l # ls) ! k) (length ?B + 8 * k)" if "k < length (l # ls)" for k
    using that data fixd m'(3) m(2) by (cases k) (auto simp: label_resolved_def ac_simps)
  have frame: "m' ! j = ?B ! j" if "j < length ?B" "outside_slots (all_instructions (l # ls)) j" for j
  proof -
    have "outside_slots (instructions l) j" "outside_slots (all_instructions ls) j"
      using that(2) by (auto simp: outside_slots_def all_instructions_def)
    then show ?thesis using m(2,4) m'(5) that(1) by (simp add: nth_append)
  qed
  have "reloc_bind_labels (l # ls) a = Inr (?l # ls', a\<lparr>asm_buffer := m'\<rparr>)"
    using bind m'(1) by (simp add: EmitInt64_def emit_bytes_def bind_to_def)
  moreover have "?l # ls' = map (\<lambda>k. bind_to (int (length ?B + 8 * k)) ((l # ls) ! k)) [0..<length (l # ls)]"
    using m'(4) m(2) by (simp add: upt_conv_Cons map_Suc_upt [symmetric] comp_def ac_simps del: upt_Suc)
  ultimately show ?case
    using m'(2) m(2) res frame by auto
qed

lemma RelocBind_ok:
  assumes "data_labels a = Some ls" and "slots_ok (length (asm_buffer a)) (all_instructions ls)"
  shows "\<exists>a'. RelocBind a = Inr a' \<and> length (asm_buffer a') = length (asm_buffer a) + 8 * length ls
     \<and> (\<forall>k < length ls. label_resolved (asm_buffer a') (ls ! k) (length (asm_buffer a) + 8 * k))
     \<and> (\<forall>j < length (asm_buffer a). outside_slots (all_instructions ls) j \<longrightarrow> asm_buffer a' ! j = asm_buffer a ! j)"
  using reloc_bind_labels_ok [OF assms(2) order_refl] assms(1) by (auto simp: RelocBind_def)

text \<open>
  C21: binding the data labels appends one eight-byte literal per label, in order; each literal holds its
  label's value, every instruction linked to a label has in its displacement field the distance from the
  \<^verbatim>\<open>pop\<close> nine bytes before its end to that literal, and no other byte of the code changes.
\<close>

theorem RelocBind_resolves:
  assumes "data_labels a = Some ls" and "slots_ok (length (asm_buffer a)) (all_instructions ls)"
  shows "\<exists>a'. RelocBind a = Inr a' \<and> length (asm_buffer a') = length (asm_buffer a) + 8 * length ls
     \<and> (\<forall>k < length ls. label_resolved (asm_buffer a') (ls ! k) (length (asm_buffer a) + 8 * k))
     \<and> (\<forall>j < length (asm_buffer a). outside_slots (all_instructions ls) j \<longrightarrow> asm_buffer a' ! j = asm_buffer a ! j)"
  using assms by (rule RelocBind_ok)

theorem RelocBind_resolves_witness:
  "\<exists>a'. RelocBind (new_TurboAssembler 0\<lparr>asm_buffer := replicate 9 0, data_labels := Some [new_RelocLabelEntry 7]\<rparr>) = Inr a'
     \<and> label_resolved (asm_buffer a') (new_RelocLabelEntry 7) 9"
  using RelocBind_resolves [of "new_TurboAssembler 0\<lparr>asm_buffer := replicate 9 0, data_labels := Some [new_RelocLabelEntry 7]\<rparr>"
      "[new_RelocLabelEntry 7]"]
  by (auto simp: slots_ok_def all_instructions_def new_RelocLabelEntry_def)

section \<open>CallFunction\<close>

lemmas x64_emit_defs =
  x64_nop_def x64_call_i_def x64_pop_def x64_call_m_def MovRipToRegister_def EmitOpcode_def Emit1_def
  EmitImmediate_def EmitREX_ExtraRegister_def EmitOpcode_Register_def EmitREX_Operand_def emit_rex_def
  Emit_OpEn_MemOperand_def EmitModRM_Update_ExtraOpcode_def EmitModRM_def emit_bytes_def

lemma Address_volatile:
  "Address_base_disp VOLATILE_REGISTER 0x7FFFFFFF = \<lparr>opd_rex = 1, opd_encoding = 0x83 # le_bytes 4 (0x7FFFFFFF :: u32)\<rparr>"
  by (simp add: Address_base_disp_def VOLATILE_REGISTER_def r11_def rsp_def rbp_def r12_def SetModRM_def SetDisp32_def
      new_Operand_def IsInt8_def Is_def RexBits_defs Let_def)

definition call_function_code :: "u8 list" where
  "call_function_code = [0x90, 0xE8, 0, 0, 0, 0, 0x4D, 0x5B, 0x41, 0xFF, 0x93, 0xFF, 0xFF, 0xFF, 0x7F, 0x90]"

lemma CallFunction_emits:
  "CallFunction f a = Inr (a\<lparr>
     data_labels := Some ((case data_labels a of None \<Rightarrow> [] | Some ls \<Rightarrow> ls) @
       [PseudoLabel_link_to (15 + int (length (asm_buffer a))) kDisp32_off_9 (new_RelocLabelEntry f)]),
     asm_buffer := asm_buffer a @ call_function_code\<rparr>)"
  unfolding CallFunction_def Address_volatile
  by (simp add: x64_emit_defs sized_Immediate_def VOLATILE_REGISTER_def r11_def
      low_bits_def EmitOptionalRex_def RexBits_defs opd_modrm_def ModRM_Mod_def ModRM_RM_def
      AppendRelocLabelEntry_def ip_offset_def call_function_code_def le_simps)



section \<open>JmpNearIndirect\<close>

text \<open>
  C20: \<^verbatim>\<open>JmpNearIndirect\<close> emits the six bytes \<^verbatim>\<open>FF 25 disp32\<close>, and the displacement, sign-extended and added
  to the address of the next instruction, is the address of the pointer the jump goes through, whenever
  that pointer is within two gigabytes of the code.
\<close>

theorem JmpNearIndirect_target:
  assumes near: "sint (address - (CurrentIP a + 6)) \<in> {- (2 ^ 31) ..< 2 ^ 31}"
  shows "\<exists>a' disp :: u32. JmpNearIndirect address a = Inr a'
     \<and> asm_buffer a' = asm_buffer a @ [0xFF, 0x25] @ le_bytes 4 disp
     \<and> CurrentIP a + 6 + scast disp = address"
proof -
  let ?d = "address - (CurrentIP a + 6)"
  have "(scast (ucast ?d :: u32) :: u64) = ?d"
    using near by (intro scast_ucast_near) auto
  then show ?thesis
    by (intro exI conjI) (auto simp: JmpNearIndirect_def Let_def emit_bytes_def le_simps)
qed

theorem JmpNearIndirect_target_witness:
  "\<exists>a' disp :: u32. JmpNearIndirect 0x2000 (new_TurboAssembler 0x1000) = Inr a'
     \<and> asm_buffer a' = [0xFF, 0x25] @ le_bytes 4 disp \<and> 0x1006 + scast disp = (0x2000 :: u64)"
  using JmpNearIndirect_target [of "0x2000" "new_TurboAssembler 0x1000"]
  by (simp add: new_TurboAssembler_def CurrentIP_def pc_offset_def)

section \<open>Addressing forms\<close>

text \<open>
  What the processor makes of a REX prefix and the bytes from ModR/M on (Intel SDM volume 2, 2.1.5): base
  register, index register with scale, displacement. RIP-relative and register forms are no address here.
\<close>

record effective_address =
  ea_base :: "u8 option"
  ea_index :: "(u8 \<times> u8) option"
  ea_disp :: u32

definition hw_disp :: "u8 \<Rightarrow> u8 list \<Rightarrow> u32 option" where
  "hw_disp md bs =
     (if md = 0 \<and> bs = [] then Some 0
      else if md = 1 \<and> length bs = 1 then Some (scast (bs ! 0))
      else if md = 2 \<and> length bs = 4 then Some (le_word bs)
      else None)"

definition hw_ext :: "u8 \<Rightarrow> nat \<Rightarrow> u8" where
  "hw_ext rex n = (if bit rex n then 8 else 0)"

definition hw_address :: "u8 \<Rightarrow> u8 list \<Rightarrow> effective_address option" where
  "hw_address rex bs =
     (case bs of
        [] \<Rightarrow> None
      | m # rest \<Rightarrow>
          (let md = drop_bit 6 m; rm = m AND 7
           in if md = 3 then None
              else if rm = 4 then
                (case rest of
                   [] \<Rightarrow> None
                 | s # ds \<Rightarrow>
                     (let ix = (drop_bit 3 s AND 7) + hw_ext rex 1; b = s AND 7;
                          idx = (if ix = 4 then None else Some (ix, drop_bit 6 s))
                      in if md = 0 \<and> b = 5
                         then map_option (\<lambda>d. \<lparr>ea_base = None, ea_index = idx, ea_disp = d\<rparr>) (hw_disp 2 ds)
                         else map_option (\<lambda>d. \<lparr>ea_base = Some (b + hw_ext rex 0), ea_index = idx, ea_disp = d\<rparr>)
                                (hw_disp md ds)))
              else if md = 0 \<and> rm = 5 then None
              else map_option (\<lambda>d. \<lparr>ea_base = Some (rm + hw_ext rex 0), ea_index = None, ea_disp = d\<rparr>)
                     (hw_disp md rest)))"

lemma code16_cases:
  assumes "(c :: u8) < 16"
  obtains "c = 0" | "c = 1" | "c = 2" | "c = 3" | "c = 4" | "c = 5" | "c = 6" | "c = 7"
    | "c = 8" | "c = 9" | "c = 10" | "c = 11" | "c = 12" | "c = 13" | "c = 14" | "c = 15"
proof -
  have "unat c < 16" using assms by (simp add: word_less_nat_alt)
  then have "unat c \<in> set [0..<16]" by simp
  then have "c \<in> of_nat ` set [0..<16]" by (metis image_eqI of_nat_unat ucast_id)
  then show thesis using that by (auto simp: upt_rec)
qed

lemma IsInt8_scast: "IsInt8 d \<Longrightarrow> scast (ucast d :: u8) = d"
  by (rule scast_ucast_fits) (simp_all add: IsInt8_def)

text \<open>
  The encoding of \<^verbatim>\<open>[base + disp]\<close> means that address, for every one of the sixteen base registers and
  every displacement: the special cases of \<^verbatim>\<open>rsp\<close>/\<^verbatim>\<open>r12\<close> (which need a SIB byte) and \<^verbatim>\<open>rbp\<close>/\<^verbatim>\<open>r13\<close> (which cannot
  drop the displacement) included.
\<close>

lemma Address_base_disp_means:
  assumes "reg_code base < 16"
  shows "hw_address (opd_rex (Address_base_disp base disp)) (opd_encoding (Address_base_disp base disp))
     = Some \<lparr>ea_base = Some (reg_code base), ea_index = None, ea_disp = disp\<rparr>"
  using assms
  by (cases rule: code16_cases)
   (simp_all add: Address_base_disp_def Let_def SetModRM_def SetSIB_def SetDisp8_def SetDisp32_def new_Operand_def
     rsp_def rbp_def r12_def Is_def RexBits_defs hw_address_def hw_disp_def hw_ext_def IsInt8_scast)

lemma and_7: "x AND 7 = (take_bit 3 x :: u8)"
  by (simp add: take_bit_eq_mask mask_eq_exp_minus_1)

lemma sib_pack:
  fixes sc i b :: u8
  assumes "sc < 4"
  defines "s \<equiv> push_bit 6 sc OR push_bit 3 (i AND 7) OR (b AND 7)"
  shows "s AND 7 = b AND 7" "drop_bit 3 s AND 7 = i AND 7" "drop_bit 6 s = sc"
proof -
  show "s AND 7 = b AND 7" "drop_bit 3 s AND 7 = i AND 7"
    unfolding s_def and_7
    by (rule bit_word_eqI, auto simp: bit_take_bit_iff bit_or_iff bit_push_bit_iff bit_drop_bit_eq)+
  have "take_bit 2 sc = sc"
    using assms(1) by (intro take_bit_word_less) (simp add: word_less_nat_alt)
  then have "bit sc n \<Longrightarrow> n < 2" for n by (metis bit_take_bit_iff)
  then show "drop_bit 6 s = sc"
    unfolding s_def and_7
    by (intro bit_word_eqI) (auto simp: bit_take_bit_iff bit_or_iff bit_push_bit_iff bit_drop_bit_eq)
qed

lemma code_split:
  assumes "(c :: u8) < 16"
  shows "(c AND 7) + (if c > 7 then 8 else 0) = c"
  using assms by (cases rule: code16_cases) simp_all

lemma scale_less: "sc \<noteq> TIMES_16 \<Longrightarrow> scale_code sc < 4"
  by (cases sc) simp_all

text \<open>The operand with a SIB byte, whatever the mode and displacement.\<close>

definition sib_byte :: "ScaleFactor \<Rightarrow> CPURegister \<Rightarrow> CPURegister \<Rightarrow> u8" where
  "sib_byte sc index base = push_bit 6 (scale_code sc) OR push_bit 3 (reg_code index AND 7) OR (reg_code base AND 7)"

definition sib_rex :: "CPURegister \<Rightarrow> CPURegister \<Rightarrow> u8" where
  "sib_rex index base = (let r = (if reg_code base > 7 then RexBits_B else 0) in if reg_code index > 7 then r OR RexBits_X else r)"

lemma SetSIB_rsp:
  "SetSIB sc index base (SetModRM md rsp new_Operand) =
     \<lparr>opd_rex = sib_rex index base, opd_encoding = [push_bit 6 md OR 4, sib_byte sc index base]\<rparr>"
  by (simp add: SetSIB_def SetModRM_def rsp_def new_Operand_def sib_rex_def sib_byte_def Let_def Is_def r12_def)

lemma hw_ext_sib_rex:
  "hw_ext (sib_rex index base) 0 = (if reg_code base > 7 then 8 else 0)"
  "hw_ext (sib_rex index base) 1 = (if reg_code index > 7 then 8 else 0)"
  by (simp_all add: hw_ext_def sib_rex_def RexBits_defs Let_def)

lemma hw_address_sib:
  assumes md: "md < 3" and ix: "reg_code index < 16" "reg_code index \<noteq> 4" and b: "reg_code base < 16" and sc: "sc \<noteq> TIMES_16"
  shows "hw_address (sib_rex index base) ((push_bit 6 md OR 4) # sib_byte sc index base # ds) =
     (if md = 0 \<and> reg_code base AND 7 = 5
      then map_option (\<lambda>d. \<lparr>ea_base = None, ea_index = Some (reg_code index, scale_code sc), ea_disp = d\<rparr>) (hw_disp 2 ds)
      else map_option (\<lambda>d. \<lparr>ea_base = Some (reg_code base), ea_index = Some (reg_code index, scale_code sc), ea_disp = d\<rparr>)
             (hw_disp md ds))"
proof -
  have "md < 16" using md by (rule less_trans) simp
  then have "md = 0 \<or> md = 1 \<or> md = 2" using md by (cases rule: code16_cases) simp_all
  then have m: "drop_bit 6 (push_bit 6 md OR 4) = md" "(push_bit 6 md OR 4) AND 7 = 4" "md \<noteq> 3" by auto
  note pack = sib_pack [OF scale_less [OF sc], of "reg_code index" "reg_code base", folded sib_byte_def]
  have ixc: "(reg_code index AND 7) + (if reg_code index > 7 then 8 else 0) = reg_code index"
      and bc: "(reg_code base AND 7) + (if reg_code base > 7 then 8 else 0) = reg_code base"
    by (rule code_split [OF ix(1)], rule code_split [OF b])
  show ?thesis
    unfolding hw_address_def by (simp add: Let_def m m [simplified] pack hw_ext_sib_rex hw_ext_sib_rex [simplified] ixc bc ix(2))
qed

text \<open>
  The encoding of \<^verbatim>\<open>[base + index * scale + disp]\<close> means that address, for every base and every index but
  \<^verbatim>\<open>rsp\<close>, and the form without a base likewise.
\<close>

theorem Address_base_index_means:
  assumes "reg_code base < 16" and "reg_code index < 16" and "reg_code index \<noteq> 4" and "sc \<noteq> TIMES_16"
  shows "hw_address (opd_rex (Address_base_index_disp base index sc disp)) (opd_encoding (Address_base_index_disp base index sc disp))
       = Some \<lparr>ea_base = Some (reg_code base), ea_index = Some (reg_code index, scale_code sc), ea_disp = disp\<rparr>
   \<and> hw_address (opd_rex (Address_index_disp index sc disp)) (opd_encoding (Address_index_disp index sc disp))
       = Some \<lparr>ea_base = None, ea_index = Some (reg_code index, scale_code sc), ea_disp = disp\<rparr>"
proof -
  have base0: "hw_address (sib_rex index rbp) ((push_bit 6 0 OR 4) # sib_byte sc index rbp # le_bytes 4 disp)
      = Some \<lparr>ea_base = None, ea_index = Some (reg_code index, scale_code sc), ea_disp = disp\<rparr>"
    using hw_address_sib [of 0 index rbp sc "le_bytes 4 disp"] assms by (simp add: rbp_def hw_disp_def)
  have addr: "hw_address (sib_rex index base) ((push_bit 6 md OR 4) # sib_byte sc index base # ds)
      = Some \<lparr>ea_base = Some (reg_code base), ea_index = Some (reg_code index, scale_code sc), ea_disp = disp\<rparr>"
    if "md < 3" "md = 0 \<longrightarrow> reg_code base AND 7 \<noteq> 5" "hw_disp md ds = Some disp" for md ds
    using hw_address_sib [OF that(1) assms(2,3,1,4), of ds] that by auto
  show ?thesis
    using base0 addr [of 0 "[]"] addr [of 1 "[ucast disp]"] addr [of 2 "le_bytes 4 disp"]
    by (simp add: Address_base_index_disp_def Address_index_disp_def SetSIB_rsp SetDisp8_def SetDisp32_def
        hw_disp_def IsInt8_scast rbp_def)
qed

theorem Address_base_index_means_witness:
  "hw_address (opd_rex (Address_base_index_disp r13 r12 TIMES_4 0)) (opd_encoding (Address_base_index_disp r13 r12 TIMES_4 0))
     = Some \<lparr>ea_base = Some 13, ea_index = Some (12, 2), ea_disp = 0\<rparr>"
  using Address_base_index_means [of r13 r12 TIMES_4 0] by (simp add: r13_def r12_def)

section \<open>Whole instructions\<close>

lemma hw_address_cong:
  assumes "bit rex 0 = bit rex' 0" and "bit rex 1 = bit rex' 1"
    and "drop_bit 6 m = drop_bit 6 m'" and "m AND 7 = m' AND 7"
  shows "hw_address rex (m # rest) = hw_address rex' (m' # rest)"
proof -
  have "hw_ext rex 0 = hw_ext rex' 0" "hw_ext rex 1 = hw_ext rex' 1"
    using assms(1,2) by (simp_all add: hw_ext_def)
  then show ?thesis by (simp only: hw_address_def list.case assms(3,4))
qed

lemma ModRM_Mod_less: "ModRM_Mod m < 4" and ModRM_Mod_eq: "ModRM_Mod m = drop_bit 6 m"
proof -
  show eq: "ModRM_Mod m = drop_bit 6 m"
    unfolding ModRM_Mod_def
  proof (rule bit_word_eqI)
    fix n assume "n < LENGTH(8)"
    moreover have "0xC0 = (push_bit 6 (mask 2) :: u8)" by (simp add: mask_eq_exp_minus_1)
    then have "bit (0xC0 :: u8) (6 + n) \<longleftrightarrow> n < 2"
      by (simp only: bit_push_bit_iff bit_mask_iff) auto
    moreover have "bit m (6 + n) \<Longrightarrow> n < 2" using bit_imp_le_length [of m "6 + n"] by simp
    ultimately show "bit (drop_bit 6 (m AND 0xC0)) n = bit (drop_bit 6 m) n"
      unfolding bit_drop_bit_eq comp_def bit_and_iff by blast
  qed
  have "unat m < 256" using unsigned_less [of m, where 'a = nat] by simp
  then have "unat (drop_bit 6 m) < 4" by (simp add: unat_div drop_bit_eq_div)
  then show "ModRM_Mod m < 4" by (simp add: eq word_less_nat_alt)
qed


lemma low_bits_eq: "low_bits r = reg_code r AND 7"
  by (simp add: low_bits_def)

lemma EmitModRM_Update_Register_fields:
  fixes m :: u8 and r :: CPURegister
  defines "m' \<equiv> push_bit 6 (ModRM_Mod m) OR push_bit 3 (low_bits r) OR ModRM_RM m"
  shows "drop_bit 6 m' = drop_bit 6 m" "m' AND 7 = m AND 7" "drop_bit 3 m' AND 7 = reg_code r AND 7"
  using sib_pack [OF ModRM_Mod_less [of m], of "reg_code r" m]
  unfolding m'_def low_bits_eq ModRM_RM_def ModRM_Mod_eq by simp_all

lemma Address_rex_le: 
  assumes "reg_code base < 16"
  shows "opd_rex (Address_base_disp base disp) \<in> {0, 1}" "opd_encoding (Address_base_disp base disp) \<noteq> []"
  using assms
  by (cases rule: code16_cases, simp_all add: Address_base_disp_def Let_def SetModRM_def SetSIB_def SetDisp8_def
      SetDisp32_def new_Operand_def rsp_def rbp_def r12_def Is_def RexBits_defs)+

text \<open>
  C21: \<^verbatim>\<open>mov [base + disp], src\<close> is encoded as REX, opcode \<^verbatim>\<open>89\<close> and an operand that, with that REX, means exactly
  the given address, and whose register field extended by REX.R is the given source register, for all
  sixteen bases and sources; REX.W is set.
\<close>

theorem x64_mov_mr_means:
  assumes base: "reg_code base < 16" and src: "reg_code src < 16" "reg_size src = 64"
  shows "\<exists>a' rex m rest. x64_mov_mr (Address_base_disp base disp) src a = Inr a'
     \<and> asm_buffer a' = asm_buffer a @ [rex, 0x89, m] @ rest
     \<and> hw_address rex (m # rest) = Some \<lparr>ea_base = Some (reg_code base), ea_index = None, ea_disp = disp\<rparr>
     \<and> (drop_bit 3 m AND 7) + hw_ext rex 2 = reg_code src \<and> bit rex 3"
proof -
  let ?o = "Address_base_disp base disp"
  obtain m0 rest where enc: "opd_encoding ?o = m0 # rest"
    using Address_rex_le(2) [OF base] by (cases "opd_encoding ?o") auto
  define rex where "rex = opd_rex ?o OR EmitOptionalRex True True (reg_code src > 7) False False"
  define m where "m = push_bit 6 (ModRM_Mod m0) OR push_bit 3 (low_bits src) OR ModRM_RM m0"
  note mf = EmitModRM_Update_Register_fields [of m0 src, folded m_def]
  have rex_bits: "bit rex 0 = bit (opd_rex ?o) 0" "bit rex 1 = bit (opd_rex ?o) 1" "bit rex 2 \<longleftrightarrow> reg_code src > 7"
      "bit rex 3" "rex \<noteq> 0"
    using Address_rex_le(1) [OF base, of disp] by (auto simp: rex_def EmitOptionalRex_def)
  have "hw_address rex (m # rest) = hw_address (opd_rex ?o) (opd_encoding ?o)"
    unfolding enc by (rule hw_address_cong) (use rex_bits mf in auto)
  then have "hw_address rex (m # rest) = Some \<lparr>ea_base = Some (reg_code base), ea_index = None, ea_disp = disp\<rparr>"
    using Address_base_disp_means [OF base] by simp
  moreover have "x64_mov_mr ?o src a = Inr (a\<lparr>asm_buffer := asm_buffer a @ [rex, 0x89, m] @ rest\<rparr>)"
    using src(2) rex_bits(5)
    by (simp add: x64_mov_mr_def EmitREX_Register_Operand_def emit_rex_def rex_def [symmetric] Emit1_def emit_bytes_def
        EmitOpcode_def Emit_OpEn_Register_MemOperand_def EmitModRM_Update_Register_def EmitModRM_def opd_modrm_def enc
        m_def [symmetric] le_simps)
  moreover have "(drop_bit 3 m AND 7) + hw_ext rex 2 = reg_code src"
    using mf(3) code_split [OF src(1)] rex_bits(3) by (simp add: hw_ext_def)
  ultimately show ?thesis using rex_bits(4) by (intro exI conjI) auto
qed

theorem x64_mov_mr_means_witness:
  "\<exists>a' rex m rest. x64_mov_mr (Address_base_disp r12 8) r9 (new_TurboAssembler 0) = Inr a'
     \<and> asm_buffer a' = [rex, 0x89, m] @ rest
     \<and> hw_address rex (m # rest) = Some \<lparr>ea_base = Some 12, ea_index = None, ea_disp = 8\<rparr>
     \<and> (drop_bit 3 m AND 7) + hw_ext rex 2 = 9 \<and> bit rex 3"
  using x64_mov_mr_means [of r12 r9 8 "new_TurboAssembler 0"]
  by (simp add: r12_def r9_def new_TurboAssembler_def)

text \<open>
  The other two register moves lose the high bit of their source: \<^verbatim>\<open>mov dst, [r11 + d]\<close> is emitted as
  \<^verbatim>\<open>mov dst, [rbx + d]\<close> because the operand's REX bits are dropped, and \<^verbatim>\<open>mov rax, r8\<close> as \<^verbatim>\<open>mov rcx, rax\<close>
  because the register code is not reduced to three bits.
\<close>

theorem x64_mov_extended_source_lost:
  "x64_mov_rm dst (Address_base_disp r11 disp) a = x64_mov_rm dst (Address_base_disp rbx disp) a
     \<and> x64_mov_rr rax r8 a = x64_mov_rr rcx rax a"
proof
  show "x64_mov_rm dst (Address_base_disp r11 disp) a = x64_mov_rm dst (Address_base_disp rbx disp) a"
    by (simp add: x64_mov_rm_def Emit_OpEn_Register_MemOperand_def opd_modrm_def Address_base_disp_def Let_def
        SetModRM_def SetDisp8_def SetDisp32_def new_Operand_def r11_def rbx_def rsp_def rbp_def)
  show "x64_mov_rr rax r8 a = x64_mov_rr rcx rax a"
    by (simp add: x64_mov_rr_def EmitREX_Register_def emit_rex_def EmitOptionalRex_def rax_def rcx_def r8_def
        Emit_OpEn_Register_RegOperand_def EmitModRM_Register_Register_def EmitModRM_def)
qed

end
