(* ===== verification/Memory_Arena.thy ===== *)
theory Memory_Arena
  imports Dobby_Prelude "HOL-Library.Multiset"
begin

text \<open>
  \<^verbatim>\<open>MemoryArena\<close> and \<^verbatim>\<open>NearMemoryArena\<close>: bump allocation of code and data chunks out of pages, and the search
  for a page or a blank chunk near a given address. What the operating system answers (\<^verbatim>\<open>mmap\<close> through
  \<^verbatim>\<open>OSMemory::Allocate\<close>, the process's memory map, the bytes in it) are parameters. The interface
  \<open>chunk_allocator\<close> states the contract the routing code relies on: chunks never overlap.
\<close>

section \<open>Data\<close>

datatype MemoryPermission = kNoAccess | kRead | kReadWrite | kReadWriteExecute | kReadExecute

record MemoryRange =
  range_address :: u64
  range_length :: u64

record MemoryRegion = MemoryRange +
  region_permission :: MemoryPermission

type_synonym MemoryChunk = MemoryRange

record PageChunk =
  page :: MemoryChunk
  page_cursor :: u64
  page_permission :: MemoryPermission
  page_chunk_list :: "MemoryChunk list"

definition init_region_range :: "u64 \<Rightarrow> u32 \<Rightarrow> MemoryChunk" where
  "init_region_range address sz = \<lparr>range_address = address, range_length = scast sz\<rparr>"

definition raw_instruction_start :: "MemoryChunk \<Rightarrow> u64" where
  "raw_instruction_start c = range_address c"

definition raw_instruction_size :: "MemoryChunk \<Rightarrow> u64" where
  "raw_instruction_size c = range_length c"

text \<open>The static \<^verbatim>\<open>page_chunks\<close>, null before the first call.\<close>

type_synonym arena = "PageChunk list option"

definition arena_pages :: "arena \<Rightarrow> PageChunk list" where
  "arena_pages a = (case a of None \<Rightarrow> [] | Some ps \<Rightarrow> ps)"

section \<open>MemoryArena\<close>

definition page_fits :: "u32 \<Rightarrow> PageChunk \<Rightarrow> bool" where
  "page_fits alloc_size p \<longleftrightarrow>
     page_cursor p + scast alloc_size < range_address (page p) + range_length (page p)"

definition new_PageChunk :: "u64 \<Rightarrow> u64 \<Rightarrow> MemoryPermission \<Rightarrow> PageChunk" where
  "new_PageChunk address pageSize permission =
     \<lparr>page = \<lparr>range_address = address, range_length = pageSize\<rparr>, page_cursor = address,
      page_permission = permission, page_chunk_list = []\<rparr>"

text \<open>Carving the chunk off a page.\<close>

definition page_take :: "u32 \<Rightarrow> PageChunk \<Rightarrow> MemoryChunk \<times> PageChunk" where
  "page_take alloc_size p =
     (let chunk = \<lparr>range_address = page_cursor p, range_length = scast alloc_size\<rparr>
      in (chunk, p\<lparr>page_chunk_list := page_chunk_list p @ [chunk], page_cursor := page_cursor p + scast alloc_size\<rparr>))"

text \<open>The iteration over the pages stops at the first page that serves; the others stay as they are.\<close>

fun take_first :: "(PageChunk \<Rightarrow> bool) \<Rightarrow> u32 \<Rightarrow> PageChunk list \<Rightarrow> (MemoryChunk \<times> PageChunk list) option" where
  "take_first serves alloc_size [] = None"
| "take_first serves alloc_size (p # ps) =
     (if serves p then (let (c, p') = page_take alloc_size p in Some (c, p' # ps))
      else map_option (\<lambda>(c, ps'). (c, p # ps')) (take_first serves alloc_size ps))"

text \<open>
  \<open>fresh\<close> is what \<^verbatim>\<open>OSMemory::Allocate(NULL, pageSize, permission)\<close> returns if it is called, 0 for a
  failure; it is called at most once.
\<close>

definition AllocateChunk ::
  "u64 \<Rightarrow> u64 \<Rightarrow> u32 \<Rightarrow> MemoryPermission \<Rightarrow> arena \<Rightarrow> MemoryChunk option \<times> arena" where
  "AllocateChunk pageSize fresh alloc_size permission a =
     (let ps = arena_pages a
      in case take_first (\<lambda>p. page_permission p = permission \<and> page_fits alloc_size p) alloc_size ps of
           Some (c, ps') \<Rightarrow> (Some c, Some ps')
         | None \<Rightarrow>
             if fresh = 0 then (None, Some ps)
             else (let (c, p') = page_take alloc_size (new_PageChunk fresh pageSize permission)
                   in (Some c, Some (ps @ [p']))))"

definition AllocateCodeChunk :: "u64 \<Rightarrow> u64 \<Rightarrow> u32 \<Rightarrow> arena \<Rightarrow> MemoryChunk option \<times> arena" where
  "AllocateCodeChunk pageSize fresh alloc_size a = AllocateChunk pageSize fresh alloc_size kReadExecute a"

definition AllocateDataChunk :: "u64 \<Rightarrow> u64 \<Rightarrow> u32 \<Rightarrow> arena \<Rightarrow> MemoryChunk option \<times> arena" where
  "AllocateDataChunk pageSize fresh alloc_size a = AllocateChunk pageSize fresh alloc_size kReadWrite a"

section \<open>Searching near an address\<close>

type_synonym os_allocate = "nat \<Rightarrow> u64 \<Rightarrow> u64"

text \<open>
  \<open>os k hint\<close> is the page the operating system gives at its \<open>k\<close>-th request, for that hint; the searches
  return the number of requests made so far with their result. Indexing the layout outside its bounds is
  \<open>OVERREAD\<close>.
\<close>

definition min_page_addr :: "u64 \<Rightarrow> u64 \<Rightarrow> u64 \<Rightarrow> u64" where
  "min_page_addr pageSize pos alloc_range = ALIGN_FLOOR (pos - alloc_range) pageSize + pageSize"

definition max_page_addr :: "u64 \<Rightarrow> u64 \<Rightarrow> u64 \<Rightarrow> u64" where
  "max_page_addr pageSize pos alloc_range = ALIGN_FLOOR (pos + alloc_range) pageSize - pageSize"

definition region_end :: "'a MemoryRange_scheme \<Rightarrow> u64" where
  "region_end r = range_address r + range_length r"

text \<open>The left blank of a region, tried once while the assumed page is still the lowest one.\<close>

definition try_left_blank ::
  "os_allocate \<Rightarrow> u64 \<Rightarrow> MemoryRegion list \<Rightarrow> nat \<Rightarrow> nat \<times> u64 \<times> u64 \<Rightarrow> (nat \<times> u64 \<times> u64) result" where
  "try_left_blank os lo layout i st =
     (let (k, assume_addr, res) = st
      in if assume_addr = lo
         then if i = 0 then Inl OVERREAD
              else (let prev_end = region_end (layout ! (i - 1))
                    in if range_address (layout ! i) > prev_end
                       then (let hint = (if lo > prev_end then lo else prev_end) in Inr (k + 1, hint, os k hint))
                       else Inr st)
         else Inr st)"

definition try_right_blank ::
  "os_allocate \<Rightarrow> MemoryRegion list \<Rightarrow> nat \<Rightarrow> nat \<times> u64 \<times> u64 \<Rightarrow> (nat \<times> u64 \<times> u64) result" where
  "try_right_blank os layout i st =
     (let (k, assume_addr, res) = st
      in if i + 1 < length layout
         then if region_end (layout ! i) < range_address (layout ! (i + 1))
              then (let hint = region_end (layout ! i) in Inr (k + 1, hint, os k hint))
              else Inr st
         else Inl OVERREAD)"

text \<open>
  The loop over the regions. A failed request leaves 0 in the result; the left blank's request ends the
  loop when it succeeds, before the right blank is looked at.
\<close>

function blank_page_loop ::
  "os_allocate \<Rightarrow> u64 \<Rightarrow> u64 \<Rightarrow> MemoryRegion list \<Rightarrow> nat \<Rightarrow> nat \<times> u64 \<times> u64 \<Rightarrow> (nat \<times> u64) result" where
  "blank_page_loop os lo hi layout i st =
     (if i < length layout
      then if region_end (layout ! i) < hi \<and> range_address (layout ! i) \<ge> lo
           then rbind (try_left_blank os lo layout i st) (\<lambda>st1.
                if fst st1 \<noteq> fst st \<and> snd (snd st1) \<noteq> 0 then Inr (fst st1, snd (snd st1))
                else rbind (try_right_blank os layout i st1) (\<lambda>st2.
                     if fst st2 \<noteq> fst st1 \<and> snd (snd st2) \<noteq> 0 then Inr (fst st2, snd (snd st2))
                     else blank_page_loop os lo hi layout (i + 1) st2))
           else blank_page_loop os lo hi layout (i + 1) st
      else Inr (fst st, snd (snd st)))"
  by pat_completeness auto
termination by (relation "measure (\<lambda>(os, lo, hi, layout, i, st). length layout - i)") auto

declare blank_page_loop.simps [simp del]

definition search_near_blank_page ::
  "os_allocate \<Rightarrow> u64 \<Rightarrow> MemoryRegion list \<Rightarrow> nat \<Rightarrow> u64 \<Rightarrow> u64 \<Rightarrow> (nat \<times> u64) result" where
  "search_near_blank_page os pageSize layout k pos alloc_range =
     (let lo = min_page_addr pageSize pos alloc_range; hi = max_page_addr pageSize pos alloc_range
      in if layout = [] then Inl OVERREAD
         else
           (let (k1, r1) = (if lo < range_address (layout ! 0) then (k + 1, os k lo) else (k, 0))
            in if r1 \<noteq> 0 then Inr (k1, r1)
               else
                 (let (k2, r2) = (if hi < region_end (last layout) then (k1 + 1, os k1 lo) else (k1, 0))
                  in if r2 \<noteq> 0 then Inr (k2, r2) else blank_page_loop os lo hi layout 0 (k2, lo, 0))))"

text \<open>
  \<^verbatim>\<open>memmem\<close> over a region's bytes; on the ARM targets the needle is three bytes longer than the cleared
  block it points to (\<open>junk\<close> is what lies behind it), and the hit is moved up to the next multiple of four.
\<close>

fun find_needle :: "u8 list \<Rightarrow> u8 list \<Rightarrow> nat option" where
  "find_needle needle hay =
     (if length hay < length needle then None
      else if take (length needle) hay = needle then Some 0
      else case hay of [] \<Rightarrow> None | _ # hs \<Rightarrow> map_option Suc (find_needle needle hs))"

declare find_needle.simps [simp del]

fun blank_chunk_loop ::
  "bool \<Rightarrow> (u64 \<Rightarrow> nat \<Rightarrow> u8 list) \<Rightarrow> u8 list \<Rightarrow> u64 \<Rightarrow> u64 \<Rightarrow> nat \<Rightarrow> MemoryRegion list \<Rightarrow> u64" where
  "blank_chunk_loop arm bytes_at junk lo hi n [] = 0"
| "blank_chunk_loop arm bytes_at junk lo hi n (r # rs) =
     (if (region_permission r = kReadExecute \<or> region_permission r = kRead) \<and> region_end r \<le> hi \<and> range_address r \<ge> lo
      then
        (let hay = bytes_at (range_address r) (unat (range_length r));
             n' = (if arm then n + 3 else n);
             needle = replicate n 0 @ (if arm then take 3 junk else [])
         in case find_needle needle hay of
              Some i \<Rightarrow>
                (let addr = range_address r + of_nat i
                 in if arm then addr + (4 - addr mod 4) else addr)
            | None \<Rightarrow> blank_chunk_loop arm bytes_at junk lo hi n' rs)
      else blank_chunk_loop arm bytes_at junk lo hi n rs)"

definition search_near_blank_memory_chunk ::
  "bool \<Rightarrow> (u64 \<Rightarrow> nat \<Rightarrow> u8 list) \<Rightarrow> u8 list \<Rightarrow> u64 \<Rightarrow> MemoryRegion list \<Rightarrow> u64 \<Rightarrow> u64 \<Rightarrow> nat \<Rightarrow> u64" where
  "search_near_blank_memory_chunk arm bytes_at junk pageSize layout pos alloc_range alloc_size =
     blank_chunk_loop arm bytes_at junk (min_page_addr pageSize pos alloc_range)
       (max_page_addr pageSize pos alloc_range) alloc_size layout"

section \<open>NearMemoryArena\<close>

definition PushPage :: "u64 \<Rightarrow> u64 \<Rightarrow> MemoryPermission \<Rightarrow> PageChunk list \<Rightarrow> PageChunk list" where
  "PushPage pageSize page_addr permission ps = ps @ [new_PageChunk page_addr pageSize permission]"

text \<open>\<^verbatim>\<open>llabs((intptr_t)(a - b)) < range\<close>, the comparison unsigned as \<^verbatim>\<open>alloc_range\<close> is a \<^verbatim>\<open>size_t\<close>.\<close>

definition near :: "u64 \<Rightarrow> u64 \<Rightarrow> u64 \<Rightarrow> bool" where
  "near a b r \<longleftrightarrow> (let d = a - b in if 0 \<le> sint d then d < r else - d < r)"

definition near_serves :: "u64 \<Rightarrow> u64 \<Rightarrow> u32 \<Rightarrow> MemoryPermission \<Rightarrow> PageChunk \<Rightarrow> bool" where
  "near_serves position alloc_range alloc_size permission p \<longleftrightarrow>
     page_permission p = permission \<and> near (page_cursor p) position alloc_range \<and> page_fits alloc_size p"

record near_env =
  env_os :: os_allocate
  env_page_size :: u64
  env_layout :: "MemoryRegion list"
  env_arm :: bool
  env_bytes_at :: "u64 \<Rightarrow> nat \<Rightarrow> u8 list"
  env_junk :: "u8 list"

text \<open>
  \<^verbatim>\<open>NearMemoryArena::AllocateChunk\<close>: the label \<^verbatim>\<open>search_once_more\<close> is the recursion, with fuel. The state is
  the number of requests to the operating system so far and the pages.
\<close>

fun Near_AllocateChunk ::
  "nat \<Rightarrow> near_env \<Rightarrow> u64 \<Rightarrow> u64 \<Rightarrow> u32 \<Rightarrow> MemoryPermission \<Rightarrow> nat \<times> PageChunk list
     \<Rightarrow> (MemoryChunk option \<times> nat \<times> PageChunk list) result option" where
  "Near_AllocateChunk 0 env position alloc_range alloc_size permission st = None"
| "Near_AllocateChunk (Suc fuel) env position alloc_range alloc_size permission (k, ps) =
     (case take_first (near_serves position alloc_range alloc_size permission) alloc_size ps of
        Some (c, ps') \<Rightarrow> Some (Inr (Some c, k, ps'))
      | None \<Rightarrow>
          (case search_near_blank_page (env_os env) (env_page_size env) (env_layout env) k position alloc_range of
             Inl e \<Rightarrow> Some (Inl e)
           | Inr (k', blank) \<Rightarrow>
               if blank \<noteq> 0
               then Near_AllocateChunk fuel env position alloc_range alloc_size permission
                      (k', PushPage (env_page_size env) blank permission ps)
               else if permission = kReadWrite then Some (Inr (None, k', ps))
               else (let b = search_near_blank_memory_chunk (env_arm env) (env_bytes_at env) (env_junk env)
                               (env_page_size env) (env_layout env) position alloc_range (unat alloc_size)
                     in if b \<noteq> 0
                        then Some (Inr (Some \<lparr>range_address = b, range_length = scast alloc_size\<rparr>, k', ps))
                        else Some (Inr (None, k', ps)))))"

definition Near_AllocateDataChunk ::
  "nat \<Rightarrow> near_env \<Rightarrow> u64 \<Rightarrow> u64 \<Rightarrow> u32 \<Rightarrow> nat \<times> PageChunk list \<Rightarrow> (MemoryChunk option \<times> nat \<times> PageChunk list) result option" where
  "Near_AllocateDataChunk fuel env position alloc_range alloc_size st =
     Near_AllocateChunk fuel env position alloc_range alloc_size kReadWrite st"

definition Near_AllocateCodeChunk ::
  "nat \<Rightarrow> near_env \<Rightarrow> u64 \<Rightarrow> u64 \<Rightarrow> u32 \<Rightarrow> nat \<times> PageChunk list \<Rightarrow> (MemoryChunk option \<times> nat \<times> PageChunk list) result option" where
  "Near_AllocateCodeChunk fuel env position alloc_range alloc_size st =
     Near_AllocateChunk fuel env position alloc_range alloc_size kReadExecute st"

section \<open>The contract\<close>

definition chunk_end :: "MemoryChunk \<Rightarrow> nat" where
  "chunk_end c = unat (range_address c) + unat (range_length c)"

definition apart :: "MemoryChunk \<Rightarrow> MemoryChunk \<Rightarrow> bool" where
  "apart c d \<longleftrightarrow> chunk_end c \<le> unat (range_address d) \<or> chunk_end d \<le> unat (range_address c)"

lemma apart_sym: "apart c d \<longleftrightarrow> apart d c"
  by (auto simp: apart_def)

text \<open>A history of requests: the chunks handed out, in order, from one state of the allocator to another.\<close>

inductive alloc_run ::
  "('r \<Rightarrow> 's \<Rightarrow> MemoryChunk option \<times> 's) \<Rightarrow> ('r \<Rightarrow> 's \<Rightarrow> bool) \<Rightarrow> 's \<Rightarrow> MemoryChunk list \<Rightarrow> 's \<Rightarrow> bool"
  for alloc valid s where
  start: "alloc_run alloc valid s [] s"
| served: "alloc_run alloc valid s cs s1 \<Longrightarrow> valid r s1 \<Longrightarrow> alloc r s1 = (Some c, s2)
     \<Longrightarrow> alloc_run alloc valid s (cs @ [c]) s2"
| refused: "alloc_run alloc valid s cs s1 \<Longrightarrow> valid r s1 \<Longrightarrow> alloc r s1 = (None, s2)
     \<Longrightarrow> alloc_run alloc valid s cs s2"

text \<open>
  An allocator: requests may depend on the state (what the operating system can still give); serving a
  valid one keeps the invariant, and the chunk it returns is apart from all chunks handed out before.
\<close>

locale chunk_allocator =
  fixes alloc :: "'r \<Rightarrow> 's \<Rightarrow> MemoryChunk option \<times> 's"
    and ok :: "'s \<Rightarrow> bool"
    and valid :: "'r \<Rightarrow> 's \<Rightarrow> bool"
    and chunks :: "'s \<Rightarrow> MemoryChunk list"
  assumes alloc_some: "ok s \<Longrightarrow> valid r s \<Longrightarrow> alloc r s = (Some c, s') \<Longrightarrow>
      ok s' \<and> mset (chunks s') = add_mset c (mset (chunks s)) \<and> (\<forall>d \<in> set (chunks s). apart c d)"
    and alloc_none: "ok s \<Longrightarrow> valid r s \<Longrightarrow> alloc r s = (None, s') \<Longrightarrow> ok s' \<and> mset (chunks s') = mset (chunks s)"
begin

lemma alloc_run_apart:
  assumes "alloc_run alloc valid s cs s'" and "ok s"
  shows "ok s' \<and> mset (chunks s') = mset (chunks s) + mset cs \<and> sorted_wrt apart cs
     \<and> (\<forall>c \<in> set cs. \<forall>d \<in> set (chunks s). apart c d)"
  using assms
proof (induction rule: alloc_run.induct)
  case (served cs s1 r c s2)
  then have IH: "ok s1" "mset (chunks s1) = mset (chunks s) + mset cs" "sorted_wrt apart cs"
      "\<forall>c \<in> set cs. \<forall>d \<in> set (chunks s). apart c d" by auto
  have set1: "set (chunks s1) = set (chunks s) \<union> set cs"
    using arg_cong [OF IH(2), of set_mset] by simp
  from alloc_some [OF IH(1) served.hyps(2,3)]
  have "ok s2" "mset (chunks s2) = add_mset c (mset (chunks s1))" "\<forall>d \<in> set (chunks s1). apart c d" by auto
  then show ?case using IH set1 by (auto simp: sorted_wrt_append apart_sym)
next
  case (refused cs s1 r s2)
  then show ?case using alloc_none [of s1 r s2] by auto
qed simp

end

section \<open>MemoryArena keeps the contract\<close>

text \<open>
  A page below the top two gigabytes of the address space whose chunks lie, in order, between its start
  and its cursor; pages are apart.
\<close>

definition page_ok :: "PageChunk \<Rightarrow> bool" where
  "page_ok p \<longleftrightarrow> chunk_end (page p) + 2 ^ 31 \<le> 2 ^ 64
     \<and> unat (range_address (page p)) \<le> unat (page_cursor p) \<and> unat (page_cursor p) \<le> chunk_end (page p)
     \<and> sorted_wrt (\<lambda>c d. chunk_end c \<le> unat (range_address d)) (page_chunk_list p)
     \<and> (\<forall>c \<in> set (page_chunk_list p). unat (range_address (page p)) \<le> unat (range_address c)
          \<and> chunk_end c \<le> unat (page_cursor p))"

definition pages_ok :: "PageChunk list \<Rightarrow> bool" where
  "pages_ok ps \<longleftrightarrow> list_all page_ok ps \<and> sorted_wrt (\<lambda>p q. apart (page p) (page q)) ps"

definition all_chunks :: "PageChunk list \<Rightarrow> MemoryChunk list" where
  "all_chunks ps = concat (map page_chunk_list ps)"

text \<open>What the operating system promises: a page of its own, of the page size, in user space.\<close>

definition fresh_ok :: "u64 \<Rightarrow> u64 \<Rightarrow> PageChunk list \<Rightarrow> bool" where
  "fresh_ok pageSize fresh ps \<longleftrightarrow> fresh \<noteq> 0 \<longrightarrow>
     unat fresh + unat pageSize + 2 ^ 31 \<le> 2 ^ 64
     \<and> (\<forall>p \<in> set ps. apart (page p) \<lparr>range_address = fresh, range_length = pageSize\<rparr>)"

lemma page_take_ok:
  assumes ok: "page_ok p" and n: "unat n < 2 ^ 31" and room: "unat (page_cursor p) + unat n \<le> chunk_end (page p)"
    and take: "page_take n p = (c, p')"
  shows "page_ok p' \<and> page p' = page p \<and> page_permission p' = page_permission p
     \<and> page_chunk_list p' = page_chunk_list p @ [c]
     \<and> unat (range_address (page p)) \<le> unat (range_address c) \<and> chunk_end c \<le> chunk_end (page p)
     \<and> (\<forall>d \<in> set (page_chunk_list p). apart c d)"
proof -
  have cur: "unat (page_cursor p + scast n) = unat (page_cursor p) + unat n"
    using room ok scast_small [OF n] by (simp add: page_ok_def unat_word_ariths)
  show ?thesis
    using take ok room scast_small [OF n] cur
    by (auto simp: page_take_def Let_def page_ok_def chunk_end_def sorted_wrt_append apart_def)
      (drule (1) bspec, linarith)
qed

lemma page_fits_room:
  assumes "page_ok p" and "unat n < 2 ^ 31" and "page_fits n p"
  shows "unat (page_cursor p) + unat n \<le> chunk_end (page p)"
proof -
  have "unat (page_cursor p + scast n) = unat (page_cursor p) + unat n"
    using assms(1,2) scast_small [OF assms(2)] by (simp add: page_ok_def unat_word_ariths)
  moreover have "unat (range_address (page p) + range_length (page p)) = chunk_end (page p)"
    using assms(1) by (simp add: page_ok_def chunk_end_def unat_word_ariths)
  ultimately show ?thesis using assms(3) by (simp add: page_fits_def word_less_nat_alt)
qed

lemma apart_within:
  assumes "apart p q" and "unat (range_address p) \<le> unat (range_address c)" and "chunk_end c \<le> chunk_end p"
    and "unat (range_address q) \<le> unat (range_address d)" and "chunk_end d \<le> chunk_end q"
  shows "apart c d"
  using assms by (auto simp: apart_def)

lemma page_ok_chunk:
  "page_ok p \<Longrightarrow> d \<in> set (page_chunk_list p) \<Longrightarrow>
     unat (range_address (page p)) \<le> unat (range_address d) \<and> chunk_end d \<le> chunk_end (page p)"
  by (auto simp: page_ok_def)

lemma take_first_ok:
  assumes "take_first serves n ps = Some (c, ps')" and "pages_ok ps" and "unat n < 2 ^ 31"
    and "\<And>p. serves p \<Longrightarrow> page_fits n p"
  shows "pages_ok ps' \<and> map page ps' = map page ps \<and> mset (all_chunks ps') = add_mset c (mset (all_chunks ps))
     \<and> (\<forall>d \<in> set (all_chunks ps). apart c d)
     \<and> (\<exists>p \<in> set ps. serves p \<and> range_address c = page_cursor p
          \<and> unat (range_address (page p)) \<le> unat (range_address c) \<and> chunk_end c \<le> chunk_end (page p))"
  using assms(1,2)
proof (induction ps arbitrary: ps')
  case (Cons p ps)
  have okp: "page_ok p" "pages_ok ps" "\<forall>q \<in> set ps. apart (page p) (page q)" "\<forall>q \<in> set ps. page_ok q"
    using Cons.prems(2) by (auto simp: pages_ok_def list_all_iff)
  show ?case
  proof (cases "serves p")
    case True
    obtain p' where t: "page_take n p = (c, p')" "ps' = p' # ps"
      using Cons.prems(1) True by (auto simp: Let_def split: prod.splits)
    have addr: "range_address c = page_cursor p" using t(1) by (auto simp: page_take_def Let_def)
    note P = page_take_ok [OF okp(1) assms(3) page_fits_room [OF okp(1) assms(3) assms(4) [OF True]] t(1)]
    have others: "apart c d" if "q \<in> set ps" "d \<in> set (page_chunk_list q)" for q d
      using apart_within [of "page p" "page q" c d] okp(3,4) that P page_ok_chunk [of q d] by blast
    show ?thesis
      using P others okp t(2) True addr by (auto simp: pages_ok_def all_chunks_def)
  next
    case False
    then obtain ps1 where r: "take_first serves n ps = Some (c, ps1)" "ps' = p # ps1"
      using Cons.prems(1) by auto
    note IH = Cons.IH [OF r(1) okp(2)]
    obtain q where q: "q \<in> set ps" "serves q" "range_address c = page_cursor q"
        "unat (range_address (page q)) \<le> unat (range_address c)"
        "chunk_end c \<le> chunk_end (page q)" using IH by blast
    have "apart c d" if "d \<in> set (page_chunk_list p)" for d
      using apart_within [of "page q" "page p" c d] okp(3) q page_ok_chunk [OF okp(1) that] apart_sym by blast
    moreover have "\<forall>q \<in> set ps1. apart (page p) (page q)"
      using okp(3) IH by (metis (no_types, lifting) image_iff list.set_map)
    ultimately show ?thesis
      using IH okp(1) r(2) q by (auto simp: pages_ok_def all_chunks_def)
  qed
qed simp

record chunk_request =
  req_fresh :: u64
  req_size :: u32
  req_permission :: MemoryPermission

definition arena_alloc :: "u64 \<Rightarrow> chunk_request \<Rightarrow> arena \<Rightarrow> MemoryChunk option \<times> arena" where
  "arena_alloc pageSize r a = AllocateChunk pageSize (req_fresh r) (req_size r) (req_permission r) a"

definition arena_valid :: "u64 \<Rightarrow> chunk_request \<Rightarrow> arena \<Rightarrow> bool" where
  "arena_valid pageSize r a \<longleftrightarrow> unat (req_size r) < 2 ^ 31 \<and> unat (req_size r) \<le> unat pageSize
     \<and> fresh_ok pageSize (req_fresh r) (arena_pages a)"

lemma new_page_ok:
  assumes "fresh \<noteq> 0" and "fresh_ok pageSize fresh ps"
  shows "page_ok (new_PageChunk fresh pageSize perm)"
    "\<forall>p \<in> set ps. apart (page p) (page (new_PageChunk fresh pageSize perm))"
    "page_chunk_list (new_PageChunk fresh pageSize perm) = []"
  using assms by (simp_all add: fresh_ok_def page_ok_def new_PageChunk_def chunk_end_def)

lemma AllocateChunk_some:
  assumes ok: "pages_ok (arena_pages a)" and v: "arena_valid pageSize r a"
    and al: "arena_alloc pageSize r a = (Some c, a')"
  shows "pages_ok (arena_pages a') \<and> mset (all_chunks (arena_pages a')) = add_mset c (mset (all_chunks (arena_pages a)))
     \<and> (\<forall>d \<in> set (all_chunks (arena_pages a)). apart c d)"
proof (cases "take_first (\<lambda>p. page_permission p = req_permission r \<and> page_fits (req_size r) p) (req_size r) (arena_pages a)")
  case (Some x)
  obtain c1 ps' where x: "x = (c1, ps')" by (cases x)
  have "a' = Some ps'" "c1 = c" using al Some x by (auto simp: arena_alloc_def AllocateChunk_def)
  then show ?thesis
    using take_first_ok [OF Some [unfolded x] ok] v by (auto simp: arena_valid_def arena_pages_def)
next
  case None
  let ?p = "new_PageChunk (req_fresh r) pageSize (req_permission r)" and ?ps = "arena_pages a"
  have fr: "req_fresh r \<noteq> 0" using al None by (auto simp: arena_alloc_def AllocateChunk_def Let_def split: if_splits)
  obtain p' where t: "page_take (req_size r) ?p = (c, p')" "a' = Some (?ps @ [p'])"
    using al None fr by (auto simp: arena_alloc_def AllocateChunk_def Let_def split: prod.splits)
  note N = new_page_ok [OF fr, of pageSize ?ps "req_permission r"]
  have f: "fresh_ok pageSize (req_fresh r) ?ps" and n: "unat (req_size r) < 2 ^ 31"
    using v by (auto simp: arena_valid_def)
  have room: "unat (page_cursor ?p) + unat (req_size r) \<le> chunk_end (page ?p)"
    using v by (simp add: arena_valid_def new_PageChunk_def chunk_end_def)
  note P = page_take_ok [OF N(1) [OF f] n room t(1)]
  have "apart c d" if "q \<in> set ?ps" "d \<in> set (page_chunk_list q)" for q d
  proof -
    have "page_ok q" using ok that(1) by (simp add: pages_ok_def list_all_iff)
    then show ?thesis
      using apart_within [of "page ?p" "page q" c d] N(2) [OF f] that P page_ok_chunk [of q d] apart_sym by blast
  qed
  then show ?thesis
    using P N ok f t(2)
    by (auto simp: pages_ok_def all_chunks_def arena_pages_def sorted_wrt_append)
qed

lemma AllocateChunk_none:
  "arena_alloc pageSize r a = (None, a') \<Longrightarrow> arena_pages a' = arena_pages a"
  by (auto simp: arena_alloc_def AllocateChunk_def arena_pages_def Let_def split: option.splits prod.splits if_splits)

interpretation ma: chunk_allocator "arena_alloc pageSize" "\<lambda>a. pages_ok (arena_pages a)" "arena_valid pageSize"
    "\<lambda>a. all_chunks (arena_pages a)" for pageSize
  by unfold_locales (use AllocateChunk_some AllocateChunk_none in \<open>force+\<close>)

text \<open>
  C8: in every history of requests to \<^verbatim>\<open>MemoryArena::AllocateChunk\<close> from the empty arena, with sizes up to the page size
  and an operating system that hands out pages of its own, no two of the chunks returned overlap.
\<close>

theorem arena_chunks_apart:
  assumes "alloc_run (arena_alloc pageSize) (arena_valid pageSize) None cs a'"
  shows "sorted_wrt apart cs \<and> pages_ok (arena_pages a') \<and> mset (all_chunks (arena_pages a')) = mset cs"
  using ma.alloc_run_apart [OF assms] by (simp add: pages_ok_def arena_pages_def all_chunks_def)

theorem arena_chunks_apart_witness:
  "\<exists>c d a'. alloc_run (arena_alloc 0x1000) (arena_valid 0x1000) None [c, d] a' \<and> sorted_wrt apart [c, d]"
proof -
  let ?r = "\<lparr>req_fresh = 0x10000, req_size = 64, req_permission = kReadExecute\<rparr>"
  let ?c = "\<lparr>range_address = 0x10000, range_length = 64\<rparr> :: MemoryChunk"
  let ?d = "\<lparr>range_address = 0x10040, range_length = 64\<rparr> :: MemoryChunk"
  obtain a1 where 1: "arena_alloc 0x1000 ?r None = (Some ?c, a1)" "a1 = Some [\<lparr>page = \<lparr>range_address = 0x10000,
      range_length = 0x1000\<rparr>, page_cursor = 0x10040, page_permission = kReadExecute, page_chunk_list = [?c]\<rparr>]"
    by (simp add: arena_alloc_def AllocateChunk_def arena_pages_def page_take_def new_PageChunk_def Let_def)
  obtain a2 where 2: "arena_alloc 0x1000 (?r\<lparr>req_fresh := 0\<rparr>) a1 = (Some ?d, a2)"
    by (simp add: 1(2) arena_alloc_def AllocateChunk_def arena_pages_def page_take_def page_fits_def Let_def)
  have v1: "arena_valid 0x1000 ?r None" by (simp add: arena_valid_def fresh_ok_def arena_pages_def)
  have v2: "arena_valid 0x1000 (?r\<lparr>req_fresh := 0\<rparr>) a1" by (simp add: arena_valid_def fresh_ok_def)
  have run1: "alloc_run (arena_alloc 0x1000) (arena_valid 0x1000) None [?c] a1"
    using alloc_run.served [where alloc = "arena_alloc 0x1000" and valid = "arena_valid 0x1000" and s = None and cs = "[]",
      OF alloc_run.start v1 1(1)] by simp
  have run: "alloc_run (arena_alloc 0x1000) (arena_valid 0x1000) None [?c, ?d] a2"
    using alloc_run.served [where cs = "[?c]", OF run1 v2 2] by simp
  then show ?thesis using arena_chunks_apart [OF run] by blast
qed

text \<open>
  The size of the request is not checked against a new page: a request larger than a page is answered
  with a chunk that extends past the page it starts.
\<close>

theorem arena_oversized_chunk:
  assumes "fresh \<noteq> 0" and "unat n < 2 ^ 31" and "unat pageSize < unat n"
  shows "\<exists>c a' p. AllocateChunk pageSize fresh n permission None = (Some c, Some [p])
     \<and> range_address c = range_address (page p) \<and> chunk_end (page p) < chunk_end c"
  using assms scast_small [OF assms(2)]
  by (simp add: AllocateChunk_def arena_pages_def page_take_def new_PageChunk_def Let_def chunk_end_def)

theorem arena_oversized_chunk_witness:
  "\<exists>c a' p. AllocateChunk 0x1000 0x10000 0x2000 kReadExecute None = (Some c, Some [p])
     \<and> range_address c = range_address (page p) \<and> chunk_end (page p) < chunk_end c"
  by (rule arena_oversized_chunk) simp_all

section \<open>NearMemoryArena\<close>

lemma take_first_some:
  "take_first serves n ps = Some (c, ps') \<Longrightarrow> \<exists>p \<in> set ps. serves p \<and> range_address c = page_cursor p"
proof (induction ps arbitrary: ps')
  case (Cons p ps)
  then show ?case by (auto simp: page_take_def Let_def split: if_splits)
qed simp

lemma take_first_serves: "\<exists>p \<in> set ps. serves p \<Longrightarrow> take_first serves n ps \<noteq> None"
  by (induction ps) (auto simp: page_take_def Let_def)

lemma near_of_bounds:
  assumes "unat b < unat a + unat r" and "unat a < unat b + unat r" and "unat r \<le> 2 ^ 62"
  shows "near a b r"
proof -
  have "int (unat b) < int (unat a) + int (unat r)" "int (unat a) < int (unat b) + int (unat r)"
    using assms(1,2) by linarith+
  moreover have "unat r \<le> 4611686018427387904" using assms(3) by simp
  then have "int (unat r) \<le> 4611686018427387904" by linarith
  ultimately have "\<bar>int (unat a) - int (unat b)\<bar> < 9223372036854775808" by linarith
  then have s: "sint (a - b) = int (unat a) - int (unat b)" by (intro sint_diff_small) simp
  show ?thesis
  proof (cases "b \<le> a")
    case True
    then have "unat (a - b) = unat a - unat b" by (simp add: unat_sub)
    moreover have "unat b \<le> unat a" using True by (simp add: word_le_nat_alt)
    moreover have "uint b \<le> uint a" using True by (simp add: word_le_def)
    ultimately show ?thesis using assms(2) s by (simp add: near_def word_less_nat_alt)
  next
    case False
    then have lt: "unat a < unat b" by (simp add: word_le_nat_alt)
    then have "unat (b - a) = unat b - unat a" by (simp add: unat_sub word_le_nat_alt)
    then have "unat (b - a) < unat r" using assms(1) lt by linarith
    then have "- (a - b) < r" by (simp add: word_less_nat_alt)
    moreover have "uint a < uint b" using False by (simp add: word_le_def)
    ultimately show ?thesis using s by (simp add: near_def)
  qed
qed



text \<open>With \<^verbatim>\<open>MAP_FIXED\<close>, as \<^verbatim>\<open>OSMemory::Allocate\<close> asks for it, the system maps at the hint or not at all.\<close>

definition os_fixed :: "os_allocate \<Rightarrow> bool" where
  "os_fixed os \<longleftrightarrow> (\<forall>k hint. os k hint = hint \<or> os k hint = 0)"

definition layout_ok :: "MemoryRegion list \<Rightarrow> bool" where
  "layout_ok layout \<longleftrightarrow> (\<forall>r \<in> set layout. unat (range_address r) + unat (range_length r) < 2 ^ 64)"

lemma region_end_ge:
  "layout_ok layout \<Longrightarrow> r \<in> set layout \<Longrightarrow> range_address r \<le> region_end r"
  by (auto simp: layout_ok_def region_end_def word_le_nat_alt unat_word_ariths)

lemma try_left_blank_range:
  assumes "os_fixed os" and "layout_ok layout" and "i < length layout"
    and "region_end (layout ! i) < hi" and "lo \<le> range_address (layout ! i)"
    and "try_left_blank os lo layout i st = Inr st1" and "snd (snd st) = 0"
  shows "if snd (snd st1) = 0 then True else fst st1 \<noteq> fst st \<and> lo \<le> snd (snd st1) \<and> snd (snd st1) < hi"
proof -
  have r: "range_address (layout ! i) < hi"
    using region_end_ge [OF assms(2), of "layout ! i"] assms(3,4) by auto
  obtain k ad res where st: "st = (k, ad, res)" by (cases st)
  show ?thesis
  proof (cases "snd (snd st1) = 0")
    case False
    define pe where "pe = region_end (layout ! (i - 1))"
    define hint where "hint = (if lo > pe then lo else pe)"
    have st1: "st1 = (k + 1, hint, os k hint)" and gt: "range_address (layout ! i) > pe"
      using assms(6,7) False by (auto simp: try_left_blank_def st Let_def pe_def hint_def split: if_splits)
    have "os k hint = hint" using assms(1) False st1 unfolding os_fixed_def by auto
    moreover have "lo \<le> hint" "hint < hi" using gt r assms(5) by (auto simp: hint_def)
    ultimately show ?thesis using st1 st by simp
  qed simp
qed

lemma try_right_blank_range:
  assumes "os_fixed os" and "layout_ok layout" and "i < length layout"
    and "region_end (layout ! i) < hi" and "lo \<le> range_address (layout ! i)"
    and "try_right_blank os layout i st = Inr st1" and "snd (snd st) = 0"
  shows "if snd (snd st1) = 0 then True else fst st1 \<noteq> fst st \<and> lo \<le> snd (snd st1) \<and> snd (snd st1) < hi"
proof -
  have r: "range_address (layout ! i) \<le> region_end (layout ! i)"
    using region_end_ge [OF assms(2), of "layout ! i"] assms(3) by auto
  obtain k ad res where st: "st = (k, ad, res)" by (cases st)
  show ?thesis
  proof (cases "snd (snd st1) = 0")
    case False
    define hint where "hint = region_end (layout ! i)"
    have st1: "st1 = (k + 1, hint, os k hint)"
      using assms(6,7) False by (auto simp: try_right_blank_def st Let_def hint_def split: if_splits)
    have "os k hint = hint" using assms(1) False st1 unfolding os_fixed_def by auto
    moreover have "lo \<le> hint" "hint < hi" using r assms(4,5) by (auto simp: hint_def)
    ultimately show ?thesis using st1 st by simp
  qed simp
qed

lemma blank_page_loop_range:
  assumes "os_fixed os" and "layout_ok layout"
    and "blank_page_loop os lo hi layout i st = Inr (k', b)" and "b \<noteq> 0" and "snd (snd st) = 0"
  shows "lo \<le> b \<and> b < hi"
  using assms
proof (induction os lo hi layout i st rule: blank_page_loop.induct)
  case (1 os lo hi layout i st)
  show ?case
  proof (cases "i < length layout \<and> region_end (layout ! i) < hi \<and> lo \<le> range_address (layout ! i)")
    case False
    then have "blank_page_loop os lo hi layout (i + 1) st = Inr (k', b) \<and> i < length layout \<or> b = snd (snd st)"
      using "1.prems"(3) by (subst (asm) blank_page_loop.simps) (auto split: if_splits)
    then show ?thesis using "1.IH"(2) "1.prems" False by auto
  next
    case True
    note R = True [THEN conjunct1] True [THEN conjunct2, THEN conjunct1] True [THEN conjunct2, THEN conjunct2]
    have bl: "rbind (try_left_blank os lo layout i st) (\<lambda>st1.
        if fst st1 \<noteq> fst st \<and> snd (snd st1) \<noteq> 0 then Inr (fst st1, snd (snd st1))
        else rbind (try_right_blank os layout i st1) (\<lambda>st2.
             if fst st2 \<noteq> fst st1 \<and> snd (snd st2) \<noteq> 0 then Inr (fst st2, snd (snd st2))
             else blank_page_loop os lo hi layout (i + 1) st2)) = Inr (k', b)"
      using "1.prems"(3) True by (subst (asm) blank_page_loop.simps) simp
    then obtain st1 where st1: "try_left_blank os lo layout i st = Inr st1" by auto
    note L = try_left_blank_range [OF "1.prems"(1,2) R st1 "1.prems"(5)]
    show ?thesis
    proof (cases "snd (snd st1) = 0")
      case False
      then show ?thesis using bl st1 L by auto
    next
      case zero: True
      then obtain st2 where st2: "try_right_blank os layout i st1 = Inr st2" using bl st1 by auto
      note Rt = try_right_blank_range [OF "1.prems"(1,2) R st2 zero]
      show ?thesis
      proof (cases "snd (snd st2) = 0")
        case False
        then show ?thesis using bl st1 st2 zero Rt by auto
      next
        case True
        then have "blank_page_loop os lo hi layout (i + 1) st2 = Inr (k', b)" using bl st1 st2 zero by simp
        then show ?thesis
          using "1.IH"(1) [OF R(1) conjI [OF R(2,3)] st1 _ st2 _ "1.prems"(1,2) _ "1.prems"(4)] True zero by simp
      qed
    qed
  qed
qed

lemma unat_exp_small:
  assumes "p < 64"
  shows "unat (2 ^ p :: u64) = 2 ^ p"
proof -
  have "(2 :: nat) ^ p < 2 ^ 64" using assms by (intro power_strict_increasing) simp_all
  moreover have "(2 ^ p :: u64) = of_nat (2 ^ p)" by simp
  ultimately show ?thesis by (simp only: unat_of_nat) simp
qed

lemma page_bounds:
  assumes p2: "pageSize = 2 ^ p" and p: "p < 62" and r: "unat pageSize \<le> unat r" "unat r \<le> unat pos"
    and top: "unat pos + unat r < 2 ^ 64"
  shows "unat pos - unat r < unat (min_page_addr pageSize pos r)"
    and "unat (min_page_addr pageSize pos r) \<le> unat pos"
    and "unat (max_page_addr pageSize pos r) + unat pageSize \<le> unat pos + unat r"
proof -
  have ps: "unat pageSize = 2 ^ p" using p by (simp add: p2 unat_exp_small)
  have fl: "unat (ALIGN_FLOOR x pageSize) = unat x - unat x mod 2 ^ p" for x :: u64 by (simp only: p2 unat_ALIGN_FLOOR)
  let ?l = "unat pos - unat r" and ?h = "unat pos + unat r"
  have l: "unat (pos - r) = ?l" using r(2) by (simp add: unat_sub word_le_nat_alt)
  have h: "unat (pos + r) = ?h" using top by (simp add: unat_word_ariths)
  have ml: "?l mod 2 ^ p < 2 ^ p" "?l mod 2 ^ p \<le> ?l" by simp_all
  have lo: "unat (min_page_addr pageSize pos r) = ?l - ?l mod 2 ^ p + 2 ^ p"
    unfolding min_page_addr_def using fl [of "pos - r"] l ps r top ml by (simp add: unat_word_ariths)
  have hp: "2 ^ p \<le> ?h - ?h mod 2 ^ p"
  proof -
    have "2 ^ p \<le> ?h" using r ps by simp
    then have "1 \<le> ?h div 2 ^ p" by (simp add: div_greater_zero_iff Suc_le_eq)
    then have "2 ^ p * 1 \<le> 2 ^ p * (?h div 2 ^ p)" by (intro mult_le_mono2)
    then show ?thesis by (simp only: minus_mod_eq_mult_div mult_1_right)
  qed
  have hi: "unat (max_page_addr pageSize pos r) = ?h - ?h mod 2 ^ p - 2 ^ p"
  proof -
    have "pageSize \<le> ALIGN_FLOOR (pos + r) pageSize" using fl [of "pos + r"] h hp ps by (simp add: word_le_nat_alt)
    then show ?thesis unfolding max_page_addr_def using fl [of "pos + r"] h ps by (simp add: unat_sub)
  qed
  show "unat pos - unat r < unat (min_page_addr pageSize pos r)" using lo ml by linarith
  show "unat (min_page_addr pageSize pos r) \<le> unat pos" using lo r ps by linarith
  show "unat (max_page_addr pageSize pos r) + unat pageSize \<le> ?h" using hi hp ps by linarith
qed

lemma search_near_blank_page_hint:
  assumes "os_fixed os" and "layout_ok layout"
    and "search_near_blank_page os pageSize layout k pos r = Inr (k', b)" and "b \<noteq> 0"
  defines "lo \<equiv> min_page_addr pageSize pos r" and "hi \<equiv> max_page_addr pageSize pos r"
  shows "b = lo \<or> (lo \<le> b \<and> b < hi)"
proof -
  have os: "os j lo = lo \<or> os j lo = 0" for j using assms(1) by (simp add: os_fixed_def)
  have "b = os k lo \<or> b = os (k + 1) lo \<or> (\<exists>j. blank_page_loop os lo hi layout 0 (j, lo, 0) = Inr (k', b))"
    using assms(3) unfolding search_near_blank_page_def Let_def lo_def [symmetric] hi_def [symmetric]
    by (auto split: if_splits prod.splits)
  then show ?thesis
    using os [of k] os [of "k + 1"] assms(4) blank_page_loop_range [OF assms(1,2), of lo hi 0 _ k' b] by fastforce
qed

record page_world =
  world_p :: nat
  world_pos :: u64
  world_range :: u64

text \<open>Positions and ranges away from both ends of the address space, pages of \<open>2 ^ p\<close> bytes below the range.\<close>

definition world_ok :: "page_world \<Rightarrow> bool" where
  "world_ok w \<longleftrightarrow> world_p w < 62 \<and> 2 ^ world_p w \<le> unat (world_range w) \<and> unat (world_range w) \<le> unat (world_pos w)
     \<and> unat (world_range w) \<le> 2 ^ 62 \<and> unat (world_pos w) + unat (world_range w) < 2 ^ 64"

lemma blank_page_serves:
  assumes w: "world_ok w" and ps: "pageSize = 2 ^ world_p w" and n: "unat n < 2 ^ world_p w" "unat n < 2 ^ 31"
    and b: "b = min_page_addr pageSize (world_pos w) (world_range w)
      \<or> min_page_addr pageSize (world_pos w) (world_range w) \<le> b \<and> b < max_page_addr pageSize (world_pos w) (world_range w)"
  shows "near_serves (world_pos w) (world_range w) n permission (new_PageChunk b pageSize permission)"
proof -
  let ?pos = "world_pos w" and ?r = "world_range w"
  have up: "unat pageSize = 2 ^ world_p w" using w by (simp add: ps unat_exp_small world_ok_def)
  have pr: "unat pageSize \<le> unat ?r" "unat ?r \<le> unat ?pos" "unat ?pos + unat ?r < 2 ^ 64" "world_p w < 62"
      "unat ?r \<le> 2 ^ 62"
    using w up by (simp_all add: world_ok_def)
  note B = page_bounds [OF ps pr(4,1,2,3)]
  have lb: "unat ?pos < unat b + unat ?r" using b B(1) pr(2) by (auto simp: word_le_nat_alt)
  have ub: "unat b + unat pageSize \<le> unat ?pos + unat ?r"
    using b B(2,3) pr(1) by (auto simp: word_less_nat_alt)
  have "near b ?pos ?r"
  proof (rule near_of_bounds)
    have "0 < unat pageSize" using up by simp
    then show "unat b < unat ?pos + unat ?r" using ub by linarith
  qed (use lb pr(5) in simp_all)
  moreover have "page_fits n (new_PageChunk b pageSize permission)"
  proof -
    have "unat (b + scast n) = unat b + unat n" "unat (b + pageSize) = unat b + unat pageSize"
      using ub pr(3) n up scast_small [OF n(2)] by (simp_all add: unat_word_ariths)
    then show ?thesis using n(1) up by (simp add: page_fits_def new_PageChunk_def word_less_nat_alt)
  qed
  ultimately show ?thesis by (simp add: near_serves_def new_PageChunk_def)
qed

text \<open>
  C31: with an operating system that maps at the hint or not at all, the search loop of
  \<^verbatim>\<open>NearMemoryArena::AllocateChunk\<close> ends after at most one new page, for every request smaller than a page and every
  memory layout.
\<close>

theorem near_alloc_returns:
  assumes "os_fixed (env_os env)" and "layout_ok (env_layout env)"
    and "world_ok w" and "env_page_size env = 2 ^ world_p w" and "unat n < 2 ^ world_p w" and "unat n < 2 ^ 31"
  shows "\<exists>res. Near_AllocateChunk 2 env (world_pos w) (world_range w) n permission (k, ps) = Some res"
proof -
  let ?serves = "near_serves (world_pos w) (world_range w) n permission"
  have second: "\<exists>res. Near_AllocateChunk 1 env (world_pos w) (world_range w) n permission
      (k', PushPage (env_page_size env) b permission ps) = Some res"
    if "search_near_blank_page (env_os env) (env_page_size env) (env_layout env) k (world_pos w) (world_range w)
       = Inr (k', b)" "b \<noteq> 0" for k' b
  proof -
    have "?serves (new_PageChunk b (env_page_size env) permission)"
      using blank_page_serves [OF assms(3,4,5,6) search_near_blank_page_hint [OF assms(1,2) that]] .
    then have "take_first ?serves n (PushPage (env_page_size env) b permission ps) \<noteq> None"
      by (intro take_first_serves) (auto simp: PushPage_def)
    then show ?thesis by auto
  qed
  show ?thesis
    using second by (auto simp: numeral_2_eq_2 Let_def split: option.splits sum.splits prod.splits)
qed

theorem near_alloc_returns_witness:
  "\<exists>res. Near_AllocateChunk 2 \<lparr>env_os = (\<lambda>_ h. h), env_page_size = 2 ^ 12,
       env_layout = [\<lparr>range_address = 0x400000, range_length = 0x1000, region_permission = kReadExecute\<rparr>],
       env_arm = False, env_bytes_at = (\<lambda>_ _. []), env_junk = []\<rparr> 0x400800 0x100000 8 kReadWrite (0, []) = Some res"
  using near_alloc_returns [of "\<lparr>env_os = (\<lambda>_ h. h), env_page_size = 2 ^ 12,
       env_layout = [\<lparr>range_address = 0x400000, range_length = 0x1000, region_permission = kReadExecute\<rparr>],
       env_arm = False, env_bytes_at = (\<lambda>_ _. []), env_junk = []\<rparr>"
      "\<lparr>world_p = 12, world_pos = 0x400800, world_range = 0x100000\<rparr>" 8 kReadWrite 0 "[]"]
  by (simp add: os_fixed_def layout_ok_def world_ok_def)

text \<open>
  When the lowest page of the range is not below the first mapping and the last mapping ends above the
  range, the page requested, with \<^verbatim>\<open>MAP_FIXED\<close>, is the lowest page of the range whatever is mapped there: an
  existing mapping that contains it is replaced.
\<close>

theorem near_page_over_mapping:
  assumes "layout = r0 # rest" and "range_address r0 \<le> min_page_addr pageSize pos rng"
    and "max_page_addr pageSize pos rng < region_end (last layout)"
    and "os k (min_page_addr pageSize pos rng) = min_page_addr pageSize pos rng" and "min_page_addr pageSize pos rng \<noteq> 0"
  shows "search_near_blank_page os pageSize layout k pos rng = Inr (k + 1, min_page_addr pageSize pos rng)"
  using assms by (auto simp: search_near_blank_page_def Let_def)

theorem near_page_over_mapping_witness:
  "search_near_blank_page (\<lambda>_ h. h) 0x1000
     [\<lparr>range_address = 0x100000, range_length = 0x800000, region_permission = kReadExecute\<rparr>] 0 0x400000 0x100000
   = Inr (1, 0x301000)"
proof -
  have lo: "min_page_addr 0x1000 0x400000 0x100000 = 0x301000"
    by (simp add: min_page_addr_def ALIGN_FLOOR_def)
  have hi: "max_page_addr 0x1000 0x400000 0x100000 = 0x4FF000"
    by (simp add: max_page_addr_def ALIGN_FLOOR_def)
  show ?thesis
    using near_page_over_mapping [of "[\<lparr>range_address = 0x100000, range_length = 0x800000, region_permission = kReadExecute\<rparr>]"
        "\<lparr>range_address = 0x100000, range_length = 0x800000, region_permission = kReadExecute\<rparr>" "[]" "0x1000" "0x400000" "0x100000"
        "\<lambda>_ h. h" 0]
    by (simp add: lo hi region_end_def)
qed

end
