(* ===== verification/Interceptor.thy ===== *)
theory Interceptor
  imports Memory_Arena
begin

text \<open>
  \<^verbatim>\<open>Interceptor\<close>: the table of installed hooks, a circular doubly linked list in the style of the Linux
  kernel. The nodes live in a store from addresses to \<^verbatim>\<open>list_head\<close>s; a \<^verbatim>\<open>HookEntryListNode\<close> begins with its
  \<^verbatim>\<open>list_head\<close>, so the casts between the two are the identity on addresses. Following a pointer outside the
  store is \<open>BAD_POINTER\<close>; a walk that never comes back to the head does not return, which is \<open>None\<close>. The
  interface \<open>hook_table\<close> is what the hook operations rely on.
\<close>

section \<open>Data\<close>

type_synonym ptr = u64

datatype HookEntryType = kFunctionWrapper | kFunctionInlineHook | kDynamicBinaryInstrument

record HookEntry =
  he_id :: u32
  he_type :: HookEntryType
  target_address :: ptr
  he_route :: ptr
  relocated_origin_instructions :: ptr
  origin_chunk :: MemoryChunk
  chunk_buffer :: "u8 list"

record list_head =
  lh_next :: ptr
  lh_prev :: ptr

type_synonym links = "ptr \<rightharpoonup> list_head"

text \<open>The static \<^verbatim>\<open>priv_interceptor_\<close> is 0 before the first use; its only member is the list's head.\<close>

record interceptor =
  itc_links :: links
  itc_infos :: "ptr \<rightharpoonup> HookEntry"
  priv_interceptor :: ptr

section \<open>The list utilities\<close>

definition load_node :: "ptr \<Rightarrow> links \<Rightarrow> list_head result" where
  "load_node p h = (case h p of None \<Rightarrow> Inl BAD_POINTER | Some n \<Rightarrow> Inr n)"

definition set_next :: "ptr \<Rightarrow> ptr \<Rightarrow> links \<Rightarrow> links result" where
  "set_next p v h = rbind (load_node p h) (\<lambda>n. Inr (h(p \<mapsto> n\<lparr>lh_next := v\<rparr>)))"

definition set_prev :: "ptr \<Rightarrow> ptr \<Rightarrow> links \<Rightarrow> links result" where
  "set_prev p v h = rbind (load_node p h) (\<lambda>n. Inr (h(p \<mapsto> n\<lparr>lh_prev := v\<rparr>)))"

definition INIT_LIST_HEAD :: "ptr \<Rightarrow> links \<Rightarrow> links" where
  "INIT_LIST_HEAD p h = h(p \<mapsto> \<lparr>lh_next = p, lh_prev = p\<rparr>)"

definition list_empty :: "ptr \<Rightarrow> links \<Rightarrow> bool result" where
  "list_empty head h = rbind (load_node head h) (\<lambda>n. Inr (lh_next n = head))"

text \<open>\<^verbatim>\<open>__list_add\<close> and \<^verbatim>\<open>__list_del\<close>, the stores in the order of the source.\<close>

definition list_add_between :: "ptr \<Rightarrow> ptr \<Rightarrow> ptr \<Rightarrow> links \<Rightarrow> links result" where
  "list_add_between new_node prev next =
     do_all [set_prev next new_node, set_next new_node next, set_prev new_node prev, set_next prev new_node]"

definition list_add :: "ptr \<Rightarrow> ptr \<Rightarrow> links \<Rightarrow> links result" where
  "list_add new_node head h = rbind (load_node head h) (\<lambda>n. list_add_between new_node head (lh_next n) h)"

definition list_del_between :: "ptr \<Rightarrow> ptr \<Rightarrow> links \<Rightarrow> links result" where
  "list_del_between prev next = do_all [set_prev next prev, set_next prev next]"

definition list_del :: "ptr \<Rightarrow> links \<Rightarrow> links result" where
  "list_del entry h =
     rbind (load_node entry h) (\<lambda>n.
     rbind (list_del_between (lh_prev n) (lh_next n) h) (\<lambda>h1.
       do_all [set_next entry 0, set_prev entry 0] h1))"

section \<open>The table\<close>

definition SharedInstance :: "ptr \<Rightarrow> interceptor \<Rightarrow> interceptor" where
  "SharedInstance fresh it =
     (if priv_interceptor it = 0
      then it\<lparr>priv_interceptor := fresh, itc_links := INIT_LIST_HEAD fresh (itc_links it)\<rparr>
      else it)"

text \<open>The loops of \<^verbatim>\<open>FindHookEntryNode\<close> and \<^verbatim>\<open>GetHookEntryCount\<close>, from \<open>node\<close> on.\<close>

partial_function (option) find_loop :: "interceptor \<Rightarrow> ptr \<Rightarrow> ptr \<Rightarrow> ptr result option" where
  "find_loop it address node =
     (if node = priv_interceptor it then Some (Inr 0)
      else case (itc_links it node, itc_infos it node) of
             (Some n, Some e) \<Rightarrow> if target_address e = address then Some (Inr node) else find_loop it address (lh_next n)
           | _ \<Rightarrow> Some (Inl BAD_POINTER))"

partial_function (option) count_loop :: "interceptor \<Rightarrow> ptr \<Rightarrow> u32 \<Rightarrow> u32 result option" where
  "count_loop it node n_entries =
     (case itc_links it node of
        None \<Rightarrow> Some (Inl BAD_POINTER)
      | Some n \<Rightarrow> if lh_next n = priv_interceptor it then Some (Inr n_entries) else count_loop it (lh_next n) (n_entries + 1))"

declare find_loop.simps [code] count_loop.simps [code]

definition FindHookEntryNode :: "ptr \<Rightarrow> interceptor \<Rightarrow> ptr result option" where
  "FindHookEntryNode address it =
     (case itc_links it (priv_interceptor it) of
        None \<Rightarrow> Some (Inl BAD_POINTER)
      | Some h \<Rightarrow> find_loop it address (lh_next h))"

definition FindHookEntry :: "ptr \<Rightarrow> interceptor \<Rightarrow> HookEntry option result option" where
  "FindHookEntry address it =
     map_option (\<lambda>r. rbind r (\<lambda>node. Inr (if node \<noteq> 0 then itc_infos it node else None))) (FindHookEntryNode address it)"

text \<open>\<open>fresh\<close> is the address \<^verbatim>\<open>new HookEntryListNode\<close> returns; the two links of the new node are written before they are read.\<close>

definition AddHookEntry :: "ptr \<Rightarrow> HookEntry \<Rightarrow> interceptor \<Rightarrow> interceptor result" where
  "AddHookEntry fresh entry it =
     rbind (list_add fresh (priv_interceptor it) ((itc_links it)(fresh \<mapsto> \<lparr>lh_next = 0, lh_prev = 0\<rparr>))) (\<lambda>h.
       Inr (it\<lparr>itc_links := h, itc_infos := (itc_infos it)(fresh \<mapsto> entry)\<rparr>))"

definition RemoveHookEntry :: "ptr \<Rightarrow> interceptor \<Rightarrow> interceptor result option" where
  "RemoveHookEntry address it =
     map_option (\<lambda>r. rbind r (\<lambda>node.
         if node \<noteq> 0 then rbind (list_del node (itc_links it)) (\<lambda>h. Inr (it\<lparr>itc_links := h\<rparr>))
         else Inr it)) (FindHookEntryNode address it)"

definition GetHookEntryCount :: "interceptor \<Rightarrow> u32 result option" where
  "GetHookEntryCount it = count_loop it (priv_interceptor it) 0"

section \<open>Circular lists\<close>

definition nextf :: "links \<Rightarrow> ptr \<rightharpoonup> ptr" where
  "nextf h p = map_option lh_next (h p)"

definition prevf :: "links \<Rightarrow> ptr \<rightharpoonup> ptr" where
  "prevf h p = map_option lh_prev (h p)"

definition linked :: "links \<Rightarrow> ptr \<Rightarrow> ptr \<Rightarrow> bool" where
  "linked h a b \<longleftrightarrow> nextf h a = Some b \<and> prevf h b = Some a"

definition ring :: "links \<Rightarrow> ptr \<Rightarrow> ptr list \<Rightarrow> bool" where
  "ring h head xs \<longleftrightarrow> distinct (head # xs) \<and> successively (linked h) (head # xs @ [head])"

lemma in_dom_nextf: "nextf h p = Some q \<Longrightarrow> \<exists>n. h p = Some n \<and> lh_next n = q"
  by (auto simp: nextf_def)

lemma in_dom_prevf: "prevf h p = Some q \<Longrightarrow> \<exists>n. h p = Some n \<and> lh_prev n = q"
  by (auto simp: prevf_def)

lemma set_next_ok:
  assumes "p \<in> dom h"
  shows "\<exists>h'. set_next p v h = Inr h' \<and> nextf h' = (nextf h)(p \<mapsto> v) \<and> prevf h' = prevf h \<and> dom h' = dom h"
proof -
  obtain n where "h p = Some n" using assms by blast
  then show ?thesis
    by (intro exI [of _ "h(p \<mapsto> n\<lparr>lh_next := v\<rparr>)"]) (auto simp: set_next_def load_node_def nextf_def prevf_def)
qed

lemma set_prev_ok:
  assumes "p \<in> dom h"
  shows "\<exists>h'. set_prev p v h = Inr h' \<and> prevf h' = (prevf h)(p \<mapsto> v) \<and> nextf h' = nextf h \<and> dom h' = dom h"
proof -
  obtain n where "h p = Some n" using assms by blast
  then show ?thesis
    by (intro exI [of _ "h(p \<mapsto> n\<lparr>lh_prev := v\<rparr>)"]) (auto simp: set_prev_def load_node_def nextf_def prevf_def)
qed

lemma list_add_between_ok:
  assumes "new_node \<in> dom h" "prev \<in> dom h" "next \<in> dom h"
  shows "\<exists>h'. list_add_between new_node prev next h = Inr h' \<and> dom h' = dom h
     \<and> nextf h' = (nextf h)(new_node \<mapsto> next, prev \<mapsto> new_node) \<and> prevf h' = (prevf h)(next \<mapsto> new_node, new_node \<mapsto> prev)"
proof -
  obtain h1 where h1: "set_prev next new_node h = Inr h1" "prevf h1 = (prevf h)(next \<mapsto> new_node)" "nextf h1 = nextf h" "dom h1 = dom h"
    using set_prev_ok [OF assms(3)] by blast
  obtain h2 where h2: "set_next new_node next h1 = Inr h2" "nextf h2 = (nextf h1)(new_node \<mapsto> next)" "prevf h2 = prevf h1" "dom h2 = dom h"
    using set_next_ok [of new_node h1] assms(1) h1(4) by metis
  obtain h3 where h3: "set_prev new_node prev h2 = Inr h3" "prevf h3 = (prevf h2)(new_node \<mapsto> prev)" "nextf h3 = nextf h2" "dom h3 = dom h"
    using set_prev_ok [of new_node h2] assms(1) h2(4) by metis
  obtain h4 where h4: "set_next prev new_node h3 = Inr h4" "nextf h4 = (nextf h3)(prev \<mapsto> new_node)" "prevf h4 = prevf h3" "dom h4 = dom h"
    using set_next_ok [of prev h3] assms(2) h3(4) by metis
  show ?thesis by (simp add: list_add_between_def h1 h2 h3 h4)
qed

lemma list_del_ok:
  assumes "prevf h x = Some p" "nextf h x = Some n" "p \<in> dom h" "n \<in> dom h"
  shows "\<exists>h'. list_del x h = Inr h' \<and> dom h' = dom h
     \<and> nextf h' = (nextf h)(p \<mapsto> n, x \<mapsto> 0) \<and> prevf h' = (prevf h)(n \<mapsto> p, x \<mapsto> 0)"
proof -
  obtain e where e: "h x = Some e" "lh_prev e = p" "lh_next e = n" using assms(1,2) by (auto simp: nextf_def prevf_def)
  then have x: "x \<in> dom h" by blast
  obtain h1 where h1: "set_prev n p h = Inr h1" "prevf h1 = (prevf h)(n \<mapsto> p)" "nextf h1 = nextf h" "dom h1 = dom h"
    using set_prev_ok [OF assms(4)] by blast
  obtain h2 where h2: "set_next p n h1 = Inr h2" "nextf h2 = (nextf h1)(p \<mapsto> n)" "prevf h2 = prevf h1" "dom h2 = dom h"
    using set_next_ok [of p h1] assms(3) h1(4) by metis
  obtain h3 where h3: "set_next x 0 h2 = Inr h3" "nextf h3 = (nextf h2)(x \<mapsto> 0)" "prevf h3 = prevf h2" "dom h3 = dom h"
    using set_next_ok [of x h2] x h2(4) by metis
  obtain h4 where h4: "set_prev x 0 h3 = Inr h4" "prevf h4 = (prevf h3)(x \<mapsto> 0)" "nextf h4 = nextf h3" "dom h4 = dom h"
    using set_prev_ok [of x h3] x h3(4) by metis
  show ?thesis by (simp add: list_del_def list_del_between_def load_node_def e h1 h2 h3 h4)
qed

lemma successively_linked_cong:
  assumes "successively (linked h) ps"
    and "\<And>p. p \<in> set (butlast ps) \<Longrightarrow> nextf h' p = nextf h p" and "\<And>p. p \<in> set (tl ps) \<Longrightarrow> prevf h' p = prevf h p"
  shows "successively (linked h') ps"
  using assms
proof (induction ps rule: induct_list012)
  case (3 x y zs)
  then show ?case by (auto simp: linked_def split: if_splits)
qed auto

lemma successively_linked_dom:
  "successively (linked h) ps \<Longrightarrow> 2 \<le> length ps \<Longrightarrow> set ps \<subseteq> dom h"
proof (induction ps rule: induct_list012)
  case (3 x y zs)
  then show ?case by (cases zs) (auto simp: linked_def nextf_def prevf_def)
qed auto

lemma ring_dom: "ring h head xs \<Longrightarrow> set (head # xs) \<subseteq> dom h"
  using successively_linked_dom [of h "head # xs @ [head]"] by (auto simp: ring_def)

lemma ring_add:
  assumes "ring h head xs" and "new_node \<notin> dom h"
  shows "\<exists>h'. list_add new_node head (h(new_node \<mapsto> n0)) = Inr h' \<and> ring h' head (new_node # xs) \<and> dom h' = insert new_node (dom h)"
proof -
  let ?h = "h(new_node \<mapsto> n0)" and ?y = "hd (xs @ [head])"
  have d: "set (head # xs) \<subseteq> dom h" by (rule ring_dom [OF assms(1)])
  have new: "new_node \<notin> set (head # xs)" using assms(2) d by blast
  have succ: "successively (linked h) (head # xs @ [head])" and dist: "distinct (head # xs)" using assms(1) by (auto simp: ring_def)
  have y: "linked h head ?y" "?y \<in> set (head # xs)" using succ by (cases xs; simp)+
  have f: "nextf ?h = (nextf h)(new_node \<mapsto> lh_next n0)" "prevf ?h = (prevf h)(new_node \<mapsto> lh_prev n0)"
    by (auto simp: nextf_def prevf_def)
  have "new_node \<in> dom ?h" "head \<in> dom ?h" "?y \<in> dom ?h" using d y(2) by auto
  then obtain h' where h': "list_add_between new_node head ?y ?h = Inr h'" "dom h' = dom ?h"
      "nextf h' = (nextf ?h)(new_node \<mapsto> ?y, head \<mapsto> new_node)" "prevf h' = (prevf ?h)(?y \<mapsto> new_node, new_node \<mapsto> head)"
    using list_add_between_ok by blast
  obtain n where "h head = Some n" "lh_next n = ?y" using y(1) by (auto simp: linked_def nextf_def)
  then have add: "list_add new_node head ?h = Inr h'" using h'(1) new by (auto simp: list_add_def load_node_def)
  have "successively (linked h) (xs @ [head])" using succ by (cases xs) auto
  then have "successively (linked h') (xs @ [head])"
  proof (rule successively_linked_cong)
    show "nextf h' p = nextf h p" if "p \<in> set (butlast (xs @ [head]))" for p
      using that new dist by (auto simp: h' f)
    show "prevf h' p = prevf h p" if "p \<in> set (tl (xs @ [head]))" for p
      using that new dist by (cases xs) (auto simp: h' f)
  qed
  moreover have "linked h' new_node ?y" "linked h' head new_node"
    using new y(2) by (auto simp: linked_def h')
  ultimately have "successively (linked h') (head # new_node # xs @ [head])" by (cases xs) auto
  then show ?thesis using add h'(2) new dist by (intro exI [of _ h']) (auto simp: ring_def)
qed

lemma ring_del:
  assumes "ring h head (as @ x # bs)"
  shows "\<exists>h'. list_del x h = Inr h' \<and> ring h' head (as @ bs) \<and> dom h' = dom h"
proof -
  let ?p = "last (head # as)" and ?n = "hd (bs @ [head])"
  have d: "set (head # as @ x # bs) \<subseteq> dom h" using ring_dom [OF assms] .
  have dist: "distinct (head # as @ x # bs)" using assms by (simp add: ring_def)
  have succ: "successively (linked h) ((head # as) @ x # (bs @ [head]))" using assms by (simp add: ring_def)
  then have parts: "successively (linked h) (head # as)" "successively (linked h) (bs @ [head])" "linked h ?p x" "linked h x ?n"
    unfolding successively_append_iff [of _ "head # as"] by (cases bs; simp)+
  have "?n \<in> set (head # bs)" by (cases bs) auto
  moreover have "?p \<in> set (head # as)" by (rule last_in_set) simp
  ultimately have pn: "?p \<in> dom h" "?n \<in> dom h" "?p \<noteq> x" "?n \<noteq> x" using d dist by auto
  obtain h' where h': "list_del x h = Inr h'" "dom h' = dom h"
      "nextf h' = (nextf h)(?p \<mapsto> ?n, x \<mapsto> 0)" "prevf h' = (prevf h)(?n \<mapsto> ?p, x \<mapsto> 0)"
    using list_del_ok [of h x ?p ?n] parts(3,4) pn(1,2) by (auto simp: linked_def)
  have butl: "p \<in> set (butlast (head # as)) \<Longrightarrow> p \<noteq> ?p" for p
    using dist by (metis append_butlast_last_id distinct.simps(2) distinct_append distinct_butlast in_set_butlastD
        list.discI not_distinct_conv_prefix append_Cons)
  have "successively (linked h') (head # as)"
  proof (rule successively_linked_cong [OF parts(1)])
    show "nextf h' p = nextf h p" if "p \<in> set (butlast (head # as))" for p
      using butl [OF that] in_set_butlastD [OF that] dist by (auto simp: h')
    show "prevf h' p = prevf h p" if "p \<in> set (tl (head # as))" for p
      using that dist by (cases bs) (auto simp: h')
  qed
  moreover have "successively (linked h') (bs @ [head])"
  proof (rule successively_linked_cong [OF parts(2)])
    show "nextf h' p = nextf h p" if "p \<in> set (butlast (bs @ [head]))" for p
      using that dist \<open>?p \<in> set (head # as)\<close> by (auto simp: h')
    show "prevf h' p = prevf h p" if "p \<in> set (tl (bs @ [head]))" for p
      using that dist by (cases bs) (auto simp: h')
  qed
  moreover have "linked h' ?p ?n" using pn(3,4) by (auto simp: linked_def h')
  ultimately have "successively (linked h') ((head # as) @ (bs @ [head]))"
    unfolding successively_append_iff by simp
  then show ?thesis using h' dist by (intro exI [of _ h']) (auto simp: ring_def)
qed

section \<open>The interface\<close>

text \<open>
  What a hook table promises: it stands for a list of entries, newest first; lookup finds the newest entry
  for an address, removal takes that one out, and every operation returns.
\<close>

fun drop_first :: "('a \<Rightarrow> bool) \<Rightarrow> 'a list \<Rightarrow> 'a list" where
  "drop_first P [] = []"
| "drop_first P (x # xs) = (if P x then xs else x # drop_first P xs)"

text \<open>A history of a table: entries are added at unused addresses and removed by target address.\<close>

inductive table_history ::
  "(ptr \<Rightarrow> HookEntry \<Rightarrow> 't \<Rightarrow> 't result) \<Rightarrow> (ptr \<Rightarrow> 't \<Rightarrow> 't result option) \<Rightarrow> ('t \<Rightarrow> ptr \<Rightarrow> bool) \<Rightarrow> 't
     \<Rightarrow> 't \<Rightarrow> HookEntry list \<Rightarrow> bool"
  for add_entry remove_entry unused t0 where
    start: "table_history add_entry remove_entry unused t0 t0 []"
  | added: "table_history add_entry remove_entry unused t0 t es \<Longrightarrow> unused t p \<Longrightarrow> add_entry p e t = Inr t'
      \<Longrightarrow> table_history add_entry remove_entry unused t0 t' (e # es)"
  | removed: "table_history add_entry remove_entry unused t0 t es \<Longrightarrow> remove_entry a t = Some (Inr t')
      \<Longrightarrow> table_history add_entry remove_entry unused t0 t' (drop_first (\<lambda>e. target_address e = a) es)"

locale hook_table =
  fixes find_entry :: "ptr \<Rightarrow> 't \<Rightarrow> HookEntry option result option"
    and add_entry :: "ptr \<Rightarrow> HookEntry \<Rightarrow> 't \<Rightarrow> 't result"
    and remove_entry :: "ptr \<Rightarrow> 't \<Rightarrow> 't result option"
    and entry_count :: "'t \<Rightarrow> u32 result option"
    and repr :: "'t \<Rightarrow> HookEntry list \<Rightarrow> bool"
    and unused :: "'t \<Rightarrow> ptr \<Rightarrow> bool"
  assumes find_law: "repr t es \<Longrightarrow> find_entry a t = Some (Inr (List.find (\<lambda>e. target_address e = a) es))"
    and add_law: "repr t es \<Longrightarrow> unused t p \<Longrightarrow>
      \<exists>t'. add_entry p e t = Inr t' \<and> repr t' (e # es) \<and> (\<forall>q. unused t' q \<longleftrightarrow> unused t q \<and> q \<noteq> p)"
    and remove_law: "repr t es \<Longrightarrow>
      \<exists>t'. remove_entry a t = Some (Inr t') \<and> repr t' (drop_first (\<lambda>e. target_address e = a) es) \<and> (\<forall>q. unused t' q \<longleftrightarrow> unused t q)"
    and count_law: "repr t es \<Longrightarrow> entry_count t = Some (Inr (of_nat (length es)))"
begin

lemma history_repr:
  assumes "table_history add_entry remove_entry unused t0 t es" and "repr t0 []"
  shows "repr t es"
  using assms
proof (induction rule: table_history.induct)
  case (added t es p e t')
  then show ?case using add_law [of t es p e] by auto
next
  case (removed t es a t')
  then show ?case using remove_law [of t es a] by auto
qed

lemma after_add:
  assumes "repr t es" "unused t p"
  obtains t' where "add_entry p e t = Inr t'" "find_entry (target_address e) t' = Some (Inr (Some e))"
    "\<And>a. a \<noteq> target_address e \<Longrightarrow> find_entry a t' = find_entry a t" "repr t' (e # es)"
proof -
  obtain t' where t': "add_entry p e t = Inr t'" "repr t' (e # es)" using add_law [OF assms, of e] by blast
  show thesis
    by (rule that [OF t'(1) _ _ t'(2)]) (simp_all add: find_law [OF t'(2)] find_law [OF assms(1)])
qed

lemma add_then_remove:
  assumes "repr t es" "unused t p" "add_entry p e t = Inr t1"
  shows "\<exists>t2. remove_entry (target_address e) t1 = Some (Inr t2) \<and> repr t2 es"
proof -
  have "repr t1 (e # es)" using add_law [OF assms(1,2), of e] assms(3) by auto
  then show ?thesis using remove_law [of t1 "e # es" "target_address e"] by auto
qed

end

section \<open>The list of nodes is such a table\<close>

definition table_repr :: "interceptor \<Rightarrow> HookEntry list \<Rightarrow> bool" where
  "table_repr it es \<longleftrightarrow> priv_interceptor it \<noteq> 0 \<and> (\<exists>xs. ring (itc_links it) (priv_interceptor it) xs \<and> 0 \<notin> set xs
     \<and> list_all2 (\<lambda>x e. itc_infos it x = Some e) xs es)"

definition node_unused :: "interceptor \<Rightarrow> ptr \<Rightarrow> bool" where
  "node_unused it p \<longleftrightarrow> p \<noteq> 0 \<and> p \<notin> dom (itc_links it)"

text \<open>The node the walk stops at: the first with the address, or the null pointer.\<close>

lemma find_loop_walk:
  assumes "successively (linked (itc_links it)) (xs @ [priv_interceptor it])"
    and "list_all2 (\<lambda>x e. itc_infos it x = Some e) xs es" and "priv_interceptor it \<notin> set xs"
  shows "find_loop it a (hd (xs @ [priv_interceptor it])) =
     Some (Inr (case List.find (\<lambda>(x, e). target_address e = a) (zip xs es) of None \<Rightarrow> 0 | Some (x, e) \<Rightarrow> x))"
  using assms(2,1,3)
proof (induction xs es rule: list_all2_induct)
  case Nil
  then show ?case by (simp add: find_loop.simps)
next
  case (Cons x xs e es)
  have "linked (itc_links it) x (hd (xs @ [priv_interceptor it]))" using Cons.prems(1) by (cases xs) auto
  then obtain n where n: "itc_links it x = Some n" "lh_next n = hd (xs @ [priv_interceptor it])"
    by (auto simp: linked_def nextf_def)
  moreover have "successively (linked (itc_links it)) (xs @ [priv_interceptor it])" using Cons.prems(1) by (cases xs) auto
  ultimately show ?case
    using Cons.IH Cons.prems(2) Cons.hyps(1) find_loop.simps [of it a x] by auto
qed

lemma count_loop_walk:
  assumes "successively (linked (itc_links it)) (x # xs @ [priv_interceptor it])" and "priv_interceptor it \<notin> set xs"
  shows "count_loop it x c = Some (Inr (c + of_nat (length xs)))"
  using assms
proof (induction xs arbitrary: x c)
  case Nil
  then show ?case by (auto simp: linked_def nextf_def count_loop.simps [of it x])
next
  case (Cons y ys)
  then obtain n where "itc_links it x = Some n" "lh_next n = y" by (auto simp: linked_def nextf_def)
  then show ?case using Cons by (auto simp: count_loop.simps [of it x] algebra_simps)
qed

lemma find_zip_target:
  "list_all2 R xs es \<Longrightarrow> map_option snd (List.find (\<lambda>(x, e). P e) (zip xs es)) = List.find P es"
  by (induction xs es rule: list_all2_induct) auto

lemma table_repr_find_node:
  assumes "ring (itc_links it) (priv_interceptor it) xs" "list_all2 (\<lambda>x e. itc_infos it x = Some e) xs es"
  shows "FindHookEntryNode a it =
     Some (Inr (case List.find (\<lambda>(x, e). target_address e = a) (zip xs es) of None \<Rightarrow> 0 | Some (x, e) \<Rightarrow> x))"
proof -
  let ?hd = "priv_interceptor it"
  have s: "successively (linked (itc_links it)) (?hd # xs @ [?hd])" using assms(1) by (simp add: ring_def)
  then obtain n where n: "itc_links it ?hd = Some n" "lh_next n = hd (xs @ [?hd])"
    by (cases xs) (auto simp: linked_def nextf_def)
  have "successively (linked (itc_links it)) (xs @ [?hd])" using s by (cases xs) auto
  then show ?thesis
    using find_loop_walk [OF _ assms(2), of a] assms(1) n by (simp add: FindHookEntryNode_def ring_def)
qed

lemma drop_first_split:
  assumes "list_all2 R xs es"
  shows "case List.find (\<lambda>(x, e). P e) (zip xs es) of
     None \<Rightarrow> drop_first P es = es
   | Some (x, e) \<Rightarrow> \<exists>as bs es1 es2. xs = as @ x # bs \<and> es = es1 @ e # es2 \<and> R x e
       \<and> list_all2 R as es1 \<and> list_all2 R bs es2 \<and> drop_first P es = es1 @ es2"
  using assms
proof (induction xs es rule: list_all2_induct)
  case (Cons x xs e es)
  show ?case
  proof (cases "P e")
    case True
    then show ?thesis
      using Cons.hyps by simp (rule exI [of _ "[]"], rule exI [of _ xs], rule conjI, simp, rule exI [of _ "[]"], rule exI [of _ es], simp)
  next
    case False
    show ?thesis
      using Cons False by (auto split: option.splits) (metis append_Cons list_all2_Cons)
  qed
qed simp

lemma table_find:
  assumes "table_repr it es"
  shows "FindHookEntry a it = Some (Inr (List.find (\<lambda>e. target_address e = a) es))"
proof -
  obtain xs where xs: "ring (itc_links it) (priv_interceptor it) xs" "0 \<notin> set xs"
      "list_all2 (\<lambda>x e. itc_infos it x = Some e) xs es" using assms by (auto simp: table_repr_def)
  show ?thesis
    using table_repr_find_node [OF xs(1,3), of a] drop_first_split [OF xs(3), of "\<lambda>e. target_address e = a"]
      find_zip_target [OF xs(3), of "\<lambda>e. target_address e = a"] xs(2)
    by (auto simp: FindHookEntry_def split: option.splits)
qed

lemma table_remove:
  assumes "table_repr it es"
  shows "\<exists>it'. RemoveHookEntry a it = Some (Inr it') \<and> table_repr it' (drop_first (\<lambda>e. target_address e = a) es)
     \<and> dom (itc_links it') = dom (itc_links it)"
proof -
  obtain xs where xs: "ring (itc_links it) (priv_interceptor it) xs" "0 \<notin> set xs"
      "list_all2 (\<lambda>x e. itc_infos it x = Some e) xs es" and hd0: "priv_interceptor it \<noteq> 0"
    using assms by (auto simp: table_repr_def)
  let ?P = "\<lambda>e. target_address e = a"
  show ?thesis
  proof (cases "List.find (\<lambda>(x, e). ?P e) (zip xs es)")
    case None
    then show ?thesis
      using table_repr_find_node [OF xs(1,3), of a] drop_first_split [OF xs(3), of ?P] assms
      by (auto simp: RemoveHookEntry_def)
  next
    case (Some xe)
    obtain x e where xe: "xe = (x, e)" by (cases xe)
    obtain as bs es1 es2 where sp: "xs = as @ x # bs" "list_all2 (\<lambda>x e. itc_infos it x = Some e) as es1"
        "list_all2 (\<lambda>x e. itc_infos it x = Some e) bs es2" "drop_first ?P es = es1 @ es2"
      using drop_first_split [OF xs(3), of ?P] Some xe by auto
    obtain h' where h': "list_del x (itc_links it) = Inr h'" "ring h' (priv_interceptor it) (as @ bs)" "dom h' = dom (itc_links it)"
      using ring_del [of "itc_links it" "priv_interceptor it" as x bs] xs(1) sp(1) by blast
    have "x \<noteq> 0" using xs(2) sp(1) by auto
    then have "RemoveHookEntry a it = Some (Inr (it\<lparr>itc_links := h'\<rparr>))"
      using table_repr_find_node [OF xs(1,3), of a] Some xe h'(1) by (simp add: RemoveHookEntry_def)
    moreover have "table_repr (it\<lparr>itc_links := h'\<rparr>) (es1 @ es2)"
      using h'(2) hd0 xs(2) sp by (auto simp: table_repr_def list_all2_appendI intro!: exI [of _ "as @ bs"])
    ultimately show ?thesis using sp(4) h'(3) by auto
  qed
qed

lemma table_add:
  assumes "table_repr it es" "node_unused it p"
  shows "\<exists>it'. AddHookEntry p e it = Inr it' \<and> table_repr it' (e # es) \<and> dom (itc_links it') = insert p (dom (itc_links it))"
proof -
  obtain xs where xs: "ring (itc_links it) (priv_interceptor it) xs" "0 \<notin> set xs"
      "list_all2 (\<lambda>x e. itc_infos it x = Some e) xs es" and hd0: "priv_interceptor it \<noteq> 0"
    using assms by (auto simp: table_repr_def)
  have p: "p \<notin> dom (itc_links it)" "p \<noteq> 0" using assms(2) by (auto simp: node_unused_def)
  obtain h' where h': "list_add p (priv_interceptor it) ((itc_links it)(p \<mapsto> \<lparr>lh_next = 0, lh_prev = 0\<rparr>)) = Inr h'"
      "ring h' (priv_interceptor it) (p # xs)" "dom h' = insert p (dom (itc_links it))"
    using ring_add [OF xs(1) p(1)] by blast
  have "list_all2 (\<lambda>x e'. ((itc_infos it)(p \<mapsto> e)) x = Some e') xs es"
    using h'(2) by (intro list.rel_mono_strong [OF xs(3)]) (auto simp: ring_def)
  then show ?thesis
    using h' hd0 xs(2) p(2) by (auto simp: AddHookEntry_def table_repr_def intro!: exI [of _ "p # xs"])
qed

lemma table_count:
  assumes "table_repr it es"
  shows "GetHookEntryCount it = Some (Inr (of_nat (length es)))"
proof -
  obtain xs where xs: "ring (itc_links it) (priv_interceptor it) xs" "list_all2 (\<lambda>x e. itc_infos it x = Some e) xs es"
    using assms by (auto simp: table_repr_def)
  then show ?thesis
    using count_loop_walk [of it "priv_interceptor it" xs 0] by (auto simp: GetHookEntryCount_def ring_def list_all2_lengthD)
qed

interpretation itc: hook_table FindHookEntry AddHookEntry RemoveHookEntry GetHookEntryCount table_repr node_unused
proof unfold_locales
  fix it es p e
  assume "table_repr it es" "node_unused it p"
  then show "\<exists>it'. AddHookEntry p e it = Inr it' \<and> table_repr it' (e # es) \<and> (\<forall>q. node_unused it' q \<longleftrightarrow> node_unused it q \<and> q \<noteq> p)"
    using table_add [of it es p e] unfolding node_unused_def by blast
next
  fix it es a
  assume "table_repr it es"
  then show "\<exists>it'. RemoveHookEntry a it = Some (Inr it') \<and> table_repr it' (drop_first (\<lambda>e. target_address e = a) es)
      \<and> (\<forall>q. node_unused it' q \<longleftrightarrow> node_unused it q)"
    using table_remove [of it es a] unfolding node_unused_def by blast
qed (rule table_find, assumption, rule table_count, assumption)

lemma table_repr_new:
  "priv_interceptor it = 0 \<Longrightarrow> fresh \<noteq> 0 \<Longrightarrow> table_repr (SharedInstance fresh it) []"
  by (auto simp: table_repr_def SharedInstance_def INIT_LIST_HEAD_def ring_def linked_def nextf_def prevf_def intro!: exI [of _ "[]"])

text \<open>
  C7: whatever hooks were added and removed since the first use, the table answers as the list of the entries
  not removed yet, newest first: lookup returns the newest entry for the address or nothing, the count is the
  number of entries modulo $2^{32}$, removal takes out the newest entry, and all of them return.
\<close>

theorem interceptor_refines_list:
  assumes "priv_interceptor it0 = 0" and "fresh \<noteq> 0"
    and "table_history AddHookEntry RemoveHookEntry node_unused (SharedInstance fresh it0) it es"
  shows "FindHookEntry a it = Some (Inr (List.find (\<lambda>e. target_address e = a) es))
     \<and> GetHookEntryCount it = Some (Inr (of_nat (length es)))
     \<and> (\<exists>it'. RemoveHookEntry a it = Some (Inr it') \<and> FindHookEntry b it'
          = Some (Inr (List.find (\<lambda>e. target_address e = b) (drop_first (\<lambda>e. target_address e = a) es))))"
proof -
  have r: "table_repr it es" using itc.history_repr [OF assms(3) table_repr_new [OF assms(1,2)]] .
  obtain it' where "RemoveHookEntry a it = Some (Inr it')" "table_repr it' (drop_first (\<lambda>e. target_address e = a) es)"
    using itc.remove_law [OF r, of a] by blast
  then show ?thesis by (simp add: itc.find_law [OF r] itc.count_law [OF r] itc.find_law)
qed

theorem interceptor_refines_list_witness:
  "\<exists>it. table_history AddHookEntry RemoveHookEntry node_unused
       (SharedInstance 0x1000 \<lparr>itc_links = Map.empty, itc_infos = Map.empty, priv_interceptor = 0\<rparr>) it
       [\<lparr>he_id = 0, he_type = kFunctionInlineHook, target_address = 0x4000, he_route = 0, relocated_origin_instructions = 0,
         origin_chunk = \<lparr>range_address = 0, range_length = 0\<rparr>, chunk_buffer = []\<rparr>]
     \<and> GetHookEntryCount it = Some (Inr 1)"
proof -
  let ?it0 = "\<lparr>itc_links = Map.empty, itc_infos = Map.empty, priv_interceptor = 0\<rparr> :: interceptor"
  let ?e = "\<lparr>he_id = 0, he_type = kFunctionInlineHook, target_address = 0x4000, he_route = 0, relocated_origin_instructions = 0,
         origin_chunk = \<lparr>range_address = 0, range_length = 0\<rparr>, chunk_buffer = []\<rparr>"
  have r: "table_repr (SharedInstance 0x1000 ?it0) []" by (rule table_repr_new) simp_all
  have u: "node_unused (SharedInstance 0x1000 ?it0) 0x2000"
    by (simp add: node_unused_def SharedInstance_def INIT_LIST_HEAD_def)
  obtain it where "AddHookEntry 0x2000 ?e (SharedInstance 0x1000 ?it0) = Inr it" using itc.add_law [OF r u, of ?e] by blast
  then have h: "table_history AddHookEntry RemoveHookEntry node_unused (SharedInstance 0x1000 ?it0) it [?e]"
    using table_history.added [where t = "SharedInstance 0x1000 ?it0" and es = "[]" and unused = node_unused, OF table_history.start u] by blast
  then show ?thesis using interceptor_refines_list [OF _ _ h] by auto
qed

end
