(* ===== verification/Code_Patch.thy ===== *)
theory Code_Patch
  imports Interceptor Assembler_Base
begin

text \<open>
  The process the hooks are installed in: its memory with the pages that can be written, the arenas, the hook
  table and the routing objects; \<^verbatim>\<open>CodePatch\<close> (\<^verbatim>\<open>code-patch-tool-posix.cc\<close>) and the code builder
  (\<^verbatim>\<open>AssemblyCodeBuilder.cc\<close>), which are the only writers of code. A store to a page that is not writable is a
  fault (\<open>OVERWRITE\<close>).
\<close>

section \<open>Calls that may not return\<close>

definition robind :: "'a result option \<Rightarrow> ('a \<Rightarrow> 'b result option) \<Rightarrow> 'b result option" where
  "robind m f = (case m of None \<Rightarrow> None | Some (Inl e) \<Rightarrow> Some (Inl e) | Some (Inr x) \<Rightarrow> f x)"

lemma robind_simps [simp]:
  "robind None f = None"
  "robind (Some (Inl e)) f = Some (Inl e)"
  "robind (Some (Inr x)) f = f x"
  by (simp_all add: robind_def)

lemma robind_SomeE:
  assumes "robind m f = Some (Inr y)"
  obtains x where "m = Some (Inr x)" and "f x = Some (Inr y)"
  using assms by (cases m; cases "the m") auto

section \<open>The process\<close>

datatype RetStatus = RT_FAILED | RT_SUCCESS

text \<open>
  A routing object: \<^verbatim>\<open>InterceptRouting\<close> with the one extra word that its subclasses keep at the same place,
  \<^verbatim>\<open>replace_call\<close> or \<^verbatim>\<open>handler\<close>. The entry it points to is kept in it.
\<close>

record routing =
  rt_entry :: HookEntry
  rt_origin :: MemoryChunk
  rt_relocated :: MemoryChunk
  rt_trampoline_buffer :: "u8 list option"
  rt_trampoline_target :: ptr
  rt_handler :: ptr

record ClosureTrampolineEntry =
  carry_handler :: ptr
  carry_data :: ptr
  cte_address :: ptr
  cte_size :: u64

record process =
  pr_mem :: "u64 \<Rightarrow> u8"
  pr_writable :: "u64 \<Rightarrow> bool"
  pr_arena :: arena
  pr_near :: "nat \<times> PageChunk list"
  pr_interceptor :: interceptor
  pr_routes :: "ptr \<rightharpoonup> routing"
  pr_closures :: "ptr \<rightharpoonup> ClosureTrampolineEntry"
  pr_closure_bridge :: ptr
  pr_near_branch_plugin :: bool

text \<open>\<open>pr_writable\<close> is by the address a page starts at. A process in which the library has not been used yet:\<close>

definition new_process :: "(u64 \<Rightarrow> u8) \<Rightarrow> process" where
  "new_process m = \<lparr>pr_mem = m, pr_writable = (\<lambda>_. False), pr_arena = None, pr_near = (0, []),
     pr_interceptor = \<lparr>itc_links = Map.empty, itc_infos = Map.empty, priv_interceptor = 0\<rparr>, pr_routes = Map.empty,
     pr_closures = Map.empty, pr_closure_bridge = 0, pr_near_branch_plugin = False\<rparr>"

fun store_mem :: "u64 \<Rightarrow> (u64 \<Rightarrow> bool) \<Rightarrow> u64 \<Rightarrow> u8 list \<Rightarrow> (u64 \<Rightarrow> u8) \<Rightarrow> (u64 \<Rightarrow> u8) result" where
  "store_mem pageSize w a [] m = Inr m"
| "store_mem pageSize w a (b # bs) m =
     (if w (ALIGN_FLOOR a pageSize) then store_mem pageSize w (a + 1) bs (m(a := b)) else Inl OVERWRITE)"

definition load_mem :: "(u64 \<Rightarrow> u8) \<Rightarrow> u64 \<Rightarrow> nat \<Rightarrow> u8 list" where
  "load_mem m a n = map (\<lambda>i. m (a + of_nat i)) [0..<n]"

text \<open>
  \<^verbatim>\<open>CodePatch\<close>: the page the address lies in is made writable, the buffer is copied, and the page is made
  read and execute only.
\<close>

definition CodePatch :: "u64 \<Rightarrow> u64 \<Rightarrow> u8 list \<Rightarrow> process \<Rightarrow> process result" where
  "CodePatch pageSize address buffer st =
     (let page_align_address = ALIGN_FLOOR address pageSize;
          w = (pr_writable st)(page_align_address := True);
          offset = address - page_align_address
      in rbind (store_mem pageSize w (page_align_address + offset) buffer (pr_mem st)) (\<lambda>m.
           Inr (st\<lparr>pr_mem := m, pr_writable := w(page_align_address := False)\<rparr>)))"

section \<open>Pages from the system\<close>

text \<open>
  The rights of the pages an arena has taken up since it was \<open>old\<close>: \<^verbatim>\<open>OSMemory::Allocate\<close> and
  \<^verbatim>\<open>OSMemory::SetPermission\<close> give a page the permission it is filed under.
\<close>

definition page_rights :: "PageChunk list \<Rightarrow> PageChunk list \<Rightarrow> (u64 \<Rightarrow> bool) \<Rightarrow> u64 \<Rightarrow> bool" where
  "page_rights old new w a =
     (let ps = filter (\<lambda>p. range_address (page p) = a) (drop (length old) new)
      in if ps \<noteq> [] then page_permission (last ps) = kReadWrite else w a)"

definition with_arena :: "arena \<Rightarrow> process \<Rightarrow> process" where
  "with_arena ar st = st\<lparr>pr_arena := ar, pr_writable := page_rights (arena_pages (pr_arena st)) (arena_pages ar) (pr_writable st)\<rparr>"

definition with_near :: "nat \<times> PageChunk list \<Rightarrow> process \<Rightarrow> process" where
  "with_near n st = st\<lparr>pr_near := n, pr_writable := page_rights (snd (pr_near st)) (snd n) (pr_writable st)\<rparr>"

section \<open>AssemblyCodeBuilder\<close>

definition FinalizeFromAddress :: "u64 \<Rightarrow> u32 \<Rightarrow> MemoryChunk" where
  "FinalizeFromAddress address sz = init_region_range address sz"

text \<open>
  \<open>extra\<close> is the alignment slack of the ARM targets, 4 there and 0 elsewhere. The result is the chunk (none
  when no memory can be had), the assembler with its realized address, and the process.
\<close>

definition FinalizeFromTurboAssembler ::
  "u64 \<Rightarrow> u64 \<Rightarrow> u32 \<Rightarrow> 'a asm_state_scheme \<Rightarrow> process \<Rightarrow> (MemoryChunk option \<times> 'a asm_state_scheme \<times> process) result" where
  "FinalizeFromTurboAssembler pageSize fresh extra a st =
     (let n = of_nat (length (asm_buffer a)) :: u32
      in if realized_address a = 0
         then (case AllocateCodeChunk pageSize fresh (n + extra) (pr_arena st) of
                 (None, ar) \<Rightarrow> Inr (None, a, with_arena ar st)
               | (Some c, ar) \<Rightarrow>
                   (let a' = SetRealizedAddress (raw_instruction_start c) a
                    in rbind (CodePatch pageSize (raw_instruction_start c) (asm_buffer a) (with_arena ar st))
                         (\<lambda>st'. Inr (Some c, a', st'))))
         else rbind (CodePatch pageSize (realized_address a) (asm_buffer a) st)
                (\<lambda>st'. Inr (Some (FinalizeFromAddress (realized_address a) n), a, st')))"

lemma size_init_region: "e < 2 ^ 31 \<Longrightarrow> unat (raw_instruction_size (init_region_range s (of_nat e))) = e"
  by (simp add: raw_instruction_size_def init_region_range_def scast_small unat_of_nat take_bit_nat_eq_self)

lemma start_init_region: "raw_instruction_start (init_region_range s n) = s"
  by (simp add: raw_instruction_start_def init_region_range_def)

section \<open>What a patch changes\<close>

text \<open>Memory with the bytes \<open>bs\<close> from \<open>a\<close> on.\<close>

definition write_mem :: "u64 \<Rightarrow> u8 list \<Rightarrow> (u64 \<Rightarrow> u8) \<Rightarrow> u64 \<Rightarrow> u8" where
  "write_mem a bs m x = (if unat (x - a) < length bs then bs ! unat (x - a) else m x)"

lemma write_mem_Cons:
  assumes "length bs < 2 ^ 63"
  shows "write_mem a (b # bs) m = write_mem (a + 1) bs (m(a := b))"
proof
  fix x
  show "write_mem a (b # bs) m x = write_mem (a + 1) bs (m(a := b)) x"
  proof (cases "x = a")
    case True
    have "a - (a + 1) = (- 1 :: u64)" by simp
    then have "unat (a - (a + 1)) = 2 ^ 64 - 1" by (simp add: unsigned_minus_1_eq_mask mask_eq_exp_minus_1)
    then show ?thesis using True assms by (simp add: write_mem_def)
  next
    case False
    then have "x - a \<noteq> 0" by simp
    then have "unat (x - a) = Suc (unat (x - a - 1))" by (metis Suc_pred' unat_gt_0 unat_minus_one)
    then show ?thesis using False by (simp add: write_mem_def diff_diff_eq algebra_simps)
  qed
qed

lemma store_mem_eq:
  assumes "length bs < 2 ^ 63"
  shows "store_mem ps w a bs m =
     (if \<forall>i < length bs. w (ALIGN_FLOOR (a + of_nat i) ps) then Inr (write_mem a bs m) else Inl OVERWRITE)"
  using assms
proof (induction bs arbitrary: a m)
  case Nil
  then show ?case by (simp add: write_mem_def fun_eq_iff)
next
  case (Cons b bs)
  have "(\<forall>i < length (b # bs). w (ALIGN_FLOOR (a + of_nat i) ps)) \<longleftrightarrow>
      w (ALIGN_FLOOR a ps) \<and> (\<forall>i < length bs. w (ALIGN_FLOOR (a + 1 + of_nat i) ps))"
    by (auto simp: less_Suc_eq_0_disj algebra_simps)
  then show ?case using Cons write_mem_Cons [of bs a b m] by simp
qed

definition far :: "u64 \<Rightarrow> nat \<Rightarrow> u64 \<Rightarrow> nat \<Rightarrow> bool" where
  "far a n b k \<longleftrightarrow> list_all (\<lambda>i. k \<le> unat (a + of_nat i - b)) [0..<n]"

lemma load_far: "far a n b (length bs) \<Longrightarrow> load_mem (write_mem b bs m) a n = load_mem m a n"
  by (auto simp: load_mem_def write_mem_def far_def list_all_iff)

lemma length_load_mem [simp]: "length (load_mem m a n) = n"
  by (simp add: load_mem_def)

lemma load_written:
  assumes "length bs < 2 ^ 63" and "k + n \<le> length bs"
  shows "load_mem (write_mem a bs m) (a + of_nat k) n = take n (drop k bs)"
proof (rule nth_equalityI)
  fix i
  assume "i < length (load_mem (write_mem a bs m) (a + of_nat k) n)"
  then have i: "i < n" by simp
  have "unat (a + of_nat k + of_nat i - a) = k + i"
    using i assms by (simp add: unat_of_nat take_bit_nat_eq_self flip: of_nat_add)
  then show "load_mem (write_mem a bs m) (a + of_nat k) n ! i = take n (drop k bs) ! i"
    using i assms by (simp add: load_mem_def write_mem_def)
qed (use assms in simp)

lemma CodePatch_eq:
  assumes "length buffer < 2 ^ 63"
  shows "CodePatch ps address buffer st =
     (if \<forall>i < length buffer. ALIGN_FLOOR (address + of_nat i) ps = ALIGN_FLOOR address ps
            \<or> pr_writable st (ALIGN_FLOOR (address + of_nat i) ps)
      then Inr (st\<lparr>pr_mem := write_mem address buffer (pr_mem st),
                   pr_writable := (pr_writable st)(ALIGN_FLOOR address ps := False)\<rparr>)
      else Inl OVERWRITE)"
  using assms by (auto simp: CodePatch_def store_mem_eq Let_def)

lemma next_page:
  fixes a :: u64
  assumes "p < 63"
  shows "ALIGN_FLOOR (a + of_nat (2 ^ p - unat a mod 2 ^ p)) (2 ^ p) = ALIGN_FLOOR a (2 ^ p) + 2 ^ p"
proof -
  let ?P = "2 ^ p :: nat" and ?x = "ALIGN_FLOOR a (2 ^ p)"
  have m: "unat a mod ?P \<le> ?P" "unat a mod ?P \<le> unat a" by simp_all
  have "of_nat (unat (ALIGN_FLOOR a (2 ^ p))) = (of_nat (unat a) - of_nat (unat a mod ?P) :: u64)"
    unfolding unat_ALIGN_FLOOR using m(2) by (simp only: of_nat_diff)
  then have x: "?x = a - of_nat (unat a mod ?P)" by simp
  have "of_nat (?P - unat a mod ?P) = (2 ^ p - of_nat (unat a mod ?P) :: u64)"
    using m(1) by (simp add: of_nat_diff)
  then have y: "a + of_nat (?P - unat a mod ?P) = ?x + 2 ^ p" by (simp add: x)
  have "unat (?x + 2 ^ p) = (unat ?x + ?P) mod 2 ^ 64" using assms by (simp add: unat_word_ariths unat_exp_small)
  moreover have "?P dvd unat ?x" unfolding unat_ALIGN_FLOOR by (rule dvd_minus_mod)
  moreover have "?P dvd (2 :: nat) ^ 64" using assms by (intro le_imp_power_dvd) simp
  ultimately have "?P dvd unat (?x + 2 ^ p)" by (simp add: dvd_mod)
  then have "unat (ALIGN_FLOOR (?x + 2 ^ p) (2 ^ p)) = unat (?x + 2 ^ p)" by (simp add: unat_ALIGN_FLOOR)
  then show ?thesis unfolding y by (rule unsigned_word_eqI)
qed

lemma CodePatch_in_page:
  assumes "p < 63" and "unat address mod 2 ^ p + length buffer \<le> 2 ^ p"
  shows "CodePatch (2 ^ p) address buffer st =
     Inr (st\<lparr>pr_mem := write_mem address buffer (pr_mem st), pr_writable := (pr_writable st)(ALIGN_FLOOR address (2 ^ p) := False)\<rparr>)"
proof -
  have "(2 :: nat) ^ p < 2 ^ 63" using assms(1) by (intro power_strict_increasing) simp_all
  then have "length buffer < 2 ^ 63" using assms(2) by linarith
  then show ?thesis using same_page [of p address] assms by (simp add: CodePatch_eq)
qed

text \<open>
  C23: a patch that stays in the page of its first byte is written, changes no other byte and leaves the page
  read and execute only; only that page is made writable, so a patch that crosses into a page that is not
  writable is a fault.
\<close>

theorem CodePatch_one_page:
  assumes "p < 63" and "length buffer < 2 ^ 63"
  shows "(unat address mod 2 ^ p + length buffer \<le> 2 ^ p \<longrightarrow>
       CodePatch (2 ^ p) address buffer st =
         Inr (st\<lparr>pr_mem := write_mem address buffer (pr_mem st),
                 pr_writable := (pr_writable st)(ALIGN_FLOOR address (2 ^ p) := False)\<rparr>))
     \<and> (2 ^ p < unat address mod 2 ^ p + length buffer \<and> \<not> pr_writable st (ALIGN_FLOOR address (2 ^ p) + 2 ^ p) \<longrightarrow>
       CodePatch (2 ^ p) address buffer st = Inl OVERWRITE)"
proof (intro conjI impI)
  assume "unat address mod 2 ^ p + length buffer \<le> 2 ^ p"
  then show "CodePatch (2 ^ p) address buffer st = Inr (st\<lparr>pr_mem := write_mem address buffer (pr_mem st),
      pr_writable := (pr_writable st)(ALIGN_FLOOR address (2 ^ p) := False)\<rparr>)"
    by (rule CodePatch_in_page [OF assms(1)])
next
  assume c: "2 ^ p < unat address mod 2 ^ p + length buffer \<and> \<not> pr_writable st (ALIGN_FLOOR address (2 ^ p) + 2 ^ p)"
  let ?i = "2 ^ p - unat address mod 2 ^ p"
  have "unat address mod 2 ^ p < 2 ^ p" by simp
  then have "?i < length buffer" using c by linarith
  moreover have "ALIGN_FLOOR address (2 ^ p) + 2 ^ p \<noteq> ALIGN_FLOOR address (2 ^ p)"
    using assms(1) by simp
  ultimately show "CodePatch (2 ^ p) address buffer st = Inl OVERWRITE"
    using next_page [OF assms(1), of address] c assms(2) by (auto simp: CodePatch_eq intro!: exI [of _ ?i])
qed

theorem CodePatch_one_page_witness:
  "\<exists>st :: process. CodePatch (2 ^ 12) 0x1004 [0x90, 0x90] st \<noteq> Inl OVERWRITE \<and> CodePatch (2 ^ 12) 0x1FFF [0x90, 0x90] st = Inl OVERWRITE"
proof -
  define st where "st = new_process (\<lambda>_. 0)"
  then have st: "\<not> pr_writable st 0x2000" by (simp add: new_process_def)
  have "ALIGN_FLOOR (0x1FFF :: u64) (2 ^ 12) + 2 ^ 12 = 0x2000" "unat (0x1004 :: u64) mod 2 ^ 12 = 4" "unat (0x1FFF :: u64) mod 2 ^ 12 = 4095"
    by (simp_all add: ALIGN_FLOOR_def)
  then show ?thesis
    using CodePatch_one_page [of 12 "[0x90, 0x90]" "0x1004" st] CodePatch_one_page [of 12 "[0x90, 0x90]" "0x1FFF" st] st
    by (intro exI [of _ st]) simp
qed

lemma CodePatch_frame: "CodePatch ps address buffer st = Inr st' \<Longrightarrow> pr_interceptor st' = pr_interceptor st"
  by (auto simp: CodePatch_def Let_def rbind_Inr_iff)

lemma finalize_frame:
  "FinalizeFromTurboAssembler ps fresh extra a st = Inr (c, a', st') \<Longrightarrow> pr_interceptor st' = pr_interceptor st"
  using CodePatch_frame by (fastforce simp: FinalizeFromTurboAssembler_def Let_def rbind_Inr_iff with_arena_def
      split: if_splits prod.splits option.splits)

lemma finalize_writes:
  assumes "FinalizeFromTurboAssembler ps fresh extra a st = Inr (Some c, a', st')" and "realized_address a = 0" and "length (asm_buffer a) < 2 ^ 63"
  shows "pr_mem st' = write_mem (raw_instruction_start c) (asm_buffer a) (pr_mem st)"
  using assms CodePatch_eq by (auto simp: FinalizeFromTurboAssembler_def Let_def rbind_Inr_iff with_arena_def split: if_splits prod.splits option.splits)

end
