(* ===== verification/X86_Relocation.thy ===== *)
theory X86_Relocation
  imports X86_Decode_Correct X64_Assembler_Correct Code_Patch
begin

text \<open>
  \<^verbatim>\<open>X64InstructionRelocation.cc\<close>: moving the first instructions of a hooked function to a code chunk. The
  instructions are decoded one by one from the copy of the prologue (\<open>mem\<close>, from \<^verbatim>\<open>buffer\<close> on) and emitted
  again for the new address; pointers into the copy are offsets. \<open>over\<close> gives, for each offset, the memory
  behind the instruction record that the decoder's operand scans run into.
\<close>

section \<open>One instruction\<close>

definition x64_conf :: x86_options_t where
  "x64_conf = \<lparr>opt_mode = 64\<rparr>"

definition relocate_insn :: "u8 list \<Rightarrow> nat \<Rightarrow> u64 \<Rightarrow> u64 \<Rightarrow> x86_insn_decode_t \<Rightarrow> x64_op" where
  "relocate_insn mem cur curr_orig_ip curr_relo_ip insn =
     (if primary_opcode insn \<ge> 0x70 \<and> primary_opcode insn \<le> 0x7F
      then (let orig_offset = ucast (immediate insn) :: u8;
                new_offset = ucast (curr_orig_ip + scast orig_offset - curr_relo_ip) :: u32;
                opcode = 0x80 OR (primary_opcode insn AND 0x0f)
            in do_all [emit_bytes (le_bytes 1 (0x0F :: u8)), emit_bytes (le_bytes 1 opcode),
                       emit_bytes (le_bytes 4 new_offset)])
      else if primary_opcode insn = 0xEB
      then (let orig_offset = ucast (immediate insn) :: u8;
                new_offset = ucast (curr_orig_ip + scast orig_offset - curr_relo_ip) :: u8
            in do_all [emit_bytes (le_bytes 1 (0xE9 :: u8)), emit_bytes (le_bytes 4 (scast new_offset :: u32))])
      else if insn_flags insn AND FLAG_IP_RELATIVE \<noteq> 0 \<and> mem_base (insn_operands insn ! 1) = ia32e_code RIP
      then (let orig_disp = mem_disp (insn_operands insn ! 1);
                disp = ucast (curr_orig_ip + scast orig_disp - curr_relo_ip) :: u32
            in do_all [emit_bytes (take (unat (displacement_offset insn)) (drop cur mem)), emit_bytes (le_bytes 4 disp)])
      else if primary_opcode insn = 0xE8 \<or> primary_opcode insn = 0xE9
      then (let orig_offset = ucast (immediate insn) :: u32;
                offset = ucast (curr_orig_ip + scast orig_offset - curr_relo_ip) :: u32
            in do_all [emit_bytes (take (unat (immediate_offset insn)) (drop cur mem)), emit_bytes (le_bytes 4 offset)])
      else if primary_opcode insn \<ge> 0xE0 \<and> primary_opcode insn \<le> 0xE2 then (\<lambda>_. Inl UNIMPLEMENTED)
      else if primary_opcode insn = 0xE3 then (\<lambda>_. Inl UNIMPLEMENTED)
      else emit_bytes (take (unat (insn_length insn)) (drop cur mem)))"

section \<open>The loop\<close>

type_synonym overs = "nat \<Rightarrow> x86_insn_operand_spec list"

function (sequential) relocate_loop ::
  "overs \<Rightarrow> u8 list \<Rightarrow> nat \<Rightarrow> nat \<Rightarrow> u64 \<Rightarrow> x64_asm \<Rightarrow> (nat \<times> u64 \<times> x64_asm) result" where
  "relocate_loop over mem predefined cur curr_orig_ip a =
     (if cur < predefined
      then rbind (x86_insn_decode (over cur) zero_insn (drop cur mem) x64_conf) (\<lambda>insn.
           rbind (relocate_insn mem cur curr_orig_ip (CurrentIP a) insn a) (\<lambda>a'.
             relocate_loop over mem predefined (cur + unat (insn_length insn))
               (curr_orig_ip + ucast (insn_length insn)) a'))
      else Inr (cur, curr_orig_ip, a))"
  by pat_completeness auto
termination
proof (relation "measure (\<lambda>(over, mem, predefined, cur, ip, a). predefined - cur)")
  fix over :: overs and mem predefined cur curr_orig_ip a insn a'
  assume "cur < predefined" and "x86_insn_decode (over cur) zero_insn (drop cur mem) x64_conf = Inr insn"
  then show "((over, mem, predefined, cur + unat (insn_length insn), curr_orig_ip + ucast (insn_length insn), a'),
      over, mem, predefined, cur, curr_orig_ip, a) \<in> measure (\<lambda>(over, mem, predefined, cur, ip, a). predefined - cur)"
    using decode_length_range [of "over cur" zero_insn "drop cur mem" x64_conf insn] by (auto simp: word_le_nat_alt)
qed simp

declare relocate_loop.simps [simp del]

section \<open>The relocator\<close>

text \<open>\<^verbatim>\<open>int predefined_relocate_size = origin->raw_instruction_size()\<close>: a size that is negative as an \<^verbatim>\<open>int\<close> asks for nothing.\<close>

definition predefined_relocate_size :: "MemoryChunk \<Rightarrow> nat" where
  "predefined_relocate_size origin = nat (sint (ucast (raw_instruction_size origin) :: u32))"

text \<open>
  The result: the status, the origin chunk with its new length and, on success, what \<^verbatim>\<open>CodePatch\<close> writes
  where.
\<close>

definition GenRelocateCodeFixed ::
  "overs \<Rightarrow> u8 list \<Rightarrow> MemoryChunk \<Rightarrow> MemoryChunk \<Rightarrow> (RetStatus \<times> MemoryChunk \<times> (u64 \<times> u8 list) option) result" where
  "GenRelocateCodeFixed over mem origin relocated =
     (let a0 = SetRealizedAddress (raw_instruction_start relocated) (new_TurboAssembler 0)
      in rbind (relocate_loop over mem (predefined_relocate_size origin) 0 (raw_instruction_start origin) a0)
           (\<lambda>(cur, curr_orig_ip, a).
         rbind (JmpNearIndirect (CurrentIP a + 6) a) (\<lambda>a1.
         rbind (EmitInt64 curr_orig_ip a1) (\<lambda>a2.
           let new_origin_len = ucast (curr_orig_ip - raw_instruction_start origin) :: u32;
               origin' = init_region_range (raw_instruction_start origin) new_origin_len
           in if of_nat (length (asm_buffer a2)) > raw_instruction_size relocated
              then Inr (RT_FAILED, origin', None)
              else Inr (RT_SUCCESS, origin', Some (raw_instruction_start relocated, asm_buffer a2))))))"

text \<open>
  The label \<^verbatim>\<open>x64_try_again\<close> of \<^verbatim>\<open>GenRelocateCodeAndBranch\<close> as recursion with fuel: \<open>k\<close> counts the attempts,
  \<open>fresh k\<close> is the page the system gives if attempt \<open>k\<close> needs one. When no chunk can be had it returns with
  nothing patched.
\<close>

fun x64_try_again ::
  "nat \<Rightarrow> u64 \<Rightarrow> (nat \<Rightarrow> u64) \<Rightarrow> overs \<Rightarrow> u8 list \<Rightarrow> nat \<Rightarrow> u32 \<Rightarrow> MemoryChunk \<Rightarrow> MemoryChunk \<Rightarrow> arena
     \<Rightarrow> (MemoryChunk \<times> MemoryChunk \<times> arena \<times> (u64 \<times> u8 list) option) result option" where
  "x64_try_again 0 pageSize fresh over mem k relo_code_chunk_size origin relocated ar = None"
| "x64_try_again (Suc fuel) pageSize fresh over mem k relo_code_chunk_size origin relocated ar =
     (let (got, ar1) = (if raw_instruction_start relocated = 0
                        then (let (c, ar') = AllocateCodeChunk pageSize (fresh k) relo_code_chunk_size ar
                              in (map_option (\<lambda>c. init_region_range (range_address c) (ucast (range_length c))) c, ar'))
                        else (Some relocated, ar))
      in case got of
           None \<Rightarrow> Some (Inr (origin, relocated, ar1, None))
         | Some relocated1 \<Rightarrow>
             (case GenRelocateCodeFixed over mem origin relocated1 of
                Inl e \<Rightarrow> Some (Inl e)
              | Inr (RT_SUCCESS, origin', patch) \<Rightarrow> Some (Inr (origin', relocated1, ar1, patch))
              | Inr (RT_FAILED, origin', patch) \<Rightarrow>
                  x64_try_again fuel pageSize fresh over mem (k + 1) (relo_code_chunk_size + 16) origin'
                    (init_region_range 0 0) ar1))"

definition GenRelocateCodeAndBranch ::
  "nat \<Rightarrow> u64 \<Rightarrow> (nat \<Rightarrow> u64) \<Rightarrow> overs \<Rightarrow> u8 list \<Rightarrow> MemoryChunk \<Rightarrow> MemoryChunk \<Rightarrow> arena
     \<Rightarrow> (MemoryChunk \<times> MemoryChunk \<times> arena \<times> (u64 \<times> u8 list) option) result option" where
  "GenRelocateCodeAndBranch fuel pageSize fresh over buffer origin relocated ar =
     x64_try_again fuel pageSize fresh over buffer 0 32 origin relocated ar"

end
