(* ===== verification/X86_Relocation_Correct.thy ===== *)
theory X86_Relocation_Correct
  imports X86_Relocation
begin

text \<open>
  The relocator: which relocated instructions keep their meaning and which do not, the shape of the relocated
  code, and that the retry with a larger chunk ends.
\<close>

section \<open>Where relocated instructions go\<close>

text \<open>The original instruction's displacement target and the relocated one's, when the move is not too far.\<close>

lemma moved_target:
  fixes rel :: u32 and o_ip r_ip :: u64
  assumes "sint (o_ip + scast rel - r_ip) \<in> {- (2 ^ 31) ..< 2 ^ 31}"
  shows "r_ip + n + scast (ucast (o_ip + scast rel - r_ip) :: u32) = o_ip + n + scast rel"
proof -
  have "(scast (ucast (o_ip + scast rel - r_ip) :: u32) :: u64) = o_ip + scast rel - r_ip"
    using assms by (intro scast_ucast_near) auto
  then show ?thesis by simp
qed

lemma ucast_ucast_u32 [simp]: "ucast (ucast (w :: u32) :: u64) = w"
  by (rule bit_word_eqI) (simp add: bit_unsigned_iff)

lemma ucast_ucast_u8 [simp]: "ucast (ucast (w :: u8) :: u64) = w"
  by (rule bit_word_eqI) (simp add: bit_unsigned_iff)

lemma reloc_witness_simps:
  "CurrentIP (new_TurboAssembler ad) = ad" "asm_buffer (new_TurboAssembler ad) = []" "over_clean []"
  by (simp_all add: CurrentIP_def pc_offset_def new_TurboAssembler_def new_AssemblerBase_def over_clean_def)

text \<open>
  A \<^verbatim>\<open>call rel32\<close> or \<^verbatim>\<open>jmp rel32\<close> moved from \<open>o_ip\<close> to \<open>r_ip\<close> keeps its opcode and its five bytes, and its new
  displacement leads to the same target, if the target is within two gigabytes of the new place.
\<close>

theorem relocate_near_branch:
  fixes rel :: u32
  assumes opc: "opc = 0xE8 \<or> opc = 0xE9" and mem: "drop cur mem = opc # le_bytes 4 rel @ rest" "10 \<le> length rest"
    and clean: "over_clean over"
    and near: "sint (o_ip + scast rel - CurrentIP a) \<in> {- (2 ^ 31) ..< 2 ^ 31}"
  shows "\<exists>insn a' disp :: u32. x86_insn_decode over zero_insn (drop cur mem) x64_conf = Inr insn \<and> insn_length insn = 5
     \<and> relocate_insn mem cur o_ip (CurrentIP a) insn a = Inr a'
     \<and> asm_buffer a' = asm_buffer a @ opc # le_bytes 4 disp
     \<and> CurrentIP a + 5 + scast disp = o_ip + 5 + scast rel"
proof -
  let ?insn = "zero_insn\<lparr>primary_opcode := opc, insn_spec := x86_opcode_map_one_byte ! unat opc,
               immediate_offset := 1, immediate := ucast rel, insn_length := 5\<rparr>"
  have dec: "x86_insn_decode over zero_insn (drop cur mem) x64_conf = Inr ?insn"
    unfolding mem(1) by (rule decode_near_branch_insn) (use opc clean mem(2) in \<open>simp_all add: x64_conf_def\<close>)
  have "relocate_insn mem cur o_ip (CurrentIP a) ?insn a = Inr (a\<lparr>asm_buffer := asm_buffer a @ opc #
      le_bytes 4 (ucast (o_ip + scast rel - CurrentIP a) :: u32)\<rparr>)"
    using opc mem(1) by (auto simp: relocate_insn_def zero_insn_def emit_bytes_def)
  then show ?thesis using dec moved_target [OF near, of 5] by fastforce
qed

theorem relocate_near_branch_witness:
  "\<exists>insn a' disp :: u32. x86_insn_decode [] zero_insn (0xE9 # le_bytes 4 (0x100 :: u32) @ replicate 10 0x90) x64_conf = Inr insn
     \<and> relocate_insn (0xE9 # le_bytes 4 (0x100 :: u32) @ replicate 10 0x90) 0 0x701000 0x700000 insn
         (new_TurboAssembler 0x700000) = Inr a'
     \<and> asm_buffer a' = 0xE9 # le_bytes 4 disp \<and> (0x700005 :: u64) + scast disp = 0x701105"
  using relocate_near_branch [of "0xE9" 0 "0xE9 # le_bytes 4 (0x100 :: u32) @ replicate 10 0x90" "0x100"
      "replicate 10 0x90" "[]" "0x701000" "new_TurboAssembler 0x700000"]
  by (auto simp: reloc_witness_simps)



text \<open>
  A conditional \<^verbatim>\<open>7x rel8\<close> branch is rewritten to the six-byte \<^verbatim>\<open>0F 8x rel32\<close> with a displacement that does not
  account for the four extra bytes: taken, it lands four bytes after the original target.
\<close>

theorem relocate_jcc_off_by_four:
  fixes rel :: u8
  assumes opc: "0x70 \<le> opc" "opc \<le> 0x7F" and mem: "drop cur mem = opc # rel # rest" "13 \<le> length rest"
    and clean: "over_clean over"
    and near: "sint (o_ip + scast rel - CurrentIP a) \<in> {- (2 ^ 31) ..< 2 ^ 31}"
  shows "\<exists>insn a' disp :: u32. x86_insn_decode over zero_insn (drop cur mem) x64_conf = Inr insn \<and> insn_length insn = 2
     \<and> relocate_insn mem cur o_ip (CurrentIP a) insn a = Inr a'
     \<and> asm_buffer a' = asm_buffer a @ [0x0F, 0x80 OR (opc AND 0x0F)] @ le_bytes 4 disp
     \<and> CurrentIP a + 6 + scast disp = (o_ip + 2 + scast rel) + 4"
proof -
  let ?insn = "zero_insn\<lparr>primary_opcode := opc, insn_spec := x86_opcode_map_one_byte ! unat opc,
               immediate_offset := 1, immediate := ucast rel, insn_length := 2\<rparr>"
  let ?d = "ucast (o_ip + scast rel - CurrentIP a) :: u32"
  have dec: "x86_insn_decode over zero_insn (drop cur mem) x64_conf = Inr ?insn"
    unfolding mem(1) by (rule decode_short_branch_insn) (use opc clean mem(2) in \<open>simp_all add: x64_conf_def\<close>)
  have "relocate_insn mem cur o_ip (CurrentIP a) ?insn a
      = Inr (a\<lparr>asm_buffer := asm_buffer a @ [0x0F, 0x80 OR (opc AND 0x0F)] @ le_bytes 4 ?d\<rparr>)"
    using opc by (simp add: relocate_insn_def zero_insn_def emit_bytes_def le_bytes_numeral(1))
  moreover have "(scast ?d :: u64) = o_ip + scast rel - CurrentIP a"
    using near by (intro scast_ucast_near) auto
  ultimately show ?thesis using dec by (intro exI [of _ ?insn] exI conjI) auto
qed

theorem relocate_jcc_off_by_four_witness:
  "\<exists>insn a' disp :: u32. x86_insn_decode [] zero_insn (0x74 # 0x10 # replicate 13 0x90) x64_conf = Inr insn
     \<and> relocate_insn (0x74 # 0x10 # replicate 13 0x90) 0 0x701000 0x700000 insn (new_TurboAssembler 0x700000) = Inr a'
     \<and> asm_buffer a' = [0x0F, 0x84] @ le_bytes 4 disp \<and> (0x700006 :: u64) + scast disp = 0x701012 + 4"
  using relocate_jcc_off_by_four [of "0x74" 0 "0x74 # 0x10 # replicate 13 0x90" "0x10" "replicate 13 0x90" "[]"
      "0x701000" "new_TurboAssembler 0x700000"]
  by (auto simp: reloc_witness_simps)

text \<open>
  A \<^verbatim>\<open>jmp rel8\<close> is rewritten to a five-byte \<^verbatim>\<open>jmp rel32\<close> whose displacement is cut to eight bits: wherever the
  original target is, the relocated jump ends within 128 bytes of the relocated instruction.
\<close>

theorem relocate_jmp8_truncated:
  fixes rel :: u8
  assumes mem: "drop cur mem = 0xEB # rel # rest" "13 \<le> length rest" and clean: "over_clean over"
  shows "\<exists>insn a' disp :: u32. x86_insn_decode over zero_insn (drop cur mem) x64_conf = Inr insn
     \<and> relocate_insn mem cur o_ip (CurrentIP a) insn a = Inr a'
     \<and> asm_buffer a' = asm_buffer a @ 0xE9 # le_bytes 4 disp \<and> - 128 \<le> sint disp \<and> sint disp \<le> 127"
proof -
  let ?insn = "zero_insn\<lparr>primary_opcode := 0xEB, insn_spec := x86_opcode_map_one_byte ! unat (0xEB :: u8),
               immediate_offset := 1, immediate := ucast rel, insn_length := 2\<rparr>"
  let ?b = "ucast (o_ip + scast rel - CurrentIP a) :: u8"
  have dec: "x86_insn_decode over zero_insn (drop cur mem) x64_conf = Inr ?insn"
    unfolding mem(1) by (rule decode_short_branch_insn) (use clean mem(2) in \<open>simp_all add: x64_conf_def\<close>)
  have "relocate_insn mem cur o_ip (CurrentIP a) ?insn a
      = Inr (a\<lparr>asm_buffer := asm_buffer a @ 0xE9 # le_bytes 4 (scast ?b :: u32)\<rparr>)"
    by (simp add: relocate_insn_def zero_insn_def emit_bytes_def le_bytes_numeral(1))
  moreover have "sint (scast ?b :: u32) = sint ?b" by (rule sint_up_scast) (simp add: is_up)
  moreover have "- 128 \<le> sint ?b \<and> sint ?b \<le> 127"
    using sint_range_size [of ?b] by (simp add: word_size)
  ultimately show ?thesis using dec by (intro exI [of _ ?insn] exI conjI) auto
qed

theorem relocate_jmp8_truncated_witness:
  "\<exists>insn a' disp :: u32. x86_insn_decode [] zero_insn (0xEB # 0x10 # replicate 13 0x90) x64_conf = Inr insn
     \<and> relocate_insn (0xEB # 0x10 # replicate 13 0x90) 0 0x701000 0x700000 insn (new_TurboAssembler 0x700000) = Inr a'
     \<and> asm_buffer a' = 0xE9 # le_bytes 4 disp \<and> - 128 \<le> sint disp \<and> sint disp \<le> 127"
  using relocate_jmp8_truncated [of 0 "0xEB # 0x10 # replicate 13 0x90" "0x10" "replicate 13 0x90" "[]"
      "0x701000" "new_TurboAssembler 0x700000"]
  by (auto simp: reloc_witness_simps)


section \<open>The whole relocation\<close>

text \<open>How many bytes an instruction becomes depends on the instruction alone, not on the places it moves between.\<close>

definition relocates_to :: "u8 list \<Rightarrow> nat \<Rightarrow> x86_insn_decode_t \<Rightarrow> nat \<Rightarrow> bool" where
  "relocates_to mem cur insn n \<longleftrightarrow> n \<le> 259 \<and>
     (\<forall>o_ip r_ip a. \<exists>bs. length bs = n \<and> relocate_insn mem cur o_ip r_ip insn a = Inr (a\<lparr>asm_buffer := asm_buffer a @ bs\<rparr>))"

lemma emit_twice:
  "\<exists>bs. length bs = length xs + length ys
     \<and> do_all [emit_bytes xs, emit_bytes ys] a = Inr (a\<lparr>asm_buffer := asm_buffer a @ bs\<rparr>)"
  by (intro exI [of _ "xs @ ys"]) (simp add: emit_bytes_def)

lemma emit_thrice:
  "\<exists>bs. length bs = length xs + length ys + length zs
     \<and> do_all [emit_bytes xs, emit_bytes ys, emit_bytes zs] a = Inr (a\<lparr>asm_buffer := asm_buffer a @ bs\<rparr>)"
  by (intro exI [of _ "xs @ ys @ zs"]) (simp add: emit_bytes_def)

lemma unat_u8_le: "unat (b :: u8) \<le> 255"
  using unat_u8_less [of b] by simp

lemma relocate_insn_cases:
  assumes "unat (insn_length insn) \<le> 20"
  shows "(\<forall>o_ip r_ip a. relocate_insn mem cur o_ip r_ip insn a = Inl UNIMPLEMENTED) \<or> (\<exists>n. relocates_to mem cur insn n)"
proof -
  consider (jcc) "primary_opcode insn \<ge> 0x70 \<and> primary_opcode insn \<le> 0x7F"
    | (jmp8) "\<not> (primary_opcode insn \<ge> 0x70 \<and> primary_opcode insn \<le> 0x7F)" "primary_opcode insn = 0xEB"
    | (rip) "\<not> (primary_opcode insn \<ge> 0x70 \<and> primary_opcode insn \<le> 0x7F)" "primary_opcode insn \<noteq> 0xEB"
        "insn_flags insn AND FLAG_IP_RELATIVE \<noteq> 0 \<and> mem_base (insn_operands insn ! 1) = ia32e_code RIP"
    | (rel32) "\<not> (primary_opcode insn \<ge> 0x70 \<and> primary_opcode insn \<le> 0x7F)" "primary_opcode insn \<noteq> 0xEB"
        "\<not> (insn_flags insn AND FLAG_IP_RELATIVE \<noteq> 0 \<and> mem_base (insn_operands insn ! 1) = ia32e_code RIP)"
        "primary_opcode insn = 0xE8 \<or> primary_opcode insn = 0xE9"
    | (other) "\<not> (primary_opcode insn \<ge> 0x70 \<and> primary_opcode insn \<le> 0x7F)" "primary_opcode insn \<noteq> 0xEB"
        "\<not> (insn_flags insn AND FLAG_IP_RELATIVE \<noteq> 0 \<and> mem_base (insn_operands insn ! 1) = ia32e_code RIP)"
        "\<not> (primary_opcode insn = 0xE8 \<or> primary_opcode insn = 0xE9)"
    by blast
  then show ?thesis
  proof cases
    case jcc
    then have "relocates_to mem cur insn 6"
      unfolding relocates_to_def relocate_insn_def if_P [OF jcc] Let_def
      using emit_thrice [of "le_bytes 1 (_ :: u8)" "le_bytes 1 (_ :: u8)" "le_bytes 4 (_ :: u32)"] by auto
    then show ?thesis by blast
  next
    case jmp8
    have "relocates_to mem cur insn 5"
      unfolding relocates_to_def relocate_insn_def if_not_P [OF jmp8(1)] if_P [OF jmp8(2)] Let_def
      using emit_twice [of "le_bytes 1 (_ :: u8)" "le_bytes 4 (_ :: u32)"] by auto
    then show ?thesis by blast
  next
    case rip
    let ?xs = "take (unat (displacement_offset insn)) (drop cur mem)"
    have "relocates_to mem cur insn (length ?xs + 4)"
      unfolding relocates_to_def relocate_insn_def if_not_P [OF rip(1)] if_not_P [OF rip(2)] if_P [OF rip(3)] Let_def
      using emit_twice [of ?xs "le_bytes 4 (_ :: u32)"] unat_u8_le [of "displacement_offset insn"]
      by (auto simp: min_def)
    then show ?thesis by blast
  next
    case rel32
    let ?xs = "take (unat (immediate_offset insn)) (drop cur mem)"
    have "relocates_to mem cur insn (length ?xs + 4)"
      unfolding relocates_to_def relocate_insn_def if_not_P [OF rel32(1)] if_not_P [OF rel32(2)] if_not_P [OF rel32(3)]
        if_P [OF rel32(4)] Let_def
      using emit_twice [of ?xs "le_bytes 4 (_ :: u32)"] unat_u8_le [of "immediate_offset insn"]
      by (auto simp: min_def)
    then show ?thesis by blast
  next
    case other
    let ?xs = "take (unat (insn_length insn)) (drop cur mem)"
    have "(\<forall>o_ip r_ip a. relocate_insn mem cur o_ip r_ip insn a = Inl UNIMPLEMENTED) \<or> relocates_to mem cur insn (length ?xs)"
      using assms
      unfolding relocates_to_def relocate_insn_def if_not_P [OF other(1)] if_not_P [OF other(2)] if_not_P [OF other(3)]
        if_not_P [OF other(4)]
      by (auto simp: emit_bytes_def intro!: exI [of _ ?xs])
    then show ?thesis by blast
  qed
qed

text \<open>
  The loop stops at an offset \<open>e\<close> within one instruction of the size asked for and emits \<open>n\<close> bytes, wherever the
  code is and goes; asked for any size up to \<open>e\<close> it does the same.
\<close>

definition loops_to :: "overs \<Rightarrow> u8 list \<Rightarrow> nat \<Rightarrow> nat \<Rightarrow> nat \<Rightarrow> nat \<Rightarrow> bool" where
  "loops_to over mem p cur e n \<longleftrightarrow> p \<le> e \<and> cur \<le> e \<and> (e = cur \<or> e < p + 20) \<and> n \<le> 259 * (p - cur)
     \<and> (\<forall>ip a. \<exists>bs. length bs = n \<and> (\<forall>q. p \<le> q \<and> q \<le> e \<longrightarrow> relocate_loop over mem q cur ip a
            = Inr (e, ip + of_nat (e - cur), a\<lparr>asm_buffer := asm_buffer a @ bs\<rparr>)))"

lemma loop_step:
  assumes dec: "x86_insn_decode (over cur) zero_insn (drop cur mem) x64_conf = Inr insn" and lt: "cur < p"
    and one: "relocates_to mem cur insn k" and rest: "loops_to over mem p (cur + unat (insn_length insn)) e n"
  shows "loops_to over mem p cur e (k + n)"
proof -
  let ?l = "unat (insn_length insn)"
  have l: "1 \<le> ?l" "?l \<le> 20" using decode_length_range [OF dec] by (auto simp: word_le_nat_alt)
  have ce: "cur + ?l \<le> e" and n: "n \<le> 259 * (p - (cur + ?l))" using rest by (auto simp: loops_to_def)
  have "e < p + 20" using rest lt l unfolding loops_to_def by linarith
  moreover have "k + n \<le> 259 * (p - cur)" using one n l lt unfolding relocates_to_def by linarith
  moreover have "\<exists>bs. length bs = k + n \<and> (\<forall>q. p \<le> q \<and> q \<le> e \<longrightarrow>
      relocate_loop over mem q cur ip a = Inr (e, ip + of_nat (e - cur), a\<lparr>asm_buffer := asm_buffer a @ bs\<rparr>))" for ip a
  proof -
    obtain bs where b: "length bs = k"
        "relocate_insn mem cur ip (CurrentIP a) insn a = Inr (a\<lparr>asm_buffer := asm_buffer a @ bs\<rparr>)"
      using one unfolding relocates_to_def by blast
    let ?a = "a\<lparr>asm_buffer := asm_buffer a @ bs\<rparr>" and ?ip = "ip + ucast (insn_length insn)"
    have "\<exists>cs. length cs = n \<and> (\<forall>q. p \<le> q \<and> q \<le> e \<longrightarrow> relocate_loop over mem q (cur + ?l) ?ip ?a
        = Inr (e, ?ip + of_nat (e - (cur + ?l)), ?a\<lparr>asm_buffer := asm_buffer ?a @ cs\<rparr>))"
      using rest unfolding loops_to_def by blast
    then obtain cs where c: "length cs = n" "\<And>q. p \<le> q \<Longrightarrow> q \<le> e \<Longrightarrow> relocate_loop over mem q (cur + ?l) ?ip ?a
        = Inr (e, ?ip + of_nat (e - (cur + ?l)), a\<lparr>asm_buffer := asm_buffer a @ bs @ cs\<rparr>)" by auto
    have "(ucast (insn_length insn) :: u64) = of_nat ?l" by simp
    then have "ip + ucast (insn_length insn) + of_nat (e - (cur + ?l)) = (ip + of_nat (e - cur) :: u64)"
      using ce by (simp add: of_nat_diff)
    then show ?thesis
      using b c lt dec by (intro exI [of _ "bs @ cs"]) (auto simp: relocate_loop.simps [of over mem _ cur])
  qed
  ultimately show ?thesis using ce rest by (auto simp: loops_to_def)
qed

lemma loop_uniform:
  "(\<exists>err. \<forall>ip a. relocate_loop over mem p cur ip a = Inl err) \<or> (\<exists>e n. loops_to over mem p cur e n)"
proof (induction "p - cur" arbitrary: cur rule: less_induct)
  case less
  show ?case
  proof (cases "cur < p")
    case False
    then have "loops_to over mem p cur cur 0"
      by (auto simp: loops_to_def relocate_loop.simps [of over mem _ cur])
    then show ?thesis by blast
  next
    case True
    show ?thesis
    proof (cases "x86_insn_decode (over cur) zero_insn (drop cur mem) x64_conf")
      case (Inl err)
      then show ?thesis using True by (auto simp: relocate_loop.simps [of over mem p cur])
    next
      case (Inr insn)
      let ?c = "cur + unat (insn_length insn)"
      have l: "1 \<le> unat (insn_length insn)" "unat (insn_length insn) \<le> 20"
        using decode_length_range [OF Inr] by (auto simp: word_le_nat_alt)
      from relocate_insn_cases [OF l(2), of mem cur] consider
          "\<forall>o_ip r_ip a. relocate_insn mem cur o_ip r_ip insn a = Inl UNIMPLEMENTED"
        | (ok) k where "relocates_to mem cur insn k" by blast
      then show ?thesis
      proof cases
        case 1
        then show ?thesis using True Inr by (auto simp: relocate_loop.simps [of over mem p cur])
      next
        case ok
        from less.hyps [of ?c] True l consider
            (err) err where "\<forall>ip a. relocate_loop over mem p ?c ip a = Inl err"
          | (fine) e n where "loops_to over mem p ?c e n" by force
        then show ?thesis
        proof cases
          case err
          have "relocate_loop over mem p cur ip a = Inl err" for ip a
          proof -
            obtain a' where "relocate_insn mem cur ip (CurrentIP a) insn a = Inr a'"
              using ok unfolding relocates_to_def by blast
            then show ?thesis using err True Inr by (simp add: relocate_loop.simps [of over mem p cur])
          qed
          then show ?thesis by blast
        next
          case fine
          then show ?thesis using loop_step [of over cur mem insn p k e n] Inr True ok by blast
        qed
      qed
    qed
  qed
qed


definition relocated_code :: "u8 list \<Rightarrow> u64 \<Rightarrow> u8 list" where
  "relocated_code body back = body @ [0xFF, 0x25, 0, 0, 0, 0] @ le_bytes 8 back"

lemma length_relocated_code: "length (relocated_code body back) = length body + 14"
  by (simp add: relocated_code_def)

lemma jump_back:
  "rbind (JmpNearIndirect (CurrentIP a + 6) a) (\<lambda>a1. EmitInt64 back a1)
     = Inr (a\<lparr>asm_buffer := relocated_code (asm_buffer a) back\<rparr>)"
  by (simp add: JmpNearIndirect_def Let_def emit_bytes_def EmitInt64_def relocated_code_def le_simps)

lemma predefined_small:
  assumes "unat (raw_instruction_size c) < 2 ^ 31"
  shows "predefined_relocate_size c = unat (raw_instruction_size c)"
proof -
  have bounds: "n < 2 ^ 31 \<Longrightarrow> - (2 ^ 31) \<le> int n \<and> int n < 2 ^ 31" for n :: nat by simp
  have "sint (of_int (int (unat (raw_instruction_size c))) :: u32) = int (unat (raw_instruction_size c))"
    using bounds [OF assms] by (intro sint_of_int_small) blast+
  then show ?thesis
    by (simp add: predefined_relocate_size_def)
qed

lemma fixed_uniform:
  assumes L: "loops_to over mem p 0 e n" and q: "p \<le> unat (raw_instruction_size origin)" "unat (raw_instruction_size origin) \<le> e"
    and e: "e < 2 ^ 31"
  shows "\<exists>a. (\<forall>q. p \<le> q \<and> q \<le> e \<longrightarrow> relocate_loop over mem q 0 (raw_instruction_start origin)
        (SetRealizedAddress (raw_instruction_start relocated) (new_TurboAssembler 0))
        = Inr (e, raw_instruction_start origin + of_nat e, a)) \<and> length (asm_buffer a) = n
     \<and> GenRelocateCodeFixed over mem origin relocated =
        Inr (if of_nat (n + 14) > raw_instruction_size relocated
             then (RT_FAILED, init_region_range (raw_instruction_start origin) (of_nat e), None)
             else (RT_SUCCESS, init_region_range (raw_instruction_start origin) (of_nat e),
                   Some (raw_instruction_start relocated,
                         relocated_code (asm_buffer a) (raw_instruction_start origin + of_nat e))))"
proof -
  let ?a0 = "SetRealizedAddress (raw_instruction_start relocated) (new_TurboAssembler 0)" and ?s = "raw_instruction_start origin"
  obtain bs where b: "length bs = n" "\<forall>q. p \<le> q \<and> q \<le> e \<longrightarrow> relocate_loop over mem q 0 ?s ?a0
      = Inr (e, ?s + of_nat e, ?a0\<lparr>asm_buffer := asm_buffer ?a0 @ bs\<rparr>)"
    using L unfolding loops_to_def by (metis diff_zero)
  let ?a = "?a0\<lparr>asm_buffer := asm_buffer ?a0 @ bs\<rparr>"
  have len: "length (asm_buffer ?a) = n"
    using b(1) by (simp add: SetRealizedAddress_def new_TurboAssembler_def new_AssemblerBase_def)
  obtain a1 where j: "JmpNearIndirect (CurrentIP ?a + 6) ?a = Inr a1"
      "EmitInt64 (?s + of_nat e) a1 = Inr (?a\<lparr>asm_buffer := relocated_code (asm_buffer ?a) (?s + of_nat e)\<rparr>)"
    using jump_back [of ?a "?s + of_nat e"] by (auto split: sum.splits simp: rbind_def)
  have "(ucast (of_nat e :: u64) :: u32) = of_nat e"
    using e by (simp add: unsigned_of_nat take_bit_nat_eq_self)
  then show ?thesis
    using len b(2) j q e by (intro exI [of _ ?a]) (simp add: GenRelocateCodeFixed_def length_relocated_code predefined_small)
qed

lemma code_size_bound: "loops_to over mem p 0 e n \<Longrightarrow> p < 2 ^ 20 \<Longrightarrow> n + 14 < 2 ^ 30 \<and> e < 2 ^ 31"
  by (auto simp: loops_to_def)

lemma fits_iff:
  assumes "n + 14 < 2 ^ 30"
  shows "of_nat (n + 14) > (s :: u64) \<longleftrightarrow> unat s < n + 14"
  using assms by (simp add: word_less_nat_alt unat_of_nat take_bit_nat_eq_self del: of_nat_add)

text \<open>
  C9: when the relocator succeeds, it has relocated whole instructions up to an offset \<open>e\<close> at or less than one
  instruction after the size asked for; what it writes at the relocated chunk fits there and is the relocated
  instructions, \<^verbatim>\<open>jmp [rip+0]\<close>, and the address of the first instruction that was left in place, which is where
  the new length of the origin ends.
\<close>

theorem GenRelocateCodeFixed_shape:
  assumes ok: "GenRelocateCodeFixed over mem origin relocated = Inr (RT_SUCCESS, origin', patch)"
    and small: "unat (raw_instruction_size origin) < 2 ^ 20"
  shows "\<exists>e a. unat (raw_instruction_size origin) \<le> e \<and> e < unat (raw_instruction_size origin) + 20
     \<and> relocate_loop over mem (unat (raw_instruction_size origin)) 0 (raw_instruction_start origin)
         (SetRealizedAddress (raw_instruction_start relocated) (new_TurboAssembler 0))
         = Inr (e, raw_instruction_start origin + of_nat e, a)
     \<and> raw_instruction_start origin' = raw_instruction_start origin \<and> unat (raw_instruction_size origin') = e
     \<and> patch = Some (raw_instruction_start relocated,
                  asm_buffer a @ [0xFF, 0x25, 0, 0, 0, 0] @ le_bytes 8 (raw_instruction_start origin + of_nat e))
     \<and> length (asm_buffer a) + 14 \<le> unat (raw_instruction_size relocated)"
proof -
  let ?p = "unat (raw_instruction_size origin)"
  have "\<nexists>err. \<forall>ip a. relocate_loop over mem ?p 0 ip a = Inl err"
    using ok small by (force simp: GenRelocateCodeFixed_def predefined_small elim!: rbind_InrE)
  then obtain e n where L: "loops_to over mem ?p 0 e n" using loop_uniform by blast
  note B = code_size_bound [OF L small]
  have e: "?p \<le> e" "e < ?p + 20"
    using L by (auto simp: loops_to_def)
  obtain a where a: "\<forall>q. ?p \<le> q \<and> q \<le> e \<longrightarrow> relocate_loop over mem q 0 (raw_instruction_start origin)
        (SetRealizedAddress (raw_instruction_start relocated) (new_TurboAssembler 0))
        = Inr (e, raw_instruction_start origin + of_nat e, a)" "length (asm_buffer a) = n"
      "GenRelocateCodeFixed over mem origin relocated =
        Inr (if of_nat (n + 14) > raw_instruction_size relocated
             then (RT_FAILED, init_region_range (raw_instruction_start origin) (of_nat e), None)
             else (RT_SUCCESS, init_region_range (raw_instruction_start origin) (of_nat e),
                   Some (raw_instruction_start relocated,
                         relocated_code (asm_buffer a) (raw_instruction_start origin + of_nat e))))"
    using fixed_uniform [OF L _ e(1)] B by blast
  then have o: "origin' = init_region_range (raw_instruction_start origin) (of_nat e)"
      "patch = Some (raw_instruction_start relocated, relocated_code (asm_buffer a) (raw_instruction_start origin + of_nat e))"
      "n + 14 \<le> unat (raw_instruction_size relocated)"
    using ok fits_iff [of n "raw_instruction_size relocated"] B by (auto split: if_splits simp del: of_nat_add)
  then show ?thesis
    using a(1,2) e size_init_region [of e] B by (intro exI [of _ e] exI [of _ a])
      (simp add: relocated_code_def start_init_region)
qed

theorem GenRelocateCodeFixed_shape_witness:
  "\<exists>origin' e body. GenRelocateCodeFixed (\<lambda>_. []) ([0x55, 0x48, 0x89, 0xE5, 0x53] @ replicate 20 0x90)
       (init_region_range 0x401000 5) (init_region_range 0x700000 64)
         = Inr (RT_SUCCESS, origin', Some (0x700000, body @ [0xFF, 0x25, 0, 0, 0, 0] @ le_bytes 8 (0x401000 + of_nat e :: u64)))
     \<and> 5 \<le> e \<and> e < 25 \<and> unat (raw_instruction_size origin') = e"
proof -
  let ?r = "GenRelocateCodeFixed (\<lambda>_. []) ([0x55, 0x48, 0x89, 0xE5, 0x53] @ replicate 20 0x90)
       (init_region_range 0x401000 5) (init_region_range 0x700000 64)"
  have "case ?r of Inr (s, p) \<Rightarrow> s = RT_SUCCESS | Inl _ \<Rightarrow> False"
    by code_simp
  then obtain o' patch where r: "?r = Inr (RT_SUCCESS, o', patch)"
    by (auto split: sum.splits prod.splits)
  have *: "unat (raw_instruction_size (init_region_range 0x401000 5)) = 5"
      "raw_instruction_start (init_region_range 0x401000 5) = 0x401000"
      "raw_instruction_start (init_region_range 0x700000 64) = 0x700000"
    by code_simp+
  show ?thesis using GenRelocateCodeFixed_shape [OF r] r unfolding * by auto
qed

definition patch_fits :: "(MemoryChunk \<times> MemoryChunk \<times> arena \<times> (u64 \<times> u8 list) option) result \<Rightarrow> bool" where
  "patch_fits r = (case r of
       Inr (origin', relocated', _, Some (address, code)) \<Rightarrow>
         address = raw_instruction_start relocated' \<and> length code \<le> unat (raw_instruction_size relocated')
     | _ \<Rightarrow> True)"

lemma allocated_length:
  assumes "AllocateCodeChunk pageSize fresh sz ar = (Some c, ar')" and "unat sz < 2 ^ 31"
  shows "unat (raw_instruction_size (init_region_range (range_address c) (ucast (range_length c)))) = unat sz"
proof -
  have len: "take_first s sz ps = Some (c, ps') \<Longrightarrow> range_length c = scast sz" for s ps ps'
    by (induction ps arbitrary: ps') (auto simp: page_take_def init_region_range_def Let_def split: if_splits)
  have "range_length c = scast sz"
    using assms(1) by (auto simp: AllocateCodeChunk_def AllocateChunk_def page_take_def init_region_range_def Let_def
        split: option.splits if_splits dest: len)
  then show ?thesis
    using assms(2) by (simp add: raw_instruction_size_def init_region_range_def scast_small)
qed


text \<open>An attempt: no chunk can be had, or the instructions are relocated to a chunk of the size asked for.\<close>

lemma attempt_cases:
  obtains (none) ar_next where "x64_try_again (Suc fuel) pageSize fresh over mem k sz origin relocated ar
      = Some (Inr (origin, relocated, ar_next, None))"
  | (some) rel ar_next where "x64_try_again (Suc fuel) pageSize fresh over mem k sz origin relocated ar
      = (case GenRelocateCodeFixed over mem origin rel of
           Inl e \<Rightarrow> Some (Inl e)
         | Inr (RT_SUCCESS, origin', patch) \<Rightarrow> Some (Inr (origin', rel, ar_next, patch))
         | Inr (RT_FAILED, origin', patch) \<Rightarrow>
             x64_try_again fuel pageSize fresh over mem (k + 1) (sz + 16) origin' (init_region_range 0 0) ar_next)"
      "raw_instruction_start relocated = 0 \<Longrightarrow> unat sz < 2 ^ 31 \<Longrightarrow> unat (raw_instruction_size rel) = unat sz"
proof (cases "raw_instruction_start relocated = 0")
  case True
  obtain c ar1 where c: "AllocateCodeChunk pageSize (fresh k) sz ar = (c, ar1)" by fastforce
  show thesis
  proof (cases c)
    case None
    then show thesis using none True c by simp
  next
    case (Some d)
    then show thesis
      using some [where rel = "init_region_range (range_address d) (ucast (range_length d))" and ar_next = ar1] True c
        allocated_length [of pageSize "fresh k" sz ar d ar1] by simp
  qed
qed (use some [where rel = relocated and ar_next = ar] in simp)

text \<open>One attempt returns, or it has failed for lack of room and tries again with sixteen bytes more.\<close>

lemma one_attempt:
  assumes L: "loops_to over mem p 0 e n" and p: "p < 2 ^ 20" and sz: "unat sz < 2 ^ 31"
    and o: "p \<le> unat (raw_instruction_size origin)" "unat (raw_instruction_size origin) \<le> e"
  obtains r where "x64_try_again (Suc fuel) pageSize fresh over mem k sz origin relocated ar = Some r" "patch_fits r"
  | o' ar' where "x64_try_again (Suc fuel) pageSize fresh over mem k sz origin relocated ar
      = x64_try_again fuel pageSize fresh over mem (k + 1) (sz + 16) o' (init_region_range 0 0) ar'"
     "unat (raw_instruction_size o') = e" "raw_instruction_start relocated = 0 \<Longrightarrow> unat sz < n + 14"
proof (cases rule: attempt_cases [of fuel pageSize fresh over mem k sz origin relocated ar])
  case none
  then show thesis using that(1) by (simp add: patch_fits_def)
next
  case (some rel ar1)
  note B = code_size_bound [OF L p]
  let ?o = "init_region_range (raw_instruction_start origin) (of_nat e)"
  obtain a :: x64_asm where a: "length (asm_buffer a) = n" and fx: "GenRelocateCodeFixed over mem origin rel =
      Inr (if unat (raw_instruction_size rel) < n + 14 then (RT_FAILED, ?o, None)
           else (RT_SUCCESS, ?o, Some (raw_instruction_start rel,
                       relocated_code (asm_buffer a) (raw_instruction_start origin + of_nat e))))"
    using fixed_uniform [OF L o conjunct2 [OF B], of rel] unfolding fits_iff [OF conjunct1 [OF B]] by blast
  show thesis
  proof (cases "unat (raw_instruction_size rel) < n + 14")
    case True
    have "unat sz < n + 14" if "raw_instruction_start relocated = 0" using some(2) [OF that sz] True by simp
    then show thesis
      using that(2) [where o' = ?o and ar' = ar1] some(1) True fx size_init_region B
      by (simp del: x64_try_again.simps)
  next
    case False
    then show thesis using that(1) some(1) fx a by (simp add: patch_fits_def length_relocated_code)
  qed
qed

lemma failing_attempt:
  assumes "\<And>rel. \<exists>err. GenRelocateCodeFixed over mem origin rel = Inl err"
  shows "\<exists>r. x64_try_again (Suc fuel) pageSize fresh over mem k sz origin relocated ar = Some r \<and> patch_fits r"
proof (cases rule: attempt_cases [of fuel pageSize fresh over mem k sz origin relocated ar])
  case (some rel ar1)
  then show ?thesis using assms [of rel] by (auto simp: patch_fits_def)
qed (simp add: patch_fits_def)

text \<open>What comes back: nothing was patched, or the relocated code of the prologue up to \<open>e\<close>, at the chunk returned.\<close>

definition relocation_result ::
  "overs \<Rightarrow> u8 list \<Rightarrow> nat \<Rightarrow> u64 \<Rightarrow> MemoryChunk \<Rightarrow> MemoryChunk \<Rightarrow> (u64 \<times> u8 list) option \<Rightarrow> bool" where
  "relocation_result over mem p s origin' relocated' patch \<longleftrightarrow> raw_instruction_start origin' = s \<and>
     ((patch = None \<and> raw_instruction_start relocated' = 0) \<or>
     (\<exists>e a. p \<le> e \<and> e < p + 20 \<and> length (asm_buffer a) \<le> 259 * p
        \<and> relocate_loop over mem p 0 s (SetRealizedAddress (raw_instruction_start relocated') (new_TurboAssembler 0))
            = Inr (e, s + of_nat e, a)
        \<and> origin' = init_region_range s (of_nat e) \<and> length (asm_buffer a) + 14 \<le> unat (raw_instruction_size relocated')
        \<and> patch = Some (raw_instruction_start relocated', relocated_code (asm_buffer a) (s + of_nat e))))"

lemma try_again_result:
  assumes L: "loops_to over mem p 0 e n" and p: "p < 2 ^ 20"
  shows "p \<le> unat (raw_instruction_size origin) \<Longrightarrow> unat (raw_instruction_size origin) \<le> e
    \<Longrightarrow> raw_instruction_start origin = s \<Longrightarrow> raw_instruction_start relocated = 0
    \<Longrightarrow> x64_try_again fuel pageSize fresh over mem k sz origin relocated ar = Some (Inr (origin', relocated', ar', patch))
    \<Longrightarrow> relocation_result over mem p s origin' relocated' patch"
proof (induction fuel arbitrary: k sz origin relocated ar)
  case (Suc fuel)
  note B = code_size_bound [OF L p]
  have e: "p \<le> e" "e < p + 20" "n \<le> 259 * p" using L by (auto simp: loops_to_def)
  show ?case
  proof (cases rule: attempt_cases [of fuel pageSize fresh over mem k sz origin relocated ar])
    case none
    then show ?thesis using Suc.prems(3-5) by (simp add: relocation_result_def del: x64_try_again.simps)
  next
    case (some rel ar1)
    obtain a :: x64_asm where a: "\<forall>q. p \<le> q \<and> q \<le> e \<longrightarrow> relocate_loop over mem q 0 s
          (SetRealizedAddress (raw_instruction_start rel) (new_TurboAssembler 0)) = Inr (e, s + of_nat e, a)"
        "length (asm_buffer a) = n" and fx: "GenRelocateCodeFixed over mem origin rel =
        Inr (if unat (raw_instruction_size rel) < n + 14 then (RT_FAILED, init_region_range s (of_nat e), None)
           else (RT_SUCCESS, init_region_range s (of_nat e), Some (raw_instruction_start rel,
                       relocated_code (asm_buffer a) (s + of_nat e))))"
      using fixed_uniform [OF L Suc.prems(1,2) conjunct2 [OF B], of rel] Suc.prems(3)
      unfolding fits_iff [OF conjunct1 [OF B]] by blast
    show ?thesis
    proof (cases "unat (raw_instruction_size rel) < n + 14")
      case True
      then have r: "x64_try_again fuel pageSize fresh over mem (k + 1) (sz + 16) (init_region_range s (of_nat e)) (init_region_range 0 0) ar1
          = Some (Inr (origin', relocated', ar', patch))"
        using some(1) fx Suc.prems(5) by (simp del: x64_try_again.simps)
      then show ?thesis
        using e(1) B by (intro Suc.IH [OF _ _ _ _ r]) (simp_all add: start_init_region size_init_region)
    next
      case False
      then have "origin' = init_region_range s (of_nat e)" "relocated' = rel"
          "patch = Some (raw_instruction_start rel, relocated_code (asm_buffer a) (s + of_nat e))"
        using some(1) fx Suc.prems(5) by (simp_all del: x64_try_again.simps)
      then show ?thesis using a e False by (auto simp: relocation_result_def start_init_region)
    qed
  qed
qed simp

lemma GenRelocateCodeAndBranch_result:
  assumes p: "unat (raw_instruction_size origin) < 2 ^ 20" and "raw_instruction_start relocated = 0"
    and r: "GenRelocateCodeAndBranch fuel pageSize fresh over mem origin relocated ar = Some (Inr (origin', relocated', ar', patch))"
  shows "relocation_result over mem (unat (raw_instruction_size origin)) (raw_instruction_start origin) origin' relocated' patch"
proof -
  let ?p = "unat (raw_instruction_size origin)"
  have r': "x64_try_again fuel pageSize fresh over mem 0 32 origin relocated ar = Some (Inr (origin', relocated', ar', patch))"
    using r by (simp add: GenRelocateCodeAndBranch_def)
  from loop_uniform [of over mem ?p 0] consider
      (err) err where "\<forall>ip a. relocate_loop over mem ?p 0 ip a = Inl err" | (fine) e n where "loops_to over mem ?p 0 e n" by blast
  then show ?thesis
  proof cases
    case err
    then have err': "GenRelocateCodeFixed over mem origin rel = Inl err" for rel
      using p by (simp add: GenRelocateCodeFixed_def predefined_small)
    from r' obtain f where f: "fuel = Suc f" by (cases fuel) auto
    show ?thesis
    proof (cases rule: attempt_cases [of f pageSize fresh over mem 0 32 origin relocated ar])
      case none
      then show ?thesis
        using r' assms(2) by (simp add: f relocation_result_def del: x64_try_again.simps)
    next
      case (some rel ar1)
      then show ?thesis
        using r' err' by (simp add: f del: x64_try_again.simps)
    qed
  next
    case fine
    then have "?p \<le> e" by (simp add: loops_to_def)
    then show ?thesis
      using try_again_result [OF fine p order.refl _ refl assms(2)] r' by blast
  qed
qed

lemma retry_returns:
  assumes L: "loops_to over mem p 0 e n" and p: "p < 2 ^ 20"
  shows "p \<le> unat (raw_instruction_size origin) \<Longrightarrow> unat (raw_instruction_size origin) \<le> e
    \<Longrightarrow> raw_instruction_start relocated = 0 \<Longrightarrow> n + 14 \<le> unat sz + 16 * fuel \<Longrightarrow> unat sz < 2 ^ 31
    \<Longrightarrow> \<exists>r. x64_try_again (Suc fuel) pageSize fresh over mem k sz origin relocated ar = Some r \<and> patch_fits r"
proof (induction fuel arbitrary: k sz origin relocated ar)
  case 0
  show ?case
    by (rule one_attempt [OF L p 0(5,1,2), of 0 pageSize fresh k relocated ar]) (use 0 in auto)
next
  case (Suc fuel)
  show ?case
  proof (rule one_attempt [OF L p Suc.prems(5,1,2), of "Suc fuel" pageSize fresh k relocated ar])
    fix o' ar'
    assume r: "x64_try_again (Suc (Suc fuel)) pageSize fresh over mem k sz origin relocated ar
      = x64_try_again (Suc fuel) pageSize fresh over mem (k + 1) (sz + 16) o' (init_region_range 0 0) ar'"
      and o': "unat (raw_instruction_size o') = e" and lt: "raw_instruction_start relocated = 0 \<Longrightarrow> unat sz < n + 14"
    have "unat sz < n + 14" using lt Suc.prems by simp
    moreover from this have "unat (sz + 16) = unat sz + 16"
      using code_size_bound [OF L p] by (subst unat_add_lem [THEN iffD1]) auto
    ultimately show ?thesis
      unfolding r using Suc.prems o' L code_size_bound [OF L p]
      by (intro Suc.IH) (auto simp: start_init_region loops_to_def)
  qed blast
qed

text \<open>
  C10: relocation with a chunk that grows by sixteen bytes at every failed attempt ends: seventeen attempts for
  every byte of the prologue and three more are enough, whatever the arena and the system give. What is then
  written fits the chunk it is written to.
\<close>

theorem GenRelocateCodeAndBranch_returns:
  assumes p: "unat (raw_instruction_size origin) < 2 ^ 20"
    and fuel: "17 * unat (raw_instruction_size origin) + 3 \<le> fuel"
  shows "\<exists>r. GenRelocateCodeAndBranch fuel pageSize fresh over mem origin relocated ar = Some r
     \<and> (\<forall>origin' relocated' ar' address code. r = Inr (origin', relocated', ar', Some (address, code)) \<longrightarrow>
          address = raw_instruction_start relocated' \<and> length code \<le> unat (raw_instruction_size relocated'))"
proof -
  let ?p = "unat (raw_instruction_size origin)"
  obtain f where f: "fuel = Suc (Suc f)" "17 * ?p + 1 \<le> f" using fuel by (cases fuel; cases "fuel - 1") auto
  have "\<exists>r. x64_try_again fuel pageSize fresh over mem 0 32 origin relocated ar = Some r \<and> patch_fits r"
  proof (cases "\<exists>err. \<forall>ip a. relocate_loop over mem ?p 0 ip a = Inl err")
    case True
    then have "\<exists>err. GenRelocateCodeFixed over mem origin rel = Inl err" for rel
      using p by (auto simp: GenRelocateCodeFixed_def predefined_small)
    then show ?thesis unfolding f(1) by (rule failing_attempt)
  next
    case False
    then obtain e n where L: "loops_to over mem ?p 0 e n" using loop_uniform by blast
    then have e: "?p \<le> e" and n: "n \<le> 259 * ?p" by (auto simp: loops_to_def)
    show ?thesis
      by (rule one_attempt [OF L p _ order.refl e, of 32 "Suc f" pageSize fresh 0 relocated ar])
        (use retry_returns [OF L p, of _ "init_region_range 0 0" 48 f pageSize fresh 1] e n f
          in \<open>auto simp: start_init_region simp del: x64_try_again.simps\<close>)
  qed
  then show ?thesis by (auto simp: patch_fits_def GenRelocateCodeAndBranch_def)
qed

theorem GenRelocateCodeAndBranch_returns_witness:
  "\<exists>r. GenRelocateCodeAndBranch 88 0x1000 (\<lambda>_. 0x500000) (\<lambda>_. []) (replicate 25 0x90)
       (init_region_range 0x401000 5) (init_region_range 0 0) None = Some r"
proof -
  have "unat (raw_instruction_size (init_region_range 0x401000 5)) = 5" by code_simp
  then show ?thesis
    using GenRelocateCodeAndBranch_returns [of "init_region_range 0x401000 5" 88 "0x1000" "\<lambda>_. 0x500000" "\<lambda>_. []"
        "replicate 25 0x90" "init_region_range 0 0" None] by auto
qed

end
