(* ===== verification/X64_Closure.thy ===== *)
theory X64_Closure
  imports X64_Assembler Code_Patch
begin

text \<open>
  The closure trampoline and the closure bridge of x64 (\<^verbatim>\<open>X64AssemblyClosureTrampoline.cc\<close>,
  \<^verbatim>\<open>closure-bridge-x64.cc\<close>, \<^verbatim>\<open>helper-x64.cc\<close>): the code an instrumented address jumps to, which saves the
  registers, calls the common handler with the closure entry, restores the registers and goes on where the
  handler said. \<^verbatim>\<open>ENABLE_CLOSURE_BRIDGE_TEMPLATE\<close> is off, as in the build.
\<close>

section \<open>The bridge\<close>

definition bridge_saved :: "CPURegister list" where
  "bridge_saved = [rax, rbx, rcx, rdx, rbp, rsp, rdi, rsi, r8, r9, r10, r11, r12, r13, r14, r15]"

definition bridge_save :: "x64_op list" where
  "bridge_save =
     [emit_bytes [0x9C], x64_sub rsp (sized_Immediate 8 32), x64_sub rsp (sized_Immediate (16 * 8) 32)]
     @ map (\<lambda>(i, r). x64_mov_mr (Address_base_disp rsp (8 * of_nat i)) r) (enumerate 0 bridge_saved)
     @ [x64_mov_rr rax rsp, x64_add rax (sized_Immediate (8 + 8 + 8 + 16 * 8) 32),
        x64_sub rsp (sized_Immediate (2 * 8) 32), x64_mov_mr (Address_base_disp rsp 8) rax]"

definition bridge_call :: "u64 \<Rightarrow> x64_op list" where
  "bridge_call handler =
     [x64_mov_rr rdi rsp, x64_mov_rm rsi (Address_base_disp rsp (8 + 8 + 16 * 8 + 2 * 8)),
      emit_bytes [0x48, 0x89, 0xE0], emit_bytes [0x48, 0x83, 0xE0, 0x0F], emit_bytes [0x48, 0x83, 0xF8, 0x00],
      emit_bytes [0x75, 0x15],
      CallFunction handler, emit_bytes [0xE9, 0x12, 0x00, 0x00, 0x00],
      emit_bytes [0x50], CallFunction handler, emit_bytes [0x58]]"

definition bridge_restore :: "x64_op list" where
  "bridge_restore =
     [x64_add rsp (sized_Immediate (2 * 8) 32),
      x64_pop rax, x64_pop rbx, x64_pop rcx, x64_pop rdx, x64_pop rbp, x64_add rsp (sized_Immediate 8 32),
      x64_pop rdi, x64_pop rsi, x64_pop r8, x64_pop r9, x64_pop r10, x64_pop r11, x64_pop r12, x64_pop r13,
      x64_pop r14, x64_pop r15,
      x64_add rsp (sized_Immediate 8 32), emit_bytes [0x9D], x64_ret]"

definition closure_bridge_code :: "u64 \<Rightarrow> x64_op" where
  "closure_bridge_code handler = do_all (bridge_save @ bridge_call handler @ bridge_restore @ [RelocBind])"

text \<open>\<open>handler\<close> is the address of \<^verbatim>\<open>intercept_routing_common_bridge_handler\<close>; without memory the null chunk is used unchecked.\<close>

definition get_closure_bridge :: "u64 \<Rightarrow> u64 \<Rightarrow> u64 \<Rightarrow> process \<Rightarrow> (ptr \<times> process) result" where
  "get_closure_bridge pageSize fresh handler st =
     (if pr_closure_bridge st \<noteq> 0 then Inr (pr_closure_bridge st, st)
      else rbind (closure_bridge_code handler (new_TurboAssembler 0)) (\<lambda>a.
           rbind (FinalizeFromTurboAssembler pageSize fresh 0 a st) (\<lambda>(code, _, st').
             case code of
               None \<Rightarrow> Inl BAD_POINTER
             | Some c \<Rightarrow> Inr (raw_instruction_start c, st'\<lparr>pr_closure_bridge := raw_instruction_start c\<rparr>))))"

section \<open>The trampoline\<close>

text \<open>\<^verbatim>\<open>push [rip+6]\<close>; \<^verbatim>\<open>jmp [rip+8]\<close>; the closure entry's address; the bridge's address.\<close>

definition closure_trampoline_code :: "ptr \<Rightarrow> ptr \<Rightarrow> x64_op" where
  "closure_trampoline_code entry bridge =
     do_all [emit_bytes [0xFF, 0x35, 0x06, 0x00, 0x00, 0x00], emit_bytes [0xFF, 0x25, 0x08, 0x00, 0x00, 0x00],
             EmitInt64 entry, EmitInt64 bridge]"

text \<open>\<open>entry\<close> is the address \<^verbatim>\<open>new ClosureTrampolineEntry\<close> returns; the two pages are what the system gives if asked.\<close>

definition CreateClosureTrampoline ::
  "u64 \<Rightarrow> u64 \<Rightarrow> u64 \<Rightarrow> u64 \<Rightarrow> ptr \<Rightarrow> ptr \<Rightarrow> ptr \<Rightarrow> process \<Rightarrow> (ClosureTrampolineEntry \<times> process) result" where
  "CreateClosureTrampoline pageSize bridge_page own_page handler entry data carried st =
     rbind (get_closure_bridge pageSize bridge_page handler st) (\<lambda>(bridge, st1).
     rbind (closure_trampoline_code entry bridge (new_TurboAssembler 0)) (\<lambda>a.
     rbind (FinalizeFromTurboAssembler pageSize own_page 0 a st1) (\<lambda>(code, _, st2).
       case code of
         None \<Rightarrow> Inl BAD_POINTER
       | Some c \<Rightarrow>
           (let cte = \<lparr>carry_handler = carried, carry_data = data, cte_address = raw_instruction_start c,
                       cte_size = raw_instruction_size c\<rparr>
            in Inr (cte, st2\<lparr>pr_closures := (pr_closures st2)(entry \<mapsto> cte)\<rparr>)))))"

section \<open>The handler side\<close>

text \<open>\<^verbatim>\<open>RegisterContext\<close> lies on the stack; its \<^verbatim>\<open>rsp\<close> is the word at offset 8. \<open>mem\<close> reads the stack by words.\<close>

definition ctx_rsp :: "(u64 \<Rightarrow> u64) \<Rightarrow> u64 \<Rightarrow> u64" where
  "ctx_rsp mem ctx = mem (ctx + 8)"

definition set_routing_bridge_next_hop :: "u64 \<Rightarrow> ptr \<Rightarrow> (u64 \<Rightarrow> u64) \<Rightarrow> u64 \<Rightarrow> u64" where
  "set_routing_bridge_next_hop ctx address mem =
     (let rsp = ctx_rsp mem ctx; entry_placeholder_stack_addr = rsp - 8
      in mem(entry_placeholder_stack_addr := address))"

end
