(* ===== verification/Intercept_Routing.thy ===== *)
theory Intercept_Routing
  imports Code_Patch
begin

text \<open>
  Installing and removing hooks, as far as it does not depend on the processor: \<^verbatim>\<open>InterceptRouting.cpp\<close>, the
  routings \<^verbatim>\<open>FunctionInlineReplace\<close> and \<^verbatim>\<open>DynamicBinaryInstrument\<close>, and the exported \<^verbatim>\<open>DobbyHook\<close>, \<^verbatim>\<open>DobbyInstrument\<close> and
  \<^verbatim>\<open>DobbyDestroy\<close>. The functions that the build takes from the directory of the target processor are the fields
  of a \<open>backend\<close>; the interface \<open>hook_backend\<close> says what the routing relies on. What the system and \<^verbatim>\<open>new\<close> give to
  one call of the library is its \<open>hook_env\<close>.
\<close>

record hook_env = near_env +
  env_fresh :: "nat \<Rightarrow> u64"
  env_bridge_page :: u64
  env_closure_page :: u64
  env_bridge_handler :: ptr
  env_new_interceptor :: ptr
  env_new_entry :: ptr
  env_new_route :: ptr
  env_new_node :: ptr
  env_new_closure :: ptr
  env_fuel :: nat

definition near_part :: "'e hook_env_scheme \<Rightarrow> near_env" where
  "near_part env = near_env.truncate env"

text \<open>
  \<^verbatim>\<open>GenerateNormalTrampolineBuffer\<close>, \<^verbatim>\<open>GenerateNearTrampolineBuffer\<close> (called through the near branch plugin),
  \<^verbatim>\<open>GenRelocateCodeAndBranch\<close> on the memory at the target, and \<^verbatim>\<open>CreateClosureTrampoline\<close>.
\<close>

record 'e backend =
  be_normal :: "'e hook_env_scheme \<Rightarrow> u64 \<Rightarrow> u64 \<Rightarrow> process \<Rightarrow> (u8 list \<times> process) result option"
  be_near :: "'e hook_env_scheme \<Rightarrow> u64 \<Rightarrow> u64 \<Rightarrow> process \<Rightarrow> (u8 list option \<times> process) result option"
  be_relocate :: "'e hook_env_scheme \<Rightarrow> u8 list \<Rightarrow> MemoryChunk \<Rightarrow> MemoryChunk \<Rightarrow> process
     \<Rightarrow> (MemoryChunk \<times> MemoryChunk \<times> process) result option"
  be_closure :: "'e hook_env_scheme \<Rightarrow> ptr \<Rightarrow> ptr \<Rightarrow> process \<Rightarrow> (ClosureTrampolineEntry \<times> process) result option"

section \<open>InterceptRouting\<close>

definition new_HookEntry :: HookEntry where
  "new_HookEntry = \<lparr>he_id = 0, he_type = kFunctionWrapper, target_address = 0, he_route = 0, relocated_origin_instructions = 0,
     origin_chunk = \<lparr>range_address = 0, range_length = 0\<rparr>, chunk_buffer = replicate 64 0\<rparr>"

definition new_InterceptRouting :: "ptr \<Rightarrow> HookEntry \<Rightarrow> ptr \<Rightarrow> routing" where
  "new_InterceptRouting this entry handler =
     \<lparr>rt_entry = entry\<lparr>he_route := this\<rparr>, rt_origin = init_region_range 0 0, rt_relocated = init_region_range 0 0,
      rt_trampoline_buffer = None, rt_trampoline_target = 0, rt_handler = handler\<rparr>"

definition GenerateTrampolineBuffer ::
  "'e backend \<Rightarrow> 'e hook_env_scheme \<Rightarrow> u64 \<Rightarrow> u64 \<Rightarrow> routing \<Rightarrow> process \<Rightarrow> (routing \<times> process) result option" where
  "GenerateTrampolineBuffer be env src dst rt st =
     robind (if pr_near_branch_plugin st
             then robind (be_near be env src dst st) (\<lambda>(b, st').
                    Some (Inr (case b of None \<Rightarrow> rt | Some b \<Rightarrow> rt\<lparr>rt_trampoline_buffer := Some b\<rparr>, st')))
             else Some (Inr (rt, st))) (\<lambda>(rt1, st1).
       if rt_trampoline_buffer rt1 = None
       then robind (be_normal be env src dst st1) (\<lambda>(b, st').
              Some (Inr (rt1\<lparr>rt_trampoline_buffer := Some b\<rparr>, st')))
       else Some (Inr (rt1, st1)))"

text \<open>
  The relocator reads the instructions in place; the window of \<open>relocate_window\<close> bytes after the prologue is
  more than it can reach.
\<close>

definition relocate_window :: nat where
  "relocate_window = 64"

definition save_prologue :: "MemoryChunk \<Rightarrow> MemoryChunk \<Rightarrow> (u64 \<Rightarrow> u8) \<Rightarrow> HookEntry \<Rightarrow> HookEntry result" where
  "save_prologue origin relocated m e =
     (if unat (raw_instruction_size origin) \<le> length (chunk_buffer e)
      then Inr (e\<lparr>relocated_origin_instructions := raw_instruction_start relocated,
                  chunk_buffer := load_mem m (raw_instruction_start origin) (unat (raw_instruction_size origin))
                                  @ drop (unat (raw_instruction_size origin)) (chunk_buffer e),
                  origin_chunk := init_region_range (range_address origin) (ucast (range_length origin))\<rparr>)
      else Inl OVERWRITE)"

definition GenerateRelocatedCode ::
  "'e backend \<Rightarrow> 'e hook_env_scheme \<Rightarrow> routing \<Rightarrow> process \<Rightarrow> (routing \<times> process) result option" where
  "GenerateRelocatedCode be env rt st =
     (case rt_trampoline_buffer rt of
        None \<Rightarrow> Some (Inl BAD_POINTER)
      | Some tb \<Rightarrow>
          (let origin = FinalizeFromAddress (target_address (rt_entry rt)) (of_nat (length tb));
               relocated = FinalizeFromAddress 0 0;
               buffer = load_mem (pr_mem st) (target_address (rt_entry rt)) (length tb + relocate_window)
           in robind (be_relocate be env buffer origin relocated st) (\<lambda>(origin', relocated', st1).
                let rt1 = rt\<lparr>rt_origin := origin', rt_relocated := relocated'\<rparr>
                in if raw_instruction_start relocated' = 0 then Some (Inr (rt1, st1))
                   else Some (rbind (save_prologue origin' relocated' (pr_mem st1) (rt_entry rt1)) (\<lambda>e.
                               Inr (rt1\<lparr>rt_entry := e\<rparr>, st1))))))"

definition Active :: "u64 \<Rightarrow> routing \<Rightarrow> process \<Rightarrow> process result" where
  "Active pageSize rt st =
     (case rt_trampoline_buffer rt of
        None \<Rightarrow> Inl BAD_POINTER
      | Some tb \<Rightarrow> CodePatch pageSize (raw_instruction_start (rt_origin rt)) tb st)"

definition Commit :: "u64 \<Rightarrow> routing \<Rightarrow> process \<Rightarrow> process result" where
  "Commit pageSize rt st = Active pageSize rt st"

section \<open>The routings\<close>

definition BuildReplaceRouting :: "'e backend \<Rightarrow> 'e hook_env_scheme \<Rightarrow> routing \<Rightarrow> process \<Rightarrow> (routing \<times> process) result option" where
  "BuildReplaceRouting be env rt st =
     (let rt1 = rt\<lparr>rt_trampoline_target := rt_handler rt\<rparr>
      in robind (GenerateTrampolineBuffer be env (target_address (rt_entry rt1)) (rt_trampoline_target rt1) rt1 st)
           (\<lambda>(rt2, st2). GenerateRelocatedCode be env rt2 st2))"

text \<open>\<open>dispatch\<close> is the address of \<^verbatim>\<open>instrument_routing_dispatch\<close>; the closure carries the address of the entry.\<close>

definition BuildDynamicBinaryInstrumentRouting ::
  "'e backend \<Rightarrow> 'e hook_env_scheme \<Rightarrow> ptr \<Rightarrow> routing \<Rightarrow> process \<Rightarrow> (routing \<times> process) result option" where
  "BuildDynamicBinaryInstrumentRouting be env dispatch rt st =
     robind (be_closure be env (env_new_entry env) dispatch st) (\<lambda>(cte, st1).
       let rt1 = rt\<lparr>rt_trampoline_target := cte_address cte\<rparr>
       in robind (GenerateTrampolineBuffer be env (target_address (rt_entry rt1)) (rt_trampoline_target rt1) rt1 st1)
            (\<lambda>(rt2, st2). GenerateRelocatedCode be env rt2 st2))"

section \<open>The exported operations\<close>

definition shared :: "'e hook_env_scheme \<Rightarrow> process \<Rightarrow> process" where
  "shared env st = st\<lparr>pr_interceptor := SharedInstance (env_new_interceptor env) (pr_interceptor st)\<rparr>"

text \<open>
  The hook entry has been dispatched: it is filed in the table, the routing is stored where the entry points,
  and the patch is committed.
\<close>

definition file_and_commit :: "'e hook_env_scheme \<Rightarrow> routing \<Rightarrow> process \<Rightarrow> process result" where
  "file_and_commit env rt st =
     rbind (AddHookEntry (env_new_node env) (rt_entry rt) (pr_interceptor st)) (\<lambda>it.
       Commit (env_page_size env) rt (st\<lparr>pr_interceptor := it, pr_routes := (pr_routes st)(env_new_route env \<mapsto> rt)\<rparr>))"

text \<open>The result: the status and what \<^verbatim>\<open>*origin_call\<close> has been set to, if it has.\<close>

definition DobbyHook ::
  "'e backend \<Rightarrow> 'e hook_env_scheme \<Rightarrow> ptr \<Rightarrow> ptr \<Rightarrow> process \<Rightarrow> (RetStatus \<times> ptr option \<times> process) result option" where
  "DobbyHook be env address replace_call st =
     (if address = 0 then Some (Inr (RT_FAILED, None, st))
      else
        (let st1 = shared env st
         in robind (FindHookEntry address (pr_interceptor st1)) (\<lambda>found.
              let already = (case found of
                               None \<Rightarrow> Inr False
                             | Some e \<Rightarrow> (case pr_routes st1 (he_route e) of
                                            None \<Rightarrow> Inl BAD_POINTER
                                          | Some r \<Rightarrow> Inr (rt_trampoline_target r = replace_call)))
              in robind (Some already) (\<lambda>al.
                   if al then Some (Inr (RT_FAILED, None, st1))
                   else
                     robind (GetHookEntryCount (pr_interceptor st1)) (\<lambda>n.
                       let entry = new_HookEntry\<lparr>he_id := n, he_type := kFunctionInlineHook, target_address := address\<rparr>
                       in robind (BuildReplaceRouting be env (new_InterceptRouting (env_new_route env) entry replace_call) st1)
                            (\<lambda>(rt, st2). Some (rbind (file_and_commit env rt st2) (\<lambda>st3.
                                 Inr (RT_SUCCESS, Some (relocated_origin_instructions (rt_entry rt)), st3)))))))))"

definition DobbyInstrument ::
  "'e backend \<Rightarrow> 'e hook_env_scheme \<Rightarrow> ptr \<Rightarrow> ptr \<Rightarrow> ptr \<Rightarrow> process \<Rightarrow> (RetStatus \<times> process) result option" where
  "DobbyInstrument be env dispatch address handler st =
     (if address = 0 then Some (Inr (RT_FAILED, st))
      else
        (let st1 = shared env st
         in robind (FindHookEntry address (pr_interceptor st1)) (\<lambda>found.
              let already = (case found of
                               None \<Rightarrow> Inr False
                             | Some e \<Rightarrow> (case pr_routes st1 (he_route e) of
                                            None \<Rightarrow> Inl BAD_POINTER
                                          | Some r \<Rightarrow> Inr (rt_handler r = handler)))
              in robind (Some already) (\<lambda>al.
                   if al then Some (Inr (RT_FAILED, st1))
                   else
                     robind (GetHookEntryCount (pr_interceptor st1)) (\<lambda>n.
                       let entry = new_HookEntry\<lparr>he_id := n, he_type := kDynamicBinaryInstrument, target_address := address\<rparr>
                       in robind (BuildDynamicBinaryInstrumentRouting be env dispatch
                                    (new_InterceptRouting (env_new_route env) entry handler) st1)
                            (\<lambda>(rt, st2). Some (rbind (file_and_commit env rt st2) (\<lambda>st3. Inr (RT_SUCCESS, st3)))))))))"

text \<open>
  \<open>arm\<close> for the 32-bit ARM target, where the address is decremented before the patch and the removal.
\<close>

definition DobbyDestroy :: "bool \<Rightarrow> 'e hook_env_scheme \<Rightarrow> ptr \<Rightarrow> process \<Rightarrow> (RetStatus \<times> process) result option" where
  "DobbyDestroy arm env address st =
     (let st1 = shared env st
      in robind (FindHookEntry address (pr_interceptor st1)) (\<lambda>found.
           case found of
             None \<Rightarrow> Some (Inr (RT_FAILED, st1))
           | Some e \<Rightarrow>
               (let buffer_size = unat (ucast (range_length (origin_chunk e)) :: u32);
                    address' = (if arm then address - 1 else address)
                in if buffer_size \<le> length (chunk_buffer e)
                   then robind (Some (CodePatch (env_page_size env) address' (take buffer_size (chunk_buffer e)) st1)) (\<lambda>st2.
                        robind (RemoveHookEntry address' (pr_interceptor st2)) (\<lambda>it.
                          Some (Inr (RT_SUCCESS, st2\<lparr>pr_interceptor := it\<rparr>))))
                   else Some (Inl OVERREAD))))"

section \<open>What a hook does, for any back end\<close>

definition trampoline_made ::
  "'e backend \<Rightarrow> 'e hook_env_scheme \<Rightarrow> u64 \<Rightarrow> u64 \<Rightarrow> process \<Rightarrow> u8 list \<Rightarrow> process \<Rightarrow> bool" where
  "trampoline_made be env src dst st tb st1 \<longleftrightarrow>
     (if pr_near_branch_plugin st
      then be_near be env src dst st = Some (Inr (Some tb, st1))
         \<or> (\<exists>st0. be_near be env src dst st = Some (Inr (None, st0)) \<and> be_normal be env src dst st0 = Some (Inr (tb, st1)))
      else be_normal be env src dst st = Some (Inr (tb, st1)))"

definition prologue_lost :: "HookEntry \<Rightarrow> bool" where
  "prologue_lost en \<longleftrightarrow> relocated_origin_instructions en = 0 \<and> range_length (origin_chunk en) = 0 \<and> length (chunk_buffer en) = 64"

text \<open>The prologue of \<open>address\<close>, \<open>e\<close> bytes of the memory \<open>m\<close>, is kept in the entry, which points to the relocated code.\<close>

definition prologue_saved :: "u64 \<Rightarrow> nat \<Rightarrow> (u64 \<Rightarrow> u8) \<Rightarrow> HookEntry \<Rightarrow> bool" where
  "prologue_saved address e m en \<longleftrightarrow> relocated_origin_instructions en \<noteq> 0 \<and> e \<le> 64
     \<and> chunk_buffer en = load_mem m address e @ replicate (64 - e) 0 \<and> unat (ucast (range_length (origin_chunk en)) :: u32) = e"

text \<open>\<open>place\<close> gives the address of the first instruction of a function from the address it is called at.\<close>

locale hook_backend =
  fixes be :: "'e backend" and place :: "u64 \<Rightarrow> u64"
  assumes normal_law: "be_normal be env src dst st = Some (Inr (tb, st1)) \<Longrightarrow> pr_interceptor st1 = pr_interceptor st \<and> length tb \<le> 64"
    and near_law: "be_near be env src dst st = Some (Inr (b, st1)) \<Longrightarrow>
      pr_interceptor st1 = pr_interceptor st \<and> (\<forall>tb. b = Some tb \<longrightarrow> length tb \<le> 64)"
    and relocate_law: "be_relocate be env buf origin relocated st = Some (Inr (origin', relocated', st1))
      \<Longrightarrow> unat (raw_instruction_size origin) \<le> 64 \<Longrightarrow> raw_instruction_start relocated = 0
      \<Longrightarrow> pr_interceptor st1 = pr_interceptor st \<and> raw_instruction_start origin' = place (raw_instruction_start origin)"
begin

lemma trampoline_frame:
  assumes "trampoline_made be env src dst st tb st1"
  shows "pr_interceptor st1 = pr_interceptor st \<and> length tb \<le> 64"
  using assms normal_law near_law by (auto simp: trampoline_made_def split: if_splits)

lemma trampoline_generated:
  assumes "GenerateTrampolineBuffer be env src dst rt st = Some (Inr (rt1, st1))" and "rt_trampoline_buffer rt = None"
  obtains tb where "trampoline_made be env src dst st tb st1" "rt1 = rt\<lparr>rt_trampoline_buffer := Some tb\<rparr>"
  using assms by (force simp: GenerateTrampolineBuffer_def trampoline_made_def split: if_splits option.splits elim!: robind_SomeE)

lemma relocated_generated:
  assumes g: "GenerateRelocatedCode be env rt st1 = Some (Inr (rt', st2))" and tb: "rt_trampoline_buffer rt = Some tb" "length tb \<le> 64"
    and b: "chunk_buffer (rt_entry rt) = replicate 64 0" "prologue_lost (rt_entry rt)"
  obtains origin' relocated' where
    "be_relocate be env (load_mem (pr_mem st1) (target_address (rt_entry rt)) (length tb + relocate_window))
       (init_region_range (target_address (rt_entry rt)) (of_nat (length tb))) (init_region_range 0 0) st1 = Some (Inr (origin', relocated', st2))"
    "pr_interceptor st2 = pr_interceptor st1" "rt_trampoline_buffer rt' = Some tb"
    "raw_instruction_start (rt_origin rt') = place (target_address (rt_entry rt))" "target_address (rt_entry rt') = target_address (rt_entry rt)"
    "if raw_instruction_start relocated' = 0 then rt_entry rt' = rt_entry rt
     else prologue_saved (place (target_address (rt_entry rt))) (unat (raw_instruction_size origin')) (pr_mem st2) (rt_entry rt')
        \<and> relocated_origin_instructions (rt_entry rt') = raw_instruction_start relocated'"
proof -
  let ?s = "target_address (rt_entry rt)"
  obtain origin' relocated' st where r: "be_relocate be env (load_mem (pr_mem st1) ?s (length tb + relocate_window))
       (init_region_range ?s (of_nat (length tb))) (init_region_range 0 0) st1 = Some (Inr (origin', relocated', st))"
    using g tb by (fastforce simp: GenerateRelocatedCode_def FinalizeFromAddress_def Let_def elim!: robind_SomeE)
  have "unat (raw_instruction_size (init_region_range ?s (of_nat (length tb)))) \<le> 64"
    using tb(2) size_init_region [of "length tb" ?s] by simp
  then have f: "pr_interceptor st = pr_interceptor st1" "raw_instruction_start origin' = place ?s"
    using relocate_law [OF r] by (simp_all add: start_init_region)
  show thesis
  proof (cases "raw_instruction_start relocated' = 0")
    case True
    then show ?thesis using g tb r f that [of origin' relocated']
      by (auto simp: GenerateRelocatedCode_def FinalizeFromAddress_def Let_def)
  next
    case False
    then obtain en where e: "save_prologue origin' relocated' (pr_mem st) (rt_entry rt) = Inr en"
        "rt' = rt\<lparr>rt_origin := origin', rt_relocated := relocated', rt_entry := en\<rparr>" "st2 = st"
      using g tb r by (auto simp: GenerateRelocatedCode_def FinalizeFromAddress_def Let_def rbind_Inr_iff)
    have sz: "unat (raw_instruction_size origin') \<le> 64" using e(1) b(1) by (auto simp: save_prologue_def split: if_splits)
    have "unat (ucast (scast (ucast (range_length origin') :: u32) :: u64) :: u32) = unat (raw_instruction_size origin')"
      using sz by (simp add: raw_instruction_size_def unsigned_ucast_eq take_bit_nat_eq_self ucast_scast_u32)
    then show ?thesis using False e r f b sz tb that [of origin' relocated']
      by (auto simp: save_prologue_def prologue_saved_def init_region_range_def split: if_splits)
  qed
qed

lemma hook_effect:
  assumes h: "DobbyHook be env address repl st = Some (Inr (RT_SUCCESS, oc, st'))"
    and t: "table_repr (SharedInstance (env_new_interceptor env) (pr_interceptor st)) es"
    and u: "node_unused (SharedInstance (env_new_interceptor env) (pr_interceptor st)) (env_new_node env)"
  obtains tb st1 origin' relocated' st2 en where
    "trampoline_made be env address repl (shared env st) tb st1" "length tb \<le> 64"
    "be_relocate be env (load_mem (pr_mem st1) address (length tb + relocate_window))
       (init_region_range address (of_nat (length tb))) (init_region_range 0 0) st1 = Some (Inr (origin', relocated', st2))"
    "relocated_origin_instructions en = raw_instruction_start relocated'"
    "if raw_instruction_start relocated' = 0 then prologue_lost en
     else prologue_saved (place address) (unat (raw_instruction_size origin')) (pr_mem st2) en"
    "oc = Some (relocated_origin_instructions en)" "target_address en = address" "table_repr (pr_interceptor st') (en # es)"
    "pr_mem st' = write_mem (place address) tb (pr_mem st2)"
proof -
  let ?st = "shared env st"
  let ?rt = "\<lambda>n. new_InterceptRouting (env_new_route env) (new_HookEntry\<lparr>he_id := n, he_type := kFunctionInlineHook,
     target_address := address\<rparr>) repl"
  obtain n rt st2 where b: "BuildReplaceRouting be env (?rt n) ?st = Some (Inr (rt, st2))"
      and c: "file_and_commit env rt st2 = Inr st'" and oc: "oc = Some (relocated_origin_instructions (rt_entry rt))"
    using h by (auto simp: DobbyHook_def Let_def rbind_Inr_iff split: if_splits elim!: robind_SomeE)
  let ?rt1 = "?rt n\<lparr>rt_trampoline_target := repl\<rparr>"
  obtain rt1 st1 where g: "GenerateTrampolineBuffer be env address repl ?rt1 ?st = Some (Inr (rt1, st1))"
      and r: "GenerateRelocatedCode be env rt1 st1 = Some (Inr (rt, st2))"
    using b by (auto simp: BuildReplaceRouting_def Let_def new_InterceptRouting_def elim!: robind_SomeE)
  obtain tb where tb: "trampoline_made be env address repl ?st tb st1" "rt1 = ?rt1\<lparr>rt_trampoline_buffer := Some tb\<rparr>"
    using trampoline_generated [OF g] by (auto simp: new_InterceptRouting_def)
  note fr = trampoline_frame [OF tb(1)]
  have e: "rt_trampoline_buffer rt1 = Some tb" "chunk_buffer (rt_entry rt1) = replicate 64 0" "prologue_lost (rt_entry rt1)"
      "target_address (rt_entry rt1) = address"
    by (simp_all add: tb(2) new_InterceptRouting_def new_HookEntry_def prologue_lost_def)
  obtain origin' relocated' where R: "be_relocate be env (load_mem (pr_mem st1) address (length tb + relocate_window))
       (init_region_range address (of_nat (length tb))) (init_region_range 0 0) st1 = Some (Inr (origin', relocated', st2))"
      "pr_interceptor st2 = pr_interceptor st1" "rt_trampoline_buffer rt = Some tb" "raw_instruction_start (rt_origin rt) = place address"
      "target_address (rt_entry rt) = address"
      "if raw_instruction_start relocated' = 0 then rt_entry rt = rt_entry rt1
       else prologue_saved (place address) (unat (raw_instruction_size origin')) (pr_mem st2) (rt_entry rt)
          \<and> relocated_origin_instructions (rt_entry rt) = raw_instruction_start relocated'"
    by (rule relocated_generated [OF r e(1) conjunct2 [OF fr] e(2,3), unfolded e(4)])
  have "table_repr (pr_interceptor st2) es" "node_unused (pr_interceptor st2) (env_new_node env)"
    using t u fr R(2) by (simp_all add: shared_def)
  from itc.add_law [OF this, of "rt_entry rt"] obtain it where
    it: "AddHookEntry (env_new_node env) (rt_entry rt) (pr_interceptor st2) = Inr it" "table_repr it (rt_entry rt # es)" by blast
  have "pr_interceptor st' = it \<and> pr_mem st' = write_mem (place address) tb (pr_mem st2)"
    using c it(1) R(3,4) fr by (auto simp: file_and_commit_def Commit_def Active_def CodePatch_eq split: if_splits)
  then show thesis
    using that [OF tb(1) conjunct2 [OF fr] R(1), of "rt_entry rt"] oc R(5,6) it(2) e(3) by (auto simp: prologue_lost_def split: if_splits)
qed

end

section \<open>Removing a hook\<close>

lemma shared_of_table: "table_repr (pr_interceptor st) es \<Longrightarrow> shared env st = st"
  by (simp add: shared_def SharedInstance_def table_repr_def)

lemma DobbyDestroy_found:
  assumes t: "table_repr (pr_interceptor st) es" and f: "List.find (\<lambda>e. target_address e = address) es = Some en"
    and sz: "unat (ucast (range_length (origin_chunk en)) :: u32) = e" "e \<le> length (chunk_buffer en)"
    and a: "a = (if arm then address - 1 else address)" and pg: "env_page_size env = 2 ^ p" "p < 63" "unat a mod 2 ^ p + e \<le> 2 ^ p"
  shows "\<exists>st''. DobbyDestroy arm env address st = Some (Inr (RT_SUCCESS, st''))
     \<and> table_repr (pr_interceptor st'') (drop_first (\<lambda>e. target_address e = a) es) \<and> pr_mem st'' = write_mem a (take e (chunk_buffer en)) (pr_mem st)"
proof -
  let ?buf = "take e (chunk_buffer en)"
  obtain st2 where c: "CodePatch (env_page_size env) a ?buf st = Inr st2" "pr_mem st2 = write_mem a ?buf (pr_mem st)"
      "pr_interceptor st2 = pr_interceptor st"
    using CodePatch_in_page [of p a ?buf st] pg sz(2) by simp
  obtain it where it: "RemoveHookEntry a (pr_interceptor st) = Some (Inr it)" "table_repr it (drop_first (\<lambda>e. target_address e = a) es)"
    using itc.remove_law [OF t, of a] by auto
  have "FindHookEntry address (pr_interceptor st) = Some (Inr (Some en))" using itc.find_law [OF t, of address] f by simp
  then show ?thesis
    using c it sz by (simp add: DobbyDestroy_def shared_of_table [OF t] a [symmetric] Let_def)
qed

lemma DobbyDestroy_newest:
  assumes t: "table_repr (pr_interceptor st) (en # es)" and ad: "target_address en = address"
    and sz: "unat (ucast (range_length (origin_chunk en)) :: u32) = e" "e \<le> length (chunk_buffer en)"
    and pg: "env_page_size env = 2 ^ p" "p < 63" "unat address mod 2 ^ p + e \<le> 2 ^ p"
  shows "\<exists>st''. DobbyDestroy False env address st = Some (Inr (RT_SUCCESS, st''))
     \<and> table_repr (pr_interceptor st'') es \<and> pr_mem st'' = write_mem address (take e (chunk_buffer en)) (pr_mem st)"
  using DobbyDestroy_found [OF t _ sz _ pg, of address False] ad by auto

lemma DobbyDestroy_saved:
  assumes "table_repr (pr_interceptor st) (en # es)" and "target_address en = address" and s: "prologue_saved address e m en"
    and pg: "env_page_size env = 2 ^ p" "p < 63" "unat address mod 2 ^ p + e \<le> 2 ^ p"
  obtains st'' where "DobbyDestroy False env address st = Some (Inr (RT_SUCCESS, st''))" "table_repr (pr_interceptor st'') es"
    "load_mem (pr_mem st'') address e = load_mem m address e" "\<And>x. e \<le> unat (x - address) \<Longrightarrow> pr_mem st'' x = pr_mem st x"
proof -
  have "e \<le> length (chunk_buffer en)" using s by (simp add: prologue_saved_def)
  then obtain st'' where D: "DobbyDestroy False env address st = Some (Inr (RT_SUCCESS, st''))" "table_repr (pr_interceptor st'') es"
      "pr_mem st'' = write_mem address (take e (chunk_buffer en)) (pr_mem st)"
    using DobbyDestroy_newest [OF assms(1,2) _ _ pg] s by (auto simp: prologue_saved_def)
  have t: "take e (chunk_buffer en) = load_mem m address e" "e \<le> 64" using s by (auto simp: prologue_saved_def)
  then have "load_mem (pr_mem st'') address e = load_mem m address e"
    using load_written [of "load_mem m address e" 0 e address "pr_mem st"] by (simp add: D(3))
  then show thesis using that D t by (simp add: write_mem_def)
qed

end
