(* ===== verification/X64_Hook.thy ===== *)
theory X64_Hook
  imports X86_Relocation X64_Closure Intercept_Routing
begin

text \<open>
  The x64 back end of the routing: the trampoline of \<^verbatim>\<open>trampoline-x64.cc\<close>, the relocator and the closure
  trampoline. \<open>env_over\<close> is the memory behind the decoder's instruction records.
\<close>

record x64_env = hook_env +
  env_over :: overs

section \<open>Trampolines\<close>

definition AllocIndirectStub :: "x64_env \<Rightarrow> u64 \<Rightarrow> process \<Rightarrow> (ptr \<times> process) result option" where
  "AllocIndirectStub env branch_address st =
     robind (Near_AllocateDataChunk (env_fuel env) (near_part env) branch_address (2 * 1024 * 1024 * 1024) 8 (pr_near st))
       (\<lambda>(c, near'). Some (Inr (case c of None \<Rightarrow> 0 | Some c \<Rightarrow> range_address c, with_near near' st)))"

text \<open>The stub is written through the pointer without a test for null.\<close>

definition GenerateNormalTrampolineBuffer ::
  "x64_env \<Rightarrow> u64 \<Rightarrow> u64 \<Rightarrow> process \<Rightarrow> (u8 list \<times> process) result option" where
  "GenerateNormalTrampolineBuffer env from to st =
     robind (AllocIndirectStub env from st) (\<lambda>(branch_stub, st1).
       if branch_stub = 0 then Some (Inl BAD_POINTER)
       else Some (rbind (store_mem (env_page_size env) (pr_writable st1) branch_stub (le_bytes 8 to) (pr_mem st1)) (\<lambda>m.
                  rbind (JmpNearIndirect branch_stub (new_TurboAssembler from)) (\<lambda>a.
                    Inr (asm_buffer a, st1\<lparr>pr_mem := m\<rparr>)))))"

definition GenerateNearTrampolineBuffer :: "u64 \<Rightarrow> u64 \<Rightarrow> u8 list option" where
  "GenerateNearTrampolineBuffer src dst = None"

text \<open>What the relocator wants written goes through \<^verbatim>\<open>CodePatch\<close>.\<close>

definition apply_patch :: "u64 \<Rightarrow> (u64 \<times> u8 list) option \<Rightarrow> process \<Rightarrow> process result" where
  "apply_patch pageSize patch st = (case patch of None \<Rightarrow> Inr st | Some (a, code) \<Rightarrow> CodePatch pageSize a code st)"

definition x64_relocate ::
  "x64_env \<Rightarrow> u8 list \<Rightarrow> MemoryChunk \<Rightarrow> MemoryChunk \<Rightarrow> process \<Rightarrow> (MemoryChunk \<times> MemoryChunk \<times> process) result option" where
  "x64_relocate env buffer origin relocated st =
     robind (GenRelocateCodeAndBranch (env_fuel env) (env_page_size env) (env_fresh env) (env_over env) buffer
               origin relocated (pr_arena st)) (\<lambda>(origin', relocated', ar, patch).
       Some (rbind (apply_patch (env_page_size env) patch (with_arena ar st)) (\<lambda>st1. Inr (origin', relocated', st1))))"

definition x64_closure :: "x64_env \<Rightarrow> ptr \<Rightarrow> ptr \<Rightarrow> process \<Rightarrow> (ClosureTrampolineEntry \<times> process) result option" where
  "x64_closure env data handler st =
     Some (CreateClosureTrampoline (env_page_size env) (env_bridge_page env) (env_closure_page env)
             (env_bridge_handler env) (env_new_closure env) data handler st)"

definition x64_backend :: "\<lparr>env_over :: overs\<rparr> backend" where
  "x64_backend = \<lparr>be_normal = GenerateNormalTrampolineBuffer,
     be_near = (\<lambda>env src dst st. Some (Inr (GenerateNearTrampolineBuffer src dst, st))),
     be_relocate = x64_relocate, be_closure = x64_closure\<rparr>"

end
