(* ===== verification/X64_Hook_Correct.thy ===== *)
theory X64_Hook_Correct
  imports X64_Hook X86_Relocation_Correct
begin

text \<open>
  What \<^verbatim>\<open>DobbyHook\<close> and \<^verbatim>\<open>DobbyDestroy\<close> do to the process: the hooked address jumps to the replacement, the
  original instructions can still be called, and removing the hook puts the prologue back.
\<close>

section \<open>Effects of the steps\<close>

definition jump_stub :: "u64 \<Rightarrow> u64 \<Rightarrow> u8 list" where
  "jump_stub from stub = [0xFF, 0x25] @ le_bytes 4 (ucast (stub - (from + 6)) :: u32)"

lemma length_jump_stub [simp]: "length (jump_stub from stub) = 6"
  by (simp add: jump_stub_def)

lemma trampoline_effect:
  assumes "GenerateNormalTrampolineBuffer env from to st = Some (Inr (tb, st'))"
  obtains stub near' where "tb = jump_stub from stub"
    "st' = (with_near near' st)\<lparr>pr_mem := write_mem stub (le_bytes 8 to) (pr_mem st)\<rparr>"
proof -
  obtain x where x: "AllocIndirectStub env from st = Some (Inr x)"
    using assms by (auto simp: GenerateNormalTrampolineBuffer_def elim: robind_SomeE)
  obtain stub st1 where s: "x = (stub, st1)" by (cases x)
  obtain near' where n: "st1 = with_near near' st"
    using x s by (auto simp: AllocIndirectStub_def elim!: robind_SomeE)
  have j: "JmpNearIndirect stub (new_TurboAssembler from) = Inr (new_TurboAssembler from\<lparr>asm_buffer := jump_stub from stub\<rparr>)"
    by (simp add: JmpNearIndirect_def reloc_witness_simps Let_def emit_bytes_def jump_stub_def le_bytes_numeral(1))
  have "tb = jump_stub from stub \<and> st' = st1\<lparr>pr_mem := write_mem stub (le_bytes 8 to) (pr_mem st1)\<rparr>"
    using assms x s by (auto simp: GenerateNormalTrampolineBuffer_def j store_mem_eq split: if_splits)
  then show thesis using that [of stub near'] n by (simp add: with_near_def)
qed

lemma x64_relocate_effect:
  assumes r: "x64_relocate env buf origin relocated st = Some (Inr (origin', relocated', st1))"
    and n: "unat (raw_instruction_size origin) = n" "n \<le> 64" and z: "raw_instruction_start relocated = 0"
  shows "pr_interceptor st1 = pr_interceptor st \<and> raw_instruction_start origin' = raw_instruction_start origin
     \<and> (raw_instruction_start relocated' = 0
      \<or> (\<exists>e a. n \<le> e \<and> e < n + 20 \<and> unat (raw_instruction_size origin') = e \<and> length (asm_buffer a) \<le> 259 * n
          \<and> relocate_loop (env_over env) buf n 0 (raw_instruction_start origin)
              (SetRealizedAddress (raw_instruction_start relocated') (new_TurboAssembler 0))
              = Inr (e, raw_instruction_start origin + of_nat e, a)
          \<and> pr_mem st1 = write_mem (raw_instruction_start relocated')
               (relocated_code (asm_buffer a) (raw_instruction_start origin + of_nat e)) (pr_mem st)))"
proof -
  let ?s = "raw_instruction_start origin"
  obtain ar patch where g: "GenRelocateCodeAndBranch (env_fuel env) (env_page_size env) (env_fresh env) (env_over env) buf origin relocated
        (pr_arena st) = Some (Inr (origin', relocated', ar, patch))"
      and p: "apply_patch (env_page_size env) patch (with_arena ar st) = Inr st1"
    using r by (auto simp: x64_relocate_def rbind_Inr_iff elim!: robind_SomeE)
  have res: "relocation_result (env_over env) buf n ?s origin' relocated' patch"
    using GenRelocateCodeAndBranch_result [OF _ z g] n by simp
  from res consider (none) "patch = None" "raw_instruction_start relocated' = 0"
    | (some) e a where "n \<le> e" "e < n + 20" "length (asm_buffer a) \<le> 259 * n"
       "relocate_loop (env_over env) buf n 0 ?s (SetRealizedAddress (raw_instruction_start relocated') (new_TurboAssembler 0))
         = Inr (e, ?s + of_nat e, a)" "origin' = init_region_range ?s (of_nat e)"
       "patch = Some (raw_instruction_start relocated', relocated_code (asm_buffer a) (?s + of_nat e))"
    by (auto simp: relocation_result_def)
  then show ?thesis
  proof cases
    case none
    then show ?thesis using p res by (auto simp: apply_patch_def with_arena_def relocation_result_def)
  next
    case some
    let ?code = "relocated_code (asm_buffer a) (?s + of_nat e)"
    have "length ?code < 2 ^ 63" using some(3) n(2) by (simp add: length_relocated_code)
    then have st1: "pr_mem st1 = write_mem (raw_instruction_start relocated') ?code (pr_mem st)" "pr_interceptor st1 = pr_interceptor st"
      using p some(6) CodePatch_eq by (auto simp: apply_patch_def with_arena_def split: if_splits)
    have "unat (raw_instruction_size origin') = e" "raw_instruction_start origin' = ?s"
      using some(2,5) n(2) size_init_region [of e ?s] by (simp_all add: start_init_region)
    then show ?thesis using st1 some(1-4) by auto
  qed
qed

interpretation x64: hook_backend x64_backend "\<lambda>a. a"
proof
  fix env src dst st tb st1
  assume "be_normal x64_backend env src dst st = Some (Inr (tb, st1))"
  then have "GenerateNormalTrampolineBuffer env src dst st = Some (Inr (tb, st1))" by (simp add: x64_backend_def)
  then show "pr_interceptor st1 = pr_interceptor st \<and> length tb \<le> 64" by (rule trampoline_effect) (simp add: with_near_def)
next
  fix env src dst st b st1
  assume "be_near x64_backend env src dst st = Some (Inr (b, st1))"
  then show "pr_interceptor st1 = pr_interceptor st \<and> (\<forall>tb. b = Some tb \<longrightarrow> length tb \<le> 64)"
    by (auto simp: x64_backend_def GenerateNearTrampolineBuffer_def)
next
  fix env buf origin relocated st origin' relocated' st1
  assume "be_relocate x64_backend env buf origin relocated st = Some (Inr (origin', relocated', st1))"
    and "unat (raw_instruction_size origin) \<le> 64" "raw_instruction_start relocated = 0"
  then show "pr_interceptor st1 = pr_interceptor st \<and> raw_instruction_start origin' = raw_instruction_start origin"
    using x64_relocate_effect by (simp add: x64_backend_def)
qed

section \<open>Effects of a hook\<close>

text \<open>
  The stub holds the replacement, the prologue of \<open>address\<close> up to \<open>e\<close> has been relocated to \<open>oc\<close> with \<open>body\<close> as its
  instructions; \<open>m2\<close> is the memory after that and before the patch.
\<close>

definition x64_moved :: "overs \<Rightarrow> u64 \<Rightarrow> u64 \<Rightarrow> (u64 \<Rightarrow> u8) \<Rightarrow> u64 \<Rightarrow> u64 \<Rightarrow> nat \<Rightarrow> u8 list \<Rightarrow> (u64 \<Rightarrow> u8) \<Rightarrow> bool" where
  "x64_moved over address repl m stub oc e body m2 \<longleftrightarrow>
     (let m1 = write_mem stub (le_bytes 8 repl) m
      in 6 \<le> e \<and> e < 26 \<and> length body \<le> 1554
        \<and> (\<exists>a. relocate_loop over (load_mem m1 address (6 + relocate_window)) 6 0 address
                (SetRealizedAddress oc (new_TurboAssembler 0)) = Inr (e, address + of_nat e, a) \<and> asm_buffer a = body)
        \<and> m2 = write_mem oc (relocated_code body (address + of_nat e)) m1)"

lemma x64_hook_effect:
  assumes h: "DobbyHook x64_backend env address repl st = Some (Inr (RT_SUCCESS, Some oc, st'))"
    and t: "table_repr (SharedInstance (env_new_interceptor env) (pr_interceptor st)) es"
    and u: "node_unused (SharedInstance (env_new_interceptor env) (pr_interceptor st)) (env_new_node env)"
  obtains stub m2 en where "oc = relocated_origin_instructions en" "target_address en = address"
    "table_repr (pr_interceptor st') (en # es)" "pr_mem st' = write_mem address (jump_stub address stub) m2"
    "if oc = 0 then prologue_lost en else (\<exists>e body. x64_moved (env_over env) address repl (pr_mem st) stub oc e body m2 \<and> prologue_saved address e m2 en)"
proof -
  obtain tb st1 origin' relocated' st2 en where H:
    "trampoline_made x64_backend env address repl (shared env st) tb st1"
    "be_relocate x64_backend env (load_mem (pr_mem st1) address (length tb + relocate_window))
       (init_region_range address (of_nat (length tb))) (init_region_range 0 0) st1 = Some (Inr (origin', relocated', st2))"
    "relocated_origin_instructions en = raw_instruction_start relocated'"
    "if raw_instruction_start relocated' = 0 then prologue_lost en
     else prologue_saved address (unat (raw_instruction_size origin')) (pr_mem st2) en"
    "Some oc = Some (relocated_origin_instructions en)" "target_address en = address" "table_repr (pr_interceptor st') (en # es)"
    "pr_mem st' = write_mem address tb (pr_mem st2)"
    by (rule x64.hook_effect [OF h t u])
  have "GenerateNormalTrampolineBuffer env address repl (shared env st) = Some (Inr (tb, st1))"
    using H(1) by (auto simp: trampoline_made_def x64_backend_def GenerateNearTrampolineBuffer_def split: if_splits)
  then obtain stub near' where tr: "tb = jump_stub address stub"
      "st1 = (with_near near' (shared env st))\<lparr>pr_mem := write_mem stub (le_bytes 8 repl) (pr_mem (shared env st))\<rparr>"
    by (rule trampoline_effect)
  then have m1: "pr_mem st1 = write_mem stub (le_bytes 8 repl) (pr_mem st)" by (simp add: shared_def)
  have "x64_relocate env (load_mem (pr_mem st1) address (6 + relocate_window)) (init_region_range address (of_nat 6)) (init_region_range 0 0) st1
      = Some (Inr (origin', relocated', st2))" using H(2) by (simp add: tr(1) x64_backend_def)
  from x64_relocate_effect [OF this, of 6] size_init_region [of 6 address]
  have R: "oc = 0 \<or> (\<exists>e body. x64_moved (env_over env) address repl (pr_mem st) stub oc e body (pr_mem st2)
      \<and> unat (raw_instruction_size origin') = e)"
    using H(3,5) m1 by (auto simp: x64_moved_def start_init_region Let_def)
  show thesis
  proof (rule that [of en stub "pr_mem st2"])
    show "if oc = 0 then prologue_lost en else (\<exists>e body. x64_moved (env_over env) address repl (pr_mem st) stub oc e body (pr_mem st2)
        \<and> prologue_saved address e (pr_mem st2) en)"
      using R H(3-5) by auto
  qed (use H tr(1) in auto)
qed

section \<open>Hooking\<close>

text \<open>Where \<^verbatim>\<open>jmp [rip+disp32]\<close> at \<open>ip\<close> goes.\<close>

definition x64_jmp_target :: "(u64 \<Rightarrow> u8) \<Rightarrow> u64 \<Rightarrow> u64 option" where
  "x64_jmp_target m ip =
     (if load_mem m ip 2 = [0xFF, 0x25]
      then Some (le_word (load_mem m (ip + 6 + scast (le_word (load_mem m (ip + 2) 4) :: u32)) 8))
      else None)"

lemma jmp_target_written:
  assumes near: "sint (stub - (from + 6)) \<in> {- (2 ^ 31) ..< 2 ^ 31}" and at: "load_mem m from 6 = jump_stub from stub"
  shows "x64_jmp_target m from = Some (le_word (load_mem m stub 8))"
proof -
  have sc: "(scast (ucast (stub - (from + 6)) :: u32) :: u64) = stub - (from + 6)"
    using near by (intro scast_ucast_near) auto
  have "load_mem m from 6 = load_mem m from 2 @ load_mem m (from + 2) 4"
    by (simp add: load_mem_def upt_rec add.assoc)
  then have "load_mem m from 2 @ load_mem m (from + 2) 4 = [0xFF, 0x25] @ le_bytes 4 (ucast (stub - (from + 6)) :: u32)"
    using at by (simp add: jump_stub_def)
  then have "load_mem m from 2 = [0xFF, 0x25] \<and> load_mem m (from + 2) 4 = le_bytes 4 (ucast (stub - (from + 6)) :: u32)"
    by (subst (asm) append_eq_append_conv) simp_all
  then show ?thesis using sc by (simp add: x64_jmp_target_def)
qed

section \<open>A process to hook in\<close>

text \<open>\<^verbatim>\<open>mov rax, [rip+0x10101010]\<close> at the hooked address; the arena is given \<open>arena_page\<close>, none when that is 0.\<close>

definition demo_env :: "u64 \<Rightarrow> x64_env" where
  "demo_env arena_page = \<lparr>env_os = (\<lambda>_ h. h), env_page_size = 2 ^ 12,
     env_layout = [\<lparr>range_address = 0x500000000000, range_length = 0x1000, region_permission = kReadExecute\<rparr>],
     env_arm = False, env_bytes_at = (\<lambda>_ _. []), env_junk = [],
     env_fresh = (\<lambda>_. arena_page), env_bridge_page = 0x600000010000, env_closure_page = 0x600000020000,
     env_bridge_handler = 0x700000000000, env_new_interceptor = 0x10000, env_new_entry = 0x10100, env_new_route = 0x10200,
     env_new_node = 0x10300, env_new_closure = 0x10400, env_fuel = 105, env_over = (\<lambda>_. [])\<rparr>"

definition demo_mem :: "u64 \<Rightarrow> u8" where
  "demo_mem x = (if x = 0x500000000800 then 0x48 else if x = 0x500000000801 then 0x8B else if x = 0x500000000802 then 0x05 else 0x10)"

lemma demo_hook:
  "\<exists>st'. DobbyHook x64_backend (demo_env 0x600000000000) 0x500000000800 0x400000000000 (new_process demo_mem)
     = Some (Inr (RT_SUCCESS, Some 0x600000000000, st')) \<and> x64_jmp_target (pr_mem st') 0x500000000800 = Some 0x400000000000"
proof -
  have "case DobbyHook x64_backend (demo_env 0x600000000000) 0x500000000800 0x400000000000 (new_process demo_mem) of
      Some (Inr (s, oc, st)) \<Rightarrow> s = RT_SUCCESS \<and> oc = Some 0x600000000000
        \<and> x64_jmp_target (pr_mem st) 0x500000000800 = Some 0x400000000000
    | _ \<Rightarrow> False"
    by code_simp
  then show ?thesis by (auto split: option.splits sum.splits)
qed

lemma demo_hook_lost:
  "\<exists>st'. DobbyHook x64_backend (demo_env 0) 0x500000000800 0x400000000000 (new_process demo_mem) = Some (Inr (RT_SUCCESS, Some 0, st'))"
proof -
  have "case DobbyHook x64_backend (demo_env 0) 0x500000000800 0x400000000000 (new_process demo_mem) of
      Some (Inr (s, oc, st)) \<Rightarrow> s = RT_SUCCESS \<and> oc = Some 0 | _ \<Rightarrow> False"
    by code_simp
  then show ?thesis by (auto split: option.splits sum.splits)
qed

lemma demo_table:
  "table_repr (SharedInstance (env_new_interceptor (demo_env a)) (pr_interceptor (new_process m))) []"
  "node_unused (SharedInstance (env_new_interceptor (demo_env a)) (pr_interceptor (new_process m))) (env_new_node (demo_env a))"
  "env_page_size (demo_env a) = 2 ^ 12"
  by (rule table_repr_new) (simp_all add: demo_env_def new_process_def node_unused_def SharedInstance_def INIT_LIST_HEAD_def)

text \<open>
  The memory after a hook: the patched prologue, the stub and the relocated code, provided they do not overlap.
\<close>

lemma x64_hook_memory:
  assumes "DobbyHook x64_backend env address replace_call st = Some (Inr (RT_SUCCESS, Some oc, st'))" and "oc \<noteq> 0"
    and "table_repr (SharedInstance (env_new_interceptor env) (pr_interceptor st)) es"
    and "node_unused (SharedInstance (env_new_interceptor env) (pr_interceptor st)) (env_new_node env)"
  obtains stub e a en where "6 \<le> e" "e < 26" "FindHookEntry address (pr_interceptor st') = Some (Inr (Some en))" "relocated_origin_instructions en = oc"
    "far stub 8 address 6 \<Longrightarrow> far stub 8 oc (length (asm_buffer a) + 14) \<Longrightarrow> sint (stub - (address + 6)) \<in> {- (2 ^ 31) ..< 2 ^ 31}
       \<Longrightarrow> x64_jmp_target (pr_mem st') address = Some replace_call"
    "far address (6 + relocate_window) stub 8 \<Longrightarrow> relocate_loop (env_over env) (load_mem (pr_mem st) address (6 + relocate_window)) 6 0 address
       (SetRealizedAddress oc (new_TurboAssembler 0)) = Inr (e, address + of_nat e, a)"
    "far oc (length (asm_buffer a) + 14) address 6 \<Longrightarrow> load_mem (pr_mem st') oc (length (asm_buffer a) + 14)
       = asm_buffer a @ [0xFF, 0x25, 0, 0, 0, 0] @ le_bytes 8 (address + of_nat e)"
proof -
  obtain stub m2 en where H: "oc = relocated_origin_instructions en" "target_address en = address"
      "table_repr (pr_interceptor st') (en # es)" "pr_mem st' = write_mem address (jump_stub address stub) m2"
      "if oc = 0 then prologue_lost en else (\<exists>e body. x64_moved (env_over env) address replace_call (pr_mem st) stub oc e body m2
         \<and> prologue_saved address e m2 en)"
    by (rule x64_hook_effect [OF assms(1,3,4)])
  let ?m1 = "write_mem stub (le_bytes 8 replace_call) (pr_mem st)"
  obtain e body where M: "x64_moved (env_over env) address replace_call (pr_mem st) stub oc e body m2" using H(5) assms(2) by auto
  then obtain a where a: "relocate_loop (env_over env) (load_mem ?m1 address (6 + relocate_window)) 6 0 address
      (SetRealizedAddress oc (new_TurboAssembler 0)) = Inr (e, address + of_nat e, a)" "asm_buffer a = body"
      "m2 = write_mem oc (relocated_code body (address + of_nat e)) ?m1" "length body \<le> 1554" "6 \<le> e" "e < 26"
    by (auto simp: x64_moved_def Let_def)
  let ?code = "relocated_code body (address + of_nat e)" and ?s = "jump_stub address stub"
  have at: "load_mem (pr_mem st') address 6 = ?s"
    using load_written [of ?s 0 6 address m2] by (simp add: H(4))
  have stub8: "load_mem (pr_mem st') stub 8 = le_bytes 8 replace_call"
    if "far stub 8 address 6" "far stub 8 oc (length body + 14)"
    using that load_far [of stub 8 address ?s m2] load_far [of stub 8 oc ?code ?m1] load_written [of "le_bytes 8 replace_call" 0 8 stub "pr_mem st"]
    by (simp add: H(4) a(3) length_relocated_code)
  have code: "load_mem (pr_mem st') oc (length body + 14) = ?code" if "far oc (length body + 14) address 6"
    using that load_far [of oc "length body + 14" address ?s m2] load_written [of ?code 0 "length body + 14" oc ?m1] a(4)
    by (simp add: H(4) a(3) length_relocated_code)
  have find: "FindHookEntry address (pr_interceptor st') = Some (Inr (Some en))"
    using itc.find_law [OF H(3), of address] H(2) by simp
  have old: "load_mem ?m1 address (6 + relocate_window) = load_mem (pr_mem st) address (6 + relocate_window)"
    if "far address (6 + relocate_window) stub 8"
    using that load_far [of address "6 + relocate_window" stub "le_bytes 8 replace_call"] by simp
  show ?thesis
  proof (rule that [of e en stub a])
    show "x64_jmp_target (pr_mem st') address = Some replace_call"
      if "far stub 8 address 6" "far stub 8 oc (length (asm_buffer a) + 14)" "sint (stub - (address + 6)) \<in> {- (2 ^ 31) ..< 2 ^ 31}"
      using that at stub8 a(2) jmp_target_written [of stub address "pr_mem st'"] by simp
  qed (use a find H(1) code old in \<open>simp_all add: relocated_code_def\<close>)
qed



section \<open>Removing a hook\<close>





end
