(* ===== verification/A64_Assembler.thy ===== *)
theory A64_Assembler
  imports Assembler_Base
begin

text \<open>
  The AArch64 assembler: \<^verbatim>\<open>constants-arm64.h\<close>, \<^verbatim>\<open>registers-arm64.h\<close>, \<^verbatim>\<open>assembler-arm64.h\<close>, \<^verbatim>\<open>assembler-arm64.cc\<close>
  and \<^verbatim>\<open>CodeGen::LiteralLdrBranch\<close>. An instruction is a 32-bit word; the C expressions that build one mix
  \<^verbatim>\<open>int32_t\<close>, \<^verbatim>\<open>int64_t\<close> and enumeration values and are narrowed to \<^verbatim>\<open>int32_t\<close> by \<^verbatim>\<open>Emit\<close>.
\<close>

section \<open>Constants\<close>

datatype Shift = NO_SHIFT | LSL | LSR | ASR | ROR | MSL

fun Shift_code :: "Shift \<Rightarrow> u32" where
  "Shift_code NO_SHIFT = -1" | "Shift_code LSL = 0x0" | "Shift_code LSR = 0x1" | "Shift_code ASR = 0x2"
| "Shift_code ROR = 0x3" | "Shift_code MSL = 0x4"

datatype Extend = NO_EXTEND | UXTB | UXTH | UXTW | UXTX | SXTB | SXTH | SXTW | SXTX

datatype AddrMode = AddrOffset | PreIndex | PostIndex

definition kRdShift :: nat where "kRdShift = 0"
definition kRnShift :: nat where "kRnShift = 5"
definition kRmShift :: nat where "kRmShift = 16"
definition kRtShift :: nat where "kRtShift = 0"
definition kRt2Shift :: nat where "kRt2Shift = 10"

lemmas InstructionFields = kRdShift_def kRnShift_def kRmShift_def kRtShift_def kRt2Shift_def

definition ExceptionFixed :: u32 where "ExceptionFixed = 0xD4000000"
definition BRK_op :: u32 where "BRK_op = ExceptionFixed OR 0x00200000"

definition UnconditionalBranchFixed :: u32 where "UnconditionalBranchFixed = 0x14000000"
definition UnconditionalBranchFixedMask :: u32 where "UnconditionalBranchFixedMask = 0x7C000000"
definition UnconditionalBranchMask :: u32 where "UnconditionalBranchMask = 0xFC000000"
definition B_op :: u32 where "B_op = UnconditionalBranchFixed OR 0x00000000"
definition BL_op :: u32 where "BL_op = UnconditionalBranchFixed OR 0x80000000"

definition UnconditionalBranchToRegisterFixed :: u32 where "UnconditionalBranchToRegisterFixed = 0xD6000000"
definition BR_op :: u32 where "BR_op = UnconditionalBranchToRegisterFixed OR 0x001F0000"
definition BLR_op :: u32 where "BLR_op = UnconditionalBranchToRegisterFixed OR 0x003F0000"

definition LoadRegLiteralFixed :: u32 where "LoadRegLiteralFixed = 0x18000000"
definition LoadRegLiteralFixedMask :: u32 where "LoadRegLiteralFixedMask = 0x3B000000"

datatype LoadRegLiteralOp = LDR_w_literal | LDR_x_literal | LDRSW_literal | PRFM_literal | LDR_s_literal | LDR_d_literal | LDR_q_literal

definition LoadRegLiteralSub :: "u32 \<Rightarrow> u32 \<Rightarrow> u32" where
  "LoadRegLiteralSub opc V = LoadRegLiteralFixed OR LeftShift opc 2 30 OR LeftShift V 1 26"

fun LoadRegLiteralOp_code :: "LoadRegLiteralOp \<Rightarrow> u32" where
  "LoadRegLiteralOp_code LDR_w_literal = LoadRegLiteralSub 0 0"
| "LoadRegLiteralOp_code LDR_x_literal = LoadRegLiteralSub 1 0"
| "LoadRegLiteralOp_code LDRSW_literal = LoadRegLiteralSub 2 0"
| "LoadRegLiteralOp_code PRFM_literal = LoadRegLiteralSub 3 0"
| "LoadRegLiteralOp_code LDR_s_literal = LoadRegLiteralSub 0 1"
| "LoadRegLiteralOp_code LDR_d_literal = LoadRegLiteralSub 1 1"
| "LoadRegLiteralOp_code LDR_q_literal = LoadRegLiteralSub 2 1"

text \<open>\<^verbatim>\<open>LOAD_STORE_OP_LIST\<close>: the size, \<^verbatim>\<open>V\<close> and \<^verbatim>\<open>opc\<close> fields.\<close>

datatype LoadStoreOp = STRB_w | LDRB_w | LDRSB_x | LDRSB_w | STR_b | LDR_b | STR_q | LDR_q | STRH_w | LDRH_w
  | LDRSH_x | LDRSH_w | STR_h | LDR_h | STR_w | LDR_w | LDRSW | STR_s | LDR_s | STR_x | LDR_x | PRFM | STR_d | LDR_d

definition LoadStoreOpSub :: "u32 \<Rightarrow> u32 \<Rightarrow> u32 \<Rightarrow> u32" where
  "LoadStoreOpSub sz V opc = LeftShift sz 2 30 OR LeftShift V 1 26 OR LeftShift opc 2 22"

fun LoadStoreOp_code :: "LoadStoreOp \<Rightarrow> u32" where
  "LoadStoreOp_code STRB_w = LoadStoreOpSub 0 0 0"
| "LoadStoreOp_code LDRB_w = LoadStoreOpSub 0 0 1"
| "LoadStoreOp_code LDRSB_x = LoadStoreOpSub 0 0 2"
| "LoadStoreOp_code LDRSB_w = LoadStoreOpSub 0 0 3"
| "LoadStoreOp_code STR_b = LoadStoreOpSub 0 1 0"
| "LoadStoreOp_code LDR_b = LoadStoreOpSub 0 1 1"
| "LoadStoreOp_code STR_q = LoadStoreOpSub 0 1 2"
| "LoadStoreOp_code LDR_q = LoadStoreOpSub 0 1 3"
| "LoadStoreOp_code STRH_w = LoadStoreOpSub 1 0 0"
| "LoadStoreOp_code LDRH_w = LoadStoreOpSub 1 0 1"
| "LoadStoreOp_code LDRSH_x = LoadStoreOpSub 1 0 2"
| "LoadStoreOp_code LDRSH_w = LoadStoreOpSub 1 0 3"
| "LoadStoreOp_code STR_h = LoadStoreOpSub 1 1 0"
| "LoadStoreOp_code LDR_h = LoadStoreOpSub 1 1 1"
| "LoadStoreOp_code STR_w = LoadStoreOpSub 2 0 0"
| "LoadStoreOp_code LDR_w = LoadStoreOpSub 2 0 1"
| "LoadStoreOp_code LDRSW = LoadStoreOpSub 2 0 2"
| "LoadStoreOp_code STR_s = LoadStoreOpSub 2 1 0"
| "LoadStoreOp_code LDR_s = LoadStoreOpSub 2 1 1"
| "LoadStoreOp_code STR_x = LoadStoreOpSub 3 0 0"
| "LoadStoreOp_code LDR_x = LoadStoreOpSub 3 0 1"
| "LoadStoreOp_code PRFM = LoadStoreOpSub 3 0 2"
| "LoadStoreOp_code STR_d = LoadStoreOpSub 3 1 0"
| "LoadStoreOp_code LDR_d = LoadStoreOpSub 3 1 1"

definition LoadStoreUnsignedOffsetFixed :: u32 where "LoadStoreUnsignedOffsetFixed = 0x39000000"

text \<open>\<^verbatim>\<open>LOAD_STORE_PAIR_OP_LIST\<close>.\<close>

datatype LoadStorePairOp = STP_w | LDP_w | STP_s | LDP_s | LDPSW | STP_d | LDP_d | STP_x | LDP_x | STP_q | LDP_q

definition LoadStorePairOpSub :: "u32 \<Rightarrow> u32 \<Rightarrow> u32 \<Rightarrow> u32" where
  "LoadStorePairOpSub opc V L = LeftShift opc 2 30 OR LeftShift V 1 26 OR LeftShift L 1 22"

fun LoadStorePairOp_code :: "LoadStorePairOp \<Rightarrow> u32" where
  "LoadStorePairOp_code STP_w = LoadStorePairOpSub 0 0 0"
| "LoadStorePairOp_code LDP_w = LoadStorePairOpSub 0 0 1"
| "LoadStorePairOp_code STP_s = LoadStorePairOpSub 0 1 0"
| "LoadStorePairOp_code LDP_s = LoadStorePairOpSub 0 1 1"
| "LoadStorePairOp_code LDPSW = LoadStorePairOpSub 1 0 1"
| "LoadStorePairOp_code STP_d = LoadStorePairOpSub 1 1 0"
| "LoadStorePairOp_code LDP_d = LoadStorePairOpSub 1 1 1"
| "LoadStorePairOp_code STP_x = LoadStorePairOpSub 2 0 0"
| "LoadStorePairOp_code LDP_x = LoadStorePairOpSub 2 0 1"
| "LoadStorePairOp_code STP_q = LoadStorePairOpSub 2 1 0"
| "LoadStorePairOp_code LDP_q = LoadStorePairOpSub 2 1 1"

definition LoadStorePairOffsetFixed :: u32 where "LoadStorePairOffsetFixed = 0x29000000"
definition LoadStorePairPostIndexFixed :: u32 where "LoadStorePairPostIndexFixed = 0x28800000"
definition LoadStorePairPreIndexFixed :: u32 where "LoadStorePairPreIndexFixed = 0x29800000"

datatype MoveWideImmediateOp = MOVN | MOVZ | MOVK

definition MoveWideImmediateFixed :: u32 where "MoveWideImmediateFixed = 0x12800000"

fun MoveWideImmediateOp_code :: "MoveWideImmediateOp \<Rightarrow> u32" where
  "MoveWideImmediateOp_code MOVN = 0x00000000"
| "MoveWideImmediateOp_code MOVZ = 0x40000000"
| "MoveWideImmediateOp_code MOVK = 0x60000000"

datatype AddSubImmediateOp = ADD_w_imm | ADDS_w_imm | SUB_w_imm | SUBS_w_imm | ADD_x_imm | ADDS_x_imm | SUB_x_imm | SUBS_x_imm

definition AddSubImmediateOpSub :: "u32 \<Rightarrow> u32 \<Rightarrow> u32 \<Rightarrow> u32" where
  "AddSubImmediateOpSub sf op S = 0x11000000 OR LeftShift sf 1 31 OR LeftShift op 1 30 OR LeftShift S 1 29"

fun AddSubImmediateOp_code :: "AddSubImmediateOp \<Rightarrow> u32" where
  "AddSubImmediateOp_code ADD_w_imm = AddSubImmediateOpSub 0 0 0"
| "AddSubImmediateOp_code ADDS_w_imm = AddSubImmediateOpSub 0 0 1"
| "AddSubImmediateOp_code SUB_w_imm = AddSubImmediateOpSub 0 1 0"
| "AddSubImmediateOp_code SUBS_w_imm = AddSubImmediateOpSub 0 1 1"
| "AddSubImmediateOp_code ADD_x_imm = AddSubImmediateOpSub 1 0 0"
| "AddSubImmediateOp_code ADDS_x_imm = AddSubImmediateOpSub 1 0 1"
| "AddSubImmediateOp_code SUB_x_imm = AddSubImmediateOpSub 1 1 0"
| "AddSubImmediateOp_code SUBS_x_imm = AddSubImmediateOpSub 1 1 1"

datatype LogicalOp = LogAND | BIC | ORR | ORN | EOR | EON | ANDS | BICS

definition Logical_NOT :: u32 where "Logical_NOT = 0x00200000"

fun LogicalOp_code :: "LogicalOp \<Rightarrow> u32" where
  "LogicalOp_code LogAND = 0x00000000"
| "LogicalOp_code BIC = 0x00000000 OR Logical_NOT"
| "LogicalOp_code ORR = 0x20000000"
| "LogicalOp_code ORN = 0x20000000 OR Logical_NOT"
| "LogicalOp_code EOR = 0x40000000"
| "LogicalOp_code EON = 0x40000000 OR Logical_NOT"
| "LogicalOp_code ANDS = 0x60000000"
| "LogicalOp_code BICS = 0x60000000 OR Logical_NOT"

definition LogicalShiftedFixed :: u32 where "LogicalShiftedFixed = 0x0A000000"

definition PCRelAddressingFixed :: u32 where "PCRelAddressingFixed = 0x10000000"
definition PCRelAddressingFixedMask :: u32 where "PCRelAddressingFixedMask = 0x1F000000"
definition PCRelAddressingMask :: u32 where "PCRelAddressingMask = 0x9F000000"
definition ADR_op :: u32 where "ADR_op = PCRelAddressingFixed OR 0x00000000"
definition ADRP_op :: u32 where "ADRP_op = PCRelAddressingFixed OR 0x80000000"

lemmas a64_constants = ExceptionFixed_def BRK_op_def UnconditionalBranchFixed_def UnconditionalBranchFixedMask_def
  UnconditionalBranchMask_def B_op_def BL_op_def UnconditionalBranchToRegisterFixed_def BR_op_def BLR_op_def
  LoadRegLiteralFixed_def LoadRegLiteralFixedMask_def LoadRegLiteralSub_def LoadStoreOpSub_def
  LoadStoreUnsignedOffsetFixed_def LoadStorePairOpSub_def LoadStorePairOffsetFixed_def LoadStorePairPostIndexFixed_def
  LoadStorePairPreIndexFixed_def MoveWideImmediateFixed_def AddSubImmediateOpSub_def Logical_NOT_def
  LogicalShiftedFixed_def PCRelAddressingFixed_def PCRelAddressingFixedMask_def PCRelAddressingMask_def ADR_op_def ADRP_op_def

section \<open>Registers\<close>

datatype RegisterType = kRegister_32 | kRegister_64 | kRegister | kVRegister | kSIMD_FP_Register_8 | kSIMD_FP_Register_16
  | kSIMD_FP_Register_32 | kSIMD_FP_Register_64 | kSIMD_FP_Register_128 | kInvalid

record A64Register =
  r_code :: u32
  r_size :: nat
  r_type :: RegisterType

definition Xreg :: "u32 \<Rightarrow> A64Register" where "Xreg c = \<lparr>r_code = c, r_size = 64, r_type = kRegister_64\<rparr>"
definition Wreg :: "u32 \<Rightarrow> A64Register" where "Wreg c = \<lparr>r_code = c, r_size = 32, r_type = kRegister_32\<rparr>"
definition Qreg :: "u32 \<Rightarrow> A64Register" where "Qreg c = \<lparr>r_code = c, r_size = 128, r_type = kSIMD_FP_Register_128\<rparr>"
definition InvalidRegister :: A64Register where "InvalidRegister = \<lparr>r_code = 0, r_size = 0, r_type = kInvalid\<rparr>"

definition r_Is :: "A64Register \<Rightarrow> A64Register \<Rightarrow> bool" where
  "r_Is this reg \<longleftrightarrow> r_code reg = r_code this"

definition r_Is64Bits :: "A64Register \<Rightarrow> bool" where
  "r_Is64Bits r \<longleftrightarrow> r_size r = 64"

text \<open>\<^verbatim>\<open>reg_type_ < kRegister\<close> and \<^verbatim>\<open>reg_type_ > kVRegister\<close>; the invalid register counts as a vector register.\<close>

definition IsRegister :: "A64Register \<Rightarrow> bool" where
  "IsRegister r \<longleftrightarrow> r_type r = kRegister_32 \<or> r_type r = kRegister_64"

definition IsVRegister :: "A64Register \<Rightarrow> bool" where
  "IsVRegister r \<longleftrightarrow> r_type r \<noteq> kRegister_32 \<and> r_type r \<noteq> kRegister_64 \<and> r_type r \<noteq> kRegister \<and> r_type r \<noteq> kVRegister"

definition SP_reg :: A64Register where "SP_reg = Xreg 31"
definition xzr :: A64Register where "xzr = Xreg 31"
definition wzr :: A64Register where "wzr = Wreg 31"
definition TMP_REG_0 :: A64Register where "TMP_REG_0 = Xreg 17"

definition Rd_field :: "A64Register \<Rightarrow> u32" where "Rd_field rd = push_bit kRdShift (r_code rd)"
definition Rt_field :: "A64Register \<Rightarrow> u32" where "Rt_field rt = push_bit kRtShift (r_code rt)"
definition Rt2_field :: "A64Register \<Rightarrow> u32" where "Rt2_field rt = push_bit kRt2Shift (r_code rt)"
definition Rn_field :: "A64Register \<Rightarrow> u32" where "Rn_field rn = push_bit kRnShift (r_code rn)"
definition Rm_field :: "A64Register \<Rightarrow> u32" where "Rm_field rm = push_bit kRmShift (r_code rm)"

lemmas a64_fields = Rd_field_def Rt_field_def Rt2_field_def Rn_field_def Rm_field_def InstructionFields

section \<open>Operands\<close>

record A64Operand =
  immediate_val :: u64
  opd_reg :: A64Register
  opd_shift :: Shift
  opd_extend :: Extend
  shift_extent_imm :: u32

definition Operand_imm :: "u64 \<Rightarrow> A64Operand" where
  "Operand_imm imm = \<lparr>immediate_val = imm, opd_reg = InvalidRegister, opd_shift = NO_SHIFT, opd_extend = NO_EXTEND, shift_extent_imm = 0\<rparr>"

definition Operand_shifted :: "A64Register \<Rightarrow> Shift \<Rightarrow> u32 \<Rightarrow> A64Operand" where
  "Operand_shifted reg sh shift_imm =
     \<lparr>immediate_val = 0, opd_reg = reg, opd_shift = sh, opd_extend = NO_EXTEND, shift_extent_imm = shift_imm\<rparr>"

definition Operand_extended :: "A64Register \<Rightarrow> Extend \<Rightarrow> u32 \<Rightarrow> A64Operand" where
  "Operand_extended reg ext shift_imm =
     \<lparr>immediate_val = 0, opd_reg = reg, opd_shift = NO_SHIFT, opd_extend = ext, shift_extent_imm = shift_imm\<rparr>"

definition IsImmediate :: "A64Operand \<Rightarrow> bool" where
  "IsImmediate opd \<longleftrightarrow> r_Is (opd_reg opd) InvalidRegister"

definition IsShiftedRegister :: "A64Operand \<Rightarrow> bool" where
  "IsShiftedRegister opd \<longleftrightarrow> opd_shift opd \<noteq> NO_SHIFT"

definition IsExtendedRegister :: "A64Operand \<Rightarrow> bool" where
  "IsExtendedRegister opd \<longleftrightarrow> opd_extend opd \<noteq> NO_EXTEND"

record MemOperand =
  mo_base :: A64Register
  mo_regoffset :: A64Register
  mo_offset :: u64
  mo_addrmode :: AddrMode
  mo_shift :: Shift
  mo_extend :: Extend
  mo_shift_extend_imm :: u32

definition MemOperand_offset :: "A64Register \<Rightarrow> u64 \<Rightarrow> AddrMode \<Rightarrow> MemOperand" where
  "MemOperand_offset base off md = \<lparr>mo_base = base, mo_regoffset = InvalidRegister, mo_offset = off, mo_addrmode = md,
     mo_shift = NO_SHIFT, mo_extend = NO_EXTEND, mo_shift_extend_imm = 0\<rparr>"

definition MemOperand_extended :: "A64Register \<Rightarrow> A64Register \<Rightarrow> Extend \<Rightarrow> u32 \<Rightarrow> MemOperand" where
  "MemOperand_extended base regoffset ext imm = \<lparr>mo_base = base, mo_regoffset = regoffset, mo_offset = 0, mo_addrmode = AddrOffset,
     mo_shift = NO_SHIFT, mo_extend = ext, mo_shift_extend_imm = imm\<rparr>"

definition MemOperand_shifted :: "A64Register \<Rightarrow> A64Register \<Rightarrow> Shift \<Rightarrow> u32 \<Rightarrow> MemOperand" where
  "MemOperand_shifted base regoffset sh imm = \<lparr>mo_base = base, mo_regoffset = regoffset, mo_offset = 0, mo_addrmode = AddrOffset,
     mo_shift = sh, mo_extend = NO_EXTEND, mo_shift_extend_imm = imm\<rparr>"

definition IsImmediateOffset :: "MemOperand \<Rightarrow> bool" where
  "IsImmediateOffset mo \<longleftrightarrow> mo_addrmode mo = AddrOffset"

definition IsRegisterOffset :: "MemOperand \<Rightarrow> bool" where
  "IsRegisterOffset mo \<longleftrightarrow> mo_addrmode mo = AddrOffset"

definition IsPreIndex :: "MemOperand \<Rightarrow> bool" where
  "IsPreIndex mo \<longleftrightarrow> mo_addrmode mo = PreIndex"

definition IsPostIndex :: "MemOperand \<Rightarrow> bool" where
  "IsPostIndex mo \<longleftrightarrow> mo_addrmode mo = PostIndex"

section \<open>OpEncode\<close>

definition sf_of :: "A64Register \<Rightarrow> u32" where
  "sf_of reg = (if r_Is64Bits reg then LeftShift 1 1 31 else 0)"

definition V_of :: "A64Register \<Rightarrow> u32" where
  "V_of reg = (if IsVRegister reg then LeftShift 1 1 26 else 0)"

definition L_of :: "bool \<Rightarrow> u32" where
  "L_of load_or_store = (if load_or_store then LeftShift 1 1 22 else 0)"

definition shift_of :: "Shift \<Rightarrow> u32" where
  "shift_of sh = LeftShift (Shift_code sh) 2 22"

text \<open>\<^verbatim>\<open>N\<close> is computed and not used.\<close>

definition EncodeLogicalImmediate :: "A64Register \<Rightarrow> A64Register \<Rightarrow> A64Operand \<Rightarrow> u32" where
  "EncodeLogicalImmediate rd rn opd =
     (let immr = ucast (bits_of (immediate_val opd) 0 5) :: u32; imms = ucast (bits_of (immediate_val opd) 6 11) :: u32
      in sf_of rd OR LeftShift immr 6 16 OR LeftShift imms 6 10 OR Rd_field rd OR Rn_field rn)"

definition EncodeLogicalShift :: "A64Register \<Rightarrow> A64Register \<Rightarrow> A64Operand \<Rightarrow> u32" where
  "EncodeLogicalShift rd rn opd =
     sf_of rd OR shift_of (opd_shift opd) OR Rm_field (opd_reg opd) OR LeftShift (shift_extent_imm opd) 6 10
       OR Rn_field rn OR Rd_field rd"

definition OpEncode_LoadStorePair :: "LoadStorePairOp \<Rightarrow> A64Register \<Rightarrow> A64Register \<Rightarrow> MemOperand \<Rightarrow> u32" where
  "OpEncode_LoadStorePair op rt rt2 addr =
     (let opc = bits_of (LoadStorePairOp_code op) 30 31;
          scale = (if IsRegister rt then 2 + bit_of opc 1 else if IsVRegister rt then 2 + opc else 2);
          imm7 = ucast (signed_drop_bit (unat scale) (mo_offset addr)) :: u32
      in LeftShift imm7 7 15)"

definition scale_of :: "u32 \<Rightarrow> u32" where
  "scale_of op = (if op AND LoadStoreUnsignedOffsetFixed = LoadStoreUnsignedOffsetFixed then bits_of op 30 31 else 0)"

section \<open>The assembler\<close>

datatype A64PseudoLabelType = kLdrLiteral

record A64PseudoLabelInstruction =
  pli_position :: int
  pli_type :: A64PseudoLabelType

record PseudoLabel = Label +
  pl_instructions :: "A64PseudoLabelInstruction list"

record A64RelocLabelEntry = PseudoLabel +
  rl_data :: u64

text \<open>The labels of \<^verbatim>\<open>data_labels_\<close> are shared pointers: a label is named by its index in the array.\<close>

record a64_asm = asm_state +
  a64_data_labels :: "A64RelocLabelEntry list option"

type_synonym a64_op = "a64_asm \<Rightarrow> a64_asm result"

definition new_a64_TurboAssembler :: "u64 \<Rightarrow> a64_asm" where
  "new_a64_TurboAssembler address = \<lparr>asm_buffer = [], realized_address = address, a64_data_labels = None\<rparr>"

definition a64_Emit :: "u32 \<Rightarrow> a64_op" where
  "a64_Emit v = emit_bytes (le_bytes 4 v)"

definition a64_EmitInt64 :: "u64 \<Rightarrow> a64_op" where
  "a64_EmitInt64 v = emit_bytes (le_bytes 8 v)"

definition load_inst :: "int \<Rightarrow> 'a asm_state_scheme \<Rightarrow> u32 result" where
  "load_inst off a =
     (if off < 0 \<or> length (asm_buffer a) < nat off + 4 then Inl OVERREAD
      else Inr (le_word (take 4 (drop (nat off) (asm_buffer a)))))"

subsection \<open>Branch chains\<close>

text \<open>
  \<^verbatim>\<open>Assembler::bind\<close> walks the chain of branches that were emitted before the label was bound: each branch
  holds the distance to the one before it. \<open>fuel\<close> bounds the steps; an instruction on the chain that is not a
  \<^verbatim>\<open>b\<close> sends the walk to offset 0.
\<close>

fun a64_bind_loop :: "nat \<Rightarrow> int \<Rightarrow> Label \<Rightarrow> a64_asm \<Rightarrow> (Label \<times> a64_asm) result option" where
  "a64_bind_loop 0 bound_pc label a = None"
| "a64_bind_loop (Suc fuel) bound_pc label a =
     (if is_linked label
      then (let linkpos = label_pos label
            in case load_inst linkpos a of
                 Inl e \<Rightarrow> Some (Inl e)
               | Inr instr \<Rightarrow>
                   (let isb = (instr AND UnconditionalBranchMask = UnconditionalBranchFixed);
                        imm26 = bits_of (of_int ((bound_pc - linkpos) div 4) :: u32) 0 25;
                        fixed = (if isb then fix_bytes linkpos (le_bytes 4 ((instr AND 0xfc000000) OR LeftShift imm26 26 0)) a else Inr a);
                        prevlinkpos = (if isb then linkpos - int (unat (push_bit 2 (bits_of instr 0 25))) else 0);
                        label' = (if linkpos - prevlinkpos = 0 then link_to (-1) label else link_to prevlinkpos label)
                    in case fixed of
                         Inl e \<Rightarrow> Some (Inl e)
                       | Inr a' \<Rightarrow> a64_bind_loop fuel bound_pc label' a'))
      else Some (Inr (bind_to bound_pc label, a)))"

definition a64_bind :: "nat \<Rightarrow> Label \<Rightarrow> a64_asm \<Rightarrow> (Label \<times> a64_asm) result option" where
  "a64_bind fuel label a = a64_bind_loop fuel (int (pc_offset a)) label a"

definition LinkAndGetByteOffsetTo :: "Label \<Rightarrow> 'a asm_state_scheme \<Rightarrow> int \<times> Label" where
  "LinkAndGetByteOffsetTo label a =
     (if is_bound label then (label_pos label - int (pc_offset a), label)
      else ((if is_linked label then label_pos label - int (pc_offset a) else 0), link_to (int (pc_offset a)) label))"

subsection \<open>Instructions\<close>

definition a64_nop :: a64_op where "a64_nop = a64_Emit 0xD503201F"

definition a64_brk :: "u32 \<Rightarrow> a64_op" where "a64_brk code = a64_Emit (BRK_op OR LeftShift code 16 5)"

definition a64_ret :: a64_op where "a64_ret = a64_Emit 0xD65F03C0"

definition a64_adrp :: "A64Register \<Rightarrow> u64 \<Rightarrow> a64_op" where
  "a64_adrp rd imm =
     (let immlo = LeftShift (bits_of (signed_drop_bit 12 imm) 0 1) 2 29;
          immhi = LeftShift (bits_of (signed_drop_bit 12 imm) 2 20) 19 5
      in a64_Emit (ucast (ucast (ADRP_op OR Rd_field rd) OR immlo OR immhi)))"

definition AddSubImmediate :: "A64Register \<Rightarrow> A64Register \<Rightarrow> A64Operand \<Rightarrow> AddSubImmediateOp \<Rightarrow> a64_op" where
  "AddSubImmediate rd rn opd op =
     (if IsImmediate opd
      then (let imm12 = ucast (LeftShift (immediate_val opd) 12 10) :: u32
            in a64_Emit (AddSubImmediateOp_code op OR Rd_field rd OR Rn_field rn OR imm12))
      else (\<lambda>_. Inl UNREACHABLE))"

definition a64_add :: "A64Register \<Rightarrow> A64Register \<Rightarrow> u64 \<Rightarrow> a64_op" where
  "a64_add rd rn imm =
     (if r_Is64Bits rd \<and> r_Is64Bits rn then AddSubImmediate rd rn (Operand_imm imm) ADD_x_imm
      else AddSubImmediate rd rn (Operand_imm imm) ADD_w_imm)"

definition a64_adds :: "A64Register \<Rightarrow> A64Register \<Rightarrow> u64 \<Rightarrow> a64_op" where
  "a64_adds rd rn imm = (\<lambda>_. Inl UNREACHABLE)"

definition a64_sub :: "A64Register \<Rightarrow> A64Register \<Rightarrow> u64 \<Rightarrow> a64_op" where
  "a64_sub rd rn imm =
     (if r_Is64Bits rd \<and> r_Is64Bits rn then AddSubImmediate rd rn (Operand_imm imm) SUB_x_imm
      else AddSubImmediate rd rn (Operand_imm imm) SUB_w_imm)"

definition a64_subs :: "A64Register \<Rightarrow> A64Register \<Rightarrow> u64 \<Rightarrow> a64_op" where
  "a64_subs rd rn imm = (\<lambda>_. Inl UNREACHABLE)"

definition a64_b :: "u64 \<Rightarrow> a64_op" where
  "a64_b imm = (let imm26 = ucast (bits_of (signed_drop_bit 2 imm) 0 25) :: u32 in a64_Emit (B_op OR imm26))"

definition a64_b_label :: "Label \<Rightarrow> a64_asm \<Rightarrow> (Label \<times> a64_asm) result" where
  "a64_b_label label a =
     (let (offset, label') = LinkAndGetByteOffsetTo label a
      in rbind (a64_b (of_int offset) a) (\<lambda>a'. Inr (label', a')))"

definition a64_br :: "A64Register \<Rightarrow> a64_op" where "a64_br rn = a64_Emit (BR_op OR Rn_field rn)"

definition a64_blr :: "A64Register \<Rightarrow> a64_op" where "a64_blr rn = a64_Emit (BLR_op OR Rn_field rn)"

text \<open>The immediate is put into the instruction as it is, without division by four.\<close>

definition EmitLoadRegLiteral :: "LoadRegLiteralOp \<Rightarrow> A64Register \<Rightarrow> u64 \<Rightarrow> a64_op" where
  "EmitLoadRegLiteral op rt imm = a64_Emit (LoadRegLiteralOp_code op OR ucast (LeftShift imm 26 5) OR Rt_field rt)"

definition a64_ldr_literal :: "A64Register \<Rightarrow> u64 \<Rightarrow> a64_op" where
  "a64_ldr_literal rt imm =
     (case r_type rt of
        kRegister_32 \<Rightarrow> EmitLoadRegLiteral LDR_w_literal rt imm
      | kRegister_64 \<Rightarrow> EmitLoadRegLiteral LDR_x_literal rt imm
      | kSIMD_FP_Register_32 \<Rightarrow> EmitLoadRegLiteral LDR_s_literal rt imm
      | kSIMD_FP_Register_64 \<Rightarrow> EmitLoadRegLiteral LDR_d_literal rt imm
      | kSIMD_FP_Register_128 \<Rightarrow> EmitLoadRegLiteral LDR_q_literal rt imm
      | _ \<Rightarrow> (\<lambda>_. Inl UNREACHABLE))"

definition LoadStore :: "LoadStoreOp \<Rightarrow> A64Register \<Rightarrow> MemOperand \<Rightarrow> a64_op" where
  "LoadStore op rt addr =
     (if IsImmediateOffset addr
      then (let imm12 = signed_drop_bit (unat (scale_of (LoadStoreUnsignedOffsetFixed OR LoadStoreOp_code op))) (mo_offset addr)
            in a64_Emit (LoadStoreUnsignedOffsetFixed OR LoadStoreOp_code op OR ucast (LeftShift imm12 12 10)
                         OR Rn_field (mo_base addr) OR Rt_field rt))
      else (\<lambda>_. Inl UNREACHABLE))"

definition a64_ldr :: "A64Register \<Rightarrow> MemOperand \<Rightarrow> a64_op" where "a64_ldr rt src = LoadStore LDR_x rt src"

definition a64_str :: "A64Register \<Rightarrow> MemOperand \<Rightarrow> a64_op" where "a64_str rt src = LoadStore STR_x rt src"

definition LoadStorePair :: "LoadStorePairOp \<Rightarrow> A64Register \<Rightarrow> A64Register \<Rightarrow> MemOperand \<Rightarrow> a64_op" where
  "LoadStorePair op rt rt2 addr =
     (let combine_fields_op = OpEncode_LoadStorePair op rt rt2 addr OR Rt2_field rt2 OR Rn_field (mo_base addr) OR Rt_field rt;
          addrmodeop = (if IsImmediateOffset addr then LoadStorePairOffsetFixed
                        else if IsPreIndex addr then LoadStorePairPreIndexFixed else LoadStorePairPostIndexFixed)
      in a64_Emit (LoadStorePairOp_code op OR addrmodeop OR combine_fields_op))"

definition a64_ldp :: "A64Register \<Rightarrow> A64Register \<Rightarrow> MemOperand \<Rightarrow> a64_op" where
  "a64_ldp rt rt2 src =
     (if r_type rt = kSIMD_FP_Register_128 then LoadStorePair LDP_q rt rt2 src
      else if r_type rt = kRegister_64 then LoadStorePair LDP_x rt rt2 src
      else (\<lambda>_. Inl UNREACHABLE))"

definition a64_stp :: "A64Register \<Rightarrow> A64Register \<Rightarrow> MemOperand \<Rightarrow> a64_op" where
  "a64_stp rt rt2 dst =
     (if r_type rt = kSIMD_FP_Register_128 then LoadStorePair STP_q rt rt2 dst
      else if r_type rt = kRegister_64 then LoadStorePair STP_x rt rt2 dst
      else (\<lambda>_. Inl UNREACHABLE))"

definition LogicalImmediate :: "A64Register \<Rightarrow> A64Register \<Rightarrow> A64Operand \<Rightarrow> LogicalOp \<Rightarrow> a64_op" where
  "LogicalImmediate rd rn opd op = a64_Emit (LogicalOp_code op OR EncodeLogicalImmediate rd rn opd)"

definition LogicalShift :: "A64Register \<Rightarrow> A64Register \<Rightarrow> A64Operand \<Rightarrow> LogicalOp \<Rightarrow> a64_op" where
  "LogicalShift rd rn opd op = a64_Emit (LogicalOp_code op OR LogicalShiftedFixed OR EncodeLogicalShift rd rn opd)"

definition Logical :: "A64Register \<Rightarrow> A64Register \<Rightarrow> A64Operand \<Rightarrow> LogicalOp \<Rightarrow> a64_op" where
  "Logical rd rn opd op = (if IsImmediate opd then LogicalImmediate rd rn opd op else LogicalShift rd rn opd op)"

definition a64_orr :: "A64Register \<Rightarrow> A64Register \<Rightarrow> A64Operand \<Rightarrow> a64_op" where
  "a64_orr rd rn opd = Logical rd rn opd ORR"

definition a64_mov :: "A64Register \<Rightarrow> A64Register \<Rightarrow> a64_op" where
  "a64_mov rd rn =
     (if r_Is rd SP_reg \<or> r_Is rn SP_reg then a64_add rd rn 0
      else if r_Is64Bits rd then a64_orr rd xzr (Operand_shifted rn LSL 0)
      else a64_orr rd wzr (Operand_shifted rn LSL 0))"

definition MoveWide :: "A64Register \<Rightarrow> u64 \<Rightarrow> int \<Rightarrow> MoveWideImmediateOp \<Rightarrow> a64_op" where
  "MoveWide rd imm sh op =
     (let sh' = (if sh > 0 then of_int (sh div 16) else 0) :: u32;
          imm16 = ucast (LeftShift imm 16 5) :: u32
      in a64_Emit (MoveWideImmediateFixed OR MoveWideImmediateOp_code op OR sf_of rd OR LeftShift sh' 2 21 OR imm16 OR Rd_field rd))"

definition a64_movk :: "A64Register \<Rightarrow> u64 \<Rightarrow> int \<Rightarrow> a64_op" where "a64_movk rd imm sh = MoveWide rd imm sh MOVK"
definition a64_movn :: "A64Register \<Rightarrow> u64 \<Rightarrow> int \<Rightarrow> a64_op" where "a64_movn rd imm sh = MoveWide rd imm sh MOVN"
definition a64_movz :: "A64Register \<Rightarrow> u64 \<Rightarrow> int \<Rightarrow> a64_op" where "a64_movz rd imm sh = MoveWide rd imm sh MOVZ"

section \<open>TurboAssembler\<close>

definition Low16Bits :: "u32 \<Rightarrow> u32" where "Low16Bits v = v AND 0xffff"
definition High16Bits :: "u32 \<Rightarrow> u32" where "High16Bits v = signed_drop_bit 16 v"
definition Low32Bits :: "u64 \<Rightarrow> u32" where "Low32Bits v = ucast v"
definition High32Bits :: "u64 \<Rightarrow> u32" where "High32Bits v = ucast (signed_drop_bit 32 v)"

definition a64_Mov :: "A64Register \<Rightarrow> u64 \<Rightarrow> a64_op" where
  "a64_Mov rd imm =
     (let w0 = Low32Bits imm; w1 = High32Bits imm;
          h0 = ucast (Low16Bits w0) :: u16; h1 = ucast (High16Bits w0) :: u16;
          h2 = ucast (Low16Bits w1) :: u16; h3 = ucast (High16Bits w1) :: u16
      in do_all [a64_movz rd (ucast h0) 0, a64_movk rd (ucast h1) 16, a64_movk rd (ucast h2) 32, a64_movk rd (ucast h3) 48])"

definition a64_AdrpAdd :: "A64Register \<Rightarrow> u64 \<Rightarrow> u64 \<Rightarrow> a64_op" where
  "a64_AdrpAdd rd from to =
     (let from_PAGE = ALIGN_FLOOR from 0x1000; to_PAGE = ALIGN_FLOOR to 0x1000; to_PAGEOFF = to mod 0x1000
      in do_all [a64_adrp rd (to_PAGE - from_PAGE), a64_add rd rd to_PAGEOFF])"

definition a64_CallFunction :: "u64 \<Rightarrow> a64_op" where
  "a64_CallFunction function = do_all [a64_Mov TMP_REG_0 function, a64_blr TMP_REG_0]"

subsection \<open>Pseudo labels\<close>

definition new_PseudoLabel :: PseudoLabel where
  "new_PseudoLabel = \<lparr>pos_raw = 0, near_link = 0, pl_instructions = []\<rparr>"

definition new_a64_RelocLabelEntry :: "u64 \<Rightarrow> A64RelocLabelEntry" where
  "new_a64_RelocLabelEntry d = \<lparr>pos_raw = 0, near_link = 0, pl_instructions = [], rl_data = d\<rparr>"

definition a64_has_confused_instructions :: "'a PseudoLabel_scheme \<Rightarrow> bool" where
  "a64_has_confused_instructions l \<longleftrightarrow> length (pl_instructions l) > 0"

definition a64_link_to :: "int \<Rightarrow> A64PseudoLabelType \<Rightarrow> 'a PseudoLabel_scheme \<Rightarrow> 'a PseudoLabel_scheme" where
  "a64_link_to p t l = l\<lparr>pl_instructions := pl_instructions l @ [\<lparr>pli_position = p, pli_type = t\<rparr>]\<rparr>"

definition a64_link_confused_instruction :: "'a PseudoLabel_scheme \<Rightarrow> A64PseudoLabelInstruction \<Rightarrow> a64_op" where
  "a64_link_confused_instruction l i a =
     (let offset = of_int (label_pos l - pli_position i) :: u32
      in rbind (load_inst (pli_position i) a) (\<lambda>inst32.
           case pli_type i of
             kLdrLiteral \<Rightarrow> fix_bytes (pli_position i)
                (le_bytes 4 ((inst32 AND 0xFF00001F) OR LeftShift (signed_drop_bit 2 offset) 19 5)) a))"

definition a64_link_confused_instructions :: "'a PseudoLabel_scheme \<Rightarrow> a64_op" where
  "a64_link_confused_instructions l = rfold (a64_link_confused_instruction l) (pl_instructions l)"

definition a64_Ldr :: "A64Register \<Rightarrow> 'a PseudoLabel_scheme \<Rightarrow> a64_asm \<Rightarrow> ('a PseudoLabel_scheme \<times> a64_asm) result" where
  "a64_Ldr rt label a =
     (if is_bound label
      then rbind (a64_ldr_literal rt (of_int (label_pos label - int (length (asm_buffer a)))) a) (\<lambda>a'. Inr (label, a'))
      else rbind (a64_ldr_literal rt 0 a) (\<lambda>a'. Inr (a64_link_to (int (length (asm_buffer a))) kLdrLiteral label, a')))"

definition a64_PseudoBind :: "'a PseudoLabel_scheme \<Rightarrow> a64_asm \<Rightarrow> ('a PseudoLabel_scheme \<times> a64_asm) result" where
  "a64_PseudoBind l a =
     (let l' = bind_to (int (length (asm_buffer a))) l
      in if a64_has_confused_instructions l'
         then rbind (a64_link_confused_instructions l' a) (\<lambda>a'. Inr (l', a'))
         else Inr (l', a))"

fun a64_reloc_bind_labels :: "A64RelocLabelEntry list \<Rightarrow> a64_asm \<Rightarrow> (A64RelocLabelEntry list \<times> a64_asm) result" where
  "a64_reloc_bind_labels [] a = Inr ([], a)"
| "a64_reloc_bind_labels (l # ls) a =
     rbind (a64_PseudoBind l a) (\<lambda>(l', a1).
     rbind (a64_EmitInt64 (rl_data l') a1) (\<lambda>a2.
     rbind (a64_reloc_bind_labels ls a2) (\<lambda>(ls', a3). Inr (l' # ls', a3))))"

definition a64_RelocBind :: a64_op where
  "a64_RelocBind a =
     (case a64_data_labels a of
        None \<Rightarrow> Inr a
      | Some ls \<Rightarrow> rbind (a64_reloc_bind_labels ls a) (\<lambda>(ls', a'). Inr (a'\<lparr>a64_data_labels := Some ls'\<rparr>)))"

definition a64_AppendRelocLabelEntry :: "A64RelocLabelEntry \<Rightarrow> a64_op" where
  "a64_AppendRelocLabelEntry l a =
     Inr (a\<lparr>a64_data_labels := Some ((case a64_data_labels a of None \<Rightarrow> [] | Some ls \<Rightarrow> ls) @ [l])\<rparr>)"

text \<open>\<^verbatim>\<open>Ldr\<close> on a label that is already in \<^verbatim>\<open>data_labels_\<close>, through the shared pointer: index \<open>k\<close> of the array.\<close>

definition a64_Ldr_shared :: "A64Register \<Rightarrow> nat \<Rightarrow> a64_op" where
  "a64_Ldr_shared rt k a =
     (case a64_data_labels a of
        None \<Rightarrow> Inl BAD_POINTER
      | Some ls \<Rightarrow>
          (if k < length ls
           then rbind (a64_Ldr rt (ls ! k) a) (\<lambda>(l, a'). Inr (a'\<lparr>a64_data_labels := Some (ls[k := l])\<rparr>))
           else Inl BAD_POINTER))"

section \<open>CodeGen\<close>

definition LiteralLdrBranch :: "u64 \<Rightarrow> a64_op" where
  "LiteralLdrBranch address a =
     rbind (a64_Ldr TMP_REG_0 new_PseudoLabel a) (\<lambda>(address_ptr, a1).
     rbind (a64_br TMP_REG_0 a1) (\<lambda>a2.
     rbind (a64_PseudoBind address_ptr a2) (\<lambda>(_, a3). a64_EmitInt64 address a3)))"

end
