(* ===== verification/A64_Relocation.thy ===== *)
theory A64_Relocation
  imports A64_Assembler Code_Patch
begin

text \<open>
  \<^verbatim>\<open>ARM64InstructionRelocation.cc\<close>: moving the first instructions of a hooked AArch64 function to a code chunk.
  \<open>mem\<close> is the memory from \<^verbatim>\<open>buffer\<close> on; \<open>dbg\<close> says whether \<^verbatim>\<open>DOBBY_DEBUG\<close> is defined, in which case each
  relocated sequence stands between two \<^verbatim>\<open>nop\<close>.
\<close>

section \<open>Decoding\<close>

definition CompareBranchFixed :: u32 where "CompareBranchFixed = 0x34000000"
definition CompareBranchFixedMask :: u32 where "CompareBranchFixedMask = 0x7E000000"
definition ConditionalBranchFixed :: u32 where "ConditionalBranchFixed = 0x54000000"
definition ConditionalBranchFixedMask :: u32 where "ConditionalBranchFixedMask = 0xFE000000"
definition TestBranchFixed :: u32 where "TestBranchFixed = 0x36000000"
definition TestBranchFixedMask :: u32 where "TestBranchFixedMask = 0x7E000000"

lemmas a64_branch_constants = CompareBranchFixed_def CompareBranchFixedMask_def ConditionalBranchFixed_def
  ConditionalBranchFixedMask_def TestBranchFixed_def TestBranchFixedMask_def

definition SignExtend :: "u64 \<Rightarrow> nat \<Rightarrow> nat \<Rightarrow> u64" where
  "SignExtend x M N = signed_drop_bit (N - M) (push_bit (N - M) x)"

definition decode_imm14_offset :: "u32 \<Rightarrow> u64" where
  "decode_imm14_offset instr = SignExtend (push_bit 2 (ucast (bits_of instr 5 18))) (2 + 14) 64"

definition decode_imm19_offset :: "u32 \<Rightarrow> u64" where
  "decode_imm19_offset instr = SignExtend (push_bit 2 (ucast (bits_of instr 5 23))) (2 + 19) 64"

definition decode_imm26_offset :: "u32 \<Rightarrow> u64" where
  "decode_imm26_offset instr = SignExtend (push_bit 2 (ucast (bits_of instr 0 25))) (2 + 26) 64"

definition decode_immhi_immlo_offset :: "u32 \<Rightarrow> u64" where
  "decode_immhi_immlo_offset instr =
     SignExtend (ucast (bits_of instr 29 30 + push_bit 2 (bits_of instr 5 23))) (2 + 19) 64"

definition decode_immhi_immlo_zero12_offset :: "u32 \<Rightarrow> u64" where
  "decode_immhi_immlo_zero12_offset instr = push_bit 12 (decode_immhi_immlo_offset instr)"

definition decode_rt :: "u32 \<Rightarrow> u32" where "decode_rt instr = bits_of instr 0 4"
definition decode_rd :: "u32 \<Rightarrow> u32" where "decode_rd instr = bits_of instr 0 4"

section \<open>One instruction\<close>

definition debug_nop :: "bool \<Rightarrow> a64_op" where
  "debug_nop dbg = (if dbg then a64_nop else Inr)"

definition label_count :: "a64_asm \<Rightarrow> nat" where
  "label_count a = (case a64_data_labels a of None \<Rightarrow> 0 | Some ls \<Rightarrow> length ls)"

text \<open>
  The common tail of the branch cases: a label for the branch address, the emitted head, and
  \<^verbatim>\<open>ldr x17, label\<close> followed by a branch to \<^verbatim>\<open>x17\<close>.
\<close>

definition relocate_branch :: "bool \<Rightarrow> u64 \<Rightarrow> a64_op \<Rightarrow> a64_op \<Rightarrow> a64_op" where
  "relocate_branch dbg branch_address head tail a =
     do_all [a64_AppendRelocLabelEntry (new_a64_RelocLabelEntry branch_address), debug_nop dbg, head,
             a64_Ldr_shared TMP_REG_0 (label_count a), tail, debug_nop dbg] a"

definition a64_relocate_insn :: "bool \<Rightarrow> u64 \<Rightarrow> u32 \<Rightarrow> a64_op" where
  "a64_relocate_insn dbg curr_orig_pc instr =
     (if instr AND LoadRegLiteralFixedMask = LoadRegLiteralFixed
      then (let rt = decode_rt instr; opc = bits_of instr 30 31; memory_address = decode_imm19_offset instr + curr_orig_pc
            in do_all [debug_nop dbg, a64_Mov TMP_REG_0 memory_address,
                       (if opc = 0 then a64_ldr (Wreg rt) (MemOperand_offset TMP_REG_0 0 AddrOffset)
                        else if opc = 1 then a64_ldr (Xreg rt) (MemOperand_offset TMP_REG_0 0 AddrOffset)
                        else (\<lambda>_. Inl UNIMPLEMENTED)),
                       debug_nop dbg])
      else if instr AND PCRelAddressingFixedMask = PCRelAddressingFixed
      then (let runtime_address = (if instr AND PCRelAddressingMask = ADR_op
                                   then curr_orig_pc + decode_immhi_immlo_offset instr
                                   else ALIGN_FLOOR curr_orig_pc (push_bit 12 1) + decode_immhi_immlo_zero12_offset instr)
            in do_all [debug_nop dbg, a64_Mov (Xreg (decode_rd instr)) runtime_address, debug_nop dbg])
      else if instr AND UnconditionalBranchFixedMask = UnconditionalBranchFixed
      then relocate_branch dbg (decode_imm26_offset instr + curr_orig_pc) Inr
             (if instr AND UnconditionalBranchMask = BL_op then a64_blr TMP_REG_0 else a64_br TMP_REG_0)
      else if instr AND TestBranchFixedMask = TestBranchFixed
      then (let branch_instr = set_bits_of (set_bit_of instr 24 (bit_of instr 24 XOR 1)) 5 18 3
            in relocate_branch dbg (decode_imm14_offset instr + curr_orig_pc) (a64_Emit branch_instr) (a64_br TMP_REG_0))
      else if instr AND CompareBranchFixedMask = CompareBranchFixed
      then (let branch_instr = set_bits_of (set_bit_of instr 24 (bit_of instr 24 XOR 1)) 5 23 3
            in relocate_branch dbg (decode_imm19_offset instr + curr_orig_pc) (a64_Emit branch_instr) (a64_br TMP_REG_0))
      else if instr AND ConditionalBranchFixedMask = ConditionalBranchFixed
      then (let branch_instr = set_bits_of (set_bits_of instr 0 3 (bits_of instr 0 3 XOR 1)) 5 23 3
            in relocate_branch dbg (decode_imm19_offset instr + curr_orig_pc) (a64_Emit branch_instr) (a64_br TMP_REG_0))
      else a64_Emit instr)"

section \<open>The relocator\<close>

definition read_inst :: "u8 list \<Rightarrow> nat \<Rightarrow> u32 result" where
  "read_inst mem cur = (if cur + 4 \<le> length mem then Inr (le_word (take 4 (drop cur mem))) else Inl OVERREAD)"

text \<open>The instruction for the next round is read at the end of the loop body, also after the last one.\<close>

function (sequential) a64_relocate_loop ::
  "bool \<Rightarrow> u8 list \<Rightarrow> nat \<Rightarrow> nat \<Rightarrow> u64 \<Rightarrow> u32 \<Rightarrow> a64_asm \<Rightarrow> (u64 \<times> a64_asm) result" where
  "a64_relocate_loop dbg mem predefined cur curr_orig_pc instr a =
     (if cur < predefined
      then rbind (a64_relocate_insn dbg curr_orig_pc instr a) (\<lambda>a'.
           rbind (read_inst mem (cur + 4)) (\<lambda>instr'.
             a64_relocate_loop dbg mem predefined (cur + 4) (curr_orig_pc + 4) instr' a'))
      else Inr (curr_orig_pc, a))"
  by pat_completeness auto
termination
  by (relation "measure (\<lambda>(dbg, mem, predefined, cur, pc, instr, a). predefined - cur)") auto

declare a64_relocate_loop.simps [simp del]

text \<open>The code that the relocator builds, before it is given a place.\<close>

definition a64_relocated_code :: "bool \<Rightarrow> u8 list \<Rightarrow> MemoryChunk \<Rightarrow> a64_asm result" where
  "a64_relocated_code dbg mem origin =
     rbind (read_inst mem 0) (\<lambda>instr.
     rbind (a64_relocate_loop dbg mem (nat (sint (ucast (raw_instruction_size origin) :: u32))) 0
              (raw_instruction_start origin) instr (new_a64_TurboAssembler 0)) (\<lambda>(curr_orig_pc, a).
     rbind (LiteralLdrBranch curr_orig_pc a) a64_RelocBind))"

text \<open>\<^verbatim>\<open>code->raw_instruction_start()\<close> is called without a test that there is a chunk.\<close>

definition a64_GenRelocateCodeAndBranch ::
  "bool \<Rightarrow> u64 \<Rightarrow> u64 \<Rightarrow> u8 list \<Rightarrow> MemoryChunk \<Rightarrow> process \<Rightarrow> (MemoryChunk \<times> process) result" where
  "a64_GenRelocateCodeAndBranch dbg pageSize fresh mem origin st =
     rbind (a64_relocated_code dbg mem origin) (\<lambda>a.
     rbind (FinalizeFromTurboAssembler pageSize fresh 4 a st) (\<lambda>(code, _, st').
       case code of
         None \<Rightarrow> Inl BAD_POINTER
       | Some c \<Rightarrow> Inr (init_region_range (raw_instruction_start c) (ucast (raw_instruction_size c)), st')))"

end
