(* ===== verification/A64_Closure.thy ===== *)
theory A64_Closure
  imports A64_Assembler Code_Patch
begin

text \<open>
  The closure trampoline and the closure bridge of AArch64 (\<^verbatim>\<open>ARM64AssemblyClosureTrampoline.cc\<close>,
  \<^verbatim>\<open>closure-bridge-arm64.cc\<close>, \<^verbatim>\<open>helper-arm64.cc\<close>). \<open>full\<close> says whether \<^verbatim>\<open>FULL_FLOATING_POINT_REGISTER_PACK\<close> is
  defined; \<^verbatim>\<open>ENABLE_CLOSURE_BRIDGE_TEMPLATE\<close> is off, as in the build.
\<close>

section \<open>The bridge\<close>

definition MEM :: "A64Register \<Rightarrow> u64 \<Rightarrow> MemOperand" where
  "MEM reg off = MemOperand_offset reg off AddrOffset"

definition MEM_EXT :: "A64Register \<Rightarrow> u64 \<Rightarrow> AddrMode \<Rightarrow> MemOperand" where
  "MEM_EXT reg off md = MemOperand_offset reg off md"

text \<open>Pairs of registers are stored from the highest down and loaded, with post-increment, from the lowest up.\<close>

definition stp_pairs :: "(u32 \<Rightarrow> A64Register) \<Rightarrow> u32 list \<Rightarrow> u64 \<Rightarrow> a64_op list" where
  "stp_pairs R codes sz = map (\<lambda>(k, c). a64_stp (R c) (R (c + 1)) (MEM SP_reg (2 * of_nat k * sz))) (rev (enumerate 0 codes))"

definition ldp_pairs :: "(u32 \<Rightarrow> A64Register) \<Rightarrow> u32 list \<Rightarrow> u64 \<Rightarrow> a64_op list" where
  "ldp_pairs R codes sz = map (\<lambda>c. a64_ldp (R c) (R (c + 1)) (MEM_EXT SP_reg (2 * sz) PostIndex)) codes"

definition q_low :: "u32 list" where "q_low = [0, 2, 4, 6]"
definition q_high :: "u32 list" where "q_high = [8, 10, 12, 14, 16, 18, 20, 22, 24, 26, 28, 30]"
definition x_saved :: "u32 list" where "x_saved = [1, 3, 5, 7, 9, 11, 13, 15, 17, 19, 21, 23, 25, 27, 29]"

definition a64_bridge_save :: "bool \<Rightarrow> a64_op list" where
  "a64_bridge_save full =
     (if full then a64_sub SP_reg SP_reg (24 * 16) # stp_pairs Qreg q_high 16 else [])
     @ a64_sub SP_reg SP_reg (8 * 16) # stp_pairs Qreg q_low 16
     @ a64_sub SP_reg SP_reg (30 * 8) # stp_pairs Xreg x_saved 8
     @ [a64_sub SP_reg SP_reg (2 * 8), a64_str (Xreg 0) (MEM SP_reg 8)]"

text \<open>\<^verbatim>\<open>sizeof(RegisterContext)\<close>: three words, \<^verbatim>\<open>x0\<close> to \<^verbatim>\<open>x28\<close>, \<^verbatim>\<open>fp\<close>, \<^verbatim>\<open>lr\<close> and the 32 vector registers.\<close>

definition sizeof_a64_RegisterContext :: u64 where
  "sizeof_a64_RegisterContext = 3 * 8 + 29 * 8 + 2 * 8 + 32 * 16"

definition REGISTER_CONTEXT_SIZE :: "bool \<Rightarrow> u64" where
  "REGISTER_CONTEXT_SIZE full = (if full then sizeof_a64_RegisterContext else sizeof_a64_RegisterContext - 24 * 16)"

definition a64_bridge_call :: "bool \<Rightarrow> u64 \<Rightarrow> a64_op list" where
  "a64_bridge_call full handler =
     [a64_add TMP_REG_0 SP_reg (2 * 8), a64_add TMP_REG_0 TMP_REG_0 (2 * 8 + 30 * 8 + 8 * 16)]
     @ (if full then [a64_add TMP_REG_0 TMP_REG_0 (24 * 16)] else [])
     @ [a64_sub SP_reg SP_reg (2 * 8), a64_str TMP_REG_0 (MEM SP_reg 8),
        a64_mov (Xreg 0) SP_reg, a64_ldr (Xreg 1) (MEM SP_reg (REGISTER_CONTEXT_SIZE full + 0)), a64_CallFunction handler]"

definition a64_bridge_restore :: "bool \<Rightarrow> a64_op list" where
  "a64_bridge_restore full =
     [a64_add SP_reg SP_reg (2 * 8), a64_ldr (Xreg 0) (MEM SP_reg 8), a64_add SP_reg SP_reg (2 * 8)]
     @ ldp_pairs Xreg x_saved 8 @ ldp_pairs Qreg q_low 16
     @ (if full then ldp_pairs Qreg q_high 16 else []) @ [a64_ret]"

definition a64_closure_bridge_code :: "bool \<Rightarrow> u64 \<Rightarrow> a64_op" where
  "a64_closure_bridge_code full handler = do_all (a64_bridge_save full @ a64_bridge_call full handler @ a64_bridge_restore full)"

definition a64_get_closure_bridge :: "bool \<Rightarrow> u64 \<Rightarrow> u64 \<Rightarrow> u64 \<Rightarrow> process \<Rightarrow> (ptr \<times> process) result" where
  "a64_get_closure_bridge full pageSize fresh handler st =
     (if pr_closure_bridge st \<noteq> 0 then Inr (pr_closure_bridge st, st)
      else rbind (a64_closure_bridge_code full handler (new_a64_TurboAssembler 0)) (\<lambda>a.
           rbind (FinalizeFromTurboAssembler pageSize fresh 4 a st) (\<lambda>(code, _, st').
             case code of
               None \<Rightarrow> Inl BAD_POINTER
             | Some c \<Rightarrow> Inr (raw_instruction_start c, st'\<lparr>pr_closure_bridge := raw_instruction_start c\<rparr>))))"

section \<open>The trampoline\<close>

definition a64_closure_trampoline_code :: "ptr \<Rightarrow> ptr \<Rightarrow> a64_op" where
  "a64_closure_trampoline_code entry bridge a =
     rbind (do_all [a64_sub SP_reg SP_reg (2 * 8), a64_str (Xreg 30) (MEM SP_reg 8)] a) (\<lambda>a1.
     rbind (a64_Ldr TMP_REG_0 new_PseudoLabel a1) (\<lambda>(entry_label, a2).
     rbind (a64_str TMP_REG_0 (MEM SP_reg 0) a2) (\<lambda>a3.
     rbind (a64_Ldr TMP_REG_0 new_PseudoLabel a3) (\<lambda>(forward_bridge_label, a4).
     rbind (do_all [a64_blr TMP_REG_0, a64_ldr (Xreg 30) (MEM SP_reg 8), a64_add SP_reg SP_reg (2 * 8), a64_br TMP_REG_0] a4) (\<lambda>a5.
     rbind (a64_PseudoBind entry_label a5) (\<lambda>(_, a6).
     rbind (a64_EmitInt64 entry a6) (\<lambda>a7.
     rbind (a64_PseudoBind forward_bridge_label a7) (\<lambda>(_, a8). a64_EmitInt64 bridge a8))))))))"

text \<open>The bridge is built, if need be, when its address is emitted.\<close>

definition a64_CreateClosureTrampoline ::
  "bool \<Rightarrow> u64 \<Rightarrow> u64 \<Rightarrow> u64 \<Rightarrow> u64 \<Rightarrow> ptr \<Rightarrow> ptr \<Rightarrow> ptr \<Rightarrow> process \<Rightarrow> (ClosureTrampolineEntry \<times> process) result" where
  "a64_CreateClosureTrampoline full pageSize bridge_page own_page handler entry data carried st =
     rbind (a64_get_closure_bridge full pageSize bridge_page handler st) (\<lambda>(bridge, st1).
     rbind (a64_closure_trampoline_code entry bridge (new_a64_TurboAssembler 0)) (\<lambda>a.
     rbind (FinalizeFromTurboAssembler pageSize own_page 4 a st1) (\<lambda>(code, _, st2).
       case code of
         None \<Rightarrow> Inl BAD_POINTER
       | Some c \<Rightarrow>
           (let cte = \<lparr>carry_handler = carried, carry_data = data, cte_address = raw_instruction_start c,
                       cte_size = raw_instruction_size c\<rparr>
            in Inr (cte, st2\<lparr>pr_closures := (pr_closures st2)(entry \<mapsto> cte)\<rparr>)))))"

section \<open>The handler side\<close>

text \<open>\<^verbatim>\<open>ctx->general.x[17]\<close>, three words into the context. \<open>mem\<close> reads the stack by words.\<close>

definition a64_ctx_x :: "u64 \<Rightarrow> nat \<Rightarrow> u64" where
  "a64_ctx_x ctx r = ctx + 3 * 8 + 8 * of_nat r"

definition a64_set_routing_bridge_next_hop :: "u64 \<Rightarrow> ptr \<Rightarrow> (u64 \<Rightarrow> u64) \<Rightarrow> u64 \<Rightarrow> u64" where
  "a64_set_routing_bridge_next_hop ctx address mem = mem(a64_ctx_x ctx (unat (r_code TMP_REG_0)) := address)"

end
