(* ===== verification/A64_Hook.thy ===== *)
theory A64_Hook
  imports A64_Relocation A64_Closure Intercept_Routing
begin

text \<open>
  The AArch64 back end of the routing: the trampolines of \<^verbatim>\<open>trampoline-arm64.cc\<close>, the relocator and the closure
  trampoline.
\<close>

section \<open>Trampolines\<close>

definition llabs :: "u64 \<Rightarrow> u64" where
  "llabs x = (if sint x < 0 then - x else x)"

definition adrp_range :: u64 where
  "adrp_range = push_bit (2 + 19 + 12 - 1) 1"

definition a64_GenerateNormalTrampolineBuffer :: "u64 \<Rightarrow> u64 \<Rightarrow> u8 list result" where
  "a64_GenerateNormalTrampolineBuffer from to =
     (let a = new_a64_TurboAssembler from; distance = llabs (from - to)
      in rbind (if distance < adrp_range then do_all [a64_AdrpAdd TMP_REG_0 from to, a64_br TMP_REG_0] a
                else LiteralLdrBranch to a) (\<lambda>a'. Inr (asm_buffer a')))"

definition ARM64_B_XXX_RANGE :: u64 where
  "ARM64_B_XXX_RANGE = push_bit 2 (push_bit 25 1)"

text \<open>
  The chunk for the short form is asked for first; when the target is too far from it, it is left allocated
  and a second one is asked for.
\<close>

definition GenerateFastForwardTrampoline ::
  "'e hook_env_scheme \<Rightarrow> u64 \<Rightarrow> u64 \<Rightarrow> process \<Rightarrow> (MemoryChunk option \<times> process) result option" where
  "GenerateFastForwardTrampoline env source_address target st =
     robind (Near_AllocateCodeChunk (env_fuel env) (near_part env) source_address ARM64_B_XXX_RANGE (3 * 4) (pr_near st))
       (\<lambda>(c, near1). let st1 = with_near near1 st; a0 = new_a64_TurboAssembler 0 in
         case c of
           None \<Rightarrow> Some (Inr (None, st1))
         | Some cchunk \<Rightarrow>
             robind
               (if llabs (range_address cchunk - target) < adrp_range
                then Some (rbind (do_all [a64_AdrpAdd TMP_REG_0 (range_address cchunk) target, a64_br TMP_REG_0] a0)
                             (\<lambda>a. Inr (Some cchunk, a, st1)))
                else robind (Some (do_all [a64_Mov TMP_REG_0 target, a64_br TMP_REG_0] a0)) (\<lambda>a.
                     robind (Near_AllocateCodeChunk (env_fuel env) (near_part env) source_address ARM64_B_XXX_RANGE
                               (of_nat (length (asm_buffer a))) (pr_near st1))
                       (\<lambda>(c2, near2). Some (Inr (c2, a, with_near near2 st1)))))
               (\<lambda>(c', a, st2). case c' of
                  None \<Rightarrow> Some (Inr (None, st2))
                | Some ch \<Rightarrow>
                    Some (rbind (FinalizeFromTurboAssembler (env_page_size env) (env_fresh env 0) 4
                                   (SetRealizedAddress (range_address ch) a) st2) (\<lambda>(result, _, st3). Inr (result, st3)))))"

definition a64_GenerateNearTrampolineBuffer ::
  "'e hook_env_scheme \<Rightarrow> u64 \<Rightarrow> u64 \<Rightarrow> process \<Rightarrow> (u8 list option \<times> process) result option" where
  "a64_GenerateNearTrampolineBuffer env src dst st =
     (let a = new_a64_TurboAssembler src
      in if sint (llabs (dst - src)) < sint ARM64_B_XXX_RANGE
         then Some (rbind (a64_b (dst - src) a) (\<lambda>a'. Inr (Some (asm_buffer a'), st)))
         else robind (GenerateFastForwardTrampoline env src dst st) (\<lambda>(fast_forward_trampoline, st1).
                case fast_forward_trampoline of
                  None \<Rightarrow> Some (Inr (None, st1))
                | Some c \<Rightarrow> Some (rbind (a64_b (raw_instruction_start c - src) a) (\<lambda>a'. Inr (Some (asm_buffer a'), st1)))))"

section \<open>The back end\<close>

definition a64_relocate ::
  "bool \<Rightarrow> 'e hook_env_scheme \<Rightarrow> u8 list \<Rightarrow> MemoryChunk \<Rightarrow> MemoryChunk \<Rightarrow> process \<Rightarrow> (MemoryChunk \<times> MemoryChunk \<times> process) result option" where
  "a64_relocate dbg env buffer origin relocated st =
     Some (rbind (a64_GenRelocateCodeAndBranch dbg (env_page_size env) (env_fresh env 0) buffer origin st)
             (\<lambda>(relocated', st'). Inr (origin, relocated', st')))"

definition a64_closure :: "bool \<Rightarrow> 'e hook_env_scheme \<Rightarrow> ptr \<Rightarrow> ptr \<Rightarrow> process \<Rightarrow> (ClosureTrampolineEntry \<times> process) result option" where
  "a64_closure full env data handler st =
     Some (a64_CreateClosureTrampoline full (env_page_size env) (env_bridge_page env) (env_closure_page env)
             (env_bridge_handler env) (env_new_closure env) data handler st)"

definition a64_backend :: "bool \<Rightarrow> bool \<Rightarrow> 'e backend" where
  "a64_backend dbg full = \<lparr>be_normal = (\<lambda>env src dst st. Some (rbind (a64_GenerateNormalTrampolineBuffer src dst) (\<lambda>tb. Inr (tb, st)))),
     be_near = a64_GenerateNearTrampolineBuffer, be_relocate = a64_relocate dbg, be_closure = a64_closure full\<rparr>"

end
