(* ===== verification/A64_Machine.thy ===== *)
theory A64_Machine
  imports A64_Assembler Code_Patch
begin

text \<open>
  The part of the AArch64 architecture that the generated code relies on: what the program-counter relative
  instructions, the branches, the wide moves and the simple loads do. The encodings are those of the
  architecture manual. Every other instruction is the parameter \<open>other\<close> of the machine.
\<close>

record a64_cpu =
  xr :: "nat \<Rightarrow> u64"
  xsp :: u64
  xpc :: u64
  nzcv :: "bool \<times> bool \<times> bool \<times> bool"
  xmem :: "u64 \<Rightarrow> u8"

type_synonym a64_other = "u32 \<Rightarrow> a64_cpu \<Rightarrow> a64_cpu"

text \<open>Register 31 reads as zero and ignores writes, or is the stack pointer.\<close>

definition get_x :: "nat \<Rightarrow> a64_cpu \<Rightarrow> u64" where
  "get_x r s = (if r = 31 then 0 else xr s r)"

definition set_x :: "nat \<Rightarrow> u64 \<Rightarrow> a64_cpu \<Rightarrow> a64_cpu" where
  "set_x r v s = (if r = 31 then s else s\<lparr>xr := (xr s)(r := v)\<rparr>)"

definition get_xsp :: "nat \<Rightarrow> a64_cpu \<Rightarrow> u64" where
  "get_xsp r s = (if r = 31 then xsp s else xr s r)"

definition set_xsp :: "nat \<Rightarrow> u64 \<Rightarrow> a64_cpu \<Rightarrow> a64_cpu" where
  "set_xsp r v s = (if r = 31 then s\<lparr>xsp := v\<rparr> else s\<lparr>xr := (xr s)(r := v)\<rparr>)"

definition f_reg :: "nat \<Rightarrow> u32 \<Rightarrow> nat" where
  "f_reg st i = unat (field st 5 i)"

definition f_signed :: "nat \<Rightarrow> nat \<Rightarrow> u32 \<Rightarrow> u64" where
  "f_signed st n i = signed_take_bit (n - 1) (ucast (field st n i))"

definition fetch32 :: "(u64 \<Rightarrow> u8) \<Rightarrow> u64 \<Rightarrow> u32" where
  "fetch32 m a = le_word (load_mem m a 4)"

definition fetch64 :: "(u64 \<Rightarrow> u8) \<Rightarrow> u64 \<Rightarrow> u64" where
  "fetch64 m a = le_word (load_mem m a 8)"

section \<open>Branches\<close>

fun cond_base :: "nat \<Rightarrow> bool \<times> bool \<times> bool \<times> bool \<Rightarrow> bool" where
  "cond_base k (n, z, c, v) =
     (if k = 0 then z else if k = 1 then c else if k = 2 then n else if k = 3 then v
      else if k = 4 then c \<and> \<not> z else if k = 5 then n = v else if k = 6 then n = v \<and> \<not> z else True)"

text \<open>Conditions 14 and 15 both mean always.\<close>

definition cond_holds :: "u32 \<Rightarrow> a64_cpu \<Rightarrow> bool" where
  "cond_holds c s = (let b = cond_base (unat (drop_bit 1 c)) (nzcv s) in if bit c 0 \<and> c \<noteq> 15 then \<not> b else b)"

definition f_top :: "u32 \<Rightarrow> u32" where "f_top i = field 24 8 i"

definition is_B :: "u32 \<Rightarrow> bool" where "is_B i \<longleftrightarrow> f_top i AND 0xFC = 0x14"
definition is_BL :: "u32 \<Rightarrow> bool" where "is_BL i \<longleftrightarrow> f_top i AND 0xFC = 0x94"
definition is_TB :: "u32 \<Rightarrow> bool" where "is_TB i \<longleftrightarrow> f_top i AND 0x7E = 0x36"
definition is_CB :: "u32 \<Rightarrow> bool" where "is_CB i \<longleftrightarrow> f_top i AND 0x7E = 0x34"
definition is_Bcond :: "u32 \<Rightarrow> bool" where "is_Bcond i \<longleftrightarrow> f_top i = 0x54 \<and> field 4 1 i = 0"
definition is_BR :: "u32 \<Rightarrow> bool" where "is_BR i \<longleftrightarrow> f_top i = 0xD6 \<and> field 10 14 i = 0x07C0 \<and> field 0 5 i = 0"
definition is_BLR :: "u32 \<Rightarrow> bool" where "is_BLR i \<longleftrightarrow> f_top i = 0xD6 \<and> field 10 14 i = 0x0FC0 \<and> field 0 5 i = 0"
definition is_RET :: "u32 \<Rightarrow> bool" where "is_RET i \<longleftrightarrow> f_top i = 0xD6 \<and> field 10 14 i = 0x17C0 \<and> field 0 5 i = 0"

definition tb_zero :: "u32 \<Rightarrow> a64_cpu \<Rightarrow> bool" where
  "tb_zero i s \<longleftrightarrow> \<not> bit (get_x (f_reg 0 i) s) (unat (field 31 1 i) * 32 + unat (field 19 5 i))"

definition cb_zero :: "u32 \<Rightarrow> a64_cpu \<Rightarrow> bool" where
  "cb_zero i s \<longleftrightarrow> (if bit i 31 then get_x (f_reg 0 i) s = 0 else (ucast (get_x (f_reg 0 i) s) :: u32) = 0)"

text \<open>Where the instruction transfers control to, if it does not fall through.\<close>

definition a64_target :: "u32 \<Rightarrow> a64_cpu \<Rightarrow> u64 option" where
  "a64_target i s =
     (if is_B i \<or> is_BL i then Some (xpc s + push_bit 2 (f_signed 0 26 i))
      else if is_TB i then (if tb_zero i s \<noteq> bit i 24 then Some (xpc s + push_bit 2 (f_signed 5 14 i)) else None)
      else if is_CB i then (if cb_zero i s \<noteq> bit i 24 then Some (xpc s + push_bit 2 (f_signed 5 19 i)) else None)
      else if is_Bcond i then (if cond_holds (field 0 4 i) s then Some (xpc s + push_bit 2 (f_signed 5 19 i)) else None)
      else if is_BR i \<or> is_BLR i \<or> is_RET i then Some (get_x (f_reg 5 i) s)
      else None)"

definition a64_links :: "u32 \<Rightarrow> bool" where
  "a64_links i \<longleftrightarrow> is_BL i \<or> is_BLR i"

definition a64_branches :: "u32 \<Rightarrow> bool" where
  "a64_branches i \<longleftrightarrow> is_B i \<or> is_BL i \<or> is_TB i \<or> is_CB i \<or> is_Bcond i \<or> is_BR i \<or> is_BLR i \<or> is_RET i"

section \<open>Data\<close>

definition is_PCREL :: "u32 \<Rightarrow> bool" where "is_PCREL i \<longleftrightarrow> f_top i AND 0x1F = 0x10"
definition is_LDRlit :: "u32 \<Rightarrow> bool" where "is_LDRlit i \<longleftrightarrow> f_top i = 0x58"
definition is_LDRlit32 :: "u32 \<Rightarrow> bool" where "is_LDRlit32 i \<longleftrightarrow> f_top i = 0x18"

definition pcrel_imm :: "u32 \<Rightarrow> u64" where
  "pcrel_imm i = signed_take_bit 20 (ucast (field 29 2 i OR push_bit 2 (field 5 19 i)))"

definition insert16 :: "nat \<Rightarrow> u32 \<Rightarrow> u64 \<Rightarrow> u64" where
  "insert16 sh v x = (x AND NOT (push_bit sh 0xFFFF)) OR push_bit sh (ucast v)"

text \<open>What the instruction does to the registers and to memory, the program counter apart.\<close>

definition a64_data :: "a64_other \<Rightarrow> u32 \<Rightarrow> a64_cpu \<Rightarrow> a64_cpu" where
  "a64_data other i s =
     (if a64_links i then set_x 30 (xpc s + 4) s
      else if a64_branches i then s
      else if is_PCREL i
      then set_x (f_reg 0 i) (if bit i 31 then ALIGN_FLOOR (xpc s) 0x1000 + push_bit 12 (pcrel_imm i) else xpc s + pcrel_imm i) s
      else if is_LDRlit i then set_x (f_reg 0 i) (fetch64 (xmem s) (xpc s + push_bit 2 (f_signed 5 19 i))) s
      else if is_LDRlit32 i then set_x (f_reg 0 i) (ucast (fetch32 (xmem s) (xpc s + push_bit 2 (f_signed 5 19 i)))) s
      else if field 23 9 i = 0x1A5 then set_x (f_reg 0 i) (push_bit (16 * unat (field 21 2 i)) (ucast (field 5 16 i))) s
      else if field 23 9 i = 0x1E5
      then set_x (f_reg 0 i) (insert16 (16 * unat (field 21 2 i)) (field 5 16 i) (get_x (f_reg 0 i) s)) s
      else if field 22 10 i = 0x3E5
      then set_x (f_reg 0 i) (fetch64 (xmem s) (get_xsp (f_reg 5 i) s + push_bit 3 (ucast (field 10 12 i)))) s
      else if field 22 10 i = 0x244 then set_xsp (f_reg 0 i) (get_xsp (f_reg 5 i) s + ucast (field 10 12 i)) s
      else if i = 0xD503201F then s
      else other i s)"

section \<open>Execution\<close>

definition a64_exec :: "a64_other \<Rightarrow> u32 \<Rightarrow> a64_cpu \<Rightarrow> a64_cpu" where
  "a64_exec other i s = (a64_data other i s)\<lparr>xpc := (case a64_target i s of None \<Rightarrow> xpc s + 4 | Some t \<Rightarrow> t)\<rparr>"

fun a64_run :: "a64_other \<Rightarrow> nat \<Rightarrow> a64_cpu \<Rightarrow> a64_cpu" where
  "a64_run other 0 s = s"
| "a64_run other (Suc n) s = a64_run other n (a64_exec other (fetch32 (xmem s) (xpc s)) s)"

fun code_at :: "(u64 \<Rightarrow> u8) \<Rightarrow> u64 \<Rightarrow> u32 list \<Rightarrow> bool" where
  "code_at m a [] \<longleftrightarrow> True"
| "code_at m a (w # ws) \<longleftrightarrow> fetch32 m a = w \<and> code_at m (a + 4) ws"

definition inst_bytes :: "u32 list \<Rightarrow> u8 list" where
  "inst_bytes ws = concat (map (le_bytes 4) ws)"

section \<open>Reading encodings\<close>

lemma field_numeral: "field st n (numeral k :: 'a::len word) = take_bit n (drop_bit st (numeral k))"
  by (simp add: field_def)

lemma field_push_into:
  fixes a :: "'a::len word"
  assumes "st < k" and "k < st + n" and "st + n \<le> LENGTH('a)"
  shows "field st n (push_bit k a) = push_bit (k - st) (take_bit (n + st - k) a)"
  using assms by (intro bit_word_eqI) (auto simp: bit_field_iff bit_push_bit_iff bit_take_bit_iff add.commute)

lemma field_take_bit_into:
  fixes a :: "'a::len word"
  assumes "st < m" and "m \<le> st + n"
  shows "field st n (take_bit m a) = take_bit (m - st) (drop_bit st a)"
  using assms by (intro bit_word_eqI) (auto simp: bit_field_iff bit_take_bit_iff bit_drop_bit_eq)

lemma take_bit_2_cases:
  fixes w :: "'a::len word"
  obtains "take_bit 2 w = 0" | "take_bit 2 w = 1" | "take_bit 2 w = 2" | "take_bit 2 w = 3"
proof -
  have "unat (take_bit 2 w) < 4" using unat_take_bit_less [of 2 w] by simp
  then have "unat (take_bit 2 w) \<in> {0, 1, 2, 3}" by auto
  moreover have "take_bit 2 w = of_nat (unat (take_bit 2 w))" by simp
  ultimately have "take_bit 2 w = of_nat 0 \<or> take_bit 2 w = of_nat 1 \<or> take_bit 2 w = of_nat 2 \<or> take_bit 2 w = of_nat 3" by fastforce
  then show thesis using that by auto
qed

lemmas a64_field = field_or field_push_above field_take_bit_above field_push_below field_push_same field_take_bit_same field_numeral
  field_push_into field_take_bit_into

lemmas a64_classes = is_B_def is_BL_def is_TB_def is_CB_def is_Bcond_def is_BR_def is_BLR_def is_RET_def is_PCREL_def
  is_LDRlit_def is_LDRlit32_def a64_links_def a64_branches_def f_top_def

definition enc_movz :: "u32 \<Rightarrow> u32 \<Rightarrow> u32 \<Rightarrow> u32" where
  "enc_movz r h v = 0xD2800000 OR push_bit 21 (take_bit 2 h) OR push_bit 5 (take_bit 16 v) OR take_bit 5 r"

definition enc_movk :: "u32 \<Rightarrow> u32 \<Rightarrow> u32 \<Rightarrow> u32" where
  "enc_movk r h v = 0xF2800000 OR push_bit 21 (take_bit 2 h) OR push_bit 5 (take_bit 16 v) OR take_bit 5 r"

definition enc_ldr_lit :: "u32 \<Rightarrow> u32 \<Rightarrow> u32" where
  "enc_ldr_lit r v = 0x58000000 OR push_bit 5 (take_bit 19 v) OR take_bit 5 r"

definition enc_ldr :: "u32 \<Rightarrow> u32 \<Rightarrow> u32" where
  "enc_ldr t n = 0xF9400000 OR push_bit 5 (take_bit 5 n) OR take_bit 5 t"

definition enc_adrp :: "u32 \<Rightarrow> u32 \<Rightarrow> u32 \<Rightarrow> u32" where
  "enc_adrp r lo hi = 0x90000000 OR push_bit 29 (take_bit 2 lo) OR push_bit 5 (take_bit 19 hi) OR take_bit 5 r"

definition enc_add :: "u32 \<Rightarrow> u32 \<Rightarrow> u32 \<Rightarrow> u32" where
  "enc_add d n v = 0x91000000 OR push_bit 10 (take_bit 12 v) OR push_bit 5 (take_bit 5 n) OR take_bit 5 d"

definition enc_br :: "u32 \<Rightarrow> u32" where
  "enc_br n = 0xD61F0000 OR push_bit 5 (take_bit 5 n)"

definition enc_blr :: "u32 \<Rightarrow> u32" where
  "enc_blr n = 0xD63F0000 OR push_bit 5 (take_bit 5 n)"

definition enc_b :: "u32 \<Rightarrow> u32" where
  "enc_b v = 0x14000000 OR take_bit 26 v"

lemmas a64_enc = enc_movz_def enc_movk_def enc_ldr_lit_def enc_ldr_def enc_adrp_def enc_add_def enc_br_def enc_blr_def enc_b_def

lemmas a64_semantics = a64_exec_def a64_data_def a64_target_def

lemma exec_movz:
  "a64_exec other (enc_movz r h v) s =
     (set_x (unat (take_bit 5 r)) (push_bit (16 * unat (take_bit 2 h)) (ucast (take_bit 16 v))) s)\<lparr>xpc := xpc s + 4\<rparr>"
  by (simp add: a64_semantics a64_classes a64_enc a64_field f_reg_def)

lemma exec_movk:
  "a64_exec other (enc_movk r h v) s =
     (set_x (unat (take_bit 5 r)) (insert16 (16 * unat (take_bit 2 h)) (take_bit 16 v) (get_x (unat (take_bit 5 r)) s)) s)\<lparr>xpc := xpc s + 4\<rparr>"
  by (simp add: a64_semantics a64_classes a64_enc a64_field f_reg_def)

lemma exec_ldr_lit:
  "a64_exec other (enc_ldr_lit r v) s =
     (set_x (unat (take_bit 5 r)) (fetch64 (xmem s) (xpc s + push_bit 2 (signed_take_bit 18 (ucast (take_bit 19 v))))) s)\<lparr>xpc := xpc s + 4\<rparr>"
  by (simp add: a64_semantics a64_classes a64_enc a64_field f_reg_def f_signed_def)

lemma exec_ldr:
  "a64_exec other (enc_ldr t n) s =
     (set_x (unat (take_bit 5 t)) (fetch64 (xmem s) (get_xsp (unat (take_bit 5 n)) s)) s)\<lparr>xpc := xpc s + 4\<rparr>"
  by (simp add: a64_semantics a64_classes a64_enc a64_field f_reg_def f_signed_def)

lemma exec_adrp:
  "a64_exec other (enc_adrp r lo hi) s =
     (set_x (unat (take_bit 5 r)) (ALIGN_FLOOR (xpc s) 0x1000
        + push_bit 12 (signed_take_bit 20 (ucast (take_bit 2 lo OR push_bit 2 (take_bit 19 hi))))) s)\<lparr>xpc := xpc s + 4\<rparr>"
proof -
  have top: "f_top (enc_adrp r lo hi) = 0x90 OR push_bit 5 (take_bit 2 lo)"
    by (simp add: f_top_def enc_adrp_def a64_field)
  have f: "f_reg 0 (enc_adrp r lo hi) = unat (take_bit 5 r)" "field 29 2 (enc_adrp r lo hi) = take_bit 2 lo"
      "field 5 19 (enc_adrp r lo hi) = take_bit 19 hi" "bit (enc_adrp r lo hi) 31"
    by (simp_all add: f_reg_def enc_adrp_def a64_field bit_or_iff)
  have "\<not> a64_links (enc_adrp r lo hi)" "\<not> a64_branches (enc_adrp r lo hi)" "is_PCREL (enc_adrp r lo hi)"
    by (cases rule: take_bit_2_cases [of lo]; simp add: a64_links_def a64_branches_def is_B_def is_BL_def is_TB_def is_CB_def
        is_Bcond_def is_BR_def is_BLR_def is_RET_def is_PCREL_def top)+
  then show ?thesis by (simp add: a64_semantics a64_branches_def a64_links_def f pcrel_imm_def)
qed

lemma exec_add:
  "a64_exec other (enc_add d n v) s =
     (set_xsp (unat (take_bit 5 d)) (get_xsp (unat (take_bit 5 n)) s + ucast (take_bit 12 v)) s)\<lparr>xpc := xpc s + 4\<rparr>"
  by (simp add: a64_semantics a64_classes a64_enc a64_field f_reg_def)

lemma exec_br: "a64_exec other (enc_br n) s = s\<lparr>xpc := get_x (unat (take_bit 5 n)) s\<rparr>"
  by (simp add: a64_semantics a64_classes a64_enc a64_field f_reg_def)

lemma exec_blr: "a64_exec other (enc_blr n) s = (set_x 30 (xpc s + 4) s)\<lparr>xpc := get_x (unat (take_bit 5 n)) s\<rparr>"
  by (simp add: a64_semantics a64_classes a64_enc a64_field f_reg_def)

lemma exec_b: "a64_exec other (enc_b v) s = s\<lparr>xpc := xpc s + push_bit 2 (signed_take_bit 25 (ucast (take_bit 26 v)))\<rparr>"
proof -
  have "f_top (enc_b v) = 0x14 OR take_bit 2 (drop_bit 24 v)" by (simp add: f_top_def enc_b_def a64_field)
  then have "is_B (enc_b v)" "\<not> a64_links (enc_b v)"
    by (cases rule: take_bit_2_cases [of "drop_bit 24 v"]; simp add: is_B_def a64_links_def is_BL_def is_BLR_def)+
  moreover have "field 0 26 (enc_b v) = take_bit 26 v" by (simp add: enc_b_def a64_field)
  ultimately show ?thesis by (simp add: a64_semantics a64_branches_def f_signed_def)
qed

lemma exec_nop: "a64_exec other 0xD503201F s = s\<lparr>xpc := xpc s + 4\<rparr>"
  by (simp add: a64_semantics a64_classes a64_field)

lemmas a64_exec_simps = exec_movz exec_movk exec_ldr_lit exec_ldr exec_adrp exec_add exec_br exec_blr exec_b exec_nop

section \<open>Code in memory\<close>

lemma inst_bytes_simps [simp]:
  "inst_bytes [] = []" "inst_bytes (w # ws) = le_bytes 4 w @ inst_bytes ws" "inst_bytes (ws @ vs) = inst_bytes ws @ inst_bytes vs"
  by (simp_all add: inst_bytes_def)

lemma length_inst_bytes [simp]: "length (inst_bytes ws) = 4 * length ws"
  by (induction ws) simp_all

lemma load_mem_append: "load_mem m a (k + n) = load_mem m a k @ load_mem m (a + of_nat k) n"
  by (induction n) (simp_all add: load_mem_def add.assoc)

lemma code_at_append: "code_at m a (ws @ vs) \<longleftrightarrow> code_at m a ws \<and> code_at m (a + 4 * of_nat (length ws)) vs"
  by (induction ws arbitrary: a) (simp_all add: algebra_simps)

lemma code_at_loaded: "load_mem m a (4 * length ws) = inst_bytes ws \<Longrightarrow> code_at m a ws"
proof (induction ws arbitrary: a)
  case (Cons w ws)
  have "load_mem m a (4 + 4 * length ws) = le_bytes 4 w @ inst_bytes ws" using Cons.prems by simp
  then have "load_mem m a 4 = le_bytes 4 w \<and> load_mem m (a + 4) (4 * length ws) = inst_bytes ws"
    unfolding load_mem_append by (subst (asm) append_eq_append_conv) simp_all
  then show ?case using Cons.IH [of "a + 4"] by (simp add: fetch32_def)
qed simp

definition lit64 :: "u64 \<Rightarrow> u32 list" where
  "lit64 v = [ucast v, ucast (drop_bit 32 v)]"

lemma inst_bytes_lit64: "inst_bytes (lit64 v) = le_bytes 8 v"
proof -
  have "ucast (drop_bit k (ucast w :: u32)) = (ucast (drop_bit k w) :: u8)" if "k \<le> 24" for w :: u64 and k
    using that by (intro bit_word_eqI) (auto simp: bit_unsigned_iff bit_drop_bit_eq)
  from this [of 0] this show ?thesis by (simp add: lit64_def le_bytes_numeral)
qed

lemma fetch64_lit: "code_at m a (lit64 v) \<Longrightarrow> fetch64 m a = v"
proof -
  assume "code_at m a (lit64 v)"
  then have w: "fetch32 m a = ucast v" "fetch32 m (a + 4) = ucast (drop_bit 32 v)" by (simp_all add: lit64_def)
  have c: "le_word bs = (ucast (le_word bs :: u32) :: u64)" if "length bs = 4" for bs
    using that by (intro bit_word_eqI) (auto simp: bit_le_word bit_unsigned_iff)
  have "load_mem m a (4 + 4) = load_mem m a 4 @ load_mem m (a + 4) 4" unfolding load_mem_append by simp
  then have "fetch64 m a = ucast (fetch32 m a) OR push_bit 32 (ucast (fetch32 m (a + 4)))"
    by (simp add: fetch64_def fetch32_def le_word_append c)
  also have "\<dots> = v" unfolding w
    by (rule bit_word_eqI) (auto simp: bit_or_iff bit_push_bit_iff bit_unsigned_iff bit_drop_bit_eq)
  finally show ?thesis .
qed

lemma run_code: "code_at (xmem s) (xpc s) (w # ws) \<Longrightarrow> a64_run other (Suc n) s = a64_run other n (a64_exec other w s)"
  by simp

lemma run_append: "a64_run other (m + n) s = a64_run other n (a64_run other m s)"
  by (induction m arbitrary: s) simp_all

lemma cpu_simps [simp]:
  "xmem (set_x r v s) = xmem s" "xpc (set_x r v s) = xpc s" "nzcv (set_x r v s) = nzcv s" "xsp (set_x r v s) = xsp s"
  "xmem (set_xsp r v s) = xmem s" "xpc (set_xsp r v s) = xpc s" "nzcv (set_xsp r v s) = nzcv s"
  "set_x r v (s\<lparr>xpc := p\<rparr>) = (set_x r v s)\<lparr>xpc := p\<rparr>" "get_x r (s\<lparr>xpc := p\<rparr>) = get_x r s"
  "set_xsp r v (s\<lparr>xpc := p\<rparr>) = (set_xsp r v s)\<lparr>xpc := p\<rparr>" "get_xsp r (s\<lparr>xpc := p\<rparr>) = get_xsp r s"
  "set_x r v (set_x r w s) = set_x r v s"
  by (simp_all add: set_x_def get_x_def set_xsp_def get_xsp_def)

lemma get_set_x: "get_x r (set_x r v s) = (if r = 31 then 0 else v)"
  by (simp add: get_x_def set_x_def)

section \<open>The wide move\<close>

definition mov_words :: "u32 \<Rightarrow> u64 \<Rightarrow> u32 list" where
  "mov_words r v = [enc_movz r 0 (ucast v), enc_movk r 1 (ucast (drop_bit 16 v)), enc_movk r 2 (ucast (drop_bit 32 v)),
     enc_movk r 3 (ucast (drop_bit 48 v))]"

lemma bit_insert16:
  "bit (insert16 sh (take_bit 16 v) x) n \<longleftrightarrow> (if sh \<le> n \<and> n < sh + 16 then n < 64 \<and> bit v (n - sh) else bit x n)"
proof -
  have "0xFFFF = (mask 16 :: u64)" by (simp add: mask_eq_exp_minus_1)
  then have "insert16 sh (take_bit 16 v) x = (x AND NOT (push_bit sh (mask 16))) OR push_bit sh (ucast (take_bit 16 v))"
    by (simp only: insert16_def)
  then show ?thesis
    using bit_imp_le_length [of x n] bit_imp_le_length [of v "n - sh"]
    by (auto simp: bit_or_iff bit_and_iff bit_not_iff bit_push_bit_iff bit_unsigned_iff bit_take_bit_iff bit_mask_iff)
qed

lemma mov_value:
  fixes v :: u64
  shows "insert16 48 (take_bit 16 (ucast (drop_bit 48 v))) (insert16 32 (take_bit 16 (ucast (drop_bit 32 v)))
     (insert16 16 (take_bit 16 (ucast (drop_bit 16 v))) (ucast (take_bit 16 (ucast v :: u32))))) = v"
  by (rule bit_word_eqI) (auto simp: bit_insert16 bit_unsigned_iff bit_take_bit_iff bit_drop_bit_eq)

lemma run_mov:
  assumes "code_at (xmem s) (xpc s) (mov_words r v)"
  shows "a64_run other 4 s = (set_x (unat (take_bit 5 r)) v s)\<lparr>xpc := xpc s + 16\<rparr>"
proof -
  have "a64_run other 4 s = a64_run other (Suc (Suc (Suc (Suc 0)))) s" by (simp add: numeral_eq_Suc)
  also have "\<dots> = (set_x (unat (take_bit 5 r)) v s)\<lparr>xpc := xpc s + 16\<rparr>"
  proof (cases "unat (take_bit 5 r) = 31")
    case True
    then show ?thesis using assms by (simp add: mov_words_def a64_exec_simps set_x_def)
  next
    case False
    then show ?thesis using assms mov_value [of v] by (simp add: mov_words_def a64_exec_simps get_set_x)
  qed
  finally show ?thesis .
qed

end
