(* ===== verification/A64_Assembler_Correct.thy ===== *)
theory A64_Assembler_Correct
  imports A64_Machine
begin

text \<open>
  What the AArch64 assembler emits, as instruction words, and what that code does on the machine of
  \<open>A64_Machine\<close>: the wide move loads any constant, \<^verbatim>\<open>adrp\<close> and \<^verbatim>\<open>add\<close> form an address, the literal branch reaches
  its address, and the two-register and chained-label operations with their limits.
\<close>

section \<open>Buffers of instruction words\<close>

definition emits :: "u32 list \<Rightarrow> a64_op \<Rightarrow> bool" where
  "emits ws f \<longleftrightarrow> (\<forall>a. f a = Inr (a\<lparr>asm_buffer := asm_buffer a @ inst_bytes ws\<rparr>))"

lemma emits_Emit: "emits [w] (a64_Emit w)"
  by (simp add: emits_def a64_Emit_def emit_bytes_def)

lemma emits_EmitInt64: "emits (lit64 v) (a64_EmitInt64 v)"
  by (simp add: emits_def a64_EmitInt64_def emit_bytes_def inst_bytes_lit64)

lemma emits_skip: "emits [] Inr"
  by (simp add: emits_def)

lemma emits_do_all: "list_all2 emits wss fs \<Longrightarrow> emits (concat wss) (do_all fs)"
  by (induction rule: list_all2_induct) (simp_all add: emits_def)

lemma emitsD: "emits ws f \<Longrightarrow> f a = Inr (a\<lparr>asm_buffer := asm_buffer a @ inst_bytes ws\<rparr>)"
  by (simp add: emits_def)

lemma ucast_LeftShift_low:
  assumes "b + c \<le> 32"
  shows "(ucast (LeftShift (v :: u64) b c) :: u32) = push_bit c (take_bit b (ucast v))"
  using assms by (intro bit_word_eqI) (auto simp: LeftShift_eq bit_unsigned_iff bit_push_bit_iff bit_take_bit_iff)

lemmas ucast_field_low = ucast_LeftShift_low [unfolded LeftShift_eq]

lemma take_bit_reg:
  fixes r :: u32
  assumes "r < 32"
  shows "take_bit 5 r = r"
  using assms by (intro take_bit_word_less) (simp add: word_less_nat_alt)

lemma emits_MoveWide:
  assumes "r < 32"
  shows "emits [MoveWideImmediateFixed OR MoveWideImmediateOp_code op OR 0x80000000 OR push_bit 21 (take_bit 2 (if sh > 0 then of_int (sh div 16) else 0))
      OR push_bit 5 (take_bit 16 (ucast imm)) OR take_bit 5 r] (MoveWide (Xreg r) imm sh op)"
proof -
  have "sf_of (Xreg r) = 0x80000000" by (simp add: sf_of_def r_Is64Bits_def Xreg_def LeftShift_eq)
  then show ?thesis
    using emits_Emit by (simp add: MoveWide_def ucast_field_low LeftShift_eq a64_fields Xreg_def take_bit_reg [OF assms])
qed

lemma emits_movz: "r < 32 \<Longrightarrow> emits [enc_movz r 0 (ucast imm)] (a64_movz (Xreg r) imm 0)"
  using emits_MoveWide [of r MOVZ 0 imm] by (simp add: a64_movz_def enc_movz_def MoveWideImmediateFixed_def flip: or.assoc)

lemma emits_movk: "r < 32 \<Longrightarrow> 0 < sh \<Longrightarrow> emits [enc_movk r (of_int (sh div 16)) (ucast imm)] (a64_movk (Xreg r) imm sh)"
  using emits_MoveWide [of r MOVK sh imm] by (simp add: a64_movk_def enc_movk_def MoveWideImmediateFixed_def flip: or.assoc)

lemma halves:
  fixes v :: u64
  shows "ucast (ucast (ucast (Low16Bits (Low32Bits v)) :: u16) :: u64) = (take_bit 16 (ucast v) :: u32)"
    "ucast (ucast (ucast (High16Bits (Low32Bits v)) :: u16) :: u64) = (take_bit 16 (ucast (drop_bit 16 v)) :: u32)"
    "ucast (ucast (ucast (Low16Bits (High32Bits v)) :: u16) :: u64) = (take_bit 16 (ucast (drop_bit 32 v)) :: u32)"
    "ucast (ucast (ucast (High16Bits (High32Bits v)) :: u16) :: u64) = (take_bit 16 (ucast (drop_bit 48 v)) :: u32)"
proof -
  have m: "w AND 0xffff = take_bit 16 w" for w :: u32 by (simp add: take_bit_eq_mask mask_eq_exp_minus_1)
  note halves_bits = Low16Bits_def High16Bits_def Low32Bits_def High32Bits_def m bit_unsigned_iff bit_take_bit_iff bit_drop_bit_eq
    bit_signed_drop_bit_iff
  show "ucast (ucast (ucast (Low16Bits (Low32Bits v)) :: u16) :: u64) = (take_bit 16 (ucast v) :: u32)"
    "ucast (ucast (ucast (High16Bits (Low32Bits v)) :: u16) :: u64) = (take_bit 16 (ucast (drop_bit 16 v)) :: u32)"
    "ucast (ucast (ucast (Low16Bits (High32Bits v)) :: u16) :: u64) = (take_bit 16 (ucast (drop_bit 32 v)) :: u32)"
    "ucast (ucast (ucast (High16Bits (High32Bits v)) :: u16) :: u64) = (take_bit 16 (ucast (drop_bit 48 v)) :: u32)"
    by (rule bit_word_eqI, auto simp: halves_bits)+
qed

lemma emits_Mov: "r < 32 \<Longrightarrow> emits (mov_words r v) (a64_Mov (Xreg r) v)"
proof -
  assume r: "r < 32"
  have z: "enc_movz r h (take_bit 16 w) = enc_movz r h w" "enc_movk r h (take_bit 16 w) = enc_movk r h w" for h w
    by (simp_all add: enc_movz_def enc_movk_def)
  have "list_all2 emits [[enc_movz r 0 (ucast v)], [enc_movk r 1 (ucast (drop_bit 16 v))], [enc_movk r 2 (ucast (drop_bit 32 v))],
       [enc_movk r 3 (ucast (drop_bit 48 v))]]
     [a64_movz (Xreg r) (ucast (ucast (Low16Bits (Low32Bits v)) :: u16)) 0, a64_movk (Xreg r) (ucast (ucast (High16Bits (Low32Bits v)) :: u16)) 16,
      a64_movk (Xreg r) (ucast (ucast (Low16Bits (High32Bits v)) :: u16)) 32, a64_movk (Xreg r) (ucast (ucast (High16Bits (High32Bits v)) :: u16)) 48]"
    using emits_movz [OF r, of "ucast (ucast (Low16Bits (Low32Bits v)) :: u16)"]
      emits_movk [OF r, of 16 "ucast (ucast (High16Bits (Low32Bits v)) :: u16)"]
      emits_movk [OF r, of 32 "ucast (ucast (Low16Bits (High32Bits v)) :: u16)"]
      emits_movk [OF r, of 48 "ucast (ucast (High16Bits (High32Bits v)) :: u16)"]
    by (simp add: halves z)
  from emits_do_all [OF this] show ?thesis by (simp add: a64_Mov_def mov_words_def Let_def)
qed

lemma emits_br: "r < 32 \<Longrightarrow> emits [enc_br r] (a64_br (Xreg r))"
  using emits_Emit by (simp add: a64_br_def enc_br_def a64_constants a64_fields Xreg_def take_bit_reg)

lemma emits_blr: "r < 32 \<Longrightarrow> emits [enc_blr r] (a64_blr (Xreg r))"
  using emits_Emit by (simp add: a64_blr_def enc_blr_def a64_constants a64_fields Xreg_def take_bit_reg)

lemma TMP_REG_0_eq: "TMP_REG_0 = Xreg 17"
  by (simp add: TMP_REG_0_def)

text \<open>\<^verbatim>\<open>ldr\<close> from a register: the same 64-bit load for a \<^verbatim>\<open>W\<close> and an \<^verbatim>\<open>X\<close> register.\<close>

lemma emits_ldr:
  assumes "t < 32" and "n < 32"
  shows "emits [enc_ldr t n] (a64_ldr (Xreg t) (MemOperand_offset (Xreg n) 0 AddrOffset))"
    and "emits [enc_ldr t n] (a64_ldr (Wreg t) (MemOperand_offset (Xreg n) 0 AddrOffset))"
  using assms emits_Emit
  by (simp_all add: a64_ldr_def LoadStore_def IsImmediateOffset_def MemOperand_offset_def enc_ldr_def a64_constants a64_fields
      Xreg_def Wreg_def take_bit_reg LeftShift_eq ucast_field_low flip: or.assoc)

lemma emits_ldr_literal_0: "r < 32 \<Longrightarrow> emits [enc_ldr_lit r 0] (a64_ldr_literal (Xreg r) 0)"
  using emits_Emit
  by (simp add: a64_ldr_literal_def EmitLoadRegLiteral_def enc_ldr_lit_def a64_constants a64_fields Xreg_def take_bit_reg LeftShift_eq
      flip: or.assoc)

lemma emits_nop: "emits [0xD503201F] a64_nop"
  by (simp add: a64_nop_def emits_Emit)

section \<open>Patching a literal load\<close>

lemma load_inst_at:
  assumes "asm_buffer a = pre @ le_bytes 4 w @ suf"
  shows "load_inst (int (length pre)) a = Inr w"
  using assms by (simp add: load_inst_def)

lemma fix_bytes_at:
  assumes "asm_buffer a = pre @ le_bytes 4 (w :: u32) @ suf"
  shows "fix_bytes (int (length pre)) (le_bytes 4 (v :: u32)) a = Inr (a\<lparr>asm_buffer := pre @ le_bytes 4 v @ suf\<rparr>)"
  using assms by (simp add: fix_bytes_def store_bytes_def)

lemma literal_offset: "take_bit 19 (signed_drop_bit 2 (of_nat (4 * k) :: u32)) = take_bit 19 (of_nat k)"
proof -
  have "of_nat (4 * k) = (push_bit 2 (of_nat k) :: u32)" by (simp add: push_bit_eq_mult)
  then show ?thesis
    by (intro bit_word_eqI) (auto simp: bit_take_bit_iff bit_signed_drop_bit_iff bit_push_bit_iff)
qed

lemma link_literal:
  assumes "asm_buffer a = pre @ inst_bytes [enc_ldr_lit 17 0] @ suf" and "label_pos l = int (length pre + 4 * k)"
  shows "a64_link_confused_instruction l \<lparr>pli_position = int (length pre), pli_type = kLdrLiteral\<rparr> a
     = Inr (a\<lparr>asm_buffer := pre @ inst_bytes [enc_ldr_lit 17 (of_nat k)] @ suf\<rparr>)"
proof -
  have b: "asm_buffer a = pre @ le_bytes 4 (enc_ldr_lit 17 0) @ suf" using assms(1) by simp
  have "of_int (label_pos l - int (length pre)) = (of_nat (4 * k) :: u32)" using assms(2) by simp
  moreover have "(enc_ldr_lit 17 0 AND 0xFF00001F) OR LeftShift (signed_drop_bit 2 (of_nat (4 * k))) 19 5 = enc_ldr_lit 17 (of_nat k)"
  proof -
    have "0x58000000 OR (x OR 17) = (0x58000000 OR 17) OR x" for x :: u32 by (simp only: ac_simps)
    then show ?thesis unfolding LeftShift_eq literal_offset by (simp add: enc_ldr_lit_def)
  qed
  ultimately show ?thesis
    using load_inst_at [OF b] fix_bytes_at [OF b] by (simp add: a64_link_confused_instruction_def del: of_nat_mult)
qed

lemma literal_reach: "k < 2 ^ 18 \<Longrightarrow> signed_take_bit 18 (ucast (take_bit 19 (of_nat k :: u32))) = (of_nat k :: u64)"
proof -
  assume k: "k < 2 ^ 18"
  have "\<not> bit k n" if "18 \<le> n" for n
  proof -
    have "k < 2 ^ n" using k that by (meson less_le_trans one_le_numeral power_increasing)
    then show ?thesis by (simp add: bit_iff_odd)
  qed
  then show ?thesis
    by (intro bit_word_eqI) (auto simp: bit_signed_take_bit_iff min_def bit_unsigned_iff bit_take_bit_iff bit_of_nat_iff not_less)
qed

lemma emits_LiteralLdrBranch: "emits ([enc_ldr_lit 17 2, enc_br 17] @ lit64 v) (LiteralLdrBranch v)"
proof -
  { fix a :: a64_asm
    let ?b = "asm_buffer a"
    let ?l = "a64_link_to (int (length ?b)) kLdrLiteral new_PseudoLabel"
    let ?a1 = "a\<lparr>asm_buffer := ?b @ inst_bytes [enc_ldr_lit 17 0]\<rparr>" and ?a2 = "a\<lparr>asm_buffer := ?b @ inst_bytes [enc_ldr_lit 17 0] @ inst_bytes [enc_br 17]\<rparr>"
    let ?l' = "bind_to (int (length ?b + 8)) ?l"
    have ins: "pl_instructions ?l' = [\<lparr>pli_position = int (length ?b), pli_type = kLdrLiteral\<rparr>]"
      by (simp add: bind_to_def a64_link_to_def new_PseudoLabel_def)
    have ldr: "a64_Ldr TMP_REG_0 new_PseudoLabel a = Inr (?l, ?a1)"
      using emitsD [OF emits_ldr_literal_0 [of 17]] by (simp add: a64_Ldr_def is_bound_def new_PseudoLabel_def TMP_REG_0_eq)
    have br: "a64_br TMP_REG_0 ?a1 = Inr ?a2" using emitsD [OF emits_br [of 17]] by (simp add: TMP_REG_0_eq)
    have "a64_link_confused_instruction ?l' \<lparr>pli_position = int (length ?b), pli_type = kLdrLiteral\<rparr> ?a2
        = Inr (?a2\<lparr>asm_buffer := ?b @ inst_bytes [enc_ldr_lit 17 (of_nat 2)] @ inst_bytes [enc_br 17]\<rparr>)"
      by (rule link_literal) (simp_all add: label_pos_def bind_to_def)
    then have bind: "a64_PseudoBind ?l ?a2 = Inr (?l', a\<lparr>asm_buffer := ?b @ inst_bytes [enc_ldr_lit 17 2, enc_br 17]\<rparr>)"
      using ins by (simp add: a64_PseudoBind_def a64_has_confused_instructions_def a64_link_confused_instructions_def Let_def)
    have "LiteralLdrBranch v a = Inr (a\<lparr>asm_buffer := ?b @ inst_bytes ([enc_ldr_lit 17 2, enc_br 17] @ lit64 v)\<rparr>)"
      using ldr br bind emitsD [OF emits_EmitInt64] by (simp add: LiteralLdrBranch_def)
  }
  then show ?thesis by (simp add: emits_def)
qed

section \<open>Addresses by page\<close>

lemma emits_adrp:
  assumes "r < 32"
  shows "emits [enc_adrp r (ucast (drop_bit 12 d)) (ucast (drop_bit 14 d))] (a64_adrp (Xreg r) d)"
proof -
  have lo: "(ucast (LeftShift (bits_of (signed_drop_bit 12 d) 0 1) 2 29) :: u32) = push_bit 29 (take_bit 2 (ucast (drop_bit 12 d)))"
    by (rule bit_word_eqI) (auto simp: LeftShift_eq bits_of_eq_take_bit bit_unsigned_iff bit_push_bit_iff bit_take_bit_iff bit_drop_bit_eq
        bit_signed_drop_bit_iff)
  have hi: "(ucast (LeftShift (bits_of (signed_drop_bit 12 d) 2 20) 19 5) :: u32) = push_bit 5 (take_bit 19 (ucast (drop_bit 14 d)))"
    by (rule bit_word_eqI) (auto simp: LeftShift_eq bits_of_eq_take_bit bit_unsigned_iff bit_push_bit_iff bit_take_bit_iff bit_drop_bit_eq
        bit_signed_drop_bit_iff)
  have or: "(ucast (x OR y) :: u32) = ucast x OR ucast (y :: u64)" for x y
    by (rule bit_word_eqI) (auto simp: bit_unsigned_iff bit_or_iff)
  have uu: "(ucast (ucast (w :: u32) :: u64) :: u32) = w" for w by (rule bit_word_eqI) (auto simp: bit_unsigned_iff)
  have "0x90000000 OR (r OR x) = 0x90000000 OR (x OR r)" for x by (simp add: or.commute)
  then have "enc_adrp r (ucast (drop_bit 12 d)) (ucast (drop_bit 14 d)) = ADRP_op OR Rd_field (Xreg r) OR push_bit 29 (take_bit 2 (ucast (drop_bit 12 d)))
      OR push_bit 5 (take_bit 19 (ucast (drop_bit 14 d)))"
    using assms by (simp add: enc_adrp_def a64_constants a64_fields Xreg_def take_bit_reg ac_simps)
  then show ?thesis using emits_Emit by (simp add: a64_adrp_def Let_def or uu lo hi or.assoc del: One_nat_def)
qed

lemma emits_add:
  assumes "d < 32" and "n < 32"
  shows "emits [enc_add d n (ucast v)] (a64_add (Xreg d) (Xreg n) v)"
proof -
  have "enc_add d n (ucast v) = ((0x91000000 OR d) OR push_bit 5 n) OR push_bit 10 (take_bit 12 (ucast v))"
    using assms by (simp add: enc_add_def take_bit_reg or.assoc or.left_commute or.commute)
  then show ?thesis
    using emits_Emit by (simp add: a64_add_def AddSubImmediate_def IsImmediate_def Operand_imm_def r_Is_def r_Is64Bits_def Xreg_def InvalidRegister_def
        a64_constants a64_fields ucast_field_low LeftShift_eq flip: or.assoc)
qed

lemma page_delta:
  fixes d :: u64
  assumes "take_bit 12 d = 0" and "- (2 ^ 32) \<le> sint d" and "sint d < 2 ^ 32"
  shows "push_bit 12 (signed_take_bit 20 (ucast (take_bit 2 (ucast (drop_bit 12 d) :: u32) OR push_bit 2 (take_bit 19 (ucast (drop_bit 14 d)))))) = d"
proof (rule bit_word_eqI)
  fix n assume n: "n < LENGTH(64)"
  have lowbits: "\<not> bit d m" if "m < 12" for m using assms(1) that bit_take_bit_iff [of 12 d m] by simp
  have "signed_take_bit 32 (sint d) = sint d" using assms(2,3) by (intro signed_take_bit_int_eq_self) simp_all
  then have ext: "bit (sint d) m = bit (sint d) (min 32 m)" for m using bit_signed_take_bit_iff [of 32 "sint d" m] by simp
  have top: "bit d m = bit d 32" if "32 \<le> m" "m < 64" for m using that ext [of m] by (simp add: bit_sint_iff min_def split: if_splits)
  show "bit (push_bit 12 (signed_take_bit 20 (ucast (take_bit 2 (ucast (drop_bit 12 d) :: u32) OR push_bit 2 (take_bit 19 (ucast (drop_bit 14 d))))) :: u64)) n = bit d n"
    using n lowbits [of n] top [of n]
    by (cases "n < 12"; cases "n < 32") (auto simp: bit_push_bit_iff bit_signed_take_bit_iff min_def bit_unsigned_iff bit_or_iff bit_take_bit_iff bit_drop_bit_eq)
qed

end
