(* ===== verification/A64_Relocation_Correct.thy ===== *)
theory A64_Relocation_Correct
  imports A64_Relocation A64_Assembler_Correct
begin

text \<open>
  The AArch64 relocator against a direct description of its output, in which every literal load already has
  its distance, and against the machine: what the relocated sequence of an instruction does is what the
  instruction does at its old address.
\<close>

section \<open>The direct description\<close>

lemma top_mask:
  fixes i :: u32
  assumes "take_bit 8 m = m" and "take_bit 8 v = v"
  shows "i AND push_bit 24 m = push_bit 24 v \<longleftrightarrow> f_top i AND m = v"
proof
  assume a: "i AND push_bit 24 m = push_bit 24 v"
  show "f_top i AND m = v"
  proof (rule bit_word_eqI)
    fix n assume "n < LENGTH(32)"
    have "bit (i AND push_bit 24 m) (24 + n) = bit (push_bit 24 v) (24 + n)" by (simp only: a)
    moreover have "bit m n \<longrightarrow> n < 8" "bit v n \<longrightarrow> n < 8" using assms by (metis bit_take_bit_iff)+
    ultimately show "bit (f_top i AND m) n = bit v n" by (auto simp: f_top_def bit_and_iff bit_field_iff bit_push_bit_iff)
  qed
next
  assume a: "f_top i AND m = v"
  have m8: "bit m n \<longrightarrow> n < 8" for n using assms by (metis bit_take_bit_iff)
  show "i AND push_bit 24 m = push_bit 24 v"
    unfolding a [symmetric]
    by (rule bit_word_eqI) (use m8 in \<open>auto simp: f_top_def bit_and_iff bit_field_iff bit_push_bit_iff\<close>)
qed

definition rk_literal :: "u32 \<Rightarrow> bool" where "rk_literal i \<longleftrightarrow> f_top i AND 0x3B = 0x18"
definition rk_pcrel :: "u32 \<Rightarrow> bool" where "rk_pcrel i \<longleftrightarrow> f_top i AND 0x1F = 0x10"
definition rk_branch :: "u32 \<Rightarrow> bool" where "rk_branch i \<longleftrightarrow> f_top i AND 0x7C = 0x14"
definition rk_test :: "u32 \<Rightarrow> bool" where "rk_test i \<longleftrightarrow> f_top i AND 0x7E = 0x36"
definition rk_compare :: "u32 \<Rightarrow> bool" where "rk_compare i \<longleftrightarrow> f_top i AND 0x7E = 0x34"
definition rk_cond :: "u32 \<Rightarrow> bool" where "rk_cond i \<longleftrightarrow> f_top i AND 0xFE = 0x54"

lemmas rk_defs = rk_literal_def rk_pcrel_def rk_branch_def rk_test_def rk_compare_def rk_cond_def

lemma reloc_masks:
  fixes i :: u32
  shows "i AND LoadRegLiteralFixedMask = LoadRegLiteralFixed \<longleftrightarrow> rk_literal i"
    "i AND PCRelAddressingFixedMask = PCRelAddressingFixed \<longleftrightarrow> rk_pcrel i"
    "i AND UnconditionalBranchFixedMask = UnconditionalBranchFixed \<longleftrightarrow> rk_branch i"
    "i AND TestBranchFixedMask = TestBranchFixed \<longleftrightarrow> rk_test i"
    "i AND CompareBranchFixedMask = CompareBranchFixed \<longleftrightarrow> rk_compare i"
    "i AND ConditionalBranchFixedMask = ConditionalBranchFixed \<longleftrightarrow> rk_cond i"
    "i AND PCRelAddressingMask = ADR_op \<longleftrightarrow> f_top i AND 0x9F = 0x10"
    "i AND UnconditionalBranchMask = BL_op \<longleftrightarrow> is_BL i"
  using top_mask [of "0x3B" "0x18" i] top_mask [of "0x1F" "0x10" i] top_mask [of "0x7C" "0x14" i] top_mask [of "0x7E" "0x36" i]
    top_mask [of "0x7E" "0x34" i] top_mask [of "0xFE" "0x54" i] top_mask [of "0x9F" "0x10" i] top_mask [of "0xFC" "0x94" i]
  by (simp_all add: a64_constants a64_branch_constants rk_defs is_BL_def)

text \<open>The branch instructions are relocated with a label: where they go, and what is put in front of the literal branch.\<close>

definition rk_label :: "u32 \<Rightarrow> bool" where
  "rk_label i \<longleftrightarrow> \<not> rk_literal i \<and> \<not> rk_pcrel i \<and> (rk_branch i \<or> rk_test i \<or> rk_compare i \<or> rk_cond i)"

definition label_target :: "u64 \<Rightarrow> u32 \<Rightarrow> u64" where
  "label_target pc i = (if rk_branch i then decode_imm26_offset i else if rk_test i then decode_imm14_offset i else decode_imm19_offset i) + pc"

definition skip_branch :: "u32 \<Rightarrow> u32" where
  "skip_branch i = (if rk_test i then set_bits_of (set_bit_of i 24 (bit_of i 24 XOR 1)) 5 18 3
     else if rk_compare i then set_bits_of (set_bit_of i 24 (bit_of i 24 XOR 1)) 5 23 3
     else set_bits_of (set_bits_of i 0 3 (bits_of i 0 3 XOR 1)) 5 23 3)"

definition pcrel_address :: "u64 \<Rightarrow> u32 \<Rightarrow> u64" where
  "pcrel_address pc i = (if f_top i AND 0x9F = 0x10 then pc + decode_immhi_immlo_offset i
     else ALIGN_FLOOR pc 0x1000 + decode_immhi_immlo_zero12_offset i)"

definition between_nops :: "bool \<Rightarrow> u32 list \<Rightarrow> u32 list" where
  "between_nops dbg ws = (if dbg then [0xD503201F] @ ws @ [0xD503201F] else ws)"

definition a64_piece :: "bool \<Rightarrow> u64 \<Rightarrow> u32 \<Rightarrow> u32 \<Rightarrow> u32 list" where
  "a64_piece dbg pc i ldr =
     (if rk_literal i then between_nops dbg (mov_words 17 (decode_imm19_offset i + pc) @ [enc_ldr (field 0 5 i) 17])
      else if rk_pcrel i then between_nops dbg (mov_words (field 0 5 i) (pcrel_address pc i))
      else if rk_branch i then between_nops dbg [ldr, if is_BL i then enc_blr 17 else enc_br 17]
      else if rk_label i then between_nops dbg [skip_branch i, ldr, enc_br 17]
      else [i])"

definition piece_slot :: "bool \<Rightarrow> u32 \<Rightarrow> nat" where
  "piece_slot dbg i = (if dbg then 1 else 0) + (if rk_branch i then 0 else 1)"

fun a64_body :: "bool \<Rightarrow> u64 \<Rightarrow> u32 list \<Rightarrow> u32 list" where
  "a64_body dbg pc [] = []"
| "a64_body dbg pc (i # instrs) = a64_piece dbg pc i (enc_ldr_lit 17 0) @ a64_body dbg (pc + 4) instrs"

text \<open>\<open>here\<close> is the index of the next word to be laid out, \<open>lit\<close> that of the next free literal.\<close>

fun a64_layout :: "bool \<Rightarrow> nat \<Rightarrow> nat \<Rightarrow> u64 \<Rightarrow> u32 list \<Rightarrow> u32 list" where
  "a64_layout dbg here lit pc [] = []"
| "a64_layout dbg here lit pc (i # instrs) =
     (let piece = a64_piece dbg pc i (enc_ldr_lit 17 (of_nat (lit - (here + piece_slot dbg i))))
      in piece @ a64_layout dbg (here + length piece) (if rk_label i then lit + 2 else lit) (pc + 4) instrs)"

fun a64_pool :: "u64 \<Rightarrow> u32 list \<Rightarrow> u32 list" where
  "a64_pool pc [] = []"
| "a64_pool pc (i # instrs) = (if rk_label i then lit64 (label_target pc i) else []) @ a64_pool (pc + 4) instrs"

definition a64_layout_all :: "bool \<Rightarrow> u64 \<Rightarrow> u32 list \<Rightarrow> u32 list" where
  "a64_layout_all dbg start instrs =
     a64_layout dbg 0 (length (a64_body dbg start instrs) + 4) start instrs
     @ [enc_ldr_lit 17 2, enc_br 17] @ lit64 (start + 4 * of_nat (length instrs)) @ a64_pool start instrs"

section \<open>One instruction\<close>

definition labels_of :: "a64_asm \<Rightarrow> A64RelocLabelEntry list" where
  "labels_of a = (case a64_data_labels a of None \<Rightarrow> [] | Some ls \<Rightarrow> ls)"

definition mk_label :: "nat \<times> u64 \<Rightarrow> A64RelocLabelEntry" where
  "mk_label = (\<lambda>(p, t). \<lparr>pos_raw = 0, near_link = 0, pl_instructions = [\<lparr>pli_position = int (4 * p), pli_type = kLdrLiteral\<rparr>], rl_data = t\<rparr>)"

definition reloc_supported :: "u32 \<Rightarrow> bool" where
  "reloc_supported i \<longleftrightarrow> (rk_literal i \<longrightarrow> field 30 2 i = 0 \<or> field 30 2 i = 1)"

lemma emits_debug_nop: "emits (if dbg then [0xD503201F] else []) (debug_nop dbg)"
  using emits_nop emits_skip by (simp add: debug_nop_def)

lemma emits_between:
  assumes "list_all2 emits wss fs"
  shows "emits (between_nops dbg (concat wss)) (do_all (debug_nop dbg # fs @ [debug_nop dbg]))"
proof -
  let ?n = "if dbg then [0xD503201F] else [] :: u32 list"
  have "list_all2 emits (?n # wss @ [?n]) (debug_nop dbg # fs @ [debug_nop dbg])"
    using assms emits_debug_nop [of dbg] by (intro list_all2_appendI list.rel_intros) (simp_all add: list_all2_appendI)
  from emits_do_all [OF this] show ?thesis by (simp add: between_nops_def split: if_splits)
qed

lemma reloc_fields:
  fixes i :: u32
  shows "bits_of i 30 31 = field 30 2 i" "bits_of i 0 4 = field 0 5 i" "bits_of i 0 3 = field 0 4 i"
    "bits_of i 5 18 = field 5 14 i" "bits_of i 5 23 = field 5 19 i" "bits_of i 0 25 = field 0 26 i" "bits_of i 29 30 = field 29 2 i"
  by (simp_all add: bits_of_field numeral_2_eq_2)

lemma field_reg_less: "field 0 5 (i :: u32) < 32"
  using unat_take_bit_less [of 5 "drop_bit 0 i"] by (simp add: field_def word_less_nat_alt)

lemma relocate_data:
  assumes "rk_literal i \<or> rk_pcrel i" and "reloc_supported i"
  shows "emits (a64_piece dbg pc i w) (a64_relocate_insn dbg pc i)"
proof (cases "rk_literal i")
  case True
  let ?ld = "if field 30 2 i = 0 then a64_ldr (Wreg (field 0 5 i)) (MemOperand_offset TMP_REG_0 0 AddrOffset)
     else a64_ldr (Xreg (field 0 5 i)) (MemOperand_offset TMP_REG_0 0 AddrOffset)"
  have ld: "emits [enc_ldr (field 0 5 i) 17] ?ld"
    using emits_ldr [OF field_reg_less, of 17] by (simp add: TMP_REG_0_eq)
  have "list_all2 emits [mov_words 17 (decode_imm19_offset i + pc), [enc_ldr (field 0 5 i) 17]]
     [a64_Mov TMP_REG_0 (decode_imm19_offset i + pc), ?ld]"
    using ld emits_Mov [of 17] by (simp add: TMP_REG_0_eq)
  from emits_between [OF this, of dbg] show ?thesis
    using True assms(2)
    by (auto simp: a64_relocate_insn_def reloc_masks a64_piece_def Let_def decode_rt_def reloc_fields reloc_supported_def)
next
  case False
  then have "rk_pcrel i" using assms(1) by blast
  have "list_all2 emits [mov_words (field 0 5 i) (pcrel_address pc i)] [a64_Mov (Xreg (field 0 5 i)) (pcrel_address pc i)]"
    using emits_Mov [OF field_reg_less] by simp
  from emits_between [OF this, of dbg] show ?thesis
    using False \<open>rk_pcrel i\<close>
    by (simp add: a64_relocate_insn_def reloc_masks a64_piece_def Let_def decode_rd_def reloc_fields pcrel_address_def split: if_splits)
qed

lemma labels_append: "labels_of (a\<lparr>a64_data_labels := Some ls\<rparr>) = ls" "label_count a = length (labels_of a)"
  by (simp_all add: labels_of_def label_count_def split: option.split)

lemma relocate_branch_effect:
  assumes hd: "emits hs head" and tl: "emits [t] tail" and b: "asm_buffer a = inst_bytes ws"
  shows "\<exists>a'. relocate_branch dbg target head tail a = Inr a'
     \<and> asm_buffer a' = inst_bytes (ws @ between_nops dbg (hs @ [enc_ldr_lit 17 0, t])) \<and> realized_address a' = realized_address a
     \<and> labels_of a' = labels_of a @ [mk_label (length ws + (if dbg then 1 else 0) + length hs, target)]"
proof -
  let ?n = "if dbg then [0xD503201F] else [] :: u32 list" and ?l = "new_a64_RelocLabelEntry target"
  let ?a0 = "a\<lparr>a64_data_labels := Some (labels_of a @ [?l])\<rparr>"
  let ?a1 = "?a0\<lparr>asm_buffer := inst_bytes (ws @ ?n @ hs)\<rparr>"
  let ?l1 = "a64_link_to (int (length (asm_buffer ?a1))) kLdrLiteral ?l"
  let ?a2 = "?a1\<lparr>asm_buffer := inst_bytes (ws @ ?n @ hs @ [enc_ldr_lit 17 0]), a64_data_labels := Some (labels_of a @ [?l1])\<rparr>"
  let ?a3 = "?a2\<lparr>asm_buffer := inst_bytes (ws @ ?n @ hs @ [enc_ldr_lit 17 0] @ [t] @ ?n)\<rparr>"
  have ap: "a64_AppendRelocLabelEntry ?l a = Inr ?a0" by (simp add: a64_AppendRelocLabelEntry_def labels_of_def)
  have h: "do_all [debug_nop dbg, head] ?a0 = Inr ?a1"
    using emitsD [OF emits_debug_nop [of dbg]] emitsD [OF hd] b by simp
  have "a64_Ldr TMP_REG_0 ?l ?a1 = Inr (?l1, ?a1\<lparr>asm_buffer := asm_buffer ?a1 @ inst_bytes [enc_ldr_lit 17 0]\<rparr>)"
    using emitsD [OF emits_ldr_literal_0 [of 17], of ?a1] by (simp add: a64_Ldr_def is_bound_def new_a64_RelocLabelEntry_def TMP_REG_0_eq)
  then have ld: "a64_Ldr_shared TMP_REG_0 (label_count a) ?a1 = Inr ?a2"
    by (simp add: a64_Ldr_shared_def labels_append(2) nth_append)
  have tl: "do_all [tail, debug_nop dbg] ?a2 = Inr ?a3"
    using emitsD [OF emits_debug_nop [of dbg]] emitsD [OF tl] by simp
  have "relocate_branch dbg target head tail a = Inr ?a3"
    using do_all_append [of "[debug_nop dbg, head]" "[a64_Ldr_shared TMP_REG_0 (label_count a), tail, debug_nop dbg]" ?a0]
    unfolding relocate_branch_def do_all.simps(2) [of "a64_AppendRelocLabelEntry ?l"] ap rbind_simps h append_Cons append_Nil
      do_all.simps(2) [of "a64_Ldr_shared TMP_REG_0 (label_count a)"] ld tl by simp
  moreover have "?l1 = mk_label (length ws + (if dbg then 1 else 0) + length hs, target)"
    by (simp add: a64_link_to_def new_a64_RelocLabelEntry_def mk_label_def)
  ultimately show ?thesis by (auto simp: labels_of_def between_nops_def)
qed

lemma relocate_insn_effect:
  assumes s: "reloc_supported i" and b: "asm_buffer a = inst_bytes ws"
  shows "\<exists>a'. a64_relocate_insn dbg pc i a = Inr a' \<and> asm_buffer a' = inst_bytes (ws @ a64_piece dbg pc i (enc_ldr_lit 17 0))
     \<and> realized_address a' = realized_address a
     \<and> labels_of a' = labels_of a @ (if rk_label i then [mk_label (length ws + piece_slot dbg i, label_target pc i)] else [])"
proof -
  consider (data) "rk_literal i \<or> rk_pcrel i" | (branch) "\<not> (rk_literal i \<or> rk_pcrel i)" "rk_branch i"
    | (label) "\<not> (rk_literal i \<or> rk_pcrel i)" "\<not> rk_branch i" "rk_label i"
    | (other) "\<not> (rk_literal i \<or> rk_pcrel i)" "\<not> rk_label i" by (auto simp: rk_label_def)
  then show ?thesis
  proof cases
    case data
    then have "\<not> rk_label i" by (auto simp: rk_label_def)
    then show ?thesis using emitsD [OF relocate_data [OF data s, of dbg pc "enc_ldr_lit 17 0"], of a] b by (simp add: labels_of_def)
  next
    case branch
    let ?tail = "if is_BL i then a64_blr TMP_REG_0 else a64_br TMP_REG_0"
    have "emits [if is_BL i then enc_blr 17 else enc_br 17] ?tail"
      using emits_br [of 17] emits_blr [of 17] by (simp add: TMP_REG_0_eq)
    moreover have "a64_relocate_insn dbg pc i = relocate_branch dbg (label_target pc i) Inr ?tail"
      using branch by (simp add: a64_relocate_insn_def reloc_masks label_target_def)
    ultimately show ?thesis
      using relocate_branch_effect [OF emits_skip _ b, of _ ?tail dbg "label_target pc i"] branch
      by (simp add: a64_piece_def rk_label_def piece_slot_def)
  next
    case label
    have "a64_relocate_insn dbg pc i = relocate_branch dbg (label_target pc i) (a64_Emit (skip_branch i)) (a64_br TMP_REG_0)"
      using label by (auto simp: a64_relocate_insn_def reloc_masks label_target_def skip_branch_def rk_label_def)
    moreover have br: "emits [enc_br 17] (a64_br TMP_REG_0)" by (simp add: TMP_REG_0_eq emits_br)
    moreover note relocate_branch_effect [OF emits_Emit [of "skip_branch i"] br b, of dbg "label_target pc i"]
    ultimately show ?thesis using label by (simp add: a64_piece_def piece_slot_def add.commute)
  next
    case other
    then have "a64_relocate_insn dbg pc i = a64_Emit i" by (auto simp: a64_relocate_insn_def reloc_masks rk_label_def)
    then show ?thesis using emitsD [OF emits_Emit] other b by (auto simp: a64_piece_def rk_label_def labels_of_def)
  qed
qed

section \<open>The loop\<close>

fun a64_slots :: "bool \<Rightarrow> nat \<Rightarrow> u64 \<Rightarrow> u32 list \<Rightarrow> (nat \<times> u64) list" where
  "a64_slots dbg here pc [] = []"
| "a64_slots dbg here pc (i # instrs) =
     (if rk_label i then [(here + piece_slot dbg i, label_target pc i)] else [])
     @ a64_slots dbg (here + length (a64_piece dbg pc i (enc_ldr_lit 17 0))) (pc + 4) instrs"

definition instrs_of :: "u8 list \<Rightarrow> nat \<Rightarrow> nat \<Rightarrow> u32 list" where
  "instrs_of mem k n = map (\<lambda>j. le_word (take 4 (drop (4 * j) mem))) [k..<n]"

lemma instrs_of_Cons: "k < n \<Longrightarrow> instrs_of mem k n = le_word (take 4 (drop (4 * k) mem)) # instrs_of mem (Suc k) n"
  by (simp add: instrs_of_def upt_conv_Cons)

lemma length_instrs_of [simp]: "length (instrs_of mem k n) = n - k"
  by (simp add: instrs_of_def)

text \<open>\<open>n\<close> instructions cover \<open>p\<close> bytes.\<close>

definition covers :: "nat \<Rightarrow> nat \<Rightarrow> bool" where
  "covers p n \<longleftrightarrow> p \<le> 4 * n \<and> 4 * n < p + 4"

lemma relocate_loop_effect:
  assumes "covers p n" and "4 * n + 4 \<le> length mem" and "k \<le> n"
    and "read_inst mem (4 * k) = Inr instr" and "asm_buffer a = inst_bytes ws" and "list_all reloc_supported (instrs_of mem k n)"
  shows "\<exists>a'. a64_relocate_loop dbg mem p (4 * k) pc instr a = Inr (pc + 4 * of_nat (n - k), a')
     \<and> asm_buffer a' = inst_bytes (ws @ a64_body dbg pc (instrs_of mem k n)) \<and> realized_address a' = realized_address a
     \<and> labels_of a' = labels_of a @ map mk_label (a64_slots dbg (length ws) pc (instrs_of mem k n))"
  using assms(3-6)
proof (induction "n - k" arbitrary: k pc instr a ws)
  case 0
  then show ?case using assms(1) by (simp add: a64_relocate_loop.simps covers_def instrs_of_def)
next
  case (Suc d)
  then have k: "k < n" "d = n - Suc k" by auto
  then have lt: "4 * k < p" using assms(1) by (auto simp: covers_def)
  note Cons = instrs_of_Cons [OF k(1), of mem]
  have instr: "instr = le_word (take 4 (drop (4 * k) mem))" using Suc.prems(2) by (simp add: read_inst_def split: if_splits)
  obtain a1 where a1: "a64_relocate_insn dbg pc instr a = Inr a1"
      "asm_buffer a1 = inst_bytes (ws @ a64_piece dbg pc instr (enc_ldr_lit 17 0))" "realized_address a1 = realized_address a"
      "labels_of a1 = labels_of a @ (if rk_label instr then [mk_label (length ws + piece_slot dbg instr, label_target pc instr)] else [])"
    using relocate_insn_effect [OF _ Suc.prems(3), of instr dbg pc] Suc.prems(4) unfolding Cons instr by auto
  let ?ws = "ws @ a64_piece dbg pc instr (enc_ldr_lit 17 0)"
  obtain instr' where r: "read_inst mem (4 * Suc k) = Inr instr'" using k(1) assms(2) by (simp add: read_inst_def)
  have sup: "list_all reloc_supported (instrs_of mem (Suc k) n)" using Suc.prems(4) unfolding Cons by simp
  from Suc.hyps(1) [OF k(2) _ r a1(2) sup, of "pc + 4"] k(1) obtain a' where a':
      "a64_relocate_loop dbg mem p (4 * Suc k) (pc + 4) instr' a1 = Inr (pc + 4 + 4 * of_nat (n - Suc k), a')"
      "asm_buffer a' = inst_bytes (?ws @ a64_body dbg (pc + 4) (instrs_of mem (Suc k) n))" "realized_address a' = realized_address a1"
      "labels_of a' = labels_of a1 @ map mk_label (a64_slots dbg (length ?ws) (pc + 4) (instrs_of mem (Suc k) n))" by auto
  have "a64_relocate_loop dbg mem p (4 * k) pc instr a = a64_relocate_loop dbg mem p (4 * Suc k) (pc + 4) instr' a1"
    using lt a1(1) r by (subst a64_relocate_loop.simps) (simp add: add.commute)
  moreover have "pc + 4 + 4 * of_nat (n - Suc k) = pc + 4 * of_nat (n - k)"
  proof -
    have "n - k = Suc (n - Suc k)" using k(1) by simp
    then show ?thesis by (simp add: algebra_simps)
  qed
  ultimately show ?case using a' a1(3,4) unfolding Cons instr by (auto simp: add.assoc)
qed

section \<open>Binding the labels\<close>

fun bind_slots :: "u32 list \<Rightarrow> (nat \<times> u64) list \<Rightarrow> u32 list" where
  "bind_slots ws [] = ws"
| "bind_slots ws ((p, t) # ss) = bind_slots (ws[p := enc_ldr_lit 17 (of_nat (length ws - p))] @ lit64 t) ss"

lemma inst_bytes_update:
  assumes "p < length ws"
  shows "inst_bytes ws = inst_bytes (take p ws) @ inst_bytes [ws ! p] @ inst_bytes (drop (Suc p) ws)"
    "inst_bytes (ws[p := w]) = inst_bytes (take p ws) @ inst_bytes [w] @ inst_bytes (drop (Suc p) ws)"
  using assms id_take_nth_drop [OF assms] upd_conv_take_nth_drop [OF assms, of w] inst_bytes_simps(3) by (metis append.assoc append_Cons append_Nil)+

lemma PseudoBind_slot:
  assumes b: "asm_buffer a = inst_bytes ws" and p: "p < length ws" "ws ! p = enc_ldr_lit 17 0"
  shows "\<exists>l'. a64_PseudoBind (mk_label (p, t)) a = Inr (l', a\<lparr>asm_buffer := inst_bytes (ws[p := enc_ldr_lit 17 (of_nat (length ws - p))])\<rparr>)
     \<and> rl_data l' = t"
proof -
  let ?l = "bind_to (int (length (asm_buffer a))) (mk_label (p, t))" and ?pre = "inst_bytes (take p ws)" and ?suf = "inst_bytes (drop (Suc p) ws)"
  have "asm_buffer a = ?pre @ inst_bytes [enc_ldr_lit 17 0] @ ?suf" using inst_bytes_update(1) [OF p(1)] b p(2) by simp
  moreover have "label_pos ?l = int (length ?pre + 4 * (length ws - p))" using p(1) b by (simp add: label_pos_def bind_to_def min_def)
  ultimately have "a64_link_confused_instruction ?l \<lparr>pli_position = int (length ?pre), pli_type = kLdrLiteral\<rparr> a
      = Inr (a\<lparr>asm_buffer := ?pre @ inst_bytes [enc_ldr_lit 17 (of_nat (length ws - p))] @ ?suf\<rparr>)" by (rule link_literal)
  moreover have "int (length ?pre) = int (4 * p)" using p(1) by (simp add: min_def)
  ultimately have "a64_link_confused_instructions ?l a
      = Inr (a\<lparr>asm_buffer := inst_bytes (ws[p := enc_ldr_lit 17 (of_nat (length ws - p))])\<rparr>)"
    unfolding inst_bytes_update(2) [OF p(1)]
    by (simp add: a64_link_confused_instructions_def mk_label_def bind_to_def)
  then show ?thesis by (simp add: a64_PseudoBind_def a64_has_confused_instructions_def mk_label_def bind_to_def)
qed

lemma reloc_bind_effect:
  assumes "asm_buffer a = inst_bytes ws" and "\<forall>(p, t) \<in> set ss. p < length ws \<and> ws ! p = enc_ldr_lit 17 0" and "distinct (map fst ss)"
  shows "\<exists>ls' a'. a64_reloc_bind_labels (map mk_label ss) a = Inr (ls', a') \<and> asm_buffer a' = inst_bytes (bind_slots ws ss)
     \<and> realized_address a' = realized_address a"
  using assms
proof (induction ss arbitrary: a ws)
  case (Cons s ss)
  obtain p t where s: "s = (p, t)" by fastforce
  let ?ws = "ws[p := enc_ldr_lit 17 (of_nat (length ws - p))]"
  have p: "p < length ws" "ws ! p = enc_ldr_lit 17 0" using Cons.prems(2) by (auto simp: s)
  obtain l' where l: "a64_PseudoBind (mk_label (p, t)) a = Inr (l', a\<lparr>asm_buffer := inst_bytes ?ws\<rparr>)" "rl_data l' = t"
    using PseudoBind_slot [OF Cons.prems(1) p] by blast
  let ?a2 = "a\<lparr>asm_buffer := inst_bytes (?ws @ lit64 t)\<rparr>"
  have "\<forall>(q, u) \<in> set ss. q < length (?ws @ lit64 t) \<and> (?ws @ lit64 t) ! q = enc_ldr_lit 17 0"
  proof (clarify)
    fix q u
    assume q: "(q, u) \<in> set ss"
    then have "q \<noteq> p" using Cons.prems(3) by (force simp: s)
    then show "q < length (?ws @ lit64 t) \<and> (?ws @ lit64 t) ! q = enc_ldr_lit 17 0"
      using q Cons.prems(2) by (auto simp: s nth_append)
  qed
  from Cons.IH [OF _ this, of ?a2] Cons.prems(3) obtain ls' a' where
      "a64_reloc_bind_labels (map mk_label ss) ?a2 = Inr (ls', a')" "asm_buffer a' = inst_bytes (bind_slots (?ws @ lit64 t) ss)"
      "realized_address a' = realized_address a" by auto
  moreover have "a64_EmitInt64 t (a\<lparr>asm_buffer := inst_bytes ?ws\<rparr>) = Inr ?a2" using emitsD [OF emits_EmitInt64] by simp
  ultimately show ?case using l by (simp add: s)
qed simp

section \<open>The layout\<close>

lemma piece_length_eq: "length (a64_piece dbg pc i w) = length (a64_piece dbg pc i v)"
  by (simp add: a64_piece_def between_nops_def)

lemma piece_slot_update:
  assumes "rk_label i"
  shows "piece_slot dbg i < length (a64_piece dbg pc i w)" "a64_piece dbg pc i w ! piece_slot dbg i = w"
    "(a64_piece dbg pc i w)[piece_slot dbg i := v] = a64_piece dbg pc i v"
  using assms by (auto simp: a64_piece_def rk_label_def piece_slot_def between_nops_def)

lemma bind_slots_layout:
  "bind_slots (pre @ a64_body dbg pc is @ suf) (a64_slots dbg (length pre) pc is)
     = pre @ a64_layout dbg (length pre) (length (pre @ a64_body dbg pc is @ suf)) pc is @ suf @ a64_pool pc is"
proof (induction "is" arbitrary: pre pc suf)
  case (Cons i "is")
  let ?P = "a64_piece dbg pc i" and ?body = "a64_body dbg (pc + 4) is"
  let ?w0 = "enc_ldr_lit 17 0"
  let ?ws = "pre @ ?P ?w0 @ ?body @ suf"
  show ?case
  proof (cases "rk_label i")
    case False
    have same: "?P v = ?P ?w0" for v using False by (auto simp: a64_piece_def rk_label_def)
    have "a64_layout dbg here lit pc (i # is) = ?P ?w0 @ a64_layout dbg (here + length (?P ?w0)) lit (pc + 4) is" for here lit
      unfolding a64_layout.simps Let_def same [of "enc_ldr_lit 17 (of_nat (lit - (here + piece_slot dbg i)))"] using False by simp
    then show ?thesis using Cons.IH [of "pre @ ?P ?w0" "pc + 4" suf] False by (simp add: add.assoc del: a64_layout.simps)
  next
    case True
    let ?p = "length pre + piece_slot dbg i"
    let ?v = "enc_ldr_lit 17 (of_nat (length ?ws - ?p))"
    have upd: "?ws[?p := ?v] = pre @ ?P ?v @ ?body @ suf"
      using piece_slot_update [OF True, of dbg pc ?w0] by (simp add: list_update_append)
    have len: "length (?P ?v) = length (?P ?w0)" by (rule piece_length_eq)
    have "bind_slots (?ws[?p := ?v] @ lit64 (label_target pc i)) (a64_slots dbg (length (pre @ ?P ?v)) (pc + 4) is)
        = (pre @ ?P ?v) @ a64_layout dbg (length (pre @ ?P ?v)) (length ((pre @ ?P ?v) @ ?body @ suf @ lit64 (label_target pc i))) (pc + 4) is
          @ (suf @ lit64 (label_target pc i)) @ a64_pool (pc + 4) is"
      unfolding upd using Cons.IH [of "pre @ ?P ?v" "pc + 4" "suf @ lit64 (label_target pc i)"] by simp
    then show ?thesis using True len by (simp add: Let_def add.assoc lit64_def)
  qed
qed simp

lemma slots_ok:
  "(p, t) \<in> set (a64_slots dbg (length pre) pc is) \<Longrightarrow>
     length pre \<le> p \<and> p < length (pre @ a64_body dbg pc is) \<and> (pre @ a64_body dbg pc is @ suf) ! p = enc_ldr_lit 17 0"
proof (induction "is" arbitrary: pre pc)
  case (Cons i "is")
  let ?P = "a64_piece dbg pc i (enc_ldr_lit 17 0)"
  from Cons.prems consider "rk_label i" "p = length pre + piece_slot dbg i" | "(p, t) \<in> set (a64_slots dbg (length (pre @ ?P)) (pc + 4) is)"
    by (auto split: if_splits)
  then show ?case
  proof cases
    case 1
    then show ?thesis using piece_slot_update [OF 1(1), of dbg pc "enc_ldr_lit 17 0"] by (simp add: nth_append)
  next
    case 2
    from Cons.IH [OF this] show ?thesis by simp
  qed
qed simp

lemma slots_distinct: "distinct (map fst (a64_slots dbg here pc is))"
proof (induction "is" arbitrary: here pc)
  case (Cons i "is")
  let ?P = "a64_piece dbg pc i (enc_ldr_lit 17 0)"
  have "here + length ?P \<le> p" if "(p, t) \<in> set (a64_slots dbg (here + length ?P) (pc + 4) is)" for p t
    using slots_ok [of p t dbg "replicate (here + length ?P) 0"] that by simp
  moreover have "piece_slot dbg i < length ?P" if "rk_label i" using that by (rule piece_slot_update)
  ultimately show ?case using Cons by (force simp: image_iff)
qed simp

text \<open>
  The relocator produces, for the instructions that cover the bytes asked for, the direct layout.
\<close>

lemma relocated_code_layout:
  assumes "covers (nat (sint (ucast (raw_instruction_size origin) :: u32))) n" and "4 * n + 4 \<le> length mem"
    and "list_all reloc_supported (instrs_of mem 0 n)"
  shows "\<exists>a. a64_relocated_code dbg mem origin = Inr a \<and> realized_address a = 0
     \<and> asm_buffer a = inst_bytes (a64_layout_all dbg (raw_instruction_start origin) (instrs_of mem 0 n))"
proof -
  let ?is = "instrs_of mem 0 n" and ?s = "raw_instruction_start origin"
  let ?body = "a64_body dbg ?s ?is" and ?slots = "a64_slots dbg 0 ?s ?is" and ?tail = "[enc_ldr_lit 17 2, enc_br 17] @ lit64 (?s + 4 * of_nat n)"
  obtain instr where r: "read_inst mem 0 = Inr instr" using assms(2) by (simp add: read_inst_def)
  obtain a1 where a1: "a64_relocate_loop dbg mem (nat (sint (ucast (raw_instruction_size origin) :: u32))) 0 ?s instr (new_a64_TurboAssembler 0)
       = Inr (?s + 4 * of_nat n, a1)"
      "asm_buffer a1 = inst_bytes ?body" "realized_address a1 = 0" "labels_of a1 = map mk_label ?slots"
    using relocate_loop_effect [OF assms(1,2), of 0 instr "new_a64_TurboAssembler 0" "[]" dbg ?s] r assms(3)
    by (auto simp: new_a64_TurboAssembler_def labels_of_def)
  let ?a2 = "a1\<lparr>asm_buffer := inst_bytes (?body @ ?tail)\<rparr>"
  have a2: "LiteralLdrBranch (?s + 4 * of_nat n) a1 = Inr ?a2" using emitsD [OF emits_LiteralLdrBranch] a1(2) by simp
  have "\<forall>(p, t) \<in> set ?slots. p < length (?body @ ?tail) \<and> (?body @ ?tail) ! p = enc_ldr_lit 17 0"
    using slots_ok [of _ _ dbg "[]" ?s ?is ?tail] by fastforce
  from reloc_bind_effect [OF _ this slots_distinct, of ?a2] obtain ls' a' where
    b: "a64_reloc_bind_labels (map mk_label ?slots) ?a2 = Inr (ls', a')" "asm_buffer a' = inst_bytes (bind_slots (?body @ ?tail) ?slots)"
      "realized_address a' = 0" using a1(3) by auto
  have "\<exists>a'. a64_RelocBind ?a2 = Inr a' \<and> asm_buffer a' = inst_bytes (bind_slots (?body @ ?tail) ?slots) \<and> realized_address a' = 0"
  proof (cases "a64_data_labels a1")
    case None
    then have "?slots = []" using a1(4) by (simp add: labels_of_def)
    then show ?thesis using None a1(3) by (simp add: a64_RelocBind_def)
  next
    case (Some ls)
    then show ?thesis using a1(4) b by (simp add: a64_RelocBind_def labels_of_def)
  qed
  moreover have "bind_slots (?body @ ?tail) ?slots = a64_layout_all dbg ?s ?is"
    using bind_slots_layout [of "[]" dbg ?s ?is ?tail] by (simp add: a64_layout_all_def lit64_def eval_nat_numeral)
  moreover have "a64_relocated_code dbg mem origin = a64_RelocBind ?a2" using r a1(1) a2 by (simp add: a64_relocated_code_def)
  ultimately show ?thesis by auto
qed

end
