(* ===== verification/A64_Relocation_Sim.thy ===== *)
theory A64_Relocation_Sim
  imports A64_Relocation_Correct
begin

text \<open>
  The relocated code on the machine: executing the sequence that stands for an instruction does what the
  instruction does at its original address, the scratch register \<^verbatim>\<open>x17\<close> apart.
\<close>

section \<open>Reading the instruction\<close>

lemma SignExtend_eq:
  assumes "0 < M" and "M \<le> 64"
  shows "SignExtend x M 64 = signed_take_bit (M - 1) x"
proof (rule bit_word_eqI)
  fix n assume "n < LENGTH(64)"
  moreover have "M \<le> Suc n \<Longrightarrow> \<not> M \<le> n \<Longrightarrow> n = M - 1" by simp
  ultimately show "bit (SignExtend x M 64) n = bit (signed_take_bit (M - 1) x) n"
    using assms by (cases "M \<le> n"; cases "n = M - 1")
      (auto simp: SignExtend_def bit_signed_drop_bit_iff bit_push_bit_iff bit_signed_take_bit_iff min_def)
qed

lemma signed_take_bit_push:
  fixes x :: u64
  shows "signed_take_bit (n + 2) (push_bit 2 x) = push_bit 2 (signed_take_bit n x)"
  by (rule bit_word_eqI) (auto simp: bit_signed_take_bit_iff bit_push_bit_iff min_def)

lemma decode_imm:
  "decode_imm14_offset i = push_bit 2 (f_signed 5 14 i)" "decode_imm19_offset i = push_bit 2 (f_signed 5 19 i)"
  "decode_imm26_offset i = push_bit 2 (f_signed 0 26 i)"
  using signed_take_bit_push [of 13] signed_take_bit_push [of 18] signed_take_bit_push [of 25]
  by (simp_all add: decode_imm14_offset_def decode_imm19_offset_def decode_imm26_offset_def reloc_fields SignExtend_eq f_signed_def)

lemma decode_pcrel: "decode_immhi_immlo_offset i = pcrel_imm i"
proof -
  have "field 29 2 i AND push_bit 2 (field 5 19 i) = 0"
    by (rule bit_word_eqI) (auto simp: bit_and_iff bit_field_iff bit_push_bit_iff)
  then have "field 29 2 i + push_bit 2 (field 5 19 i) = field 29 2 i OR push_bit 2 (field 5 19 i)" by (rule disjunctive_add_eq_or)
  then show ?thesis by (simp add: decode_immhi_immlo_offset_def reloc_fields SignExtend_eq pcrel_imm_def)
qed

lemma mask_clash: "t AND m = u \<Longrightarrow> t AND n = v \<Longrightarrow> u AND n = v AND m" for t :: u32
  by (metis and.assoc and.commute)

lemma mask_top_bit:
  fixes t :: u32
  shows "t AND 0xFC = (t AND 0x7C) OR (if bit t 7 then 0x80 else 0)" "t AND 0x9F = (t AND 0x1F) OR (if bit t 7 then 0x80 else 0)"
proof -
  have e: "bit (0x80 :: u32) n \<longleftrightarrow> n = 7" for n
    using bit_exp_iff [of 7 n, where ?'a = u32] by auto
  have b: "t AND 0x80 = (if bit t 7 then 0x80 else 0)"
  proof (rule bit_word_eqI)
    fix n
    show "bit (t AND 0x80) n = bit (if bit t 7 then 0x80 else 0 :: u32) n" using e [of n] by (cases "n = 7") (auto simp: bit_and_iff)
  qed
  have "(0xFC :: u32) = 0x7C OR 0x80" "(0x9F :: u32) = 0x1F OR 0x80" by simp_all
  then show "t AND 0xFC = (t AND 0x7C) OR (if bit t 7 then 0x80 else 0)" "t AND 0x9F = (t AND 0x1F) OR (if bit t 7 then 0x80 else 0)"
    unfolding b [symmetric] by (simp_all only: bit.conj_disj_distrib)
qed

lemma top_pcrel:
  fixes t :: u32
  assumes "t AND 0x1F = 0x10"
  shows "t AND 0xFC \<noteq> 0x14" "t AND 0xFC \<noteq> 0x94" "t AND 0x7E \<noteq> 0x36" "t AND 0x7E \<noteq> 0x34" "t \<noteq> 0x54" "t \<noteq> 0xD6" "t AND 0x9F = 0x10 \<longleftrightarrow> \<not> bit t 7"
  using assms mask_top_bit(2) [of t] mask_clash [OF assms, of "0xFC"] mask_clash [OF assms, of "0x7E"] by auto

lemma top_branch:
  fixes t :: u32
  shows "t AND 0x7C = 0x14 \<longleftrightarrow> t AND 0xFC = 0x14 \<or> t AND 0xFC = 0x94"
proof
  show "t AND 0x7C = 0x14 \<Longrightarrow> t AND 0xFC = 0x14 \<or> t AND 0xFC = 0x94" using mask_top_bit(1) [of t] by auto
  have "t AND 0x7C = (t AND 0xFC) AND 0x7C" by (simp add: and.assoc)
  then show "t AND 0xFC = 0x14 \<or> t AND 0xFC = 0x94 \<Longrightarrow> t AND 0x7C = 0x14" by auto
qed

lemma top_branch_only:
  fixes t :: u32
  assumes "t AND 0x7C = 0x14"
  shows "t AND 0x3B \<noteq> 0x18" "t AND 0x1F \<noteq> 0x10" "t AND 0x7E \<noteq> 0x36" "t AND 0x7E \<noteq> 0x34" "t \<noteq> 0x54" "t \<noteq> 0xD6" "t AND 0xFE \<noteq> 0x54"
  using assms mask_clash [OF assms, of "0x3B"] mask_clash [OF assms, of "0x1F"] mask_clash [OF assms, of "0x7E"] mask_clash [OF assms, of "0xFE"] by auto

lemma top_test_only:
  fixes t :: u32
  assumes "t AND 0x7E = 0x36 \<or> t AND 0x7E = 0x34"
  shows "t AND 0x3B \<noteq> 0x18" "t AND 0x1F \<noteq> 0x10" "t AND 0x7C \<noteq> 0x14" "t \<noteq> 0x54" "t \<noteq> 0xD6" "t AND 0xFE \<noteq> 0x54"
  using assms mask_clash [of t "0x7E" _ "0x3B"] mask_clash [of t "0x7E" _ "0x1F"] mask_clash [of t "0x7E" _ "0x7C"] mask_clash [of t "0x7E" _ "0xFE"]
  by fastforce+

section \<open>The inverted branch\<close>

lemma bit_set_bits_of:
  fixes w v :: u32
  assumes "st \<le> fn" and "fn < 32" and "take_bit (Suc (fn - st)) v = v"
  shows "bit (set_bits_of w st fn v) n \<longleftrightarrow> (if st \<le> n \<and> n \<le> fn then bit v (n - st) else bit w n)"
proof -
  have v: "bit v k \<longrightarrow> k < Suc (fn - st)" for k using assms(3) by (metis bit_take_bit_iff)
  have "n - st < Suc (fn - st) \<longleftrightarrow> n \<le> fn" if "st \<le> n" using that assms(1) by auto
  then show ?thesis
    using assms(1,2) v [of "n - st"] bit_imp_le_length [of w n]
    by (auto simp: set_bits_of_def submask_eq_mask bit_or_iff bit_and_iff bit_not_iff bit_push_bit_iff bit_mask_iff)
qed

lemma set_bit_of_eq: "set_bit_of (w :: u32) st v = set_bits_of w st st v"
  by (simp add: set_bit_of_def set_bits_of_def submask_def)

lemma field_set_bits:
  fixes w v :: u32
  assumes "st \<le> fn" and "fn < 32" and "take_bit (Suc (fn - st)) v = v"
  shows "a + n \<le> st \<or> fn < a \<Longrightarrow> field a n (set_bits_of w st fn v) = field a n w"
    "n = Suc (fn - st) \<Longrightarrow> field st n (set_bits_of w st fn v) = v"
proof -
  have v: "bit v k \<longrightarrow> k < Suc (fn - st)" for k using assms(3) by (metis bit_take_bit_iff)
  show "a + n \<le> st \<or> fn < a \<Longrightarrow> field a n (set_bits_of w st fn v) = field a n w"
    by (rule bit_word_eqI) (auto simp: bit_field_iff bit_set_bits_of [OF assms])
  show "n = Suc (fn - st) \<Longrightarrow> field st n (set_bits_of w st fn v) = v"
  proof (rule bit_word_eqI)
    fix k assume "n = Suc (fn - st)" "k < LENGTH(32)"
    then show "bit (field st n (set_bits_of w st fn v)) k = bit v k"
      using v [of k] assms(1,2) by (auto simp: bit_field_iff bit_set_bits_of [OF assms])
  qed
qed

lemma flipped_bit:
  fixes i :: u32
  shows "take_bit (Suc 0) (bit_of i n XOR 1) = bit_of i n XOR 1" "field n 1 (set_bit_of i n (bit_of i n XOR 1)) = bit_of i n XOR 1 \<or> 32 \<le> n"
    "bit (bit_of i n XOR 1) 0 \<longleftrightarrow> \<not> bit i n"
proof -
  show 1: "take_bit (Suc 0) (bit_of i n XOR 1) = bit_of i n XOR 1" by (simp add: bit_of_cases)
  show "field n 1 (set_bit_of i n (bit_of i n XOR 1)) = bit_of i n XOR 1 \<or> 32 \<le> n"
    using field_set_bits(2) [of n n "bit_of i n XOR 1" 1 i] 1 by (auto simp: set_bit_of_eq)
  show "bit (bit_of i n XOR 1) 0 \<longleftrightarrow> \<not> bit i n" by (simp add: bit_of_cases)
qed

lemma top_test_mask: "f_top i AND 0x7E = push_bit 1 (field 25 6 i)" for i :: u32
proof (rule bit_word_eqI)
  fix n
  have "(0x7E :: u32) = push_bit 1 (mask 6)" by (simp add: mask_eq_exp_minus_1)
  then have "bit (0x7E :: u32) n = bit (push_bit 1 (mask 6) :: u32) n" by (rule arg_cong)
  also have "\<dots> \<longleftrightarrow> 1 \<le> n \<and> n < 7" by (auto simp: bit_push_bit_iff bit_mask_iff simp del: push_bit_Suc)
  finally show "bit (f_top i AND 0x7E) n = bit (push_bit 1 (field 25 6 i)) n"
    using bit_imp_le_length [of i "24 + n"]
    by (auto simp: f_top_def bit_and_iff bit_field_iff bit_push_bit_iff simp del: push_bit_Suc)
qed

text \<open>A field that was overwritten, and one beside it.\<close>

lemma field_skip14:
  fixes w :: u32
  shows "a + n \<le> 5 \<or> 18 < a \<Longrightarrow> field a n (set_bits_of w 5 18 3) = field a n w" "field 5 14 (set_bits_of w 5 18 3) = 3"
  by (rule field_set_bits(1); simp) (rule field_set_bits(2); simp)

lemma field_skip19:
  fixes w :: u32
  shows "a + n \<le> 5 \<or> 23 < a \<Longrightarrow> field a n (set_bits_of w 5 23 3) = field a n w" "field 5 19 (set_bits_of w 5 23 3) = 3"
  by (rule field_set_bits(1); simp) (rule field_set_bits(2); simp)

lemma field_flip24:
  fixes w :: u32
  shows "a + n \<le> 24 \<or> 24 < a \<Longrightarrow> field a n (set_bit_of w 24 (bit_of w 24 XOR 1)) = field a n w"
  unfolding set_bit_of_eq by (rule field_set_bits(1)) (simp_all add: bit_of_cases)

lemma bit_flip24:
  fixes w :: u32
  shows "bit (set_bits_of (set_bit_of w 24 (bit_of w 24 XOR 1)) 5 18 3) 24 \<longleftrightarrow> \<not> bit w 24"
    "bit (set_bits_of (set_bit_of w 24 (bit_of w 24 XOR 1)) 5 23 3) 24 \<longleftrightarrow> \<not> bit w 24"
proof -
  have "bit (set_bit_of w 24 (bit_of w 24 XOR 1)) 24 \<longleftrightarrow> \<not> bit w 24"
    unfolding set_bit_of_eq using bit_set_bits_of [of 24 24 "bit_of w 24 XOR 1" w 24] flipped_bit(1,3) [of w 24] by simp
  then show "bit (set_bits_of (set_bit_of w 24 (bit_of w 24 XOR 1)) 5 18 3) 24 \<longleftrightarrow> \<not> bit w 24"
    "bit (set_bits_of (set_bit_of w 24 (bit_of w 24 XOR 1)) 5 23 3) 24 \<longleftrightarrow> \<not> bit w 24"
    using bit_set_bits_of [of 5 18 3 "set_bit_of w 24 (bit_of w 24 XOR 1)" 24]
      bit_set_bits_of [of 5 23 3 "set_bit_of w 24 (bit_of w 24 XOR 1)" 24] by simp_all
qed

lemmas field_skip = field_skip14 field_skip19 field_flip24 bit_flip24

lemma skip_test:
  fixes i :: u32
  defines "j \<equiv> set_bits_of (set_bit_of i 24 (bit_of i 24 XOR 1)) 5 18 3"
  assumes "is_TB i"
  shows "a64_target j s = (if tb_zero i s \<noteq> bit i 24 then None else Some (xpc s + 12))" "a64_data other j s = s"
proof -
  have f: "field 25 6 j = field 25 6 i" "field 31 1 j = field 31 1 i" "field 19 5 j = field 19 5 i" "field 0 5 j = field 0 5 i"
      "field 5 14 j = 3" and b: "bit j 24 \<longleftrightarrow> \<not> bit i 24"
    by (simp_all add: j_def field_skip)
  have tb: "is_TB j" using assms(2) f(1) by (simp add: is_TB_def top_test_mask)
  then have "\<not> is_B j" "\<not> is_BL j" "\<not> a64_links j" "a64_branches j"
    using top_test_only [of "f_top j"] top_branch [of "f_top j"] by (auto simp: is_TB_def is_B_def is_BL_def a64_links_def is_BLR_def a64_branches_def)
  moreover have "tb_zero j s = tb_zero i s" using f by (simp add: tb_zero_def f_reg_def)
  moreover have "f_signed 5 14 j = 3" by (simp add: f_signed_def f)
  ultimately show "a64_target j s = (if tb_zero i s \<noteq> bit i 24 then None else Some (xpc s + 12))" "a64_data other j s = s"
    using tb b by (auto simp: a64_target_def a64_data_def)
qed

lemma skip_compare:
  fixes i :: u32
  defines "j \<equiv> set_bits_of (set_bit_of i 24 (bit_of i 24 XOR 1)) 5 23 3"
  assumes "is_CB i"
  shows "a64_target j s = (if cb_zero i s \<noteq> bit i 24 then None else Some (xpc s + 12))" "a64_data other j s = s"
proof -
  have f: "field 25 6 j = field 25 6 i" "field 31 1 j = field 31 1 i" "field 0 5 j = field 0 5 i" "field 5 19 j = 3"
      and b: "bit j 24 \<longleftrightarrow> \<not> bit i 24"
    by (simp_all add: j_def field_skip)
  have "bit w 31 \<longleftrightarrow> bit (field 31 1 w) 0" for w :: u32 by (simp add: bit_field_iff)
  then have b31: "bit j 31 = bit i 31" using f(2) by metis
  have tb: "is_CB j" using assms(2) f(1) by (simp add: is_CB_def top_test_mask)
  then have "\<not> is_B j" "\<not> is_BL j" "\<not> is_TB j" "\<not> a64_links j" "a64_branches j"
    using top_test_only [of "f_top j"] top_branch [of "f_top j"]
    by (auto simp: is_TB_def is_CB_def is_B_def is_BL_def a64_links_def is_BLR_def a64_branches_def)
  moreover have "cb_zero j s = cb_zero i s" using f b31 by (simp add: cb_zero_def f_reg_def)
  moreover have "f_signed 5 19 j = 3" by (simp add: f_signed_def f)
  ultimately show "a64_target j s = (if cb_zero i s \<noteq> bit i 24 then None else Some (xpc s + 12))" "a64_data other j s = s"
    using tb b by (auto simp: a64_target_def a64_data_def)
qed

lemma cond_flipped:
  fixes c :: u32
  assumes "c < 14"
  shows "cond_holds (c XOR 1) s \<longleftrightarrow> \<not> cond_holds c s"
proof -
  have "drop_bit 1 (c XOR 1) = drop_bit 1 c" by (rule bit_word_eqI) (auto simp: bit_drop_bit_eq bit_xor_iff bit_1_iff)
  moreover have "bit (c XOR 1) 0 \<longleftrightarrow> \<not> bit c 0" by (simp add: bit_xor_iff)
  moreover have "c \<noteq> 15" "c \<noteq> 14" using assms by auto
  moreover have "c XOR 1 \<noteq> 15"
  proof
    assume "c XOR 1 = 15"
    then have "(c XOR 1) XOR 1 = 15 XOR 1" by simp
    then show False using assms by (simp add: xor.assoc)
  qed
  ultimately show ?thesis by (simp add: cond_holds_def Let_def)
qed

lemma skip_cond:
  fixes i :: u32
  defines "j \<equiv> set_bits_of (set_bits_of i 0 3 (field 0 4 i XOR 1)) 5 23 3"
  assumes "is_Bcond i" and "field 0 4 i < 14"
  shows "a64_target j s = (if cond_holds (field 0 4 i) s then None else Some (xpc s + 12))" "a64_data other j s = s"
proof -
  have t: "take_bit (Suc (3 - 0)) (field 0 4 i XOR 1) = field 0 4 i XOR 1"
    by (rule bit_word_eqI) (auto simp: bit_take_bit_iff bit_xor_iff bit_field_iff bit_1_iff)
  have f: "f_top j = f_top i" "field 4 1 j = field 4 1 i" "field 0 4 j = field 0 4 i XOR 1" "field 5 19 j = 3"
    using field_set_bits [OF _ _ t] by (simp_all add: j_def f_top_def field_skip)
  have "is_Bcond j" using assms(2) f by (simp add: is_Bcond_def)
  moreover from this have "\<not> is_B j" "\<not> is_BL j" "\<not> is_TB j" "\<not> is_CB j" "\<not> a64_links j" "a64_branches j"
    by (auto simp: is_Bcond_def is_TB_def is_CB_def is_B_def is_BL_def a64_links_def is_BLR_def a64_branches_def)
  moreover have "f_signed 5 19 j = 3" by (simp add: f_signed_def f)
  ultimately show "a64_target j s = (if cond_holds (field 0 4 i) s then None else Some (xpc s + 12))" "a64_data other j s = s"
    using cond_flipped [OF assms(3)] f(3) by (auto simp: a64_target_def a64_data_def)
qed

section \<open>Running a piece\<close>

definition reaches :: "a64_other \<Rightarrow> a64_cpu \<Rightarrow> a64_cpu \<Rightarrow> bool" where
  "reaches other s t \<longleftrightarrow> (\<exists>n. a64_run other n s = t)"

lemma reaches_refl: "reaches other s s"
  unfolding reaches_def by (rule exI [of _ 0]) simp

lemma reaches_trans: "reaches other s t \<Longrightarrow> reaches other t u \<Longrightarrow> reaches other s u"
  unfolding reaches_def by (metis run_append)

lemma reaches_step: "code_at (xmem s) (xpc s) (w # ws) \<Longrightarrow> reaches other (a64_exec other w s) t \<Longrightarrow> reaches other s t"
  unfolding reaches_def by (metis run_code)

lemma reaches_mov: "code_at (xmem s) (xpc s) (mov_words r v) \<Longrightarrow> reaches other s ((set_x (unat (take_bit 5 r)) v s)\<lparr>xpc := xpc s + 16\<rparr>)"
  unfolding reaches_def using run_mov by blast

definition pad :: "bool \<Rightarrow> u64" where
  "pad dbg = (if dbg then 4 else 0)"

lemma between_enter:
  assumes "code_at (xmem s) (xpc s) (between_nops dbg ws)"
  shows "reaches other s (s\<lparr>xpc := xpc s + pad dbg\<rparr>)" "code_at (xmem s) (xpc s + pad dbg) ws"
  using assms reaches_refl [of other s] reaches_step [of s "0xD503201F" ws other] reaches_refl
  by (auto simp: between_nops_def pad_def code_at_append exec_nop intro: reaches_step split: if_splits)

lemma between_leave:
  assumes "code_at m p (between_nops dbg ws)" and "xmem t = m" and "xpc t = p + pad dbg + 4 * of_nat (length ws)"
  shows "reaches other t (t\<lparr>xpc := p + 4 * of_nat (length (between_nops dbg ws))\<rparr>)"
proof (cases dbg)
  case True
  then have "code_at (xmem t) (xpc t) [0xD503201F]" using assms by (simp add: between_nops_def pad_def code_at_append algebra_simps)
  from reaches_step [OF this reaches_refl, of other] show ?thesis
    using True assms(3) by (simp add: exec_nop between_nops_def pad_def algebra_simps)
next
  case False
  then have "t\<lparr>xpc := p + 4 * of_nat (length (between_nops dbg ws))\<rparr> = t" using assms(3) by (simp add: between_nops_def pad_def)
  then show ?thesis using reaches_refl by simp
qed

text \<open>
  Where the relocator keeps the meaning: a literal load must be the 64-bit one into a general register, and a
  conditional branch must have a condition that is not \<^verbatim>\<open>al\<close> or \<^verbatim>\<open>nv\<close>.
\<close>

definition a64_faithful :: "u32 \<Rightarrow> bool" where
  "a64_faithful i \<longleftrightarrow> (rk_literal i \<longrightarrow> is_LDRlit i) \<and> (rk_cond i \<longrightarrow> is_Bcond i \<and> field 0 4 i < 14)"

text \<open>
  \<open>t\<close> is the state after the instruction \<open>i\<close>, executed in \<open>s\<close> as if at \<open>pc\<close>: memory, flags, stack pointer and registers
  agree except for \<^verbatim>\<open>x17\<close>; control is where \<open>i\<close> branches to, or at \<open>fin\<close>; a call returns to the relocated code.
\<close>

definition same_effect :: "a64_other \<Rightarrow> bool \<Rightarrow> u64 \<Rightarrow> u32 \<Rightarrow> u64 \<Rightarrow> a64_cpu \<Rightarrow> a64_cpu \<Rightarrow> bool" where
  "same_effect other dbg pc i fin s t \<longleftrightarrow>
     (let s0 = s\<lparr>xpc := pc\<rparr>; t0 = a64_exec other i s0
      in xmem t = xmem t0 \<and> nzcv t = nzcv t0 \<and> xsp t = xsp t0
       \<and> (\<forall>r. r \<noteq> 17 \<and> \<not> (a64_links i \<and> r = 30) \<longrightarrow> xr t r = xr t0 r)
       \<and> xpc t = (case a64_target i s0 of None \<Rightarrow> fin | Some target \<Rightarrow> target)
       \<and> (a64_links i \<longrightarrow> xr t 30 = (if is_BL i \<and> dbg then fin - 4 else fin)))"

lemma run_literal_piece:
  assumes c: "code_at (xmem s) (xpc s) (a64_piece dbg pc i w)" and k: "rk_literal i"
  shows "reaches other s ((set_x (unat (field 0 5 i)) (fetch64 (xmem s) (decode_imm19_offset i + pc)) (set_x 17 (decode_imm19_offset i + pc) s))
     \<lparr>xpc := xpc s + 4 * of_nat (length (a64_piece dbg pc i w))\<rparr>)"
proof -
  let ?A = "decode_imm19_offset i + pc" and ?r = "unat (field 0 5 i)"
  let ?ws = "mov_words 17 ?A @ [enc_ldr (field 0 5 i) 17]"
  have p: "a64_piece dbg pc i w = between_nops dbg ?ws" using k by (simp add: a64_piece_def)
  let ?s1 = "s\<lparr>xpc := xpc s + pad dbg\<rparr>"
  have c1: "code_at (xmem s) (xpc s + pad dbg) ?ws" using between_enter(2) c unfolding p by blast
  then have c2: "code_at (xmem s) (xpc s + pad dbg) (mov_words 17 ?A)" "fetch32 (xmem s) (xpc s + pad dbg + 16) = enc_ldr (field 0 5 i) 17"
    by (simp_all only: code_at_append) (simp add: mov_words_def)
  let ?s2 = "(set_x 17 ?A ?s1)\<lparr>xpc := xpc s + pad dbg + 16\<rparr>"
  have r1: "reaches other ?s1 ?s2" using reaches_mov [of ?s1 17 ?A other] c2(1) by simp
  let ?s3 = "(set_x ?r (fetch64 (xmem s) ?A) ?s2)\<lparr>xpc := xpc s + pad dbg + 20\<rparr>"
  have tr: "take_bit 5 (field 0 5 i) = field 0 5 i" by (simp add: field_def)
  have "a64_exec other (enc_ldr (field 0 5 i) 17) ?s2 = ?s3"
    by (simp add: exec_ldr tr get_xsp_def set_x_def)
  then have r2: "reaches other ?s2 ?s3" using reaches_step [of ?s2 "enc_ldr (field 0 5 i) 17" "[]" other ?s3] c2(2) reaches_refl by simp
  let ?t = "?s3\<lparr>xpc := xpc s + 4 * of_nat (length (between_nops dbg ?ws))\<rparr>"
  have "reaches other ?s3 ?t" using c unfolding p by (intro between_leave) (simp_all add: mov_words_def)
  then have "reaches other s ?t" using between_enter(1) [OF c [unfolded p]] r1 r2 by (meson reaches_trans)
  then show ?thesis unfolding p by simp
qed

lemma piece_literal:
  assumes c: "code_at (xmem s) (xpc s) (a64_piece dbg pc i w)" and k: "rk_literal i" "is_LDRlit i"
  shows "\<exists>t. reaches other s t \<and> same_effect other dbg pc i (xpc s + 4 * of_nat (length (a64_piece dbg pc i w))) s t"
proof -
  let ?A = "decode_imm19_offset i + pc" and ?r = "unat (field 0 5 i)"
  let ?t = "(set_x ?r (fetch64 (xmem s) ?A) (set_x 17 ?A s))\<lparr>xpc := xpc s + 4 * of_nat (length (a64_piece dbg pc i w))\<rparr>"
  have lit: "?A = pc + push_bit 2 (f_signed 5 19 i)" by (simp add: decode_imm add.commute)
  have "a64_data other i (s\<lparr>xpc := pc\<rparr>) = (set_x ?r (fetch64 (xmem s) ?A) s)\<lparr>xpc := pc\<rparr>" "a64_target i (s\<lparr>xpc := pc\<rparr>) = None"
      "\<not> a64_links i"
    using k(2) by (simp_all add: a64_data_def a64_target_def a64_links_def a64_branches_def is_B_def is_BL_def is_TB_def is_CB_def is_Bcond_def
        is_BR_def is_BLR_def is_RET_def is_PCREL_def is_LDRlit_def f_reg_def lit)
  then have "same_effect other dbg pc i (xpc s + 4 * of_nat (length (a64_piece dbg pc i w))) s ?t"
    by (simp add: same_effect_def a64_exec_def set_x_def)
  then show ?thesis using run_literal_piece [OF c k(1)] by blast
qed

lemma piece_pcrel:
  assumes c: "code_at (xmem s) (xpc s) (a64_piece dbg pc i w)" and k: "\<not> rk_literal i" "rk_pcrel i"
  shows "\<exists>t. reaches other s t \<and> same_effect other dbg pc i (xpc s + 4 * of_nat (length (a64_piece dbg pc i w))) s t"
proof -
  let ?A = "pcrel_address pc i" and ?r = "unat (field 0 5 i)"
  let ?ws = "mov_words (field 0 5 i) ?A"
  have p: "a64_piece dbg pc i w = between_nops dbg ?ws" using k by (simp add: a64_piece_def)
  let ?s1 = "s\<lparr>xpc := xpc s + pad dbg\<rparr>"
  have c1: "code_at (xmem s) (xpc s + pad dbg) ?ws" using between_enter(2) c unfolding p by blast
  have tr: "take_bit 5 (field 0 5 i) = field 0 5 i" by (simp add: field_def)
  let ?s2 = "(set_x ?r ?A s)\<lparr>xpc := xpc s + pad dbg + 16\<rparr>"
  have r1: "reaches other ?s1 ?s2" using reaches_mov [of ?s1 "field 0 5 i" ?A other] c1 by (simp add: tr)
  let ?t = "?s2\<lparr>xpc := xpc s + 4 * of_nat (length (between_nops dbg ?ws))\<rparr>"
  have r2: "reaches other ?s2 ?t" using c unfolding p by (intro between_leave) (simp_all add: mov_words_def)
  have t: "f_top i AND 0x1F = 0x10" using k(2) by (simp add: rk_pcrel_def)
  have b: "bit (f_top i) 7 \<longleftrightarrow> bit i 31" by (simp add: f_top_def bit_field_iff)
  have "a64_data other i (s\<lparr>xpc := pc\<rparr>) = (set_x ?r ?A s)\<lparr>xpc := pc\<rparr>" "a64_target i (s\<lparr>xpc := pc\<rparr>) = None" "\<not> a64_links i"
    using top_pcrel [OF t] t b
    by (simp_all add: a64_data_def a64_target_def a64_links_def a64_branches_def is_B_def is_BL_def is_TB_def is_CB_def is_Bcond_def
        is_BR_def is_BLR_def is_RET_def is_PCREL_def f_reg_def pcrel_address_def decode_pcrel decode_immhi_immlo_zero12_offset_def)
  then have "same_effect other dbg pc i (xpc s + 4 * of_nat (length (between_nops dbg ?ws))) s ?t"
    by (simp add: same_effect_def a64_exec_def set_x_def)
  then show ?thesis unfolding p using between_enter(1) [OF c [unfolded p]] r1 r2 by (meson reaches_trans)
qed

lemma label_target_eq:
  "label_target pc i = pc + push_bit 2 (if rk_branch i then f_signed 0 26 i else if rk_test i then f_signed 5 14 i else f_signed 5 19 i)"
  by (simp add: label_target_def decode_imm add.commute)

text \<open>\<^verbatim>\<open>ldr x17, label\<close> and the branch to \<^verbatim>\<open>x17\<close>, with the label \<open>d\<close> words away.\<close>

lemma run_literal_branch:
  assumes c: "code_at (xmem s) (xpc s) [enc_ldr_lit 17 (of_nat d), w]" and l: "fetch64 (xmem s) (xpc s + 4 * of_nat d) = A" "d < 2 ^ 18"
  shows "w = enc_br 17 \<Longrightarrow> reaches other s ((set_x 17 A s)\<lparr>xpc := A\<rparr>)"
    "w = enc_blr 17 \<Longrightarrow> reaches other s ((set_x 30 (xpc s + 4 + 4) (set_x 17 A s))\<lparr>xpc := A\<rparr>)"
proof -
  let ?s1 = "(set_x 17 A s)\<lparr>xpc := xpc s + 4\<rparr>"
  have "push_bit 2 (of_nat d) = (4 * of_nat d :: u64)" by (simp add: push_bit_eq_mult)
  then have "a64_exec other (enc_ldr_lit 17 (of_nat d)) s = ?s1" using l literal_reach [of d] by (simp add: exec_ldr_lit)
  moreover have "code_at (xmem ?s1) (xpc ?s1) [w]" using c by simp
  moreover have "a64_exec other (enc_br 17) ?s1 = (set_x 17 A s)\<lparr>xpc := A\<rparr>" by (simp add: exec_br get_x_def set_x_def)
  moreover have "a64_exec other (enc_blr 17) ?s1 = (set_x 30 (xpc s + 4 + 4) (set_x 17 A s))\<lparr>xpc := A\<rparr>"
    by (simp add: exec_blr get_x_def set_x_def)
  ultimately show "w = enc_br 17 \<Longrightarrow> reaches other s ((set_x 17 A s)\<lparr>xpc := A\<rparr>)"
    "w = enc_blr 17 \<Longrightarrow> reaches other s ((set_x 30 (xpc s + 4 + 4) (set_x 17 A s))\<lparr>xpc := A\<rparr>)"
    using reaches_step [OF c, of other] reaches_step [of ?s1 w "[]" other] reaches_refl by metis+
qed

lemma piece_branch:
  assumes c: "code_at (xmem s) (xpc s) (a64_piece dbg pc i (enc_ldr_lit 17 (of_nat d)))" and k: "rk_branch i"
    and l: "fetch64 (xmem s) (xpc s + pad dbg + 4 * of_nat d) = label_target pc i" "d < 2 ^ 18"
  shows "\<exists>t. reaches other s t \<and> same_effect other dbg pc i (xpc s + 4 * of_nat (length (a64_piece dbg pc i (enc_ldr_lit 17 (of_nat d))))) s t"
proof -
  let ?A = "label_target pc i" and ?w = "if is_BL i then enc_blr 17 else enc_br 17"
  let ?ws = "[enc_ldr_lit 17 (of_nat d), ?w]"
  have t: "f_top i AND 0x7C = 0x14" using k by (simp add: rk_branch_def)
  note only = top_branch_only [OF t]
  have p: "a64_piece dbg pc i (enc_ldr_lit 17 (of_nat d)) = between_nops dbg ?ws" using k only by (simp add: a64_piece_def rk_literal_def rk_pcrel_def)
  let ?s1 = "s\<lparr>xpc := xpc s + pad dbg\<rparr>"
  have c1: "code_at (xmem ?s1) (xpc ?s1) ?ws" using between_enter(2) [OF c [unfolded p]] by simp
  have A: "a64_target i (s\<lparr>xpc := pc\<rparr>) = Some ?A" "a64_links i \<longleftrightarrow> is_BL i" "a64_branches i"
    using t top_branch [of "f_top i"] only k
    by (auto simp: a64_target_def a64_links_def a64_branches_def is_B_def is_BL_def is_BLR_def label_target_eq)
  let ?t = "if is_BL i then (set_x 30 (xpc s + pad dbg + 4 + 4) (set_x 17 ?A ?s1))\<lparr>xpc := ?A\<rparr> else (set_x 17 ?A ?s1)\<lparr>xpc := ?A\<rparr>"
  have "reaches other ?s1 ?t" using run_literal_branch [OF c1, of ?A other] l by simp
  moreover have "same_effect other dbg pc i (xpc s + 4 * of_nat (length (between_nops dbg ?ws))) s ?t"
    using A by (auto simp: same_effect_def a64_exec_def a64_data_def set_x_def between_nops_def pad_def)
  ultimately show ?thesis unfolding p using between_enter(1) [OF c [unfolded p]] by (meson reaches_trans)
qed

lemma piece_conditional:
  assumes c: "code_at (xmem s) (xpc s) (a64_piece dbg pc i (enc_ldr_lit 17 (of_nat d)))" and k: "rk_label i" "\<not> rk_branch i" "a64_faithful i"
    and l: "fetch64 (xmem s) (xpc s + pad dbg + 4 + 4 * of_nat d) = label_target pc i" "d < 2 ^ 18"
  shows "\<exists>t. reaches other s t \<and> same_effect other dbg pc i (xpc s + 4 * of_nat (length (a64_piece dbg pc i (enc_ldr_lit 17 (of_nat d))))) s t"
proof -
  let ?A = "label_target pc i" and ?j = "skip_branch i"
  let ?ws = "[?j, enc_ldr_lit 17 (of_nat d), enc_br 17]" and ?s0 = "s\<lparr>xpc := pc\<rparr>"
  have p: "a64_piece dbg pc i (enc_ldr_lit 17 (of_nat d)) = between_nops dbg ?ws" using k by (simp add: a64_piece_def rk_label_def)
  let ?s1 = "s\<lparr>xpc := xpc s + pad dbg\<rparr>" and ?fin = "xpc s + 4 * of_nat (length (between_nops dbg ?ws))"
  have c1: "code_at (xmem ?s1) (xpc ?s1) ?ws" using between_enter(2) [OF c [unfolded p]] by simp
  have cls: "\<exists>taken. a64_target i ?s0 = (if taken then Some ?A else None) \<and> a64_target ?j ?s1 = (if taken then None else Some (xpc ?s1 + 12))
      \<and> a64_data other ?j ?s1 = ?s1 \<and> \<not> a64_links i \<and> a64_branches i"
  proof -
    consider (test) "is_TB i" "rk_test i" | (cmp) "is_CB i" "rk_compare i" "\<not> rk_test i" | (cond) "is_Bcond i" "field 0 4 i < 14" "rk_cond i" "\<not> rk_test i" "\<not> rk_compare i"
      using k by (auto simp: rk_label_def is_TB_def rk_test_def is_CB_def rk_compare_def a64_faithful_def)
    then show ?thesis
    proof cases
      case test
      then have "f_top i AND 0x7E = 0x36 \<or> f_top i AND 0x7E = 0x34" by (simp add: rk_test_def)
      from top_test_only [OF this] top_branch [of "f_top i"] test k(2)
      have "a64_target i ?s0 = (if tb_zero i s \<noteq> bit i 24 then Some ?A else None)" "\<not> a64_links i" "a64_branches i"
        by (auto simp: a64_target_def a64_links_def a64_branches_def is_B_def is_BL_def is_BLR_def label_target_eq tb_zero_def)
      moreover have "?j = set_bits_of (set_bit_of i 24 (bit_of i 24 XOR 1)) 5 18 3" using test by (simp add: skip_branch_def)
      moreover have "tb_zero i ?s1 = tb_zero i s" by (simp add: tb_zero_def)
      ultimately show ?thesis using skip_test [OF test(1)] by (intro exI [of _ "tb_zero i s \<noteq> bit i 24"]) simp
    next
      case cmp
      then have "f_top i AND 0x7E = 0x36 \<or> f_top i AND 0x7E = 0x34" by (simp add: rk_compare_def)
      from top_test_only [OF this] top_branch [of "f_top i"] cmp k(2)
      have "a64_target i ?s0 = (if cb_zero i s \<noteq> bit i 24 then Some ?A else None)" "\<not> a64_links i" "a64_branches i"
        by (auto simp: a64_target_def a64_links_def a64_branches_def is_B_def is_BL_def is_BLR_def is_TB_def rk_test_def label_target_eq
            cb_zero_def)
      moreover have "?j = set_bits_of (set_bit_of i 24 (bit_of i 24 XOR 1)) 5 23 3" using cmp by (simp add: skip_branch_def)
      moreover have "cb_zero i ?s1 = cb_zero i s" by (simp add: cb_zero_def)
      ultimately show ?thesis using skip_compare [OF cmp(1)] by (intro exI [of _ "cb_zero i s \<noteq> bit i 24"]) simp
    next
      case cond
      have cs: "cond_holds c ?s1 = cond_holds c s" "cond_holds c ?s0 = cond_holds c s" for c by (simp_all add: cond_holds_def)
      have "a64_target i ?s0 = (if cond_holds (field 0 4 i) s then Some ?A else None)" "\<not> a64_links i" "a64_branches i"
        using cond k(2) cs by (auto simp: a64_target_def a64_links_def a64_branches_def is_B_def is_BL_def is_BLR_def is_TB_def is_CB_def is_Bcond_def
            label_target_eq)
      moreover have "?j = set_bits_of (set_bits_of i 0 3 (field 0 4 i XOR 1)) 5 23 3" using cond by (simp add: skip_branch_def reloc_fields)
      ultimately show ?thesis using skip_cond [OF cond(1,2)] cs by (intro exI [of _ "cond_holds (field 0 4 i) s"]) simp
    qed
  qed
  then obtain taken where T: "a64_target i ?s0 = (if taken then Some ?A else None)" "a64_target ?j ?s1 = (if taken then None else Some (xpc ?s1 + 12))"
      "a64_data other ?j ?s1 = ?s1" "\<not> a64_links i" "a64_branches i" by blast
  let ?s2 = "?s1\<lparr>xpc := if taken then xpc s + pad dbg + 4 else xpc s + pad dbg + 12\<rparr>"
  have r1: "reaches other ?s1 ?s2" using reaches_step [OF c1 reaches_refl, of other] T(2,3) by (simp add: a64_exec_def split: if_splits)
  let ?t = "if taken then (set_x 17 ?A ?s2)\<lparr>xpc := ?A\<rparr> else ?s2\<lparr>xpc := ?fin\<rparr>"
  have "reaches other ?s2 ?t"
  proof (cases taken)
    case True
    then show ?thesis using run_literal_branch(1) [of ?s2 d "enc_br 17" ?A other] c1 l by simp
  next
    case False
    then show ?thesis using between_leave [OF c [unfolded p], of ?s2 other] by simp
  qed
  moreover have "same_effect other dbg pc i ?fin s ?t"
    using T by (auto simp: same_effect_def a64_exec_def a64_data_def set_x_def)
  ultimately show ?thesis unfolding p using between_enter(1) [OF c [unfolded p]] r1 by (meson reaches_trans)
qed

text \<open>The other instructions do not read the program counter.\<close>

definition pc_free :: "a64_other \<Rightarrow> u32 \<Rightarrow> a64_cpu \<Rightarrow> bool" where
  "pc_free other i s \<longleftrightarrow> (\<forall>p. other i (s\<lparr>xpc := p\<rparr>) = (other i s)\<lparr>xpc := p\<rparr>)"

lemma piece_other:
  assumes c: "code_at (xmem s) (xpc s) (a64_piece dbg pc i w)" and k: "\<not> rk_literal i" "\<not> rk_pcrel i" "\<not> rk_label i"
    and o: "pc_free other i s"
  shows "\<exists>t. reaches other s t \<and> same_effect other dbg pc i (xpc s + 4 * of_nat (length (a64_piece dbg pc i w))) s t"
proof -
  have n: "\<not> rk_branch i" "\<not> rk_test i" "\<not> rk_compare i" "\<not> rk_cond i" using k by (auto simp: rk_label_def)
  have p: "a64_piece dbg pc i w = [i]" using k n by (simp add: a64_piece_def)
  have cls: "\<not> is_B i" "\<not> is_BL i" "\<not> is_TB i" "\<not> is_CB i" "\<not> is_Bcond i" "\<not> is_PCREL i" "\<not> is_LDRlit i" "\<not> is_LDRlit32 i"
    using k n top_branch [of "f_top i"] by (auto simp: rk_defs is_B_def is_BL_def is_TB_def is_CB_def is_Bcond_def is_PCREL_def is_LDRlit_def is_LDRlit32_def)
  let ?t = "a64_exec other i s"
  have "reaches other s ?t" using reaches_step [OF _ reaches_refl, of s i "[]"] c p by simp
  moreover have "a64_target i (s\<lparr>xpc := pc\<rparr>) = a64_target i s" using cls by (simp add: a64_target_def)
  moreover have "a64_data other i (s\<lparr>xpc := pc\<rparr>) = (if a64_links i then set_x 30 (pc + 4) s else a64_data other i s)\<lparr>xpc := pc\<rparr>"
    using cls o by (simp add: a64_data_def pc_free_def)
  ultimately show ?thesis
    unfolding p using cls by (intro exI [of _ ?t]) (auto simp: same_effect_def a64_exec_def a64_data_def set_x_def split: option.split)
qed

lemma piece_simulates:
  assumes c: "code_at (xmem s) (xpc s) (a64_piece dbg pc i (enc_ldr_lit 17 (of_nat d)))" and f: "a64_faithful i"
    and l: "rk_label i \<Longrightarrow> fetch64 (xmem s) (xpc s + 4 * of_nat (piece_slot dbg i + d)) = label_target pc i" "rk_label i \<Longrightarrow> d < 2 ^ 18"
    and o: "pc_free other i s"
  shows "\<exists>t. reaches other s t \<and> same_effect other dbg pc i (xpc s + 4 * of_nat (length (a64_piece dbg pc i (enc_ldr_lit 17 (of_nat d))))) s t"
proof -
  consider "rk_literal i" | "\<not> rk_literal i" "rk_pcrel i" | (branch) "rk_label i" "rk_branch i" | (label) "rk_label i" "\<not> rk_branch i"
    | "\<not> rk_literal i" "\<not> rk_pcrel i" "\<not> rk_label i" by (auto simp: rk_label_def)
  then show ?thesis
  proof cases
    case 1
    then show ?thesis using piece_literal [OF c] f by (simp add: a64_faithful_def)
  next
    case 2
    then show ?thesis by (rule piece_pcrel [OF c])
  next
    case branch
    have eq: "xpc s + pad dbg + 4 * of_nat d = xpc s + 4 * of_nat (piece_slot dbg i + d)"
      using branch(2) by (simp add: pad_def piece_slot_def)
    show ?thesis by (rule piece_branch [OF c branch(2)]) (simp only: eq l(1) [OF branch(1)], rule l(2) [OF branch(1)])
  next
    case label
    have eq: "xpc s + pad dbg + 4 + 4 * of_nat d = xpc s + 4 * of_nat (piece_slot dbg i + d)"
      using label(2) by (simp add: pad_def piece_slot_def)
    show ?thesis by (rule piece_conditional [OF c label f]) (simp only: eq l(1) [OF label(1)], rule l(2) [OF label(1)])
  next
    case 5
    then show ?thesis using piece_other [OF c _ _ _ o] by blast
  qed
qed

section \<open>The relocated code\<close>

lemma length_layout: "length (a64_layout dbg here lit pc is) = length (a64_body dbg pc is)"
  by (induction "is" arbitrary: here lit pc) (simp_all add: Let_def piece_length_eq)

lemma pool_size: "length (a64_pool pc is) \<le> 2 * length is"
  by (induction "is" arbitrary: pc) (auto simp: lit64_def intro: le_SucI)

lemma piece_size: "length (a64_piece dbg pc i w) \<le> 7"
  by (simp add: a64_piece_def between_nops_def mov_words_def)

lemma body_size: "length (a64_body dbg pc is) \<le> 7 * length is"
proof (induction "is" arbitrary: pc)
  case (Cons i "is")
  show ?case using piece_size [of dbg pc i "enc_ldr_lit 17 0"] Cons [of "pc + 4"] by simp
qed simp

text \<open>Where the piece of instruction \<open>k\<close> and its literal are.\<close>

lemma layout_nth:
  assumes "k < length is"
  shows "\<exists>A B P Q. a64_layout dbg here lit pc is
       = A @ a64_piece dbg (pc + 4 * of_nat k) (is ! k) (enc_ldr_lit 17 (of_nat (lit + length P - (here + length A + piece_slot dbg (is ! k))))) @ B
     \<and> length A = length (a64_body dbg pc (take k is))
     \<and> a64_pool pc is = P @ (if rk_label (is ! k) then lit64 (label_target (pc + 4 * of_nat k) (is ! k)) else []) @ Q"
  using assms
proof (induction "is" arbitrary: k here lit pc)
  case (Cons i "is")
  let ?w = "enc_ldr_lit 17 (of_nat (lit - (here + piece_slot dbg i)))"
  let ?p = "a64_piece dbg pc i ?w" and ?l = "if rk_label i then lit64 (label_target pc i) else []"
  show ?case
  proof (cases k)
    case 0
    then show ?thesis by (intro exI [of _ "[]"] exI [of _ "a64_layout dbg (here + length ?p) (if rk_label i then lit + 2 else lit) (pc + 4) is"]
        exI [of _ "a64_pool (pc + 4) is"]) (simp add: Let_def)
  next
    case (Suc j)
    let ?lit = "if rk_label i then lit + 2 else lit"
    obtain A B P Q where ih: "a64_layout dbg (here + length ?p) ?lit (pc + 4) is
         = A @ a64_piece dbg (pc + 4 + 4 * of_nat j) (is ! j)
             (enc_ldr_lit 17 (of_nat (?lit + length P - (here + length ?p + length A + piece_slot dbg (is ! j))))) @ B"
        "length A = length (a64_body dbg (pc + 4) (take j is))"
        "a64_pool (pc + 4) is = P @ (if rk_label (is ! j) then lit64 (label_target (pc + 4 + 4 * of_nat j) (is ! j)) else []) @ Q"
      using Cons.IH [of j "here + length ?p" ?lit "pc + 4"] Cons.prems Suc by auto
    have e: "pc + 4 + 4 * of_nat j = pc + 4 * of_nat k" "(i # is) ! k = is ! j"
        "?lit + length P - (here + length ?p + length A + piece_slot dbg (is ! j)) = lit + length (?l @ P) - (here + length (?p @ A) + piece_slot dbg ((i # is) ! k))"
      by (simp_all add: Suc algebra_simps lit64_def)
    show ?thesis
      using ih unfolding e
      by (intro exI [of _ "?p @ A"] exI [of _ B] exI [of _ "?l @ P"] exI [of _ Q]) (simp add: Let_def Suc piece_length_eq [of dbg pc i ?w "enc_ldr_lit 17 0"])
  qed
qed simp

lemma layout_all_size: "length (a64_layout_all dbg start is) \<le> 9 * length is + 4"
  using body_size [of dbg start "is"] pool_size [of start "is"] by (simp add: a64_layout_all_def length_layout lit64_def)

definition relo_offset :: "bool \<Rightarrow> u64 \<Rightarrow> u32 list \<Rightarrow> nat \<Rightarrow> u64" where
  "relo_offset dbg start is k = 4 * of_nat (length (a64_body dbg start (take k is)))"

lemma body_snoc: "a64_body dbg pc (is @ [i]) = a64_body dbg pc is @ a64_piece dbg (pc + 4 * of_nat (length is)) i (enc_ldr_lit 17 0)"
  by (induction "is" arbitrary: pc) (simp_all add: algebra_simps)

lemma relo_offset_Suc:
  "k < length is \<Longrightarrow> relo_offset dbg start is (Suc k) = relo_offset dbg start is k + 4 * of_nat (length (a64_piece dbg (start + 4 * of_nat k) (is ! k) w))"
  by (simp add: relo_offset_def take_Suc_conv_app_nth body_snoc algebra_simps piece_length_eq [of dbg _ _ w "enc_ldr_lit 17 0"])

lemma layout_at:
  assumes c: "code_at (xmem s) relo (a64_layout_all dbg start is)" and n: "length is \<le> 1000" and k: "k < length is"
    and pc: "xpc s = relo + relo_offset dbg start is k"
  obtains d where "code_at (xmem s) (xpc s) (a64_piece dbg (start + 4 * of_nat k) (is ! k) (enc_ldr_lit 17 (of_nat d)))"
    "rk_label (is ! k) \<longrightarrow> fetch64 (xmem s) (xpc s + 4 * of_nat (piece_slot dbg (is ! k) + d)) = label_target (start + 4 * of_nat k) (is ! k)"
    "rk_label (is ! k) \<longrightarrow> d < 2 ^ 18"
    "xpc s + 4 * of_nat (length (a64_piece dbg (start + 4 * of_nat k) (is ! k) (enc_ldr_lit 17 (of_nat d)))) = relo + relo_offset dbg start is (Suc k)"
proof -
  let ?L = "length (a64_body dbg start is) + 4" and ?i = "is ! k" and ?pc = "start + 4 * of_nat k"
  obtain A B P Q where ly: "a64_layout dbg 0 ?L start is
         = A @ a64_piece dbg ?pc ?i (enc_ldr_lit 17 (of_nat (?L + length P - (length A + piece_slot dbg ?i)))) @ B"
      "length A = length (a64_body dbg start (take k is))"
      "a64_pool start is = P @ (if rk_label ?i then lit64 (label_target ?pc ?i) else []) @ Q"
    using layout_nth [OF k, of dbg 0 ?L start] by auto
  let ?d = "?L + length P - (length A + piece_slot dbg ?i)" and ?b = "a64_body dbg start is"
  let ?p = "a64_piece dbg ?pc ?i (enc_ldr_lit 17 (of_nat ?d))"
  have off: "relo_offset dbg start is k = 4 * of_nat (length A)" by (simp add: relo_offset_def ly(2))
  have lenb: "length ?b = length A + length ?p + length B" using ly(1) length_layout [of dbg 0 ?L start "is"] by simp
  have c1: "code_at (xmem s) (xpc s) ?p"
    using c unfolding a64_layout_all_def ly(1) pc off by (simp add: code_at_append)
  have lit: "fetch64 (xmem s) (xpc s + 4 * of_nat (piece_slot dbg ?i + ?d)) = label_target ?pc ?i \<and> ?d < 2 ^ 18" if l: "rk_label ?i"
  proof -
    have sl: "piece_slot dbg ?i < length ?p" using piece_slot_update(1) [OF l] .
    have "code_at (xmem s) (relo + 4 * of_nat (?L + length P)) (lit64 (label_target ?pc ?i))"
      using c l length_layout [of dbg 0 ?L start "is"] unfolding a64_layout_all_def ly(3)
      by (simp add: code_at_append lit64_def algebra_simps)
    moreover have "xpc s + 4 * of_nat (piece_slot dbg ?i + ?d) = relo + 4 * of_nat (?L + length P)"
    proof -
      have "length A + (piece_slot dbg ?i + ?d) = ?L + length P" using lenb sl by simp
      then have "(of_nat (length A) + of_nat (piece_slot dbg ?i + ?d) :: u64) = of_nat (?L + length P)" by (metis of_nat_add)
      then show ?thesis unfolding pc off by (simp only: add.assoc flip: distrib_left)
    qed
    moreover have "length P \<le> length (a64_pool start is)" by (simp add: ly(3))
    then have "?d < 2 ^ 18" using body_size [of dbg start "is"] pool_size [of start "is"] n by simp
    ultimately show ?thesis using fetch64_lit by simp
  qed
  have "xpc s + 4 * of_nat (length ?p) = relo + relo_offset dbg start is (Suc k)"
    unfolding pc relo_offset_Suc [OF k, of dbg start "enc_ldr_lit 17 (of_nat ?d)"] by (rule add.assoc)
  then show thesis using that [of ?d] c1 lit by blast
qed

lemma layout_step:
  assumes "code_at (xmem s) relo (a64_layout_all dbg start is)" and "length is \<le> 1000" and "k < length is" and f: "a64_faithful (is ! k)"
    and "xpc s = relo + relo_offset dbg start is k" and o: "pc_free other (is ! k) s"
  shows "\<exists>t. reaches other s t \<and> same_effect other dbg (start + 4 * of_nat k) (is ! k) (relo + relo_offset dbg start is (Suc k)) s t"
proof -
  obtain d where "code_at (xmem s) (xpc s) (a64_piece dbg (start + 4 * of_nat k) (is ! k) (enc_ldr_lit 17 (of_nat d)))"
    "rk_label (is ! k) \<longrightarrow> fetch64 (xmem s) (xpc s + 4 * of_nat (piece_slot dbg (is ! k) + d)) = label_target (start + 4 * of_nat k) (is ! k)"
    "rk_label (is ! k) \<longrightarrow> d < 2 ^ 18"
    "xpc s + 4 * of_nat (length (a64_piece dbg (start + 4 * of_nat k) (is ! k) (enc_ldr_lit 17 (of_nat d)))) = relo + relo_offset dbg start is (Suc k)"
    by (rule layout_at [OF assms(1-3,5)])
  from piece_simulates [OF this(1) f mp [OF this(2)] mp [OF this(3)] o] this(4) show ?thesis by simp
qed

lemma layout_end:
  assumes c: "code_at (xmem s) relo (a64_layout_all dbg start is)" and pc: "xpc s = relo + relo_offset dbg start is (length is)"
  shows "reaches other s ((set_x 17 (start + 4 * of_nat (length is)) s)\<lparr>xpc := start + 4 * of_nat (length is)\<rparr>)"
proof -
  let ?e = "start + 4 * of_nat (length is)" and ?L = "length (a64_body dbg start is) + 4"
  have "code_at (xmem s) (xpc s) ([enc_ldr_lit 17 2, enc_br 17] @ lit64 ?e)"
    using c length_layout [of dbg 0 ?L start "is"] unfolding a64_layout_all_def pc relo_offset_def
    by (simp add: code_at_append)
  then have "code_at (xmem s) (xpc s) [enc_ldr_lit 17 (of_nat 2), enc_br 17]" "code_at (xmem s) (xpc s + 8) (lit64 ?e)"
    by (simp_all only: code_at_append) simp_all
  moreover from this(2) have "fetch64 (xmem s) (xpc s + 4 * of_nat 2) = ?e" using fetch64_lit by simp
  ultimately show ?thesis using run_literal_branch(1) [of s 2 "enc_br 17" ?e other] by simp
qed

text \<open>
  C5: relocating instructions of AArch64 succeeds unless one of them is a literal load of another size, and
  the relocated code, wherever it is placed, does step by step what the originals do at their addresses, \<^verbatim>\<open>x17\<close>
  apart: a branch goes to the same target, a call returns into the relocated code, and after the last
  instruction control is at the first one that was not relocated.
\<close>

theorem a64_relocation_simulates:
  assumes "covers (nat (sint (ucast (raw_instruction_size origin) :: u32))) n" and "4 * n + 4 \<le> length mem" and "n \<le> 1000"
    and "list_all reloc_supported (instrs_of mem 0 n)"
  shows "\<exists>a. a64_relocated_code dbg mem origin = Inr a
     \<and> (\<forall>other s relo. load_mem (xmem s) relo (length (asm_buffer a)) = asm_buffer a \<longrightarrow>
          (\<forall>k < n. a64_faithful (instrs_of mem 0 n ! k) \<and> pc_free other (instrs_of mem 0 n ! k) s
               \<and> xpc s = relo + relo_offset dbg (raw_instruction_start origin) (instrs_of mem 0 n) k \<longrightarrow>
             (\<exists>t. reaches other s t \<and> same_effect other dbg (raw_instruction_start origin + 4 * of_nat k) (instrs_of mem 0 n ! k)
                    (relo + relo_offset dbg (raw_instruction_start origin) (instrs_of mem 0 n) (Suc k)) s t))
        \<and> (xpc s = relo + relo_offset dbg (raw_instruction_start origin) (instrs_of mem 0 n) n \<longrightarrow>
             reaches other s ((set_x 17 (raw_instruction_start origin + 4 * of_nat n) s)\<lparr>xpc := raw_instruction_start origin + 4 * of_nat n\<rparr>)))"
proof -
  let ?is = "instrs_of mem 0 n" and ?s = "raw_instruction_start origin"
  obtain a where a: "a64_relocated_code dbg mem origin = Inr a" "asm_buffer a = inst_bytes (a64_layout_all dbg ?s ?is)"
    using relocated_code_layout [OF assms(1,2,4)] by blast
  have at: "code_at (xmem s) relo (a64_layout_all dbg ?s ?is)" if "load_mem (xmem s) relo (length (asm_buffer a)) = asm_buffer a" for s relo
    using that by (intro code_at_loaded) (simp add: a(2))
  show ?thesis
  proof (intro exI [of _ a] conjI allI impI a(1))
    fix other and s :: a64_cpu and relo k
    assume "load_mem (xmem s) relo (length (asm_buffer a)) = asm_buffer a" "k < n"
      "a64_faithful (?is ! k) \<and> pc_free other (?is ! k) s \<and> xpc s = relo + relo_offset dbg ?s ?is k"
    then show "\<exists>t. reaches other s t \<and> same_effect other dbg (?s + 4 * of_nat k) (?is ! k) (relo + relo_offset dbg ?s ?is (Suc k)) s t"
      using layout_step [OF at, of s relo k other] assms(3) by simp
  next
    fix other and s :: a64_cpu and relo
    assume "load_mem (xmem s) relo (length (asm_buffer a)) = asm_buffer a" "xpc s = relo + relo_offset dbg ?s ?is n"
    then show "reaches other s ((set_x 17 (?s + 4 * of_nat n) s)\<lparr>xpc := ?s + 4 * of_nat n\<rparr>)"
      using layout_end [OF at, of s relo other] by simp
  qed
qed

theorem a64_relocation_simulates_witness:
  "\<exists>a s t. a64_relocated_code False (inst_bytes [0xB4000041, 0xD503201F]) (init_region_range 0x500000000000 4) = Inr a
     \<and> xpc s = 0x600000000000 \<and> load_mem (xmem s) 0x600000000000 (length (asm_buffer a)) = asm_buffer a
     \<and> xr s 1 = 0 \<and> reaches (\<lambda>_ s. s) s t \<and> xpc t = 0x500000000008"
proof -
  let ?mem = "inst_bytes [0xB4000041, 0xD503201F]" and ?o = "init_region_range 0x500000000000 4"
  have o: "covers (nat (sint (ucast (raw_instruction_size ?o) :: u32))) 1" "raw_instruction_start ?o = 0x500000000000"
    by (simp_all add: raw_instruction_size_def raw_instruction_start_def init_region_range_def covers_def)
  have i: "instrs_of ?mem 0 1 = [0xB4000041]" by (simp add: instrs_of_def)
  have sup: "list_all reloc_supported [0xB4000041]" "a64_faithful 0xB4000041"
    by (simp_all add: reloc_supported_def a64_faithful_def rk_literal_def rk_cond_def f_top_def field_def)
  obtain a where a: "a64_relocated_code False ?mem ?o = Inr a"
      "\<And>other s relo. load_mem (xmem s) relo (length (asm_buffer a)) = asm_buffer a \<Longrightarrow>
          pc_free other 0xB4000041 s \<Longrightarrow> xpc s = relo \<Longrightarrow>
             (\<exists>t. reaches other s t \<and> same_effect other False 0x500000000000 0xB4000041
                    (relo + relo_offset False 0x500000000000 [0xB4000041] 1) s t)"
    using a64_relocation_simulates [OF o(1), of ?mem False] i sup o(2) by (fastforce simp: relo_offset_def)
  have "asm_buffer a = inst_bytes (a64_layout_all False 0x500000000000 [0xB4000041])"
    using relocated_code_layout [OF o(1), of ?mem False] i sup a(1) o(2) by auto
  then have "length (asm_buffer a) < 2 ^ 63" using layout_all_size [of False "0x500000000000" "[0xB4000041]"] by simp
  moreover define s where "s = \<lparr>xr = (\<lambda>_. 0), xsp = 0, xpc = 0x600000000000, nzcv = (False, False, False, False),
     xmem = write_mem 0x600000000000 (asm_buffer a) (\<lambda>_. 0)\<rparr>"
  ultimately have m: "load_mem (xmem s) 0x600000000000 (length (asm_buffer a)) = asm_buffer a"
    using load_written [of "asm_buffer a" 0 "length (asm_buffer a)" "0x600000000000" "\<lambda>_. 0"] by simp
  then obtain t where "reaches (\<lambda>_ s. s) s t" "same_effect (\<lambda>_ s. s) False 0x500000000000 0xB4000041
       (0x600000000000 + relo_offset False 0x500000000000 [0xB4000041] 1) s t"
    using a(2) [OF m, of "\<lambda>_ s. s"] by (auto simp: pc_free_def s_def)
  moreover have "a64_target 0xB4000041 (s\<lparr>xpc := 0x500000000000\<rparr>) = Some 0x500000000008"
    by (simp add: a64_target_def a64_classes cb_zero_def f_reg_def f_signed_def field_def s_def get_x_def)
  ultimately show ?thesis using a(1) m by (intro exI [of _ a] exI [of _ s] exI [of _ t]) (simp add: same_effect_def Let_def s_def)
qed

text \<open>
  Every literal load that the relocator accepts becomes a 64-bit load into the general register of the
  same number: so does the 32-bit \<^verbatim>\<open>ldr w\<close>, which should clear the upper half, and the \<^verbatim>\<open>ldr s\<close> and \<^verbatim>\<open>ldr d\<close> of a vector
  register.
\<close>

theorem a64_literal_load_widened:
  assumes "covers (nat (sint (ucast (raw_instruction_size origin) :: u32))) n" and "4 * n + 4 \<le> length mem" and "n \<le> 1000"
    and "list_all reloc_supported (instrs_of mem 0 n)" and "k < n" and "rk_literal (instrs_of mem 0 n ! k)"
  shows "\<exists>a. a64_relocated_code dbg mem origin = Inr a
     \<and> (\<forall>other s relo. load_mem (xmem s) relo (length (asm_buffer a)) = asm_buffer a
          \<and> xpc s = relo + relo_offset dbg (raw_instruction_start origin) (instrs_of mem 0 n) k \<longrightarrow>
        (\<exists>t. reaches other s t \<and> (f_reg 0 (instrs_of mem 0 n ! k) \<noteq> 31 \<longrightarrow> xr t (f_reg 0 (instrs_of mem 0 n ! k))
            = fetch64 (xmem s) (raw_instruction_start origin + 4 * of_nat k + push_bit 2 (f_signed 5 19 (instrs_of mem 0 n ! k))))))"
proof -
  let ?is = "instrs_of mem 0 n" and ?s = "raw_instruction_start origin"
  obtain a where a: "a64_relocated_code dbg mem origin = Inr a" "asm_buffer a = inst_bytes (a64_layout_all dbg ?s ?is)"
    using relocated_code_layout [OF assms(1,2,4)] by blast
  show ?thesis
  proof (intro exI [of _ a] conjI allI impI a(1))
    fix other and s :: a64_cpu and relo
    assume A: "load_mem (xmem s) relo (length (asm_buffer a)) = asm_buffer a \<and> xpc s = relo + relo_offset dbg ?s ?is k"
    then have "code_at (xmem s) relo (a64_layout_all dbg ?s ?is)" by (intro code_at_loaded) (simp add: a(2))
    then obtain d where c: "code_at (xmem s) (xpc s) (a64_piece dbg (?s + 4 * of_nat k) (?is ! k) (enc_ldr_lit 17 (of_nat d)))"
      using layout_at [of s relo dbg ?s ?is k] A assms(3,5) by auto
    show "\<exists>t. reaches other s t \<and> (f_reg 0 (?is ! k) \<noteq> 31 \<longrightarrow> xr t (f_reg 0 (?is ! k))
        = fetch64 (xmem s) (?s + 4 * of_nat k + push_bit 2 (f_signed 5 19 (?is ! k))))"
      using run_literal_piece [OF c assms(6), of other]
      by (intro exI conjI impI, assumption) (simp add: f_reg_def set_x_def decode_imm add.commute)
  qed
qed

theorem a64_literal_load_widened_witness:
  "\<exists>a s t. a64_relocated_code False (inst_bytes [0x18000040, 0xD503201F]) (init_region_range 0x500000000000 4) = Inr a
     \<and> reaches (\<lambda>_ s. s) s t \<and> xr t 0 = 0xFFFFFFFFFFFFFFFF \<and> xr (a64_exec (\<lambda>_ s. s) 0x18000040 (s\<lparr>xpc := 0x500000000000\<rparr>)) 0 = 0xFFFFFFFF"
proof -
  let ?mem = "inst_bytes [0x18000040, 0xD503201F]" and ?o = "init_region_range 0x500000000000 4"
  have o: "covers (nat (sint (ucast (raw_instruction_size ?o) :: u32))) 1" "raw_instruction_start ?o = 0x500000000000"
    by (simp_all add: raw_instruction_size_def raw_instruction_start_def init_region_range_def covers_def)
  have i: "instrs_of ?mem 0 1 = [0x18000040]" by (simp add: instrs_of_def)
  have sup: "list_all reloc_supported [0x18000040]" "rk_literal 0x18000040" "f_reg 0 0x18000040 = 0" "f_signed 5 19 0x18000040 = 2"
    by (simp_all add: reloc_supported_def rk_literal_def f_top_def field_def f_reg_def f_signed_def)
  obtain a where a: "a64_relocated_code False ?mem ?o = Inr a"
      "\<And>other s relo. load_mem (xmem s) relo (length (asm_buffer a)) = asm_buffer a \<Longrightarrow> xpc s = relo \<Longrightarrow>
          \<exists>t. reaches other s t \<and> xr t 0 = fetch64 (xmem s) 0x500000000008"
    using a64_literal_load_widened [OF o(1), of ?mem 0 False] i sup o(2) by (fastforce simp: relo_offset_def)
  have "asm_buffer a = inst_bytes (a64_layout_all False 0x500000000000 [0x18000040])"
    using relocated_code_layout [OF o(1), of ?mem False] i sup a(1) o(2) by auto
  then have len: "length (asm_buffer a) \<le> 52" using layout_all_size [of False "0x500000000000" "[0x18000040]"] by simp
  define s where "s = \<lparr>xr = (\<lambda>_. 0), xsp = 0, xpc = 0x600000000000, nzcv = (False, False, False, False),
     xmem = write_mem 0x600000000000 (asm_buffer a) (\<lambda>_. 0xFF)\<rparr>"
  have m: "load_mem (xmem s) 0x600000000000 (length (asm_buffer a)) = asm_buffer a"
    using load_written [of "asm_buffer a" 0 "length (asm_buffer a)" "0x600000000000" "\<lambda>_. 0xFF"] len by (simp add: s_def)
  have ff: "load_mem (xmem s) 0x500000000008 8 = replicate 8 0xFF" "load_mem (xmem s) 0x500000000008 4 = replicate 4 0xFF"
  proof -
    have c: "load_mem (\<lambda>_. 0xFF) x n = replicate n 0xFF" for x n by (simp add: load_mem_def map_replicate_const)
    have "far 0x500000000008 8 0x600000000000 (length (asm_buffer a))" "far 0x500000000008 4 0x600000000000 (length (asm_buffer a))"
      using len by (simp_all add: far_def upt_rec)
    then show "load_mem (xmem s) 0x500000000008 8 = replicate 8 0xFF" "load_mem (xmem s) 0x500000000008 4 = replicate 4 0xFF"
      using load_far [of "0x500000000008" 8 "0x600000000000" "asm_buffer a" "\<lambda>_. 0xFF"]
        load_far [of "0x500000000008" 4 "0x600000000000" "asm_buffer a" "\<lambda>_. 0xFF"] by (simp_all only: s_def a64_cpu.simps c)
  qed
  have "fetch64 (xmem s) 0x500000000008 = 0xFFFFFFFFFFFFFFFF" "fetch32 (xmem s) 0x500000000008 = 0xFFFFFFFF"
    unfolding fetch64_def fetch32_def ff by code_simp+
  moreover have "xr (a64_exec (\<lambda>_ s. s) 0x18000040 (s\<lparr>xpc := 0x500000000000\<rparr>)) 0 = ucast (fetch32 (xmem s) 0x500000000008)"
    by (simp add: a64_exec_def a64_data_def a64_target_def a64_classes sup(3,4) set_x_def field_def)
  moreover have "xpc s = 0x600000000000" by (simp add: s_def)
  then obtain t where "reaches (\<lambda>_ s. s) s t" "xr t 0 = fetch64 (xmem s) 0x500000000008" using a(2) [OF m, of "\<lambda>_ s. s"] by auto
  ultimately show ?thesis using a(1) by (intro exI [of _ a] exI [of _ s] exI [of _ t]) simp
qed

end
