(* ===== verification/A64_Hook_Correct.thy ===== *)
theory A64_Hook_Correct
  imports A64_Hook A64_Relocation_Sim
begin

text \<open>
  What the AArch64 trampolines do on the machine, and what \<^verbatim>\<open>DobbyHook\<close> and \<^verbatim>\<open>DobbyDestroy\<close> do with this back
  end: the hooked address leads to the replacement and the relocated prologue to the rest of the function.
\<close>

section \<open>The normal trampoline\<close>

definition page_words :: "u64 \<Rightarrow> u64 \<Rightarrow> u32 list" where
  "page_words from to = (let d = ALIGN_FLOOR to 0x1000 - ALIGN_FLOOR from 0x1000
     in [enc_adrp 17 (ucast (drop_bit 12 d)) (ucast (drop_bit 14 d)), enc_add 17 17 (ucast (to mod 0x1000)), enc_br 17])"

definition normal_words :: "u64 \<Rightarrow> u64 \<Rightarrow> u32 list" where
  "normal_words from to = (if llabs (from - to) < adrp_range then page_words from to else [enc_ldr_lit 17 2, enc_br 17] @ lit64 to)"

lemma emits_AdrpAdd_br:
  "emits (page_words from to) (do_all [a64_AdrpAdd TMP_REG_0 from to, a64_br TMP_REG_0])"
proof -
  let ?d = "ALIGN_FLOOR to 0x1000 - ALIGN_FLOOR from 0x1000"
  have "emits (concat [[enc_adrp 17 (ucast (drop_bit 12 ?d)) (ucast (drop_bit 14 ?d))], [enc_add 17 17 (ucast (to mod 0x1000))]])
     (a64_AdrpAdd TMP_REG_0 from to)"
    unfolding a64_AdrpAdd_def Let_def TMP_REG_0_eq using emits_adrp [of 17] emits_add [of 17 17] by (intro emits_do_all) simp
  then have "emits (concat [concat [[enc_adrp 17 (ucast (drop_bit 12 ?d)) (ucast (drop_bit 14 ?d))], [enc_add 17 17 (ucast (to mod 0x1000))]],
      [enc_br 17]]) (do_all [a64_AdrpAdd TMP_REG_0 from to, a64_br TMP_REG_0])"
    using emits_br [of 17] by (intro emits_do_all) (simp add: TMP_REG_0_eq)
  then show ?thesis by (simp add: page_words_def Let_def)
qed

lemma normal_buffer: "a64_GenerateNormalTrampolineBuffer from to = Inr (inst_bytes (normal_words from to))"
  using emitsD [OF emits_AdrpAdd_br [of "from" to], of "new_a64_TurboAssembler from"]
    emitsD [OF emits_LiteralLdrBranch [of to], of "new_a64_TurboAssembler from"]
  by (simp add: a64_GenerateNormalTrampolineBuffer_def normal_words_def Let_def new_a64_TurboAssembler_def)

lemma length_normal_words: "length (normal_words from to) = (if llabs (from - to) < adrp_range then 3 else 4)"
  by (simp add: normal_words_def page_words_def Let_def lit64_def)

subsection \<open>The distance between pages\<close>

definition page_distance :: "u64 \<Rightarrow> u64 \<Rightarrow> int" where
  "page_distance from to = sint (ALIGN_FLOOR to 0x1000 - ALIGN_FLOOR from 0x1000)"

lemma llabs_less:
  assumes "llabs x < adrp_range"
  shows "\<bar>sint x\<bar> < 2 ^ 32"
proof -
  have r: "uint (llabs x) < 2 ^ 32" using assms by (simp add: adrp_range_def word_less_def)
  show ?thesis
  proof (cases "sint x < 0")
    case True
    have "- (2 ^ 63) \<le> sint x" using sint_ge [of x] by simp
    have "uint (- x) = (- uint x) mod 2 ^ 64" by (simp add: uint_word_ariths take_bit_eq_mod)
    also have "\<dots> = (- sint x) mod 2 ^ 64" by (simp add: uint_sint take_bit_eq_mod mod_simps)
    also have "\<dots> = - sint x" using True \<open>- (2 ^ 63) \<le> sint x\<close> by simp
    finally show ?thesis using r True by (simp add: llabs_def)
  next
    case False
    then have "uint x = sint x" using sint_lt [of x] by (simp add: uint_sint take_bit_int_eq_self_iff)
    then show ?thesis using r False by (simp add: llabs_def)
  qed
qed

lemma floor_page: "ALIGN_FLOOR x 0x1000 = x - take_bit 12 x"
  using ALIGN_FLOOR_pow2 [of x 12] by simp

lemma aligned_diff: "take_bit 12 (ALIGN_FLOOR a 0x1000 - ALIGN_FLOOR b 0x1000) = (0 :: u64)"
proof -
  have al: "uint (ALIGN_FLOOR w 0x1000) mod 4096 = 0" for w :: u64
  proof -
    have "take_bit 12 (ALIGN_FLOOR w 0x1000) = 0" by (simp add: ALIGN_FLOOR_def take_bit_and)
    then have "uint (take_bit 12 (ALIGN_FLOOR w 0x1000)) = 0" by (simp only: unsigned_0)
    then show ?thesis unfolding unsigned_take_bit_eq by (simp add: take_bit_eq_mod)
  qed
  have "uint (ALIGN_FLOOR a 0x1000 - ALIGN_FLOOR b 0x1000) mod 4096 = (uint (ALIGN_FLOOR a 0x1000) - uint (ALIGN_FLOOR b 0x1000)) mod 4096"
    by (simp add: uint_word_ariths take_bit_eq_mod mod_mod_cancel)
  also have "\<dots> = 0" using al [of a] al [of b] by (simp add: mod_eq_0_iff_dvd)
  finally have "uint (take_bit 12 (ALIGN_FLOOR a 0x1000 - ALIGN_FLOOR b 0x1000)) = 0"
    unfolding unsigned_take_bit_eq by (simp add: take_bit_eq_mod)
  then show ?thesis by (simp only: unsigned_eq_0_iff)
qed

lemma page_distance_bounds:
  assumes "llabs (from - to) < adrp_range"
  shows "- (2 ^ 32) \<le> page_distance from to \<and> page_distance from to \<le> 2 ^ 32"
    "take_bit 12 (ALIGN_FLOOR to 0x1000 - ALIGN_FLOOR from 0x1000) = 0"
proof -
  let ?d = "ALIGN_FLOOR to 0x1000 - ALIGN_FLOOR from 0x1000" and ?x = "sint (from - to)"
  let ?p = "uint (take_bit 12 from)" and ?q = "uint (take_bit 12 to)"
  have x: "\<bar>?x\<bar> < 4294967296" using llabs_less [OF assms] by simp
  have b: "uint (take_bit 12 w) < 4096" for w :: u64
    using take_bit_int_less_exp [of 12 "uint w"] by (simp add: unsigned_take_bit_eq)
  have pq: "0 \<le> ?p" "?p < 4096" "0 \<le> ?q" "?q < 4096" by (rule unsigned_greater_eq b)+
  have "?d = of_int (- ?x + ?p - ?q)" by (simp add: floor_page)
  moreover have "- 9223372036854775808 \<le> - ?x + ?p - ?q" "- ?x + ?p - ?q < 9223372036854775808" using x pq by linarith+
  then have "sint (of_int (- ?x + ?p - ?q) :: u64) = - ?x + ?p - ?q" by (intro sint_of_int_fits) simp_all
  ultimately have s: "sint ?d = - ?x + ?p - ?q" by (simp only:)
  show t: "take_bit 12 ?d = 0" by (rule aligned_diff)
  have "take_bit 12 (sint ?d) = 0"
  proof (rule bit_eqI)
    fix n
    have "\<not> bit (take_bit 12 ?d) n" by (simp only: t) simp
    then show "bit (take_bit 12 (sint ?d)) n = bit 0 n" by (auto simp: bit_take_bit_iff bit_sint_iff)
  qed
  then have "sint ?d mod 4096 = 0" by (simp add: take_bit_eq_mod)
  then obtain k where k: "sint ?d = 4096 * k" by blast
  then have "k < 1048577" "- 1048577 < k" using s x pq by linarith+
  then show "- (2 ^ 32) \<le> page_distance from to \<and> page_distance from to \<le> 2 ^ 32"
    using k unfolding page_distance_def by simp
qed

text \<open>Where the trampoline leads: the page distance of \<^verbatim>\<open>adrp\<close> is signed, and the largest one does not fit.\<close>

definition normal_target :: "u64 \<Rightarrow> u64 \<Rightarrow> u64" where
  "normal_target from to = (if llabs (from - to) < adrp_range \<and> page_distance from to = 2 ^ 32 then to - 2 ^ 33 else to)"

lemma adrp_lands:
  fixes d :: u64
  assumes "llabs (from - to) < adrp_range"
  defines "d \<equiv> ALIGN_FLOOR to 0x1000 - ALIGN_FLOOR from 0x1000"
  shows "ALIGN_FLOOR from 0x1000
     + push_bit 12 (signed_take_bit 20 (ucast (take_bit 2 (ucast (drop_bit 12 d) :: u32) OR push_bit 2 (take_bit 19 (ucast (drop_bit 14 d))))))
     + ucast (take_bit 12 (ucast (to mod 0x1000) :: u32)) = normal_target from to"
proof -
  note b = page_distance_bounds [OF assms(1)]
  have off: "ucast (take_bit 12 (ucast (to mod 0x1000) :: u32)) = take_bit 12 to"
  proof -
    have "to mod 0x1000 = take_bit 12 to" by (simp add: take_bit_eq_mod)
    then show ?thesis by (intro bit_word_eqI) (auto simp: bit_unsigned_iff bit_take_bit_iff)
  qed
  have t: "ALIGN_FLOOR from 0x1000 + d + take_bit 12 to = to" by (simp add: d_def floor_page)
  show ?thesis
  proof (cases "page_distance from to = 2 ^ 32")
    case True
    then have "sint d = sint (0x100000000 :: u64)" by (simp add: page_distance_def d_def)
    then have d: "d = 0x100000000" by (rule signed_word_eqI)
    have "push_bit 12 (signed_take_bit 20 (ucast (take_bit 2 (ucast (drop_bit 12 d) :: u32) OR push_bit 2 (take_bit 19 (ucast (drop_bit 14 d)))))) = d - 0x200000000"
      unfolding d by code_simp
    then show ?thesis using t True assms(1) unfolding off normal_target_def by (simp add: algebra_simps)
  next
    case False
    then have "sint d < 2 ^ 32" "- (2 ^ 32) \<le> sint d" using b(1) by (simp_all add: page_distance_def d_def)
    then show ?thesis using page_delta [of d] b(2) t False unfolding off normal_target_def by (simp add: d_def)
  qed
qed

lemma run_normal:
  assumes "code_at (xmem s) from (normal_words from to)" and "xpc s = from"
  shows "reaches other s ((set_x 17 (normal_target from to) s)\<lparr>xpc := normal_target from to\<rparr>)"
proof (cases "llabs (from - to) < adrp_range")
  case True
  let ?d = "ALIGN_FLOOR to 0x1000 - ALIGN_FLOOR from 0x1000"
  let ?i = "enc_adrp 17 (ucast (drop_bit 12 ?d)) (ucast (drop_bit 14 ?d))" and ?j = "enc_add 17 17 (ucast (to mod 0x1000))"
  have c: "code_at (xmem s) (xpc s) [?i, ?j, enc_br 17]" using assms True by (simp add: normal_words_def page_words_def Let_def)
  let ?s1 = "a64_exec other ?i s" let ?s2 = "a64_exec other ?j ?s1"
  have m: "xmem ?s1 = xmem s" "xpc ?s1 = xpc s + 4" "xmem ?s2 = xmem s" "xpc ?s2 = xpc s + 8"
    by (simp_all add: exec_adrp exec_add set_x_def set_xsp_def)
  have "?s2 = (set_x 17 (normal_target from to) s)\<lparr>xpc := xpc s + 8\<rparr>"
    using adrp_lands [OF True] assms(2) by (simp add: exec_adrp exec_add set_x_def set_xsp_def get_xsp_def)
  then have "a64_exec other (enc_br 17) ?s2 = (set_x 17 (normal_target from to) s)\<lparr>xpc := normal_target from to\<rparr>"
    by (simp add: exec_br set_x_def get_x_def)
  moreover have "reaches other s (a64_exec other (enc_br 17) ?s2)"
    using c m add.commute [of "xpc s" 8] by (intro reaches_step [OF c] reaches_step [of ?s1 ?j "[enc_br 17]"] reaches_step [of ?s2 "enc_br 17" "[]"] reaches_refl) auto
  ultimately show ?thesis by simp
next
  case False
  then have c: "code_at (xmem s) (xpc s) [enc_ldr_lit 17 (of_nat 2), enc_br 17]" "code_at (xmem s) (xpc s + 8) (lit64 to)"
    using assms by (simp_all add: normal_words_def add.commute [of 8 "from"])
  from fetch64_lit [OF c(2)] have "fetch64 (xmem s) (xpc s + 4 * of_nat 2) = to" by simp
  then show ?thesis using run_literal_branch(1) [OF c(1), of to other] False by (simp add: normal_target_def)
qed

section \<open>The steps of the routing\<close>

lemma fast_forward_frame:
  assumes "GenerateFastForwardTrampoline env src dst st = Some (Inr (c, st'))"
  shows "pr_interceptor st' = pr_interceptor st"
  using assms finalize_frame
  by (fastforce simp: GenerateFastForwardTrampoline_def Let_def rbind_Inr_iff with_near_def split: if_splits prod.splits option.splits
      elim!: robind_SomeE)

lemma emits_b: "emits [enc_b (ucast (drop_bit 2 imm))] (a64_b imm)"
proof -
  have "(ucast (bits_of (signed_drop_bit 2 imm) 0 25) :: u32) = take_bit 26 (ucast (drop_bit 2 imm))"
    by (rule bit_word_eqI) (auto simp: bits_of_eq_take_bit bit_unsigned_iff bit_take_bit_iff bit_drop_bit_eq bit_signed_drop_bit_iff)
  then show ?thesis using emits_Emit by (simp add: a64_b_def Let_def enc_b_def a64_constants a64_branch_constants)
qed

lemma near_frame:
  assumes "a64_GenerateNearTrampolineBuffer env src dst st = Some (Inr (b, st1))"
  shows "pr_interceptor st1 = pr_interceptor st \<and> (\<forall>tb. b = Some tb \<longrightarrow> length tb = 4)"
  using assms emitsD [OF emits_b] fast_forward_frame [of env src dst st]
  by (auto simp: a64_GenerateNearTrampolineBuffer_def Let_def new_a64_TurboAssembler_def split: if_splits option.splits elim!: robind_SomeE)

interpretation a64: hook_backend "a64_backend dbg full" "\<lambda>a. a"
proof
  fix env src dst st tb st1
  assume "be_normal (a64_backend dbg full) env src dst st = Some (Inr (tb, st1))"
  then show "pr_interceptor st1 = pr_interceptor st \<and> length tb \<le> 64"
    using length_normal_words [of src dst] by (auto simp: a64_backend_def normal_buffer)
next
  fix env src dst st b st1
  assume "be_near (a64_backend dbg full) env src dst st = Some (Inr (b, st1))"
  then show "pr_interceptor st1 = pr_interceptor st \<and> (\<forall>tb. b = Some tb \<longrightarrow> length tb \<le> 64)"
    using near_frame [of env src dst st b st1] by (auto simp: a64_backend_def)
next
  fix env buf origin relocated st origin' relocated' st1
  assume "be_relocate (a64_backend dbg full) env buf origin relocated st = Some (Inr (origin', relocated', st1))"
  then show "pr_interceptor st1 = pr_interceptor st \<and> raw_instruction_start origin' = raw_instruction_start origin"
    using finalize_frame by (fastforce simp: a64_backend_def a64_relocate_def a64_GenRelocateCodeAndBranch_def rbind_Inr_iff split: option.splits)
qed

subsection \<open>Relocation that succeeds\<close>

lemma relocate_insn_unsupported:
  assumes "\<not> reloc_supported i"
  shows "\<exists>e. a64_relocate_insn dbg pc i a = Inl e"
proof -
  have k: "rk_literal i" "field 30 2 i \<noteq> 0" "field 30 2 i \<noteq> 1" using assms by (auto simp: reloc_supported_def)
  have "a64_Mov (Xreg 17) v b = Inr (b\<lparr>asm_buffer := asm_buffer b @ inst_bytes (mov_words 17 v)\<rparr>)" for v b
    using emitsD [OF emits_Mov [of 17 v]] by simp
  then show ?thesis using k emitsD [OF emits_debug_nop [of dbg], of a]
    by (simp add: a64_relocate_insn_def reloc_masks Let_def reloc_fields TMP_REG_0_eq)
qed

lemma relocate_loop_supported:
  assumes "covers p n" and "4 * n + 4 \<le> length mem" and "k \<le> n" and "read_inst mem (4 * k) = Inr instr"
    and "a64_relocate_loop dbg mem p (4 * k) pc instr a = Inr r"
  shows "list_all reloc_supported (instrs_of mem k n)"
  using assms(3-5)
proof (induction "n - k" arbitrary: k pc instr a)
  case (Suc d)
  then have k: "k < n" "d = n - Suc k" by auto
  then have lt: "4 * k < p" using assms(1) by (auto simp: covers_def)
  have instr: "instr = le_word (take 4 (drop (4 * k) mem))" using Suc.prems(2) by (simp add: read_inst_def split: if_splits)
  obtain a1 instr' where l: "a64_relocate_insn dbg pc instr a = Inr a1" "read_inst mem (4 * Suc k) = Inr instr'"
      "a64_relocate_loop dbg mem p (4 * Suc k) (pc + 4) instr' a1 = Inr r"
    using Suc.prems(3) lt by (subst (asm) a64_relocate_loop.simps) (auto simp: rbind_Inr_iff add.commute)
  then have "reloc_supported instr" using relocate_insn_unsupported [of instr dbg pc a] by fastforce
  moreover have "list_all reloc_supported (instrs_of mem (Suc k) n)" using Suc.hyps(1) [OF k(2) _ l(2,3)] k(1) by simp
  ultimately show ?case unfolding instrs_of_Cons [OF k(1), of mem] instr by simp
qed (simp add: instrs_of_def)

lemma relocated_code_supported:
  assumes "a64_relocated_code dbg mem origin = Inr a" and "covers (nat (sint (ucast (raw_instruction_size origin) :: u32))) n"
    and "4 * n + 4 \<le> length mem"
  shows "list_all reloc_supported (instrs_of mem 0 n)"
proof -
  obtain instr r where "read_inst mem (4 * 0) = Inr instr"
      "a64_relocate_loop dbg mem (nat (sint (ucast (raw_instruction_size origin) :: u32))) (4 * 0) (raw_instruction_start origin) instr
         (new_a64_TurboAssembler 0) = Inr r"
    using assms(1) by (auto simp: a64_relocated_code_def rbind_Inr_iff)
  then show ?thesis using relocate_loop_supported [OF assms(2,3)] by blast
qed

lemma ucast_of_nat_u32: "(ucast (4 * of_nat n :: u64) :: u32) = 4 * of_nat n"
proof -
  have "(ucast (of_nat k :: u64) :: u32) = of_nat k" for k
    by (rule bit_word_eqI) (simp add: bit_unsigned_iff bit_of_nat_iff)
  from this [of "4 * n"] show ?thesis by simp
qed

lemma a64_relocate_done:
  assumes "a64_relocate dbg env mem origin rel st = Some (Inr (origin', relocated', st1))"
  obtains a c a' where "a64_relocated_code dbg mem origin = Inr a"
    "FinalizeFromTurboAssembler (env_page_size env) (env_fresh env 0) 4 a st = Inr (Some c, a', st1)"
    "relocated' = init_region_range (raw_instruction_start c) (ucast (raw_instruction_size c))" "origin' = origin"
proof -
  have r: "a64_GenRelocateCodeAndBranch dbg (env_page_size env) (env_fresh env 0) mem origin st = Inr (relocated', st1)" "origin' = origin"
    using assms by (cases "a64_GenRelocateCodeAndBranch dbg (env_page_size env) (env_fresh env 0) mem origin st"; auto simp: a64_relocate_def)+
  obtain a x where ax: "a64_relocated_code dbg mem origin = Inr a" "FinalizeFromTurboAssembler (env_page_size env) (env_fresh env 0) 4 a st = Inr x"
      "(case x of (code, _, st') \<Rightarrow> case code of None \<Rightarrow> Inl BAD_POINTER
         | Some c \<Rightarrow> Inr (init_region_range (raw_instruction_start c) (ucast (raw_instruction_size c)), st')) = Inr (relocated', st1)"
    using r(1) unfolding a64_GenRelocateCodeAndBranch_def by (elim rbind_InrE)
  obtain code a' st2 where "x = (code, a', st2)" by (cases x)
  then show thesis using ax r(2) that [of a _ a'] by (cases code) auto
qed

text \<open>The result of a relocation: \<open>n\<close> words were moved to \<open>oc\<close> and laid out there.\<close>

lemma a64_relocate_effect:
  assumes r: "a64_relocate dbg env mem (init_region_range s (of_nat (4 * n))) rel st = Some (Inr (origin', relocated', st1))"
    and n: "n \<le> 100" "4 * n + 4 \<le> length mem"
  shows "origin' = init_region_range s (of_nat (4 * n)) \<and> list_all reloc_supported (instrs_of mem 0 n)
     \<and> pr_mem st1 = write_mem (raw_instruction_start relocated') (inst_bytes (a64_layout_all dbg s (instrs_of mem 0 n))) (pr_mem st)"
proof -
  let ?o = "init_region_range s (of_nat (4 * n))" and ?L = "a64_layout_all dbg s (instrs_of mem 0 n)"
  obtain a c a' where g: "a64_relocated_code dbg mem ?o = Inr a"
      "FinalizeFromTurboAssembler (env_page_size env) (env_fresh env 0) 4 a st = Inr (Some c, a', st1)"
      "relocated' = init_region_range (raw_instruction_start c) (ucast (raw_instruction_size c))" "origin' = ?o"
    by (rule a64_relocate_done [OF r])
  have "unat (raw_instruction_size ?o) = 4 * n" using n(1) by (intro size_init_region) simp
  then have "raw_instruction_size ?o = of_nat (4 * n)" by (metis of_nat_unat ucast_id)
  then have "sint (ucast (raw_instruction_size ?o) :: u32) = int (4 * n)"
    using n(1) sint_of_int_small [of "int (4 * n)"] by (simp add: ucast_of_nat_u32)
  then have c: "covers (nat (sint (ucast (raw_instruction_size ?o) :: u32))) n" by (simp only: covers_def nat_int) simp
  have sup: "list_all reloc_supported (instrs_of mem 0 n)" by (rule relocated_code_supported [OF g(1) c n(2)])
  obtain b where b: "a64_relocated_code dbg mem ?o = Inr b" "realized_address b = 0" "asm_buffer b = inst_bytes ?L"
    using relocated_code_layout [OF c n(2) sup, of dbg] by (auto simp: start_init_region)
  have "length (asm_buffer a) < 2 ^ 63" using layout_all_size [of dbg s "instrs_of mem 0 n"] n(1) b g(1) by simp
  then show ?thesis using finalize_writes [OF g(2)] b g sup by (simp add: start_init_region)
qed

section \<open>Hooking\<close>

text \<open>What is known after a hook of \<open>address\<close>, without the near branch plugin.\<close>

lemma a64_hook_effect:
  assumes h: "DobbyHook (a64_backend dbg full) env address repl st = Some (Inr (RT_SUCCESS, Some oc, st'))"
    and p: "\<not> pr_near_branch_plugin st"
    and t: "table_repr (SharedInstance (env_new_interceptor env) (pr_interceptor st)) es"
    and u: "node_unused (SharedInstance (env_new_interceptor env) (pr_interceptor st)) (env_new_node env)"
  defines "ws \<equiv> normal_words address repl"
  defines "is \<equiv> instrs_of (load_mem (pr_mem st) address (4 * length ws + relocate_window)) 0 (length ws)"
  obtains m2 en where "oc = relocated_origin_instructions en" "target_address en = address" "table_repr (pr_interceptor st') (en # es)"
    "list_all reloc_supported is" "pr_mem st' = write_mem address (inst_bytes ws) m2"
    "m2 = write_mem oc (inst_bytes (a64_layout_all dbg address is)) (pr_mem st)"
    "if oc = 0 then prologue_lost en else prologue_saved address (4 * length ws) m2 en"
proof -
  let ?n = "length ws"
  obtain tb st1 origin' relocated' st2 en where H:
    "trampoline_made (a64_backend dbg full) env address repl (shared env st) tb st1"
    "be_relocate (a64_backend dbg full) env (load_mem (pr_mem st1) address (length tb + relocate_window))
       (init_region_range address (of_nat (length tb))) (init_region_range 0 0) st1 = Some (Inr (origin', relocated', st2))"
    "relocated_origin_instructions en = raw_instruction_start relocated'"
    "if raw_instruction_start relocated' = 0 then prologue_lost en
     else prologue_saved address (unat (raw_instruction_size origin')) (pr_mem st2) en"
    "Some oc = Some (relocated_origin_instructions en)" "target_address en = address" "table_repr (pr_interceptor st') (en # es)"
    "pr_mem st' = write_mem address tb (pr_mem st2)"
    by (rule a64.hook_effect [OF h t u])
  have tr: "tb = inst_bytes ws" "pr_mem st1 = pr_mem st"
    using H(1) p by (auto simp: trampoline_made_def a64_backend_def normal_buffer ws_def shared_def)
  have n: "?n \<le> 4" by (simp add: ws_def length_normal_words)
  have "a64_relocate dbg env (load_mem (pr_mem st) address (4 * ?n + relocate_window)) (init_region_range address (of_nat (4 * ?n)))
      (init_region_range 0 0) st1 = Some (Inr (origin', relocated', st2))" using H(2) by (simp add: tr a64_backend_def)
  from a64_relocate_effect [OF this] n
  have R: "origin' = init_region_range address (of_nat (4 * ?n))" "list_all reloc_supported is"
      "pr_mem st2 = write_mem oc (inst_bytes (a64_layout_all dbg address is)) (pr_mem st)"
    using H(3,5) tr(2) by (simp_all add: is_def relocate_window_def)
  have "unat (raw_instruction_size origin') = 4 * ?n" using n size_init_region [of "4 * ?n" address] by (simp add: R(1))
  then show thesis using that [of en "pr_mem st2"] H R tr(1) by (auto split: if_splits)
qed

text \<open>
  C22: the trampoline that is written over an AArch64 function, run at its address, leads to the replacement
  with only \<^verbatim>\<open>x17\<close> changed; the one exception is a distance of less than four gigabytes over exactly \<open>2 ^ 20\<close> pages
  forward, which the test in front of \<^verbatim>\<open>adrp\<close> lets through: there the immediate wraps and control lands eight
  gigabytes too low.
\<close>

theorem a64_trampoline_lands:
  "\<exists>tb. a64_GenerateNormalTrampolineBuffer from to = Inr tb \<and> length tb \<le> 16
     \<and> (\<forall>other s. load_mem (xmem s) from (length tb) = tb \<and> xpc s = from \<longrightarrow>
          (let t = if llabs (from - to) < adrp_range \<and> page_distance from to = 2 ^ 32 then to - 2 ^ 33 else to
           in reaches other s ((set_x 17 t s)\<lparr>xpc := t\<rparr>)))"
proof -
  have "reaches other s ((set_x 17 (normal_target from to) s)\<lparr>xpc := normal_target from to\<rparr>)"
    if "load_mem (xmem s) from (length (inst_bytes (normal_words from to))) = inst_bytes (normal_words from to)" "xpc s = from" for other s
    using that by (intro run_normal code_at_loaded) simp_all
  then show ?thesis
    using normal_buffer [of "from" to] length_normal_words [of "from" to] by (auto simp: normal_target_def Let_def)
qed

theorem a64_trampoline_lands_witness:
  "\<exists>tb s t. a64_GenerateNormalTrampolineBuffer 0x500000000FFC 0x500100000FF8 = Inr tb \<and> load_mem (xmem s) 0x500000000FFC (length tb) = tb
     \<and> xpc s = 0x500000000FFC \<and> reaches (\<lambda>_ s. s) s t \<and> xpc t = 0x4FFF00000FF8"
proof -
  obtain tb where tb: "a64_GenerateNormalTrampolineBuffer 0x500000000FFC 0x500100000FF8 = Inr tb" "length tb \<le> 16"
      "\<And>other s. load_mem (xmem s) 0x500000000FFC (length tb) = tb \<Longrightarrow> xpc s = 0x500000000FFC \<Longrightarrow>
         reaches other s ((set_x 17 0x4FFF00000FF8 s)\<lparr>xpc := 0x4FFF00000FF8\<rparr>)"
    using a64_trampoline_lands [of "0x500000000FFC" "0x500100000FF8"]
    by (fastforce simp: llabs_def adrp_range_def page_distance_def ALIGN_FLOOR_def)
  define s where "s = \<lparr>xr = (\<lambda>_. 0), xsp = 0, xpc = 0x500000000FFC, nzcv = (False, False, False, False), xmem = write_mem 0x500000000FFC tb (\<lambda>_. 0)\<rparr>"
  have "load_mem (xmem s) 0x500000000FFC (length tb) = tb"
    using load_written [of tb 0 "length tb" "0x500000000FFC" "\<lambda>_. 0"] tb(2) by (simp add: s_def)
  then show ?thesis using tb(1) tb(3) [of s "\<lambda>_ s. s"] by (intro exI [of _ tb] exI [of _ s] exI) (auto simp: s_def)
qed

section \<open>A process to hook in\<close>

definition a64_demo_env :: hook_env where
  "a64_demo_env = \<lparr>env_os = (\<lambda>_ h. h), env_page_size = 2 ^ 12, env_layout = [], env_arm = True, env_bytes_at = (\<lambda>_ _. []), env_junk = [],
     env_fresh = (\<lambda>_. 0x600000000000), env_bridge_page = 0x600000010000, env_closure_page = 0x600000020000,
     env_bridge_handler = 0x700000000000, env_new_interceptor = 0x10000, env_new_entry = 0x10100, env_new_route = 0x10200,
     env_new_node = 0x10300, env_new_closure = 0x10400, env_fuel = 105\<rparr>"

text \<open>Memory full of \<^verbatim>\<open>nop\<close>.\<close>

definition nop_mem :: "u64 \<Rightarrow> u8" where
  "nop_mem x = (let k = take_bit 2 x in if k = 0 then 0x1F else if k = 1 then 0x20 else if k = 2 then 0x03 else 0xD5)"

lemma a64_demo_hook:
  "\<exists>st'. DobbyHook (a64_backend False False) a64_demo_env 0x500000000800 0x400000000000 (new_process nop_mem)
     = Some (Inr (RT_SUCCESS, Some 0x600000000000, st'))"
proof -
  have "case DobbyHook (a64_backend False False) a64_demo_env 0x500000000800 0x400000000000 (new_process nop_mem) of
      Some (Inr (s, oc, st)) \<Rightarrow> s = RT_SUCCESS \<and> oc = Some 0x600000000000 | _ \<Rightarrow> False"
    by code_simp
  then show ?thesis by (auto split: option.splits sum.splits)
qed

lemma a64_demo_table:
  "table_repr (SharedInstance (env_new_interceptor a64_demo_env) (pr_interceptor (new_process m))) []"
  "node_unused (SharedInstance (env_new_interceptor a64_demo_env) (pr_interceptor (new_process m))) (env_new_node a64_demo_env)"
  "env_page_size a64_demo_env = 2 ^ 12" "\<not> pr_near_branch_plugin (new_process m)"
  by (rule table_repr_new) (simp_all add: a64_demo_env_def new_process_def node_unused_def SharedInstance_def INIT_LIST_HEAD_def)

text \<open>
  C2: when \<^verbatim>\<open>DobbyHook\<close> succeeds on AArch64 (without the near branch plugin), control that reaches the hooked
  address goes where the trampoline leads, the table finds the new entry, and, if the relocated code does not
  overlap the patch, running it from \<^verbatim>\<open>*origin_call\<close> does what the instructions under the patch did at their
  place, one by one, and then continues behind the patch.
\<close>

theorem a64_DobbyHook_redirects:
  assumes "DobbyHook (a64_backend dbg full) env address repl st = Some (Inr (RT_SUCCESS, Some oc, st'))" and "\<not> pr_near_branch_plugin st"
    and "table_repr (SharedInstance (env_new_interceptor env) (pr_interceptor st)) es"
    and "node_unused (SharedInstance (env_new_interceptor env) (pr_interceptor st)) (env_new_node env)"
  shows "\<exists>en n is. (n = 3 \<or> n = 4) \<and> is = instrs_of (load_mem (pr_mem st) address (4 * n + relocate_window)) 0 n
     \<and> FindHookEntry address (pr_interceptor st') = Some (Inr (Some en)) \<and> relocated_origin_instructions en = oc
     \<and> (\<forall>other s. xmem s = pr_mem st' \<and> xpc s = address \<longrightarrow>
          reaches other s ((set_x 17 (normal_target address repl) s)\<lparr>xpc := normal_target address repl\<rparr>))
     \<and> (\<forall>other s. far oc (4 * length (a64_layout_all dbg address is)) address (4 * n)
          \<and> load_mem (xmem s) oc (4 * length (a64_layout_all dbg address is)) = load_mem (pr_mem st') oc (4 * length (a64_layout_all dbg address is)) \<longrightarrow>
          (\<forall>k < n. a64_faithful (is ! k) \<and> pc_free other (is ! k) s \<and> xpc s = oc + relo_offset dbg address is k \<longrightarrow>
             (\<exists>t. reaches other s t \<and> same_effect other dbg (address + 4 * of_nat k) (is ! k) (oc + relo_offset dbg address is (Suc k)) s t))
        \<and> (xpc s = oc + relo_offset dbg address is n \<longrightarrow>
             reaches other s ((set_x 17 (address + 4 * of_nat n) s)\<lparr>xpc := address + 4 * of_nat n\<rparr>)))"
proof -
  let ?ws = "normal_words address repl"
  let ?is = "instrs_of (load_mem (pr_mem st) address (4 * length ?ws + relocate_window)) 0 (length ?ws)"
  let ?L = "a64_layout_all dbg address ?is"
  obtain m2 en where H: "oc = relocated_origin_instructions en" "target_address en = address" "table_repr (pr_interceptor st') (en # es)"
    "list_all reloc_supported ?is" "pr_mem st' = write_mem address (inst_bytes ?ws) m2" "m2 = write_mem oc (inst_bytes ?L) (pr_mem st)"
    by (rule a64_hook_effect [OF assms])
  have n: "length ?ws = 3 \<or> length ?ws = 4" by (simp add: length_normal_words)
  have find: "FindHookEntry address (pr_interceptor st') = Some (Inr (Some en))" using itc.find_law [OF H(3), of address] H(2) by simp
  have "code_at (pr_mem st') address ?ws"
    using load_written [of "inst_bytes ?ws" 0 "4 * length ?ws" address m2] n by (intro code_at_loaded) (auto simp: H(5))
  then have tramp: "reaches other s ((set_x 17 (normal_target address repl) s)\<lparr>xpc := normal_target address repl\<rparr>)"
    if "xmem s = pr_mem st'" "xpc s = address" for other s using run_normal [of s address repl] that by simp
  have "length ?L \<le> 100" using layout_all_size [of dbg address ?is] n by auto
  then have at: "code_at (xmem s) oc ?L"
    if "far oc (4 * length ?L) address (4 * length ?ws)" "load_mem (xmem s) oc (4 * length ?L) = load_mem (pr_mem st') oc (4 * length ?L)" for s
    using that load_far [of oc "4 * length ?L" address "inst_bytes ?ws" m2] load_written [of "inst_bytes ?L" 0 "4 * length ?L" oc "pr_mem st"]
    by (intro code_at_loaded) (auto simp: H(5,6))
  have small: "length ?is \<le> 1000" "length ?is = length ?ws" using n by auto
  show ?thesis
  proof (intro exI [of _ en] exI [of _ "length ?ws"] exI [of _ ?is] conjI allI impI)
    fix other and s :: a64_cpu and k
    assume a: "far oc (4 * length ?L) address (4 * length ?ws)
        \<and> load_mem (xmem s) oc (4 * length ?L) = load_mem (pr_mem st') oc (4 * length ?L)"
      and k: "k < length ?ws" "a64_faithful (?is ! k) \<and> pc_free other (?is ! k) s \<and> xpc s = oc + relo_offset dbg address ?is k"
    show "\<exists>t. reaches other s t \<and> same_effect other dbg (address + 4 * of_nat k) (?is ! k) (oc + relo_offset dbg address ?is (Suc k)) s t"
      using layout_step [OF at [OF conjunct1 [OF a] conjunct2 [OF a]] small(1), of k other] k small(2) by metis
  next
    fix other and s :: a64_cpu
    assume a: "far oc (4 * length ?L) address (4 * length ?ws)
        \<and> load_mem (xmem s) oc (4 * length ?L) = load_mem (pr_mem st') oc (4 * length ?L)"
      and e: "xpc s = oc + relo_offset dbg address ?is (length ?ws)"
    show "reaches other s ((set_x 17 (address + 4 * of_nat (length ?ws)) s)\<lparr>xpc := address + 4 * of_nat (length ?ws)\<rparr>)"
      using layout_end [OF at [OF conjunct1 [OF a] conjunct2 [OF a]], of other, unfolded small(2), OF e] .
  qed (use n find H(1) tramp in auto)
qed

theorem a64_DobbyHook_redirects_witness:
  "\<exists>st' s t. DobbyHook (a64_backend False False) a64_demo_env 0x500000000800 0x400000000000 (new_process nop_mem)
       = Some (Inr (RT_SUCCESS, Some 0x600000000000, st'))
     \<and> xmem s = pr_mem st' \<and> xpc s = 0x500000000800 \<and> reaches (\<lambda>_ s. s) s t \<and> xpc t = 0x400000000000"
proof -
  obtain st' where h: "DobbyHook (a64_backend False False) a64_demo_env 0x500000000800 0x400000000000 (new_process nop_mem)
      = Some (Inr (RT_SUCCESS, Some 0x600000000000, st'))" using a64_demo_hook by blast
  define s where "s = \<lparr>xr = (\<lambda>_. 0), xsp = 0, xpc = 0x500000000800, nzcv = (False, False, False, False), xmem = pr_mem st'\<rparr>"
  have "normal_target 0x500000000800 0x400000000000 = 0x400000000000" by (simp add: normal_target_def llabs_def adrp_range_def)
  then have "reaches (\<lambda>_ s. s) s ((set_x 17 0x400000000000 s)\<lparr>xpc := 0x400000000000\<rparr>)"
    using a64_DobbyHook_redirects [OF h a64_demo_table(4,1,2)] by (fastforce simp: s_def)
  then show ?thesis using h by (intro exI [of _ st'] exI [of _ s] exI conjI) (assumption | simp add: s_def)+
qed

text \<open>
  C24: on AArch64 too, destroying the hook just installed succeeds, gives the table back its old entries and
  restores the instructions under the patch unless the relocated code was placed over them.
\<close>

theorem a64_DobbyDestroy_restores:
  assumes "DobbyHook (a64_backend dbg full) env address repl st = Some (Inr (RT_SUCCESS, Some oc, st'))" and "\<not> pr_near_branch_plugin st"
    and "table_repr (SharedInstance (env_new_interceptor env) (pr_interceptor st)) es"
    and "node_unused (SharedInstance (env_new_interceptor env) (pr_interceptor st)) (env_new_node env)" and "oc \<noteq> 0"
    and "env_page_size env' = 2 ^ p" and "p < 63" and "unat address mod 2 ^ p + 16 \<le> 2 ^ p"
  shows "\<exists>n l st''. (n = 3 \<or> n = 4) \<and> l \<le> 40 \<and> DobbyDestroy False env' address st' = Some (Inr (RT_SUCCESS, st''))
     \<and> (\<forall>b. FindHookEntry b (pr_interceptor st'') = Some (Inr (List.find (\<lambda>en. target_address en = b) es)))
     \<and> (far address (4 * n) oc (4 * l) \<longrightarrow> load_mem (pr_mem st'') address (4 * n) = load_mem (pr_mem st) address (4 * n))
     \<and> (\<forall>x. 4 * n \<le> unat (x - address) \<longrightarrow> pr_mem st'' x = pr_mem st' x)"
proof -
  let ?ws = "normal_words address repl"
  let ?is = "instrs_of (load_mem (pr_mem st) address (4 * length ?ws + relocate_window)) 0 (length ?ws)"
  let ?L = "a64_layout_all dbg address ?is"
  obtain m2 en where H: "target_address en = address" "table_repr (pr_interceptor st') (en # es)"
    "m2 = write_mem oc (inst_bytes ?L) (pr_mem st)" "prologue_saved address (4 * length ?ws) m2 en"
    by (rule a64_hook_effect [OF assms(1-4)]) (use assms(5) in auto)
  have n: "length ?ws = 3 \<or> length ?ws = 4" by (simp add: length_normal_words)
  then have fit: "unat address mod 2 ^ p + 4 * length ?ws \<le> 2 ^ p" using assms(8) by auto
  obtain st'' where D: "DobbyDestroy False env' address st' = Some (Inr (RT_SUCCESS, st''))" "table_repr (pr_interceptor st'') es"
      "load_mem (pr_mem st'') address (4 * length ?ws) = load_mem m2 address (4 * length ?ws)"
      "\<And>x. 4 * length ?ws \<le> unat (x - address) \<Longrightarrow> pr_mem st'' x = pr_mem st' x"
    using DobbyDestroy_saved [OF H(2,1,4) assms(6,7) fit] by blast
  have "length ?L \<le> 40" using layout_all_size [of dbg address ?is] n by auto
  moreover have "load_mem m2 address (4 * length ?ws) = load_mem (pr_mem st) address (4 * length ?ws)"
    if "far address (4 * length ?ws) oc (4 * length ?L)"
    using that load_far [of address "4 * length ?ws" oc "inst_bytes ?L" "pr_mem st"] by (simp add: H(3))
  ultimately show ?thesis
    using n D itc.find_law [OF D(2)] by (intro exI [of _ "length ?ws"] exI [of _ "length ?L"] exI [of _ st'']) auto
qed

theorem a64_DobbyDestroy_restores_witness:
  "\<exists>st' st''. DobbyHook (a64_backend False False) a64_demo_env 0x500000000800 0x400000000000 (new_process nop_mem)
       = Some (Inr (RT_SUCCESS, Some 0x600000000000, st'))
     \<and> DobbyDestroy False a64_demo_env 0x500000000800 st' = Some (Inr (RT_SUCCESS, st''))
     \<and> FindHookEntry 0x500000000800 (pr_interceptor st'') = Some (Inr None)"
proof -
  obtain st' where h: "DobbyHook (a64_backend False False) a64_demo_env 0x500000000800 0x400000000000 (new_process nop_mem)
      = Some (Inr (RT_SUCCESS, Some 0x600000000000, st'))" using a64_demo_hook by blast
  then show ?thesis using a64_DobbyDestroy_restores [OF h a64_demo_table(4,1,2), of a64_demo_env 12] by (auto simp: a64_demo_table(3))
qed

end
