(* ===== verification/Variable_Cache.thy ===== *)
theory Variable_Cache
  imports Dobby_Prelude
begin

text \<open>
  The variable cache (\<^verbatim>\<open>external_helper/variable_cache.c\<close>): a list of named 64-bit values, with the file format it
  is saved in. The linked list, which only grows at \<^verbatim>\<open>root\<close>, is a list; C strings are their bytes without the
  terminating zero; a file is its bytes, and \<^verbatim>\<open>read\<close> and \<^verbatim>\<open>write\<close> are those of a regular file. A store behind the
  end of a buffer is \<open>OVERWRITE\<close>, a scan past its end \<open>OVERREAD\<close>.
\<close>

section \<open>The list\<close>

record var_entry_t =
  ve_key :: "u8 list"
  ve_value :: u64

type_synonym var_cache = "var_entry_t list"

definition key_size :: nat where
  "key_size = 128"

definition cache_get_entry_internal :: "u8 list \<Rightarrow> var_cache \<Rightarrow> var_entry_t option" where
  "cache_get_entry_internal name root = List.find (\<lambda>e. ve_key e = name) root"

fun set_first :: "u8 list \<Rightarrow> u64 \<Rightarrow> var_cache \<Rightarrow> var_cache" where
  "set_first name value [] = []"
| "set_first name value (e # es) = (if ve_key e = name then e\<lparr>ve_value := value\<rparr> # es else e # set_first name value es)"

text \<open>\<^verbatim>\<open>strcpy\<close> into the key of a fresh entry.\<close>

definition cache_set :: "u8 list \<Rightarrow> u64 \<Rightarrow> var_cache \<Rightarrow> var_cache result" where
  "cache_set name value root =
     (case cache_get_entry_internal name root of
        Some _ \<Rightarrow> Inr (set_first name value root)
      | None \<Rightarrow> if length name + 1 \<le> key_size then Inr (\<lparr>ve_key = name, ve_value = value\<rparr> # root) else Inl OVERWRITE)"

definition cache_get :: "u8 list \<Rightarrow> var_cache \<Rightarrow> u64" where
  "cache_get name root = (case cache_get_entry_internal name root of Some e \<Rightarrow> ve_value e | None \<Rightarrow> 0)"

section \<open>The file\<close>

definition entry_block :: "u32 \<Rightarrow> u32 \<Rightarrow> u8 list" where
  "entry_block key_length value_length = le_bytes 4 key_length @ le_bytes 4 value_length"

definition serialize_entry :: "var_entry_t \<Rightarrow> u8 list" where
  "serialize_entry e =
     (let key_length = of_nat (length (ve_key e) + 1) :: u32
      in entry_block key_length 8 @ take (unat key_length) (ve_key e @ [0]) @ le_bytes 8 (ve_value e))"

text \<open>\<open>opened\<close> says whether \<^verbatim>\<open>open\<close> succeeds; the results are the status and the new contents of the file.\<close>

definition serialized_to_file :: "bool \<Rightarrow> var_cache \<Rightarrow> u8 list \<Rightarrow> int \<times> u8 list" where
  "serialized_to_file opened root old = (if opened then (0, concat (map serialize_entry root)) else (-1, old))"

definition sys_read :: "u64 \<Rightarrow> u8 list \<Rightarrow> u8 list \<times> u8 list" where
  "sys_read n bytes = (if 2 ^ 63 \<le> unat n then ([], bytes) else (take (unat n) bytes, drop (unat n) bytes))"

definition read_into :: "u8 list \<Rightarrow> u64 \<Rightarrow> u8 list \<Rightarrow> (u8 list \<times> u8 list) result" where
  "read_into buf n bytes =
     (let (bs, rest) = sys_read n bytes
      in if length bs \<le> length buf then Inr (bs @ drop (length bs) buf, rest) else Inl OVERWRITE)"

lemma read_into_shrinks: "read_into buf n bytes = Inr (bs, rest) \<Longrightarrow> length rest \<le> length bytes"
  by (auto simp: read_into_def sys_read_def Let_def split: if_splits)

definition c_str :: "u8 list \<Rightarrow> u8 list result" where
  "c_str buf = (if 0 \<in> set buf then Inr (takeWhile (\<lambda>b. b \<noteq> 0) buf) else Inl OVERREAD)"

text \<open>
  The block keeps its old bytes when a read is short. Each round reads at least one byte, so the loop ends.
\<close>

function (sequential) unserialize_loop :: "u8 list \<Rightarrow> u8 list \<Rightarrow> var_cache \<Rightarrow> var_cache result" where
  "unserialize_loop block bytes root =
     (if bytes = [] then Inr root
      else
        (let block' = take 8 bytes @ drop (length (take 8 bytes)) block;
             key_length = le_word (take 4 block') :: u32;
             value_length = le_word (take 4 (drop 4 block')) :: u32
         in case read_into (replicate key_size 0) (scast key_length) (drop 8 bytes) of
              Inl err \<Rightarrow> Inl err
            | Inr (key, rest) \<Rightarrow>
                (case read_into (replicate 8 0) (scast value_length) rest of
                   Inl err \<Rightarrow> Inl err
                 | Inr (value, rest') \<Rightarrow>
                     (case c_str key of
                        Inl err \<Rightarrow> Inl err
                      | Inr name \<Rightarrow> unserialize_loop block' rest' (\<lparr>ve_key = name, ve_value = le_word value\<rparr> # root)))))"
  by pat_completeness auto
termination
proof (relation "measure (\<lambda>(block, bytes, root). length bytes)", goal_cases)
  case (2 block bytes root block' key_length value_length p key rest q val rest' name)
  then have "length rest \<le> length (drop 8 bytes)" "length rest' \<le> length rest" using read_into_shrinks by blast+
  then show ?case using 2(1) by (cases bytes) auto
qed simp

declare unserialize_loop.simps [simp del]

definition unserialized_from_file :: "u8 list option \<Rightarrow> var_cache \<Rightarrow> (int \<times> var_cache) result" where
  "unserialized_from_file bytes root =
     (case bytes of
        None \<Rightarrow> Inr (-1, root)
      | Some bs \<Rightarrow> rbind (unserialize_loop (replicate 8 0) bs root) (\<lambda>root'. Inr (0, root')))"

section \<open>The cache as a map\<close>

lemma unserialize_step:
  fixes bytes block :: "u8 list"
  assumes "bytes \<noteq> []"
  defines "block' \<equiv> take 8 bytes @ drop (length (take 8 bytes)) block"
  assumes "read_into (replicate key_size 0) (scast (le_word (take 4 block') :: u32)) (drop 8 bytes) = Inr (key, rest)"
    and "read_into (replicate 8 0) (scast (le_word (take 4 (drop 4 block')) :: u32)) rest = Inr (value, rest')"
    and "c_str key = Inr name"
  shows "unserialize_loop block bytes root = unserialize_loop block' rest' (\<lparr>ve_key = name, ve_value = le_word value\<rparr> # root)"
  using assms by (subst unserialize_loop.simps) (simp add: Let_def)

definition key_ok :: "u8 list \<Rightarrow> bool" where
  "key_ok k \<longleftrightarrow> length k < key_size \<and> 0 \<notin> set k"

definition cache_ok :: "var_cache \<Rightarrow> bool" where
  "cache_ok root \<longleftrightarrow> distinct (map ve_key root) \<and> list_all (\<lambda>e. key_ok (ve_key e)) root"

definition cache_map :: "var_cache \<Rightarrow> u8 list \<rightharpoonup> u64" where
  "cache_map root = map_of (map (\<lambda>e. (ve_key e, ve_value e)) root)"

lemma cache_get_map: "cache_get name root = (case cache_map root name of Some v \<Rightarrow> v | None \<Rightarrow> 0)"
  by (induction root) (auto simp: cache_get_def cache_get_entry_internal_def cache_map_def)

lemma cache_lookup_None: "cache_get_entry_internal name root = None \<longleftrightarrow> name \<notin> ve_key ` set root"
  by (induction root) (auto simp: cache_get_entry_internal_def)

lemma set_first_keys: "map ve_key (set_first name value root) = map ve_key root"
  by (induction root) auto

lemma set_first_map: "name \<in> ve_key ` set root \<Longrightarrow> cache_map (set_first name value root) = (cache_map root)(name \<mapsto> value)"
  by (induction root) (auto simp: cache_map_def fun_eq_iff)

lemma list_all_keys: "list_all (\<lambda>e. key_ok (ve_key e)) root \<longleftrightarrow> list_all key_ok (map ve_key root)"
  by (simp add: list.pred_map comp_def)

lemma cache_set_effect:
  assumes "cache_ok root" and "key_ok name"
  shows "\<exists>root'. cache_set name value root = Inr root' \<and> cache_ok root' \<and> cache_map root' = (cache_map root)(name \<mapsto> value)"
proof (cases "cache_get_entry_internal name root")
  case None
  then have "name \<notin> ve_key ` set root" by (simp add: cache_lookup_None)
  then show ?thesis using None assms by (auto simp: cache_set_def cache_ok_def key_ok_def cache_map_def)
next
  case (Some e)
  then have "name \<in> ve_key ` set root" using cache_lookup_None [of name root] by auto
  then show ?thesis using Some assms set_first_map by (simp add: cache_set_def cache_ok_def list_all_keys set_first_keys)
qed

definition cache_history :: "(u8 list \<times> u64) list \<Rightarrow> var_cache result" where
  "cache_history hs = rfold (\<lambda>(name, value). cache_set name value) hs []"

lemma cache_history_effect:
  assumes "list_all (\<lambda>(k, v). key_ok k) hs" and "cache_ok root"
  shows "\<exists>root'. rfold (\<lambda>(name, value). cache_set name value) hs root = Inr root' \<and> cache_ok root' \<and> cache_map root' = cache_map root ++ map_of (rev hs)"
  using assms
proof (induction hs arbitrary: root)
  case (Cons h hs)
  obtain k v where h: "h = (k, v)" by fastforce
  obtain root1 where r: "cache_set k v root = Inr root1" "cache_ok root1" "cache_map root1 = (cache_map root)(k \<mapsto> v)"
    using cache_set_effect [of root k v] Cons.prems by (auto simp: h)
  have m: "map_of (rev hs @ [(k, v)]) = [k \<mapsto> v] ++ map_of (rev hs)" by (simp add: map_add_def fun_eq_iff)
  have "(cache_map root)(k \<mapsto> v) ++ map_of (rev hs) = cache_map root ++ map_of (rev (h # hs))"
    by (simp add: h m map_add_assoc [symmetric] map_add_upd_left [symmetric] del: map_of_append)
  moreover obtain root' where "rfold (\<lambda>(name, value). cache_set name value) hs root1 = Inr root'" "cache_ok root'"
      "cache_map root' = cache_map root1 ++ map_of (rev hs)"
    using Cons.IH [OF _ r(2)] Cons.prems(1) by auto
  ultimately show ?case using r(1,3) by (intro exI [of _ root']) (simp add: h)
qed simp

text \<open>
  C33: after any sequence of \<^verbatim>\<open>cache_set\<close> calls with names of fewer than 128 bytes, \<^verbatim>\<open>cache_get\<close> gives the value last
  set under a name, and 0 for a name that was never set.
\<close>

theorem cache_refines_map:
  assumes "list_all (\<lambda>(k, v). key_ok k) hs"
  shows "\<exists>root. cache_history hs = Inr root
     \<and> (\<forall>name. cache_get name root = (case map_of (rev hs) name of Some v \<Rightarrow> v | None \<Rightarrow> 0))"
  using cache_history_effect [OF assms, of "[]"] by (auto simp: cache_history_def cache_ok_def cache_get_map cache_map_def)

theorem cache_refines_map_witness:
  "\<exists>root. cache_history [([97], 1), ([98], 2), ([97], 3)] = Inr root \<and> cache_get [97] root = 3 \<and> cache_get [99] root = 0"
  using cache_refines_map [of "[([97], 1), ([98], 2), ([97], 3)]"] by (auto simp: key_ok_def key_size_def)

section \<open>Saving and loading\<close>

lemma read_exact:
  assumes "length bs \<le> length buf" and "length bs < 2 ^ 31"
  shows "read_into buf (scast (of_nat (length bs) :: u32)) (bs @ rest) = Inr (bs @ drop (length bs) buf, rest)"
proof -
  have "unat (scast (of_nat (length bs) :: u32) :: u64) = length bs"
    using assms(2) by (simp add: scast_small unat_of_nat take_bit_nat_eq_self)
  then show ?thesis using assms by (simp add: read_into_def sys_read_def)
qed

lemma c_str_key:
  assumes "key_ok k"
  shows "c_str ((k @ [0]) @ drop (length (k @ [0])) (replicate key_size 0)) = Inr k"
proof -
  have "takeWhile (\<lambda>b. b \<noteq> 0) (k @ 0 # r) = k" for r using assms by (subst takeWhile_append2) (auto simp: key_ok_def)
  then show ?thesis by (simp add: c_str_def)
qed

lemma unserialize_entry:
  assumes "key_ok (ve_key e)" and "length block = 8"
  shows "\<exists>block'. length block' = 8 \<and> unserialize_loop block (serialize_entry e @ rest) root = unserialize_loop block' rest (e # root)"
proof -
  let ?k = "ve_key e @ [0]" and ?v = "le_bytes 8 (ve_value e)"
  let ?block = "entry_block (of_nat (length ?k)) 8"
  have k: "length ?k \<le> 128" using assms(1) by (simp add: key_ok_def key_size_def)
  have "unat (of_nat m :: u32) = m" if "m \<le> 128" for m using that by (simp add: unat_of_nat take_bit_nat_eq_self)
  note n = this [OF k]
  have e: "e = \<lparr>ve_key = ve_key e, ve_value = ve_value e\<rparr>" by simp
  have s: "serialize_entry e = ?block @ ?k @ ?v" using n by (simp add: serialize_entry_def Let_def)
  have b: "length ?block = 8" "take 4 ?block = le_bytes 4 (of_nat (length ?k) :: u32)" "take 4 (drop 4 ?block) = le_bytes 4 (8 :: u32)"
    by (simp_all add: entry_block_def)
  have v: "read_into (replicate 8 0) (scast (8 :: u32)) (?v @ rest) = Inr (?v, rest)"
    using read_exact [of ?v "replicate 8 0" rest] by simp
  have "unserialize_loop block (serialize_entry e @ rest) root
      = unserialize_loop (take 8 (serialize_entry e @ rest) @ drop (length (take 8 (serialize_entry e @ rest))) block) rest (e # root)"
    using unserialize_step [of "serialize_entry e @ rest" block "?k @ drop (length ?k) (replicate key_size 0)" "?v @ rest" ?v rest "ve_key e" root]
      read_exact [of ?k "replicate key_size 0" "?v @ rest"] c_str_key [OF assms(1)] k b v
    by (simp add: s key_size_def e [symmetric])
  moreover have "length (take 8 (serialize_entry e @ rest) @ drop (length (take 8 (serialize_entry e @ rest))) block) = 8"
    using b(1) assms(2) by (simp add: s)
  ultimately show ?thesis by blast
qed

lemma unserialize_all:
  assumes "list_all (\<lambda>e. key_ok (ve_key e)) es" and "length block = 8"
  shows "unserialize_loop block (concat (map serialize_entry es)) root = Inr (rev es @ root)"
  using assms
proof (induction es arbitrary: block root)
  case Nil
  then show ?case by (simp add: unserialize_loop.simps)
next
  case (Cons e es)
  then show ?case using unserialize_entry [of e block "concat (map serialize_entry es)" root] by auto
qed

lemma cache_map_rev: "distinct (map ve_key es) \<Longrightarrow> cache_map (rev es) = cache_map es"
proof -
  have "map_of (rev xs) k = map_of xs k" if "distinct (map fst xs)" for xs :: "(u8 list \<times> u64) list" and k
  proof (cases "map_of xs k")
    case None
    then have "map_of (rev xs) k = None" by (simp add: map_of_eq_None_iff)
    then show ?thesis using None by simp
  next
    case (Some v)
    then show ?thesis using that by (simp add: map_of_eq_Some_iff rev_map [symmetric])
  qed
  then show "distinct (map ve_key es) \<Longrightarrow> cache_map (rev es) = cache_map es"
    by (simp add: cache_map_def rev_map [symmetric] fun_eq_iff comp_def)
qed

text \<open>
  C34: the values that were set survive saving to a file and loading into an empty cache; the entries come back
  in the opposite order.
\<close>

theorem cache_file_round_trip:
  assumes "list_all (\<lambda>(k, v). key_ok k) hs"
  shows "\<exists>root bytes root'. cache_history hs = Inr root \<and> serialized_to_file True root old = (0, bytes)
     \<and> unserialized_from_file (Some bytes) [] = Inr (0, root') \<and> root' = rev root \<and> (\<forall>name. cache_get name root' = cache_get name root)"
proof -
  obtain root where r: "cache_history hs = Inr root" "cache_ok root"
    using cache_history_effect [OF assms, of "[]"] by (auto simp: cache_history_def cache_ok_def)
  then show ?thesis
    using unserialize_all [of root "replicate 8 0" "[]"]
    by (auto simp: serialized_to_file_def unserialized_from_file_def cache_ok_def cache_get_map cache_map_rev)
qed

theorem cache_file_round_trip_witness:
  "\<exists>root bytes root'. cache_history [([97], 1), ([98], 2)] = Inr root \<and> serialized_to_file True root [] = (0, bytes)
     \<and> unserialized_from_file (Some bytes) [] = Inr (0, root') \<and> root' = rev root"
  using cache_file_round_trip [of "[([97], 1), ([98], 2)]" "[]"] by (auto simp: key_ok_def key_size_def)

text \<open>
  The lengths in a file are trusted: a first block that announces a name of more than 128 bytes, or a value
  of more than 8, makes the loader write behind its buffers as soon as the file has that many bytes.
\<close>

theorem unserialize_trusts_lengths:
  assumes "key_length < 2 ^ 31" and "value_length < 2 ^ 31" and "unat key_length + unat value_length \<le> length rest"
    and "key_size < unat key_length \<or> 8 < unat value_length"
  shows "unserialized_from_file (Some (entry_block key_length value_length @ rest)) root = Inl OVERWRITE"
proof -
  let ?b = "entry_block key_length value_length @ rest"
  have b: "?b \<noteq> []" "take 8 ?b = entry_block key_length value_length" "length (entry_block key_length value_length) = 8"
      "take 4 (entry_block key_length value_length) = le_bytes 4 key_length"
      "take 4 (drop 4 (entry_block key_length value_length)) = le_bytes 4 value_length"
    by (auto simp: entry_block_def le_bytes_numeral)
  have s: "unat (scast w :: u64) = unat w" if "w < 2 ^ 31" for w :: u32
    using that by (simp add: scast_small word_less_nat_alt)
  have r: "read_into buf (scast w) bs = (if unat w \<le> length buf then Inr (take (unat w) bs @ drop (unat w) buf, drop (unat w) bs) else Inl OVERWRITE)"
    if "w < 2 ^ 31" "unat w \<le> length bs" for w :: u32 and buf bs
    using that s [OF that(1)] by (simp add: read_into_def sys_read_def word_less_nat_alt min_def)
  show ?thesis
    using assms b r [of key_length rest "replicate key_size 0"] r [of value_length "drop (unat key_length) rest" "replicate 8 0"]
    by (auto simp: unserialized_from_file_def unserialize_loop.simps Let_def)
qed

theorem unserialize_trusts_lengths_witness:
  "unserialized_from_file (Some (entry_block 1 9 @ replicate 10 0)) [] = Inl OVERWRITE"
  using unserialize_trusts_lengths [of 1 9 "replicate 10 0" "[]"] by simp

end
