(* ===== verification/C_Library.thy ===== *)
theory C_Library
  imports Dobby_Prelude "HOL-Library.Monad_Syntax"
begin

text \<open>
  The part of the C library that the readers of \<^verbatim>\<open>/proc/self/maps\<close> use: \<^verbatim>\<open>fgets\<close>, \<^verbatim>\<open>feof\<close> and \<^verbatim>\<open>getc\<close> on an open file,
  the conversions of \<^verbatim>\<open>sscanf\<close> and \<^verbatim>\<open>strstr\<close>; and printed numbers, with the lemmas that reading gives back what was
  printed. A C string is the list of its characters without the terminating zero.
\<close>

section \<open>Files\<close>

definition newline :: char where "newline = CHR 0x0A"

text \<open>What is left to read, and the end-of-file indicator.\<close>

type_synonym cfile = "string \<times> bool"

fun take_line :: "nat \<Rightarrow> string \<Rightarrow> string \<times> string" where
  "take_line 0 s = ([], s)"
| "take_line (Suc n) [] = ([], [])"
| "take_line (Suc n) (c # s) = (if c = newline then ([c], s) else (let (l, r) = take_line n s in (c # l, r)))"

definition fgets :: "nat \<Rightarrow> cfile \<Rightarrow> string option \<times> cfile" where
  "fgets n f =
     (let (s, eof) = f
      in if s = [] then (None, ([], True))
         else (let (l, r) = take_line (n - 1) s
               in (Some l, (r, eof \<or> (r = [] \<and> length l < n - 1 \<and> last l \<noteq> newline)))))"

text \<open>\<^verbatim>\<open>getc\<close> until a newline has been read; nothing when the file ends first.\<close>

definition skip_line :: "cfile \<Rightarrow> cfile option" where
  "skip_line f = (case dropWhile (\<lambda>c. c \<noteq> newline) (fst f) of [] \<Rightarrow> None | c # r \<Rightarrow> Some (r, snd f))"

section \<open>Conversions\<close>

definition is_space :: "char \<Rightarrow> bool" where
  "is_space c \<longleftrightarrow> (let k = of_char c :: nat in k = 32 \<or> (9 \<le> k \<and> k \<le> 13))"

definition skip_space :: "string \<Rightarrow> string" where
  "skip_space s = dropWhile is_space s"

definition digit_value :: "nat \<Rightarrow> char \<Rightarrow> nat option" where
  "digit_value b c =
     (let k = of_char c :: nat;
          v = (if 48 \<le> k \<and> k \<le> 57 then k - 48 else if 97 \<le> k \<and> k \<le> 102 then k - 87 else if 65 \<le> k \<and> k \<le> 70 then k - 55 else b)
      in if v < b then Some v else None)"

fun scan_digits :: "nat \<Rightarrow> string \<Rightarrow> nat list \<times> string" where
  "scan_digits b [] = ([], [])"
| "scan_digits b (c # s) =
     (case digit_value b c of None \<Rightarrow> ([], c # s) | Some d \<Rightarrow> (let (ds, r) = scan_digits b s in (d # ds, r)))"

definition number :: "nat \<Rightarrow> nat list \<Rightarrow> nat" where
  "number b ds = foldl (\<lambda>a d. b * a + d) 0 ds"

definition scan_sign :: "string \<Rightarrow> bool \<times> string" where
  "scan_sign s = (case s of [] \<Rightarrow> (False, []) | c # r \<Rightarrow> if c = CHR ''-'' then (True, r) else if c = CHR ''+'' then (False, r) else (False, s))"

definition scan_0x :: "string \<Rightarrow> string" where
  "scan_0x s = (case s of
      c # x # d # r \<Rightarrow> if c = CHR ''0'' \<and> (x = CHR ''x'' \<or> x = CHR ''X'') \<and> digit_value 16 d \<noteq> None then d # r else s
    | _ \<Rightarrow> s)"

text \<open>\<^verbatim>\<open>%x\<close> (base 16), \<^verbatim>\<open>%d\<close> and \<^verbatim>\<open>%u\<close> (base 10), before the value is narrowed to the type of the argument.\<close>

definition scan_num :: "nat \<Rightarrow> string \<Rightarrow> (int \<times> string) option" where
  "scan_num b s =
     (let (neg, s1) = scan_sign (skip_space s);
          s2 = (if b = 16 then scan_0x s1 else s1);
          (ds, r) = scan_digits b s2
      in if ds = [] then None else Some (if neg then - int (number b ds) else int (number b ds), r))"

definition scan_lit :: "char \<Rightarrow> string \<Rightarrow> string option" where
  "scan_lit c s = (case s of [] \<Rightarrow> None | d # r \<Rightarrow> if d = c then Some r else None)"

text \<open>\<^verbatim>\<open>%s\<close>.\<close>

definition scan_word :: "string \<Rightarrow> (string \<times> string) option" where
  "scan_word s =
     (let s1 = skip_space s; w = takeWhile (\<lambda>c. \<not> is_space c) s1
      in if w = [] then None else Some (w, dropWhile (\<lambda>c. \<not> is_space c) s1))"

text \<open>\<^verbatim>\<open>%nc\<close>: as many characters as there are, up to \<open>n\<close>, but at least one.\<close>

definition scan_chars :: "nat \<Rightarrow> string \<Rightarrow> (string \<times> string) option" where
  "scan_chars n s = (if s = [] then None else Some (take n s, drop n s))"

fun strstr :: "string \<Rightarrow> string \<Rightarrow> bool" where
  "strstr [] needle = (needle = [])"
| "strstr (c # s) needle = (take (length needle) (c # s) = needle \<or> strstr s needle)"

section \<open>Lines\<close>

lemma take_line_split: "take_line n s = (l, r) \<Longrightarrow> s = l @ r \<and> length l \<le> n"
  by (induction n s arbitrary: l r rule: take_line.induct) (auto split: if_splits prod.splits)

lemma take_line_nonempty: "take_line (Suc n) (c # s) = (l, r) \<Longrightarrow> l \<noteq> []"
  by (auto split: if_splits prod.splits)

lemma take_line_line:
  assumes "newline \<notin> set l" and "length l < n"
  shows "take_line n (l @ newline # r) = (l @ [newline], r)"
  using assms by (induction n l rule: take_line.induct) auto

lemma fgets_some_shrinks:
  assumes "fgets n f = (Some l, f1)" and "1 < n"
  shows "length (fst f1) < length (fst f)"
proof -
  obtain s eof where f: "f = (s, eof)" by (cases f)
  obtain l' r where lr: "take_line (n - 1) s = (l', r)" by fastforce
  have s: "s \<noteq> []" "f1 = (r, eof \<or> (r = [] \<and> length l < n - 1 \<and> last l \<noteq> newline))"
    using assms(1) lr by (auto simp: fgets_def f split: if_splits)
  moreover have "l' \<noteq> []" using s(1) lr assms(2) take_line_nonempty [of "n - 2"] by (cases s) (auto simp: Suc_diff_Suc numeral_2_eq_2)
  ultimately show ?thesis using take_line_split [OF lr] by (auto simp: f)
qed

lemma fgets_shrinks:
  assumes "fgets n f = (got, s1, eof1)" and "1 < n"
  shows "length s1 + (if eof1 then 0 else 1) < length (fst f) + (if snd f then 0 else 1) \<or> snd f"
proof (cases "fst f")
  case Nil
  then show ?thesis using assms by (cases f) (auto simp: fgets_def)
next
  case (Cons c s)
  obtain k where k: "n - 1 = Suc k" using assms(2) by (cases "n - 1") auto
  obtain l r where lr: "take_line (n - 1) (fst f) = (l, r)" by fastforce
  have "l \<noteq> []" using take_line_nonempty [of k c s l r] lr unfolding k Cons by blast
  moreover have "fst f = l @ r" using take_line_split [OF lr] by blast
  ultimately show ?thesis using assms(1) lr by (cases f) (auto simp: fgets_def)
qed

lemma fgets_line:
  assumes "newline \<notin> set l" and "length l + 2 \<le> n"
  shows "fgets n (l @ newline # r, False) = (Some (l @ [newline]), (r, False))"
  using take_line_line [OF assms(1), of "n - 1" r] assms(2) by (simp add: fgets_def)

section \<open>Printed numbers\<close>

definition digit_char :: "nat \<Rightarrow> char" where
  "digit_char d = char_of (if d < 10 then 48 + d else 87 + d)"

function show_base :: "nat \<Rightarrow> nat \<Rightarrow> string" where
  "show_base b n = (if n < b \<or> b < 2 then [digit_char n] else show_base b (n div b) @ [digit_char (n mod b)])"
  by pat_completeness auto
termination
  by (relation "measure snd") (auto intro: div_less_dividend)

declare show_base.simps [simp del]

definition show_padded :: "nat \<Rightarrow> nat \<Rightarrow> nat \<Rightarrow> string" where
  "show_padded b w n = replicate (w - length (show_base b n)) (CHR ''0'') @ show_base b n"

lemma number_snoc: "number b (ds @ [d]) = b * number b ds + d"
  by (simp add: number_def)

lemma number_zeros: "number b (replicate k 0 @ ds) = number b ds"
  by (induction k) (simp_all add: number_def)

lemma digit_value_char: "d < b \<Longrightarrow> b \<le> 16 \<Longrightarrow> digit_value b (digit_char d) = Some d"
  by (auto simp: digit_value_def digit_char_def Let_def of_char_of)

definition digit_string :: "nat \<Rightarrow> string \<Rightarrow> nat list \<Rightarrow> bool" where
  "digit_string b s ds \<longleftrightarrow> map (digit_value b) s = map Some ds"

lemma digit_string_simps [simp]:
  "digit_string b [] ds \<longleftrightarrow> ds = []"
  "digit_string b (c # s) ds \<longleftrightarrow> (\<exists>d es. ds = d # es \<and> digit_value b c = Some d \<and> digit_string b s es)"
  by (auto simp: digit_string_def Cons_eq_map_conv)

lemma digit_string_append: "digit_string b s ds \<Longrightarrow> digit_string b t es \<Longrightarrow> digit_string b (s @ t) (ds @ es)"
  by (simp add: digit_string_def)

lemma show_base_digits:
  assumes "2 \<le> b" and "b \<le> 16"
  shows "\<exists>ds. digit_string b (show_base b n) ds \<and> number b ds = n \<and> ds \<noteq> []"
  using assms
proof (induction b n rule: show_base.induct)
  case (1 b n)
  show ?case
  proof (cases "n < b")
    case True
    then show ?thesis using 1 by (intro exI [of _ "[n]"]) (simp add: show_base.simps digit_value_char number_def)
  next
    case False
    then obtain ds where "digit_string b (show_base b (n div b)) ds" "number b ds = n div b" using 1 by auto
    then show ?thesis using False 1
      by (intro exI [of _ "ds @ [n mod b]"]) (auto simp: show_base.simps [of b n] number_snoc digit_value_char intro!: digit_string_append)
  qed
qed

lemma show_padded_digits:
  assumes "2 \<le> b" and "b \<le> 16"
  shows "\<exists>ds. digit_string b (show_padded b w n) ds \<and> number b ds = n \<and> ds \<noteq> []"
proof -
  obtain ds where d: "digit_string b (show_base b n) ds" "number b ds = n" "ds \<noteq> []" using show_base_digits [OF assms] by blast
  have "digit_string b (replicate k (CHR ''0'')) (replicate k 0)" for k
    using assms(1) by (induction k) (auto simp: digit_value_def)
  from digit_string_append [OF this d(1)] show ?thesis unfolding show_padded_def using d number_zeros by blast
qed

lemma scan_digits_string:
  assumes "digit_string b s ds" and "r = [] \<or> digit_value b (hd r) = None"
  shows "scan_digits b (s @ r) = (ds, r)"
  using assms by (induction s arbitrary: ds) (cases r, auto split: option.splits)

text \<open>A number that starts with a digit is read back, up to the first character that is not one.\<close>

lemma scan_num_string:
  assumes "digit_string b s ds" and "ds \<noteq> []" and "r = [] \<or> digit_value b (hd r) = None \<and> hd r \<noteq> CHR ''x'' \<and> hd r \<noteq> CHR ''X''"
    and "b \<le> 16" and "list_all is_space sp"
  shows "scan_num b (sp @ s @ r) = Some (int (number b ds), r)"
proof -
  obtain c t d es where s: "s = c # t" "ds = d # es" "digit_value b c = Some d" "digit_string b t es"
    using assms(1,2) by (cases s) auto
  then have c: "\<not> is_space c" "c \<noteq> CHR ''-''" "c \<noteq> CHR ''+''"
    using assms(4) by (auto simp: digit_value_def is_space_def Let_def split: if_splits)
  have sp: "skip_space (sp @ s @ r) = s @ r" using assms(5) c(1) by (simp add: skip_space_def s(1) list_all_iff dropWhile_append1)
  have x: "digit_value b (CHR ''x'') = None" "digit_value b (CHR ''X'') = None" using assms(4) by (simp_all add: digit_value_def)
  have "scan_0x (s @ r) = s @ r"
    using s(4) x assms(3) by (cases t; cases es; cases r) (auto simp: scan_0x_def s(1) split: list.splits)
  moreover have "scan_sign (s @ r) = (False, s @ r)" using c by (simp add: s(1) scan_sign_def)
  moreover have "scan_digits b (s @ r) = (ds, r)" using scan_digits_string [OF assms(1)] assms(3) by blast
  ultimately show ?thesis using assms(2) by (cases "b = 16") (simp_all add: scan_num_def sp)
qed

end
