(* ===== verification/Proc_Maps.thy ===== *)
theory Proc_Maps
  imports Code_Patch C_Library
begin

text \<open>
  \<^verbatim>\<open>ProcesssRuntimeUtility.cc\<close> for Linux: the memory layout and the loaded modules of the process, read from
  \<^verbatim>\<open>/proc/self/maps\<close>. The contents of that file are a parameter, and so are the bytes that the line buffer, an
  uninitialised array, holds when \<^verbatim>\<open>fgets\<close> fails (\<open>stale\<close>). \<^verbatim>\<open>std::sort\<close> gives the regions in the order of their
  addresses. Addresses have 64 bits.
\<close>

section \<open>A line\<close>

record maps_entry =
  me_start :: u64
  me_end :: u64
  me_permissions :: string
  me_offset :: u64
  me_dev_major :: u8
  me_dev_minor :: u8
  me_inode :: u64
  me_path_index :: nat

definition LINE_MAX :: nat where
  "LINE_MAX = 2048"

text \<open>The \<^verbatim>\<open>sscanf\<close> call; \<open>None\<close> when fewer than seven conversions succeed.\<close>

definition scan_maps_line :: "string \<Rightarrow> maps_entry option" where
  "scan_maps_line line = do {
     (region_start, s1) \<leftarrow> scan_num 16 line;
     s2 \<leftarrow> scan_lit (CHR ''-'') s1;
     (region_end, s3) \<leftarrow> scan_num 16 s2;
     (permissions, s4) \<leftarrow> scan_chars 4 (skip_space s3);
     (region_offset, s5) \<leftarrow> scan_num 16 (skip_space s4);
     (dev_major, s6) \<leftarrow> scan_num 16 (skip_space s5);
     s7 \<leftarrow> scan_lit (CHR '':'') s6;
     (dev_minor, s8) \<leftarrow> scan_num 16 s7;
     (inode, s9) \<leftarrow> scan_num 10 (skip_space s8);
     Some \<lparr>me_start = of_int region_start, me_end = of_int region_end, me_permissions = permissions, me_offset = of_int region_offset,
           me_dev_major = of_int dev_major, me_dev_minor = of_int dev_minor, me_inode = of_int inode,
           me_path_index = length line - length (skip_space s9)\<rparr>
   }"

definition perm_at :: "string \<Rightarrow> nat \<Rightarrow> char" where
  "perm_at p i = (if i < length p then p ! i else CHR 0x00)"

definition region_permission_of :: "string \<Rightarrow> MemoryPermission" where
  "region_permission_of p =
     (if perm_at p 0 = CHR ''r'' \<and> perm_at p 1 = CHR ''w'' then kReadWrite
      else if perm_at p 0 = CHR ''r'' \<and> perm_at p 2 = CHR ''x'' then kReadExecute
      else if perm_at p 0 = CHR ''r'' \<and> perm_at p 1 = CHR ''w'' \<and> perm_at p 2 = CHR ''x'' then kReadWriteExecute
      else kNoAccess)"

definition region_of :: "maps_entry \<Rightarrow> MemoryRegion" where
  "region_of e = \<lparr>range_address = me_start e, range_length = me_end e - me_start e, region_permission = region_permission_of (me_permissions e)\<rparr>"

section \<open>The loop over the lines\<close>

text \<open>
  Both functions read the file in the same way; \<open>step\<close> is what they do with a line. Every round reads a character
  or sets the end-of-file indicator.
\<close>

function (sequential) maps_loop :: "string \<Rightarrow> (string \<Rightarrow> maps_entry \<Rightarrow> 'a \<Rightarrow> 'a) \<Rightarrow> cfile \<Rightarrow> 'a \<Rightarrow> 'a result" where
  "maps_loop stale step f acc =
     (if snd f then Inr acc
      else
        (let (got, f1) = fgets LINE_MAX f;
             line = (case got of Some l \<Rightarrow> l | None \<Rightarrow> stale)
         in case (if length line = LINE_MAX then skip_line f1 else Some f1) of
              None \<Rightarrow> Inr acc
            | Some f2 \<Rightarrow>
                (case scan_maps_line line of
                   None \<Rightarrow> Inl (FATAL ''/proc/self/maps parse failed!'')
                 | Some e \<Rightarrow> maps_loop stale step f2 (step line e acc))))"
  by pat_completeness auto
termination
proof (relation "measure (\<lambda>(stale, step, f, acc). length (fst f) + (if snd f then 0 else 1))", goal_cases)
  case (2 stale step f acc p got f1 line f2 e)
  obtain s1 eof1 where f1: "f1 = (s1, eof1)" by fastforce
  have "length s1 + (if eof1 then 0 else 1) < length (fst f) + (if snd f then 0 else (1 :: nat))"
    using fgets_shrinks [of LINE_MAX f got s1 eof1] 2(1-3) by (simp add: f1 LINE_MAX_def)
  moreover have "length (fst f2) + (if snd f2 then 0 else 1) \<le> length s1 + (if eof1 then 0 else (1 :: nat))"
    using 2(5) length_dropWhile_le [of "\<lambda>c. c \<noteq> newline" s1] by (auto simp: f1 skip_line_def split: if_splits list.splits)
  ultimately show ?case by simp
qed simp

declare maps_loop.simps [simp del]

definition GetProcessMemoryLayout :: "string option \<Rightarrow> string \<Rightarrow> MemoryRegion list result" where
  "GetProcessMemoryLayout maps stale =
     (case maps of
        None \<Rightarrow> Inr []
      | Some text \<Rightarrow> rbind (maps_loop stale (\<lambda>line e acc. acc @ [region_of e]) (text, False) []) (\<lambda>rs. Inr (sort_key range_address rs)))"

section \<open>Modules\<close>

record RuntimeModule =
  rm_path :: string
  rm_load_address :: u64

definition path_size :: nat where
  "path_size = 1024"

definition ELFMAG :: "u8 list" where
  "ELFMAG = [0x7F, 0x45, 0x4C, 0x46]"

text \<open>\<^verbatim>\<open>strncpy\<close> leaves a path of 1024 characters or more without its zero.\<close>

definition module_step :: "(u64 \<Rightarrow> u8) \<Rightarrow> string \<Rightarrow> maps_entry \<Rightarrow> RuntimeModule list \<Rightarrow> RuntimeModule list" where
  "module_step mem line e acc =
     (if me_permissions e \<noteq> ''r--p'' \<and> me_permissions e \<noteq> ''r-xp'' then acc
      else if load_mem mem (me_start e) 4 \<noteq> ELFMAG then acc
      else
        (let path = drop (me_path_index e) line
         in if path = [] \<or> hd path = newline \<or> hd path = CHR ''['' then acc
            else
              (let path' = (if last path = newline then butlast path else path)
               in acc @ [\<lparr>rm_path = take path_size path', rm_load_address = me_start e\<rparr>])))"

definition get_process_map_with_proc_maps :: "(u64 \<Rightarrow> u8) \<Rightarrow> string option \<Rightarrow> string \<Rightarrow> RuntimeModule list result" where
  "get_process_map_with_proc_maps mem maps stale =
     (case maps of
        None \<Rightarrow> Inr []
      | Some text \<Rightarrow> maps_loop stale (module_step mem) (text, False) [])"

definition GetProcessModuleMap :: "(u64 \<Rightarrow> u8) \<Rightarrow> string option \<Rightarrow> string \<Rightarrow> RuntimeModule list result" where
  "GetProcessModuleMap mem maps stale = get_process_map_with_proc_maps mem maps stale"

text \<open>\<^verbatim>\<open>strstr\<close> scans past the end of a path that has no zero.\<close>

fun find_module :: "string \<Rightarrow> RuntimeModule list \<Rightarrow> RuntimeModule result" where
  "find_module name [] = Inr \<lparr>rm_path = [], rm_load_address = 0\<rparr>"
| "find_module name (md # mds) =
     (if strstr (rm_path md) name then Inr md
      else if length (rm_path md) < path_size then find_module name mds
      else Inl OVERREAD)"

definition GetProcessModule :: "(u64 \<Rightarrow> u8) \<Rightarrow> string option \<Rightarrow> string \<Rightarrow> string \<Rightarrow> RuntimeModule result" where
  "GetProcessModule mem maps stale name = rbind (GetProcessModuleMap mem maps stale) (find_module name)"

end
