(* ===== verification/Proc_Maps_Correct.thy ===== *)
theory Proc_Maps_Correct
  imports Proc_Maps
begin

text \<open>
  Reading what the kernel prints. \<open>maps_text\<close> is a line of \<^verbatim>\<open>/proc/self/maps\<close> as \<^verbatim>\<open>proc(5)\<close> describes it, \<open>print_line\<close>
  its text; the theorems say what the readers make of a file of such lines.
\<close>

section \<open>The format\<close>

record maps_text =
  mt_start :: u64
  mt_end :: u64
  mt_perms :: string
  mt_offset :: u64
  mt_major :: u8
  mt_minor :: u8
  mt_inode :: u64
  mt_pad :: nat
  mt_path :: string

definition print_line :: "maps_text \<Rightarrow> string" where
  "print_line t = show_padded 16 8 (unat (mt_start t)) @ ''-'' @ show_padded 16 8 (unat (mt_end t)) @ '' '' @ mt_perms t
     @ '' '' @ show_padded 16 8 (unat (mt_offset t)) @ '' '' @ show_padded 16 2 (unat (mt_major t)) @ '':''
     @ show_padded 16 2 (unat (mt_minor t)) @ '' '' @ show_padded 10 1 (unat (mt_inode t)) @ '' ''
     @ replicate (mt_pad t) (CHR '' '') @ mt_path t"

definition line_ok :: "maps_text \<Rightarrow> bool" where
  "line_ok t \<longleftrightarrow> length (mt_perms t) = 4 \<and> list_all (\<lambda>c. \<not> is_space c) (mt_perms t) \<and> newline \<notin> set (mt_path t)
     \<and> (mt_path t = [] \<or> \<not> is_space (hd (mt_path t))) \<and> length (print_line t) + 2 \<le> LINE_MAX"

definition entry_of :: "maps_text \<Rightarrow> maps_entry" where
  "entry_of t = \<lparr>me_start = mt_start t, me_end = mt_end t, me_permissions = mt_perms t, me_offset = mt_offset t, me_dev_major = mt_major t,
     me_dev_minor = mt_minor t, me_inode = mt_inode t,
     me_path_index = (if mt_path t = [] then length (print_line t) + 1 else length (print_line t) - length (mt_path t))\<rparr>"

section \<open>Reading a line\<close>

lemma skip_space_idem [simp]: "skip_space (skip_space s) = skip_space s"
  by (induction s) (auto simp: skip_space_def)

lemma scan_num_skip [simp]: "scan_num b (skip_space s) = scan_num b s"
  by (simp add: scan_num_def)

lemma scan_num_shown:
  assumes "2 \<le> b" and "b \<le> 16" and "digit_value b c = None" and "c \<noteq> CHR ''x''" and "c \<noteq> CHR ''X''"
  shows "scan_num b (show_padded b w n @ c # r) = Some (int n, c # r)" "scan_num b (CHR '' '' # show_padded b w n @ c # r) = Some (int n, c # r)"
proof -
  obtain ds where "digit_string b (show_padded b w n) ds" "number b ds = n" "ds \<noteq> []" using show_padded_digits [OF assms(1,2)] by blast
  then show "scan_num b (show_padded b w n @ c # r) = Some (int n, c # r)" "scan_num b (CHR '' '' # show_padded b w n @ c # r) = Some (int n, c # r)"
    using scan_num_string [of b "show_padded b w n" ds "c # r" "[]"] scan_num_string [of b "show_padded b w n" ds "c # r" "'' ''"] assms(2-5)
    by (simp_all add: is_space_def)
qed

lemma separators:
  "digit_value 16 (CHR ''-'') = None" "digit_value 16 (CHR '' '') = None" "digit_value 16 (CHR '':'') = None" "digit_value 10 (CHR '' '') = None"
  by (simp_all add: digit_value_def)

lemma of_int_unat [simp]: "of_int (int (unat w)) = (w :: 'a::len word)"
  by simp

lemma skip_pad:
  assumes "mt_path t = [] \<or> \<not> is_space (hd (mt_path t))"
  shows "skip_space (CHR '' '' # replicate k (CHR '' '') @ mt_path t @ [newline]) = (if mt_path t = [] then [] else mt_path t @ [newline])"
proof -
  have "dropWhile is_space (replicate k (CHR '' '') @ s) = dropWhile is_space s" for s by (induction k) (simp_all add: is_space_def)
  then show ?thesis using assms by (cases "mt_path t") (auto simp: skip_space_def is_space_def newline_def)
qed

lemma scan_print_line:
  assumes "line_ok t"
  shows "scan_maps_line (print_line t @ [newline]) = Some (entry_of t)"
proof -
  obtain c p where p: "mt_perms t = c # p" "\<not> is_space c" "length p = 3" using assms by (cases "mt_perms t") (auto simp: line_ok_def)
  have perms: "scan_chars 4 (skip_space (CHR '' '' # mt_perms t @ r)) = Some (mt_perms t, r)" for r
    using p by (simp add: scan_chars_def skip_space_def is_space_def p(1))
  have path: "mt_path t = [] \<or> \<not> is_space (hd (mt_path t))" using assms by (simp add: line_ok_def)
  note num = scan_num_shown [OF _ _ separators(1)] scan_num_shown [OF _ _ separators(2)] scan_num_shown [OF _ _ separators(3)]
    scan_num_shown [OF _ _ separators(4)]
  show ?thesis
    by (simp add: scan_maps_line_def print_line_def num perms scan_lit_def skip_pad [OF path] entry_of_def)
qed

text \<open>The text from the path on.\<close>

lemma drop_path: "drop (me_path_index (entry_of t)) (print_line t @ [newline]) = (if mt_path t = [] then [] else mt_path t @ [newline])"
proof -
  obtain q where "print_line t = q @ mt_path t" by (auto simp: print_line_def)
  then show ?thesis by (simp add: entry_of_def)
qed

lemma shown_no_newline: "2 \<le> b \<Longrightarrow> b \<le> 16 \<Longrightarrow> newline \<notin> set (show_padded b w n)"
proof
  assume b: "2 \<le> b" "b \<le> 16" and n: "newline \<in> set (show_padded b w n)"
  obtain ds where "digit_string b (show_padded b w n) ds" using show_padded_digits [OF b] by blast
  then have "digit_value b newline \<noteq> None" using n by (force simp: digit_string_def in_set_conv_nth map_eq_conv list_eq_iff_nth_eq)
  then show False by (auto simp: digit_value_def newline_def split: if_splits)
qed

lemma line_no_newline:
  assumes "line_ok t"
  shows "newline \<notin> set (print_line t)"
proof -
  have "newline \<notin> set (mt_perms t)" using assms by (auto simp: line_ok_def list_all_iff newline_def is_space_def)
  moreover have "newline \<noteq> CHR '' ''" "newline \<noteq> CHR ''-''" "newline \<noteq> CHR '':''" by (simp_all add: newline_def)
  ultimately show ?thesis using assms by (simp add: print_line_def line_ok_def shown_no_newline)
qed

section \<open>Reading a file\<close>

definition print_file :: "maps_text list \<Rightarrow> string" where
  "print_file ts = concat (map (\<lambda>t. print_line t @ [newline]) ts)"

definition at_end :: "string \<Rightarrow> (string \<Rightarrow> maps_entry \<Rightarrow> 'a \<Rightarrow> 'a) \<Rightarrow> 'a \<Rightarrow> 'a result" where
  "at_end stale step acc =
     (if length stale = LINE_MAX then Inr acc
      else case scan_maps_line stale of None \<Rightarrow> Inl (FATAL ''/proc/self/maps parse failed!'') | Some e \<Rightarrow> Inr (step stale e acc))"

text \<open>After the last line the loop goes round once more, with whatever the line buffer holds.\<close>

lemma maps_loop_file:
  assumes "list_all line_ok ts"
  shows "maps_loop stale step (print_file ts, False) acc
     = at_end stale step (fold (\<lambda>t. step (print_line t @ [newline]) (entry_of t)) ts acc)"
  using assms
proof (induction ts arbitrary: acc)
  case Nil
  then show ?case
    by (subst maps_loop.simps) (auto simp: print_file_def at_end_def fgets_def skip_line_def maps_loop.simps split: option.splits)
next
  case (Cons t ts)
  then have t: "line_ok t" by simp
  have len: "length (print_line t) + 2 \<le> LINE_MAX" using t by (simp add: line_ok_def)
  then have "length (print_line t @ [newline]) \<noteq> LINE_MAX" by simp
  moreover have "fgets LINE_MAX (print_line t @ newline # print_file ts, False) = (Some (print_line t @ [newline]), (print_file ts, False))"
    by (rule fgets_line [OF line_no_newline [OF t] len])
  moreover have "print_file (t # ts) = print_line t @ newline # print_file ts" by (simp add: print_file_def)
  ultimately show ?case using Cons by (subst maps_loop.simps) (simp add: scan_print_line [OF t])
qed

lemma fold_snoc: "fold (\<lambda>x acc. acc @ [g x]) xs acc = acc @ map g xs"
  by (induction xs arbitrary: acc) simp_all

text \<open>
  C35: of a file of well-formed lines \<^verbatim>\<open>GetProcessMemoryLayout\<close> gives the region of every line, by address, but the
  loop tests for the end of the file before it reads: it takes one more region from what is left in the line
  buffer (the last line again, if the buffer is undisturbed), and aborts when that is not a line.
\<close>

theorem layout_of_maps:
  assumes "list_all line_ok ts" and "length stale \<noteq> LINE_MAX"
  shows "GetProcessMemoryLayout (Some (print_file ts)) stale
     = (case scan_maps_line stale of
          None \<Rightarrow> Inl (FATAL ''/proc/self/maps parse failed!'')
        | Some e \<Rightarrow> Inr (sort_key range_address
            (map (\<lambda>t. \<lparr>range_address = mt_start t, range_length = mt_end t - mt_start t, region_permission = region_permission_of (mt_perms t)\<rparr>) ts
             @ [region_of e])))"
proof -
  have "region_of (entry_of t) = \<lparr>range_address = mt_start t, range_length = mt_end t - mt_start t,
      region_permission = region_permission_of (mt_perms t)\<rparr>" for t
    by (simp add: region_of_def entry_of_def)
  then show ?thesis
    using assms maps_loop_file [OF assms(1), of stale "\<lambda>line e acc. acc @ [region_of e]" "[]"]
      fold_snoc [of "\<lambda>t. region_of (entry_of t)" ts "[]"]
    by (simp add: GetProcessMemoryLayout_def at_end_def split: option.split)
qed

definition demo_line :: maps_text where
  "demo_line = \<lparr>mt_start = 0x500000000000, mt_end = 0x500000001000, mt_perms = ''r-xp'', mt_offset = 0, mt_major = 3, mt_minor = 12, mt_inode = 64593,
     mt_pad = 3, mt_path = ''/lib/a.so''\<rparr>"

lemma demo_line_ok: "line_ok demo_line" "line_ok (demo_line\<lparr>mt_perms := ''rwxp''\<rparr>)" "length (print_line demo_line @ [newline]) \<noteq> LINE_MAX"
  by (simp_all add: line_ok_def print_line_def demo_line_def show_padded_def show_base.simps LINE_MAX_def is_space_def newline_def)

theorem layout_of_maps_witness:
  "GetProcessMemoryLayout (Some (print_file [demo_line])) (print_line demo_line @ [newline])
     = Inr [\<lparr>range_address = 0x500000000000, range_length = 0x1000, region_permission = kReadExecute\<rparr>,
            \<lparr>range_address = 0x500000000000, range_length = 0x1000, region_permission = kReadExecute\<rparr>]"
  using layout_of_maps [of "[demo_line]" "print_line demo_line @ [newline]"] demo_line_ok
  by (simp add: scan_print_line region_of_def entry_of_def) (simp add: demo_line_def region_permission_of_def perm_at_def)

section \<open>What the layout looks like\<close>

lemma maps_loop_invariant:
  assumes "maps_loop stale step f acc = Inr acc'" and "I acc" and "\<And>line e a. I a \<Longrightarrow> I (step line e a)"
  shows "I acc'"
  using assms
proof (induction stale step f acc rule: maps_loop.induct)
  case (1 stale step f acc)
  obtain got f1 where g: "fgets LINE_MAX f = (got, f1)" by (cases "fgets LINE_MAX f")
  define line where "line = (case got of None \<Rightarrow> stale | Some l \<Rightarrow> l)"
  define rest where "rest = (if length line = LINE_MAX then skip_line f1 else Some f1)"
  have eq: "maps_loop stale step f acc = (if snd f then Inr acc else case rest of None \<Rightarrow> Inr acc
     | Some f2 \<Rightarrow> (case scan_maps_line line of None \<Rightarrow> Inl (FATAL ''/proc/self/maps parse failed!'')
          | Some e \<Rightarrow> maps_loop stale step f2 (step line e acc)))"
    by (simp add: maps_loop.simps [of stale step f acc] g flip: line_def rest_def)
  have IH: "I acc'" if "\<not> snd f" "rest = Some f2" "scan_maps_line line = Some e"
        "maps_loop stale step f2 (step line e acc) = Inr acc'" for f2 e
    using 1(1) [OF that(1) refl g [symmetric] line_def _ that(3)] that 1(3,4) by (simp flip: rest_def)
  from 1(2) 1(3) show ?case
    unfolding eq by (auto split: if_splits option.splits dest: IH)
qed

text \<open>
  Whatever \<^verbatim>\<open>/proc/self/maps\<close> contains, the layout is in the order of the addresses, and no region in it is
  \<^verbatim>\<open>kReadWriteExecute\<close> or \<^verbatim>\<open>kRead\<close>: the test for \<^verbatim>\<open>rwx\<close> comes after the test for \<^verbatim>\<open>rw\<close> and is never reached, and a
  read-only region counts as inaccessible.
\<close>

theorem layout_sorted:
  assumes "GetProcessMemoryLayout maps stale = Inr rs"
  shows "sorted (map range_address rs)
     \<and> list_all (\<lambda>r. region_permission r \<in> {kNoAccess, kReadWrite, kReadExecute}) rs"
proof (cases maps)
  case None
  then show ?thesis using assms by (simp add: GetProcessMemoryLayout_def)
next
  case (Some contents)
  then obtain acc where a: "maps_loop stale (\<lambda>line e acc. acc @ [region_of e]) (contents, False) [] = Inr acc" "rs = sort_key range_address acc"
    using assms by (auto simp: GetProcessMemoryLayout_def rbind_Inr_iff)
  have "list_all (\<lambda>r. region_permission r \<in> {kNoAccess, kReadWrite, kReadExecute}) acc"
    by (rule maps_loop_invariant [OF a(1)]) (simp_all add: region_of_def region_permission_of_def)
  then show ?thesis by (simp add: a(2) list_all_iff)
qed

theorem layout_sorted_witness:
  "\<exists>rs. GetProcessMemoryLayout (Some (print_file [demo_line\<lparr>mt_perms := ''rwxp''\<rparr>])) (print_line demo_line @ [newline]) = Inr rs
     \<and> sorted (map range_address rs) \<and> list_all (\<lambda>r. region_permission r \<noteq> kReadWriteExecute) rs"
proof -
  let ?t = "demo_line\<lparr>mt_perms := ''rwxp''\<rparr>" and ?s = "print_line demo_line @ [newline]"
  have "maps_loop ?s (\<lambda>line e acc. acc @ [region_of e]) (print_file [?t], False) [] = Inr [region_of (entry_of ?t), region_of (entry_of demo_line)]"
    using maps_loop_file [of "[?t]" ?s "\<lambda>line e acc. acc @ [region_of e]" "[]"] demo_line_ok scan_print_line [of demo_line] by (simp add: at_end_def)
  then obtain rs where "GetProcessMemoryLayout (Some (print_file [?t])) ?s = Inr rs"
    by (simp add: GetProcessMemoryLayout_def)
  then show ?thesis using layout_sorted by (fastforce simp: list_all_iff)
qed

section \<open>Modules\<close>

definition is_module :: "(u64 \<Rightarrow> u8) \<Rightarrow> maps_text \<Rightarrow> bool" where
  "is_module mem t \<longleftrightarrow> (mt_perms t = ''r--p'' \<or> mt_perms t = ''r-xp'') \<and> load_mem mem (mt_start t) 4 = ELFMAG
     \<and> mt_path t \<noteq> [] \<and> hd (mt_path t) \<noteq> CHR ''[''"

definition module_of :: "maps_text \<Rightarrow> RuntimeModule" where
  "module_of t = \<lparr>rm_path = take path_size (mt_path t), rm_load_address = mt_start t\<rparr>"

lemma module_step_line:
  assumes "line_ok t"
  shows "module_step mem (print_line t @ [newline]) (entry_of t) acc = acc @ (if is_module mem t then [module_of t] else [])"
proof -
  have "hd (mt_path t) \<noteq> newline" if "mt_path t \<noteq> []" using assms hd_in_set [OF that] unfolding line_ok_def by metis
  then show ?thesis using drop_path [of t]
    by (auto simp: module_step_def is_module_def module_of_def entry_of_def Let_def split: if_splits)
qed

lemma module_fold:
  assumes "list_all line_ok ts"
  shows "fold (\<lambda>t. module_step mem (print_line t @ [newline]) (entry_of t)) ts acc = acc @ map module_of (filter (is_module mem) ts)"
  using assms by (induction ts arbitrary: acc) (simp_all add: module_step_line)

lemma find_module_first:
  assumes "List.find (\<lambda>t. is_module mem t \<and> strstr (mt_path t) name) ts = Some t" and "list_all (\<lambda>t. length (mt_path t) < path_size) ts"
  shows "find_module name (map module_of (filter (is_module mem) ts) @ mds) = Inr (module_of t)"
  using assms by (induction ts) (auto simp: module_of_def split: if_splits)

text \<open>
  C33: \<^verbatim>\<open>GetProcessModule\<close> gives path and start of the first line whose mapping is \<^verbatim>\<open>r--p\<close> or \<^verbatim>\<open>r-xp\<close>, begins with the ELF
  magic number, is named by a file, and contains the name asked for, provided paths are shorter than 1024
  characters and the line buffer still holds a line when the file has ended.
\<close>

theorem GetProcessModule_first:
  assumes "list_all line_ok ts" and "list_all (\<lambda>t. length (mt_path t) < path_size) ts" and "scan_maps_line stale \<noteq> None"
    and "List.find (\<lambda>t. is_module mem t \<and> strstr (mt_path t) name) ts = Some t"
  shows "GetProcessModule mem (Some (print_file ts)) stale name = Inr \<lparr>rm_path = mt_path t, rm_load_address = mt_start t\<rparr>"
proof -
  have acc: "\<exists>mds. module_step mem stale e acc = acc @ mds" for e acc
    by (simp add: module_step_def Let_def)
  have "\<exists>mds. GetProcessModuleMap mem (Some (print_file ts)) stale = Inr (map module_of (filter (is_module mem) ts) @ mds)"
    using assms(3) maps_loop_file [OF assms(1), of stale "module_step mem" "[]"] module_fold [OF assms(1), of mem "[]"] acc
    by (fastforce simp: GetProcessModuleMap_def get_process_map_with_proc_maps_def at_end_def)
  then obtain mds where "GetProcessModuleMap mem (Some (print_file ts)) stale = Inr (map module_of (filter (is_module mem) ts) @ mds)" by blast
  moreover have "t \<in> set ts" using assms(4) by (auto simp: find_Some_iff in_set_conv_nth)
  then have "module_of t = \<lparr>rm_path = mt_path t, rm_load_address = mt_start t\<rparr>" using assms(2) by (auto simp: module_of_def list_all_iff)
  ultimately show ?thesis using find_module_first [OF assms(4,2)] by (simp add: GetProcessModule_def)
qed

theorem GetProcessModule_first_witness:
  "GetProcessModule (\<lambda>a. if a = 0x500000000000 then 0x7F else if a = 0x500000000001 then 0x45 else if a = 0x500000000002 then 0x4C else 0x46)
     (Some (print_file [demo_line])) (print_line demo_line @ [newline]) ''a.so'' = Inr \<lparr>rm_path = ''/lib/a.so'', rm_load_address = 0x500000000000\<rparr>"
proof -
  let ?m = "\<lambda>a :: u64. if a = 0x500000000000 then 0x7F else if a = 0x500000000001 then 0x45 else if a = 0x500000000002 then 0x4C else 0x46 :: u8"
  have "is_module ?m demo_line" by (simp add: is_module_def demo_line_def load_mem_def ELFMAG_def upt_rec)
  moreover have "strstr (mt_path demo_line) ''a.so''" "length (mt_path demo_line) < path_size" by (simp_all add: demo_line_def path_size_def)
  ultimately show ?thesis
    using GetProcessModule_first [of "[demo_line]" "print_line demo_line @ [newline]" ?m "''a.so''" demo_line] demo_line_ok scan_print_line [of demo_line]
    by (simp add: demo_line_def)
qed

end
