(* ===== verification/Elf_Resolver.thy ===== *)
theory Elf_Resolver
  imports Proc_Maps
begin

text \<open>
  \<^verbatim>\<open>builtin-plugin/SymbolResolver/elf/dobby_symbol_resolver.cc\<close>: the address of a symbol, found in the section
  headers of the file a module was loaded from. \<^verbatim>\<open>ElfW\<close> is the 64-bit layout. The system calls and \<^verbatim>\<open>dlsym\<close> are
  parameters; a mapped file is the address it is mapped at with the bytes that can be read there, and reading
  outside of them is an error of the model.
\<close>

section \<open>Files in memory\<close>

record file_env =
  sys_open :: "string \<Rightarrow> int"
  sys_fstat :: "int \<Rightarrow> int \<times> u64"
  sys_mmap :: "u64 \<Rightarrow> int \<Rightarrow> u64"
  sys_pages :: "int \<Rightarrow> u8 list"
  sys_munmap :: "u64 \<Rightarrow> u64 \<Rightarrow> int"

record files =
  open_fds :: "int list"
  file_maps :: "u64 \<rightharpoonup> u8 list"

definition MAP_FAILED :: u64 where
  "MAP_FAILED = - 1"

definition sys_close :: "int \<Rightarrow> files \<Rightarrow> files" where
  "sys_close fd st = st\<lparr>open_fds := removeAll fd (open_fds st)\<rparr>"

definition file_mmap :: "file_env \<Rightarrow> string \<Rightarrow> files \<Rightarrow> (u64 \<times> u64) \<times> files" where
  "file_mmap env file_path st =
     (let fd = sys_open env file_path
      in if fd < 0 then ((0, 0), sys_close fd st)
         else
           (let st1 = st\<lparr>open_fds := fd # open_fds st\<rparr>; (rt, st_size) = sys_fstat env fd
            in if rt \<noteq> 0 then ((0, 0), sys_close fd st1)
               else
                 (let file_size = st_size; mmap_data = sys_mmap env file_size fd
                  in if mmap_data = MAP_FAILED then ((mmap_data, file_size), sys_close fd st1)
                     else ((mmap_data, file_size), sys_close fd (st1\<lparr>file_maps := (file_maps st1)(mmap_data \<mapsto> sys_pages env fd)\<rparr>)))))"

definition file_unmap :: "file_env \<Rightarrow> u64 \<Rightarrow> u64 \<Rightarrow> files \<Rightarrow> files" where
  "file_unmap env data data_size st =
     (let ret = sys_munmap env data data_size
      in if ret \<noteq> 0 then st else st\<lparr>file_maps := (file_maps st)(data := None)\<rparr>)"

section \<open>Reading the structures\<close>

type_synonym mapped = "u64 \<times> u8 list"

definition peek :: "nat \<Rightarrow> mapped \<Rightarrow> u64 \<Rightarrow> ('a::len word) result" where
  "peek n im p =
     (let off = unat (p - fst im)
      in if off + n \<le> length (snd im) then Inr (le_word (take n (drop off (snd im)))) else Inl OVERREAD)"

definition e_phoff :: "mapped \<Rightarrow> u64 \<Rightarrow> u64 result" where "e_phoff im h = peek 8 im (h + 32)"
definition e_shoff :: "mapped \<Rightarrow> u64 \<Rightarrow> u64 result" where "e_shoff im h = peek 8 im (h + 40)"
definition e_phnum :: "mapped \<Rightarrow> u64 \<Rightarrow> u16 result" where "e_phnum im h = peek 2 im (h + 56)"
definition e_shentsize :: "mapped \<Rightarrow> u64 \<Rightarrow> u16 result" where "e_shentsize im h = peek 2 im (h + 58)"
definition e_shnum :: "mapped \<Rightarrow> u64 \<Rightarrow> u16 result" where "e_shnum im h = peek 2 im (h + 60)"
definition e_shstrndx :: "mapped \<Rightarrow> u64 \<Rightarrow> u16 result" where "e_shstrndx im h = peek 2 im (h + 62)"

definition p_type :: "mapped \<Rightarrow> u64 \<Rightarrow> u32 result" where "p_type im p = peek 4 im p"
definition p_offset :: "mapped \<Rightarrow> u64 \<Rightarrow> u64 result" where "p_offset im p = peek 8 im (p + 8)"
definition p_vaddr :: "mapped \<Rightarrow> u64 \<Rightarrow> u64 result" where "p_vaddr im p = peek 8 im (p + 16)"

definition sh_name :: "mapped \<Rightarrow> u64 \<Rightarrow> u32 result" where "sh_name im s = peek 4 im s"
definition sh_type :: "mapped \<Rightarrow> u64 \<Rightarrow> u32 result" where "sh_type im s = peek 4 im (s + 4)"
definition sh_offset :: "mapped \<Rightarrow> u64 \<Rightarrow> u64 result" where "sh_offset im s = peek 8 im (s + 24)"
definition sh_size :: "mapped \<Rightarrow> u64 \<Rightarrow> u64 result" where "sh_size im s = peek 8 im (s + 32)"

definition st_name :: "mapped \<Rightarrow> u64 \<Rightarrow> u32 result" where "st_name im s = peek 4 im s"
definition st_value :: "mapped \<Rightarrow> u64 \<Rightarrow> u64 result" where "st_value im s = peek 8 im (s + 8)"

definition sizeof_Phdr :: u64 where "sizeof_Phdr = 56"
definition sizeof_Shdr :: u64 where "sizeof_Shdr = 64"
definition sizeof_Sym :: u64 where "sizeof_Sym = 24"

definition PT_LOAD :: u32 where "PT_LOAD = 1"
definition PT_DYNAMIC :: u32 where "PT_DYNAMIC = 2"
definition PT_PHDR :: u32 where "PT_PHDR = 6"
definition SHT_SYMTAB :: u32 where "SHT_SYMTAB = 2"
definition SHT_STRTAB :: u32 where "SHT_STRTAB = 3"
definition SHT_DYNSYM :: u32 where "SHT_DYNSYM = 11"

text \<open>\<^verbatim>\<open>strcmp(p, s) == 0\<close> for a string \<open>s\<close> of the program.\<close>

fun strcmp_eq :: "mapped \<Rightarrow> u64 \<Rightarrow> string \<Rightarrow> bool result" where
  "strcmp_eq im p [] = rbind (peek 1 im p) (\<lambda>b. Inr ((b :: u8) = 0))"
| "strcmp_eq im p (c # s) = rbind (peek 1 im p) (\<lambda>b. if (b :: u8) = of_char c then strcmp_eq im (p + 1) s else Inr False)"

section \<open>The symbol table alone\<close>

text \<open>What \<^verbatim>\<open>*symtab_ptr\<close>, \<^verbatim>\<open>*strtab_ptr\<close> and \<^verbatim>\<open>*count_ptr\<close> hold; \<^verbatim>\<open>header->e_shstrndx * header->e_shentsize\<close> is an \<^verbatim>\<open>int\<close>.\<close>

type_synonym syms = "u64 \<times> u64 \<times> u32"

definition get_syms_step :: "mapped \<Rightarrow> u64 \<Rightarrow> u64 \<Rightarrow> u64 \<Rightarrow> syms \<Rightarrow> syms result" where
  "get_syms_step im header section_strtab section_header out =
     (let (symtab, strtab, cnt) = out
      in rbind (sh_name im section_header) (\<lambda>nm.
         let section_name = section_strtab + ucast nm
         in rbind (sh_type im section_header) (\<lambda>ty.
            rbind (if ty = SHT_SYMTAB then strcmp_eq im section_name ''.symtab'' else Inr False) (\<lambda>is_symtab.
            rbind (if is_symtab
                   then rbind (sh_offset im section_header) (\<lambda>off. rbind (sh_size im section_header) (\<lambda>sz.
                          Inr (header + off, strtab, ucast (sz div sizeof_Sym))))
                   else Inr (symtab, strtab, cnt)) (\<lambda>(symtab1, strtab1, cnt1).
            rbind (if ty = SHT_STRTAB then strcmp_eq im section_name ''.strtab'' else Inr False) (\<lambda>is_strtab.
            if is_strtab then rbind (sh_offset im section_header) (\<lambda>off. Inr (symtab1, header + off, cnt1))
            else Inr (symtab1, strtab1, cnt1)))))))"

fun get_syms_loop :: "mapped \<Rightarrow> u64 \<Rightarrow> u64 \<Rightarrow> u16 \<Rightarrow> nat \<Rightarrow> u64 \<Rightarrow> syms \<Rightarrow> syms result" where
  "get_syms_loop im header section_strtab entsize 0 section_header out = Inr out"
| "get_syms_loop im header section_strtab entsize (Suc n) section_header out =
     rbind (get_syms_step im header section_strtab section_header out)
       (get_syms_loop im header section_strtab entsize n (section_header + ucast entsize))"

definition get_syms :: "mapped \<Rightarrow> u64 \<Rightarrow> syms \<Rightarrow> syms result" where
  "get_syms im header out =
     rbind (e_shoff im header) (\<lambda>shoff.
     rbind (e_shstrndx im header) (\<lambda>ndx.
     rbind (e_shentsize im header) (\<lambda>entsize.
     rbind (e_shnum im header) (\<lambda>num.
       let section_header = header + shoff;
           section_strtab_section_header = section_header + scast (ucast ndx * ucast entsize :: u32)
       in rbind (sh_offset im section_strtab_section_header) (\<lambda>off.
            get_syms_loop im header (header + off) entsize (unat num) section_header out)))))"

section \<open>The context\<close>

record elf_ctx =
  ctx_header :: u64
  load_bias :: u64
  ctx_sym_sh :: u64
  ctx_dynsym_sh :: u64
  ctx_strtab :: u64
  ctx_symtab :: u64
  ctx_dynstrtab :: u64
  ctx_dynsymtab :: u64

text \<open>
  The members for the hash tables stay as \<^verbatim>\<open>memset\<close> left them and are never read. \<^verbatim>\<open>dyn\<close> and \<^verbatim>\<open>addr\<close> of the source are
  only read in code that is compiled out.
\<close>

definition zero_ctx :: elf_ctx where
  "zero_ctx = \<lparr>ctx_header = 0, load_bias = 0, ctx_sym_sh = 0, ctx_dynsym_sh = 0, ctx_strtab = 0, ctx_symtab = 0, ctx_dynstrtab = 0, ctx_dynsymtab = 0\<rparr>"

definition phdr_step :: "mapped \<Rightarrow> u64 \<Rightarrow> u64 \<Rightarrow> nat \<Rightarrow> elf_ctx \<Rightarrow> elf_ctx result" where
  "phdr_step im ehdr_addr phdr i ctx =
     (let p = phdr + of_nat i * sizeof_Phdr
      in rbind (p_type im p) (\<lambda>ty.
         if ty = PT_DYNAMIC then Inr ctx
         else if ty = PT_LOAD
         then (if load_bias ctx = 0
               then rbind (p_vaddr im p) (\<lambda>vaddr. rbind (p_offset im p) (\<lambda>off.
                      Inr (ctx\<lparr>load_bias := ehdr_addr - (vaddr - off)\<rparr>)))
               else Inr ctx)
         else if ty = PT_PHDR then rbind (p_vaddr im p) (\<lambda>vaddr. Inr (ctx\<lparr>load_bias := phdr - vaddr\<rparr>))
         else Inr ctx))"

definition shdr_step :: "mapped \<Rightarrow> u64 \<Rightarrow> u64 \<Rightarrow> u64 \<Rightarrow> nat \<Rightarrow> elf_ctx \<Rightarrow> elf_ctx result" where
  "shdr_step im ehdr_addr shdr shstrtab i ctx =
     (let s = shdr + of_nat i * sizeof_Shdr;
          named = (\<lambda>nm. rbind (sh_name im s) (\<lambda>k. strcmp_eq im (shstrtab + ucast k) nm));
          at = rbind (sh_offset im s) (\<lambda>off. Inr (ehdr_addr + off))
      in rbind (sh_type im s) (\<lambda>ty.
         if ty = SHT_SYMTAB then rbind at (\<lambda>a. Inr (ctx\<lparr>ctx_sym_sh := s, ctx_symtab := a\<rparr>))
         else rbind (if ty = SHT_STRTAB then named ''.strtab'' else Inr False) (\<lambda>is_strtab.
         if is_strtab then rbind at (\<lambda>a. Inr (ctx\<lparr>ctx_strtab := a\<rparr>))
         else if ty = SHT_DYNSYM then rbind at (\<lambda>a. Inr (ctx\<lparr>ctx_dynsym_sh := s, ctx_dynsymtab := a\<rparr>))
         else rbind (if ty = SHT_STRTAB then named ''.dynstr'' else Inr False) (\<lambda>is_dynstr.
         if is_dynstr then rbind at (\<lambda>a. Inr (ctx\<lparr>ctx_dynstrtab := a\<rparr>)) else Inr ctx))))"

definition elf_ctx_init :: "mapped \<Rightarrow> u64 \<Rightarrow> elf_ctx \<Rightarrow> elf_ctx result" where
  "elf_ctx_init im ehdr_addr ctx =
     rbind (e_phoff im ehdr_addr) (\<lambda>phoff.
     rbind (e_phnum im ehdr_addr) (\<lambda>phnum.
     rbind (rfold (phdr_step im ehdr_addr (ehdr_addr + phoff)) [0..<unat phnum] (ctx\<lparr>ctx_header := ehdr_addr\<rparr>)) (\<lambda>ctx1.
     rbind (e_shoff im ehdr_addr) (\<lambda>shoff.
     rbind (e_shstrndx im ehdr_addr) (\<lambda>ndx.
     rbind (sh_offset im (ehdr_addr + shoff + ucast ndx * sizeof_Shdr)) (\<lambda>stroff.
     rbind (e_shnum im ehdr_addr) (\<lambda>shnum.
       rfold (shdr_step im ehdr_addr (ehdr_addr + shoff) (ehdr_addr + stroff)) [0..<unat shnum] ctx1)))))))"

section \<open>Searching the tables\<close>

fun symbol_loop :: "mapped \<Rightarrow> string \<Rightarrow> u64 \<Rightarrow> u64 \<Rightarrow> nat \<Rightarrow> u64 result" where
  "symbol_loop im symbol_name sy strtab 0 = Inr 0"
| "symbol_loop im symbol_name sy strtab (Suc n) =
     rbind (st_name im sy) (\<lambda>nm.
     rbind (strcmp_eq im (strtab + ucast nm) symbol_name) (\<lambda>same.
       if same then st_value im sy else symbol_loop im symbol_name (sy + sizeof_Sym) strtab n))"

text \<open>The count is an \<^verbatim>\<open>int\<close>: the loop does not run when the conversion makes it negative.\<close>

definition iterate_symbol_table_impl :: "mapped \<Rightarrow> string \<Rightarrow> u64 \<Rightarrow> u64 \<Rightarrow> u64 \<Rightarrow> u64 result" where
  "iterate_symbol_table_impl im symbol_name symtab strtab cnt =
     symbol_loop im symbol_name symtab strtab (nat (sint (ucast cnt :: u32)))"

definition elf_ctx_iterate_symbol_table :: "mapped \<Rightarrow> elf_ctx \<Rightarrow> string \<Rightarrow> u64 result" where
  "elf_ctx_iterate_symbol_table im ctx symbol_name =
     rbind (if ctx_symtab ctx \<noteq> 0 \<and> ctx_strtab ctx \<noteq> 0
            then rbind (sh_size im (ctx_sym_sh ctx)) (\<lambda>sz.
                   iterate_symbol_table_impl im symbol_name (ctx_symtab ctx) (ctx_strtab ctx) (sz div sizeof_Sym))
            else Inr 0) (\<lambda>r.
     if r \<noteq> 0 then Inr r
     else if ctx_dynsymtab ctx \<noteq> 0 \<and> ctx_dynstrtab ctx \<noteq> 0
     then rbind (sh_size im (ctx_dynsym_sh ctx)) (\<lambda>sz.
            iterate_symbol_table_impl im symbol_name (ctx_dynsymtab ctx) (ctx_dynstrtab ctx) (sz div sizeof_Sym))
     else Inr 0)"

section \<open>Resolving\<close>

text \<open>
  The body both branches of \<^verbatim>\<open>resolve_elf_internal_symbol\<close> share. A path that fills its array has no end for
  \<^verbatim>\<open>open\<close> to find, and \<^verbatim>\<open>MAP_FAILED\<close> is not the null pointer.
\<close>

definition symbol_in_module :: "file_env \<Rightarrow> string \<Rightarrow> RuntimeModule \<Rightarrow> files \<Rightarrow> (u64 \<times> files) result" where
  "symbol_in_module env symbol_name md st =
     rbind (if rm_load_address md \<noteq> 0
            then (if length (rm_path md) < path_size then Inr (file_mmap env (rm_path md) st) else Inl OVERREAD)
            else Inr ((0, 0), st)) (\<lambda>((file_mem, file_mem_size), st1).
     rbind (if file_mem \<noteq> 0
            then (case file_maps st1 file_mem of
                    None \<Rightarrow> Inl BAD_POINTER
                  | Some pages \<Rightarrow>
                      rbind (elf_ctx_init (file_mem, pages) file_mem zero_ctx) (\<lambda>ctx.
                      rbind (elf_ctx_iterate_symbol_table (file_mem, pages) ctx symbol_name) (\<lambda>r. Inr (ctx, r))))
            else Inr (zero_ctx, 0)) (\<lambda>(ctx, r).
       Inr (if r \<noteq> 0 then r + rm_load_address md - (file_mem - load_bias ctx) else 0,
            if file_mem \<noteq> 0 then file_unmap env file_mem file_mem_size st1 else st1)))"

fun symbol_in_modules :: "file_env \<Rightarrow> string \<Rightarrow> RuntimeModule list \<Rightarrow> files \<Rightarrow> (u64 \<times> files) result" where
  "symbol_in_modules env symbol_name [] st = Inr (0, st)"
| "symbol_in_modules env symbol_name (md # mds) st =
     rbind (symbol_in_module env symbol_name md st) (\<lambda>(r, st1).
       if r \<noteq> 0 then Inr (r, st1) else symbol_in_modules env symbol_name mds st1)"

text \<open>\<^verbatim>\<open>/proc/self/maps\<close> as each of the two calls finds it: its contents and what the line buffer held.\<close>

record process_view =
  pv_mem :: "u64 \<Rightarrow> u8"
  pv_maps :: "string option \<times> string"
  pv_maps_again :: "string option \<times> string"

definition resolve_elf_internal_symbol ::
  "file_env \<Rightarrow> process_view \<Rightarrow> string option \<Rightarrow> string \<Rightarrow> files \<Rightarrow> (u64 \<times> files) result" where
  "resolve_elf_internal_symbol env pv library_name symbol_name st =
     rbind (case library_name of
              None \<Rightarrow> Inr (0, st)
            | Some name \<Rightarrow>
                rbind (GetProcessModule (pv_mem pv) (fst (pv_maps pv)) (snd (pv_maps pv)) name) (\<lambda>md.
                  symbol_in_module env symbol_name md st)) (\<lambda>(r, st1).
       if r \<noteq> 0 then Inr (r, st1)
       else rbind (GetProcessModuleMap (pv_mem pv) (fst (pv_maps_again pv)) (snd (pv_maps_again pv))) (\<lambda>mds.
              symbol_in_modules env symbol_name mds st1))"

definition DobbySymbolResolver ::
  "file_env \<Rightarrow> (string \<Rightarrow> u64) \<Rightarrow> process_view \<Rightarrow> string option \<Rightarrow> string \<Rightarrow> files \<Rightarrow> (u64 \<times> files) result" where
  "DobbySymbolResolver env dlsym pv image_name symbol_name_pattern st =
     (let result = dlsym symbol_name_pattern
      in if result \<noteq> 0 then Inr (result, st) else resolve_elf_internal_symbol env pv image_name symbol_name_pattern st)"

end
