(* ===== verification/Elf_Resolver_Correct.thy ===== *)
theory Elf_Resolver_Correct
  imports Elf_Resolver
begin

text \<open>
  What the resolver finds, for files that are well formed: an \<open>elf_view\<close> is what the headers of a file say, and
  \<open>elf_image\<close> that the mapped bytes say it. Further, that the resolver gives back every descriptor and mapping it
  takes, and what happens when a file cannot be mapped.
\<close>

section \<open>Strings\<close>

fun cstr_at :: "mapped \<Rightarrow> u64 \<Rightarrow> string \<Rightarrow> bool" where
  "cstr_at im p [] \<longleftrightarrow> peek 1 im p = Inr (0 :: u8)"
| "cstr_at im p (c # t) \<longleftrightarrow> c \<noteq> CHR 0x00 \<and> peek 1 im p = Inr (of_char c :: u8) \<and> cstr_at im (p + 1) t"

lemma of_char_u8_inj: "(of_char c :: u8) = of_char d \<longleftrightarrow> c = d"
proof
  assume "(of_char c :: u8) = of_char d"
  then have "(of_nat (of_char c) :: u8) = of_nat (of_char d)" by (simp add: of_nat_of_char)
  then have "(of_char c :: nat) mod 256 = of_char d mod 256" by (simp add: word_of_nat_eq_iff take_bit_nat_def)
  then show "c = d" by simp
qed simp

lemma of_char_u8_0: "(of_char c :: u8) = 0 \<longleftrightarrow> c = CHR 0x00"
  using of_char_u8_inj [of c "CHR 0x00"] by simp

lemma strcmp_cstr:
  assumes "cstr_at im p t" and "CHR 0x00 \<notin> set s"
  shows "strcmp_eq im p s = Inr (t = s)"
  using assms
proof (induction s arbitrary: p t)
  case Nil
  then show ?case by (cases t) (simp_all add: of_char_u8_0)
next
  case (Cons c s)
  then show ?case by (cases t) (auto simp: of_char_u8_inj of_char_u8_0 dest: sym)
qed

declare strcmp_eq.simps [simp del]

lemma cstr_at_append:
  assumes "unat (p - base) = length pre" and "length pre + length t < 2 ^ 64" and "CHR 0x00 \<notin> set t"
  shows "cstr_at (base, pre @ map of_char t @ 0 # rest) p t"
  using assms
proof (induction t arbitrary: p pre)
  case Nil
  then show ?case by (simp add: peek_def)
next
  case (Cons c t)
  have e: "p + 1 - base = p - base + 1" by simp
  have "unat (p + 1 - base) = Suc (length pre)"
    unfolding e using Cons.prems(1,2) unat_word_ariths(1) [of "p - base" 1] by simp
  then show ?case using Cons.prems Cons.IH [of "p + 1" "pre @ [of_char c]"] by (auto simp: peek_def)
qed

section \<open>Symbol tables\<close>

fun symbols_at :: "mapped \<Rightarrow> u64 \<Rightarrow> u64 \<Rightarrow> (string \<times> u64) list \<Rightarrow> bool" where
  "symbols_at im sy strtab [] \<longleftrightarrow> True"
| "symbols_at im sy strtab (x # ss) \<longleftrightarrow>
     (\<exists>k. st_name im sy = Inr k \<and> cstr_at im (strtab + ucast k) (fst x)) \<and> st_value im sy = Inr (snd x)
       \<and> symbols_at im (sy + sizeof_Sym) strtab ss"

definition value_of :: "(string \<times> u64) list \<Rightarrow> string \<Rightarrow> u64" where
  "value_of ss name = (case map_of ss name of None \<Rightarrow> 0 | Some v \<Rightarrow> v)"

lemma symbol_loop_finds:
  assumes "symbols_at im sy strtab ss" and "CHR 0x00 \<notin> set name"
  shows "symbol_loop im name sy strtab (length ss) = Inr (value_of ss name)"
  using assms by (induction ss arbitrary: sy) (auto simp: strcmp_cstr value_of_def)

section \<open>Headers\<close>

record phdr_view =
  ph_type :: u32
  ph_offset :: u64
  ph_vaddr :: u64

record shdr_view =
  sv_type :: u32
  sv_name :: string
  sv_offset :: u64
  sv_size :: u64

record elf_view =
  ev_phoff :: u64
  ev_phdrs :: "phdr_view list"
  ev_shoff :: u64
  ev_shdrs :: "shdr_view list"

definition phdr_at :: "mapped \<Rightarrow> u64 \<Rightarrow> phdr_view \<Rightarrow> bool" where
  "phdr_at im p v \<longleftrightarrow> p_type im p = Inr (ph_type v) \<and> p_offset im p = Inr (ph_offset v) \<and> p_vaddr im p = Inr (ph_vaddr v)"

definition shdr_at :: "mapped \<Rightarrow> u64 \<Rightarrow> u64 \<Rightarrow> shdr_view \<Rightarrow> bool" where
  "shdr_at im shstrtab s v \<longleftrightarrow> sh_type im s = Inr (sv_type v) \<and> sh_offset im s = Inr (sv_offset v) \<and> sh_size im s = Inr (sv_size v)
     \<and> (\<exists>k. sh_name im s = Inr k \<and> cstr_at im (shstrtab + ucast k) (sv_name v))"

definition shstr_at :: "mapped \<Rightarrow> u64 \<Rightarrow> elf_view \<Rightarrow> u16 \<Rightarrow> u64 \<Rightarrow> bool" where
  "shstr_at im h v ndx stroff \<longleftrightarrow> e_shstrndx im h = Inr ndx \<and> sh_offset im (h + ev_shoff v + ucast ndx * sizeof_Shdr) = Inr stroff
     \<and> (\<forall>i < length (ev_shdrs v). shdr_at im (h + stroff) (h + ev_shoff v + of_nat i * sizeof_Shdr) (ev_shdrs v ! i))"

definition elf_image :: "mapped \<Rightarrow> u64 \<Rightarrow> elf_view \<Rightarrow> bool" where
  "elf_image im h v \<longleftrightarrow> e_phoff im h = Inr (ev_phoff v) \<and> e_shoff im h = Inr (ev_shoff v)
     \<and> e_phnum im h = Inr (of_nat (length (ev_phdrs v))) \<and> length (ev_phdrs v) < 2 ^ 16
     \<and> e_shnum im h = Inr (of_nat (length (ev_shdrs v))) \<and> length (ev_shdrs v) < 2 ^ 16
     \<and> (\<forall>i < length (ev_phdrs v). phdr_at im (h + ev_phoff v + of_nat i * sizeof_Phdr) (ev_phdrs v ! i))
     \<and> (\<exists>ndx stroff. shstr_at im h v ndx stroff)"

text \<open>The addresses the file was linked for start at this one; a consistent program header table says so, too.\<close>

definition link_base :: "elf_view \<Rightarrow> u64" where
  "link_base v = (case List.find (\<lambda>p. ph_type p = PT_LOAD) (ev_phdrs v) of None \<Rightarrow> 0 | Some p \<Rightarrow> ph_vaddr p - ph_offset p)"

definition phdrs_consistent :: "elf_view \<Rightarrow> bool" where
  "phdrs_consistent v \<longleftrightarrow> list_ex (\<lambda>p. ph_type p = PT_LOAD) (ev_phdrs v)
     \<and> list_all (\<lambda>p. ph_type p = PT_PHDR \<longrightarrow> ph_vaddr p = ev_phoff v + link_base v) (ev_phdrs v)"

definition section_of :: "(shdr_view \<Rightarrow> bool) \<Rightarrow> elf_view \<Rightarrow> shdr_view option" where
  "section_of P v = List.find P (rev (ev_shdrs v))"

definition is_symtab :: "shdr_view \<Rightarrow> bool" where "is_symtab s \<longleftrightarrow> sv_type s = SHT_SYMTAB"
definition is_strtab :: "shdr_view \<Rightarrow> bool" where "is_strtab s \<longleftrightarrow> sv_type s = SHT_STRTAB \<and> sv_name s = ''.strtab''"
definition is_dynsym :: "shdr_view \<Rightarrow> bool" where "is_dynsym s \<longleftrightarrow> sv_type s = SHT_DYNSYM"
definition is_dynstr :: "shdr_view \<Rightarrow> bool" where "is_dynstr s \<longleftrightarrow> sv_type s = SHT_STRTAB \<and> sv_name s = ''.dynstr''"

lemmas section_kinds = is_symtab_def is_strtab_def is_dynsym_def is_dynstr_def

lemma rfold_snoc [simp]: "rfold f (xs @ [x]) s = rbind (rfold f xs s) (f x)"
  by (induction xs arbitrary: s) (auto simp: rbind_def split: sum.splits)

section \<open>The context of a well-formed file\<close>

text \<open>After the first \<open>n\<close> program headers the bias is right once one of them has set it.\<close>

lemma phdr_loop:
  assumes "\<forall>i < length ps. phdr_at im (ph + of_nat i * sizeof_Phdr) (ps ! i)" and "n \<le> length ps" and "h - lb \<noteq> 0" and "ph = h + phoff"
    and "list_all (\<lambda>p. ph_type p = PT_PHDR \<longrightarrow> ph_vaddr p = phoff + lb) ps"
    and "\<And>p. List.find (\<lambda>p. ph_type p = PT_LOAD) ps = Some p \<Longrightarrow> lb = ph_vaddr p - ph_offset p" and "load_bias ctx = 0"
  shows "\<exists>b. rfold (phdr_step im h ph) [0..<n] ctx = Inr (ctx\<lparr>load_bias := b\<rparr>)
     \<and> (b = h - lb \<or> b = 0 \<and> (\<forall>i < n. ph_type (ps ! i) \<noteq> PT_LOAD))"
  using assms(2)
proof (induction n)
  case 0
  have "ctx = ctx\<lparr>load_bias := 0\<rparr>" using assms(7) by simp
  then show ?case by auto
next
  case (Suc n)
  then obtain b where b: "rfold (phdr_step im h ph) [0..<n] ctx = Inr (ctx\<lparr>load_bias := b\<rparr>)"
      "b = h - lb \<or> b = 0 \<and> (\<forall>i < n. ph_type (ps ! i) \<noteq> PT_LOAD)" by auto
  have at: "phdr_at im (ph + of_nat n * sizeof_Phdr) (ps ! n)" and phdr: "ph_type (ps ! n) = PT_PHDR \<Longrightarrow> ph_vaddr (ps ! n) = phoff + lb"
    using assms(1,5) Suc.prems by (auto simp: list_all_length)
  have first: "lb = ph_vaddr (ps ! n) - ph_offset (ps ! n)" if "b = 0" "ph_type (ps ! n) = PT_LOAD"
  proof -
    have "List.find (\<lambda>p. ph_type p = PT_LOAD) ps = Some (ps ! n)"
      using that b(2) assms(3) Suc.prems by (auto simp: find_Some_iff intro!: exI [of _ n])
    then show ?thesis by (rule assms(6))
  qed
  define b' where "b' = (if ph_type (ps ! n) = PT_PHDR \<or> ph_type (ps ! n) = PT_LOAD \<and> b = 0 then h - lb else b)"
  have step: "phdr_step im h ph n (ctx\<lparr>load_bias := b\<rparr>) = Inr (ctx\<lparr>load_bias := b'\<rparr>)"
    using at phdr first by (auto simp: phdr_step_def phdr_at_def assms(4) b'_def Let_def PT_LOAD_def PT_DYNAMIC_def PT_PHDR_def)
  have "b' = h - lb \<or> b' = 0 \<and> (\<forall>i < Suc n. ph_type (ps ! i) \<noteq> PT_LOAD)"
    using b(2) by (auto simp: b'_def less_Suc_eq)
  then show ?case using b(1) step by auto
qed

text \<open>What the section loop has found among the first \<open>n\<close> sections.\<close>

definition found :: "mapped \<Rightarrow> u64 \<Rightarrow> shdr_view option \<Rightarrow> u64 \<Rightarrow> u64 \<Rightarrow> bool" where
  "found im h s sh a \<longleftrightarrow> (case s of None \<Rightarrow> a = 0 | Some x \<Rightarrow> a = h + sv_offset x \<and> sh_size im sh = Inr (sv_size x))"

definition placed :: "u64 \<Rightarrow> shdr_view option \<Rightarrow> u64 \<Rightarrow> bool" where
  "placed h s a \<longleftrightarrow> a = (case s of None \<Rightarrow> 0 | Some x \<Rightarrow> h + sv_offset x)"

definition ctx_sections :: "mapped \<Rightarrow> u64 \<Rightarrow> shdr_view list \<Rightarrow> elf_ctx \<Rightarrow> bool" where
  "ctx_sections im h ss ctx \<longleftrightarrow>
       found im h (List.find is_symtab (rev ss)) (ctx_sym_sh ctx) (ctx_symtab ctx)
     \<and> found im h (List.find is_dynsym (rev ss)) (ctx_dynsym_sh ctx) (ctx_dynsymtab ctx)
     \<and> placed h (List.find is_strtab (rev ss)) (ctx_strtab ctx) \<and> placed h (List.find is_dynstr (rev ss)) (ctx_dynstrtab ctx)"

lemma shdr_loop:
  assumes "\<forall>i < length ss. shdr_at im shstrtab (sh + of_nat i * sizeof_Shdr) (ss ! i)" and "n \<le> length ss" and "ctx_sections im h [] ctx"
  shows "\<exists>ctx'. rfold (shdr_step im h sh shstrtab) [0..<n] ctx = Inr ctx' \<and> ctx_sections im h (take n ss) ctx' \<and> load_bias ctx' = load_bias ctx"
  using assms(2)
proof (induction n)
  case 0
  then show ?case using assms(3) by simp
next
  case (Suc n)
  then obtain ctx' where c: "rfold (shdr_step im h sh shstrtab) [0..<n] ctx = Inr ctx'" "ctx_sections im h (take n ss) ctx'" "load_bias ctx' = load_bias ctx"
    by auto
  let ?s = "sh + of_nat n * sizeof_Shdr" and ?x = "ss ! n"
  obtain k where at: "sh_type im ?s = Inr (sv_type ?x)" "sh_offset im ?s = Inr (sv_offset ?x)" "sh_size im ?s = Inr (sv_size ?x)"
      "sh_name im ?s = Inr k" "cstr_at im (shstrtab + ucast k) (sv_name ?x)"
    using assms(1) Suc.prems by (auto simp: shdr_at_def Suc_le_eq)
  have nm: "strcmp_eq im (shstrtab + ucast k) ''.strtab'' = Inr (sv_name ?x = ''.strtab'')"
    "strcmp_eq im (shstrtab + ucast k) ''.dynstr'' = Inr (sv_name ?x = ''.dynstr'')"
    using strcmp_cstr [OF at(5)] by simp_all
  have t: "take (Suc n) ss = take n ss @ [?x]" using Suc.prems by (simp add: take_Suc_conv_app_nth)
  have "\<exists>ctx''. shdr_step im h sh shstrtab n ctx' = Inr ctx'' \<and> ctx_sections im h (take n ss @ [?x]) ctx'' \<and> load_bias ctx'' = load_bias ctx'"
    using c(2) at(1-4) nm
    by (auto simp: shdr_step_def ctx_sections_def found_def placed_def section_kinds Let_def SHT_SYMTAB_def SHT_STRTAB_def SHT_DYNSYM_def
        split: option.splits)
  then show ?case using c t by auto
qed

lemma elf_ctx_init_view:
  assumes "elf_image im h v" and "phdrs_consistent v" and "h \<noteq> link_base v"
  shows "\<exists>ctx. elf_ctx_init im h zero_ctx = Inr ctx \<and> ctx_sections im h (ev_shdrs v) ctx \<and> load_bias ctx = h - link_base v"
proof -
  obtain ndx stroff where sh: "shstr_at im h v ndx stroff" using assms(1) by (auto simp: elf_image_def)
  have num: "unat (of_nat (length (ev_phdrs v)) :: u16) = length (ev_phdrs v)" "unat (of_nat (length (ev_shdrs v)) :: u16) = length (ev_shdrs v)"
    using assms(1) by (simp_all add: elf_image_def unat_of_nat take_bit_nat_eq_self)
  have lb: "link_base v = ph_vaddr p - ph_offset p" if "List.find (\<lambda>p. ph_type p = PT_LOAD) (ev_phdrs v) = Some p" for p
    using that by (simp add: link_base_def)
  obtain b where b: "rfold (phdr_step im h (h + ev_phoff v)) [0..<length (ev_phdrs v)] (zero_ctx\<lparr>ctx_header := h\<rparr>)
        = Inr (zero_ctx\<lparr>ctx_header := h\<rparr>\<lparr>load_bias := b\<rparr>)"
      "b = h - link_base v \<or> b = 0 \<and> (\<forall>i < length (ev_phdrs v). ph_type (ev_phdrs v ! i) \<noteq> PT_LOAD)"
    using phdr_loop [of "ev_phdrs v" im "h + ev_phoff v" "length (ev_phdrs v)" h "link_base v" "ev_phoff v" "zero_ctx\<lparr>ctx_header := h\<rparr>"] assms lb
    by (auto simp: elf_image_def phdrs_consistent_def zero_ctx_def)
  then have bias: "b = h - link_base v" using assms(2) by (auto simp: phdrs_consistent_def list_ex_length)
  let ?c = "zero_ctx\<lparr>ctx_header := h\<rparr>\<lparr>load_bias := b\<rparr>"
  have "ctx_sections im h [] ?c" by (simp add: ctx_sections_def found_def placed_def zero_ctx_def)
  then obtain ctx where "rfold (shdr_step im h (h + ev_shoff v) (h + stroff)) [0..<length (ev_shdrs v)] ?c = Inr ctx"
      "ctx_sections im h (ev_shdrs v) ctx" "load_bias ctx = b"
    using shdr_loop [of "ev_shdrs v" im "h + stroff" "h + ev_shoff v" "length (ev_shdrs v)" h ?c] sh by (auto simp: shstr_at_def)
  then show ?thesis using b(1) bias assms(1) sh by (simp add: elf_ctx_init_def elf_image_def shstr_at_def num)
qed

section \<open>What is found\<close>

text \<open>The symbols of a table: the entries of the one section, named by the strings of the other.\<close>

definition table_symbols :: "mapped \<Rightarrow> u64 \<Rightarrow> shdr_view option \<Rightarrow> shdr_view option \<Rightarrow> (string \<times> u64) list \<Rightarrow> bool" where
  "table_symbols im h tab str ss \<longleftrightarrow>
     (case (tab, str) of
        (Some t, Some s) \<Rightarrow> h + sv_offset t \<noteq> 0 \<and> h + sv_offset s \<noteq> 0 \<and> sv_size t div sizeof_Sym = of_nat (length ss) \<and> length ss < 2 ^ 31
           \<and> symbols_at im (h + sv_offset t) (h + sv_offset s) ss
      | _ \<Rightarrow> ss = [])"

definition elf_symbols :: "mapped \<Rightarrow> u64 \<Rightarrow> elf_view \<Rightarrow> (string \<times> u64) list \<Rightarrow> (string \<times> u64) list \<Rightarrow> bool" where
  "elf_symbols im h v ss ds \<longleftrightarrow> table_symbols im h (section_of is_symtab v) (section_of is_strtab v) ss
     \<and> table_symbols im h (section_of is_dynsym v) (section_of is_dynstr v) ds"

text \<open>The symbol table first, then the dynamic one; a symbol of value 0 counts as missing.\<close>

definition symbol_value :: "(string \<times> u64) list \<Rightarrow> (string \<times> u64) list \<Rightarrow> string \<Rightarrow> u64" where
  "symbol_value ss ds name = (if value_of ss name \<noteq> 0 then value_of ss name else value_of ds name)"

lemma symbol_count: "n < 2 ^ 31 \<Longrightarrow> nat (sint (ucast (of_nat n :: u64) :: u32)) = n"
  by (simp add: unsigned_of_nat signed_of_nat take_bit_nat_eq_self signed_take_bit_int_eq_self)

lemma table_search:
  assumes "table_symbols im h tab str ss" and "found im h tab sh a" and "placed h str b" and "CHR 0x00 \<notin> set name"
  shows "(if a \<noteq> 0 \<and> b \<noteq> 0 then rbind (sh_size im sh) (\<lambda>sz. iterate_symbol_table_impl im name a b (sz div sizeof_Sym)) else Inr 0)
     = Inr (value_of ss name)"
  using assms symbol_loop_finds [OF _ assms(4), of im a b ss]
  by (auto simp: table_symbols_def found_def placed_def iterate_symbol_table_impl_def symbol_count value_of_def split: option.splits)

lemma iterate_view:
  assumes "ctx_sections im h (ev_shdrs v) ctx" and "elf_symbols im h v ss ds" and "CHR 0x00 \<notin> set name"
  shows "elf_ctx_iterate_symbol_table im ctx name = Inr (symbol_value ss ds name)"
proof -
  note S = table_search [OF _ _ _ assms(3)]
  show ?thesis
    using S [of im h "section_of is_symtab v" "section_of is_strtab v" ss "ctx_sym_sh ctx" "ctx_symtab ctx" "ctx_strtab ctx"]
      S [of im h "section_of is_dynsym v" "section_of is_dynstr v" ds "ctx_dynsym_sh ctx" "ctx_dynsymtab ctx" "ctx_dynstrtab ctx"] assms(1,2)
    by (simp add: elf_ctx_iterate_symbol_table_def ctx_sections_def elf_symbols_def section_of_def symbol_value_def)
qed

text \<open>
  C18: in a module whose file can be mapped and is well formed, the resolver finds a symbol of \<^verbatim>\<open>.symtab\<close>, or else of
  \<^verbatim>\<open>.dynsym\<close>, at its distance from the start of the first segment, counted from the module's load address. The
  answer does not depend on where the file was mapped.
\<close>

theorem resolver_finds_symbol:
  assumes "file_mmap env (rm_path md) st = ((file_mem, sz), st1)" and "file_maps st1 file_mem = Some pages"
    and "rm_load_address md \<noteq> 0" and "length (rm_path md) < path_size" and "file_mem \<noteq> 0" and "file_mem \<noteq> link_base v"
    and "elf_image (file_mem, pages) file_mem v" and "phdrs_consistent v" and "elf_symbols (file_mem, pages) file_mem v ss ds"
    and "CHR 0x00 \<notin> set name" and "symbol_value ss ds name \<noteq> 0"
  shows "symbol_in_module env name md st
     = Inr (rm_load_address md + (symbol_value ss ds name - link_base v), file_unmap env file_mem sz st1)"
proof -
  obtain ctx where "elf_ctx_init (file_mem, pages) file_mem zero_ctx = Inr ctx" "ctx_sections (file_mem, pages) file_mem (ev_shdrs v) ctx"
      "load_bias ctx = file_mem - link_base v"
    using elf_ctx_init_view [OF assms(7,8,6)] by blast
  then show ?thesis using assms iterate_view [OF _ assms(9,10)] by (simp add: symbol_in_module_def algebra_simps)
qed

text \<open>A file with one segment, a symbol table of one symbol and its strings, mapped at \<open>0x7000\<close>.\<close>

definition demo_headers :: "u8 list" where
  "demo_headers = [0x7F, 0x45, 0x4C, 0x46] @ replicate 28 0 @ [64, 0, 0, 0, 0, 0, 0, 0] @ [120, 0, 0, 0, 0, 0, 0, 0] @ replicate 8 0 @ [1, 0] @ [64, 0] @ [2, 0] @ [1, 0]
     @ [1, 0, 0, 0] @ replicate 12 0 @ [0, 0x10, 0, 0, 0, 0, 0, 0] @ replicate 32 0
     @ [8, 0, 0, 0] @ [2, 0, 0, 0] @ replicate 16 0 @ [248, 0, 0, 0, 0, 0, 0, 0] @ [24, 0, 0, 0, 0, 0, 0, 0] @ replicate 24 0
     @ [0, 0, 0, 0] @ [3, 0, 0, 0] @ replicate 16 0 @ [16, 1, 0, 0, 0, 0, 0, 0] @ [18, 0, 0, 0, 0, 0, 0, 0] @ replicate 24 0
     @ [16, 0, 0, 0] @ replicate 4 0 @ [0, 0x18, 0, 0, 0, 0, 0, 0] @ replicate 8 0"

definition demo_elf :: "u8 list" where
  "demo_elf = demo_headers @ map of_char ''.strtab'' @ [0] @ map of_char ''.symtab'' @ [0] @ map of_char ''f'' @ [0]"

definition demo_view :: elf_view where
  "demo_view = \<lparr>ev_phoff = 64, ev_phdrs = [\<lparr>ph_type = PT_LOAD, ph_offset = 0, ph_vaddr = 0x1000\<rparr>], ev_shoff = 120,
     ev_shdrs = [\<lparr>sv_type = SHT_SYMTAB, sv_name = ''.symtab'', sv_offset = 248, sv_size = 24\<rparr>,
                 \<lparr>sv_type = SHT_STRTAB, sv_name = ''.strtab'', sv_offset = 272, sv_size = 18\<rparr>]\<rparr>"

definition demo_files :: file_env where
  "demo_files = \<lparr>sys_open = (\<lambda>_. 3), sys_fstat = (\<lambda>_. (0, 290)), sys_mmap = (\<lambda>_ _. 0x7000), sys_pages = (\<lambda>_. demo_elf), sys_munmap = (\<lambda>_ _. 0)\<rparr>"

lemma demo_ehdr:
  "e_phoff (0x7000, demo_elf) 0x7000 = Inr 64" "e_shoff (0x7000, demo_elf) 0x7000 = Inr 120" "e_phnum (0x7000, demo_elf) 0x7000 = Inr 1"
  "e_shnum (0x7000, demo_elf) 0x7000 = Inr 2" "e_shstrndx (0x7000, demo_elf) 0x7000 = Inr 1"
  "p_type (0x7000, demo_elf) 0x7040 = Inr 1" "p_offset (0x7000, demo_elf) 0x7040 = Inr 0" "p_vaddr (0x7000, demo_elf) 0x7040 = Inr 0x1000"
  by code_simp+

lemma demo_shdrs:
  "sh_type (0x7000, demo_elf) 0x7078 = Inr 2" "sh_offset (0x7000, demo_elf) 0x7078 = Inr 248" "sh_size (0x7000, demo_elf) 0x7078 = Inr 24"
  "sh_name (0x7000, demo_elf) 0x7078 = Inr 8" "sh_type (0x7000, demo_elf) 0x70B8 = Inr 3" "sh_offset (0x7000, demo_elf) 0x70B8 = Inr 272"
  "sh_size (0x7000, demo_elf) 0x70B8 = Inr 18" "sh_name (0x7000, demo_elf) 0x70B8 = Inr 0"
  "st_name (0x7000, demo_elf) 0x70F8 = Inr 16" "st_value (0x7000, demo_elf) 0x70F8 = Inr 0x1800"
  by code_simp+

lemma demo_strings:
  "cstr_at (0x7000, demo_elf) 0x7110 ''.strtab''" "cstr_at (0x7000, demo_elf) 0x7118 ''.symtab''" "cstr_at (0x7000, demo_elf) 0x7120 ''f''"
proof -
  have h: "length demo_headers = 272" by (simp add: demo_headers_def)
  show "cstr_at (0x7000, demo_elf) 0x7110 ''.strtab''"
    unfolding demo_elf_def using cstr_at_append [of "0x7110" "0x7000" demo_headers "''.strtab''"] h by simp
  show "cstr_at (0x7000, demo_elf) 0x7118 ''.symtab''"
    unfolding demo_elf_def using cstr_at_append [of "0x7118" "0x7000" "demo_headers @ map of_char ''.strtab'' @ [0]" "''.symtab''"] h by simp
  show "cstr_at (0x7000, demo_elf) 0x7120 ''f''"
    unfolding demo_elf_def
    using cstr_at_append [of "0x7120" "0x7000" "demo_headers @ map of_char ''.strtab'' @ [0] @ map of_char ''.symtab'' @ [0]" "''f''"] h by simp
qed

lemma demo_image: "elf_image (0x7000, demo_elf) 0x7000 demo_view"
proof -
  let ?im = "(0x7000, demo_elf)"
  have "shdr_at ?im 0x7110 0x7078 (ev_shdrs demo_view ! 0)" "shdr_at ?im 0x7110 0x70B8 (ev_shdrs demo_view ! 1)"
    using demo_shdrs demo_strings by (simp_all add: shdr_at_def demo_view_def SHT_SYMTAB_def SHT_STRTAB_def)
  then have "shdr_at ?im 0x7110 (0x7078 + of_nat i * 64) (ev_shdrs demo_view ! i)" if "i < 2" for i
    using less_2_cases [OF that] by auto
  then have "shstr_at ?im 0x7000 demo_view 1 272"
    using demo_ehdr(5) demo_shdrs(6) by (simp add: shstr_at_def sizeof_Shdr_def) (simp add: demo_view_def)
  then show ?thesis
    using demo_ehdr by (auto simp: elf_image_def demo_view_def phdr_at_def sizeof_Phdr_def PT_LOAD_def)
qed

lemma demo_symbols: "elf_symbols (0x7000, demo_elf) 0x7000 demo_view [(''f'', 0x1800)] []"
  using demo_shdrs demo_strings
  by (simp add: elf_symbols_def table_symbols_def section_of_def demo_view_def section_kinds SHT_SYMTAB_def SHT_STRTAB_def SHT_DYNSYM_def sizeof_Sym_def)

theorem resolver_finds_symbol_witness:
  "symbol_in_module demo_files ''f'' \<lparr>rm_path = ''/lib/a.so'', rm_load_address = 0x500000\<rparr> \<lparr>open_fds = [], file_maps = Map.empty\<rparr>
     = Inr (0x500800, \<lparr>open_fds = [], file_maps = Map.empty\<rparr>)"
proof -
  let ?st1 = "\<lparr>open_fds = [], file_maps = [0x7000 \<mapsto> demo_elf]\<rparr>"
  have "file_mmap demo_files ''/lib/a.so'' \<lparr>open_fds = [], file_maps = Map.empty\<rparr> = ((0x7000, 290), ?st1)"
    by (simp add: file_mmap_def demo_files_def sys_close_def MAP_FAILED_def)
  moreover have "link_base demo_view = 0x1000" "phdrs_consistent demo_view"
    by (simp_all add: link_base_def demo_view_def phdrs_consistent_def PT_LOAD_def PT_PHDR_def)
  moreover have "symbol_value [(''f'', 0x1800)] [] ''f'' = 0x1800" by (simp add: symbol_value_def value_of_def)
  moreover have "file_unmap demo_files 0x7000 290 ?st1 = \<lparr>open_fds = [], file_maps = Map.empty\<rparr>"
    by (simp add: file_unmap_def demo_files_def)
  ultimately show ?thesis
    using resolver_finds_symbol [of demo_files "\<lparr>rm_path = ''/lib/a.so'', rm_load_address = 0x500000\<rparr>" "\<lparr>open_fds = [], file_maps = Map.empty\<rparr>"
        "0x7000" 290 ?st1 demo_elf demo_view "[(''f'', 0x1800)]" "[]" "''f''"] demo_image demo_symbols
    by (simp add: path_size_def)
qed

section \<open>The other reader of the section headers\<close>

definition syms_step :: "u64 \<Rightarrow> shdr_view \<Rightarrow> syms \<Rightarrow> syms" where
  "syms_step h x out = (let (a, b, c) = out in
     if is_symtab x then (h + sv_offset x, b, ucast (sv_size x div sizeof_Sym)) else if is_strtab x then (a, h + sv_offset x, c) else out)"

lemma get_syms_step_view:
  assumes "shdr_at im str s x" and "is_symtab x \<Longrightarrow> sv_name x = ''.symtab''"
  shows "get_syms_step im h str s out = Inr (syms_step h x out)"
proof -
  obtain k where k: "sh_name im s = Inr k" "cstr_at im (str + ucast k) (sv_name x)" using assms(1) by (auto simp: shdr_at_def)
  then show ?thesis
    using assms strcmp_cstr [OF k(2), of "''.symtab''"] strcmp_cstr [OF k(2), of "''.strtab''"]
    by (cases out) (simp add: get_syms_step_def syms_step_def shdr_at_def section_kinds SHT_SYMTAB_def SHT_STRTAB_def)
qed

lemma get_syms_loop_view:
  assumes "\<forall>i < length ss. shdr_at im str (s + of_nat i * sizeof_Shdr) (ss ! i)" and "list_all (\<lambda>x. is_symtab x \<longrightarrow> sv_name x = ''.symtab'') ss"
  shows "get_syms_loop im h str 64 (length ss) s out = Inr (fold (syms_step h) ss out)"
  using assms
proof (induction ss arbitrary: s out)
  case (Cons x ss)
  have "shdr_at im str s x" "\<forall>i < length ss. shdr_at im str (s + 64 + of_nat i * sizeof_Shdr) (ss ! i)"
    using Cons.prems(1) by (auto simp: All_less_Suc2 sizeof_Shdr_def algebra_simps)
  then show ?case using Cons.prems(2) Cons.IH [of "s + 64"] by (simp add: get_syms_step_view)
qed simp

lemma syms_fold:
  "fold (syms_step h) ss (0, 0, 0) =
     (case List.find is_symtab (rev ss) of None \<Rightarrow> 0 | Some x \<Rightarrow> h + sv_offset x,
      case List.find is_strtab (rev ss) of None \<Rightarrow> 0 | Some x \<Rightarrow> h + sv_offset x,
      case List.find is_symtab (rev ss) of None \<Rightarrow> 0 | Some x \<Rightarrow> ucast (sv_size x div sizeof_Sym))"
  by (induction ss rule: rev_induct) (simp_all add: syms_step_def section_kinds SHT_SYMTAB_def SHT_STRTAB_def)

lemma shstr_offset: "scast (ucast (ndx :: u16) * 64 :: u32) = (ucast ndx * sizeof_Shdr :: u64)"
proof -
  have n: "unat ndx < 2 ^ 16" using unsigned_less [of ndx, where 'a = nat] by simp
  have "sint (of_nat k :: u32) = int k" if "k < 2 ^ 31" for k using that by (simp add: signed_of_nat signed_take_bit_int_eq_self)
  then have "scast (of_nat k :: u32) = (of_nat k :: u64)" if "k < 2 ^ 31" for k using that by (simp add: scast_eq)
  from this [of "unat ndx * 64"] n show ?thesis by (simp add: sizeof_Shdr_def of_nat_unat)
qed

text \<open>
  C36: on a well-formed file whose symbol table section has its usual name, \<^verbatim>\<open>get_syms\<close>, which walks the section headers
  by their size in the file, and \<^verbatim>\<open>elf_ctx_init\<close>, which walks them by the size of the structure, find the same symbol
  table and strings.
\<close>

theorem get_syms_agrees:
  assumes "elf_image im h v" and "phdrs_consistent v" and "h \<noteq> link_base v" and "e_shentsize im h = Inr 64"
    and "list_all (\<lambda>x. is_symtab x \<longrightarrow> sv_name x = ''.symtab'') (ev_shdrs v)"
  shows "\<exists>ctx c. elf_ctx_init im h zero_ctx = Inr ctx \<and> get_syms im h (0, 0, 0) = Inr (ctx_symtab ctx, ctx_strtab ctx, c)
     \<and> (\<forall>x. section_of is_symtab v = Some x \<longrightarrow> c = ucast (sv_size x div sizeof_Sym))"
proof -
  obtain ndx stroff where sh: "shstr_at im h v ndx stroff" using assms(1) by (auto simp: elf_image_def)
  have num: "unat (of_nat (length (ev_shdrs v)) :: u16) = length (ev_shdrs v)"
    using assms(1) by (simp add: elf_image_def unat_of_nat take_bit_nat_eq_self)
  obtain ctx where ctx: "elf_ctx_init im h zero_ctx = Inr ctx" "ctx_sections im h (ev_shdrs v) ctx"
    using elf_ctx_init_view [OF assms(1-3)] by blast
  have "get_syms im h (0, 0, 0) = Inr (fold (syms_step h) (ev_shdrs v) (0, 0, 0))"
    using assms(1,4,5) sh get_syms_loop_view [of "ev_shdrs v" im "h + stroff" "h + ev_shoff v" h "(0, 0, 0)"]
    by (simp add: get_syms_def elf_image_def shstr_at_def shstr_offset num Let_def del: get_syms_loop.simps)
  then show ?thesis using ctx
    by (auto simp: syms_fold ctx_sections_def found_def placed_def section_of_def split: option.splits)
qed

theorem get_syms_agrees_witness:
  "\<exists>ctx. elf_ctx_init (0x7000, demo_elf) 0x7000 zero_ctx = Inr ctx
     \<and> get_syms (0x7000, demo_elf) 0x7000 (0, 0, 0) = Inr (ctx_symtab ctx, ctx_strtab ctx, 1)"
proof -
  have "phdrs_consistent demo_view" "link_base demo_view = 0x1000" "section_of is_symtab demo_view = Some (ev_shdrs demo_view ! 0)"
    "sv_size (ev_shdrs demo_view ! 0) = 24" "list_all (\<lambda>x. is_symtab x \<longrightarrow> sv_name x = ''.symtab'') (ev_shdrs demo_view)"
    by (simp_all add: link_base_def demo_view_def phdrs_consistent_def section_of_def section_kinds PT_LOAD_def PT_PHDR_def SHT_SYMTAB_def SHT_STRTAB_def)
  moreover have "e_shentsize (0x7000, demo_elf) 0x7000 = Inr 64" by code_simp
  ultimately show ?thesis using get_syms_agrees [OF demo_image] by (auto simp: sizeof_Sym_def)
qed

section \<open>What is given back\<close>

text \<open>
  What the system promises: a new descriptor is none of the open ones, a new mapping is neither at address 0 nor
  where another is, and a mapping can be removed.
\<close>

definition kernel_ok :: "file_env \<Rightarrow> files \<Rightarrow> bool" where
  "kernel_ok env st \<longleftrightarrow> (\<forall>path. sys_open env path \<notin> set (open_fds st))
     \<and> (\<forall>n fd. sys_mmap env n fd \<noteq> 0 \<and> (sys_mmap env n fd \<noteq> MAP_FAILED \<longrightarrow> file_maps st (sys_mmap env n fd) = None))
     \<and> file_maps st MAP_FAILED = None \<and> (\<forall>d n. sys_munmap env d n = 0)"

lemma file_mmap_cases:
  assumes "kernel_ok env st" and "file_mmap env path st = ((d, n), st1)"
  shows "st1 = st \<and> (d = 0 \<or> d = MAP_FAILED) \<or> d \<noteq> 0 \<and> file_maps st d = None \<and> (\<exists>pages. st1 = st\<lparr>file_maps := (file_maps st)(d \<mapsto> pages)\<rparr>)"
proof -
  have fd: "sys_open env path \<notin> set (open_fds st)" and m: "\<And>n fd. sys_mmap env n fd \<noteq> 0"
    "\<And>n fd. sys_mmap env n fd \<noteq> MAP_FAILED \<Longrightarrow> file_maps st (sys_mmap env n fd) = None"
    using assms(1) by (auto simp: kernel_ok_def)
  show ?thesis using assms(2) fd m
    by (auto simp: file_mmap_def sys_close_def Let_def removeAll_id split: if_splits prod.splits)
qed

lemma symbol_in_module_releases:
  assumes "kernel_ok env st" and "symbol_in_module env name md st = Inr (r, st')"
  shows "st' = st"
proof (cases "rm_load_address md = 0")
  case True
  then show ?thesis using assms(2) by (simp add: symbol_in_module_def)
next
  case False
  obtain d n st1 where f: "file_mmap env (rm_path md) st = ((d, n), st1)" by (metis prod.exhaust)
  have "st1 = st" if "d = 0" using file_mmap_cases [OF assms(1) f] that by auto
  moreover have "d \<noteq> MAP_FAILED \<or> st1 \<noteq> st" if "d \<noteq> 0"
    using assms that False f by (auto simp: symbol_in_module_def kernel_ok_def split: if_splits)
  moreover have "st\<lparr>file_maps := (file_maps st)(d := None)\<rparr> = st" if "file_maps st d = None" using that by (simp add: fun_upd_idem)
  ultimately show ?thesis
    using file_mmap_cases [OF assms(1) f] assms False f
    by (auto simp: symbol_in_module_def file_unmap_def kernel_ok_def split: if_splits elim!: rbind_InrE)
qed

lemma symbol_in_modules_releases:
  assumes "kernel_ok env st" and "symbol_in_modules env name mds st = Inr (r, st')"
  shows "st' = st"
  using assms(2)
proof (induction mds)
  case (Cons md mds)
  then show ?case using symbol_in_module_releases [OF assms(1), of name md]
    by (auto split: if_splits elim!: rbind_InrE)
qed simp


lemma demo_kernel: "kernel_ok demo_files \<lparr>open_fds = [], file_maps = Map.empty\<rparr>"
  by (simp add: kernel_ok_def demo_files_def)


text \<open>
  A file that cannot be mapped, such as an empty one, is not skipped: \<^verbatim>\<open>MAP_FAILED\<close> passes the test for the null
  pointer and the headers are read from it.
\<close>

theorem resolver_map_failed:
  assumes "kernel_ok env st" and "rm_load_address md \<noteq> 0" and "length (rm_path md) < path_size"
    and "0 \<le> sys_open env (rm_path md)" and "sys_fstat env (sys_open env (rm_path md)) = (0, n)"
    and "sys_mmap env n (sys_open env (rm_path md)) = MAP_FAILED"
  shows "symbol_in_module env name md st = Inl BAD_POINTER"
  using assms by (simp add: symbol_in_module_def file_mmap_def sys_close_def kernel_ok_def) (simp add: MAP_FAILED_def)

theorem resolver_map_failed_witness:
  "symbol_in_module (demo_files\<lparr>sys_fstat := \<lambda>_. (0, 0), sys_mmap := \<lambda>_ _. MAP_FAILED\<rparr>) ''f'' \<lparr>rm_path = ''/empty'', rm_load_address = 0x500000\<rparr>
     \<lparr>open_fds = [], file_maps = Map.empty\<rparr> = Inl BAD_POINTER"
  by (rule resolver_map_failed [of _ _ _ 0]) (simp_all add: kernel_ok_def demo_files_def path_size_def MAP_FAILED_def)

end
