(* ===== verification/So_Killer.thy ===== *)
theory So_Killer
  imports Elf_Resolver Intercept_Routing
begin

text \<open>
  \<^verbatim>\<open>so_killer.cpp\<close> and \<^verbatim>\<open>dex_killer.cpp\<close>, the library of the application: it hooks the linker's \<^verbatim>\<open>do_dlopen\<close> to tell a
  Java listener of every shared object that is loaded, and copies a loaded shared object, or a dex file, out of
  memory. The virtual machine is a parameter: an operation gives the calls it makes, in order, and what the
  calls return is in \<open>jni\<close>. Pointers have 64 bits.
\<close>

section \<open>The virtual machine\<close>

type_synonym jobject = u64

datatype jni_call =
    GetJavaVM
  | DeleteGlobalRef jobject
  | NewGlobalRef jobject jobject
  | GetEnv
  | AttachCurrentThread
  | DetachCurrentThread
  | GetObjectClass jobject
  | GetMethodID jobject string string
  | NewStringUTF string
  | CallVoidMethod jobject u64 jobject
  | GetStringUTFChars jobject
  | ReleaseStringUTFChars jobject
  | NewByteArray int
  | SetByteArrayRegion jobject int int u64

text \<open>\<^verbatim>\<open>NewGlobalRef\<close> carries the object and the reference made. The results of the calls of one operation:\<close>

record jni =
  jni_vm :: u64
  jni_GetEnv :: int
  jni_Attach :: int
  jni_new_ref :: "jobject \<Rightarrow> jobject"
  jni_class :: "jobject \<Rightarrow> jobject"
  jni_method :: "jobject \<Rightarrow> string \<Rightarrow> string \<Rightarrow> u64"
  jni_string :: "string \<Rightarrow> jobject"
  jni_chars :: "jobject \<Rightarrow> string"
  jni_array :: "int \<Rightarrow> jobject"

definition JNI_OK :: int where "JNI_OK = 0"
definition JNI_EDETACHED :: int where "JNI_EDETACHED = - 2"

section \<open>The listener\<close>

record killer =
  JVM :: u64
  mOnSharedObjectLoadedListener :: jobject
  origin_do_dlopen_v23 :: ptr

text \<open>\<^verbatim>\<open>env\<close> is only set by a call that succeeds.\<close>

definition onSharedObjectLoaded :: "jni \<Rightarrow> string \<Rightarrow> killer \<Rightarrow> jni_call list result" where
  "onSharedObjectLoaded j name k =
     (let vm = JVM k; listener = mOnSharedObjectLoadedListener k
      in if vm = 0 then Inl BAD_POINTER
         else
           (let gotEnv = jni_GetEnv j;
                calls1 = GetEnv # (if gotEnv = JNI_EDETACHED then [AttachCurrentThread] else []);
                env_set = (gotEnv = JNI_OK \<or> gotEnv = JNI_EDETACHED \<and> jni_Attach j = JNI_OK)
            in rbind (if listener \<noteq> 0
                      then if env_set
                           then (let cls = jni_class j listener;
                                     method = jni_method j cls ''onSharedObjectLoaded'' ''(Ljava/lang/String;)V''
                                 in Inr [GetObjectClass listener, GetMethodID cls ''onSharedObjectLoaded'' ''(Ljava/lang/String;)V'',
                                         NewStringUTF name, CallVoidMethod listener method (jni_string j name)])
                           else Inl UNINITIALISED
                      else Inr []) (\<lambda>calls2.
                 Inr (calls1 @ calls2 @ (if gotEnv = JNI_EDETACHED then [DetachCurrentThread] else [])))))"

datatype event = Call_origin ptr string int u64 | Jni jni_call

text \<open>\<open>dlopen\<close> is what the code at the address in \<^verbatim>\<open>origin_do_dlopen_v23\<close> returns.\<close>

definition replace_do_dlopen_v23 ::
  "jni \<Rightarrow> (ptr \<Rightarrow> string \<Rightarrow> int \<Rightarrow> u64 \<Rightarrow> u64) \<Rightarrow> string \<Rightarrow> int \<Rightarrow> u64 \<Rightarrow> killer \<Rightarrow> (u64 \<times> event list) result" where
  "replace_do_dlopen_v23 j dlopen name flags extinfo k =
     (if origin_do_dlopen_v23 k = 0 then Inl BAD_POINTER
      else
        (let handle = dlopen (origin_do_dlopen_v23 k) name flags extinfo
         in rbind (onSharedObjectLoaded j name k) (\<lambda>calls.
              Inr (handle, Call_origin (origin_do_dlopen_v23 k) name flags extinfo # map Jni calls))))"

text \<open>What finding a symbol takes, and the process the library lives in.\<close>

record resolver_env =
  re_files :: file_env
  re_dlsym :: "string \<Rightarrow> u64"
  re_view :: process_view

record app =
  ap_killer :: killer
  ap_process :: process
  ap_files :: files

definition do_dlopen_name :: string where
  "do_dlopen_name = ''__dl__Z9do_dlopenPKciPK17android_dlextinfo''"

definition setOnSharedObjectLoadedListener ::
  "'e backend \<Rightarrow> 'e hook_env_scheme \<Rightarrow> resolver_env \<Rightarrow> jni \<Rightarrow> ptr \<Rightarrow> jobject \<Rightarrow> app \<Rightarrow> (jni_call list \<times> app) result option" where
  "setOnSharedObjectLoadedListener be henv renv j replacement listener ap =
     (let k = ap_killer ap;
          old = mOnSharedObjectLoadedListener k;
          ref = jni_new_ref j listener;
          calls = GetJavaVM # (if old \<noteq> 0 then [DeleteGlobalRef old] else []) @ [NewGlobalRef listener ref];
          k1 = k\<lparr>JVM := jni_vm j, mOnSharedObjectLoadedListener := ref\<rparr>
      in if origin_do_dlopen_v23 k1 = 0
         then robind (Some (DobbySymbolResolver (re_files renv) (re_dlsym renv) (re_view renv) None do_dlopen_name (ap_files ap))) (\<lambda>(do_dlopen_v23, fs).
              robind (DobbyHook be henv do_dlopen_v23 replacement (ap_process ap)) (\<lambda>(status, origin, pr).
                Some (Inr (calls, \<lparr>ap_killer = (case origin of None \<Rightarrow> k1 | Some oc \<Rightarrow> k1\<lparr>origin_do_dlopen_v23 := oc\<rparr>),
                                   ap_process = pr, ap_files = fs\<rparr>))))
         else Some (Inr (calls, ap\<lparr>ap_killer := k1\<rparr>)))"

section \<open>Where a shared object is mapped\<close>

text \<open>
  One \<^verbatim>\<open>sscanf\<close> with \<^verbatim>\<open>"%x-%x %*s %*x %*x:%*x %*u %s"\<close>: what it stores into \<^verbatim>\<open>left\<close>, \<^verbatim>\<open>right\<close> and \<^verbatim>\<open>path\<close>, which has been
  emptied before. \<^verbatim>\<open>%x\<close> stores an \<^verbatim>\<open>unsigned int\<close>.
\<close>

definition scan_path :: "string \<Rightarrow> string option" where
  "scan_path s = do {
     (perms, s1) \<leftarrow> scan_word s;
     (off, s2) \<leftarrow> scan_num 16 s1;
     (major, s3) \<leftarrow> scan_num 16 s2;
     s4 \<leftarrow> scan_lit (CHR '':'') s3;
     (minor, s5) \<leftarrow> scan_num 16 s4;
     (inode, s6) \<leftarrow> scan_num 10 s5;
     (path, s7) \<leftarrow> scan_word s6;
     Some path
   }"

definition scan_so_line :: "string \<Rightarrow> u32 \<Rightarrow> u32 \<Rightarrow> u32 \<times> u32 \<times> string" where
  "scan_so_line line left right =
     (case scan_num 16 line of
        None \<Rightarrow> (left, right, [])
      | Some (l, s1) \<Rightarrow>
          (case do { s2 \<leftarrow> scan_lit (CHR ''-'') s1; scan_num 16 s2 } of
             None \<Rightarrow> (of_int l, right, [])
           | Some (r, s3) \<Rightarrow> (of_int l, of_int r, case scan_path s3 of None \<Rightarrow> [] | Some p \<Rightarrow> p)))"

record so_scan =
  so_left :: u32
  so_right :: u32
  so_range :: "(u32 \<times> u32) option"

definition so_step :: "string \<Rightarrow> string \<Rightarrow> so_scan \<Rightarrow> so_scan" where
  "so_step needle line s =
     (let (left, right, path) = scan_so_line line (so_left s) (so_right s);
          s1 = s\<lparr>so_left := left, so_right := right\<rparr>
      in if left > right then s1
         else if strstr path needle
         then (case so_range s1 of
                 None \<Rightarrow> s1\<lparr>so_range := Some (left, right)\<rparr>
               | Some (start, e) \<Rightarrow> s1\<lparr>so_range := Some (if start > left then left else start, if e < right then right else e)\<rparr>)
         else s1)"

function (sequential) so_loop :: "string \<Rightarrow> cfile \<Rightarrow> so_scan \<Rightarrow> so_scan" where
  "so_loop needle f s =
     (case fgets 1024 f of
        (None, f1) \<Rightarrow> s
      | (Some line, f1) \<Rightarrow> so_loop needle f1 (so_step needle line s))"
  by pat_completeness auto
termination
proof (relation "measure (\<lambda>(needle, f, s). length (fst f))", goal_cases)
  case (2 needle f s x f1 line)
  then show ?case using fgets_some_shrinks [of 1024 f line f1] by simp
qed simp

declare so_loop.simps [simp del]

text \<open>
  \<open>maps\<close> is the file, if it can be opened, \<open>junk\<close> what \<^verbatim>\<open>left\<close> and \<^verbatim>\<open>right\<close>, which are not initialised, hold before the first line.
  The result is \<^verbatim>\<open>*start\<close> and \<^verbatim>\<open>*end\<close>, when the function returns true.
\<close>

definition get_shared_object_maps :: "string option \<Rightarrow> u32 \<times> u32 \<Rightarrow> string \<Rightarrow> (u32 \<times> u32) option" where
  "get_shared_object_maps maps junk needle =
     (case maps of
        None \<Rightarrow> None
      | Some contents \<Rightarrow> so_range (so_loop needle (contents, False) \<lparr>so_left = fst junk, so_right = snd junk, so_range = None\<rparr>))"

section \<open>Copying out\<close>

definition dumpSharedObject :: "jni \<Rightarrow> string option \<Rightarrow> u32 \<times> u32 \<Rightarrow> jobject \<Rightarrow> jobject \<times> jni_call list" where
  "dumpSharedObject j maps junk filename =
     (let filenameUTF = jni_chars j filename;
          (start, e) = (case get_shared_object_maps maps junk filenameUTF of None \<Rightarrow> (0, 0) | Some r \<Rightarrow> r);
          buf = ucast start :: u64;
          len = sint (e - start);
          array = jni_array j len
      in (array, [GetStringUTFChars filename, ReleaseStringUTFChars filename, NewByteArray len, SetByteArrayRegion array 0 len buf]))"

definition dumpDexFile_v23 :: "jni \<Rightarrow> (u64 \<Rightarrow> u8) \<Rightarrow> u64 \<Rightarrow> jobject \<times> jni_call list" where
  "dumpDexFile_v23 j mem cookie =
     (let cookie1 = cookie + 8;
          begin_ptr = le_word (load_mem mem cookie1 8) :: u64;
          cookie2 = cookie1 + 8;
          dex_size = le_word (load_mem mem cookie2 8) :: u64;
          len = sint (ucast dex_size :: u32);
          array = jni_array j len
      in (array, [NewByteArray len, SetByteArrayRegion array 0 len begin_ptr]))"

end
