(* ===== verification/So_Killer_Correct.thy ===== *)
theory So_Killer_Correct
  imports So_Killer Proc_Maps_Correct X64_Hook_Correct
begin

text \<open>
  The application's library on top of the hooking library: what the search for a mapped shared object finds,
  what is copied, that a listener's references are kept right, and that loading a shared object reaches the
  listener once the hook is in place.
\<close>

section \<open>Where a shared object is mapped\<close>

abbreviation low :: "u64 \<Rightarrow> u32" where "low a \<equiv> ucast a"

definition so_line :: "maps_text \<Rightarrow> bool" where
  "so_line t \<longleftrightarrow> line_ok t \<and> list_all (\<lambda>c. \<not> is_space c) (mt_path t) \<and> length (print_line t) + 2 \<le> 1024"

definition so_match :: "string \<Rightarrow> maps_text \<Rightarrow> bool" where
  "so_match needle t \<longleftrightarrow> low (mt_start t) \<le> low (mt_end t) \<and> strstr (mt_path t) needle"

lemma scan_word_spaced:
  assumes "w \<noteq> []" and "list_all (\<lambda>c. \<not> is_space c) w" and "is_space d" and "list_all is_space sp"
  shows "scan_word (sp @ w @ d # r) = Some (w, d # r)"
proof -
  obtain c v where w: "w = c # v" using assms(1) by (cases w) auto
  have "dropWhile is_space (sp @ w @ d # r) = w @ d # r" using assms(2,4) by (simp add: w dropWhile_append2 list_all_iff)
  moreover have "takeWhile (\<lambda>c. \<not> is_space c) (w @ d # r) = w" "dropWhile (\<lambda>c. \<not> is_space c) (w @ d # r) = d # r"
    using assms(2,3) by (simp_all add: takeWhile_append2 dropWhile_append2 list_all_iff)
  ultimately show ?thesis using assms(1) by (simp add: scan_word_def skip_space_def)
qed

lemma scan_word_blank: "list_all is_space s \<Longrightarrow> scan_word s = None"
  by (simp add: scan_word_def skip_space_def list_all_iff dropWhile_eq_Nil_conv [THEN iffD2])

lemma spaces [simp]: "is_space (CHR '' '')" "is_space newline"
  by (simp_all add: is_space_def newline_def)

lemma of_int_unat_low: "(of_int (int (unat w)) :: u32) = low w"
  unfolding ucast_eq by simp

lemma scan_so_print:
  assumes "so_line t"
  shows "scan_so_line (print_line t @ [newline]) l r = (low (mt_start t), low (mt_end t), mt_path t)"
proof -
  let ?pad = "CHR '' '' # replicate (mt_pad t) (CHR '' '')"
  have ok: "line_ok t" "list_all (\<lambda>c. \<not> is_space c) (mt_path t)" using assms by (simp_all add: so_line_def)
  have pad: "list_all is_space ?pad" by (simp add: list_all_iff)
  have path: "scan_word (?pad @ mt_path t @ [newline]) = (if mt_path t = [] then None else Some (mt_path t, [newline]))"
    using scan_word_spaced [OF _ ok(2) spaces(2) pad, of "[]"] scan_word_blank [of "?pad @ [newline]"] pad by simp
  have perms: "scan_word (CHR '' '' # mt_perms t @ CHR '' '' # s) = Some (mt_perms t, CHR '' '' # s)" for s
    using scan_word_spaced [of "mt_perms t" "CHR '' ''" "'' ''" s] ok(1) by (cases "mt_perms t") (simp_all add: line_ok_def)
  note num = scan_num_shown [OF _ _ separators(1)] scan_num_shown [OF _ _ separators(2)] scan_num_shown [OF _ _ separators(3)]
    scan_num_shown [OF _ _ separators(4)]
  have "scan_path (CHR '' '' # mt_perms t @ '' '' @ show_padded 16 8 (unat (mt_offset t)) @ '' '' @ show_padded 16 2 (unat (mt_major t)) @ '':''
     @ show_padded 16 2 (unat (mt_minor t)) @ '' '' @ show_padded 10 1 (unat (mt_inode t)) @ '' ''
     @ replicate (mt_pad t) (CHR '' '') @ mt_path t @ [newline]) = (if mt_path t = [] then None else Some (mt_path t))"
    using path by (simp add: scan_path_def perms num scan_lit_def)
  then show ?thesis
    by (simp add: scan_so_line_def print_line_def num scan_lit_def of_int_unat_low)
qed

definition hull :: "(u32 \<times> u32) list \<Rightarrow> (u32 \<times> u32) option" where
  "hull rs = (if rs = [] then None else Some (Min (fst ` set rs), Max (snd ` set rs)))"

lemma hull_snoc:
  "hull (rs @ [(l, r)]) = (case hull rs of None \<Rightarrow> Some (l, r) | Some (a, b) \<Rightarrow> Some (if a > l then l else a, if b < r then r else b))"
proof (cases "rs = []")
  case False
  have "Min (insert l (fst ` set rs)) = min l (Min (fst ` set rs))" "Max (insert r (snd ` set rs)) = max r (Max (snd ` set rs))"
    using False by (simp_all add: Min_insert Max_insert)
  moreover have "min l x = (if x > l then l else x)" "max r x = (if x < r then r else x)" for x by (auto simp: min_def max_def)
  ultimately show ?thesis using False by (simp add: hull_def)
qed (simp add: hull_def)

lemma so_loop_file:
  assumes "list_all so_line ts" and "so_range s = hull rs"
  shows "so_range (so_loop needle (print_file ts, False) s)
     = hull (rs @ map (\<lambda>t. (low (mt_start t), low (mt_end t))) (filter (so_match needle) ts))"
  using assms
proof (induction ts arbitrary: s rs)
  case Nil
  then show ?case by (simp add: so_loop.simps [of needle "([], False)"] print_file_def fgets_def)
next
  case (Cons t ts)
  let ?line = "print_line t @ [newline]"
  have t: "so_line t" using Cons.prems by simp
  have "fgets 1024 (print_file (t # ts), False) = (Some ?line, (print_file ts, False))"
    using fgets_line [of "print_line t" 1024 "print_file ts"] line_no_newline [of t] t by (simp add: so_line_def print_file_def)
  then have step: "so_loop needle (print_file (t # ts), False) s = so_loop needle (print_file ts, False) (so_step needle ?line s)"
    by (simp add: so_loop.simps [of needle "(print_file (t # ts), False)"])
  have "so_range (so_step needle ?line s) = hull (rs @ (if so_match needle t then [(low (mt_start t), low (mt_end t))] else []))"
    using Cons.prems(2) by (auto simp: so_step_def scan_so_print [OF t] so_match_def hull_snoc not_le Let_def split: option.splits)
  then show ?case using Cons.IH [of "so_step needle ?line s"] Cons.prems(1) by (auto simp: step)
qed

lemma so_range_file:
  assumes "list_all so_line ts"
  shows "get_shared_object_maps (Some (print_file ts)) junk needle
     = hull (map (\<lambda>t. (low (mt_start t), low (mt_end t))) (filter (so_match needle) ts))"
  using so_loop_file [OF assms, of _ "[]"] by (simp add: get_shared_object_maps_def hull_def)

text \<open>
  Of a file of lines whose paths have no space in them, \<^verbatim>\<open>get_shared_object_maps\<close> gives the smallest range that
  covers every mapping whose path contains the text, by the low 32 bits of the addresses.
\<close>

theorem shared_object_hull:
  assumes "list_all so_line ts"
  shows "get_shared_object_maps (Some (print_file ts)) junk needle
     = hull (map (\<lambda>t. (low (mt_start t), low (mt_end t))) (filter (so_match needle) ts))"
  by (rule so_range_file [OF assms])

text \<open>A shared object of two mappings and, below it, a line of another object.\<close>

definition demo_so :: "u64 \<Rightarrow> maps_text list" where
  "demo_so base =
     (let t = \<lparr>mt_start = base, mt_end = base + 0x2000, mt_perms = ''r-xp'', mt_offset = 0, mt_major = 3, mt_minor = 12, mt_inode = 64593, mt_pad = 0, mt_path = ''/b.so''\<rparr>
      in [t\<lparr>mt_start := base - 0x1000, mt_end := base, mt_path := ''/a.so''\<rparr>, t, t\<lparr>mt_start := base + 0x3000, mt_end := base + 0x4000\<rparr>])"

lemma demo_so_lines: "list_all so_line (demo_so 0x8000)" "list_all so_line (demo_so 0x7F0000008000)"
  by (simp_all add: demo_so_def so_line_def line_ok_def print_line_def show_padded_def show_base.simps LINE_MAX_def is_space_def newline_def)

theorem shared_object_hull_witness:
  "get_shared_object_maps (Some (print_file (demo_so 0x8000))) (0, 0) ''b.so'' = Some (0x8000, 0xC000)"
proof -
  have "filter (so_match ''b.so'') (demo_so 0x8000) = drop 1 (demo_so 0x8000)" by (simp add: demo_so_def so_match_def)
  then show ?thesis using shared_object_hull [OF demo_so_lines(1), of "(0, 0)" "''b.so''"] by (simp add: demo_so_def hull_def)
qed

section \<open>Copying out\<close>

text \<open>The memory \<^verbatim>\<open>SetByteArrayRegion\<close> copies from: its address and its length.\<close>

definition copied :: "jni_call list \<Rightarrow> (u64 \<times> int) list" where
  "copied calls = concat (map (\<lambda>c. case c of SetByteArrayRegion a i n p \<Rightarrow> [(p, n)] | _ \<Rightarrow> []) calls)"

lemma hull_bounds: "hull rs = Some (a, b) \<Longrightarrow> \<exists>r \<in> set rs. fst r = a"
  using Min_in [of "fst ` set rs"] by (cases "rs = []") (auto simp: hull_def image_iff)

text \<open>
  In a process of 64-bit addresses, \<^verbatim>\<open>dumpSharedObject\<close> of an object that is mapped at or above four gigabytes copies
  from the low half of an address of it, which is not in the object at all.
\<close>

theorem dump_high_object:
  assumes "list_all so_line ts" and "\<exists>t \<in> set ts. so_match (jni_chars j filename) t"
    and "\<forall>t \<in> set ts. so_match (jni_chars j filename) t \<longrightarrow> 2 ^ 32 \<le> mt_start t"
  shows "\<exists>t \<in> set ts. \<exists>n. so_match (jni_chars j filename) t
     \<and> copied (snd (dumpSharedObject j (Some (print_file ts)) junk filename)) = [(ucast (low (mt_start t)), n)]
     \<and> (\<forall>u \<in> set ts. so_match (jni_chars j filename) u \<longrightarrow> ucast (low (mt_start t)) < mt_start u)"
proof -
  let ?f = "jni_chars j filename"
  let ?rs = "map (\<lambda>t. (low (mt_start t), low (mt_end t))) (filter (so_match ?f) ts)"
  have ne: "?rs \<noteq> []" using assms(2) by (auto simp: filter_empty_conv)
  then obtain a b where h: "hull ?rs = Some (a, b)" by (simp add: hull_def)
  then obtain t where t: "t \<in> set ts" "so_match ?f t" "low (mt_start t) = a" using hull_bounds [OF h] by auto
  have "(ucast a :: u64) < 2 ^ 32" using unsigned_less [of a, where 'a = nat] by (simp add: word_less_nat_alt unsigned_ucast_eq take_bit_nat_eq_self)
  then have "\<forall>u \<in> set ts. so_match ?f u \<longrightarrow> ucast a < mt_start u" using assms(3) by (blast intro: order_less_le_trans)
  moreover have "copied (snd (dumpSharedObject j (Some (print_file ts)) junk filename)) = [(ucast a, sint (b - a))]"
    using h by (simp add: dumpSharedObject_def so_range_file [OF assms(1)] copied_def Let_def)
  ultimately show ?thesis using t by auto
qed

theorem dump_high_object_witness:
  "\<exists>n. copied (snd (dumpSharedObject
       \<lparr>jni_vm = 1, jni_GetEnv = 0, jni_Attach = 0, jni_new_ref = (\<lambda>x. x), jni_class = (\<lambda>x. x), jni_method = (\<lambda>_ _ _. 1),
        jni_string = (\<lambda>_. 1), jni_chars = (\<lambda>_. ''b.so''), jni_array = (\<lambda>_. 1)\<rparr>
       (Some (print_file [demo_so 0x7F0000008000 ! 1])) (0, 0) 1)) = [(0x8000, n)]"
proof -
  define j where "j = \<lparr>jni_vm = 1, jni_GetEnv = 0, jni_Attach = 0, jni_new_ref = (\<lambda>x. x), jni_class = (\<lambda>x. x), jni_method = (\<lambda>_ _ _. 1),
     jni_string = (\<lambda>_. 1), jni_chars = (\<lambda>_. ''b.so''), jni_array = (\<lambda>_. 1)\<rparr>"
  let ?t = "demo_so 0x7F0000008000 ! 1"
  have "list_all so_line [?t]" using demo_so_lines(2) by (simp add: demo_so_def Let_def)
  moreover have "jni_chars j 1 = ''b.so''" by (simp add: j_def)
  moreover have "so_match ''b.so'' ?t" "mt_start ?t = 0x7F0000008000" by (simp_all add: demo_so_def so_match_def)
  ultimately show ?thesis using dump_high_object [of "[?t]" j 1 "(0, 0)"] unfolding j_def [symmetric] by simp
qed

text \<open>
  C38: \<^verbatim>\<open>dumpDexFile_v23\<close> copies exactly the file that the \<^verbatim>\<open>begin_\<close> and \<^verbatim>\<open>size_\<close> members of the object at \<^verbatim>\<open>cookie\<close> delimit, as
  long as it is smaller than two gigabytes; of a larger one it asks for an array of negative length, or copies
  a part.
\<close>

theorem dump_dex_file:
  assumes "load_mem mem (cookie + 8) 16 = le_bytes 8 (start :: u64) @ le_bytes 8 (n :: u64)"
  shows "snd (dumpDexFile_v23 j mem cookie) = [NewByteArray (sint (low n)), SetByteArrayRegion (jni_array j (sint (low n))) 0 (sint (low n)) start]
     \<and> (n < 2 ^ 31 \<longrightarrow> sint (low n) = uint n) \<and> (2 ^ 31 \<le> n \<longrightarrow> sint (low n) < uint n)"
proof -
  have "load_mem mem (cookie + 8) 16 = load_mem mem (cookie + 8) 8 @ load_mem mem (cookie + 16) 8"
    by (simp add: load_mem_def upt_rec add.assoc)
  then have "load_mem mem (cookie + 8) 8 = le_bytes 8 start" "load_mem mem (cookie + 16) 8 = le_bytes 8 n"
    using assms by (simp_all add: load_mem_def)
  moreover have "sint (low n) = uint n" if "n < 2 ^ 31"
    using that signed_take_bit_int_eq_self [of 31 "uint n"] uint_nonnegative [of n] by (simp add: word_less_def signed_ucast_eq)
  moreover have "sint (low n) < uint n" if "2 ^ 31 \<le> n"
    using that sint_lt [of "low n"] by (simp add: word_le_def)
  ultimately show ?thesis by (simp add: dumpDexFile_v23_def Let_def add.assoc)
qed

theorem dump_dex_file_witness:
  "let mem = (\<lambda>a :: u64. if a = 0x1009 then 0x20 else if a = 0x1010 then 0x70 else 0 :: u8);
       j = \<lparr>jni_vm = 1, jni_GetEnv = 0, jni_Attach = 0, jni_new_ref = (\<lambda>x. x), jni_class = (\<lambda>x. x), jni_method = (\<lambda>_ _ _. 1),
            jni_string = (\<lambda>_. 1), jni_chars = (\<lambda>_. []), jni_array = (\<lambda>_. 5)\<rparr>
   in snd (dumpDexFile_v23 j mem 0x1000) = [NewByteArray 0x70, SetByteArrayRegion 5 0 0x70 0x2000]"
proof -
  let ?mem = "\<lambda>a :: u64. if a = 0x1009 then 0x20 else if a = 0x1010 then 0x70 else 0 :: u8"
  have "load_mem ?mem (0x1000 + 8) 16 = le_bytes 8 (0x2000 :: u64) @ le_bytes 8 (0x70 :: u64)"
    by (simp add: load_mem_def upt_rec le_simps)
  from dump_dex_file [OF this] show ?thesis by simp
qed

section \<open>The listener\<close>

text \<open>The states and the calls of a process in which only this library hooks, after any number of listeners have been set.\<close>

inductive killer_run :: "'e backend \<Rightarrow> ptr \<Rightarrow> app \<Rightarrow> jni_call list \<Rightarrow> bool" for be replacement where
  start: "ap_killer ap = \<lparr>JVM = 0, mOnSharedObjectLoadedListener = 0, origin_do_dlopen_v23 = 0\<rparr> \<Longrightarrow> killer_run be replacement ap []"
| set_listener: "killer_run be replacement ap tr \<Longrightarrow>
    setOnSharedObjectLoadedListener be henv renv j replacement listener ap = Some (Inr (calls, ap')) \<Longrightarrow> jni_vm j \<noteq> 0 \<Longrightarrow>
    killer_run be replacement ap' (tr @ calls)"

text \<open>The references alive after a list of calls; deleting one that is not alive is an error.\<close>

fun live_refs :: "jni_call list \<Rightarrow> jobject set \<Rightarrow> jobject set option" where
  "live_refs [] S = Some S"
| "live_refs (NewGlobalRef x r # cs) S = live_refs cs (S \<union> ({r} - {0}))"
| "live_refs (DeleteGlobalRef r # cs) S = (if r \<in> S then live_refs cs (S - {r}) else None)"
| "live_refs (c # cs) S = live_refs cs S"

lemma live_refs_append: "live_refs (cs @ ds) S = (case live_refs cs S of None \<Rightarrow> None | Some S' \<Rightarrow> live_refs ds S')"
  by (induction cs S rule: live_refs.induct) simp_all

lemma set_listener_effect:
  assumes "setOnSharedObjectLoadedListener be henv renv j replacement listener ap = Some (Inr (calls, ap'))"
  defines "k \<equiv> ap_killer ap" and "k' \<equiv> ap_killer ap'"
  shows "calls = GetJavaVM # (if mOnSharedObjectLoadedListener k \<noteq> 0 then [DeleteGlobalRef (mOnSharedObjectLoadedListener k)] else [])
       @ [NewGlobalRef listener (jni_new_ref j listener)]"
    "mOnSharedObjectLoadedListener k' = jni_new_ref j listener" "JVM k' = jni_vm j"
    "origin_do_dlopen_v23 k \<noteq> 0 \<Longrightarrow> origin_do_dlopen_v23 k' = origin_do_dlopen_v23 k \<and> ap_process ap' = ap_process ap \<and> ap_files ap' = ap_files ap"
    "origin_do_dlopen_v23 k = 0 \<Longrightarrow> \<exists>dl status origin. DobbySymbolResolver (re_files renv) (re_dlsym renv) (re_view renv) None do_dlopen_name (ap_files ap)
         = Inr (dl, ap_files ap')
       \<and> DobbyHook be henv dl replacement (ap_process ap) = Some (Inr (status, origin, ap_process ap'))
       \<and> origin_do_dlopen_v23 k' = (case origin of None \<Rightarrow> 0 | Some oc \<Rightarrow> oc)"
  using assms(1) unfolding k_def k'_def
  by (auto simp: setOnSharedObjectLoadedListener_def Let_def split: if_splits option.split_asm elim!: robind_SomeE)

text \<open>
  C20: however often listeners are set, the library holds one global reference, to the present listener, or none when
  it is null; no reference is deleted twice.
\<close>

theorem listener_references:
  assumes "killer_run be replacement ap tr"
  shows "live_refs tr {} = Some ({mOnSharedObjectLoadedListener (ap_killer ap)} - {0})"
  using assms
proof (induction rule: killer_run.induct)
  case (set_listener ap tr henv renv j listener calls ap')
  then show ?case using set_listener_effect(1,2) [OF set_listener.hyps(2)] by (simp add: live_refs_append)
qed simp

definition demo_jni :: jni where
  "demo_jni = \<lparr>jni_vm = 1, jni_GetEnv = JNI_EDETACHED, jni_Attach = JNI_OK, jni_new_ref = (\<lambda>x. x + 1), jni_class = (\<lambda>_. 2), jni_method = (\<lambda>_ _ _. 3),
     jni_string = (\<lambda>_. 4), jni_chars = (\<lambda>_. ''b.so''), jni_array = (\<lambda>_. 5)\<rparr>"

definition demo_resolver :: "u64 \<Rightarrow> resolver_env" where
  "demo_resolver dl = \<lparr>re_files = \<lparr>sys_open = (\<lambda>_. - 1), sys_fstat = (\<lambda>_. (0, 0)), sys_mmap = (\<lambda>_ _. 0), sys_pages = (\<lambda>_. []), sys_munmap = (\<lambda>_ _. 0)\<rparr>,
     re_dlsym = (\<lambda>_. dl), re_view = \<lparr>pv_mem = (\<lambda>_. 0), pv_maps = (None, []), pv_maps_again = (None, [])\<rparr>\<rparr>"

definition demo_app :: "ptr \<Rightarrow> app" where
  "demo_app listener = \<lparr>ap_killer = \<lparr>JVM = (if listener = 0 then 0 else 1), mOnSharedObjectLoadedListener = listener, origin_do_dlopen_v23 = 0\<rparr>,
     ap_process = new_process demo_mem, ap_files = \<lparr>open_fds = [], file_maps = Map.empty\<rparr>\<rparr>"

lemma demo_set:
  "setOnSharedObjectLoadedListener x64_backend (demo_env 0) (demo_resolver 0) demo_jni 0x400000000000 6 (demo_app r)
     = Some (Inr (GetJavaVM # (if r \<noteq> 0 then [DeleteGlobalRef r] else []) @ [NewGlobalRef 6 7], demo_app 7))"
  by (simp add: setOnSharedObjectLoadedListener_def demo_app_def demo_jni_def demo_resolver_def DobbySymbolResolver_def resolve_elf_internal_symbol_def
      GetProcessModuleMap_def get_process_map_with_proc_maps_def DobbyHook_def robind_def)

theorem listener_references_witness:
  "live_refs [GetJavaVM, NewGlobalRef 6 7, GetJavaVM, DeleteGlobalRef 7, NewGlobalRef 6 7] {} = Some {7}"
proof -
  have "killer_run x64_backend 0x400000000000 (demo_app 0) []" by (rule start) (simp add: demo_app_def)
  moreover have "setOnSharedObjectLoadedListener x64_backend (demo_env 0) (demo_resolver 0) demo_jni 0x400000000000 6 (demo_app 0)
       = Some (Inr ([GetJavaVM, NewGlobalRef 6 7], demo_app 7))"
    "setOnSharedObjectLoadedListener x64_backend (demo_env 0) (demo_resolver 0) demo_jni 0x400000000000 6 (demo_app 7)
       = Some (Inr ([GetJavaVM, DeleteGlobalRef 7, NewGlobalRef 6 7], demo_app 7))"
    using demo_set [of 0] demo_set [of 7] by simp_all
  moreover have "jni_vm demo_jni \<noteq> 0" by (simp add: demo_jni_def)
  ultimately have "killer_run x64_backend 0x400000000000 (demo_app 7) (([] @ [GetJavaVM, NewGlobalRef 6 7]) @ [GetJavaVM, DeleteGlobalRef 7, NewGlobalRef 6 7])"
    by (blast intro: set_listener)
  from listener_references [OF this] show ?thesis by (simp add: demo_app_def)
qed


lemma demo_set_hook:
  assumes "DobbyHook x64_backend henv 0x500000000800 0x400000000000 (new_process demo_mem) = Some (Inr (RT_SUCCESS, Some oc, st'))"
  shows "setOnSharedObjectLoadedListener x64_backend henv (demo_resolver 0x500000000800) demo_jni 0x400000000000 6 (demo_app 0)
     = Some (Inr ([GetJavaVM, NewGlobalRef 6 7], \<lparr>ap_killer = \<lparr>JVM = 1, mOnSharedObjectLoadedListener = 7, origin_do_dlopen_v23 = oc\<rparr>,
         ap_process = st', ap_files = ap_files (demo_app 0)\<rparr>))"
  using assms by (simp add: setOnSharedObjectLoadedListener_def demo_app_def demo_jni_def demo_resolver_def DobbySymbolResolver_def)


section \<open>Loading a shared object\<close>

lemma killer_run_vm: "killer_run be replacement ap tr \<Longrightarrow> tr \<noteq> [] \<Longrightarrow> JVM (ap_killer ap) \<noteq> 0"
  by (induction rule: killer_run.induct) (auto simp: set_listener_effect(3))

definition notified :: "event list \<Rightarrow> jobject list" where
  "notified es = concat (map (\<lambda>e. case e of Jni (CallVoidMethod l m x) \<Rightarrow> [l] | _ \<Rightarrow> []) es)"

text \<open>
  C16: once a listener has been set and the hook keeps the original, a call of \<^verbatim>\<open>replace_do_dlopen_v23\<close> on a thread that is, or can be,
  attached returns what the original returns, calls the original first and the present listener exactly once
  after it, and leaves the thread attached or detached as it was.
\<close>

theorem dlopen_reaches_listener:
  assumes "killer_run be replacement ap tr" and "tr \<noteq> []" and "origin_do_dlopen_v23 (ap_killer ap) \<noteq> 0"
    and "jni_GetEnv j = JNI_OK \<or> jni_GetEnv j = JNI_EDETACHED \<and> jni_Attach j = JNI_OK"
  shows "\<exists>es. replace_do_dlopen_v23 j dlopen name flags extinfo (ap_killer ap)
         = Inr (dlopen (origin_do_dlopen_v23 (ap_killer ap)) name flags extinfo, Call_origin (origin_do_dlopen_v23 (ap_killer ap)) name flags extinfo # es)
     \<and> notified es = (if mOnSharedObjectLoadedListener (ap_killer ap) = 0 then [] else [mOnSharedObjectLoadedListener (ap_killer ap)])
     \<and> length (filter ((=) (Jni AttachCurrentThread)) es) = length (filter ((=) (Jni DetachCurrentThread)) es)
     \<and> (Jni AttachCurrentThread \<in> set es \<longleftrightarrow> jni_GetEnv j = JNI_EDETACHED)"
  using killer_run_vm [OF assms(1,2)] assms(3,4)
  by (auto simp: replace_do_dlopen_v23_def onSharedObjectLoaded_def notified_def Let_def JNI_OK_def JNI_EDETACHED_def)

theorem dlopen_reaches_listener_witness:
  "\<exists>es. replace_do_dlopen_v23 demo_jni (\<lambda>_ _ _ _. 9) ''libc.so'' 2 0 \<lparr>JVM = 1, mOnSharedObjectLoadedListener = 7, origin_do_dlopen_v23 = 0x600000000000\<rparr>
     = Inr (9, Call_origin 0x600000000000 ''libc.so'' 2 0 # es) \<and> notified es = [7]"
proof -
  obtain st' where h: "DobbyHook x64_backend (demo_env 0x600000000000) 0x500000000800 0x400000000000 (new_process demo_mem)
      = Some (Inr (RT_SUCCESS, Some 0x600000000000, st'))" using demo_hook by blast
  have "killer_run x64_backend 0x400000000000 (demo_app 0) []" by (rule start) (simp add: demo_app_def)
  from set_listener [OF this demo_set_hook [OF h]]
  have "killer_run x64_backend 0x400000000000 \<lparr>ap_killer = \<lparr>JVM = 1, mOnSharedObjectLoadedListener = 7, origin_do_dlopen_v23 = 0x600000000000\<rparr>,
      ap_process = st', ap_files = ap_files (demo_app 0)\<rparr> ([] @ [GetJavaVM, NewGlobalRef 6 7])" by (simp add: demo_jni_def)
  from dlopen_reaches_listener [OF this, of demo_jni "\<lambda>_ _ _ _. 9" "''libc.so''" 2 0] 
  show ?thesis by (simp add: demo_jni_def) blast
qed

text \<open>
  When the hook reports success without the original, for want of memory, the pointer the library keeps is null:
  the next load of a shared object, which the patched \<^verbatim>\<open>do_dlopen\<close> leads to \<^verbatim>\<open>replace_do_dlopen_v23\<close>, calls through it.
\<close>

theorem dlopen_lost:
  assumes "setOnSharedObjectLoadedListener be henv renv j replacement listener ap = Some (Inr (calls, ap'))"
    and "origin_do_dlopen_v23 (ap_killer ap) = 0"
    and "DobbySymbolResolver (re_files renv) (re_dlsym renv) (re_view renv) None do_dlopen_name (ap_files ap) = Inr (dl, fs)"
    and "DobbyHook be henv dl replacement (ap_process ap) = Some (Inr (RT_SUCCESS, Some 0, st'))"
  shows "ap_process ap' = st' \<and> replace_do_dlopen_v23 j' dlopen name flags extinfo (ap_killer ap') = Inl BAD_POINTER"
  using set_listener_effect(5) [OF assms(1,2)] assms(3,4) by (auto simp: replace_do_dlopen_v23_def)

theorem dlopen_lost_witness:
  "\<exists>ap'. setOnSharedObjectLoadedListener x64_backend (demo_env 0) (demo_resolver 0x500000000800) demo_jni 0x400000000000 6 (demo_app 0)
       = Some (Inr ([GetJavaVM, NewGlobalRef 6 7], ap'))
     \<and> replace_do_dlopen_v23 demo_jni (\<lambda>_ _ _ _. 9) ''libc.so'' 2 0 (ap_killer ap') = Inl BAD_POINTER"
proof -
  obtain st' where h: "DobbyHook x64_backend (demo_env 0) 0x500000000800 0x400000000000 (new_process demo_mem) = Some (Inr (RT_SUCCESS, Some 0, st'))"
    using demo_hook_lost by blast
  have "ap_process (demo_app 0) = new_process demo_mem" "origin_do_dlopen_v23 (ap_killer (demo_app 0)) = 0"
    "DobbySymbolResolver (re_files (demo_resolver 0x500000000800)) (re_dlsym (demo_resolver 0x500000000800)) (re_view (demo_resolver 0x500000000800))
      None do_dlopen_name (ap_files (demo_app 0)) = Inr (0x500000000800, ap_files (demo_app 0))"
    by (simp_all add: demo_app_def demo_resolver_def DobbySymbolResolver_def)
  then show ?thesis using dlopen_lost [OF demo_set_hook [OF h]] demo_set_hook [OF h] h by auto
qed

end
