(* ===== verification/Arm_Assembler.thy ===== *)
theory Arm_Assembler
  imports Assembler_Base
begin

text \<open>
  The 32-bit ARM assemblers: \<^verbatim>\<open>code-buffer-arm\<close>, \<^verbatim>\<open>assembler-arm\<close>, \<^verbatim>\<open>codegen-arm\<close> and the Thumb assembler of
  \<^verbatim>\<open>ARMInstructionRelocation.h\<close>. The relocator runs an ARM and a Thumb assembler on one code buffer and gives
  both the same address; a state is such a pair. Where only one of them is used, the fields of the other stay
  empty. A data label is kept in its list from the moment it is complete: between
  \<^verbatim>\<open>AppendRelocLabelEntry\<close> and the \<^verbatim>\<open>Ldr\<close> that links it nothing reads the list.
\<close>

section \<open>Constants\<close>

definition ARM_PC_OFFSET :: u32 where "ARM_PC_OFFSET = 8"
definition Thumb_PC_OFFSET :: u32 where "Thumb_PC_OFFSET = 4"
definition ARM_INST_LEN :: nat where "ARM_INST_LEN = 4"
definition Thumb1_INST_LEN :: nat where "Thumb1_INST_LEN = 2"
definition Thumb2_INST_LEN :: nat where "Thumb2_INST_LEN = 4"
definition THUMB_ADDRESS_FLAG :: u32 where "THUMB_ADDRESS_FLAG = 1"

lemmas arm_lengths = ARM_PC_OFFSET_def Thumb_PC_OFFSET_def ARM_INST_LEN_def Thumb1_INST_LEN_def Thumb2_INST_LEN_def THUMB_ADDRESS_FLAG_def

text \<open>A register is its code; \<^verbatim>\<open>no_reg\<close> has the code of \<^verbatim>\<open>r0\<close>, so \<^verbatim>\<open>IsValid\<close> is false of both.\<close>

type_synonym arm_reg = u32

definition arm_r12 :: arm_reg where "arm_r12 = 12"
definition arm_sp :: arm_reg where "arm_sp = 13"
definition arm_lr :: arm_reg where "arm_lr = 14"
definition arm_pc :: arm_reg where "arm_pc = 15"
definition no_reg :: arm_reg where "no_reg = 0"
definition arm_VOLATILE_REGISTER :: arm_reg where "arm_VOLATILE_REGISTER = arm_r12"

lemmas arm_regs = arm_r12_def arm_sp_def arm_lr_def arm_pc_def no_reg_def arm_VOLATILE_REGISTER_def

definition reg_IsValid :: "arm_reg \<Rightarrow> bool" where
  "reg_IsValid r \<longleftrightarrow> r \<noteq> 0"

datatype arm_AddrMode = arm_Offset | arm_PreIndex | arm_PostIndex

definition arm_AL :: u32 where "arm_AL = 14"

definition arm_kRdShift :: nat where "arm_kRdShift = 12"
definition arm_kRtShift :: nat where "arm_kRtShift = 12"
definition arm_kRnShift :: nat where "arm_kRnShift = 16"
definition kConditionShift :: nat where "kConditionShift = 28"

lemmas arm_fields = arm_kRdShift_def arm_kRtShift_def arm_kRnShift_def kConditionShift_def

definition arm_Rd :: "arm_reg \<Rightarrow> u32" where "arm_Rd r = push_bit arm_kRdShift r"
definition arm_Rt :: "arm_reg \<Rightarrow> u32" where "arm_Rt r = push_bit arm_kRtShift r"
definition arm_Rn :: "arm_reg \<Rightarrow> u32" where "arm_Rn r = push_bit arm_kRnShift r"

section \<open>State\<close>

datatype ExecuteState = ARMExecuteState | ThumbExecuteState

datatype arm_link_type = kLdrLiteral | kThumb1Ldr | kThumb2LiteralLdr

record arm_label = Label +
  lab_instructions :: "(nat \<times> arm_link_type) list"
  lab_data :: u32
  lab_used_for_branch :: bool

definition new_arm_label :: "u32 \<Rightarrow> bool \<Rightarrow> arm_label" where
  "new_arm_label data branch = \<lparr>pos_raw = 0, near_link = 0, lab_instructions = [], lab_data = data, lab_used_for_branch = branch\<rparr>"

record arm_asm = asm_state +
  arm_data_labels :: "arm_label list"
  thumb_data_labels :: "arm_label list"
  arm_execute_state :: ExecuteState
  thumb_execute_state :: ExecuteState

type_synonym arm_op = "arm_asm \<Rightarrow> arm_asm result"

definition new_arm_assemblers :: "u64 \<Rightarrow> arm_asm" where
  "new_arm_assemblers address = \<lparr>asm_buffer = [], realized_address = address, arm_data_labels = [], thumb_data_labels = [],
     arm_execute_state = ARMExecuteState, thumb_execute_state = ThumbExecuteState\<rparr>"

section \<open>The code buffer\<close>

definition load_code :: "nat \<Rightarrow> nat \<Rightarrow> arm_asm \<Rightarrow> ('a::len word) result" where
  "load_code n p a = (if p + n \<le> length (asm_buffer a) then Inr (le_word (take n (drop p (asm_buffer a)))) else Inl OVERREAD)"

definition arm_LoadARMInst :: "nat \<Rightarrow> arm_asm \<Rightarrow> u32 result" where "arm_LoadARMInst p a = load_code 4 p a"
definition arm_LoadThumb1Inst :: "nat \<Rightarrow> arm_asm \<Rightarrow> u16 result" where "arm_LoadThumb1Inst p a = load_code 2 p a"
definition arm_LoadThumb2Inst :: "nat \<Rightarrow> arm_asm \<Rightarrow> u32 result" where "arm_LoadThumb2Inst p a = load_code 4 p a"

definition arm_RewriteAddr :: "int \<Rightarrow> u32 \<Rightarrow> arm_op" where "arm_RewriteAddr p v = fix_bytes p (le_bytes 4 v)"
definition arm_RewriteARMInst :: "nat \<Rightarrow> u32 \<Rightarrow> arm_op" where "arm_RewriteARMInst p v = fix_bytes (int p) (le_bytes 4 v)"
definition arm_RewriteThumb1Inst :: "nat \<Rightarrow> u16 \<Rightarrow> arm_op" where "arm_RewriteThumb1Inst p v = fix_bytes (int p) (le_bytes 2 v)"

definition arm_RewriteThumb2Inst :: "nat \<Rightarrow> u32 \<Rightarrow> arm_op" where "arm_RewriteThumb2Inst p v = fix_bytes (int p) (le_bytes 4 v)"

definition arm_EmitARMInst :: "u32 \<Rightarrow> arm_op" where "arm_EmitARMInst v = emit_bytes (le_bytes 4 v)"
definition arm_EmitThumb1Inst :: "u16 \<Rightarrow> arm_op" where "arm_EmitThumb1Inst v = emit_bytes (le_bytes 2 v)"
definition arm_EmitThumb2Inst :: "u32 \<Rightarrow> arm_op" where "arm_EmitThumb2Inst v = emit_bytes (le_bytes 4 v)"
definition EmitAddress :: "u32 \<Rightarrow> arm_op" where "EmitAddress v = emit_bytes (le_bytes 4 v)"
definition EmitInt16 :: "u16 \<Rightarrow> arm_op" where "EmitInt16 v = emit_bytes (le_bytes 2 v)"

section \<open>ARM instructions\<close>

record arm_Operand =
  op_imm :: u32
  op_rm :: arm_reg

definition arm_Operand_imm :: "u32 \<Rightarrow> arm_Operand" where "arm_Operand_imm i = \<lparr>op_imm = i, op_rm = no_reg\<rparr>"
definition arm_Operand_reg :: "arm_reg \<Rightarrow> arm_Operand" where "arm_Operand_reg r = \<lparr>op_imm = 0, op_rm = r\<rparr>"

record arm_MemOperand =
  mo_rn :: arm_reg
  mo_rm :: arm_reg
  mo_offset :: int
  mo_addrmode :: arm_AddrMode

definition arm_mem :: "arm_reg \<Rightarrow> int \<Rightarrow> arm_AddrMode \<Rightarrow> arm_MemOperand" where
  "arm_mem rn offset addrmode = \<lparr>mo_rn = rn, mo_rm = no_reg, mo_offset = offset, mo_addrmode = addrmode\<rparr>"

definition OpEncode_MemOperand :: "arm_MemOperand \<Rightarrow> u32 result" where
  "OpEncode_MemOperand operand =
     (if reg_IsValid (mo_rm operand) then Inl UNREACHABLE
      else
        (let U = (if mo_offset operand \<ge> 0 then push_bit 23 1 else 0);
             off = bits_of (of_int \<bar>mo_offset operand\<bar>) 0 11;
             (P, W) = (case mo_addrmode operand of arm_Offset \<Rightarrow> (1, 0) | arm_PostIndex \<Rightarrow> (0, 0) | arm_PreIndex \<Rightarrow> (1, 1))
         in Inr (U OR off OR (push_bit 24 P OR push_bit 21 W) OR arm_Rn (mo_rn operand))))"

definition OpEncode_Operand :: "arm_Operand \<Rightarrow> u32" where
  "OpEncode_Operand operand = (if reg_IsValid (op_rm operand) then op_rm operand else op_imm operand)"

definition arm_add_sub :: "u32 \<Rightarrow> u32 \<Rightarrow> arm_reg \<Rightarrow> arm_reg \<Rightarrow> arm_Operand \<Rightarrow> arm_op" where
  "arm_add_sub encoding cond rd rn operand =
     arm_EmitARMInst (encoding OR push_bit kConditionShift cond OR op_imm operand OR arm_Rd rd OR arm_Rn rn)"

definition arm_sub :: "arm_reg \<Rightarrow> arm_reg \<Rightarrow> arm_Operand \<Rightarrow> arm_op" where
  "arm_sub rd rn operand = arm_add_sub (push_bit 25 1 OR push_bit 22 1) arm_AL rd rn operand"

definition arm_add :: "arm_reg \<Rightarrow> arm_reg \<Rightarrow> arm_Operand \<Rightarrow> arm_op" where
  "arm_add rd rn operand = arm_add_sub (push_bit 25 1 OR push_bit 23 1) arm_AL rd rn operand"

definition arm_load_store :: "u32 \<Rightarrow> u32 \<Rightarrow> arm_reg \<Rightarrow> arm_MemOperand \<Rightarrow> arm_op" where
  "arm_load_store encoding cond rt operand a =
     rbind (OpEncode_MemOperand operand) (\<lambda>m. arm_EmitARMInst (encoding OR push_bit kConditionShift cond OR (arm_Rt rt OR m)) a)"

definition arm_ldr :: "arm_reg \<Rightarrow> arm_MemOperand \<Rightarrow> arm_op" where
  "arm_ldr rt operand = arm_load_store (push_bit 20 1 OR push_bit 26 1) arm_AL rt operand"

definition arm_str :: "arm_reg \<Rightarrow> arm_MemOperand \<Rightarrow> arm_op" where
  "arm_str rt operand = arm_load_store (push_bit 26 1) arm_AL rt operand"

definition arm_mov :: "arm_reg \<Rightarrow> arm_Operand \<Rightarrow> arm_op" where
  "arm_mov rd operand = arm_EmitARMInst (0x01a00000 OR push_bit kConditionShift arm_AL OR (arm_Rd rd OR OpEncode_Operand operand))"

definition arm_b :: "u32 \<Rightarrow> arm_op" where
  "arm_b branch_offset = arm_EmitARMInst (0xa000000 OR push_bit kConditionShift arm_AL OR bits_of (drop_bit 2 branch_offset) 0 23)"

definition arm_bl :: "u32 \<Rightarrow> arm_op" where
  "arm_bl branch_offset = arm_EmitARMInst (0xb000000 OR push_bit kConditionShift arm_AL OR bits_of (drop_bit 2 branch_offset) 0 23)"

definition arm_blx :: arm_op where "arm_blx a = Inl UNIMPLEMENTED"
definition arm_bx :: arm_op where "arm_bx a = Inl UNIMPLEMENTED"

section \<open>ARM labels\<close>

definition label_link :: "nat \<Rightarrow> arm_link_type \<Rightarrow> arm_label \<Rightarrow> arm_label" where
  "label_link p ty l = l\<lparr>lab_instructions := lab_instructions l @ [(p, ty)]\<rparr>"

text \<open>The displacement is not checked (\<^verbatim>\<open>ASSERT\<close> is empty): all its bits go into the instruction.\<close>

definition arm_link_instruction :: "int \<Rightarrow> nat \<times> arm_link_type \<Rightarrow> arm_op" where
  "arm_link_instruction lpos ins a =
     (let offset = of_int (lpos - int (fst ins)) :: u32
      in rbind (arm_LoadARMInst (fst ins) a) (\<lambda>inst32.
         case snd ins of
           kLdrLiteral \<Rightarrow> arm_RewriteARMInst (fst ins) ((inst32 AND 0xfffff000) OR (offset - ARM_PC_OFFSET)) a
         | _ \<Rightarrow> Inl UNREACHABLE))"

definition arm_Ldr :: "arm_reg \<Rightarrow> arm_label \<Rightarrow> arm_asm \<Rightarrow> (arm_label \<times> arm_asm) result" where
  "arm_Ldr rt l a =
     (if is_bound l
      then rbind (arm_ldr rt (arm_mem arm_pc (label_pos l - int (length (asm_buffer a))) arm_Offset) a) (\<lambda>a1. Inr (l, a1))
      else rbind (arm_ldr rt (arm_mem arm_pc 0 arm_Offset) a) (\<lambda>a1. Inr (label_link (length (asm_buffer a)) kLdrLiteral l, a1)))"

definition arm_CallFunction :: "u32 \<Rightarrow> arm_op" where
  "arm_CallFunction f = do_all [arm_bl 0, arm_b 4, arm_ldr arm_pc (arm_mem arm_pc (- 4) arm_Offset), EmitAddress f]"

definition arm_PseudoBind :: "arm_label \<Rightarrow> arm_asm \<Rightarrow> (arm_label \<times> arm_asm) result" where
  "arm_PseudoBind l a =
     (let l1 = (if is_unused l then bind_to (int (length (asm_buffer a))) l else l)
      in rbind (rfold (arm_link_instruction (label_pos l1)) (lab_instructions l1) a) (\<lambda>a1. Inr (l1, a1)))"

fun bind_all :: "(arm_label \<Rightarrow> arm_asm \<Rightarrow> (arm_label \<times> arm_asm) result) \<Rightarrow> arm_label list \<Rightarrow> arm_asm \<Rightarrow> (arm_label list \<times> arm_asm) result" where
  "bind_all bind [] a = Inr ([], a)"
| "bind_all bind (l # ls) a =
     rbind (bind l a) (\<lambda>(l1, a1).
     rbind (EmitAddress (lab_data l1) a1) (\<lambda>a2.
     rbind (bind_all bind ls a2) (\<lambda>(ls1, a3). Inr (l1 # ls1, a3))))"

definition arm_RelocBind :: arm_op where
  "arm_RelocBind a = rbind (bind_all arm_PseudoBind (arm_data_labels a) a) (\<lambda>(ls, a1). Inr (a1\<lparr>arm_data_labels := ls\<rparr>))"

definition arm_AppendRelocLabelEntry :: "arm_label \<Rightarrow> arm_op" where
  "arm_AppendRelocLabelEntry l a = Inr (a\<lparr>arm_data_labels := arm_data_labels a @ [l]\<rparr>)"

definition arm_LiteralLdrBranch :: "u32 \<Rightarrow> arm_op" where
  "arm_LiteralLdrBranch address = do_all [arm_ldr arm_pc (arm_mem arm_pc (- 4) arm_Offset), EmitAddress address]"

section \<open>Thumb instructions\<close>

definition t1_nop :: arm_op where "t1_nop = EmitInt16 0xbf00"

definition t1_b :: "u32 \<Rightarrow> arm_op" where
  "t1_b imm = EmitInt16 (0xe000 OR ucast (bits_of (drop_bit 1 imm) 0 10))"

definition EmitThumb2Branch :: "u32 \<Rightarrow> bool \<Rightarrow> arm_op" where
  "EmitThumb2Branch imm link =
     (let operand = signed_drop_bit 1 imm;
          signbit = drop_bit 31 imm AND 1;
          i1 = drop_bit 22 operand AND 1;
          i2 = drop_bit 21 operand AND 1;
          imm10 = drop_bit 11 operand AND 0x03ff;
          imm11 = operand AND 0x07ff;
          j1 = (if i1 XOR signbit = 0 then 1 else 0);
          j2 = (if i2 XOR signbit = 0 then 1 else 0)
      in do_all [EmitInt16 (ucast (0xf000 OR LeftShift signbit 1 10 OR LeftShift imm10 10 0)),
                 EmitInt16 (ucast (0x9000 OR LeftShift j1 1 13 OR LeftShift j2 1 11 OR LeftShift imm11 11 0
                                   OR (if link then push_bit 14 1 else 0)))])"

definition t2_b :: "u32 \<Rightarrow> arm_op" where "t2_b imm = EmitThumb2Branch imm False"
definition t2_bl :: "u32 \<Rightarrow> arm_op" where "t2_bl imm = EmitThumb2Branch imm True"
definition t2_blx :: "u32 \<Rightarrow> arm_op" where "t2_blx imm a = Inl UNIMPLEMENTED"

definition EmitThumb2LoadLiteral :: "arm_reg \<Rightarrow> arm_MemOperand \<Rightarrow> arm_op" where
  "EmitThumb2LoadLiteral rt x =
     (let offset = mo_offset x;
          (U, imm12) = (if offset > 0 then (push_bit 7 1, of_int offset) else (0, of_int (- offset) :: u32))
      in do_all [EmitInt16 (ucast (0xf85f OR U :: u32)), EmitInt16 (ucast (push_bit 12 rt OR imm12))])"

definition EmitThumb2LoadStore :: "arm_reg \<Rightarrow> arm_MemOperand \<Rightarrow> arm_op" where
  "EmitThumb2LoadStore rt x =
     (if mo_rn x = arm_pc then EmitThumb2LoadLiteral rt x
      else if mo_addrmode x = arm_Offset \<and> mo_offset x \<ge> 0
      then do_all [EmitInt16 (ucast (0xf8d0 OR mo_rn x)), EmitInt16 (ucast (push_bit 12 rt OR of_int (mo_offset x) :: u32))]
      else
        (let imm8 = of_int \<bar>mo_offset x\<bar> :: u32;
             U = (if mo_offset x > 0 then 0 else push_bit 9 1);
             (P, W) = (case mo_addrmode x of arm_PostIndex \<Rightarrow> (0, push_bit 8 1) | arm_PreIndex \<Rightarrow> (push_bit 10 1, push_bit 8 1) | arm_Offset \<Rightarrow> (0, 0))
         in do_all [EmitInt16 (ucast (0xf850 OR mo_rn x)), EmitInt16 (ucast (0x0800 OR push_bit 12 rt OR P OR U OR W OR imm8))]))"

definition t2_ldr :: "arm_reg \<Rightarrow> arm_MemOperand \<Rightarrow> arm_op" where
  "t2_ldr dst src = EmitThumb2LoadStore dst src"

definition T1_Ldr :: "arm_reg \<Rightarrow> arm_label \<Rightarrow> arm_op" where
  "T1_Ldr rt l a = Inl UNREACHABLE"

definition T2_Ldr :: "arm_reg \<Rightarrow> arm_label \<Rightarrow> arm_asm \<Rightarrow> (arm_label \<times> arm_asm) result" where
  "T2_Ldr rt l a =
     (if is_bound l
      then rbind (t2_ldr rt (arm_mem arm_pc (label_pos l - int (length (asm_buffer a))) arm_Offset) a) (\<lambda>a1. Inr (l, a1))
      else rbind (t2_ldr rt (arm_mem arm_pc 0 arm_Offset) a) (\<lambda>a1. Inr (label_link (length (asm_buffer a)) kThumb2LiteralLdr l, a1)))"

definition AlignThumbNop :: arm_op where
  "AlignThumbNop a =
     (let pc = of_nat (length (asm_buffer a)) + ucast (realized_address a) :: u32
      in if pc mod of_nat Thumb2_INST_LEN \<noteq> 0 then t1_nop a else Inr a)"

section \<open>Thumb labels\<close>

definition thumb_link_instruction :: "int \<Rightarrow> nat \<times> arm_link_type \<Rightarrow> arm_op" where
  "thumb_link_instruction lpos ins a =
     rbind (arm_LoadThumb2Inst (fst ins) a) (\<lambda>instr.
     rbind (arm_LoadThumb1Inst (fst ins) a) (\<lambda>inst1.
     rbind (arm_LoadThumb1Inst (fst ins + 2) a) (\<lambda>inst2.
       case snd ins of
         kThumb2LiteralLdr \<Rightarrow>
           (let imm12 = of_int lpos - ALIGN_FLOOR (of_nat (fst ins)) 4 - Thumb_PC_OFFSET :: u32
            in if imm12 < push_bit 12 1
               then do_all [arm_RewriteThumb1Inst (fst ins) (inst1 OR push_bit 7 1),
                            arm_RewriteThumb1Inst (fst ins + Thumb1_INST_LEN) ((inst2 AND 0xf000) OR ucast imm12)] a
               else Inl (FATAL ''Check failed: imm12 < (1 << 12).''))
       | _ \<Rightarrow> Inl UNREACHABLE)))"

definition ThumbPseudoBind :: "arm_label \<Rightarrow> arm_asm \<Rightarrow> (arm_label \<times> arm_asm) result" where
  "ThumbPseudoBind l a =
     (let l1 = (if is_unused l then bind_to (int (length (asm_buffer a))) l else l)
      in rbind (rfold (thumb_link_instruction (label_pos l1)) (lab_instructions l1) a) (\<lambda>a1. Inr (l1, a1)))"

definition thumb_RelocBind :: arm_op where
  "thumb_RelocBind a = rbind (bind_all ThumbPseudoBind (thumb_data_labels a) a) (\<lambda>(ls, a1). Inr (a1\<lparr>thumb_data_labels := ls\<rparr>))"

definition thumb_AppendRelocLabelEntry :: "arm_label \<Rightarrow> arm_op" where
  "thumb_AppendRelocLabelEntry l a = Inr (a\<lparr>thumb_data_labels := thumb_data_labels a @ [l]\<rparr>)"

text \<open>\<^verbatim>\<open>RelocBindFixup\<close> of either assembler.\<close>

definition RelocBindFixup :: "arm_label \<Rightarrow> arm_op" where
  "RelocBindFixup l = arm_RewriteAddr (label_pos l) (lab_data l)"

section \<open>Trampolines\<close>

definition generate_arm_trampoline :: "u32 \<Rightarrow> u32 \<Rightarrow> u8 list result" where
  "generate_arm_trampoline from to = rbind (arm_LiteralLdrBranch to (new_arm_assemblers (ucast from))) (\<lambda>a. Inr (asm_buffer a))"

definition generate_thumb_trampoline :: "u32 \<Rightarrow> u32 \<Rightarrow> u8 list result" where
  "generate_thumb_trampoline from to =
     rbind (do_all [AlignThumbNop, t2_ldr arm_pc (arm_mem arm_pc 0 arm_Offset), EmitAddress to] (new_arm_assemblers (ucast from)))
       (\<lambda>a. Inr (asm_buffer a))"

definition arm_GenerateNormalTrampolineBuffer :: "u32 \<Rightarrow> u32 \<Rightarrow> u8 list result" where
  "arm_GenerateNormalTrampolineBuffer from to =
     (if from mod 2 = 0 then generate_arm_trampoline from to else generate_thumb_trampoline (ALIGN_FLOOR from 2) to)"

definition arm_GenerateNearTrampolineBuffer :: "u32 \<Rightarrow> u32 \<Rightarrow> u8 list option" where
  "arm_GenerateNearTrampolineBuffer src dst = None"

end
