(* ===== verification/Arm_Relocation.thy ===== *)
theory Arm_Relocation
  imports Arm_Assembler Code_Patch
begin

text \<open>
  \<^verbatim>\<open>InstructionRelocation/arm/ARMInstructionRelocation.cc\<close>: relocation of ARM, Thumb and Thumb-2 instructions. An
  address has 32 bits; the chunks of the process, whose addresses have 64, are narrowed where they are used.
  The code is a list of bytes and \<^verbatim>\<open>buffer\<close> a position in it: a Thumb function is entered at an odd position, which
  the relocator corrects.
\<close>

record ReloMapEntry =
  orig_instr :: u32
  relocated_instr :: u32
  relocated_code_len :: nat

definition is_thumb2 :: "u32 \<Rightarrow> bool" where
  "is_thumb2 instr =
     (let inst1 = instr AND 0x0000ffff; op0 = bits_of inst1 13 15; op1 = bits_of inst1 11 12
      in op0 = 7 \<and> op1 \<noteq> 0)"

section \<open>ARM\<close>

text \<open>A data label is made, filed and loaded from.\<close>

definition arm_load_label :: "arm_reg \<Rightarrow> u32 \<Rightarrow> arm_op" where
  "arm_load_label rt data a =
     rbind (arm_Ldr rt (new_arm_label data False) a) (\<lambda>(l, a1). arm_AppendRelocLabelEntry l a1)"

definition arm_ldr_literal_fix :: "u32 \<Rightarrow> u32 \<Rightarrow> arm_op" where
  "arm_ldr_literal_fix instr from_pc =
     (let U = bit_of instr 23; imm12 = bits_of instr 0 11; regRt = bits_of instr 12 15;
          target = (if U = 1 then from_pc + imm12 else from_pc - imm12)
      in if regRt = arm_pc
         then do_all [arm_load_label arm_VOLATILE_REGISTER target, arm_ldr regRt (arm_mem arm_VOLATILE_REGISTER 0 arm_Offset)]
         else do_all [arm_load_label regRt target, arm_ldr regRt (arm_mem regRt 0 arm_Offset)])"

text \<open>The \<^verbatim>\<open>cond\<close> and \<^verbatim>\<open>H\<close> that choose whether the branch links are declared anew, as zero, and never read from the instruction.\<close>

definition arm_branch_fix :: "u32 \<Rightarrow> u32 \<Rightarrow> arm_op" where
  "arm_branch_fix instr from_pc =
     (let cond = 0 :: u32; H = 0 :: u32;
          imm24 = bits_of instr 0 23; label = push_bit 2 imm24;
          target = from_pc + label;
          flag_link = (if cond \<noteq> 15 \<and> H = 0 then False else True);
          label' = 4 :: u32; imm24' = drop_bit 2 label'
      in do_all ([arm_EmitARMInst ((instr AND 0xff000000) OR imm24')]
                 @ (if flag_link then [arm_bl 0, arm_b 4] else [arm_b 4])
                 @ [arm_ldr arm_pc (arm_mem arm_pc (- 4) arm_Offset), EmitAddress target]))"

definition ARMRelocateSingleInstr :: "u32 \<Rightarrow> u32 \<Rightarrow> arm_op" where
  "ARMRelocateSingleInstr instr from_pc =
     (let cond = bits_of instr 28 31; op0 = bits_of instr 25 27
      in if cond \<noteq> 15 \<and> op0 = 2
         then (let P_W = push_bit 1 (bit_of instr 24) OR bit_of instr 21; o1 = bit_of instr 20; o2 = bit_of instr 22; Rn = bits_of instr 16 19
               in if o1 = 1 \<and> o2 = 0 \<and> P_W \<noteq> 1 \<and> Rn = 15 then arm_ldr_literal_fix instr from_pc
                  else if o1 = 1 \<and> o2 = 1 \<and> P_W \<noteq> 1 \<and> Rn = 15 then arm_ldr_literal_fix instr from_pc
                  else arm_EmitARMInst instr)
         else if cond \<noteq> 15 \<and> op0 AND 6 = 0
         then (if bit_of instr 25 = 1 \<and> bits_of instr 23 24 AND 2 = 0
               then (let opc = bits_of instr 21 23; S = bit_of instr 20; Rn = bits_of instr 16 19; Rd = bits_of instr 12 15; imm12 = bits_of instr 0 11
                     in if opc = 2 \<and> S = 0 \<and> Rn = 15 then arm_load_label Rd (from_pc - imm12)
                        else if opc = 4 \<and> S = 0 \<and> Rn = 15 then arm_load_label Rd (from_pc + imm12)
                        else arm_EmitARMInst instr)
               else arm_EmitARMInst instr)
         else if op0 AND 6 = 4
         then (if bit_of instr 25 = 1 then arm_branch_fix instr from_pc else arm_EmitARMInst instr)
         else arm_EmitARMInst instr)"

section \<open>Thumb\<close>

definition thumb_load_label :: "arm_reg \<Rightarrow> u32 \<Rightarrow> bool \<Rightarrow> arm_op" where
  "thumb_load_label rt data branch a =
     rbind (T2_Ldr rt (new_arm_label data branch) a) (\<lambda>(l, a1). thumb_AppendRelocLabelEntry l a1)"

text \<open>
  The second result is \<^verbatim>\<open>*execute_state_changed_pc_ptr\<close>. The tests exclude each other. \<^verbatim>\<open>rm\<close> is zero when the test for \<^verbatim>\<open>blx pc\<close> is
  made: it is only read for \<^verbatim>\<open>bx\<close>.
\<close>

definition Thumb1RelocateSingleInstr :: "u16 \<Rightarrow> u32 \<Rightarrow> u32 \<Rightarrow> arm_asm \<Rightarrow> (arm_asm \<times> u32) result" where
  "Thumb1RelocateSingleInstr instr from_pc esc a0 =
     (let run = (\<lambda>ops. rbind (do_all (AlignThumbNop # ops) a0) (\<lambda>a. Inr (a, esc)));
          i32 = ucast instr :: u32
      in if bits_of i32 10 15 = 0x11
         then (if bits_of i32 8 9 \<noteq> 3
               then (if bits_of i32 3 6 = 15
                     then run [thumb_load_label arm_VOLATILE_REGISTER from_pc False, EmitInt16 (ucast ((i32 AND 0xff87) OR LeftShift arm_VOLATILE_REGISTER 4 3))]
                     else run [EmitInt16 instr])
               else if bit_of i32 7 = 0
               then (if bits_of i32 3 6 = arm_pc
                     then rbind (do_all [AlignThumbNop, thumb_load_label arm_pc from_pc True] a0) (\<lambda>a. Inr (a, from_pc))
                     else run [EmitInt16 instr])
               else if (0 :: u32) = arm_pc
               then rbind (do_all [AlignThumbNop, t2_bl 4, t2_b 4, thumb_load_label arm_pc from_pc True] a0) (\<lambda>a. Inr (a, from_pc))
               else run [EmitInt16 instr])
         else if i32 AND 0xf800 = 0x4800
         then (let val = ALIGN_FLOOR (from_pc + push_bit 2 (bits_of i32 0 7)) 4; rt = bits_of i32 8 10
               in run [thumb_load_label rt val False, t2_ldr rt (arm_mem rt 0 arm_Offset)])
         else if i32 AND 0xf800 = 0xa000
         then run [thumb_load_label (bits_of i32 8 10) (from_pc + bits_of i32 0 7) False]
         else if i32 AND 0xf000 = 0xd000
         then (if bits_of i32 8 11 \<ge> 14 then rbind (AlignThumbNop a0) (\<lambda>_. Inl UNREACHABLE)
               else (let val = from_pc + push_bit 1 (bits_of i32 0 7); imm8 = drop_bit 1 4 :: u32
                     in run [EmitInt16 (ucast ((i32 AND 0xfff0) OR imm8)), t1_nop, t2_b 4, thumb_load_label arm_pc (val + 1) True]))
         else if i32 AND 0xf500 = 0xb100
         then (let offset = push_bit 6 (bit_of i32 9) OR push_bit 1 (bits_of i32 3 7); val = from_pc + offset;
                   imm5 = bits_of (drop_bit 1 4 :: u32) 1 5; i = bit_of (drop_bit 1 4 :: u32) 6
               in run [EmitInt16 (ucast ((i32 AND 0xfd07) OR push_bit 3 imm5 OR push_bit 9 i)), t1_nop, t2_b 0,
                       thumb_load_label arm_pc (val + 1) True])
         else if i32 AND 0xf800 = 0xe000
         then run [thumb_load_label arm_pc (from_pc + push_bit 1 (bits_of i32 0 10) + 1) True]
         else run [EmitInt16 instr])"

definition not_bit :: "u32 \<Rightarrow> u32" where "not_bit b = (if b = 0 then 1 else 0)"

text \<open>The displacement of \<^verbatim>\<open>b.w\<close>, \<^verbatim>\<open>bl\<close> and \<^verbatim>\<open>blx\<close> without its lowest bits.\<close>

definition t2_label :: "u32 \<Rightarrow> u32 \<Rightarrow> u32 \<Rightarrow> u32" where
  "t2_label inst1 inst2 low =
     (let S = bit_of inst1 10; J1 = bit_of inst2 13; J2 = bit_of inst2 11; i1 = not_bit (J1 XOR S); i2 = not_bit (J2 XOR S)
      in push_bit 24 (- S) OR push_bit 23 i1 OR push_bit 22 i2 OR push_bit 12 (bits_of inst1 0 9) OR low)"

definition Thumb2RelocateSingleInstr :: "u16 \<Rightarrow> u16 \<Rightarrow> u32 \<Rightarrow> arm_op" where
  "Thumb2RelocateSingleInstr hw1 hw2 from_pc =
     (let inst1 = scast hw1 :: u32; inst2 = scast hw2 :: u32;
          op1 = bits_of inst1 6 9; op3 = bits_of inst2 12 14;
          pc0 = arm_mem arm_pc 0 arm_Offset;
          run = (\<lambda>ops. do_all (AlignThumbNop # ops))
      in if inst1 AND 0xf800 = 0xf000 \<and> inst2 AND 0x8000 = 0x8000
         then (if op1 AND 14 \<noteq> 14 \<and> op3 AND 5 = 0
               then (let S = sbits_of inst1 10 10;
                         label = push_bit 20 S OR push_bit 19 (bit_of inst2 11) OR push_bit 18 (bit_of inst2 13)
                           OR push_bit 12 (bits_of inst1 0 5) OR push_bit 1 (bits_of inst2 0 10);
                         imm11 = drop_bit 1 4 :: u32
                     in run [EmitInt16 (ucast (inst1 AND 0xffc0)), EmitInt16 (ucast ((inst2 AND 0xd000) OR imm11)), t2_b 4, t2_ldr arm_pc pc0,
                             EmitAddress (from_pc + label + THUMB_ADDRESS_FLAG)])
               else if op3 AND 5 = 1
               then run [t2_ldr arm_pc pc0, EmitAddress (from_pc + t2_label inst1 inst2 (push_bit 1 (bits_of inst2 0 10)) + THUMB_ADDRESS_FLAG)]
               else if op3 AND 5 = 5
               then run [t2_bl 4, t2_b 8, t2_ldr arm_pc pc0,
                         EmitAddress (from_pc + t2_label inst1 inst2 (push_bit 1 (bits_of inst2 0 10)) + THUMB_ADDRESS_FLAG)]
               else if op3 AND 5 = 4
               then run [t2_bl 4, t2_b 8, t2_ldr arm_pc pc0,
                         EmitAddress (ALIGN_FLOOR from_pc 4 + t2_label inst1 inst2 (push_bit 2 (bits_of inst2 1 10)))]
               else run [EmitInt16 hw1, EmitInt16 hw2])
         else if inst1 AND 0xfa10 = 0xf200 \<and> inst2 AND 0x8000 = 0
         then (let o1 = bit_of inst1 7; o2 = bit_of inst1 5; rn = bits_of inst1 0 3
               in if bit_of inst1 8 = 0 \<and> bits_of inst2 5 6 AND 2 = 0 \<and> (o1 = 0 \<and> o2 = 0 \<or> o1 = 1 \<and> o2 = 1) \<and> rn = 15
                  then (let label = bits_of inst2 0 7 OR push_bit 8 (bits_of inst2 12 14) OR push_bit 11 (bit_of inst1 10);
                            val = (if o1 = 0 \<and> o2 = 0 then from_pc + label else from_pc - label)
                        in run [t2_ldr (bits_of inst2 8 11) (arm_mem arm_pc 4 arm_Offset), t2_b 0, EmitAddress val])
                  else run [EmitInt16 hw1, EmitInt16 hw2])
         else if inst1 AND 0xff7f = 0xf85f
         then (let label = bits_of inst2 0 11; rt = bits_of inst2 12 15;
                   val = ALIGN_FLOOR (if bit_of inst1 7 = 1 then from_pc + label else from_pc - label) 4
               in run [t2_ldr rt (arm_mem arm_pc 4 arm_Offset), t2_b 4, EmitAddress val, t2_ldr rt (arm_mem rt 0 arm_Offset)])
         else run [EmitInt16 hw1, EmitInt16 hw2])"

section \<open>The loops\<close>

type_synonym code_range = "u32 \<times> u32"

definition read_code :: "nat \<Rightarrow> int \<Rightarrow> u8 list \<Rightarrow> ('a::len word) result" where
  "read_code n p mem = (if 0 \<le> p \<and> nat p + n \<le> length mem then Inr (le_word (take n (drop (nat p) mem))) else Inl OVERREAD)"

text \<open>\<^verbatim>\<open>execute_state_changed_pc\<close> of \<^verbatim>\<open>gen_arm_relocate_code\<close> stays zero. The instruction for the next round is read at the end of a round.\<close>

function (sequential) arm_loop ::
  "u8 list \<Rightarrow> int \<Rightarrow> int \<Rightarrow> u32 \<Rightarrow> u32 \<Rightarrow> u32 \<Rightarrow> ReloMapEntry list \<Rightarrow> arm_asm \<Rightarrow> (u32 \<times> ReloMapEntry list \<times> arm_asm) result" where
  "arm_loop mem cur end_cur relo_start instr curr_orig_pc relo_map a =
     (if cur < end_cur
      then
        (let curr_relo_pc = relo_start + ARM_PC_OFFSET + of_nat (length (asm_buffer a))
         in rbind (ARMRelocateSingleInstr instr curr_orig_pc a) (\<lambda>a1.
            let entry = \<lparr>orig_instr = curr_orig_pc - ARM_PC_OFFSET, relocated_instr = curr_relo_pc - ARM_PC_OFFSET,
                         relocated_code_len = length (asm_buffer a1) - length (asm_buffer a)\<rparr>
            in rbind (read_code 4 (cur + int ARM_INST_LEN) mem) (\<lambda>instr'.
               arm_loop mem (cur + int ARM_INST_LEN) end_cur relo_start instr' (curr_orig_pc + of_nat ARM_INST_LEN) (relo_map @ [entry]) a1)))
      else Inr (curr_orig_pc, relo_map, a))"
  by pat_completeness auto
termination
  by (relation "measure (\<lambda>(mem, cur, end_cur, rest). nat (end_cur - cur))") (auto simp: ARM_INST_LEN_def)

declare arm_loop.simps [simp del]

definition gen_arm_relocate_code ::
  "u8 list \<Rightarrow> int \<Rightarrow> code_range \<Rightarrow> u32 \<Rightarrow> ReloMapEntry list \<Rightarrow> arm_asm \<Rightarrow> (code_range \<times> ReloMapEntry list \<times> arm_asm) result" where
  "gen_arm_relocate_code mem buffer origin relo_start relo_map a =
     rbind (read_code 4 buffer mem) (\<lambda>instr.
     rbind (arm_loop mem buffer (buffer + sint (snd origin)) relo_start instr (fst origin + ARM_PC_OFFSET) relo_map a) (\<lambda>(curr_orig_pc, map1, a1).
       Inr ((fst origin, curr_orig_pc - fst origin - ARM_PC_OFFSET), map1, a1)))"

text \<open>The result: the position reached, the program counter, \<^verbatim>\<open>execute_state_changed_pc\<close>, the map and the code.\<close>

function (sequential) thumb_loop ::
  "u8 list \<Rightarrow> int \<Rightarrow> int \<Rightarrow> u32 \<Rightarrow> u32 \<Rightarrow> u32 \<Rightarrow> u32 \<Rightarrow> u32 \<Rightarrow> ReloMapEntry list \<Rightarrow> arm_asm
     \<Rightarrow> (int \<times> u32 \<times> u32 \<times> ReloMapEntry list \<times> arm_asm) result" where
  "thumb_loop mem cur end_cur relo_start instr curr_orig_pc curr_relo_pc esc relo_map a =
     (if cur < end_cur
      then
        rbind (t1_nop a) (\<lambda>a1.
        rbind (if is_thumb2 instr
               then rbind (Thumb2RelocateSingleInstr (ucast instr) (ucast (drop_bit 16 instr)) curr_orig_pc a1) (\<lambda>a2. Inr (a2, esc))
               else Thumb1RelocateSingleInstr (ucast instr) curr_orig_pc esc a1) (\<lambda>(a2, esc1).
        let entry = \<lparr>orig_instr = curr_orig_pc - Thumb_PC_OFFSET, relocated_instr = curr_relo_pc - Thumb_PC_OFFSET,
                     relocated_code_len = length (asm_buffer a2) - length (asm_buffer a1)\<rparr>;
            relo_map1 = relo_map @ [entry];
            curr_relo_pc1 = relo_start + Thumb_PC_OFFSET + of_nat (length (asm_buffer a2));
            len = (if is_thumb2 instr then Thumb2_INST_LEN else Thumb1_INST_LEN);
            curr_orig_pc1 = curr_orig_pc + of_nat len;
            cur1 = cur + int len
        in if esc1 \<noteq> 0 \<and> curr_orig_pc1 - Thumb_PC_OFFSET = esc1 then Inr (cur1, curr_orig_pc1, esc1, relo_map1, a2)
           else rbind (read_code 4 cur1 mem) (\<lambda>instr'.
                  thumb_loop mem cur1 end_cur relo_start instr' curr_orig_pc1 curr_relo_pc1 esc1 relo_map1 a2)))
      else Inr (cur, curr_orig_pc, esc, relo_map, a))"
  by pat_completeness auto
termination
  by (relation "measure (\<lambda>(mem, cur, end_cur, rest). nat (end_cur - cur))") (auto simp: Thumb1_INST_LEN_def Thumb2_INST_LEN_def)

declare thumb_loop.simps [simp del]

definition gen_thumb_relocate_code ::
  "u8 list \<Rightarrow> int \<Rightarrow> code_range \<Rightarrow> u32 \<Rightarrow> ReloMapEntry list \<Rightarrow> arm_asm \<Rightarrow> (code_range \<times> u32 \<times> ReloMapEntry list \<times> arm_asm) result" where
  "gen_thumb_relocate_code mem buffer origin relo_start relo_map a =
     rbind (read_code 4 buffer mem) (\<lambda>instr.
     rbind (thumb_loop mem buffer (buffer + sint (snd origin)) relo_start instr (fst origin + Thumb_PC_OFFSET)
              (relo_start + Thumb_PC_OFFSET) 0 relo_map a) (\<lambda>(cur, curr_orig_pc, esc, map1, a1).
       let origin1 = (fst origin, curr_orig_pc - fst origin - Thumb_PC_OFFSET)
       in if cur < buffer + sint (snd origin)
          then Inr (origin1, esc, map1, a1\<lparr>thumb_execute_state := ARMExecuteState\<rparr>)
          else Inr (origin1, 0, map1, a1)))"

section \<open>Fix-ups\<close>

fun get_orig_instr_relocated_addr :: "ReloMapEntry list \<Rightarrow> u32 \<Rightarrow> u32" where
  "get_orig_instr_relocated_addr [] orig_pc = 0"
| "get_orig_instr_relocated_addr (e # es) orig_pc =
     (if orig_instr e = orig_pc then relocated_instr e else get_orig_instr_relocated_addr es orig_pc)"

fun fixup_labels :: "(arm_label \<Rightarrow> bool) \<Rightarrow> code_range \<Rightarrow> ReloMapEntry list \<Rightarrow> arm_label list \<Rightarrow> arm_asm \<Rightarrow> (arm_label list \<times> arm_asm) result" where
  "fixup_labels wanted origin relo_map [] a = Inr ([], a)"
| "fixup_labels wanted origin relo_map (l # ls) a =
     (let val = lab_data l; start = fst origin; finish = fst origin + snd origin
      in rbind (if wanted l \<and> val \<ge> start \<and> val < finish
                then (let l1 = l\<lparr>lab_data := get_orig_instr_relocated_addr relo_map val + ucast (realized_address a)\<rparr>
                      in rbind (RelocBindFixup l1 a) (\<lambda>a1. Inr (l1, a1)))
                else Inr (l, a)) (\<lambda>(l1, a1).
         rbind (fixup_labels wanted origin relo_map ls a1) (\<lambda>(ls1, a2). Inr (l1 # ls1, a2))))"

definition reloc_label_fixup :: "code_range \<Rightarrow> ReloMapEntry list \<Rightarrow> arm_op" where
  "reloc_label_fixup origin relo_map a =
     rbind (fixup_labels lab_used_for_branch origin relo_map (thumb_data_labels a) a) (\<lambda>(ts, a1).
     rbind (fixup_labels (\<lambda>_. True) origin relo_map (arm_data_labels a1) a1) (\<lambda>(ls, a2).
       Inr (a2\<lparr>thumb_data_labels := ts, arm_data_labels := ls\<rparr>)))"

section \<open>The relocator\<close>

text \<open>From the label \<^verbatim>\<open>relocate_remain\<close> to the end of the loops; the fuel counts the jumps back to the label.\<close>

fun arm_relocate_remain ::
  "nat \<Rightarrow> u8 list \<Rightarrow> int \<Rightarrow> code_range \<Rightarrow> u32 \<Rightarrow> ReloMapEntry list \<Rightarrow> arm_asm \<Rightarrow> (bool \<times> code_range \<times> ReloMapEntry list \<times> arm_asm) result option" where
  "arm_relocate_remain 0 mem buffer origin relo_start relo_map a = None"
| "arm_relocate_remain (Suc n) mem buffer origin relo_start relo_map a =
     (if fst origin mod 2 \<noteq> 0
      then
        (let buffer1 = buffer - 1; aligned = fst origin - THUMB_ADDRESS_FLAG
         in robind (Some (gen_thumb_relocate_code mem buffer1 (aligned, snd origin) relo_start relo_map a)) (\<lambda>(origin1, esc, map1, a1).
            let finish = fst origin1 + snd origin1
            in if thumb_execute_state a1 = ARMExecuteState \<and> esc < finish
               then robind (Some (if length (asm_buffer a1) mod 4 \<noteq> 0 then t1_nop a1 else Inr a1)) (\<lambda>a2.
                      arm_relocate_remain n mem (buffer1 + int (unat (esc - aligned))) (esc, finish - esc) relo_start map1 a2)
               else Some (Inr (True, origin1, map1, a1))))
      else
        robind (Some (gen_arm_relocate_code mem buffer origin relo_start relo_map a)) (\<lambda>(origin1, map1, a1).
          let finish = fst origin1 + snd origin1; esc = 0
          in if arm_execute_state a1 = ThumbExecuteState \<and> esc < finish
             then arm_relocate_remain n mem (buffer + sint (esc - (esc + THUMB_ADDRESS_FLAG))) (esc + THUMB_ADDRESS_FLAG, finish - esc) relo_start map1 a1
             else Some (Inr (False, origin1, map1, a1))))"

text \<open>The code before it is given a place: the instructions, the branch to the rest, the data.\<close>

definition arm_relocated_code ::
  "nat \<Rightarrow> u8 list \<Rightarrow> code_range \<Rightarrow> u32 \<Rightarrow> (ReloMapEntry list \<times> arm_asm) result option" where
  "arm_relocated_code fuel mem origin relo_start =
     robind (arm_relocate_remain fuel mem (if fst origin mod 2 \<noteq> 0 then 1 else 0) origin relo_start [] (new_arm_assemblers 0)) (\<lambda>(thumb, chunk, relo_map, a).
       let rest_instr_addr = fst chunk + snd chunk
       in Some (rbind ((if thumb
                        then do_all [AlignThumbNop, t2_ldr arm_pc (arm_mem arm_pc 0 arm_Offset), EmitAddress (rest_instr_addr + THUMB_ADDRESS_FLAG)]
                        else arm_LiteralLdrBranch rest_instr_addr) a) (\<lambda>a1.
                rbind (thumb_RelocBind a1) (\<lambda>a2.
                rbind (arm_RelocBind a2) (\<lambda>a3. Inr (relo_map, a3))))))"

definition arm_GenRelocateCodeAndBranch ::
  "nat \<Rightarrow> u64 \<Rightarrow> u64 \<Rightarrow> u8 list \<Rightarrow> MemoryChunk \<Rightarrow> MemoryChunk \<Rightarrow> process \<Rightarrow> (MemoryChunk \<times> MemoryChunk \<times> process) result option" where
  "arm_GenRelocateCodeAndBranch fuel pageSize fresh mem origin relocated st =
     (let start = ucast (raw_instruction_start origin) :: u32;
          sz = ucast (raw_instruction_size origin) :: u32;
          entry_is_thumb = (start mod 2 \<noteq> 0);
          origin1 = (if entry_is_thumb then init_region_range (raw_instruction_start origin - 1) (ucast (raw_instruction_size origin)) else origin)
      in robind (arm_relocated_code fuel mem (start, sz) (ucast (raw_instruction_start relocated))) (\<lambda>(relo_map, a).
           case AllocateCodeChunk pageSize fresh (of_nat (length (asm_buffer a))) (pr_arena st) of
             (None, ar) \<Rightarrow> Some (Inr (origin1, relocated, with_arena ar st))
           | (Some cchunk, ar) \<Rightarrow>
               robind (Some (reloc_label_fixup (ucast (raw_instruction_start origin1), ucast (raw_instruction_size origin1)) relo_map
                               (SetRealizedAddress (range_address cchunk) a))) (\<lambda>a1.
               robind (Some (FinalizeFromTurboAssembler pageSize fresh 4 a1 (with_arena ar st))) (\<lambda>(code, _, st1).
                 case code of
                   None \<Rightarrow> Some (Inl BAD_POINTER)
                 | Some c \<Rightarrow>
                     (let rs = raw_instruction_start c; rn = ucast (raw_instruction_size c)
                      in Some (Inr (origin1, init_region_range (if entry_is_thumb then rs + 1 else rs) rn, st1)))))))"

end
