(* ===== verification/Arm_Closure.thy ===== *)
theory Arm_Closure
  imports Arm_Assembler Code_Patch
begin

text \<open>
  The closure trampoline and the closure bridge of 32-bit ARM (\<^verbatim>\<open>ARMAssemblyClosureTrampoline.cc\<close>,
  \<^verbatim>\<open>closure-bridge-arm.cc\<close>, \<^verbatim>\<open>helper-arm.cc\<close>); the templates are off, as in the build.
\<close>

section \<open>The bridge\<close>

definition arm_MEM :: "arm_reg \<Rightarrow> int \<Rightarrow> arm_MemOperand" where
  "arm_MEM reg off = arm_mem reg off arm_Offset"

text \<open>\<^verbatim>\<open>lr\<close> and \<^verbatim>\<open>r12\<close> down to \<^verbatim>\<open>r0\<close> are stored from the highest word down, and loaded, with post-increment, from the lowest up.\<close>

definition arm_bridge_save :: "arm_op list" where
  "arm_bridge_save =
     arm_sub arm_sp arm_sp (arm_Operand_imm (14 * 4)) # arm_str arm_lr (arm_MEM arm_sp (13 * 4))
     # map (\<lambda>k. arm_str (of_nat k) (arm_MEM arm_sp (int k * 4))) (rev [0..<13])
     @ [arm_add 0 arm_sp (arm_Operand_imm (14 * 4)), arm_sub arm_sp arm_sp (arm_Operand_imm 8), arm_str 0 (arm_MEM arm_sp 4),
        arm_sub arm_sp arm_sp (arm_Operand_imm 8)]"

definition arm_bridge_call :: "u32 \<Rightarrow> arm_op list" where
  "arm_bridge_call handler = [arm_mov 0 (arm_Operand_reg arm_sp), arm_mov 1 (arm_Operand_reg arm_r12), arm_CallFunction handler]"

definition arm_bridge_restore :: "arm_op list" where
  "arm_bridge_restore =
     [arm_add arm_sp arm_sp (arm_Operand_imm 8), arm_add arm_sp arm_sp (arm_Operand_imm 8)]
     @ map (\<lambda>k. arm_ldr (of_nat k) (arm_mem arm_sp 4 arm_PostIndex)) [0..<13]
     @ [arm_ldr arm_lr (arm_mem arm_sp 4 arm_PostIndex), arm_mov arm_pc (arm_Operand_reg arm_r12)]"

definition arm_closure_bridge_code :: "u32 \<Rightarrow> arm_op" where
  "arm_closure_bridge_code handler = do_all (arm_bridge_save @ arm_bridge_call handler @ arm_bridge_restore)"

definition arm_get_closure_bridge :: "u64 \<Rightarrow> u64 \<Rightarrow> u64 \<Rightarrow> process \<Rightarrow> (ptr \<times> process) result" where
  "arm_get_closure_bridge pageSize fresh handler st =
     (if pr_closure_bridge st \<noteq> 0 then Inr (pr_closure_bridge st, st)
      else rbind (arm_closure_bridge_code (ucast handler) (new_arm_assemblers 0)) (\<lambda>a.
           rbind (FinalizeFromTurboAssembler pageSize fresh 4 a st) (\<lambda>(code, _, st').
             case code of
               None \<Rightarrow> Inl BAD_POINTER
             | Some c \<Rightarrow> Inr (raw_instruction_start c, st'\<lparr>pr_closure_bridge := raw_instruction_start c\<rparr>))))"

section \<open>The trampoline\<close>

definition arm_closure_trampoline_code :: "u32 \<Rightarrow> u32 \<Rightarrow> arm_op" where
  "arm_closure_trampoline_code entry bridge a =
     rbind (arm_Ldr arm_r12 (new_arm_label 0 False) a) (\<lambda>(entry_label, a1).
     rbind (arm_Ldr arm_pc (new_arm_label 0 False) a1) (\<lambda>(forward_bridge_label, a2).
     rbind (arm_PseudoBind entry_label a2) (\<lambda>(_, a3).
     rbind (EmitAddress entry a3) (\<lambda>a4.
     rbind (arm_PseudoBind forward_bridge_label a4) (\<lambda>(_, a5). EmitAddress bridge a5)))))"

text \<open>The bridge is built, if need be, when its address is emitted.\<close>

definition arm_CreateClosureTrampoline ::
  "u64 \<Rightarrow> u64 \<Rightarrow> u64 \<Rightarrow> u64 \<Rightarrow> ptr \<Rightarrow> ptr \<Rightarrow> ptr \<Rightarrow> process \<Rightarrow> (ClosureTrampolineEntry \<times> process) result" where
  "arm_CreateClosureTrampoline pageSize bridge_page own_page handler entry data carried st =
     rbind (arm_get_closure_bridge pageSize bridge_page handler st) (\<lambda>(bridge, st1).
     rbind (arm_closure_trampoline_code (ucast entry) (ucast bridge) (new_arm_assemblers 0)) (\<lambda>a.
     rbind (FinalizeFromTurboAssembler pageSize own_page 4 a st1) (\<lambda>(code, _, st2).
       case code of
         None \<Rightarrow> Inl BAD_POINTER
       | Some c \<Rightarrow>
           (let cte = \<lparr>carry_handler = carried, carry_data = data, cte_address = raw_instruction_start c,
                       cte_size = raw_instruction_size c\<rparr>
            in Inr (cte, st2\<lparr>pr_closures := (pr_closures st2)(entry \<mapsto> cte)\<rparr>)))))"

section \<open>The handler side\<close>

text \<open>\<^verbatim>\<open>ctx->general.regs.r12\<close>, behind four words and \<^verbatim>\<open>r0\<close> to \<^verbatim>\<open>r11\<close>. \<open>mem\<close> reads the stack by words.\<close>

definition arm_ctx_r :: "u32 \<Rightarrow> nat \<Rightarrow> u32" where
  "arm_ctx_r ctx r = ctx + 4 * 4 + 4 * of_nat r"

definition arm_set_routing_bridge_next_hop :: "u32 \<Rightarrow> u32 \<Rightarrow> (u32 \<Rightarrow> u32) \<Rightarrow> u32 \<Rightarrow> u32" where
  "arm_set_routing_bridge_next_hop ctx address mem = mem(arm_ctx_r ctx 12 := address)"

end
