(* ===== verification/Arm_Hook.thy ===== *)
theory Arm_Hook
  imports Arm_Relocation Arm_Closure Intercept_Routing
begin

text \<open>
  The 32-bit ARM back end of the routing. The addresses of the process have 64 bits; this back end uses
  their low halves. A Thumb function is entered at its address plus one. The relocator reads the code of such a
  function from the byte before the one it is given, so the back end reads the memory itself.
\<close>

definition arm_normal :: "'e hook_env_scheme \<Rightarrow> u64 \<Rightarrow> u64 \<Rightarrow> process \<Rightarrow> (u8 list \<times> process) result option" where
  "arm_normal env src dst st = Some (rbind (arm_GenerateNormalTrampolineBuffer (ucast src) (ucast dst)) (\<lambda>tb. Inr (tb, st)))"

definition arm_near :: "'e hook_env_scheme \<Rightarrow> u64 \<Rightarrow> u64 \<Rightarrow> process \<Rightarrow> (u8 list option \<times> process) result option" where
  "arm_near env src dst st = Some (Inr (arm_GenerateNearTrampolineBuffer (ucast src) (ucast dst), st))"

text \<open>The place of a function: its address without the Thumb flag.\<close>

definition arm_place :: "u64 \<Rightarrow> u64" where
  "arm_place a = (if (ucast a :: u32) mod 2 \<noteq> 0 then a - 1 else a)"

definition arm_relocate ::
  "'e hook_env_scheme \<Rightarrow> u8 list \<Rightarrow> MemoryChunk \<Rightarrow> MemoryChunk \<Rightarrow> process \<Rightarrow> (MemoryChunk \<times> MemoryChunk \<times> process) result option" where
  "arm_relocate env buffer origin relocated st =
     (let mem = load_mem (pr_mem st) (arm_place (raw_instruction_start origin)) (unat (raw_instruction_size origin) + relocate_window)
      in arm_GenRelocateCodeAndBranch (env_fuel env) (env_page_size env) (env_fresh env 0) mem origin relocated st)"

definition arm_closure :: "'e hook_env_scheme \<Rightarrow> ptr \<Rightarrow> ptr \<Rightarrow> process \<Rightarrow> (ClosureTrampolineEntry \<times> process) result option" where
  "arm_closure env data handler st =
     Some (arm_CreateClosureTrampoline (env_page_size env) (env_bridge_page env) (env_closure_page env)
             (env_bridge_handler env) (env_new_closure env) data handler st)"

definition arm_backend :: "'e backend" where
  "arm_backend = \<lparr>be_normal = arm_normal, be_near = arm_near, be_relocate = arm_relocate, be_closure = arm_closure\<rparr>"

end
