(* ===== verification/Arm_Machine.thy ===== *)
theory Arm_Machine
  imports Arm_Assembler Code_Patch
begin

text \<open>
  The part of the 32-bit ARM architecture that the generated code relies on, in ARM (A32) and in Thumb (T32)
  state: literal and immediate loads, the program-counter relative additions, the branches and the compare
  branches, outside an IT block. The encodings are those of the architecture manual. What any other instruction
  does, its effect on the program counter included, is the parameter \<open>other\<close> of the machine. The memory is that of
  the process: an address of the machine is one of its low addresses.
\<close>

record arm_cpu =
  rr :: "nat \<Rightarrow> u32"
  rpc :: u32
  rthumb :: bool
  rnzcv :: "bool \<times> bool \<times> bool \<times> bool"
  rmem :: "u64 \<Rightarrow> u8"

datatype arm_instr = A32 u32 | T16 u16 | T32 u16 u16

type_synonym arm_other = "arm_instr \<Rightarrow> arm_cpu \<Rightarrow> arm_cpu"

definition fetch_half :: "(u64 \<Rightarrow> u8) \<Rightarrow> u32 \<Rightarrow> u16" where
  "fetch_half m a = le_word [m (ucast a), m (ucast (a + 1))]"

definition fetch_word :: "(u64 \<Rightarrow> u8) \<Rightarrow> u32 \<Rightarrow> u32" where
  "fetch_word m a = le_word [m (ucast a), m (ucast (a + 1)), m (ucast (a + 2)), m (ucast (a + 3))]"

section \<open>Registers and conditions\<close>

text \<open>A value written to the program counter by a load selects the state with its lowest bit.\<close>

definition bx_to :: "u32 \<Rightarrow> arm_cpu \<Rightarrow> arm_cpu" where
  "bx_to v s = s\<lparr>rpc := v AND NOT 1, rthumb := bit v 0\<rparr>"

definition load_reg :: "nat \<Rightarrow> u32 \<Rightarrow> arm_cpu \<Rightarrow> arm_cpu" where
  "load_reg r v s = (if r = 15 then bx_to v s else s\<lparr>rr := (rr s)(r := v)\<rparr>)"

definition skip :: "u32 \<Rightarrow> arm_cpu \<Rightarrow> arm_cpu" where
  "skip n s = s\<lparr>rpc := rpc s + n\<rparr>"

definition link_reg :: "u32 \<Rightarrow> arm_cpu \<Rightarrow> arm_cpu" where
  "link_reg v s = s\<lparr>rr := (rr s)(14 := v)\<rparr>"

fun arm_cond_base :: "nat \<Rightarrow> bool \<times> bool \<times> bool \<times> bool \<Rightarrow> bool" where
  "arm_cond_base k (n, z, c, v) =
     (if k = 0 then z else if k = 1 then c else if k = 2 then n else if k = 3 then v
      else if k = 4 then c \<and> \<not> z else if k = 5 then n = v else if k = 6 then n = v \<and> \<not> z else True)"

definition arm_cond :: "u32 \<Rightarrow> arm_cpu \<Rightarrow> bool" where
  "arm_cond c s = (let b = arm_cond_base (unat (drop_bit 1 c)) (rnzcv s) in if bit c 0 \<and> c \<noteq> 15 then \<not> b else b)"

section \<open>ARM state\<close>

definition a32_reg :: "nat \<Rightarrow> arm_cpu \<Rightarrow> u32" where
  "a32_reg r s = (if r = 15 then rpc s + 8 else rr s r)"

definition is_a32_ldr :: "u32 \<Rightarrow> bool" where
  "is_a32_ldr i \<longleftrightarrow> field 25 3 i = 2 \<and> bit i 24 \<and> \<not> bit i 22 \<and> \<not> bit i 21 \<and> bit i 20"

definition is_a32_branch :: "u32 \<Rightarrow> bool" where
  "is_a32_branch i \<longleftrightarrow> field 25 3 i = 5"

definition is_a32_adr :: "u32 \<Rightarrow> bool" where
  "is_a32_adr i \<longleftrightarrow> field 20 8 i \<in> {0x28, 0x24} \<and> field 16 4 i = 15"

text \<open>A modified immediate: eight bits rotated right by twice the upper four.\<close>

definition a32_expand :: "u32 \<Rightarrow> u32" where
  "a32_expand imm12 = word_rotr (2 * unat (field 8 4 imm12)) (take_bit 8 imm12)"

definition a32_exec :: "arm_other \<Rightarrow> u32 \<Rightarrow> arm_cpu \<Rightarrow> arm_cpu" where
  "a32_exec other i s =
     (if field 28 4 i = 15 \<or> \<not> (is_a32_ldr i \<or> is_a32_branch i \<or> is_a32_adr i) then other (A32 i) s
      else if \<not> arm_cond (field 28 4 i) s then skip 4 s
      else if is_a32_ldr i
      then (let base = a32_reg (unat (field 16 4 i)) s; imm = field 0 12 i
            in load_reg (unat (field 12 4 i)) (fetch_word (rmem s) (if bit i 23 then base + imm else base - imm)) (skip 4 s))
      else if is_a32_branch i
      then (if bit i 24 then link_reg (rpc s + 4) s else s)\<lparr>rpc := rpc s + 8 + push_bit 2 (signed_take_bit 23 (field 0 24 i))\<rparr>
      else (let imm = a32_expand (field 0 12 i)
            in load_reg (unat (field 12 4 i)) (if field 20 8 i = 0x28 then rpc s + 8 + imm else rpc s + 8 - imm) (skip 4 s)))"

section \<open>Thumb state\<close>

definition t_half :: "u16 \<Rightarrow> u32" where
  "t_half h = ucast h"

definition t_wide :: "u16 \<Rightarrow> bool" where
  "t_wide h \<longleftrightarrow> 29 \<le> field 11 5 (t_half h)"

definition t_base :: "arm_cpu \<Rightarrow> u32" where
  "t_base s = ALIGN_FLOOR (rpc s + 4) 4"

definition t16_exec :: "arm_other \<Rightarrow> u16 \<Rightarrow> arm_cpu \<Rightarrow> arm_cpu" where
  "t16_exec other h s =
     (let i = t_half h
      in if i = 0xbf00 then skip 2 s
         else if field 12 4 i = 13 \<and> field 8 4 i < 14
         then (if arm_cond (field 8 4 i) s then skip (4 + push_bit 1 (signed_take_bit 7 (field 0 8 i))) s else skip 2 s)
         else if field 11 5 i = 28 then skip (4 + push_bit 1 (signed_take_bit 10 (field 0 11 i))) s
         else if i AND 0xf500 = 0xb100
         then (if (rr s (unat (field 0 3 i)) = 0) \<noteq> bit i 11 then skip (4 + (push_bit 6 (field 9 1 i) OR push_bit 1 (field 3 5 i))) s else skip 2 s)
         else if field 11 5 i = 9
         then load_reg (unat (field 8 3 i)) (fetch_word (rmem s) (t_base s + push_bit 2 (field 0 8 i))) (skip 2 s)
         else if field 11 5 i = 20 then load_reg (unat (field 8 3 i)) (t_base s + push_bit 2 (field 0 8 i)) (skip 2 s)
         else other (T16 h) s)"

text \<open>The displacement of \<^verbatim>\<open>b.w\<close> and \<^verbatim>\<open>bl\<close>, of \<^verbatim>\<open>blx\<close> and of the conditional \<^verbatim>\<open>b.w\<close>.\<close>

definition t32_offset :: "u32 \<Rightarrow> u32 \<Rightarrow> u32" where
  "t32_offset i j =
     (let S = field 10 1 i; I1 = (field 13 1 j XOR S) XOR 1; I2 = (field 11 1 j XOR S) XOR 1
      in signed_take_bit 24 (push_bit 24 S OR push_bit 23 I1 OR push_bit 22 I2 OR push_bit 12 (field 0 10 i) OR push_bit 1 (field 0 11 j)))"

definition t32_cond_offset :: "u32 \<Rightarrow> u32 \<Rightarrow> u32" where
  "t32_cond_offset i j =
     signed_take_bit 20 (push_bit 20 (field 10 1 i) OR push_bit 19 (field 11 1 j) OR push_bit 18 (field 13 1 j)
                         OR push_bit 12 (field 0 6 i) OR push_bit 1 (field 0 11 j))"

definition is_t32_branch :: "u32 \<Rightarrow> u32 \<Rightarrow> bool" where
  "is_t32_branch i j \<longleftrightarrow> i AND 0xf800 = 0xf000 \<and> bit j 15"

definition is_t32_bcond :: "u32 \<Rightarrow> u32 \<Rightarrow> bool" where
  "is_t32_bcond i j \<longleftrightarrow> is_t32_branch i j \<and> \<not> bit j 14 \<and> \<not> bit j 12 \<and> field 6 4 i < 14"

definition is_t32_b :: "u32 \<Rightarrow> u32 \<Rightarrow> bool" where
  "is_t32_b i j \<longleftrightarrow> is_t32_branch i j \<and> \<not> bit j 14 \<and> bit j 12"

definition is_t32_bl :: "u32 \<Rightarrow> u32 \<Rightarrow> bool" where
  "is_t32_bl i j \<longleftrightarrow> is_t32_branch i j \<and> bit j 14 \<and> bit j 12"

definition is_t32_blx :: "u32 \<Rightarrow> u32 \<Rightarrow> bool" where
  "is_t32_blx i j \<longleftrightarrow> is_t32_branch i j \<and> bit j 14 \<and> \<not> bit j 12 \<and> \<not> bit j 0"

definition is_t32_ldr_lit :: "u32 \<Rightarrow> bool" where
  "is_t32_ldr_lit i \<longleftrightarrow> i AND 0xff7f = 0xf85f"

definition is_t32_ldr :: "u32 \<Rightarrow> bool" where
  "is_t32_ldr i \<longleftrightarrow> i AND 0xfff0 = 0xf8d0 \<and> field 0 4 i \<noteq> 15"

definition is_t32_adr :: "u32 \<Rightarrow> u32 \<Rightarrow> bool" where
  "is_t32_adr i j \<longleftrightarrow> (i AND 0xfbff = 0xf20f \<or> i AND 0xfbff = 0xf2af) \<and> \<not> bit j 15"

definition is_t32_movw :: "u32 \<Rightarrow> u32 \<Rightarrow> bool" where
  "is_t32_movw i j \<longleftrightarrow> i AND 0xfbf0 = 0xf240 \<and> \<not> bit j 15"

definition t32_exec :: "arm_other \<Rightarrow> u16 \<Rightarrow> u16 \<Rightarrow> arm_cpu \<Rightarrow> arm_cpu" where
  "t32_exec other h1 h2 s =
     (let i = t_half h1; j = t_half h2; rt = unat (field 12 4 j)
      in if is_t32_bcond i j
         then (if arm_cond (field 6 4 i) s then skip (4 + t32_cond_offset i j) s else skip 4 s)
         else if is_t32_b i j then skip (4 + t32_offset i j) s
         else if is_t32_bl i j then skip (4 + t32_offset i j) (link_reg (rpc s + 4 OR 1) s)
         else if is_t32_blx i j then (link_reg (rpc s + 4 OR 1) s)\<lparr>rpc := t_base s + t32_offset i j, rthumb := False\<rparr>
         else if is_t32_ldr_lit i
         then load_reg rt (fetch_word (rmem s) (if bit i 7 then t_base s + field 0 12 j else t_base s - field 0 12 j)) (skip 4 s)
         else if is_t32_ldr i then load_reg rt (fetch_word (rmem s) (rr s (unat (field 0 4 i)) + field 0 12 j)) (skip 4 s)
         else if is_t32_adr i j
         then (let imm = push_bit 11 (field 10 1 i) OR push_bit 8 (field 12 3 j) OR field 0 8 j
               in load_reg (unat (field 8 4 j)) (if bit i 7 then t_base s - imm else t_base s + imm) (skip 4 s))
         else if is_t32_movw i j
         then load_reg (unat (field 8 4 j))
                (push_bit 12 (field 0 4 i) OR push_bit 11 (field 10 1 i) OR push_bit 8 (field 12 3 j) OR field 0 8 j) (skip 4 s)
         else other (T32 h1 h2) s)"

section \<open>Execution\<close>

definition arm_instr_at :: "arm_cpu \<Rightarrow> arm_instr" where
  "arm_instr_at s =
     (if rthumb s
      then (let h = fetch_half (rmem s) (rpc s) in if t_wide h then T32 h (fetch_half (rmem s) (rpc s + 2)) else T16 h)
      else A32 (fetch_word (rmem s) (rpc s)))"

definition arm_exec :: "arm_other \<Rightarrow> arm_instr \<Rightarrow> arm_cpu \<Rightarrow> arm_cpu" where
  "arm_exec other i s = (case i of A32 w \<Rightarrow> a32_exec other w s | T16 h \<Rightarrow> t16_exec other h s | T32 h1 h2 \<Rightarrow> t32_exec other h1 h2 s)"

inductive arm_reaches :: "arm_other \<Rightarrow> arm_cpu \<Rightarrow> arm_cpu \<Rightarrow> bool" for other where
  arm_refl: "arm_reaches other s s"
| arm_step: "arm_reaches other (arm_exec other (arm_instr_at s) s) t \<Longrightarrow> arm_reaches other s t"

lemma arm_reaches_trans: "arm_reaches other s t \<Longrightarrow> arm_reaches other t u \<Longrightarrow> arm_reaches other s u"
  by (induction rule: arm_reaches.induct) (auto intro: arm_step)

lemma arm_one: "arm_exec other (arm_instr_at s) s = t \<Longrightarrow> arm_reaches other s t"
  using arm_step arm_refl by metis

fun halves_at :: "(u64 \<Rightarrow> u8) \<Rightarrow> u32 \<Rightarrow> u16 list \<Rightarrow> bool" where
  "halves_at m a [] \<longleftrightarrow> True"
| "halves_at m a (h # hs) \<longleftrightarrow> fetch_half m a = h \<and> halves_at m (a + 2) hs"

fun words_at :: "(u64 \<Rightarrow> u8) \<Rightarrow> u32 \<Rightarrow> u32 list \<Rightarrow> bool" where
  "words_at m a [] \<longleftrightarrow> True"
| "words_at m a (w # ws) \<longleftrightarrow> fetch_word m a = w \<and> words_at m (a + 4) ws"

definition half_bytes :: "u16 list \<Rightarrow> u8 list" where
  "half_bytes hs = concat (map (le_bytes 2) hs)"

definition word_bytes :: "u32 list \<Rightarrow> u8 list" where
  "word_bytes ws = concat (map (le_bytes 4) ws)"

lemma step_t16:
  assumes "rthumb s" and "fetch_half (rmem s) (rpc s) = h" and "\<not> t_wide h"
  shows "arm_reaches other s (t16_exec other h s)"
  using assms by (intro arm_one) (simp add: arm_instr_at_def arm_exec_def Let_def)

lemma step_t32:
  assumes "rthumb s" and "fetch_half (rmem s) (rpc s) = h1" and "fetch_half (rmem s) (rpc s + 2) = h2" and "t_wide h1"
  shows "arm_reaches other s (t32_exec other h1 h2 s)"
  using assms by (intro arm_one) (simp add: arm_instr_at_def arm_exec_def Let_def)

lemma step_a32:
  assumes "\<not> rthumb s" and "fetch_word (rmem s) (rpc s) = w"
  shows "arm_reaches other s (a32_exec other w s)"
  using assms by (intro arm_one) (simp add: arm_instr_at_def arm_exec_def Let_def)

lemma cpu_fields [simp]:
  "rmem (skip n s) = rmem s" "rr (skip n s) = rr s" "rthumb (skip n s) = rthumb s" "rnzcv (skip n s) = rnzcv s" "rpc (skip n s) = rpc s + n"
  "rmem (link_reg v s) = rmem s" "rpc (link_reg v s) = rpc s" "rthumb (link_reg v s) = rthumb s" "rnzcv (link_reg v s) = rnzcv s"
  "rmem (bx_to v s) = rmem s" "rr (bx_to v s) = rr s" "rnzcv (bx_to v s) = rnzcv s" "rpc (bx_to v s) = v AND NOT 1" "rthumb (bx_to v s) = bit v 0"
  "rmem (load_reg r v s) = rmem s" "rnzcv (load_reg r v s) = rnzcv s"
  by (simp_all add: skip_def link_reg_def bx_to_def load_reg_def)

lemma bx_to_absorbs [simp]: "bx_to v (s\<lparr>rpc := p\<rparr>) = bx_to v s" "bx_to v (skip n s) = bx_to v s" "skip 0 s = s" "skip m (skip n s) = skip (n + m) s"
  by (simp_all add: bx_to_def skip_def add.assoc)

subsection \<open>The instructions of the generated code\<close>

lemma t32_ldr_pc: "t32_exec other 0xf85f 0xf000 s = bx_to (fetch_word (rmem s) (t_base s)) s" "t_wide 0xf85f"
  by (simp_all add: t32_exec_def t_half_def t_wide_def is_t32_bcond_def is_t32_b_def is_t32_bl_def is_t32_blx_def is_t32_branch_def is_t32_ldr_lit_def
      field_def load_reg_def)

lemma arm_cond_always [simp]: "arm_cond 14 s"
  by (cases "rnzcv s") (simp add: arm_cond_def)

lemma a32_ldr_pc: "a32_exec other 0xe51ff004 s = bx_to (fetch_word (rmem s) (rpc s + 4)) s"
  by (simp add: a32_exec_def is_a32_ldr_def field_def load_reg_def a32_reg_def bit_iff_odd) (simp only: add.commute)

lemma t32_skips:
  "t32_exec other 0xf000 0xf802 s = skip 8 (link_reg (rpc s + 4 OR 1) s)" "t32_exec other 0xf000 0xb804 s = skip 12 s"
  "t32_exec other 0xf000 0xb802 s = skip 8 s" "t_wide 0xf000"
  by (simp_all add: t32_exec_def t_half_def t_wide_def is_t32_bcond_def is_t32_b_def is_t32_bl_def is_t32_blx_def is_t32_branch_def
      t32_offset_def field_def signed_take_bit_def)

lemma t16_nop: "t16_exec other 0xbf00 s = skip 2 s" "\<not> t_wide 0xbf00"
  by (simp_all add: t16_exec_def t_half_def t_wide_def field_def)

subsection \<open>Code in memory\<close>

lemma half_bytes_simps [simp]:
  "half_bytes [] = []" "half_bytes (h # hs) = le_bytes 2 h @ half_bytes hs" "half_bytes (hs @ gs) = half_bytes hs @ half_bytes gs"
  by (simp_all add: half_bytes_def)

lemma length_half_bytes [simp]: "length (half_bytes hs) = 2 * length hs"
  by (induction hs) simp_all

text \<open>The bytes at an address of the machine.\<close>

definition fetch_bytes :: "(u64 \<Rightarrow> u8) \<Rightarrow> u32 \<Rightarrow> nat \<Rightarrow> u8 list" where
  "fetch_bytes m a n = map (\<lambda>k. m (ucast (a + of_nat k))) [0..<n]"

lemma length_fetch_bytes [simp]: "length (fetch_bytes m a n) = n"
  by (simp add: fetch_bytes_def)

lemma fetch_bytes_append: "fetch_bytes m a (k + n) = fetch_bytes m a k @ fetch_bytes m (a + of_nat k) n"
  by (induction n) (simp_all add: fetch_bytes_def add.assoc)

lemma fetch_as_bytes: "fetch_half m a = le_word (fetch_bytes m a 2)" "fetch_word m a = le_word (fetch_bytes m a 4)"
  by (simp_all add: fetch_half_def fetch_word_def fetch_bytes_def upt_rec)

lemma halves_at_bytes: "fetch_bytes m a (2 * length hs) = half_bytes hs \<Longrightarrow> halves_at m a hs"
proof (induction hs arbitrary: a)
  case (Cons h hs)
  have "fetch_bytes m a (2 + 2 * length hs) = le_bytes 2 h @ half_bytes hs" using Cons.prems by simp
  then have "fetch_bytes m a 2 = le_bytes 2 h \<and> fetch_bytes m (a + 2) (2 * length hs) = half_bytes hs"
    unfolding fetch_bytes_append by (subst (asm) append_eq_append_conv) simp_all
  then show ?case using Cons.IH [of "a + 2"] by (simp add: fetch_as_bytes)
qed simp

lemma halves_at_append: "halves_at m a (hs @ gs) \<longleftrightarrow> halves_at m a hs \<and> halves_at m (a + 2 * of_nat (length hs)) gs"
  by (induction hs arbitrary: a) (simp_all add: algebra_simps)

text \<open>A word is two halfwords.\<close>

definition lit32 :: "u32 \<Rightarrow> u16 list" where
  "lit32 v = [ucast v, ucast (drop_bit 16 v)]"

lemma half_bytes_lit32: "half_bytes (lit32 v) = le_bytes 4 v"
proof -
  have "ucast (drop_bit k (ucast w :: u16)) = (ucast (drop_bit k w) :: u8)" if "k \<le> 8" for w :: u32 and k
    using that by (intro bit_word_eqI) (auto simp: bit_unsigned_iff bit_drop_bit_eq)
  from this [of 0] this [of 8] show ?thesis by (simp add: lit32_def le_bytes_numeral)
qed

lemma fetch_word_lit: "halves_at m a (lit32 v) \<Longrightarrow> fetch_word m a = v"
proof -
  assume "halves_at m a (lit32 v)"
  then have h: "fetch_half m a = ucast v" "fetch_half m (a + 2) = ucast (drop_bit 16 v)" by (simp_all add: lit32_def)
  have c: "le_word bs = (ucast (le_word bs :: u16) :: u32)" if "length bs = 2" for bs
    using that by (intro bit_word_eqI) (auto simp: bit_le_word bit_unsigned_iff)
  have "fetch_bytes m a (2 + 2) = fetch_bytes m a 2 @ fetch_bytes m (a + 2) 2" unfolding fetch_bytes_append by simp
  then have "fetch_word m a = ucast (fetch_half m a) OR push_bit 16 (ucast (fetch_half m (a + 2)))"
    by (simp add: fetch_as_bytes le_word_append c)
  also have "\<dots> = v" unfolding h
    by (rule bit_word_eqI) (auto simp: bit_or_iff bit_push_bit_iff bit_unsigned_iff bit_drop_bit_eq)
  finally show ?thesis .
qed

lemma fetch_load: "unat p + n \<le> 2 ^ 32 \<Longrightarrow> fetch_bytes m p n = load_mem m (ucast p) n"
  by (auto simp: fetch_bytes_def load_mem_def ucast_add_small)

lemma fetch_written:
  assumes "unat p + length bs \<le> 2 ^ 32"
  shows "fetch_bytes (write_mem (ucast p) bs m) p (length bs) = bs"
  using load_written [of bs 0 "length bs" "ucast p" m] assms by (simp add: fetch_load)

lemma halves_written:
  assumes "unat p + 2 * length hs \<le> 2 ^ 32"
  shows "halves_at (write_mem (ucast p) (half_bytes hs) m) p hs"
  using fetch_written [of p "half_bytes hs" m] assms by (intro halves_at_bytes) simp

end
