(* ===== verification/Arm_Relocation_Correct.thy ===== *)
theory Arm_Relocation_Correct
  imports Arm_Relocation Arm_Machine
begin

text \<open>
  What the relocated ARM and Thumb code does on the machine.
\<close>

section \<open>Emitting halfwords\<close>

definition puts :: "u16 list \<Rightarrow> arm_op \<Rightarrow> bool" where
  "puts hs f \<longleftrightarrow> (\<forall>a. f a = Inr (a\<lparr>asm_buffer := asm_buffer a @ half_bytes hs\<rparr>))"

lemma putsD: "puts hs f \<Longrightarrow> f a = Inr (a\<lparr>asm_buffer := asm_buffer a @ half_bytes hs\<rparr>)"
  by (simp add: puts_def)

lemma puts_do_all: "list_all2 puts hss fs \<Longrightarrow> puts (concat hss) (do_all fs)"
  by (induction hss fs rule: list_all2_induct) (auto simp: puts_def)

lemma puts_half: "puts [h] (EmitInt16 h)"
  by (simp add: puts_def EmitInt16_def emit_bytes_def)

lemma puts_address: "puts (lit32 v) (EmitAddress v)"
  by (simp add: puts_def EmitAddress_def emit_bytes_def half_bytes_lit32)

lemma puts_two: "puts [h, g] (do_all [EmitInt16 h, EmitInt16 g])"
  using puts_do_all [of "[[h], [g]]"] puts_half by simp

lemma puts_nop: "puts [0xbf00] t1_nop"
  unfolding t1_nop_def by (rule puts_half)

lemma puts_branches: "puts [0xf000, 0xf802] (t2_bl 4)" "puts [0xf000, 0xb804] (t2_b 8)" "puts [0xf000, 0xb802] (t2_b 4)" "puts [0xf000, 0xb800] (t2_b 0)"
proof -
  have "t2_bl 4 = do_all [EmitInt16 0xf000, EmitInt16 0xf802]" "t2_b 8 = do_all [EmitInt16 0xf000, EmitInt16 0xb804]"
    "t2_b 4 = do_all [EmitInt16 0xf000, EmitInt16 0xb802]" "t2_b 0 = do_all [EmitInt16 0xf000, EmitInt16 0xb800]"
    by (simp_all add: t2_bl_def t2_b_def EmitThumb2Branch_def LeftShift_def Let_def)
  then show "puts [0xf000, 0xf802] (t2_bl 4)" "puts [0xf000, 0xb804] (t2_b 8)" "puts [0xf000, 0xb802] (t2_b 4)" "puts [0xf000, 0xb800] (t2_b 0)"
    by (simp_all only: puts_two)
qed

lemma puts_ldr_pc: "puts [0xf85f, 0xf000] (t2_ldr arm_pc (arm_mem arm_pc 0 arm_Offset))"
proof -
  have "t2_ldr arm_pc (arm_mem arm_pc 0 arm_Offset) = do_all [EmitInt16 0xf85f, EmitInt16 0xf000]"
    by (simp add: t2_ldr_def EmitThumb2LoadStore_def EmitThumb2LoadLiteral_def arm_mem_def arm_pc_def Let_def)
  then show ?thesis by (simp only: puts_two)
qed

lemma puts_ldr_literal: "puts [0xf8df, ucast (push_bit 12 rt OR 4)] (t2_ldr rt (arm_mem arm_pc 4 arm_Offset))"
proof -
  have "t2_ldr rt (arm_mem arm_pc 4 arm_Offset) = do_all [EmitInt16 0xf8df, EmitInt16 (ucast (push_bit 12 rt OR 4))]"
    by (simp add: t2_ldr_def EmitThumb2LoadStore_def EmitThumb2LoadLiteral_def arm_mem_def arm_pc_def Let_def)
  then show ?thesis by (simp only: puts_two)
qed

lemma puts_ldr_self:
  "puts (if rt = 15 then [0xf85f, 0xf000] else [ucast (0xf8d0 OR rt), ucast (push_bit 12 rt)]) (t2_ldr rt (arm_mem rt 0 arm_Offset))"
proof (cases "rt = 15")
  case True
  then show ?thesis using puts_ldr_pc by (simp add: arm_pc_def)
next
  case False
  then have "t2_ldr rt (arm_mem rt 0 arm_Offset) = do_all [EmitInt16 (ucast (0xf8d0 OR rt)), EmitInt16 (ucast (push_bit 12 rt))]"
    by (simp add: t2_ldr_def EmitThumb2LoadStore_def arm_mem_def arm_pc_def)
  then show ?thesis using False puts_two by simp
qed

definition t_pad :: "arm_asm \<Rightarrow> u16 list" where
  "t_pad a = (if (of_nat (length (asm_buffer a)) + ucast (realized_address a) :: u32) mod 4 \<noteq> 0 then [0xbf00] else [])"

lemma AlignThumbNop_eq: "AlignThumbNop a = Inr (a\<lparr>asm_buffer := asm_buffer a @ half_bytes (t_pad a)\<rparr>)"
  using putsD [OF puts_nop, of a] by (simp add: AlignThumbNop_def t_pad_def Thumb2_INST_LEN_def Let_def)

lemma align_then:
  assumes "puts hs (do_all fs)"
  shows "do_all (AlignThumbNop # fs) a = Inr (a\<lparr>asm_buffer := asm_buffer a @ half_bytes (t_pad a @ hs)\<rparr>)"
  using putsD [OF assms] by (simp add: AlignThumbNop_eq)

section \<open>Thumb-2 instructions\<close>

lemma bit_scast_half: "k < 16 \<Longrightarrow> bit (scast (h :: u16) :: u32) k = bit h k"
  by (cases "k = 15") (auto simp: bit_signed_iff min_def)

lemma bit_t_half: "bit (t_half h) k \<longleftrightarrow> bit h k"
  using bit_imp_le_length [of h k] by (auto simp: t_half_def bit_unsigned_iff)

lemma field_scast: "st + n \<le> 16 \<Longrightarrow> field st n (scast (h :: u16) :: u32) = field st n (t_half h)"
  by (rule bit_word_eqI) (auto simp: bit_field_iff bit_scast_half bit_t_half)

lemma and_scast:
  assumes "take_bit 16 m = m"
  shows "(scast (h :: u16) :: u32) AND m = t_half h AND m"
proof -
  have "bit m n \<Longrightarrow> n < 16" for n using assms bit_take_bit_iff [of 16 m n] by simp
  then show ?thesis by (intro bit_word_eqI) (auto simp: bit_and_iff bit_scast_half bit_t_half)
qed

definition t2_bl_piece :: "u32 \<Rightarrow> u16 list" where
  "t2_bl_piece v = [0xf000, 0xf802, 0xf000, 0xb804, 0xf85f, 0xf000] @ lit32 v"

text \<open>What the relocator takes for an \<^verbatim>\<open>adr.w\<close>: bit 6 is tested in the second halfword instead of the first.\<close>

definition t2_adr_seen :: "u32 \<Rightarrow> u32 \<Rightarrow> bool" where
  "t2_adr_seen i j \<longleftrightarrow> (i AND 0xfbbf = 0xf20f \<or> i AND 0xfbbf = 0xf2af) \<and> \<not> bit j 15 \<and> \<not> bit j 6"

text \<open>The halfwords that the relocation of a 32-bit Thumb instruction emits.\<close>

definition t2_piece :: "u16 \<Rightarrow> u16 \<Rightarrow> u32 \<Rightarrow> u16 list" where
  "t2_piece h1 h2 pc =
     (let i = t_half h1; j = t_half h2
      in if is_t32_bcond i j
         then [h1 AND 0xffc0, (h2 AND 0xd000) OR 2, 0xf000, 0xb802, 0xf85f, 0xf000] @ lit32 (pc + t32_cond_offset i j + 1)
         else if is_t32_b i j then [0xf85f, 0xf000] @ lit32 (pc + t32_offset i j + 1)
         else if is_t32_bl i j then t2_bl_piece (pc + t32_offset i j + 1)
         else if is_t32_branch i j \<and> bit j 14 \<and> \<not> bit j 12 then t2_bl_piece (ALIGN_FLOOR pc 4 + t32_offset i (j AND 0xfffe))
         else if t2_adr_seen i j
         then (let imm = push_bit 11 (field 10 1 i) OR push_bit 8 (field 12 3 j) OR field 0 8 j
               in [0xf8df, ucast (push_bit 12 (field 8 4 j) OR 4), 0xf000, 0xb800] @ lit32 (if bit i 7 then pc - imm else pc + imm))
         else if is_t32_ldr_lit i
         then (let rt = field 12 4 j
               in [0xf8df, ucast (push_bit 12 rt OR 4), 0xf000, 0xb802]
                  @ lit32 (ALIGN_FLOOR (if bit i 7 then pc + field 0 12 j else pc - field 0 12 j) 4)
                  @ (if rt = 15 then [0xf85f, 0xf000] else [ucast (0xf8d0 OR rt), ucast (push_bit 12 rt)]))
         else [h1, h2])"

lemma field_1: "field st 1 (w :: 'a::len word) = (if bit w st then 1 else 0)"
  using bit_of_cases [of w st] by (simp only: bit_of_field)

lemma sign_part:
  fixes r :: u32
  assumes "take_bit 24 r = r" and "S = 0 \<or> S = 1"
  shows "push_bit 24 (- S) OR r = signed_take_bit 24 (push_bit 24 S OR r)"
proof -
  have r: "bit r n \<Longrightarrow> n < 24" for n using assms(1) bit_take_bit_iff [of 24 r n] by simp
  show ?thesis
  proof (cases "S = 0")
    case True
    moreover have "\<not> bit r n" if "24 \<le> n" for n using r [of n] that by auto
    ultimately show ?thesis by (intro bit_word_eqI) (auto simp: bit_signed_take_bit_iff min_def)
  next
    case False
    then have "S = 1" using assms(2) by simp
    then have S: "bit (- S) k \<longleftrightarrow> k < 32" "bit S k \<longleftrightarrow> k = 0" for k by (simp_all add: bit_1_iff bit_minus_1_iff)
    have "\<not> bit r n" if "24 \<le> n" for n using r [of n] that by auto
    then show ?thesis by (intro bit_word_eqI) (auto simp: bit_signed_take_bit_iff bit_or_iff bit_push_bit_iff S min_def)
  qed
qed

lemma take_bit_parts: "take_bit n (a OR b) = take_bit n a OR take_bit n (b :: 'a::len word)"
  by (rule bit_word_eqI) (auto simp: bit_take_bit_iff bit_or_iff)

lemma take_bit_push:
  fixes c :: "'a::len word"
  assumes "take_bit m c = c" and "k + m \<le> n"
  shows "take_bit n (push_bit k c) = push_bit k c"
proof -
  have "bit c i \<Longrightarrow> i < m" for i using assms(1) bit_take_bit_iff [of m c i] by simp
  then show ?thesis using assms(2) by (intro bit_word_eqI) (fastforce simp: bit_take_bit_iff bit_push_bit_iff)
qed

lemma t2_label_eq:
  assumes "low = push_bit 1 (field 0 11 (t_half h3))"
  shows "t2_label (scast h1) (scast h2) low
     = (let i = t_half h1; j = t_half h2; S = field 10 1 i; I1 = (field 13 1 j XOR S) XOR 1; I2 = (field 11 1 j XOR S) XOR 1
        in signed_take_bit 24 (push_bit 24 S OR push_bit 23 I1 OR push_bit 22 I2 OR push_bit 12 (field 0 10 i) OR low))"
proof -
  let ?i = "t_half h1" and ?j = "t_half h2"
  have f: "bit_of (scast h1) 10 = field 10 1 ?i" "bit_of (scast h2) 13 = field 13 1 ?j" "bit_of (scast h2) 11 = field 11 1 ?j"
      "bits_of (scast h1) 0 9 = field 0 10 ?i"
    by (simp_all add: bit_of_field bits_of_field field_scast)
  have n: "not_bit (field 13 1 ?j XOR field 10 1 ?i) = (field 13 1 ?j XOR field 10 1 ?i) XOR 1"
      "not_bit (field 11 1 ?j XOR field 10 1 ?i) = (field 11 1 ?j XOR field 10 1 ?i) XOR 1"
    unfolding field_1 not_bit_def by simp_all
  have b: "take_bit 1 ((field 13 1 ?j XOR field 10 1 ?i) XOR 1) = (field 13 1 ?j XOR field 10 1 ?i) XOR 1"
      "take_bit 1 ((field 11 1 ?j XOR field 10 1 ?i) XOR 1) = (field 11 1 ?j XOR field 10 1 ?i) XOR 1"
      "take_bit 10 (field 0 10 ?i) = field 0 10 ?i" "take_bit 11 (field 0 11 (t_half h3)) = field 0 11 (t_half h3)"
    unfolding field_1 by (simp_all add: field_def)
  have S: "field 10 1 ?i = 0 \<or> field 10 1 ?i = 1" unfolding field_1 by simp
  note p = take_bit_push [OF b(1), of 23 24] take_bit_push [OF b(2), of 22 24] take_bit_push [OF b(3), of 12 24] take_bit_push [OF b(4), of 1 24]
  show ?thesis unfolding t2_label_def f Let_def assms n or.assoc
    by (rule sign_part [OF _ S]) (use p in \<open>simp add: take_bit_parts\<close>)
qed
lemma t2_label_branch: "t2_label (scast h1) (scast h2) (push_bit 1 (bits_of (scast h2) 0 10)) = t32_offset (t_half h1) (t_half h2)"
proof -
  have l: "bits_of (scast h2 :: u32) 0 10 = field 0 11 (t_half h2)" by (simp add: bits_of_field field_scast)
  show ?thesis unfolding l t2_label_eq [OF refl] t32_offset_def by (simp only: Let_def)
qed

lemma t2_label_exchange:
  "t2_label (scast h1) (scast h2) (push_bit 2 (bits_of (scast h2) 1 10)) = t32_offset (t_half h1) (t_half h2 AND 0xfffe)"
proof -
  let ?j = "t_half h2 AND 0xfffe"
  have m: "(0xfffe :: u32) = push_bit 1 (mask 15)" by (simp add: mask_eq_exp_minus_1)
  have b: "bit (0xfffe :: u32) n \<longleftrightarrow> 1 \<le> n \<and> n < 16" for n unfolding m bit_push_bit_iff bit_mask_iff by auto
  have f: "field k n ?j = field k n (t_half h2)" if "1 \<le> k" "k + n \<le> 16" for k n
    using that by (intro bit_word_eqI) (auto simp only: bit_field_iff bit_and_iff b)
  have e: "Suc (n - 2) = n - Suc 0" if "2 \<le> n" for n :: nat using that by simp
  have l: "push_bit 2 (bits_of (scast h2 :: u32) 1 10) = push_bit 1 (field 0 11 ?j)"
    by (rule bit_word_eqI) (auto simp only: bits_of_field field_scast bit_push_bit_iff bit_field_iff bit_and_iff b; auto simp: e)
  have h: "?j = t_half (h2 AND 0xfffe)" by (simp add: t_half_def unsigned_and_eq)
  show ?thesis unfolding l t2_label_eq [OF arg_cong [OF h, of "\<lambda>j. push_bit 1 (field 0 11 j)"]] t32_offset_def using f [of 13 1] f [of 11 1] by (simp add: Let_def)
qed

lemma and_mask_field:
  fixes w :: "'a::len word"
  shows "w AND push_bit k (mask m) = push_bit k (field k m w)"
  by (rule bit_word_eqI) (auto simp: bit_and_iff bit_push_bit_iff bit_mask_iff bit_field_iff)

lemma and_bit_15: "w AND (0x8000 :: u32) = (if bit w 15 then 0x8000 else 0)"
proof -
  have "(0x8000 :: u32) = push_bit 15 (mask 1)" by simp
  then have "w AND 0x8000 = push_bit 15 (field 15 1 w)" by (simp only: and_mask_field)
  then show ?thesis unfolding field_1 by simp
qed

lemma and_5: "w AND (5 :: u32) = (if bit w 0 then 1 else 0) OR (if bit w 2 then 4 else 0)"
proof -
  have "(5 :: u32) = push_bit 0 (mask 1) OR push_bit 2 (mask 1)" by simp
  then have "w AND 5 = push_bit 0 (field 0 1 w) OR push_bit 2 (field 2 1 w)" by (simp only: bit.conj_disj_distrib and_mask_field)
  then show ?thesis unfolding field_1 by simp
qed

lemma and_2: "w AND (2 :: u32) = (if bit w 1 then 2 else 0)"
proof -
  have "(2 :: u32) = push_bit 1 (mask 1)" by simp
  then have "w AND 2 = push_bit 1 (field 1 1 w)" by (simp only: and_mask_field)
  then show ?thesis unfolding field_1 by simp
qed

lemma cond_below_14: "field st 4 (w :: u32) AND 14 \<noteq> 14 \<longleftrightarrow> field st 4 w < 14"
proof -
  let ?c = "field st 4 w"
  have "unat ?c < 16" using unat_take_bit_less [of 4 "drop_bit st w"] by (simp add: field_def)
  then have "unat ?c \<in> set [0..<16]" by simp
  then have "?c \<in> of_nat ` set [0..<16]" by (intro image_eqI [of _ _ "unat ?c"]) simp_all
  moreover have "\<forall>c \<in> of_nat ` set [0..<16]. (c :: u32) AND 14 \<noteq> 14 \<longleftrightarrow> c < 14" by code_simp
  ultimately show ?thesis by blast
qed

lemma puts_jump: "puts ([0xf85f, 0xf000] @ lit32 v) (do_all [t2_ldr arm_pc (arm_mem arm_pc 0 arm_Offset), EmitAddress v])"
  using puts_do_all [of "[[0xf85f, 0xf000], lit32 v]"] puts_ldr_pc puts_address by simp

lemma puts_call:
  "puts (t2_bl_piece v) (do_all [t2_bl 4, t2_b 8, t2_ldr arm_pc (arm_mem arm_pc 0 arm_Offset), EmitAddress v])"
  using puts_do_all [of "[[0xf000, 0xf802], [0xf000, 0xb804], [0xf85f, 0xf000], lit32 v]"] puts_ldr_pc puts_address puts_branches
  by (simp add: t2_bl_piece_def)

lemma puts_cond:
  "puts ([h, g, 0xf000, 0xb802, 0xf85f, 0xf000] @ lit32 v)
     (do_all [EmitInt16 h, EmitInt16 g, t2_b 4, t2_ldr arm_pc (arm_mem arm_pc 0 arm_Offset), EmitAddress v])"
  using puts_do_all [of "[[h], [g], [0xf000, 0xb802], [0xf85f, 0xf000], lit32 v]"] puts_ldr_pc puts_address puts_branches puts_half by simp

lemma puts_adr:
  "puts ([0xf8df, ucast (push_bit 12 rd OR 4), 0xf000, 0xb800] @ lit32 v)
     (do_all [t2_ldr rd (arm_mem arm_pc 4 arm_Offset), t2_b 0, EmitAddress v])"
  using puts_do_all [of "[[0xf8df, ucast (push_bit 12 rd OR 4)], [0xf000, 0xb800], lit32 v]"] puts_ldr_literal puts_address puts_branches by simp

lemma puts_load:
  "puts ([0xf8df, ucast (push_bit 12 rt OR 4), 0xf000, 0xb802] @ lit32 v
         @ (if rt = 15 then [0xf85f, 0xf000] else [ucast (0xf8d0 OR rt), ucast (push_bit 12 rt)]))
     (do_all [t2_ldr rt (arm_mem arm_pc 4 arm_Offset), t2_b 4, EmitAddress v, t2_ldr rt (arm_mem rt 0 arm_Offset)])"
  using puts_do_all [of "[[0xf8df, ucast (push_bit 12 rt OR 4)], [0xf000, 0xb802], lit32 v,
      if rt = 15 then [0xf85f, 0xf000] else [ucast (0xf8d0 OR rt), ucast (push_bit 12 rt)]]"]
    puts_ldr_literal [of rt] puts_address puts_branches puts_ldr_self by simp

lemma mask_test:
  fixes w :: u32
  shows "w AND m = v \<longleftrightarrow> list_all (\<lambda>n. (bit w n \<and> bit m n) = bit v n) [0..<32]"
proof
  assume "list_all (\<lambda>n. (bit w n \<and> bit m n) = bit v n) [0..<32]"
  then show "w AND m = v" by (intro bit_word_eqI) (simp add: list_all_iff bit_and_iff)
qed (auto simp: list_all_iff bit_and_iff)

lemma field_test:
  fixes w :: u32
  shows "field st k w = v \<longleftrightarrow> list_all (\<lambda>n. (n < k \<and> bit w (st + n)) = bit v n) [0..<32]"
proof
  assume "list_all (\<lambda>n. (n < k \<and> bit w (st + n)) = bit v n) [0..<32]"
  then show "field st k w = v" by (intro bit_word_eqI) (simp add: list_all_iff bit_field_iff)
qed (auto simp: list_all_iff bit_field_iff)

lemma upto_32: "[0..<32] = [0, 1, 2, 3, 4, 5, 6, 7, 8, 9, 10, 11, 12, 13, 14, 15, 16, 17, 18, 19, 20, 21, 22, 23, 24, 25, 26, 27, 28, 29, 30, 31]"
  by (simp add: upt_rec)

lemmas by_bits = mask_test field_test upto_32

lemma adr_bits:
  fixes i :: u32
  shows "i AND 0xfa10 = 0xf200 \<and> \<not> bit i 8 \<and> bit i 7 = bit i 5 \<and> field 0 4 i = 15 \<longleftrightarrow> i AND 0xfbbf = 0xf20f \<or> i AND 0xfbbf = 0xf2af"
  unfolding by_bits by auto

lemma t2_adr_test:
  "(scast h1 :: u32) AND 0xfa10 = 0xf200 \<and> (scast h2 :: u32) AND 0x8000 = 0 \<and> bit_of (scast h1 :: u32) 8 = 0
     \<and> bits_of (scast h2 :: u32) 5 6 AND 2 = 0
     \<and> (bit_of (scast h1 :: u32) 7 = 0 \<and> bit_of (scast h1 :: u32) 5 = 0 \<or> bit_of (scast h1 :: u32) 7 = 1 \<and> bit_of (scast h1 :: u32) 5 = 1)
     \<and> bits_of (scast h1 :: u32) 0 3 = 15
   \<longleftrightarrow> t2_adr_seen (t_half h1) (t_half h2)"
  unfolding t2_adr_seen_def adr_bits [symmetric]
  by (auto simp: and_scast and_bit_15 and_2 bit_of_cases bits_of_field field_scast bit_scast_half bit_t_half bit_field_iff)

lemma ucast_masked:
  "ucast ((scast h :: u32) AND 0xffc0) = (h AND 0xffc0 :: u16)" "ucast (((scast h :: u32) AND 0xd000) OR 2) = ((h AND 0xd000) OR 2 :: u16)"
proof -
  have "ucast (scast h :: u32) = h" by (rule bit_word_eqI) (simp add: bit_unsigned_iff bit_scast_half)
  then show "ucast ((scast h :: u32) AND 0xffc0) = (h AND 0xffc0 :: u16)" "ucast (((scast h :: u32) AND 0xd000) OR 2) = ((h AND 0xd000) OR 2 :: u16)"
    by (simp_all add: unsigned_and_eq unsigned_or_eq)
qed

lemma sign_bit:
  fixes r :: u32
  assumes "take_bit 20 r = r"
  shows "push_bit 20 (sbits_of w 10 10) OR r = signed_take_bit 20 (push_bit 20 (field 10 1 w) OR r)"
proof -
  have "bit r n \<Longrightarrow> n < 20" for n using assms bit_take_bit_iff [of 20 r n] by simp
  then have r: "\<not> bit r n" if "20 \<le> n" for n using that by (meson not_le)
  have s: "bit (sbits_of w 10 10) k \<longleftrightarrow> k < 32 \<and> bit w 10" for k
    by (auto simp: sbits_of_def bit_of_cases bits_of_field bit_or_iff bit_not_iff submask_eq_mask bit_mask_iff bit_field_iff)
  have f: "bit (field 10 (Suc 0) w) k \<longleftrightarrow> k = 0 \<and> bit w 10" for k by (auto simp: bit_field_iff)
  show ?thesis using r by (intro bit_word_eqI) (auto simp: bit_signed_take_bit_iff bit_or_iff bit_push_bit_iff s f min_def)
qed

lemma t32_cond_offset_eq:
  "push_bit 20 (sbits_of (scast h1 :: u32) 10 10) OR push_bit 19 (bit_of (scast h2) 11) OR push_bit 18 (bit_of (scast h2) 13)
     OR push_bit 12 (bits_of (scast h1) 0 5) OR push_bit 1 (bits_of (scast h2) 0 10) = t32_cond_offset (t_half h1) (t_half h2)"
proof -
  let ?i = "t_half h1" and ?j = "t_half h2"
  have f: "bit_of (scast h2) 11 = field 11 1 ?j" "bit_of (scast h2) 13 = field 13 1 ?j" "bits_of (scast h1) 0 5 = field 0 6 ?i"
      "bits_of (scast h2) 0 10 = field 0 11 ?j" "field 10 1 ?i = field 10 1 (scast h1)"
    by (simp_all add: bit_of_field bits_of_field field_scast)
  have t: "take_bit 20 (push_bit k (field st n w)) = push_bit k (field st n (w :: u32))" if "k + n \<le> 20" for k st n w
    using that by (intro take_bit_push [of n]) (simp_all add: field_def)
  show ?thesis unfolding t32_cond_offset_def f or.assoc
    by (rule sign_bit) (use t [of 19 1] t [of 18 1] t [of 12 6] t [of 1 11] in \<open>simp add: take_bit_parts\<close>)
qed

lemma Thumb2_piece_branch:
  assumes "is_t32_branch (t_half h1) (t_half h2)"
  shows "Thumb2RelocateSingleInstr h1 h2 pc a = Inr (a\<lparr>asm_buffer := asm_buffer a @ half_bytes (t_pad a @ t2_piece h1 h2 pc)\<rparr>)"
proof -
  let ?i = "t_half h1" and ?j = "t_half h2"
  have br: "(scast h1 :: u32) AND 0xf800 = 0xf000" "(scast h2 :: u32) AND 0x8000 = 0x8000"
    using assms by (simp_all add: is_t32_branch_def and_scast and_bit_15 bit_scast_half bit_t_half)
  have op: "bits_of (scast h1 :: u32) 6 9 = field 6 4 ?i" "bits_of (scast h2 :: u32) 12 14 AND 5 = (if bit ?j 12 then 1 else 0) OR (if bit ?j 14 then 4 else 0)"
    by (simp_all add: bits_of_field field_scast and_5 bit_field_iff)
  note def = Thumb2RelocateSingleInstr_def Let_def br op cond_below_14 THUMB_ADDRESS_FLAG_def
  consider (bcond) "is_t32_bcond ?i ?j" | (b) "is_t32_b ?i ?j" | (bl) "is_t32_bl ?i ?j" | (blx) "bit ?j 14" "\<not> bit ?j 12"
    | (none) "\<not> bit ?j 14" "\<not> bit ?j 12" "\<not> field 6 4 ?i < 14"
    using assms by (auto simp: is_t32_bcond_def is_t32_b_def is_t32_bl_def)
  then show ?thesis
  proof cases
    case bcond
    then have c: "\<not> bit ?j 14" "\<not> bit ?j 12" "field 6 4 ?i < 14" by (simp_all add: is_t32_bcond_def)
    have "t2_piece h1 h2 pc = [h1 AND 0xffc0, (h2 AND 0xd000) OR 2, 0xf000, 0xb802, 0xf85f, 0xf000] @ lit32 (pc + t32_cond_offset ?i ?j + 1)"
      using bcond by (simp add: t2_piece_def Let_def)
    moreover have "Thumb2RelocateSingleInstr h1 h2 pc a = do_all (AlignThumbNop # [EmitInt16 (h1 AND 0xffc0), EmitInt16 ((h2 AND 0xd000) OR 2), t2_b 4,
        t2_ldr arm_pc (arm_mem arm_pc 0 arm_Offset), EmitAddress (pc + t32_cond_offset ?i ?j + 1)]) a"
      unfolding def t32_cond_offset_eq using c by (simp add: ucast_masked)
    ultimately show ?thesis using align_then [OF puts_cond] by (simp only:)
  next
    case b
    then have c: "\<not> bit ?j 14" "bit ?j 12" "\<not> is_t32_bcond ?i ?j" by (simp_all add: is_t32_bcond_def is_t32_b_def)
    have "t2_piece h1 h2 pc = [0xf85f, 0xf000] @ lit32 (pc + t32_offset ?i ?j + 1)" using b c by (simp add: t2_piece_def Let_def)
    moreover have "Thumb2RelocateSingleInstr h1 h2 pc a = do_all (AlignThumbNop # [t2_ldr arm_pc (arm_mem arm_pc 0 arm_Offset), EmitAddress (pc + t32_offset ?i ?j + 1)]) a"
      unfolding def t2_label_branch using c by simp
    ultimately show ?thesis using align_then [OF puts_jump] by (simp only:)
  next
    case bl
    then have c: "bit ?j 14" "bit ?j 12" "\<not> is_t32_bcond ?i ?j" "\<not> is_t32_b ?i ?j" by (simp_all add: is_t32_bcond_def is_t32_b_def is_t32_bl_def)
    have "t2_piece h1 h2 pc = t2_bl_piece (pc + t32_offset ?i ?j + 1)" using bl c by (simp add: t2_piece_def Let_def)
    moreover have "Thumb2RelocateSingleInstr h1 h2 pc a = do_all (AlignThumbNop # [t2_bl 4, t2_b 8, t2_ldr arm_pc (arm_mem arm_pc 0 arm_Offset),
        EmitAddress (pc + t32_offset ?i ?j + 1)]) a"
      unfolding def t2_label_branch using c by simp
    ultimately show ?thesis using align_then [OF puts_call] by (simp only:)
  next
    case blx
    then have c: "\<not> is_t32_bcond ?i ?j" "\<not> is_t32_b ?i ?j" "\<not> is_t32_bl ?i ?j" by (simp_all add: is_t32_bcond_def is_t32_b_def is_t32_bl_def)
    have "t2_piece h1 h2 pc = t2_bl_piece (ALIGN_FLOOR pc 4 + t32_offset ?i (?j AND 0xfffe))" using blx c assms by (simp add: t2_piece_def Let_def)
    moreover have "Thumb2RelocateSingleInstr h1 h2 pc a = do_all (AlignThumbNop # [t2_bl 4, t2_b 8, t2_ldr arm_pc (arm_mem arm_pc 0 arm_Offset),
        EmitAddress (ALIGN_FLOOR pc 4 + t32_offset ?i (?j AND 0xfffe))]) a"
      unfolding def t2_label_exchange using blx by simp
    ultimately show ?thesis using align_then [OF puts_call] by (simp only:)
  next
    case none
    have c: "\<not> is_t32_bcond ?i ?j" "\<not> is_t32_b ?i ?j" "\<not> is_t32_bl ?i ?j" "\<not> t2_adr_seen ?i ?j" "\<not> is_t32_ldr_lit ?i"
      using assms none by (auto simp: is_t32_bcond_def is_t32_b_def is_t32_bl_def t2_adr_seen_def is_t32_branch_def is_t32_ldr_lit_def by_bits)
    have "t2_piece h1 h2 pc = [h1, h2]" using none c assms by (simp add: t2_piece_def Let_def)
    moreover have "Thumb2RelocateSingleInstr h1 h2 pc a = do_all (AlignThumbNop # [EmitInt16 h1, EmitInt16 h2]) a"
      unfolding def using none by simp
    ultimately show ?thesis using align_then [OF puts_two] by (simp only:)
  qed
qed

lemma Thumb2_piece:
  "Thumb2RelocateSingleInstr h1 h2 pc a = Inr (a\<lparr>asm_buffer := asm_buffer a @ half_bytes (t_pad a @ t2_piece h1 h2 pc)\<rparr>)"
proof (cases "is_t32_branch (t_half h1) (t_half h2)")
  case True
  then show ?thesis by (rule Thumb2_piece_branch)
next
  case False
  let ?i = "t_half h1" and ?j = "t_half h2"
  have br: "((scast h1 :: u32) AND 0xf800 = 0xf000 \<and> (scast h2 :: u32) AND 0x8000 = 0x8000) = False"
    using False by (simp add: is_t32_branch_def and_scast and_bit_15 bit_scast_half bit_t_half)
  have c: "\<not> is_t32_bcond ?i ?j" "\<not> is_t32_b ?i ?j" "\<not> is_t32_bl ?i ?j" using False by (simp_all add: is_t32_bcond_def is_t32_b_def is_t32_bl_def)
  note def = Thumb2RelocateSingleInstr_def Let_def br if_False
  consider (adr) "t2_adr_seen ?i ?j" | (ldr) "\<not> t2_adr_seen ?i ?j" "is_t32_ldr_lit ?i" | (plain) "\<not> t2_adr_seen ?i ?j" "\<not> is_t32_ldr_lit ?i" by blast
  then show ?thesis
  proof cases
    case adr
    let ?imm = "push_bit 11 (field 10 1 ?i) OR push_bit 8 (field 12 3 ?j) OR field 0 8 ?j"
    have t: "((scast h1 :: u32) AND 0xfa10 = 0xf200 \<and> (scast h2 :: u32) AND 0x8000 = 0) = True"
        "(bit_of (scast h1 :: u32) 8 = 0 \<and> bits_of (scast h2 :: u32) 5 6 AND 2 = 0
          \<and> (bit_of (scast h1 :: u32) 7 = 0 \<and> bit_of (scast h1 :: u32) 5 = 0 \<or> bit_of (scast h1 :: u32) 7 = 1 \<and> bit_of (scast h1 :: u32) 5 = 1)
          \<and> bits_of (scast h1 :: u32) 0 3 = 15) = True"
      using adr unfolding t2_adr_test [symmetric] by blast+
    have m: "bits_of (scast h2 :: u32) 0 7 OR push_bit 8 (bits_of (scast h2) 12 14) OR push_bit 11 (bit_of (scast h1) 10) = ?imm"
        "bits_of (scast h2 :: u32) 8 11 = field 8 4 ?j"
      by (simp_all add: bits_of_field bit_of_field field_scast or.commute or.left_commute)
    have s: "(bit_of (scast h1 :: u32) 7 = 0 \<and> bit_of (scast h1 :: u32) 5 = 0) = (\<not> bit ?i 7)"
      using t(2) by (auto simp: bit_of_cases bit_scast_half bit_t_half split: if_splits)
    have "t2_piece h1 h2 pc = [0xf8df, ucast (push_bit 12 (field 8 4 ?j) OR 4), 0xf000, 0xb800] @ lit32 (if bit ?i 7 then pc - ?imm else pc + ?imm)"
      using False adr c by (simp add: t2_piece_def Let_def)
    moreover have "Thumb2RelocateSingleInstr h1 h2 pc a = do_all (AlignThumbNop # [t2_ldr (field 8 4 ?j) (arm_mem arm_pc 4 arm_Offset), t2_b 0,
        EmitAddress (if bit ?i 7 then pc - ?imm else pc + ?imm)]) a"
      unfolding def t if_True unfolding m s by (simp add: if_distrib)
    ultimately show ?thesis using align_then [OF puts_adr] by (simp only:)
  next
    case ldr
    let ?v = "ALIGN_FLOOR (if bit ?i 7 then pc + field 0 12 ?j else pc - field 0 12 ?j) 4"
    have t: "((scast h1 :: u32) AND 0xfa10 = 0xf200) = False" "(scast h1 :: u32) AND 0xff7f = 0xf85f"
      using ldr by (auto simp: is_t32_ldr_lit_def and_scast by_bits)
    have m: "bits_of (scast h2 :: u32) 0 11 = field 0 12 ?j" "bits_of (scast h2 :: u32) 12 15 = field 12 4 ?j"
        "(bit_of (scast h1 :: u32) 7 = 1) = bit ?i 7"
      by (simp_all add: bits_of_field bit_of_cases field_scast bit_scast_half bit_t_half)
    have "t2_piece h1 h2 pc = [0xf8df, ucast (push_bit 12 (field 12 4 ?j) OR 4), 0xf000, 0xb802] @ lit32 ?v
        @ (if field 12 4 ?j = 15 then [0xf85f, 0xf000] else [ucast (0xf8d0 OR field 12 4 ?j), ucast (push_bit 12 (field 12 4 ?j))])"
      using False ldr c by (simp add: t2_piece_def Let_def)
    moreover have "Thumb2RelocateSingleInstr h1 h2 pc a = do_all (AlignThumbNop # [t2_ldr (field 12 4 ?j) (arm_mem arm_pc 4 arm_Offset), t2_b 4, EmitAddress ?v,
        t2_ldr (field 12 4 ?j) (arm_mem (field 12 4 ?j) 0 arm_Offset)]) a"
      unfolding def t m by simp
    ultimately show ?thesis using align_then [OF puts_load] by (simp only:)
  next
    case plain
    have p: "t2_piece h1 h2 pc = [h1, h2]" using False plain c by (auto simp: t2_piece_def Let_def)
    have t: "((scast h1 :: u32) AND 0xff7f = 0xf85f) = False" using plain(2) by (simp add: is_t32_ldr_lit_def and_scast)
    have "Thumb2RelocateSingleInstr h1 h2 pc a = do_all (AlignThumbNop # [EmitInt16 h1, EmitInt16 h2]) a"
      using plain(1) unfolding t2_adr_test [symmetric] unfolding def t by auto
    then show ?thesis using align_then [OF puts_two] p by (simp only:)
  qed
qed

section \<open>What the pieces do\<close>

lemma odd_sum: "bit (a + b) 0 \<longleftrightarrow> bit a 0 \<noteq> bit (b :: u32) 0"
  by (simp add: bit_0)

lemma even_plus_one:
  fixes w :: u32
  assumes "\<not> bit w 0"
  shows "(w + 1) AND NOT 1 = w" "bit (w + 1) 0"
proof -
  have e: "w + 1 = w OR 1" using assms
    by (intro disjunctive_add_eq_or bit_word_eqI) (auto simp: bit_and_iff bit_1_iff intro: gr0I)
  show "(w + 1) AND NOT 1 = w" unfolding e using assms
    by (intro bit_word_eqI) (auto simp: bit_and_iff bit_or_iff bit_not_iff bit_1_iff, metis gr0I)
  show "bit (w + 1) 0" unfolding e by (simp add: bit_or_iff)
qed

lemma even_self: "\<not> bit w 0 \<Longrightarrow> w AND NOT 1 = (w :: u32)"
  by (intro bit_word_eqI) (auto simp: bit_and_iff bit_not_iff bit_1_iff intro: gr0I)

lemma even_offsets: "\<not> bit (t32_offset i j) 0" "\<not> bit (t32_cond_offset i j) 0"
  unfolding t32_offset_def t32_cond_offset_def Let_def bit_signed_take_bit_iff bit_or_iff bit_push_bit_iff by simp_all

definition word_aligned :: "u32 \<Rightarrow> bool" where
  "word_aligned p \<longleftrightarrow> take_bit 2 p = 0"

lemma aligned_iff: "word_aligned p \<longleftrightarrow> (\<exists>q. p = push_bit 2 q)"
proof
  assume "word_aligned p"
  then have "p = push_bit 2 (drop_bit 2 p)" using bits_ident [of 2 p] by (simp add: word_aligned_def)
  then show "\<exists>q. p = push_bit 2 q" ..
qed (auto simp: word_aligned_def intro!: bit_word_eqI simp: bit_take_bit_iff bit_push_bit_iff)

lemma aligned_add: "word_aligned p \<Longrightarrow> word_aligned (p + 4 * n)"
proof -
  have "4 * n = push_bit 2 n" using push_bit_eq_mult [of 2 n] by (simp add: mult.commute)
  then show "word_aligned p \<Longrightarrow> ?thesis" unfolding aligned_iff by (metis push_bit_add)
qed

lemma aligned_floor: "word_aligned p \<Longrightarrow> ALIGN_FLOOR p 4 = p"
  using ALIGN_FLOOR_pow2 [of p 2] by (simp add: word_aligned_def)

lemma aligned_base: "word_aligned (rpc s) \<Longrightarrow> t_base s = rpc s + 4"
  using aligned_floor [OF aligned_add [of "rpc s" 1]] by (simp add: t_base_def)

lemma aligned_ops [simp]: "word_aligned p \<Longrightarrow> word_aligned (p + 4)" "word_aligned p \<Longrightarrow> word_aligned (p + 8)" "word_aligned p \<Longrightarrow> word_aligned (p + 12)"
  "word_aligned p \<Longrightarrow> word_aligned (p + 16)"
  using aligned_add [of p 1] aligned_add [of p 2] aligned_add [of p 3] aligned_add [of p 4] by simp_all

text \<open>The long jump: \<^verbatim>\<open>ldr pc, [pc]\<close> and the target behind it.\<close>

lemma run_jump:
  assumes "halves_at (rmem s) (rpc s) ([0xf85f, 0xf000] @ lit32 v)" and "rthumb s" and "word_aligned (rpc s)"
  shows "arm_reaches other s (bx_to v s)"
proof -
  have "fetch_word (rmem s) (rpc s + 4) = v" using assms(1) by (intro fetch_word_lit) (simp add: add.assoc)
  then show ?thesis using step_t32 [of s "0xf85f" "0xf000" other] assms by (simp add: t32_ldr_pc aligned_base)
qed

text \<open>The call: control goes to the target with the return address of the jump over it.\<close>

lemma run_call:
  assumes "halves_at (rmem s) (rpc s) (t2_bl_piece v)" and "rthumb s" and "word_aligned (rpc s)"
  shows "arm_reaches other s (bx_to v (link_reg (rpc s + 4 OR 1) s))"
    and "rmem u = rmem s \<Longrightarrow> rthumb u \<Longrightarrow> rpc u = rpc s + 4 \<Longrightarrow> arm_reaches other u (u\<lparr>rpc := rpc s + 16\<rparr>)"
proof -
  let ?s = "skip 8 (link_reg (rpc s + 4 OR 1) s)"
  have c: "fetch_half (rmem s) (rpc s) = 0xf000" "fetch_half (rmem s) (rpc s + 2) = 0xf802" "fetch_half (rmem s) (rpc s + 4) = 0xf000"
      "fetch_half (rmem s) (rpc s + 6) = 0xb804" "halves_at (rmem s) (rpc s + 8) ([0xf85f, 0xf000] @ lit32 v)"
    using assms(1) by (simp_all add: t2_bl_piece_def lit32_def add.assoc)
  have "arm_reaches other s ?s" using step_t32 [OF assms(2) c(1,2), of other] by (simp add: t32_skips)
  moreover have "arm_reaches other ?s (bx_to v ?s)" using c(5) assms by (intro run_jump) simp_all
  ultimately show "arm_reaches other s (bx_to v (link_reg (rpc s + 4 OR 1) s))" by (simp add: arm_reaches_trans)
  show "arm_reaches other u (u\<lparr>rpc := rpc s + 16\<rparr>)" if "rmem u = rmem s" "rthumb u" "rpc u = rpc s + 4"
    using step_t32 [of u "0xf000" "0xb804" other] c(3,4) that by (simp add: t32_skips skip_def add.assoc)
qed

text \<open>An instruction outside the machine that runs on to the next, wherever it stands, and one that goes to the same place from everywhere.\<close>

definition passes :: "arm_other \<Rightarrow> u32 \<Rightarrow> arm_instr \<Rightarrow> arm_cpu \<Rightarrow> bool" where
  "passes other n i s \<longleftrightarrow> (\<forall>p. other i (s\<lparr>rpc := p\<rparr>) = (other i s)\<lparr>rpc := p + n\<rparr>)"

definition leaves :: "arm_other \<Rightarrow> arm_instr \<Rightarrow> arm_cpu \<Rightarrow> bool" where
  "leaves other i s \<longleftrightarrow> (\<forall>p. other i (s\<lparr>rpc := p\<rparr>) = other i s)"

definition t2_modelled :: "u32 \<Rightarrow> u32 \<Rightarrow> bool" where
  "t2_modelled i j \<longleftrightarrow> is_t32_bcond i j \<or> is_t32_b i j \<or> is_t32_bl i j \<or> is_t32_blx i j \<or> is_t32_ldr_lit i \<or> is_t32_ldr i \<or> is_t32_adr i j \<or> is_t32_movw i j"

text \<open>The 32-bit Thumb instructions that the relocation keeps the meaning of.\<close>

definition t2_faithful :: "u16 \<Rightarrow> u16 \<Rightarrow> bool" where
  "t2_faithful h1 h2 \<longleftrightarrow>
     (let i = t_half h1; j = t_half h2
      in \<not> is_t32_bcond i j \<and> (is_t32_branch i j \<and> bit j 14 \<and> \<not> bit j 12 \<longrightarrow> \<not> bit j 0) \<and> \<not> t2_adr_seen i j \<and> \<not> is_t32_adr i j
       \<and> (is_t32_ldr_lit i \<longrightarrow> field 12 4 j \<noteq> 15 \<and> take_bit 2 (field 0 12 j) = 0)
       \<and> (is_t32_movw i j \<longrightarrow> field 8 4 j \<noteq> 15))"

text \<open>
  The state after the instruction at \<open>at\<close>, if it is executed from a copy at \<open>p\<close> that ends at \<open>fin\<close>: a branch goes where it
  went, a call returns to the copy, and all others go on at \<open>fin\<close>.
\<close>

definition t2_outcome :: "arm_other \<Rightarrow> u16 \<Rightarrow> u16 \<Rightarrow> u32 \<Rightarrow> u32 \<Rightarrow> u32 \<Rightarrow> arm_cpu \<Rightarrow> arm_cpu" where
  "t2_outcome other h1 h2 at p fin s =
     (let i = t_half h1; j = t_half h2; t = t32_exec other h1 h2 (s\<lparr>rpc := at\<rparr>)
      in if is_t32_b i j \<or> is_t32_ldr i \<and> field 12 4 j = 15 \<or> \<not> t2_modelled i j \<and> leaves other (T32 h1 h2) s then t
         else if is_t32_bl i j \<or> is_t32_blx i j then link_reg (p + 4 OR 1) t
         else t\<lparr>rpc := fin\<rparr>)"

lemma t2_branch_only:
  assumes "is_t32_branch i j"
  shows "\<not> is_t32_ldr_lit i" "\<not> is_t32_ldr i" "\<not> is_t32_adr i j" "\<not> is_t32_movw i j" "\<not> t2_adr_seen i j"
  using assms by (auto simp: is_t32_branch_def is_t32_ldr_lit_def is_t32_ldr_def is_t32_adr_def is_t32_movw_def t2_adr_seen_def by_bits)

lemmas t2_branches = is_t32_bcond_def is_t32_b_def is_t32_bl_def is_t32_blx_def

lemma t32_exec_ldr_lit:
  assumes "is_t32_ldr_lit (t_half h1)"
  shows "t32_exec other h1 h2 s = load_reg (unat (field 12 4 (t_half h2)))
     (fetch_word (rmem s) (if bit (t_half h1) 7 then t_base s + field 0 12 (t_half h2) else t_base s - field 0 12 (t_half h2))) (skip 4 s)"
proof -
  have "\<not> is_t32_branch (t_half h1) (t_half h2)" using t2_branch_only(1) assms by blast
  then show ?thesis using assms by (simp add: t32_exec_def t2_branches Let_def)
qed

lemma t32_exec_ldr:
  assumes "is_t32_ldr (t_half h1)"
  shows "t32_exec other h1 h2 s = load_reg (unat (field 12 4 (t_half h2)))
     (fetch_word (rmem s) (rr s (unat (field 0 4 (t_half h1))) + field 0 12 (t_half h2))) (skip 4 s)"
proof -
  have "\<not> is_t32_branch (t_half h1) (t_half h2)" using t2_branch_only(2) assms by blast
  moreover have "\<not> is_t32_ldr_lit (t_half h1)" using assms by (auto simp: is_t32_ldr_def is_t32_ldr_lit_def by_bits)
  ultimately show ?thesis using assms by (simp add: t32_exec_def t2_branches Let_def)
qed

lemma load_reg_other:
  assumes "r \<noteq> 15"
  shows "skip n (load_reg r v s) = load_reg r v (skip n s)" "load_reg r v (load_reg r w s) = load_reg r v s" "rr (load_reg r v s) r = v"
    "rthumb (load_reg r v s) = rthumb s" "rpc (load_reg r v s) = rpc s"
  using assms by (simp_all add: load_reg_def skip_def)

lemma link_reg_last: "(link_reg v s)\<lparr>rpc := p\<rparr> = link_reg v (s\<lparr>rpc := p\<rparr>)" "(link_reg v s)\<lparr>rthumb := b\<rparr> = link_reg v (s\<lparr>rthumb := b\<rparr>)"
  "link_reg v (link_reg w s) = link_reg v s" "skip n (link_reg v s) = link_reg v (skip n s)"
  by (simp_all add: link_reg_def skip_def)

lemma bx_to_arm: "\<not> bit w 0 \<Longrightarrow> bx_to w s = s\<lparr>rpc := w, rthumb := False\<rparr>"
  using even_self [of w] by (simp add: bx_to_def)

lemma bx_even: "\<not> bit w 0 \<Longrightarrow> bx_to (w + 1) s = s\<lparr>rpc := w, rthumb := True\<rparr>"
  using even_plus_one [of w] by (simp add: bx_to_def)

lemma ldr_self_fields:
  fixes rt :: u32
  assumes "rt < 15"
  shows "t_wide (ucast (0xf8d0 OR rt)) \<and> \<not> t_half (ucast (0xf8d0 OR rt)) AND 0xf800 = 0xf000 \<and> \<not> is_t32_ldr_lit (t_half (ucast (0xf8d0 OR rt)))
     \<and> is_t32_ldr (t_half (ucast (0xf8d0 OR rt))) \<and> field 0 4 (t_half (ucast (0xf8d0 OR rt))) = rt
     \<and> field 12 4 (t_half (ucast (push_bit 12 rt))) = rt \<and> field 0 12 (t_half (ucast (push_bit 12 rt))) = 0
     \<and> field 12 4 (t_half (ucast (push_bit 12 rt OR 4))) = rt \<and> field 0 12 (t_half (ucast (push_bit 12 rt OR 4))) = 4"
    (is "?P rt")
proof -
  have "unat rt \<in> set [0..<15]" using assms by (simp add: word_less_nat_alt)
  then have "rt \<in> of_nat ` set [0..<15]" by (intro image_eqI [of _ _ "unat rt"]) simp_all
  moreover have "\<forall>rt \<in> of_nat ` set [0..<15]. ?P rt" by code_simp
  ultimately show ?thesis by blast
qed

lemma run_load:
  fixes rt :: u32
  assumes c: "halves_at (rmem s) (rpc s) ([0xf8df, ucast (push_bit 12 rt OR 4), 0xf000, 0xb802] @ lit32 v @ [ucast (0xf8d0 OR rt), ucast (push_bit 12 rt)])"
    and t: "rthumb s" and a: "word_aligned (rpc s)" and rt: "rt < 15"
  shows "arm_reaches other s (load_reg (unat rt) (fetch_word (rmem s) v) (skip 16 s))"
proof -
  note f = ldr_self_fields [OF rt]
  have n: "unat rt \<noteq> 15" using rt by (auto simp: word_less_nat_alt)
  let ?s1 = "load_reg (unat rt) v (skip 4 s)" let ?s2 = "load_reg (unat rt) v (skip 12 s)"
  have h: "fetch_half (rmem s) (rpc s) = 0xf8df" "fetch_half (rmem s) (rpc s + 2) = ucast (push_bit 12 rt OR 4)"
      "fetch_half (rmem s) (rpc s + 4) = 0xf000" "fetch_half (rmem s) (rpc s + 6) = 0xb802" "fetch_word (rmem s) (rpc s + 8) = v"
      "fetch_half (rmem s) (rpc s + 12) = ucast (0xf8d0 OR rt)" "fetch_half (rmem s) (rpc s + 14) = ucast (push_bit 12 rt)"
    using c fetch_word_lit [of "rmem s" "rpc s + 8" v] by (simp_all add: lit32_def add.assoc)
  have "t_wide 0xf8df" by (simp add: t_wide_def t_half_def field_def)
  moreover have "t32_exec other 0xf8df (ucast (push_bit 12 rt OR 4)) s = ?s1"
  proof -
    have "is_t32_ldr_lit (t_half 0xf8df)" "bit (t_half 0xf8df) 7" by (simp_all add: is_t32_ldr_lit_def t_half_def)
    then show ?thesis using f h(5) by (simp add: t32_exec_ldr_lit aligned_base [OF a] add.assoc)
  qed
  ultimately have r1: "arm_reaches other s ?s1" using step_t32 [OF t h(1,2), of other] by simp
  have r2: "arm_reaches other ?s1 ?s2"
    using step_t32 [of ?s1 "0xf000" "0xb802" other] h(3,4) t by (simp add: load_reg_other [OF n] t32_skips add.assoc)
  have r3: "arm_reaches other ?s2 (load_reg (unat rt) (fetch_word (rmem s) v) (skip 16 s))"
  proof -
    define g1 g2 :: u16 where "g1 = ucast (0xf8d0 OR rt)" and "g2 = ucast (push_bit 12 rt)"
    then have g: "is_t32_ldr (t_half g1)" "t_wide g1" "field 0 4 (t_half g1) = rt" "field 12 4 (t_half g2) = rt" "field 0 12 (t_half g2) = 0"
        "fetch_half (rmem s) (rpc s + 12) = g1" "fetch_half (rmem s) (rpc s + 14) = g2"
      using f h(6,7) by (simp_all only:)
    have "t32_exec other g1 g2 ?s2 = load_reg (unat rt) (fetch_word (rmem s) v) (skip 16 s)"
      unfolding t32_exec_ldr [OF g(1)] g(3-5) by (simp add: load_reg_other [OF n])
    then show ?thesis using step_t32 [of ?s2 g1 g2 other] g(2,6,7) t by (simp add: load_reg_other [OF n] add.assoc)
  qed
  show ?thesis by (rule arm_reaches_trans [OF arm_reaches_trans [OF r1 r2] r3])
qed

lemma t2_run_b:
  assumes c: "halves_at (rmem s) (rpc s) (t2_piece h1 h2 (at + 4))" and s: "rthumb s" "word_aligned (rpc s)" and at: "\<not> bit at 0"
    and b: "is_t32_b (t_half h1) (t_half h2)"
  shows "arm_reaches other s (t32_exec other h1 h2 (s\<lparr>rpc := at\<rparr>))"
proof -
  let ?v = "at + 4 + t32_offset (t_half h1) (t_half h2)"
  have n: "\<not> is_t32_bcond (t_half h1) (t_half h2)" using b by (simp add: t2_branches)
  have "\<not> bit ?v 0" using at even_offsets by (simp add: odd_sum)
  then have "bx_to (?v + 1) s = s\<lparr>rpc := ?v, rthumb := True\<rparr>" by (rule bx_even)
  also have "\<dots> = t32_exec other h1 h2 (s\<lparr>rpc := at\<rparr>)" using b n s(1) by (simp add: t32_exec_def skip_def add.assoc Let_def)
  finally have "bx_to (?v + 1) s = t32_exec other h1 h2 (s\<lparr>rpc := at\<rparr>)" .
  moreover have "arm_reaches other s (bx_to (?v + 1) s)"
    using c b n by (intro run_jump s) (simp add: t2_piece_def Let_def)
  ultimately show ?thesis by simp
qed

lemma t2_run_call:
  assumes c: "halves_at (rmem s) (rpc s) (t2_piece h1 h2 (at + 4))" and s: "rthumb s" "word_aligned (rpc s)" and at: "\<not> bit at 0"
    and b: "is_t32_bl (t_half h1) (t_half h2) \<or> is_t32_blx (t_half h1) (t_half h2)"
  shows "arm_reaches other s (link_reg (rpc s + 4 OR 1) (t32_exec other h1 h2 (s\<lparr>rpc := at\<rparr>)))"
    and "rmem u = rmem s \<Longrightarrow> rthumb u \<Longrightarrow> rpc u = rpc s + 4 \<Longrightarrow> arm_reaches other u (u\<lparr>rpc := rpc s + 16\<rparr>)"
proof -
  let ?i = "t_half h1" and ?j = "t_half h2"
  let ?v = "if is_t32_bl ?i ?j then at + 4 + t32_offset ?i ?j + 1 else ALIGN_FLOOR (at + 4) 4 + t32_offset ?i (?j AND 0xfffe)"
  have n: "\<not> is_t32_bcond ?i ?j" "\<not> is_t32_b ?i ?j" "is_t32_branch ?i ?j" using b by (auto simp: t2_branches)
  have p: "halves_at (rmem s) (rpc s) (t2_bl_piece ?v)" using c b n by (auto simp: t2_piece_def Let_def is_t32_blx_def)
  have e: "?j AND 0xfffe = ?j" if "\<not> is_t32_bl ?i ?j"
  proof -
    have z: "\<not> bit ?j 0" using b that by (simp add: is_t32_blx_def)
    have "\<not> bit ?j n" if "16 \<le> n" for n using that bit_imp_le_length [of h2 n] by (auto simp: bit_t_half)
    then show ?thesis using z unfolding mask_test upto_32 by simp
  qed
  have "bx_to ?v (link_reg (rpc s + 4 OR 1) s) = link_reg (rpc s + 4 OR 1) (t32_exec other h1 h2 (s\<lparr>rpc := at\<rparr>))"
  proof (cases "is_t32_bl ?i ?j")
    case True
    have "\<not> bit (at + 4 + t32_offset ?i ?j) 0" using at even_offsets by (simp add: odd_sum)
    from bx_even [OF this, of "link_reg (rpc s + 4 OR 1) s"] True
    have "bx_to ?v (link_reg (rpc s + 4 OR 1) s) = (link_reg (rpc s + 4 OR 1) s)\<lparr>rpc := at + 4 + t32_offset ?i ?j, rthumb := True\<rparr>" by presburger
    then show ?thesis using True n s(1) by (simp add: t32_exec_def link_reg_last Let_def) (simp add: skip_def link_reg_def add.assoc)
  next
    case False
    then have x: "is_t32_blx ?i ?j" using b by simp
    have "\<not> bit (ALIGN_FLOOR (at + 4) 4 + t32_offset ?i ?j) 0"
      using even_offsets by (simp add: odd_sum ALIGN_FLOOR_def bit_and_iff bit_not_iff)
    then show ?thesis using False n x s(1) e by (simp add: bx_to_arm t32_exec_def link_reg_last t_base_def Let_def)
  qed
  then show "arm_reaches other s (link_reg (rpc s + 4 OR 1) (t32_exec other h1 h2 (s\<lparr>rpc := at\<rparr>)))"
    using run_call(1) [OF p s, of other] by simp
  show "rmem u = rmem s \<Longrightarrow> rthumb u \<Longrightarrow> rpc u = rpc s + 4 \<Longrightarrow> arm_reaches other u (u\<lparr>rpc := rpc s + 16\<rparr>)"
    using run_call(2) [OF p s] .
qed

lemma aligned_floor_add:
  fixes x k :: u32
  assumes "word_aligned k"
  shows "ALIGN_FLOOR (x + k) 4 = ALIGN_FLOOR x 4 + k" "ALIGN_FLOOR (x - k) 4 = ALIGN_FLOOR x 4 - k"
proof -
  have f: "ALIGN_FLOOR w 4 = w - take_bit 2 w" for w :: u32 using ALIGN_FLOOR_pow2 [of w 2] by simp
  have d: "take_bit 2 (push_bit 2 z + take_bit 2 x) = take_bit 2 x" for x z :: u32
  proof -
    have "push_bit 2 z + take_bit 2 x = push_bit 2 z OR take_bit 2 x"
      by (intro disjunctive_add_eq_or bit_word_eqI) (simp add: bit_and_iff bit_push_bit_iff bit_take_bit_iff)
    then show ?thesis by (simp add: take_bit_parts take_bit_push_bit)
  qed
  have t: "take_bit 2 (x + k) = take_bit 2 x" if a: "word_aligned k" for x k :: u32
  proof -
    obtain q where q: "k = push_bit 2 q" using a by (auto simp: aligned_iff)
    have "x + k = push_bit 2 (drop_bit 2 x + q) + take_bit 2 x" using bits_ident [of 2 x] by (simp add: q push_bit_add algebra_simps)
    then show ?thesis by (simp only: d)
  qed
  show "ALIGN_FLOOR (x + k) 4 = ALIGN_FLOOR x 4 + k" by (simp add: f t [OF assms])
  show "ALIGN_FLOOR (x - k) 4 = ALIGN_FLOOR x 4 - k" using t [OF assms, of "x - k"] by (simp add: f)
qed

lemma t2_run_load:
  assumes c: "halves_at (rmem s) (rpc s) (t2_piece h1 h2 (at + 4))" and s: "rthumb s" "word_aligned (rpc s)"
    and l: "is_t32_ldr_lit (t_half h1)" "field 12 4 (t_half h2) \<noteq> 15" "take_bit 2 (field 0 12 (t_half h2)) = 0"
  shows "arm_reaches other s ((t32_exec other h1 h2 (s\<lparr>rpc := at\<rparr>))\<lparr>rpc := rpc s + 16\<rparr>)" "length (t2_piece h1 h2 (at + 4)) = 8"
proof -
  let ?i = "t_half h1" and ?j = "t_half h2"
  let ?rt = "field 12 4 ?j" and ?k = "field 0 12 ?j"
  let ?v = "ALIGN_FLOOR (if bit ?i 7 then at + 4 + ?k else at + 4 - ?k) 4"
  have n: "\<not> is_t32_branch ?i ?j" using l(1) t2_branch_only(1) by blast
  have a: "\<not> t2_adr_seen ?i ?j" using l(1) by (auto simp: t2_adr_seen_def is_t32_ldr_lit_def by_bits)
  have p: "t2_piece h1 h2 (at + 4) = [0xf8df, ucast (push_bit 12 ?rt OR 4), 0xf000, 0xb802] @ lit32 ?v @ [ucast (0xf8d0 OR ?rt), ucast (push_bit 12 ?rt)]"
    using n a l by (simp add: t2_piece_def t2_branches Let_def)
  then show "length (t2_piece h1 h2 (at + 4)) = 8" by (simp add: lit32_def)
  have rt: "?rt < 15"
  proof -
    have "unat ?rt < 16" using unat_take_bit_less [of 4 "drop_bit 12 ?j"] by (simp add: field_def)
    moreover have "unat ?rt \<noteq> 15" using l(2) unsigned_word_eqI [of ?rt 15] by auto
    ultimately show ?thesis by (simp add: word_less_nat_alt)
  qed
  have nn: "unat ?rt \<noteq> 15" using rt by (auto simp: word_less_nat_alt)
  have k: "word_aligned ?k" using l(3) by (simp add: word_aligned_def)
  have "?v = (if bit ?i 7 then ALIGN_FLOOR (at + 4) 4 + ?k else ALIGN_FLOOR (at + 4) 4 - ?k)" using aligned_floor_add [OF k] by simp
  then have "(t32_exec other h1 h2 (s\<lparr>rpc := at\<rparr>))\<lparr>rpc := rpc s + 16\<rparr> = load_reg (unat ?rt) (fetch_word (rmem s) ?v) (skip 16 s)"
    using nn by (simp add: t32_exec_ldr_lit [OF l(1)] t_base_def load_reg_def skip_def)
  then show "arm_reaches other s ((t32_exec other h1 h2 (s\<lparr>rpc := at\<rparr>))\<lparr>rpc := rpc s + 16\<rparr>)"
    using run_load [OF c [unfolded p] s rt, of other] by simp
qed

lemma t2_plain_piece:
  assumes f: "t2_faithful h1 h2" and n: "\<not> is_t32_b (t_half h1) (t_half h2)" "\<not> is_t32_bl (t_half h1) (t_half h2)"
      "\<not> is_t32_blx (t_half h1) (t_half h2)" "\<not> is_t32_ldr_lit (t_half h1)"
  shows "t2_piece h1 h2 pc = [h1, h2]"
  using assms by (auto simp: t2_piece_def t2_faithful_def t2_branches Let_def)

lemma t2_run_plain:
  assumes c: "halves_at (rmem s) (rpc s) [h1, h2]" and s: "rthumb s" and w: "t_wide h1" and f: "t2_faithful h1 h2"
    and n: "\<not> is_t32_b (t_half h1) (t_half h2)" "\<not> is_t32_bl (t_half h1) (t_half h2)" "\<not> is_t32_blx (t_half h1) (t_half h2)" "\<not> is_t32_ldr_lit (t_half h1)"
    and o: "t2_modelled (t_half h1) (t_half h2) \<or> leaves other (T32 h1 h2) s \<or> passes other 4 (T32 h1 h2) s"
  shows "arm_reaches other s (t2_outcome other h1 h2 at (rpc s) (rpc s + 4) s)"
proof -
  let ?i = "t_half h1" and ?j = "t_half h2"
  have u: "s\<lparr>rpc := rpc s\<rparr> = s" by simp
  have m: "t2_modelled ?i ?j \<longleftrightarrow> is_t32_ldr ?i \<or> is_t32_movw ?i ?j" using f n by (simp add: t2_modelled_def t2_faithful_def Let_def)
  have b: "\<not> is_t32_bcond ?i ?j" "\<not> is_t32_adr ?i ?j" "is_t32_movw ?i ?j \<Longrightarrow> field 8 4 ?j \<noteq> 15" using f by (simp_all add: t2_faithful_def Let_def)
  have r: "unat x \<noteq> 15" if "x \<noteq> 15" for x :: u32 using that unsigned_word_eqI [of x 15] by auto
  consider (ldr) "is_t32_ldr ?i" | (movw) "\<not> is_t32_ldr ?i" "is_t32_movw ?i ?j" | (other) "\<not> is_t32_ldr ?i" "\<not> is_t32_movw ?i ?j" by blast
  then have "t32_exec other h1 h2 s = t2_outcome other h1 h2 at (rpc s) (rpc s + 4) s"
  proof cases
    case ldr
    then show ?thesis using n m b r by (auto simp: t2_outcome_def t32_exec_ldr Let_def load_reg_def skip_def bx_to_def)
  next
    case movw
    then show ?thesis using n m b r by (auto simp: t2_outcome_def t32_exec_def Let_def load_reg_def skip_def)
  next
    case other
    then have e: "t32_exec other h1 h2 x = other (T32 h1 h2) x" for x using n b by (simp add: t32_exec_def Let_def)
    have o': "leaves other (T32 h1 h2) s \<or> passes other 4 (T32 h1 h2) s" using o other m by simp
    show ?thesis
    proof (cases "leaves other (T32 h1 h2) s")
      case True
      then show ?thesis using other m by (simp add: t2_outcome_def e Let_def leaves_def)
    next
      case False
      then have q: "other (T32 h1 h2) (s\<lparr>rpc := p\<rparr>) = (other (T32 h1 h2) s)\<lparr>rpc := p + 4\<rparr>" for p using o' by (simp add: passes_def)
      show ?thesis using False n other q [of "rpc s", unfolded u] q [of at] by (simp add: t2_outcome_def e Let_def)
    qed
  qed
  then show ?thesis using step_t32 [OF s, of h1 h2 other] c w by simp
qed

text \<open>
  C12: the relocation of a 32-bit Thumb instruction never fails, and what it emits has the effect of the
  instruction at its old place, for \<^verbatim>\<open>b.w\<close>, \<^verbatim>\<open>bl\<close>, \<^verbatim>\<open>blx\<close>, the literal \<^verbatim>\<open>ldr.w\<close> of a word at a multiple of four and every
  instruction that does not use the program counter; a call returns to the copy and goes on behind it.
\<close>

theorem thumb2_relocated:
  assumes "t_wide h1" and "t2_faithful h1 h2" and "\<not> bit at 0"
  shows "\<exists>hs. Thumb2RelocateSingleInstr h1 h2 (at + 4) a = Inr (a\<lparr>asm_buffer := asm_buffer a @ half_bytes (t_pad a @ hs)\<rparr>)
     \<and> (\<forall>other s. (t2_modelled (t_half h1) (t_half h2) \<or> leaves other (T32 h1 h2) s \<or> passes other 4 (T32 h1 h2) s)
          \<and> rthumb s \<and> word_aligned (rpc s) \<and> halves_at (rmem s) (rpc s) hs \<longrightarrow>
          arm_reaches other s (t2_outcome other h1 h2 at (rpc s) (rpc s + 2 * of_nat (length hs)) s)
        \<and> (is_t32_bl (t_half h1) (t_half h2) \<or> is_t32_blx (t_half h1) (t_half h2) \<longrightarrow>
             (\<forall>u. rmem u = rmem s \<and> rthumb u \<and> rpc u = rpc s + 4 \<longrightarrow> arm_reaches other u (u\<lparr>rpc := rpc s + 2 * of_nat (length hs)\<rparr>))))"
proof (intro exI [of _ "t2_piece h1 h2 (at + 4)"] conjI Thumb2_piece allI impI)
  let ?i = "t_half h1" and ?j = "t_half h2" and ?hs = "t2_piece h1 h2 (at + 4)"
  fix other and s u :: arm_cpu
  assume A: "(t2_modelled ?i ?j \<or> leaves other (T32 h1 h2) s \<or> passes other 4 (T32 h1 h2) s) \<and> rthumb s \<and> word_aligned (rpc s) \<and> halves_at (rmem s) (rpc s) ?hs"
  have f: "\<not> is_t32_bcond ?i ?j" using assms(2) by (simp add: t2_faithful_def Let_def)
  have call: "length ?hs = 8" if "is_t32_bl ?i ?j \<or> is_t32_blx ?i ?j"
    using that f by (auto simp: t2_piece_def t2_bl_piece_def lit32_def t2_branches Let_def)
  consider (b) "is_t32_b ?i ?j" | (call) "\<not> is_t32_b ?i ?j" "is_t32_bl ?i ?j \<or> is_t32_blx ?i ?j" | (load) "is_t32_ldr_lit ?i"
    | (plain) "\<not> is_t32_b ?i ?j" "\<not> is_t32_bl ?i ?j" "\<not> is_t32_blx ?i ?j" "\<not> is_t32_ldr_lit ?i" by blast
  then show "arm_reaches other s (t2_outcome other h1 h2 at (rpc s) (rpc s + 2 * of_nat (length ?hs)) s)"
  proof cases
    case b
    then show ?thesis using t2_run_b [of s h1 h2 at other] A assms(3) by (simp add: t2_outcome_def Let_def)
  next
    case call
    then have "is_t32_branch ?i ?j" by (auto simp: t2_branches)
    then show ?thesis using t2_run_call(1) [of s h1 h2 at other] A assms(3) call t2_branch_only(2) by (auto simp: t2_outcome_def t2_modelled_def Let_def)
  next
    case load
    have n: "\<not> is_t32_branch ?i ?j" "\<not> is_t32_ldr ?i" using load t2_branch_only(1) by (auto simp: is_t32_ldr_def is_t32_ldr_lit_def by_bits)
    have l: "field 12 4 ?j \<noteq> 15" "take_bit 2 (field 0 12 ?j) = 0" using assms(2) load by (simp_all add: t2_faithful_def Let_def)
    have "halves_at (rmem s) (rpc s) ?hs" "rthumb s" "word_aligned (rpc s)" using A by simp_all
    note r = t2_run_load [OF this load l]
    show ?thesis using r(1) [of other] r(2) n load by (simp add: t2_outcome_def t2_modelled_def t2_branches Let_def)
  next
    case plain
    then show ?thesis using t2_run_plain [of s h1 h2 other at] t2_plain_piece [OF assms(2) plain] A assms by simp
  qed
  assume "is_t32_bl ?i ?j \<or> is_t32_blx ?i ?j" and "rmem u = rmem s \<and> rthumb u \<and> rpc u = rpc s + 4"
  then show "arm_reaches other u (u\<lparr>rpc := rpc s + 2 * of_nat (length ?hs)\<rparr>)"
    using t2_run_call(2) [of s h1 h2 at u other] A assms(3) call by simp
qed

text \<open>A call in Thumb code at \<open>0x1000\<close>, relocated to \<open>0x8000\<close>.\<close>

theorem thumb2_relocated_witness:
  "\<exists>hs s t. Thumb2RelocateSingleInstr 0xf000 0xf87e 0x1004 (new_arm_assemblers 0)
       = Inr ((new_arm_assemblers 0)\<lparr>asm_buffer := half_bytes hs\<rparr>)
     \<and> halves_at (rmem s) 0x8000 hs \<and> rpc s = 0x8000 \<and> arm_reaches (\<lambda>_ s. s) s t \<and> rpc t = 0x1100 \<and> rthumb t \<and> rr t 14 = 0x8005"
proof -
  let ?a = "new_arm_assemblers 0"
  have c: "t_wide 0xf000" "t2_faithful 0xf000 0xf87e" "is_t32_bl (t_half 0xf000) (t_half 0xf87e)" "\<not> is_t32_b (t_half 0xf000) (t_half 0xf87e)"
    "\<not> is_t32_ldr (t_half 0xf000)" by code_simp+
  have p: "t_pad ?a = []" by (simp add: t_pad_def new_arm_assemblers_def)
  obtain hs where hs: "Thumb2RelocateSingleInstr 0xf000 0xf87e (0x1000 + 4) ?a = Inr (?a\<lparr>asm_buffer := asm_buffer ?a @ half_bytes (t_pad ?a @ hs)\<rparr>)"
      "\<And>other s. t2_modelled (t_half 0xf000) (t_half 0xf87e) \<Longrightarrow> rthumb s \<Longrightarrow> word_aligned (rpc s) \<Longrightarrow> halves_at (rmem s) (rpc s) hs \<Longrightarrow>
         arm_reaches other s (t2_outcome other 0xf000 0xf87e 0x1000 (rpc s) (rpc s + 2 * of_nat (length hs)) s)"
    using thumb2_relocated [OF c(1,2), of "0x1000" ?a] by (fastforce simp: bit_iff_odd)
  have "Thumb2RelocateSingleInstr 0xf000 0xf87e (0x1000 + 4) ?a = Inr (?a\<lparr>asm_buffer := asm_buffer ?a @ half_bytes (t_pad ?a @ t2_piece 0xf000 0xf87e (0x1000 + 4))\<rparr>)"
    by (rule Thumb2_piece)
  then have "half_bytes hs = half_bytes (t2_piece 0xf000 0xf87e (0x1000 + 4))" using hs(1) p by (simp add: new_arm_assemblers_def)
  then have "length (half_bytes hs) = 16" using c(3) by (simp add: t2_piece_def t2_bl_piece_def lit32_def is_t32_bcond_def is_t32_b_def is_t32_bl_def Let_def)
  then have l: "length hs = 8" by simp
  define s where "s = \<lparr>rr = (\<lambda>_. 0), rpc = 0x8000, rthumb = True, rnzcv = (False, False, False, False), rmem = write_mem (ucast (0x8000 :: u32)) (half_bytes hs) (\<lambda>_. 0)\<rparr>"
  have h: "halves_at (rmem s) 0x8000 hs" using halves_written [of "0x8000" hs "\<lambda>_. 0"] l by (simp add: s_def)
  have o: "rpc (t2_outcome (\<lambda>_ s. s) 0xf000 0xf87e 0x1000 0x8000 x s) = 0x1100" "rthumb (t2_outcome (\<lambda>_ s. s) 0xf000 0xf87e 0x1000 0x8000 x s)"
      "rr (t2_outcome (\<lambda>_ s. s) 0xf000 0xf87e 0x1000 0x8000 x s) 14 = 0x8005" for x
    using c(3-5) by (simp_all add: t2_outcome_def t2_modelled_def t32_exec_def is_t32_bcond_def is_t32_bl_def Let_def s_def link_reg_def skip_def)
      (simp_all add: t32_offset_def t_half_def field_def signed_take_bit_def)
  have m: "t2_modelled (t_half 0xf000) (t_half 0xf87e)" using c(3) by (simp add: t2_modelled_def)
  have al: "word_aligned 0x8000" by (simp add: word_aligned_def)
  have "arm_reaches (\<lambda>_ s. s) s (t2_outcome (\<lambda>_ s. s) 0xf000 0xf87e 0x1000 0x8000 (0x8000 + 2 * of_nat (length hs)) s)"
    using hs(2) [OF m, of s "\<lambda>_ s. s"] h al by (simp add: s_def)
  then show ?thesis using hs(1) h o p by (intro exI [of _ hs] exI [of _ s] exI conjI; (assumption | simp add: s_def new_arm_assemblers_def)?) (simp_all add: new_arm_assemblers_def)
qed

end
