(* ===== verification/Arm_Hook_Correct.thy ===== *)
theory Arm_Hook_Correct
  imports Arm_Hook Arm_Relocation_Correct
begin

text \<open>
  What the ARM and Thumb trampolines do on the machine, and what \<^verbatim>\<open>DobbyHook\<close> and \<^verbatim>\<open>DobbyDestroy\<close> do with this back end.
\<close>

section \<open>The trampolines\<close>

definition thumb_tramp :: "u32 \<Rightarrow> u32 \<Rightarrow> u16 list" where
  "thumb_tramp from to = (if from mod 4 \<noteq> 0 then [0xbf00] else []) @ [0xf85f, 0xf000] @ lit32 to"

definition tramp_bytes :: "u32 \<Rightarrow> u32 \<Rightarrow> u8 list" where
  "tramp_bytes from to = (if from mod 2 = 0 then le_bytes 4 (0xe51ff004 :: u32) @ le_bytes 4 to else half_bytes (thumb_tramp (ALIGN_FLOOR from 2) to))"

lemma arm_tramp_eq: "generate_arm_trampoline from to = Inr (le_bytes 4 (0xe51ff004 :: u32) @ le_bytes 4 to)"
proof -
  have "arm_ldr arm_pc (arm_mem arm_pc (- 4) arm_Offset) = arm_EmitARMInst 0xe51ff004"
    by (rule ext) (simp add: arm_ldr_def arm_load_store_def OpEncode_MemOperand_def arm_mem_def reg_IsValid_def arm_regs arm_Rt_def arm_Rn_def
        arm_fields arm_AL_def bits_of_eq_take_bit)
  then show ?thesis
    by (simp add: generate_arm_trampoline_def arm_LiteralLdrBranch_def arm_EmitARMInst_def EmitAddress_def emit_bytes_def new_arm_assemblers_def)
qed

lemma ucast_up_down: "(ucast (ucast (w :: u32) :: u64) :: u32) = w"
  by (rule bit_word_eqI) (simp add: bit_unsigned_iff)

lemma thumb_tramp_eq: "generate_thumb_trampoline from to = Inr (half_bytes (thumb_tramp from to))"
proof -
  have p: "t_pad (new_arm_assemblers (ucast from)) = (if from mod 4 \<noteq> 0 then [0xbf00] else [])"
    by (simp add: t_pad_def new_arm_assemblers_def ucast_up_down)
  show ?thesis unfolding generate_thumb_trampoline_def align_then [OF puts_jump] p thumb_tramp_def
    by (simp add: new_arm_assemblers_def)
qed

lemma normal_bytes: "arm_GenerateNormalTrampolineBuffer from to = Inr (tramp_bytes from to)"
  by (simp add: arm_GenerateNormalTrampolineBuffer_def tramp_bytes_def arm_tramp_eq thumb_tramp_eq)

lemma length_tramp: "length (tramp_bytes from to) \<le> 10"
  by (simp add: tramp_bytes_def thumb_tramp_def lit32_def)

lemma aligned_mod: "word_aligned p \<longleftrightarrow> p mod 4 = 0"
  using take_bit_eq_mod [of 2 p] by (simp add: word_aligned_def)

lemma half_aligned:
  assumes "\<not> bit p 0" and "\<not> word_aligned p"
  shows "word_aligned (p + 2)"
proof -
  have "bit p 1"
  proof (rule ccontr)
    assume "\<not> bit p 1"
    then have "take_bit 2 p = 0" using assms(1) by (intro bit_word_eqI) (auto simp: bit_take_bit_iff less_2_cases_iff intro: gr0I)
    then show False using assms(2) by (simp add: word_aligned_def)
  qed
  have two: "bit (2 :: u32) n \<longleftrightarrow> n = 1" for n
  proof -
    have "(2 :: u32) = push_bit 1 1" by simp
    then show ?thesis by (simp only: bit_push_bit_iff bit_1_iff) auto
  qed
  have "take_bit 2 p = 2" using assms(1) \<open>bit p 1\<close>
    by (intro bit_word_eqI) (auto simp only: bit_take_bit_iff less_2_cases_iff two)
  then have "p + 2 = push_bit 2 (drop_bit 2 p + 1)" using bits_ident [of 2 p] by (simp add: push_bit_add algebra_simps)
  then show ?thesis by (auto simp: aligned_iff)
qed

lemma run_thumb_tramp:
  assumes c: "halves_at (rmem s) (rpc s) (thumb_tramp (rpc s) to)" and t: "rthumb s" and e: "\<not> bit (rpc s) 0"
  shows "arm_reaches other s (bx_to to s)"
proof (cases "word_aligned (rpc s)")
  case True
  then show ?thesis using run_jump [OF _ t True, of to other] c by (simp add: thumb_tramp_def aligned_mod)
next
  case False
  then have h: "fetch_half (rmem s) (rpc s) = 0xbf00" "halves_at (rmem s) (rpc s + 2) ([0xf85f, 0xf000] @ lit32 to)"
    using c by (simp_all add: thumb_tramp_def aligned_mod)
  have "arm_reaches other s (skip 2 s)" using step_t16 [OF t h(1), of other] by (simp add: t16_nop)
  moreover have "arm_reaches other (skip 2 s) (bx_to to (skip 2 s))"
    using h(2) t half_aligned [OF e False] by (intro run_jump) simp_all
  ultimately show ?thesis using arm_reaches_trans by simp
qed

lemma odd_mod: "(w :: u32) mod 2 \<noteq> 0 \<longleftrightarrow> bit w 0"
  by (simp add: bit_0 odd_iff_mod_2_eq_one)

lemma run_tramp:
  assumes f: "fetch_bytes (rmem s) (from AND NOT 1) (length (tramp_bytes from to)) = tramp_bytes from to"
    and p: "rpc s = from AND NOT 1" and t: "rthumb s \<longleftrightarrow> bit from 0"
  shows "arm_reaches other s (bx_to to s)"
proof (cases "bit from 0")
  case True
  then have b: "tramp_bytes from to = half_bytes (thumb_tramp (from AND NOT 1) to)"
    using odd_mod [of "from"] by (simp add: tramp_bytes_def ALIGN_FLOOR_def)
  show ?thesis using f t True p by (intro run_thumb_tramp halves_at_bytes) (simp_all add: b bit_and_iff bit_not_iff)
next
  case False
  then have b: "tramp_bytes from to = le_bytes 4 (0xe51ff004 :: u32) @ le_bytes 4 to" "rpc s = from"
    using odd_mod [of "from"] p even_self by (simp_all add: tramp_bytes_def)
  have "fetch_bytes (rmem s) from (4 + 4) = le_bytes 4 (0xe51ff004 :: u32) @ le_bytes 4 to" using f False even_self b by simp
  then have "fetch_bytes (rmem s) from 4 = le_bytes 4 (0xe51ff004 :: u32) \<and> fetch_bytes (rmem s) (from + 4) 4 = le_bytes 4 to"
    unfolding fetch_bytes_append by (subst (asm) append_eq_append_conv) simp_all
  then have w: "fetch_word (rmem s) from = 0xe51ff004" "fetch_word (rmem s) (from + 4) = to" by (simp_all add: fetch_as_bytes)
  then show ?thesis using step_a32 [of s "0xe51ff004" other] False t b(2) by (simp add: a32_ldr_pc)
qed

section \<open>The interpretation\<close>

definition arm_origin :: "MemoryChunk \<Rightarrow> MemoryChunk" where
  "arm_origin origin = (if (ucast (raw_instruction_start origin) :: u32) mod 2 \<noteq> 0
     then init_region_range (raw_instruction_start origin - 1) (ucast (raw_instruction_size origin)) else origin)"

definition arm_relocated_chunk :: "MemoryChunk \<Rightarrow> MemoryChunk \<Rightarrow> MemoryChunk" where
  "arm_relocated_chunk origin c = init_region_range
     (if (ucast (raw_instruction_start origin) :: u32) mod 2 \<noteq> 0 then raw_instruction_start c + 1 else raw_instruction_start c)
     (ucast (raw_instruction_size c))"

lemma arm_GenRelocate_unfold:
  "arm_GenRelocateCodeAndBranch fuel ps fresh mem origin relocated st =
     robind (arm_relocated_code fuel mem (ucast (raw_instruction_start origin), ucast (raw_instruction_size origin)) (ucast (raw_instruction_start relocated)))
       (\<lambda>(relo_map, a). case AllocateCodeChunk ps fresh (of_nat (length (asm_buffer a))) (pr_arena st) of
          (None, ar) \<Rightarrow> Some (Inr (arm_origin origin, relocated, with_arena ar st))
        | (Some chunk, ar) \<Rightarrow>
            robind (Some (reloc_label_fixup (ucast (raw_instruction_start (arm_origin origin)), ucast (raw_instruction_size (arm_origin origin))) relo_map
                            (SetRealizedAddress (range_address chunk) a))) (\<lambda>a1.
            robind (Some (FinalizeFromTurboAssembler ps fresh 4 a1 (with_arena ar st))) (\<lambda>(code, _, st1).
              case code of None \<Rightarrow> Some (Inl BAD_POINTER) | Some c \<Rightarrow> Some (Inr (arm_origin origin, arm_relocated_chunk origin c, st1)))))"
  unfolding arm_GenRelocateCodeAndBranch_def Let_def arm_origin_def arm_relocated_chunk_def ..

lemma arm_relocate_done:
  assumes g: "arm_GenRelocateCodeAndBranch fuel ps fresh mem origin relocated st = Some (Inr (origin', relocated', st1))"
  obtains (none) relo_map a ar where
      "arm_relocated_code fuel mem (ucast (raw_instruction_start origin), ucast (raw_instruction_size origin)) (ucast (raw_instruction_start relocated)) = Some (Inr (relo_map, a))"
      "origin' = arm_origin origin" "relocated' = relocated" "st1 = with_arena ar st"
    | (some) relo_map a chunk ar a1 c a2 where
      "arm_relocated_code fuel mem (ucast (raw_instruction_start origin), ucast (raw_instruction_size origin)) (ucast (raw_instruction_start relocated)) = Some (Inr (relo_map, a))"
      "AllocateCodeChunk ps fresh (of_nat (length (asm_buffer a))) (pr_arena st) = (Some chunk, ar)"
      "reloc_label_fixup (ucast (raw_instruction_start (arm_origin origin)), ucast (raw_instruction_size (arm_origin origin))) relo_map
         (SetRealizedAddress (range_address chunk) a) = Inr a1"
      "FinalizeFromTurboAssembler ps fresh 4 a1 (with_arena ar st) = Inr (Some c, a2, st1)"
      "origin' = arm_origin origin" "relocated' = arm_relocated_chunk origin c"
proof -
  obtain x where r: "arm_relocated_code fuel mem (ucast (raw_instruction_start origin), ucast (raw_instruction_size origin))
      (ucast (raw_instruction_start relocated)) = Some (Inr x)"
    using g unfolding arm_GenRelocate_unfold by (elim robind_SomeE)
  obtain relo_map a where x: "x = (relo_map, a)" by (cases x)
  note g0 = g [unfolded arm_GenRelocate_unfold r x robind_simps prod.case]
  obtain ch ar where c: "AllocateCodeChunk ps fresh (of_nat (length (asm_buffer a))) (pr_arena st) = (ch, ar)" by force
  show thesis
  proof (cases ch)
    case None
    then show ?thesis using g0 none [OF r [unfolded x]] by (auto simp: c)
  next
    case (Some chunk)
    note g1 = g0 [unfolded c Some prod.case option.case]
    obtain a1 y where f: "reloc_label_fixup (ucast (raw_instruction_start (arm_origin origin)), ucast (raw_instruction_size (arm_origin origin))) relo_map
           (SetRealizedAddress (range_address chunk) a) = Inr a1" "FinalizeFromTurboAssembler ps fresh 4 a1 (with_arena ar st) = Inr y"
        "(case y of (code, _, st1) \<Rightarrow> case code of None \<Rightarrow> Some (Inl BAD_POINTER) | Some c \<Rightarrow> Some (Inr (arm_origin origin, arm_relocated_chunk origin c, st1)))
           = Some (Inr (origin', relocated', st1))"
      using g1 by (elim robind_SomeE) simp
    obtain code a2 st2 where y: "y = (code, a2, st2)" by (cases y)
    then show ?thesis using f some [OF r [unfolded x] c [unfolded Some] f(1)] by (cases code) auto
  qed
qed

lemma arm_relocate_frame:
  assumes "arm_GenRelocateCodeAndBranch fuel ps fresh mem origin relocated st = Some (Inr (origin', relocated', st1))"
  shows "pr_interceptor st1 = pr_interceptor st \<and> raw_instruction_start origin' = arm_place (raw_instruction_start origin)"
  using assms
proof (cases rule: arm_relocate_done)
  case none
  then show ?thesis by (simp add: with_arena_def arm_origin_def arm_place_def start_init_region)
next
  case some
  then show ?thesis using finalize_frame by (fastforce simp: with_arena_def arm_origin_def arm_place_def start_init_region)
qed

interpretation arm: hook_backend arm_backend arm_place
proof
  fix env src dst st tb st1
  assume "be_normal arm_backend env src dst st = Some (Inr (tb, st1))"
  then show "pr_interceptor st1 = pr_interceptor st \<and> length tb \<le> 64"
    using length_tramp [of "ucast src" "ucast dst"] by (auto simp: arm_backend_def arm_normal_def normal_bytes)
next
  fix env src dst st b st1
  assume "be_near arm_backend env src dst st = Some (Inr (b, st1))"
  then show "pr_interceptor st1 = pr_interceptor st \<and> (\<forall>tb. b = Some tb \<longrightarrow> length tb \<le> 64)"
    by (auto simp: arm_backend_def arm_near_def arm_GenerateNearTrampolineBuffer_def)
next
  fix env buf origin relocated st origin' relocated' st1
  assume "be_relocate arm_backend env buf origin relocated st = Some (Inr (origin', relocated', st1))"
  then show "pr_interceptor st1 = pr_interceptor st \<and> raw_instruction_start origin' = arm_place (raw_instruction_start origin)"
    using arm_relocate_frame by (fastforce simp: arm_backend_def arm_relocate_def Let_def)
qed

section \<open>A process to hook in\<close>

definition arm_demo_env :: hook_env where
  "arm_demo_env = \<lparr>env_os = (\<lambda>_ h. h), env_page_size = 2 ^ 12, env_layout = [], env_arm = True, env_bytes_at = (\<lambda>_ _. []), env_junk = [],
     env_fresh = (\<lambda>_. 0x60000000), env_bridge_page = 0x60010000, env_closure_page = 0x60020000,
     env_bridge_handler = 0x70000000, env_new_interceptor = 0x10000, env_new_entry = 0x10100, env_new_route = 0x10200,
     env_new_node = 0x10300, env_new_closure = 0x10400, env_fuel = 1\<rparr>"

text \<open>Memory full of Thumb \<^verbatim>\<open>nop\<close>.\<close>

definition thumb_nop_mem :: "u64 \<Rightarrow> u8" where
  "thumb_nop_mem x = (if bit x 0 then 0xbf else 0)"

lemma arm_demo_hook:
  "\<exists>st'. DobbyHook arm_backend arm_demo_env 0x50000803 0x40000001 (new_process thumb_nop_mem) = Some (Inr (RT_SUCCESS, Some 0x60000001, st'))"
proof -
  have "case DobbyHook arm_backend arm_demo_env 0x50000803 0x40000001 (new_process thumb_nop_mem) of
      Some (Inr (s, oc, st)) \<Rightarrow> s = RT_SUCCESS \<and> oc = Some 0x60000001 | _ \<Rightarrow> False"
    by code_simp
  then show ?thesis by (auto split: option.splits sum.splits)
qed

lemma arm_demo_table:
  "table_repr (SharedInstance (env_new_interceptor arm_demo_env) (pr_interceptor (new_process m))) []"
  "node_unused (SharedInstance (env_new_interceptor arm_demo_env) (pr_interceptor (new_process m))) (env_new_node arm_demo_env)"
  "env_page_size arm_demo_env = 2 ^ 12"
  by (rule table_repr_new) (simp_all add: arm_demo_env_def new_process_def node_unused_def SharedInstance_def INIT_LIST_HEAD_def)

section \<open>Hooking\<close>

lemma arm_place_eq:
  assumes "unat a < 2 ^ 32"
  shows "arm_place a = ucast ((ucast a :: u32) AND NOT 1)" "bit (ucast a :: u32) 0 \<longleftrightarrow> bit a 0"
proof -
  let ?w = "ucast a :: u32" let ?v = "?w AND NOT 1"
  have "ucast ?w = take_bit 32 a" by (rule bit_word_eqI) (auto simp: bit_unsigned_iff bit_take_bit_iff)
  then have a: "a = ucast ?w" using take_bit_word_less [OF assms] by (simp only:)
  show b: "bit ?w 0 \<longleftrightarrow> bit a 0" by (simp add: bit_unsigned_iff)
  show "arm_place a = ucast ?v"
  proof (cases "bit ?w 0")
    case True
    have e: "\<not> bit ?v 0" by (simp add: bit_and_iff bit_not_iff)
    have w: "?w = ?v + 1"
    proof -
      have "?v + 1 = ?v OR 1" by (intro disjunctive_add_eq_or bit_word_eqI) (auto simp: bit_and_iff bit_not_iff bit_1_iff)
      also have "\<dots> = ?w" using True by (intro bit_word_eqI) (auto simp: bit_and_iff bit_or_iff bit_not_iff bit_1_iff)
      finally show ?thesis by simp
    qed
    have "?w \<noteq> 0" using True by auto
    then have "unat ?w \<noteq> 0" using unsigned_word_eqI [of ?w 0] by auto
    then have "(1 :: u32) \<le> ?w" by (simp add: word_le_nat_alt)
    then have "unat (?w - 1) = unat ?w - 1" by (simp add: unat_sub)
    moreover have "?w - 1 = ?v" using w by (metis add_diff_cancel_right')
    ultimately have "unat ?v + 1 < 2 ^ 32" using unsigned_less [of ?w] \<open>unat ?w \<noteq> 0\<close> by simp
    then have "ucast ?w = (ucast ?v + 1 :: u64)" using ucast_add_small [of ?v 1] w by simp
    then have "a - 1 = ucast ?v" using a by (metis add_diff_cancel_right')
    then show ?thesis using True odd_mod [of ?w] by (simp add: arm_place_def)
  next
    case False
    then show ?thesis using odd_mod [of ?w] even_self [of ?w] a by (simp add: arm_place_def)
  qed
qed

lemma arm_hook_effect:
  assumes h: "DobbyHook arm_backend env address repl st = Some (Inr (RT_SUCCESS, Some oc, st'))"
    and t: "table_repr (SharedInstance (env_new_interceptor env) (pr_interceptor st)) es"
    and u: "node_unused (SharedInstance (env_new_interceptor env) (pr_interceptor st)) (env_new_node env)"
  defines "tb \<equiv> tramp_bytes (ucast address) (ucast repl)"
  obtains m2 en where "oc = relocated_origin_instructions en" "target_address en = address" "table_repr (pr_interceptor st') (en # es)"
    "pr_mem st' = write_mem (arm_place address) tb m2"
    "if oc = 0 then prologue_lost en else prologue_saved (arm_place address) (length tb) m2 en"
proof -
  obtain tb' st1 origin' relocated' st2 en where H:
    "trampoline_made arm_backend env address repl (shared env st) tb' st1"
    "be_relocate arm_backend env (load_mem (pr_mem st1) address (length tb' + relocate_window))
       (init_region_range address (of_nat (length tb'))) (init_region_range 0 0) st1 = Some (Inr (origin', relocated', st2))"
    "relocated_origin_instructions en = raw_instruction_start relocated'"
    "if raw_instruction_start relocated' = 0 then prologue_lost en
     else prologue_saved (arm_place address) (unat (raw_instruction_size origin')) (pr_mem st2) en"
    "Some oc = Some (relocated_origin_instructions en)" "target_address en = address" "table_repr (pr_interceptor st') (en # es)"
    "pr_mem st' = write_mem (arm_place address) tb' (pr_mem st2)"
    by (rule arm.hook_effect [OF h t u])
  have tb: "tb' = tb" using H(1)
    by (auto simp: trampoline_made_def arm_backend_def arm_normal_def arm_near_def arm_GenerateNearTrampolineBuffer_def normal_bytes tb_def split: if_splits)
  have l: "length tb \<le> 10" using length_tramp by (simp add: tb_def)
  let ?o = "init_region_range address (of_nat (length tb))"
  have "arm_GenRelocateCodeAndBranch (env_fuel env) (env_page_size env) (env_fresh env 0)
      (load_mem (pr_mem st1) (arm_place (raw_instruction_start ?o)) (unat (raw_instruction_size ?o) + relocate_window)) ?o (init_region_range 0 0) st1
      = Some (Inr (origin', relocated', st2))"
    using H(2) by (simp add: tb arm_backend_def arm_relocate_def Let_def)
  then have "origin' = arm_origin ?o" by (cases rule: arm_relocate_done) simp_all
  moreover have "unat (raw_instruction_size ?o) = length tb" using l by (intro size_init_region) simp
  ultimately have "unat (raw_instruction_size origin') = length tb"
    using l size_init_region [of "length tb" "raw_instruction_start ?o - 1"]
    by (simp add: arm_origin_def) (metis of_nat_unat ucast_id)
  then show thesis using that [of en "pr_mem st2"] H tb by (auto split: if_splits)
qed

text \<open>
  C3: when \<^verbatim>\<open>DobbyHook\<close> succeeds on 32-bit ARM, control that reaches the hooked function, in ARM state at an even
  address or in Thumb state at an odd one, goes to the replacement in the state its lowest bit asks for, with all
  other registers unchanged, and the table finds the new entry, which points to the relocated code.
\<close>

theorem arm_DobbyHook_redirects:
  assumes "DobbyHook arm_backend env address repl st = Some (Inr (RT_SUCCESS, Some oc, st'))"
    and "table_repr (SharedInstance (env_new_interceptor env) (pr_interceptor st)) es"
    and "node_unused (SharedInstance (env_new_interceptor env) (pr_interceptor st)) (env_new_node env)"
    and "unat address + 10 \<le> 2 ^ 32"
  shows "\<exists>en. FindHookEntry address (pr_interceptor st') = Some (Inr (Some en)) \<and> relocated_origin_instructions en = oc
     \<and> (\<forall>other s. rmem s = pr_mem st' \<and> rpc s = (ucast address AND NOT 1) \<and> rthumb s = bit address 0 \<longrightarrow>
          arm_reaches other s (s\<lparr>rpc := ucast repl AND NOT 1, rthumb := bit repl 0\<rparr>))"
proof -
  let ?a = "ucast address :: u32" let ?tb = "tramp_bytes ?a (ucast repl)"
  obtain m2 en where H: "oc = relocated_origin_instructions en" "target_address en = address" "table_repr (pr_interceptor st') (en # es)"
    "pr_mem st' = write_mem (arm_place address) ?tb m2"
    by (rule arm_hook_effect [OF assms(1-3)])
  have small: "unat address < 2 ^ 32" using assms(4) by simp
  note pl = arm_place_eq [OF small]
  have "unat (?a AND NOT 1) \<le> unat ?a" using word_and_le2 [of ?a "NOT 1"] by (simp add: word_le_nat_alt)
  moreover have "unat ?a = unat address" using small by (simp add: unsigned_ucast_eq take_bit_nat_eq_self)
  ultimately have "fetch_bytes (pr_mem st') (?a AND NOT 1) (length ?tb) = ?tb"
    using fetch_written [of "?a AND NOT 1" ?tb m2] assms(4) length_tramp [of ?a "ucast repl"] by (simp add: H(4) pl)
  then have "arm_reaches other s (bx_to (ucast repl) s)" if "rmem s = pr_mem st'" "rpc s = (?a AND NOT 1)" "rthumb s = bit address 0" for other s
    using run_tramp [of s ?a "ucast repl" other] that pl(2) by simp
  moreover have "FindHookEntry address (pr_interceptor st') = Some (Inr (Some en))" using itc.find_law [OF H(3), of address] H(2) by simp
  ultimately show ?thesis using H(1) by (intro exI [of _ en]) (simp add: bx_to_def bit_unsigned_iff)
qed

theorem arm_DobbyHook_redirects_witness:
  "\<exists>st' s t. DobbyHook arm_backend arm_demo_env 0x50000803 0x40000001 (new_process thumb_nop_mem) = Some (Inr (RT_SUCCESS, Some 0x60000001, st'))
     \<and> rmem s = pr_mem st' \<and> rpc s = 0x50000802 \<and> rthumb s \<and> arm_reaches (\<lambda>_ s. s) s t \<and> rpc t = 0x40000000 \<and> rthumb t"
proof -
  obtain st' where h: "DobbyHook arm_backend arm_demo_env 0x50000803 0x40000001 (new_process thumb_nop_mem) = Some (Inr (RT_SUCCESS, Some 0x60000001, st'))"
    using arm_demo_hook by blast
  define s where "s = \<lparr>rr = (\<lambda>_. 0), rpc = 0x50000802, rthumb = True, rnzcv = (False, False, False, False), rmem = pr_mem st'\<rparr>"
  have "rmem s = pr_mem st' \<and> rpc s = (ucast (0x50000803 :: u64) AND NOT 1) \<and> rthumb s = bit (0x50000803 :: u64) 0" by (simp add: s_def)
  then have "arm_reaches (\<lambda>_ s. s) s (s\<lparr>rpc := ucast (0x40000001 :: u64) AND NOT 1, rthumb := bit (0x40000001 :: u64) 0\<rparr>)"
    using arm_DobbyHook_redirects [OF h arm_demo_table(1,2)] by fastforce
  then show ?thesis using h by (intro exI [of _ st'] exI [of _ s] exI conjI) (assumption | simp add: s_def)+
qed



end
