(* ===== verification/Arm_Relocation_Limits.thy ===== *)
theory Arm_Relocation_Limits
  imports Arm_Relocation_Correct
begin

text \<open>
  Where the ARM and Thumb relocation changes the program: the branches of ARM code, the conditional \<^verbatim>\<open>b.w\<close>, \<^verbatim>\<open>adr.w\<close> and
  what is taken for it, and Thumb branches into the relocated range; and that the loop
  around the relocation is run once.
\<close>

section \<open>ARM branches\<close>

definition arm_branch_words :: "u32 \<Rightarrow> u32 \<Rightarrow> u32 list" where
  "arm_branch_words instr pc = [(instr AND 0xff000000) OR 1, 0xea000001, 0xe51ff004, pc + push_bit 2 (field 0 24 instr)]"

lemma arm_branch_emits:
  assumes "is_a32_branch instr"
  shows "ARMRelocateSingleInstr instr pc a = Inr (a\<lparr>asm_buffer := asm_buffer a @ word_bytes (arm_branch_words instr pc)\<rparr>)"
proof -
  have f: "bits_of instr 25 27 = 5" "bit_of instr 25 = 1"
    using assms by (auto simp: is_a32_branch_def bits_of_field bit_of_cases field_test upto_32)
  have e: "arm_ldr arm_pc (arm_mem arm_pc (- 4) arm_Offset) = arm_EmitARMInst 0xe51ff004" "arm_b 4 = arm_EmitARMInst 0xea000001"
    by (rule ext, simp add: arm_ldr_def arm_load_store_def OpEncode_MemOperand_def arm_mem_def reg_IsValid_def arm_regs arm_Rt_def arm_Rn_def
        arm_fields arm_AL_def bits_of_eq_take_bit arm_b_def)+
  have "ARMRelocateSingleInstr instr pc = arm_branch_fix instr pc" unfolding ARMRelocateSingleInstr_def Let_def f by simp
  then show ?thesis
    by (simp add: arm_branch_fix_def Let_def e arm_EmitARMInst_def EmitAddress_def emit_bytes_def word_bytes_def arm_branch_words_def bits_of_field)
qed

text \<open>
  A relocated ARM branch that is taken goes to the word behind the long jump, which is the address the jump should
  have loaded, and executes it. The address itself is too high by \<open>2 ^ 26\<close> if the branch was a backward one.
\<close>

theorem arm_branch_executes_address:
  assumes "is_a32_branch instr" and "field 28 4 instr \<noteq> 15"
  shows "\<exists>ws. ARMRelocateSingleInstr instr pc a = Inr (a\<lparr>asm_buffer := asm_buffer a @ word_bytes ws\<rparr>)
     \<and> (\<forall>other s. words_at (rmem s) (rpc s) ws \<and> \<not> rthumb s \<and> arm_cond (field 28 4 instr) s \<longrightarrow>
          (\<exists>t. arm_reaches other s t \<and> rpc t = rpc s + 12 \<and> arm_instr_at t = A32 (pc + push_bit 2 (field 0 24 instr))))"
proof (intro exI [of _ "arm_branch_words instr pc"] conjI arm_branch_emits [OF assms(1)] allI impI)
  fix other s
  assume A: "words_at (rmem s) (rpc s) (arm_branch_words instr pc) \<and> \<not> rthumb s \<and> arm_cond (field 28 4 instr) s"
  let ?w = "(instr AND 0xff000000) OR 1" and ?t = "a32_exec other ((instr AND 0xff000000) OR 1) s"
  have m: "(0xff000000 :: u32) = push_bit 24 (mask 8)" by (simp add: mask_eq_exp_minus_1)
  have f: "field 28 4 ?w = field 28 4 instr" "field 25 3 ?w = field 25 3 instr" "field 0 24 ?w = 1"
    unfolding m by (rule bit_word_eqI; auto simp: bit_field_iff bit_or_iff bit_and_iff bit_push_bit_iff bit_mask_iff bit_1_iff)+
  have c: "is_a32_branch ?w" "\<not> is_a32_ldr ?w" using assms(1) f(2) by (simp_all add: is_a32_branch_def is_a32_ldr_def)
  have t: "rpc ?t = rpc s + 12" "rmem ?t = rmem s" "rthumb ?t = rthumb s"
    using A c assms(2) f by (simp_all add: a32_exec_def link_reg_def signed_take_bit_def)
  have "arm_reaches other s ?t" using A by (intro step_a32) (simp_all add: arm_branch_words_def)
  moreover have "arm_instr_at ?t = A32 (pc + push_bit 2 (field 0 24 instr))"
    using A t by (simp add: arm_instr_at_def arm_branch_words_def add.assoc)
  ultimately show "\<exists>t. arm_reaches other s t \<and> rpc t = rpc s + 12 \<and> arm_instr_at t = A32 (pc + push_bit 2 (field 0 24 instr))"
    using t(1) by blast
qed

section \<open>The conditional branch\<close>

lemma bcond_bits:
  "bit (h AND (0xffc0 :: u16)) k \<longleftrightarrow> bit h k \<and> 6 \<le> k" "bit ((h AND (0xd000 :: u16)) OR 2) k \<longleftrightarrow> bit h k \<and> k \<in> {12, 14, 15} \<or> k = 1"
proof -
  have m: "(0xffc0 :: u16) = push_bit 6 (mask 10)" "(0xd000 :: u16) = push_bit 12 1 OR push_bit 14 1 OR push_bit 15 1" "(2 :: u16) = push_bit 1 1"
    by (simp_all add: mask_eq_exp_minus_1)
  show "bit (h AND (0xffc0 :: u16)) k \<longleftrightarrow> bit h k \<and> 6 \<le> k"
    unfolding m(1) using bit_imp_le_length [of h k] by (auto simp: bit_and_iff bit_push_bit_iff bit_mask_iff)
  show "bit ((h AND (0xd000 :: u16)) OR 2) k \<longleftrightarrow> bit h k \<and> k \<in> {12, 14, 15} \<or> k = 1"
    unfolding m(2,3) using bit_imp_le_length [of h k] by (auto simp only: bit_and_iff bit_or_iff bit_push_bit_iff bit_1_iff) auto
qed

lemma bcond_head:
  assumes "is_t32_bcond (t_half h1) (t_half h2)"
  shows "t_wide (h1 AND 0xffc0)" "is_t32_bcond (t_half (h1 AND 0xffc0)) (t_half ((h2 AND 0xd000) OR 2))"
    "field 6 4 (t_half (h1 AND 0xffc0)) = field 6 4 (t_half h1)"
    "t32_cond_offset (t_half (h1 AND 0xffc0)) (t_half ((h2 AND 0xd000) OR 2)) = (if bit h1 10 then 4 - 2 ^ 20 else 4)"
proof -
  let ?i = "t_half (h1 AND 0xffc0)" and ?j = "t_half ((h2 AND 0xd000) OR 2)"
  note b = bit_t_half bcond_bits
  show f: "field 6 4 ?i = field 6 4 (t_half h1)" by (rule bit_word_eqI) (auto simp: bit_field_iff b)
  have top: "?i AND 0xf800 = t_half h1 AND 0xf800" "field 11 5 ?i = 30"
  proof -
    have m: "(0xf800 :: u32) = push_bit 11 (mask 5)" by (simp add: mask_eq_exp_minus_1)
    have e: "field 11 5 ?i = field 11 5 (t_half h1)" by (rule bit_word_eqI) (auto simp: bit_field_iff b)
    then show a: "?i AND 0xf800 = t_half h1 AND 0xf800" by (simp only: m and_mask_field)
    have "t_half h1 AND 0xf800 = 0xf000" using assms by (simp add: is_t32_bcond_def is_t32_branch_def)
    then show "field 11 5 ?i = 30" unfolding e by (auto simp: by_bits)
  qed
  then show "t_wide (h1 AND 0xffc0)" by (simp add: t_wide_def)
  show "is_t32_bcond ?i ?j" using assms top(1) f by (simp add: is_t32_bcond_def is_t32_branch_def b)
  have z: "field 11 1 ?j = 0" "field 13 1 ?j = 0" "field 0 6 ?i = 0" "field 0 11 ?j = 2" "field 10 1 ?i = (if bit h1 10 then 1 else 0)"
    unfolding field_1 by (simp_all add: b field_test upto_32)
  show "t32_cond_offset ?i ?j = (if bit h1 10 then 4 - 2 ^ 20 else 4)"
    unfolding t32_cond_offset_def z by (simp add: signed_take_bit_def mask_eq_exp_minus_1)
qed

text \<open>
  C40: the relocation of a conditional \<^verbatim>\<open>b.w\<close>. A forward branch that is taken goes where it went; one that is not taken
  jumps to the address word behind the code and executes it; and a backward one that is taken, whose sign bit is
  kept, goes almost a megabyte back.
\<close>

theorem thumb_bcond_lost:
  assumes "is_t32_bcond (t_half h1) (t_half h2)" and "\<not> bit at 0"
  shows "\<exists>hs. Thumb2RelocateSingleInstr h1 h2 (at + 4) a = Inr (a\<lparr>asm_buffer := asm_buffer a @ half_bytes (t_pad a @ hs)\<rparr>)
     \<and> (\<forall>other s. rthumb s \<and> word_aligned (rpc s) \<and> halves_at (rmem s) (rpc s) hs \<longrightarrow>
          (if \<not> arm_cond (field 6 4 (t_half h1)) s
           then \<exists>t. arm_reaches other s t \<and> rpc t = rpc s + 12 \<and> rthumb t \<and> rmem t = rmem s
                 \<and> fetch_word (rmem t) (rpc t) = at + 4 + t32_cond_offset (t_half h1) (t_half h2) + 1
           else if bit h1 10 then arm_reaches other s (skip (8 - 2 ^ 20) s)
           else arm_reaches other s (t32_exec other h1 h2 (s\<lparr>rpc := at\<rparr>))))"
proof (intro exI [of _ "t2_piece h1 h2 (at + 4)"] conjI Thumb2_piece allI impI)
  let ?i = "t_half h1" and ?j = "t_half h2" let ?v = "at + 4 + t32_cond_offset ?i ?j"
  let ?g = "h1 AND 0xffc0" and ?h = "(h2 AND 0xd000) OR 2"
  fix other and s :: arm_cpu
  assume "rthumb s \<and> word_aligned (rpc s) \<and> halves_at (rmem s) (rpc s) (t2_piece h1 h2 (at + 4))"
  then have s: "rthumb s" "word_aligned (rpc s)" and c: "halves_at (rmem s) (rpc s) ([?g, ?h, 0xf000, 0xb802, 0xf85f, 0xf000] @ lit32 (?v + 1))"
    using assms(1) by (simp_all add: t2_piece_def Let_def)
  have hs: "fetch_half (rmem s) (rpc s) = ?g" "fetch_half (rmem s) (rpc s + 2) = ?h" "fetch_half (rmem s) (rpc s + 4) = 0xf000"
      "fetch_half (rmem s) (rpc s + 6) = 0xb802" "halves_at (rmem s) (rpc s + 8) ([0xf85f, 0xf000] @ lit32 (?v + 1))"
      "halves_at (rmem s) (rpc s + 12) (lit32 (?v + 1))"
    using c by (simp_all add: add.assoc lit32_def)
  note b = bcond_head [OF assms(1)]
  have step: "arm_reaches other s (t32_exec other ?g ?h s)" by (rule step_t32 [OF s(1) hs(1,2) b(1)])
  have exec: "t32_exec other ?g ?h s = (if arm_cond (field 6 4 ?i) s then skip (4 + (if bit h1 10 then 4 - 2 ^ 20 else 4)) s else skip 4 s)"
    using b(2) by (simp add: t32_exec_def Let_def b(3,4) del: power_numeral)
  have fall: "\<exists>t. arm_reaches other s t \<and> rpc t = rpc s + 12 \<and> rthumb t \<and> rmem t = rmem s \<and> fetch_word (rmem t) (rpc t) = ?v + 1"
    if "\<not> arm_cond (field 6 4 ?i) s"
  proof (intro exI conjI)
    have "arm_reaches other (skip 4 s) (skip 8 (skip 4 s))"
      using step_t32 [of "skip 4 s" "0xf000" "0xb802" other] s(1) hs(3,4) by (simp add: t32_skips add.assoc)
    then show "arm_reaches other s (skip 12 s)" using step exec that arm_reaches_trans by fastforce
  qed (use s hs(6) in \<open>simp_all add: fetch_word_lit\<close>)
  have taken: "arm_reaches other s (t32_exec other h1 h2 (s\<lparr>rpc := at\<rparr>))" if "arm_cond (field 6 4 ?i) s" "\<not> bit h1 10"
  proof -
    have "\<not> bit ?v 0" using assms(2) even_offsets by (simp add: odd_sum)
    then have "bx_to (?v + 1) (skip 8 s) = s\<lparr>rpc := ?v, rthumb := True\<rparr>" unfolding bx_to_absorbs by (rule bx_even)
    also have "\<dots> = t32_exec other h1 h2 (s\<lparr>rpc := at\<rparr>)"
      using assms(1) that(1) s(1) by (simp add: t32_exec_def Let_def skip_def arm_cond_def add.assoc)
    finally have "arm_reaches other (skip 8 s) (t32_exec other h1 h2 (s\<lparr>rpc := at\<rparr>))"
      using run_jump [of "skip 8 s" "?v + 1" other] s hs(5) by simp
    moreover have "arm_reaches other s (skip 8 s)" using step exec that by simp
    ultimately show ?thesis by (rule arm_reaches_trans [rotated])
  qed
  have far: "arm_reaches other s (skip (8 - 2 ^ 20) s)" if "arm_cond (field 6 4 ?i) s" "bit h1 10"
    using step exec that by simp
  show "if \<not> arm_cond (field 6 4 ?i) s then \<exists>t. arm_reaches other s t \<and> rpc t = rpc s + 12 \<and> rthumb t \<and> rmem t = rmem s
       \<and> fetch_word (rmem t) (rpc t) = ?v + 1
     else if bit h1 10 then arm_reaches other s (skip (8 - 2 ^ 20) s) else arm_reaches other s (t32_exec other h1 h2 (s\<lparr>rpc := at\<rparr>))"
    using fall taken far by auto
qed

theorem thumb_bcond_lost_witness:
  "\<exists>hs s t. Thumb2RelocateSingleInstr 0xf000 0x807e 0x1004 (new_arm_assemblers 0) = Inr ((new_arm_assemblers 0)\<lparr>asm_buffer := half_bytes hs\<rparr>)
     \<and> halves_at (rmem s) 0x8000 hs \<and> rpc s = 0x8000 \<and> arm_reaches (\<lambda>_ s. s) s t \<and> rpc t = 0x800c \<and> fetch_word (rmem t) (rpc t) = 0x1101"
proof -
  let ?a = "new_arm_assemblers 0" let ?hs = "t2_piece 0xf000 0x807e (0x1000 + 4)"
  have c: "is_t32_bcond (t_half 0xf000) (t_half 0x807e)" "\<not> bit (0x1000 :: u32) 0" by (code_simp, simp)
  obtain hs where hs: "Thumb2RelocateSingleInstr 0xf000 0x807e (0x1000 + 4) ?a = Inr (?a\<lparr>asm_buffer := asm_buffer ?a @ half_bytes (t_pad ?a @ hs)\<rparr>)"
      "\<forall>other s. rthumb s \<and> word_aligned (rpc s) \<and> halves_at (rmem s) (rpc s) hs \<longrightarrow>
         (if \<not> arm_cond (field 6 4 (t_half 0xf000)) s
          then \<exists>t. arm_reaches other s t \<and> rpc t = rpc s + 12 \<and> rthumb t \<and> rmem t = rmem s
                \<and> fetch_word (rmem t) (rpc t) = 0x1000 + 4 + t32_cond_offset (t_half 0xf000) (t_half 0x807e) + 1
          else if bit (0xf000 :: u16) 10 then arm_reaches other s (skip (8 - 2 ^ 20) s)
          else arm_reaches other s (t32_exec other 0xf000 0x807e (s\<lparr>rpc := 0x1000\<rparr>)))"
    using thumb_bcond_lost [OF c, of ?a] by blast
  have p: "t_pad ?a = []" by (simp add: t_pad_def new_arm_assemblers_def)
  have "length (half_bytes hs) = length (half_bytes ?hs)"
    using hs(1) Thumb2_piece [of "0xf000" "0x807e" "0x1000 + 4" ?a] p by (simp add: new_arm_assemblers_def)
  then have l: "length hs = 8" using c(1) by (simp add: t2_piece_def lit32_def Let_def)
  define s where "s = \<lparr>rr = (\<lambda>_. 0), rpc = 0x8000, rthumb = True, rnzcv = (False, False, False, False), rmem = write_mem (ucast (0x8000 :: u32)) (half_bytes hs) (\<lambda>_. 0)\<rparr>"
  have h: "halves_at (rmem s) 0x8000 hs" using halves_written [of "0x8000" hs "\<lambda>_. 0"] l by (simp add: s_def)
  have o: "t32_cond_offset (t_half 0xf000) (t_half 0x807e) = 0xfc" "\<not> arm_cond (field 6 4 (t_half 0xf000)) s"
    by (simp_all add: t32_cond_offset_def t_half_def field_def signed_take_bit_def arm_cond_def s_def)
  have "word_aligned 0x8000" by (simp add: word_aligned_def)
  then obtain t where "arm_reaches (\<lambda>_ s. s) s t" "rpc t = 0x800c" "fetch_word (rmem t) (rpc t) = 0x1101"
    using hs(2) [rule_format, of s "\<lambda>_ s. s"] h o by (auto simp: s_def)
  then show ?thesis using hs(1) h p by (intro exI [of _ hs] exI [of _ s] exI [of _ t]) (simp add: s_def new_arm_assemblers_def)
qed

section \<open>What is taken for adr\<close>

lemma adr_run:
  assumes s: "rthumb s" "word_aligned (rpc s)" and rd: "(rd :: u32) < 15"
    and c: "halves_at (rmem s) (rpc s) ([0xf8df, ucast (push_bit 12 rd OR 4), 0xf000, 0xb800] @ lit32 v)"
  shows "\<exists>t. arm_reaches other s t \<and> rr t (unat rd) = v \<and> rpc t = rpc s + 8 \<and> fetch_word (rmem t) (rpc t) = v"
proof -
  have nn: "unat rd \<noteq> 15" using rd by (auto simp: word_less_nat_alt)
  have h: "fetch_half (rmem s) (rpc s) = 0xf8df" "fetch_half (rmem s) (rpc s + 2) = ucast (push_bit 12 rd OR 4)"
      "fetch_half (rmem s) (rpc s + 4) = 0xf000" "fetch_half (rmem s) (rpc s + 6) = 0xb800" "fetch_word (rmem s) (rpc s + 8) = v"
    using c fetch_word_lit [of "rmem s" "rpc s + 8" v] by (simp_all add: lit32_def add.assoc)
  let ?s1 = "load_reg (unat rd) v (skip 4 s)"
  have "is_t32_ldr_lit (t_half 0xf8df)" "bit (t_half 0xf8df) 7" "t_wide 0xf8df" by (simp_all add: is_t32_ldr_lit_def t_half_def t_wide_def field_def)
  then have "arm_reaches other s ?s1"
    using step_t32 [OF s(1) h(1,2), of other] ldr_self_fields [OF rd] h(5) by (simp add: t32_exec_ldr_lit aligned_base [OF s(2)] add.assoc)
  moreover have "t32_exec other 0xf000 0xb800 ?s1 = skip 4 ?s1"
    by (simp add: t32_exec_def t_half_def is_t32_bcond_def is_t32_b_def is_t32_branch_def t32_offset_def field_def signed_take_bit_def)
  then have "arm_reaches other ?s1 (skip 4 ?s1)"
    using step_t32 [of ?s1 "0xf000" "0xb800" other] s(1) h(3,4) by (simp add: load_reg_other [OF nn] t_wide_def t_half_def field_def add.commute [of _ "rpc s"])
  ultimately have "arm_reaches other s (skip 4 ?s1)" by (rule arm_reaches_trans)
  then show ?thesis using h(5) by (intro exI [of _ "skip 4 ?s1"]) (simp add: load_reg_other [OF nn] add.assoc)
qed

text \<open>
  An \<^verbatim>\<open>adr.w\<close> that is recognised loads the address, not aligned, and then executes it. So does a \<^verbatim>\<open>movw\<close> whose
  immediate has the upper bits \<open>0xf\<close> and bit 6 clear, although it has nothing to do with the program counter.
\<close>

theorem thumb_adr_executes_address:
  assumes "t2_adr_seen (t_half h1) (t_half h2)" and "field 8 4 (t_half h2) < 15"
  shows "\<exists>hs v. Thumb2RelocateSingleInstr h1 h2 pc a = Inr (a\<lparr>asm_buffer := asm_buffer a @ half_bytes (t_pad a @ hs)\<rparr>)
     \<and> (v = pc + (push_bit 11 (field 10 1 (t_half h1)) OR push_bit 8 (field 12 3 (t_half h2)) OR field 0 8 (t_half h2))
        \<or> v = pc - (push_bit 11 (field 10 1 (t_half h1)) OR push_bit 8 (field 12 3 (t_half h2)) OR field 0 8 (t_half h2)))
     \<and> (\<forall>other s. rthumb s \<and> word_aligned (rpc s) \<and> halves_at (rmem s) (rpc s) hs \<longrightarrow>
          (\<exists>t. arm_reaches other s t \<and> rr t (unat (field 8 4 (t_half h2))) = v \<and> rpc t = rpc s + 8 \<and> fetch_word (rmem t) (rpc t) = v))"
proof -
  let ?i = "t_half h1" and ?j = "t_half h2"
  let ?rd = "field 8 4 ?j" and ?imm = "push_bit 11 (field 10 1 ?i) OR push_bit 8 (field 12 3 ?j) OR field 0 8 ?j"
  let ?v = "if bit ?i 7 then pc - ?imm else pc + ?imm"
  let ?hs = "[0xf8df, ucast (push_bit 12 ?rd OR 4), 0xf000, 0xb800] @ lit32 ?v"
  have n: "\<not> is_t32_branch ?i ?j" using assms(1) t2_branch_only(5) by blast
  then have p: "t2_piece h1 h2 pc = ?hs" using assms(1) by (simp add: t2_piece_def t2_branches Let_def)
  have run: "\<exists>t. arm_reaches other s t \<and> rr t (unat ?rd) = ?v \<and> rpc t = rpc s + 8 \<and> fetch_word (rmem t) (rpc t) = ?v"
    if "rthumb s \<and> word_aligned (rpc s) \<and> halves_at (rmem s) (rpc s) ?hs" for other s
    using adr_run [OF _ _ assms(2), of s ?v other] that by blast
  have v: "?v = pc + ?imm \<or> ?v = pc - ?imm" by simp
  show ?thesis using Thumb2_piece [of h1 h2 pc a, unfolded p] run v by blast
qed

lemma movw_taken_for_adr: "is_t32_movw i j \<Longrightarrow> field 0 4 i = 15 \<Longrightarrow> \<not> bit j 6 \<Longrightarrow> t2_adr_seen i j"
  by (auto simp: is_t32_movw_def t2_adr_seen_def by_bits)

section \<open>Branches into the relocated range\<close>

lemma lookup_odd:
  assumes "\<forall>e \<in> set m. \<not> bit (orig_instr e) 0" and "bit v 0"
  shows "get_orig_instr_relocated_addr m v = 0"
  using assms by (induction m) auto

lemma fixup_frame: "RelocBindFixup l a = Inr a' \<Longrightarrow> realized_address a' = realized_address a"
  by (auto simp: RelocBindFixup_def arm_RewriteAddr_def fix_bytes_def rbind_Inr_iff split: if_splits)

lemma fixup_labels_odd:
  assumes "fixup_labels wanted origin relo_map ls a = Inr (ls', a')" and "\<forall>e \<in> set relo_map. \<not> bit (orig_instr e) 0"
  shows "length ls' = length ls \<and> realized_address a' = realized_address a
     \<and> (\<forall>k < length ls. wanted (ls ! k) \<and> bit (lab_data (ls ! k)) 0 \<and> fst origin \<le> lab_data (ls ! k) \<and> lab_data (ls ! k) < fst origin + snd origin
          \<longrightarrow> lab_data (ls' ! k) = ucast (realized_address a))"
  using assms(1)
proof (induction ls arbitrary: a ls')
  case Nil
  then show ?case by simp
next
  case (Cons l ls)
  let ?hit = "wanted l \<and> lab_data l \<ge> fst origin \<and> lab_data l < fst origin + snd origin"
  let ?l = "l\<lparr>lab_data := get_orig_instr_relocated_addr relo_map (lab_data l) + ucast (realized_address a)\<rparr>"
  obtain l1 a1 ls1 where f: "(if ?hit then rbind (RelocBindFixup ?l a) (\<lambda>a1. Inr (?l, a1)) else Inr (l, a)) = Inr (l1, a1)"
      "fixup_labels wanted origin relo_map ls a1 = Inr (ls1, a')" "ls' = l1 # ls1"
    using Cons.prems by (auto simp only: fixup_labels.simps Let_def rbind_Inr_iff split_paired_Ex prod.case sum.inject prod.inject)
  have r: "realized_address a1 = realized_address a" using f(1) fixup_frame by (auto split: if_splits)
  have "lab_data l1 = ucast (realized_address a)" if "?hit" "bit (lab_data l) 0" using f(1) that lookup_odd [OF assms(2)] by (auto split: if_splits)
  then show ?case using Cons.IH [OF f(2)] r by (auto simp: f(3) nth_Cons split: nat.splits)
qed

text \<open>
  The label of a relocated Thumb branch holds its target plus one, and the map holds even addresses: a branch into
  the relocated range is not found in the map and made to go, in ARM state, to the start of the relocated code.
\<close>

theorem thumb_branch_inside_lost:
  assumes "reloc_label_fixup origin relo_map a = Inr a'" and "\<forall>e \<in> set relo_map. \<not> bit (orig_instr e) 0"
    and "k < length (thumb_data_labels a)" and "lab_used_for_branch (thumb_data_labels a ! k)" and "bit (lab_data (thumb_data_labels a ! k)) 0"
    and "fst origin \<le> lab_data (thumb_data_labels a ! k)" and "lab_data (thumb_data_labels a ! k) < fst origin + snd origin"
  shows "lab_data (thumb_data_labels a' ! k) = ucast (realized_address a)"
proof -
  obtain ts a1 where f: "fixup_labels lab_used_for_branch origin relo_map (thumb_data_labels a) a = Inr (ts, a1)" "thumb_data_labels a' = ts"
    using assms(1) by (auto simp: reloc_label_fixup_def rbind_Inr_iff)
  show ?thesis using fixup_labels_odd [OF f(1) assms(2)] f(2) assms(3-7) by auto
qed

section \<open>The loop around the relocation\<close>

text \<open>No instruction of the two assemblers changes the execution state they note.\<close>

definition keeps_state :: "arm_op \<Rightarrow> bool" where
  "keeps_state f \<longleftrightarrow> (\<forall>a a'. f a = Inr a' \<longrightarrow> arm_execute_state a' = arm_execute_state a \<and> thumb_execute_state a' = thumb_execute_state a)"

lemma keeps_emit: "keeps_state (emit_bytes bs)" by (simp add: keeps_state_def emit_bytes_def)

lemma keepsD:
  "keeps_state f \<Longrightarrow> f a = Inr a' \<Longrightarrow> arm_execute_state a' = arm_execute_state a \<and> thumb_execute_state a' = thumb_execute_state a"
  by (simp add: keeps_state_def)

lemma keeps_Nil: "keeps_state (do_all [])" by (simp add: keeps_state_def)

lemma keeps_Cons:
  assumes f: "keeps_state f" and fs: "keeps_state (do_all fs)"
  shows "keeps_state (do_all (f # fs))"
  unfolding keeps_state_def by (auto simp: rbind_Inr_iff dest!: keepsD [OF f] keepsD [OF fs])

lemma keeps_if: "keeps_state f \<Longrightarrow> keeps_state g \<Longrightarrow> keeps_state (if c then f else g)" by simp

lemma keeps_ldr: "keeps_state (arm_ldr rt m)"
  by (auto simp: keeps_state_def arm_ldr_def arm_load_store_def rbind_Inr_iff arm_EmitARMInst_def emit_bytes_def)

lemma keeps_basic:
  "keeps_state (arm_EmitARMInst w)" "keeps_state (EmitAddress w)" "keeps_state (EmitInt16 h)" "keeps_state t1_nop" "keeps_state AlignThumbNop"
  by (auto simp: keeps_state_def arm_EmitARMInst_def EmitAddress_def EmitInt16_def t1_nop_def AlignThumbNop_def emit_bytes_def split: if_splits)

lemmas keeps_all = keeps_basic keeps_Nil keeps_Cons keeps_if

lemma keeps_t2: "keeps_state (t2_b w)" "keeps_state (t2_bl w)" "keeps_state (t2_ldr r m)" "keeps_state (arm_b w)" "keeps_state (arm_bl w)"
  unfolding t2_b_def t2_bl_def t2_ldr_def EmitThumb2Branch_def EmitThumb2LoadStore_def EmitThumb2LoadLiteral_def arm_b_def arm_bl_def
    Let_def case_prod_beta by (intro keeps_all)+

lemma keeps_load_label: "keeps_state (arm_load_label rt v)" "keeps_state (thumb_load_label rt v b)"
  using keeps_ldr keeps_t2(3)
  by (auto simp: keeps_state_def arm_load_label_def thumb_load_label_def arm_Ldr_def T2_Ldr_def arm_AppendRelocLabelEntry_def
      thumb_AppendRelocLabelEntry_def rbind_Inr_iff split: if_splits)

lemmas keeps = keeps_all keeps_t2 keeps_ldr keeps_load_label

lemma keeps_ARM: "keeps_state (ARMRelocateSingleInstr instr pc)"
  unfolding ARMRelocateSingleInstr_def arm_ldr_literal_fix_def arm_branch_fix_def Let_def if_distrib [of "\<lambda>x. x @ _"] append.simps if_distrib [of do_all]
  if_distrib [of "\<lambda>x. do_all (_ # x)"] by (intro keeps)

lemma keeps_Thumb2: "keeps_state (Thumb2RelocateSingleInstr h1 h2 pc)"
  by (simp add: keeps_state_def Thumb2_piece)

lemma keeps_Thumb1:
  assumes "Thumb1RelocateSingleInstr h pc esc a = Inr (a', esc')"
  shows "arm_execute_state a' = arm_execute_state a \<and> thumb_execute_state a' = thumb_execute_state a"
proof -
  define K where "K r \<longleftrightarrow> (\<forall>b e. r = Inr (b, e) \<longrightarrow> arm_execute_state b = arm_execute_state a \<and> thumb_execute_state b = thumb_execute_state a)"
    for r :: "(arm_asm \<times> u32) result"
  have K: "K (rbind (do_all ops a) (\<lambda>a. Inr (a, e)))" if "keeps_state (do_all ops)" for ops e
    using keepsD [OF that] by (auto simp: K_def rbind_Inr_iff)
  have fail: "K (rbind (AlignThumbNop a) (\<lambda>_. Inl e))" for e by (simp add: K_def rbind_Inr_iff)
  have K_if: "K x \<Longrightarrow> K y \<Longrightarrow> K (if c then x else y)" for x y c by simp
  have "K (Thumb1RelocateSingleInstr h pc esc a)"
    unfolding Thumb1RelocateSingleInstr_def Let_def by (intro K_if K fail keeps)
  then show ?thesis using assms by (simp add: K_def)
qed

lemma arm_loop_keeps:
  "arm_loop mem cur fin rs instr pc m a = Inr (pc', m', a') \<Longrightarrow> arm_execute_state a' = arm_execute_state a"
proof (induction mem cur fin rs instr pc m a rule: arm_loop.induct)
  case (1 mem cur fin rs instr pc m a)
  show ?case
  proof (cases "cur < fin")
    case True
    note u = "1.prems" [unfolded arm_loop.simps [of mem cur fin rs instr pc m a]]
    obtain a1 where a1: "ARMRelocateSingleInstr instr pc a = Inr a1" using u True by (auto simp: rbind_Inr_iff Let_def)
    show ?thesis using u "1.IH" [OF True refl a1 refl] True a1 keepsD [OF keeps_ARM a1] by (auto simp: rbind_Inr_iff Let_def)
  qed (use "1.prems" in \<open>simp add: arm_loop.simps\<close>)
qed

lemma thumb_loop_keeps:
  assumes "thumb_loop mem cur fin rs instr pc qpc esc m a = Inr (cur', pc', esc', m', a')"
  shows "thumb_execute_state a' = thumb_execute_state a \<and> (cur' < fin \<longrightarrow> esc' = pc' - Thumb_PC_OFFSET)"
  using assms
proof (induction mem cur fin rs instr pc qpc esc m a rule: thumb_loop.induct)
  case (1 mem cur fin rs instr pc qpc esc m a)
  show ?case
  proof (cases "cur < fin")
    case True
    note u = "1.prems" [unfolded thumb_loop.simps [of mem cur fin rs instr pc qpc esc m a]]
    obtain a1 a2 esc1 where f: "t1_nop a = Inr a1" "(if is_thumb2 instr
               then rbind (Thumb2RelocateSingleInstr (ucast instr) (ucast (drop_bit 16 instr)) pc a1) (\<lambda>a2. Inr (a2, esc))
               else Thumb1RelocateSingleInstr (ucast instr) pc esc a1) = Inr (a2, esc1)"
      using u True by (auto simp: rbind_Inr_iff)
    have "thumb_execute_state a2 = thumb_execute_state a"
      using f keeps_basic(4) keeps_Thumb2 keeps_Thumb1 unfolding keeps_state_def by (auto simp: rbind_Inr_iff split: if_splits)
    then show ?thesis
      using u "1.IH" [OF True f(1) f(2) refl refl refl refl refl refl refl] True f
      by (auto simp: rbind_Inr_iff Let_def split: if_splits)
  next
    case False
    then show ?thesis using 1(2) by (subst (asm) thumb_loop.simps) auto
  qed
qed

lemma relocate_remain_once:
  assumes "arm_execute_state a = ARMExecuteState" and "thumb_execute_state a = ThumbExecuteState"
  shows "\<exists>r. \<forall>n. arm_relocate_remain (Suc n) mem buffer origin rs m a = Some r"
proof (cases "fst origin mod 2 \<noteq> 0")
  case True
  show ?thesis
  proof (cases "gen_thumb_relocate_code mem (buffer - 1) (fst origin - THUMB_ADDRESS_FLAG, snd origin) rs m a")
    case (Inr x)
    obtain o1 esc m1 a1 where x: "x = (o1, esc, m1, a1)" by (cases x)
    have "\<not> (thumb_execute_state a1 = ARMExecuteState \<and> esc < fst o1 + snd o1)"
      using Inr assms unfolding x gen_thumb_relocate_code_def
      by (auto simp: rbind_Inr_iff Let_def split: if_splits dest!: thumb_loop_keeps)
    then show ?thesis using True Inr x by (auto simp: Let_def)
  qed (use True in \<open>simp add: Let_def\<close>)
next
  case False
  show ?thesis
  proof (cases "gen_arm_relocate_code mem buffer origin rs m a")
    case (Inr x)
    obtain o1 m1 a1 where x: "x = (o1, m1, a1)" by (cases x)
    have "arm_execute_state a1 = ARMExecuteState"
      using Inr assms arm_loop_keeps unfolding x gen_arm_relocate_code_def by (auto simp: rbind_Inr_iff)
    then show ?thesis using False Inr x by (auto simp: Let_def)
  qed (use False in \<open>simp add: Let_def\<close>)
qed

lemma robind_total: "(\<And>x. \<exists>y. f x = Some y) \<Longrightarrow> \<exists>y. robind (Some m) f = Some y" by (cases m) simp_all

lemma robind_ends: "(\<And>x. \<exists>y. f x = Some y) \<Longrightarrow> \<exists>r. \<forall>n :: nat. robind (Some m) f = Some r"
  using robind_total [of f m] by auto

text \<open>
  C11: the relocation of ARM and Thumb code ends. The loops advance by the length of an instruction each round; the
  jump back to \<^verbatim>\<open>relocate_remain\<close> is never made, since a round that is cut short by a change of the execution state has
  its range cut to what was relocated and so leaves nothing over. One unit of fuel gives the result of any greater.
\<close>

theorem arm_relocation_ends:
  "\<exists>r. \<forall>n. arm_GenRelocateCodeAndBranch (Suc n) pageSize fresh mem origin relocated st = Some r"
proof -
  let ?start = "ucast (raw_instruction_start origin) :: u32" and ?size = "ucast (raw_instruction_size origin) :: u32"
  have "\<exists>r. \<forall>n. arm_relocate_remain (Suc n) mem (if ?start mod 2 \<noteq> 0 then 1 else 0) (?start, ?size)
      (ucast (raw_instruction_start relocated)) [] (new_arm_assemblers 0) = Some r"
    by (rule relocate_remain_once) (simp_all add: new_arm_assemblers_def)
  then obtain r where r: "\<And>n. arm_relocate_remain (Suc n) mem (if ?start mod 2 \<noteq> 0 then 1 else 0) (?start, ?size)
      (ucast (raw_instruction_start relocated)) [] (new_arm_assemblers 0) = Some r" by blast
  have "\<exists>c. \<forall>n. arm_relocated_code (Suc n) mem (?start, ?size) (ucast (raw_instruction_start relocated)) = Some c"
    unfolding arm_relocated_code_def fst_conv r Let_def by (intro robind_ends) (simp add: case_prod_beta)
  then obtain c where c: "\<And>n. arm_relocated_code (Suc n) mem (?start, ?size) (ucast (raw_instruction_start relocated)) = Some c" by blast
  show ?thesis
    unfolding arm_GenRelocateCodeAndBranch_def Let_def c by (intro robind_ends) (auto intro!: robind_total split: prod.splits option.splits)
qed

end
