(* ===== verification/Ia32_Assembler.thy ===== *)
theory Ia32_Assembler
  imports X64_Assembler
begin

text \<open>
  The assembler of the 32-bit x86 target, \<^verbatim>\<open>assembler-ia32.h\<close> and \<^verbatim>\<open>assembler-ia32.cc\<close>, and \<^verbatim>\<open>CodeGen::JmpNear\<close>. The scale
  factors and the macros that take a ModR/M byte apart are those of x64; \<^verbatim>\<open>ASSERT\<close> is empty. Of the
  getters of an operand only \<^verbatim>\<open>modrm()\<close>, the first byte of its encoding, is called.
\<close>

section \<open>Registers\<close>

type_synonym ia32_reg = CPURegister

definition eax :: ia32_reg where "eax = \<lparr>reg_code = 0, reg_size = 32\<rparr>"
definition ecx :: ia32_reg where "ecx = \<lparr>reg_code = 1, reg_size = 32\<rparr>"
definition edx :: ia32_reg where "edx = \<lparr>reg_code = 2, reg_size = 32\<rparr>"
definition ebx :: ia32_reg where "ebx = \<lparr>reg_code = 3, reg_size = 32\<rparr>"
definition esp :: ia32_reg where "esp = \<lparr>reg_code = 4, reg_size = 32\<rparr>"
definition ebp :: ia32_reg where "ebp = \<lparr>reg_code = 5, reg_size = 32\<rparr>"
definition esi :: ia32_reg where "esi = \<lparr>reg_code = 6, reg_size = 32\<rparr>"
definition edi :: ia32_reg where "edi = \<lparr>reg_code = 7, reg_size = 32\<rparr>"

lemmas ia32_regs = eax_def ecx_def edx_def ebx_def esp_def ebp_def esi_def edi_def

definition ia32_VOLATILE_REGISTER :: ia32_reg where "ia32_VOLATILE_REGISTER = eax"

section \<open>Immediates and operands\<close>

record ia32_Immediate =
  i32_value :: u32
  i32_size :: nat

definition new_ia32_Immediate :: "u32 \<Rightarrow> ia32_Immediate" where
  "new_ia32_Immediate imm =
     \<lparr>i32_value = imm,
      i32_size = (if (scast (ucast imm :: u8) :: u32) = imm then 8
                  else if (scast (ucast imm :: u16) :: u32) = imm then 16
                  else 32)\<rparr>"

definition ia32_Imm :: "u32 \<Rightarrow> nat \<Rightarrow> ia32_Immediate" where
  "ia32_Imm imm sz = \<lparr>i32_value = imm, i32_size = sz\<rparr>"

text \<open>An operand is its encoding; \<^verbatim>\<open>length_\<close> is the length of the list.\<close>

type_synonym ia32_Operand = "u8 list"

definition ia32_SetModRM :: "u8 \<Rightarrow> ia32_reg \<Rightarrow> ia32_Operand \<Rightarrow> ia32_Operand" where
  "ia32_SetModRM md rm opd = [push_bit 6 md OR reg_code rm]"

definition ia32_SetSIB :: "ScaleFactor \<Rightarrow> ia32_reg \<Rightarrow> ia32_reg \<Rightarrow> ia32_Operand \<Rightarrow> ia32_Operand" where
  "ia32_SetSIB sc index base opd = take 1 opd @ [push_bit 6 (scale_code sc) OR push_bit 3 (reg_code index) OR reg_code base]"

definition ia32_SetDisp8 :: "u8 \<Rightarrow> ia32_Operand \<Rightarrow> ia32_Operand" where
  "ia32_SetDisp8 d opd = opd @ [d]"

definition ia32_SetDisp32 :: "u32 \<Rightarrow> ia32_Operand \<Rightarrow> ia32_Operand" where
  "ia32_SetDisp32 d opd = opd @ le_bytes 4 d"

definition ia32_disp8 :: "u32 \<Rightarrow> bool" where
  "ia32_disp8 disp \<longleftrightarrow> sint disp \<ge> -128 \<and> sint disp \<le> 127"

definition ia32_base_disp :: "ia32_reg \<Rightarrow> u32 \<Rightarrow> ia32_Operand" where
  "ia32_base_disp base disp =
     (let with_sib = (\<lambda>opd. if reg_code base = reg_code esp then ia32_SetSIB TIMES_1 esp base opd else opd)
      in if disp = 0 \<and> reg_code base \<noteq> reg_code ebp then with_sib (ia32_SetModRM 0 base [])
         else if ia32_disp8 disp then ia32_SetDisp8 (ucast disp) (with_sib (ia32_SetModRM 1 base []))
         else ia32_SetDisp32 disp (with_sib (ia32_SetModRM 2 base [])))"

definition ia32_index_disp :: "ia32_reg \<Rightarrow> ScaleFactor \<Rightarrow> u32 \<Rightarrow> ia32_Operand" where
  "ia32_index_disp index sc disp = ia32_SetDisp32 disp (ia32_SetSIB sc index ebp (ia32_SetModRM 0 esp []))"

definition ia32_base_index_disp :: "ia32_reg \<Rightarrow> ia32_reg \<Rightarrow> ScaleFactor \<Rightarrow> u32 \<Rightarrow> ia32_Operand" where
  "ia32_base_index_disp base index sc disp =
     (if disp = 0 \<and> reg_code base AND 7 \<noteq> reg_code ebp then ia32_SetSIB sc index base (ia32_SetModRM 0 esp [])
      else if ia32_disp8 disp then ia32_SetDisp8 (ucast disp) (ia32_SetSIB sc index base (ia32_SetModRM 1 esp []))
      else ia32_SetDisp32 disp (ia32_SetSIB sc index base (ia32_SetModRM 2 esp [])))"

definition ia32_fixed_disp :: "ia32_reg \<Rightarrow> u32 \<Rightarrow> ia32_Operand" where
  "ia32_fixed_disp base disp =
     (let opd = ia32_SetModRM 2 base []
      in ia32_SetDisp32 disp (if reg_code base = reg_code esp then ia32_SetSIB TIMES_1 esp base opd else opd))"

section \<open>The assembler\<close>

datatype ia32_PseudoLabelType = kDisp32_off_7

record ia32_label = Label +
  ia32_instructions :: "(int \<times> ia32_PseudoLabelType) list"
  ia32_label_data :: u32

text \<open>\<^verbatim>\<open>data_labels_\<close> that has not been allocated is an empty list.\<close>

record ia32_asm = asm_state +
  ia32_data_labels :: "ia32_label list"

type_synonym ia32_op = "ia32_asm \<Rightarrow> ia32_asm result"

definition new_ia32_asm :: "u64 \<Rightarrow> ia32_asm" where
  "new_ia32_asm address = \<lparr>asm_buffer = [], realized_address = address, ia32_data_labels = []\<rparr>"

definition ia32_Emit1 :: "u8 \<Rightarrow> ia32_op" where "ia32_Emit1 v = emit_bytes (le_bytes 1 v)"
definition ia32_Emit :: "u32 \<Rightarrow> ia32_op" where "ia32_Emit v = emit_bytes (le_bytes 4 v)"

definition ia32_EmitImmediate :: "ia32_Immediate \<Rightarrow> nat \<Rightarrow> ia32_op" where
  "ia32_EmitImmediate imm sz =
     (if sz = 8 then emit_bytes (le_bytes 1 (ucast (i32_value imm) :: u8))
      else if sz = 32 then emit_bytes (le_bytes 4 (i32_value imm))
      else (\<lambda>_. Inl UNREACHABLE))"

definition ia32_EmitModRM :: "u8 \<Rightarrow> u8 \<Rightarrow> u8 \<Rightarrow> ia32_op" where
  "ia32_EmitModRM md regop rm = ia32_Emit1 (push_bit 6 md OR push_bit 3 regop OR rm)"

definition ia32_EmitModRM_ExtraOpcode_Register :: "u8 \<Rightarrow> ia32_reg \<Rightarrow> ia32_op" where
  "ia32_EmitModRM_ExtraOpcode_Register extra r = ia32_EmitModRM 3 extra (reg_code r)"

definition ia32_EmitModRM_Register_Register :: "ia32_reg \<Rightarrow> ia32_reg \<Rightarrow> ia32_op" where
  "ia32_EmitModRM_Register_Register reg1 reg2 = ia32_EmitModRM 3 (reg_code reg1) (reg_code reg2)"

definition ia32_EmitModRM_Update_Register :: "u8 \<Rightarrow> ia32_reg \<Rightarrow> ia32_op" where
  "ia32_EmitModRM_Update_Register modRM r = ia32_EmitModRM (ModRM_Mod modRM) (reg_code r) (ModRM_RM modRM)"

definition ia32_EmitModRM_Update_ExtraOpcode :: "u8 \<Rightarrow> u8 \<Rightarrow> ia32_op" where
  "ia32_EmitModRM_Update_ExtraOpcode modRM extra = ia32_EmitModRM (ModRM_Mod modRM) extra (ModRM_RM modRM)"

definition ia32_EmitOpcode :: "u8 \<Rightarrow> ia32_op" where "ia32_EmitOpcode opcode = ia32_Emit1 opcode"

definition ia32_EmitOpcode_Register :: "u8 \<Rightarrow> ia32_reg \<Rightarrow> ia32_op" where
  "ia32_EmitOpcode_Register opcode r = ia32_EmitOpcode (opcode OR reg_code r)"

definition ia32_OpEn_Register_MemOperand :: "ia32_reg \<Rightarrow> ia32_Operand \<Rightarrow> ia32_op" where
  "ia32_OpEn_Register_MemOperand dst opd = do_all [ia32_EmitModRM_Update_Register (opd ! 0) dst, emit_bytes (drop 1 opd)]"

definition ia32_OpEn_Register_RegOperand :: "ia32_reg \<Rightarrow> ia32_reg \<Rightarrow> ia32_op" where
  "ia32_OpEn_Register_RegOperand dst src = ia32_EmitModRM_Register_Register dst src"

definition ia32_OpEn_MemOperand_Immediate :: "u8 \<Rightarrow> ia32_Operand \<Rightarrow> ia32_Immediate \<Rightarrow> ia32_op" where
  "ia32_OpEn_MemOperand_Immediate extra opd imm =
     do_all [ia32_EmitModRM_Update_ExtraOpcode (opd ! 0) extra, emit_bytes (drop 1 opd), ia32_EmitImmediate imm (i32_size imm)]"

definition ia32_OpEn_RegOperand_Immediate :: "u8 \<Rightarrow> ia32_reg \<Rightarrow> ia32_Immediate \<Rightarrow> ia32_op" where
  "ia32_OpEn_RegOperand_Immediate extra r imm = do_all [ia32_EmitModRM_ExtraOpcode_Register extra r, ia32_EmitImmediate imm (i32_size imm)]"

definition ia32_OpEn_MemOperand :: "u8 \<Rightarrow> ia32_Operand \<Rightarrow> ia32_op" where
  "ia32_OpEn_MemOperand extra opd = do_all [ia32_EmitModRM_Update_ExtraOpcode (opd ! 0) extra, emit_bytes (drop 1 opd)]"

definition ia32_OpEn_RegOperand :: "u8 \<Rightarrow> ia32_reg \<Rightarrow> ia32_op" where
  "ia32_OpEn_RegOperand extra r = ia32_EmitModRM_ExtraOpcode_Register extra r"

definition ia32_OpEn_OpcodeRegister_Immediate :: "u8 \<Rightarrow> ia32_reg \<Rightarrow> ia32_Immediate \<Rightarrow> ia32_op" where
  "ia32_OpEn_OpcodeRegister_Immediate opcode dst imm = do_all [ia32_EmitOpcode_Register opcode dst, ia32_EmitImmediate imm (i32_size imm)]"

section \<open>Instructions\<close>

definition ia32_pushfq :: ia32_op where "ia32_pushfq = ia32_Emit1 0x9C"

definition ia32_jmp :: "ia32_Immediate \<Rightarrow> ia32_op" where
  "ia32_jmp imm = do_all [emit_bytes (le_bytes 1 (0xE9 :: u8)), emit_bytes (le_bytes 4 (i32_value imm))]"

definition ia32_sub :: "ia32_reg \<Rightarrow> ia32_Immediate \<Rightarrow> ia32_op" where
  "ia32_sub dst imm = do_all [ia32_EmitOpcode 0x81, ia32_OpEn_RegOperand_Immediate 0x5 dst imm]"

definition ia32_add :: "ia32_reg \<Rightarrow> ia32_Immediate \<Rightarrow> ia32_op" where
  "ia32_add dst imm = do_all [ia32_EmitOpcode 0x81, ia32_OpEn_RegOperand_Immediate 0x0 dst imm]"

definition ia32_mov_ri :: "ia32_reg \<Rightarrow> ia32_Immediate \<Rightarrow> ia32_op" where
  "ia32_mov_ri dst imm = ia32_OpEn_OpcodeRegister_Immediate 0xb8 dst imm"

definition ia32_mov_mi :: "ia32_Operand \<Rightarrow> ia32_Immediate \<Rightarrow> ia32_op" where
  "ia32_mov_mi dst imm = do_all [ia32_EmitOpcode 0xc7, ia32_OpEn_MemOperand_Immediate 0x0 dst imm]"

definition ia32_mov_rm :: "ia32_reg \<Rightarrow> ia32_Operand \<Rightarrow> ia32_op" where
  "ia32_mov_rm dst src = do_all [ia32_EmitOpcode 0x8B, ia32_OpEn_Register_MemOperand dst src]"

definition ia32_mov_mr :: "ia32_Operand \<Rightarrow> ia32_reg \<Rightarrow> ia32_op" where
  "ia32_mov_mr dst src = do_all [ia32_EmitOpcode 0x89, ia32_OpEn_Register_MemOperand src dst]"

definition ia32_mov_rr :: "ia32_reg \<Rightarrow> ia32_reg \<Rightarrow> ia32_op" where
  "ia32_mov_rr dst src = do_all [ia32_Emit1 0x8B, ia32_OpEn_Register_RegOperand dst src]"

definition ia32_call_m :: "ia32_Operand \<Rightarrow> ia32_op" where
  "ia32_call_m opd = do_all [ia32_EmitOpcode 0xFF, ia32_OpEn_MemOperand 0x2 opd]"

definition ia32_call_i :: "ia32_Immediate \<Rightarrow> ia32_op" where
  "ia32_call_i imm = do_all [ia32_EmitOpcode 0xe8, ia32_EmitImmediate imm (i32_size imm)]"

definition ia32_call_r :: "ia32_reg \<Rightarrow> ia32_op" where
  "ia32_call_r r = do_all [ia32_EmitOpcode 0xFF, ia32_OpEn_RegOperand 0x2 r]"

definition ia32_pop :: "ia32_reg \<Rightarrow> ia32_op" where "ia32_pop r = ia32_EmitOpcode_Register 0x58 r"
definition ia32_push :: "ia32_reg \<Rightarrow> ia32_op" where "ia32_push r = ia32_EmitOpcode_Register 0x50 r"
definition ia32_ret :: ia32_op where "ia32_ret = ia32_EmitOpcode 0xc3"
definition ia32_nop :: ia32_op where "ia32_nop = ia32_EmitOpcode 0x90"

section \<open>TurboAssembler\<close>

definition ia32_CurrentIP :: "ia32_asm \<Rightarrow> u32" where
  "ia32_CurrentIP a = of_nat (pc_offset a) + ucast (realized_address a)"

definition ia32_MovRipToRegister :: "ia32_reg \<Rightarrow> ia32_op" where
  "ia32_MovRipToRegister dst = do_all [ia32_call_i (ia32_Imm 0 32), ia32_pop dst]"

definition new_ia32_label :: "u32 \<Rightarrow> ia32_label" where
  "new_ia32_label d = \<lparr>pos_raw = 0, near_link = 0, ia32_instructions = [], ia32_label_data = d\<rparr>"

definition ia32_link_to :: "int \<Rightarrow> ia32_PseudoLabelType \<Rightarrow> ia32_label \<Rightarrow> ia32_label" where
  "ia32_link_to p t l = l\<lparr>ia32_instructions := ia32_instructions l @ [(p, t)]\<rparr>"

definition ia32_AppendRelocLabelEntry :: "ia32_label \<Rightarrow> ia32_op" where
  "ia32_AppendRelocLabelEntry l a = Inr (a\<lparr>ia32_data_labels := ia32_data_labels a @ [l]\<rparr>)"

definition ia32_CallFunction :: "u32 \<Rightarrow> ia32_op" where
  "ia32_CallFunction function =
     do_all [ia32_nop, ia32_MovRipToRegister ia32_VOLATILE_REGISTER,
             ia32_call_m (ia32_base_disp ia32_VOLATILE_REGISTER 0x7FFFFFFF),
             (\<lambda>a. ia32_AppendRelocLabelEntry (ia32_link_to (int (ip_offset a)) kDisp32_off_7 (new_ia32_label function)) a),
             ia32_nop]"

definition ia32_link_instruction :: "int \<Rightarrow> int \<times> ia32_PseudoLabelType \<Rightarrow> ia32_op" where
  "ia32_link_instruction lpos i =
     (let offset = of_int (lpos - fst i) :: u32
      in case snd i of kDisp32_off_7 \<Rightarrow> fix_bytes (fst i - 4) (le_bytes 4 (offset + 7)))"

definition ia32_PseudoBind :: "ia32_label \<Rightarrow> ia32_asm \<Rightarrow> (ia32_label \<times> ia32_asm) result" where
  "ia32_PseudoBind l a =
     (let l1 = bind_to (int (length (asm_buffer a))) l
      in rbind (rfold (ia32_link_instruction (label_pos l1)) (ia32_instructions l1) a) (\<lambda>a1. Inr (l1, a1)))"

fun ia32_bind_labels :: "ia32_label list \<Rightarrow> ia32_asm \<Rightarrow> (ia32_label list \<times> ia32_asm) result" where
  "ia32_bind_labels [] a = Inr ([], a)"
| "ia32_bind_labels (l # ls) a =
     rbind (ia32_PseudoBind l a) (\<lambda>(l1, a1).
     rbind (ia32_Emit (ia32_label_data l1) a1) (\<lambda>a2.
     rbind (ia32_bind_labels ls a2) (\<lambda>(ls1, a3). Inr (l1 # ls1, a3))))"

definition ia32_RelocBind :: ia32_op where
  "ia32_RelocBind a = rbind (ia32_bind_labels (ia32_data_labels a) a) (\<lambda>(ls, a1). Inr (a1\<lparr>ia32_data_labels := ls\<rparr>))"

section \<open>CodeGen\<close>

definition ia32_JmpNear :: "u32 \<Rightarrow> ia32_op" where
  "ia32_JmpNear address a =
     (let currIP = ia32_CurrentIP a + 5; offset = address - currIP
      in do_all [emit_bytes (le_bytes 1 (0xe9 :: u8)), emit_bytes (le_bytes 4 offset)] a)"

end
