(* ===== verification/Ia32_Relocation.thy ===== *)
theory Ia32_Relocation
  imports Ia32_Assembler X86_Decode_Correct Code_Patch
begin

text \<open>
  \<^verbatim>\<open>InstructionRelocation/x86/X86InstructionRelocation.cc\<close>: the relocator of the 32-bit x86 target, the decoder in its
  32-bit mode. The instruction pointers are kept with 64 bits (\<^verbatim>\<open>addr64_t\<close>), as in the source.
\<close>

definition ia32_conf :: x86_options_t where
  "ia32_conf = \<lparr>opt_mode = 32\<rparr>"

definition ia32_relocate_insn :: "u8 list \<Rightarrow> nat \<Rightarrow> u64 \<Rightarrow> u64 \<Rightarrow> x86_insn_decode_t \<Rightarrow> ia32_op" where
  "ia32_relocate_insn mem cur curr_orig_ip curr_relo_ip insn =
     (if primary_opcode insn \<ge> 0x70 \<and> primary_opcode insn \<le> 0x7F
      then (let orig_offset = ucast (immediate insn) :: u8;
                new_offset = ucast (curr_orig_ip + scast orig_offset - curr_relo_ip) :: u32;
                opcode = 0x80 OR (primary_opcode insn AND 0x0f)
            in do_all [emit_bytes (le_bytes 1 (0x0F :: u8)), emit_bytes (le_bytes 1 opcode), emit_bytes (le_bytes 4 new_offset)])
      else if primary_opcode insn = 0xEB
      then (let orig_offset = ucast (immediate insn) :: u8;
                new_offset = ucast (curr_orig_ip + scast orig_offset - curr_relo_ip) :: u8
            in do_all [emit_bytes (le_bytes 1 (0xE9 :: u8)), emit_bytes (le_bytes 4 (scast new_offset :: u32))])
      else if primary_opcode insn = 0xE8 \<or> primary_opcode insn = 0xE9
      then (let orig_offset = ucast (immediate insn) :: u32;
                offset = ucast (curr_orig_ip + scast orig_offset - curr_relo_ip) :: u32
            in do_all [emit_bytes (take (unat (immediate_offset insn)) (drop cur mem)), emit_bytes (le_bytes 4 offset)])
      else if primary_opcode insn \<ge> 0xE0 \<and> primary_opcode insn \<le> 0xE2 then (\<lambda>_. Inl UNIMPLEMENTED)
      else if primary_opcode insn = 0xE3 then (\<lambda>_. Inl UNIMPLEMENTED)
      else emit_bytes (take (unat (insn_length insn)) (drop cur mem)))"

text \<open>\<open>over\<close> gives, for each position, the memory behind the instruction record that the decoder's operand scans run into.\<close>

function (sequential) ia32_loop ::
  "(nat \<Rightarrow> x86_insn_operand_spec list) \<Rightarrow> u8 list \<Rightarrow> nat \<Rightarrow> nat \<Rightarrow> u64 \<Rightarrow> ia32_asm \<Rightarrow> (u64 \<times> ia32_asm) result" where
  "ia32_loop over mem predefined cur curr_orig_ip a =
     (if cur < predefined
      then rbind (x86_insn_decode (over cur) zero_insn (drop cur mem) ia32_conf) (\<lambda>insn.
           rbind (ia32_relocate_insn mem cur curr_orig_ip (realized_address a + of_nat (ip_offset a)) insn a) (\<lambda>a'.
             ia32_loop over mem predefined (cur + unat (insn_length insn)) (curr_orig_ip + ucast (insn_length insn)) a'))
      else Inr (curr_orig_ip, a))"
  by pat_completeness auto
termination
proof (relation "measure (\<lambda>(over, mem, predefined, cur, ip, a). predefined - cur)")
  fix over :: "nat \<Rightarrow> x86_insn_operand_spec list" and mem predefined cur curr_orig_ip a insn a'
  assume "cur < predefined" and "x86_insn_decode (over cur) zero_insn (drop cur mem) ia32_conf = Inr insn"
  then show "((over, mem, predefined, cur + unat (insn_length insn), curr_orig_ip + ucast (insn_length insn), a'),
      over, mem, predefined, cur, curr_orig_ip, a) \<in> measure (\<lambda>(over, mem, predefined, cur, ip, a). predefined - cur)"
    using decode_length_range [of "over cur" zero_insn "drop cur mem" ia32_conf insn] by (auto simp: word_le_nat_alt)
qed simp

declare ia32_loop.simps [simp del]

text \<open>The result: the status, the origin chunk with its new length, and the process.\<close>

definition ia32_GenRelocateCodeFixed ::
  "u64 \<Rightarrow> (nat \<Rightarrow> x86_insn_operand_spec list) \<Rightarrow> u8 list \<Rightarrow> MemoryChunk \<Rightarrow> MemoryChunk \<Rightarrow> process \<Rightarrow> (RetStatus \<times> MemoryChunk \<times> process) result" where
  "ia32_GenRelocateCodeFixed pageSize over mem origin relocated st =
     (let a0 = SetRealizedAddress (raw_instruction_start relocated) (new_ia32_asm 0);
          predefined_size = nat (sint (ucast (raw_instruction_size origin) :: u32))
      in rbind (ia32_loop over mem predefined_size 0 (raw_instruction_start origin) a0) (\<lambda>(curr_orig_ip, a).
         rbind (ia32_JmpNear (ucast curr_orig_ip) a) (\<lambda>a1.
           let new_origin_len = ucast (curr_orig_ip - raw_instruction_start origin) :: u32;
               origin' = init_region_range (raw_instruction_start origin) new_origin_len
           in if of_nat (length (asm_buffer a1)) > raw_instruction_size relocated
              then Inr (RT_FAILED, origin', st)
              else rbind (FinalizeFromTurboAssembler pageSize 0 0 a1 st) (\<lambda>(_, _, st1). Inr (RT_SUCCESS, origin', st1)))))"

text \<open>The label \<^verbatim>\<open>x86_try_again\<close> as recursion with fuel; \<open>fresh k\<close> is the page the system gives if attempt \<open>k\<close> needs one.\<close>

fun x86_try_again ::
  "nat \<Rightarrow> u64 \<Rightarrow> (nat \<Rightarrow> u64) \<Rightarrow> (nat \<Rightarrow> x86_insn_operand_spec list) \<Rightarrow> u8 list \<Rightarrow> nat \<Rightarrow> u32 \<Rightarrow> MemoryChunk \<Rightarrow> MemoryChunk \<Rightarrow> process
     \<Rightarrow> (MemoryChunk \<times> MemoryChunk \<times> process) result option" where
  "x86_try_again 0 pageSize fresh over mem k relo_code_chunk_size origin relocated st = None"
| "x86_try_again (Suc fuel) pageSize fresh over mem k relo_code_chunk_size origin relocated st =
     (let (got, st1) = (if raw_instruction_start relocated = 0
                        then (let (c, ar) = AllocateCodeChunk pageSize (fresh k) relo_code_chunk_size (pr_arena st)
                              in (map_option (\<lambda>c. init_region_range (range_address c) (ucast (range_length c))) c, with_arena ar st))
                        else (Some relocated, st))
      in case got of
           None \<Rightarrow> Some (Inr (origin, relocated, st1))
         | Some relocated1 \<Rightarrow>
             (case ia32_GenRelocateCodeFixed pageSize over mem origin relocated1 st1 of
                Inl e \<Rightarrow> Some (Inl e)
              | Inr (RT_SUCCESS, origin', st2) \<Rightarrow> Some (Inr (origin', relocated1, st2))
              | Inr (RT_FAILED, origin', st2) \<Rightarrow>
                  x86_try_again fuel pageSize fresh over mem (k + 1) (relo_code_chunk_size + 16) origin' (init_region_range 0 0) st2))"

definition ia32_GenRelocateCodeAndBranch ::
  "nat \<Rightarrow> u64 \<Rightarrow> (nat \<Rightarrow> u64) \<Rightarrow> (nat \<Rightarrow> x86_insn_operand_spec list) \<Rightarrow> u8 list \<Rightarrow> MemoryChunk \<Rightarrow> MemoryChunk \<Rightarrow> process
     \<Rightarrow> (MemoryChunk \<times> MemoryChunk \<times> process) result option" where
  "ia32_GenRelocateCodeAndBranch fuel pageSize fresh over buffer origin relocated st =
     x86_try_again fuel pageSize fresh over buffer 0 32 origin relocated st"

end
