(* ===== verification/Ia32_Closure.thy ===== *)
theory Ia32_Closure
  imports Ia32_Assembler Code_Patch
begin

text \<open>
  The closure trampoline and the closure bridge of the 32-bit x86 target (\<^verbatim>\<open>X86AssemblyClosureTrampoline.cc\<close>,
  \<^verbatim>\<open>closure-bridge-x86.cc\<close>, \<^verbatim>\<open>helper-x86.cc\<close>); the template is off, as in the build.
\<close>

section \<open>The bridge\<close>

abbreviation ia32_imm :: "u32 \<Rightarrow> ia32_Immediate" where
  "ia32_imm v \<equiv> ia32_Imm v 32"

definition ia32_bridge_save :: "ia32_op list" where
  "ia32_bridge_save =
     [ia32_sub esp (ia32_imm (8 * 4)),
      ia32_mov_mr (ia32_base_disp esp (4 * 0)) eax, ia32_mov_mr (ia32_base_disp esp (4 * 1)) ebx,
      ia32_mov_mr (ia32_base_disp esp (4 * 2)) ecx, ia32_mov_mr (ia32_base_disp esp (4 * 3)) edx,
      ia32_mov_mr (ia32_base_disp esp (4 * 4)) ebp, ia32_mov_mr (ia32_base_disp esp (4 * 5)) esp,
      ia32_mov_mr (ia32_base_disp esp (4 * 6)) edi, ia32_mov_mr (ia32_base_disp esp (4 * 7)) esi,
      emit_bytes [0x9c], ia32_pop eax,
      ia32_sub esp (ia32_imm (2 * 4)), ia32_mov_mr (ia32_base_disp esp 4) eax,
      ia32_mov_rr eax esp, ia32_add eax (ia32_imm (8 * 4 + 2 * 4 + 4)),
      ia32_sub esp (ia32_imm (2 * 4)), ia32_mov_mr (ia32_base_disp esp 4) eax]"

definition ia32_bridge_call :: "u32 \<Rightarrow> ia32_op list" where
  "ia32_bridge_call handler =
     [ia32_sub esp (ia32_imm (2 * 4)), ia32_mov_rm eax (ia32_base_disp esp (8 * 4 + 2 * 4 + 2 * 4 + 2 * 4)),
      ia32_mov_mr (ia32_base_disp esp 4) eax, ia32_mov_rr eax esp, ia32_add eax (ia32_imm (2 * 4)),
      ia32_mov_mr (ia32_base_disp esp 0) eax, ia32_CallFunction handler]"

definition ia32_bridge_restore :: "ia32_op list" where
  "ia32_bridge_restore =
     [ia32_add esp (ia32_imm (2 * 4)), ia32_add esp (ia32_imm (2 * 4)), ia32_add esp (ia32_imm 4), emit_bytes [0x9d],
      ia32_pop eax, ia32_pop ebx, ia32_pop ecx, ia32_pop edx, ia32_pop ebp, ia32_add esp (ia32_imm 4), ia32_pop edi, ia32_pop esi,
      ia32_ret]"

definition ia32_closure_bridge_code :: "u32 \<Rightarrow> ia32_op" where
  "ia32_closure_bridge_code handler = do_all (ia32_bridge_save @ ia32_bridge_call handler @ ia32_bridge_restore @ [ia32_RelocBind])"

text \<open>\<open>handler\<close> is the address of \<^verbatim>\<open>intercept_routing_common_bridge_handler\<close>; without memory the null chunk is used unchecked.\<close>

definition ia32_get_closure_bridge :: "u64 \<Rightarrow> u64 \<Rightarrow> u64 \<Rightarrow> process \<Rightarrow> (ptr \<times> process) result" where
  "ia32_get_closure_bridge pageSize fresh handler st =
     (if pr_closure_bridge st \<noteq> 0 then Inr (pr_closure_bridge st, st)
      else rbind (ia32_closure_bridge_code (ucast handler) (new_ia32_asm 0)) (\<lambda>a.
           rbind (FinalizeFromTurboAssembler pageSize fresh 0 a st) (\<lambda>(code, _, st').
             case code of
               None \<Rightarrow> Inl BAD_POINTER
             | Some c \<Rightarrow> Inr (raw_instruction_start c, st'\<lparr>pr_closure_bridge := raw_instruction_start c\<rparr>))))"

section \<open>The trampoline\<close>

definition ia32_closure_trampoline_code :: "u32 \<Rightarrow> u32 \<Rightarrow> u32 \<Rightarrow> ia32_op" where
  "ia32_closure_trampoline_code address entry bridge =
     (let offset = bridge - (address + 18)
      in do_all [ia32_sub esp (ia32_imm 4), ia32_mov_mi (ia32_base_disp esp (4 * 0)) (ia32_imm entry), ia32_jmp (ia32_imm offset)])"

text \<open>
  The chunk is allocated before the bridge is built; without memory the result is the null pointer. \<open>entry\<close> is the
  address \<^verbatim>\<open>new ClosureTrampolineEntry\<close> returns.
\<close>

definition ia32_CreateClosureTrampoline ::
  "u64 \<Rightarrow> u64 \<Rightarrow> u64 \<Rightarrow> u64 \<Rightarrow> ptr \<Rightarrow> ptr \<Rightarrow> ptr \<Rightarrow> process \<Rightarrow> (ClosureTrampolineEntry option \<times> process) result" where
  "ia32_CreateClosureTrampoline pageSize bridge_page own_page handler entry data carried st =
     (case AllocateCodeChunk pageSize own_page 32 (pr_arena st) of
        (None, ar) \<Rightarrow> Inr (None, with_arena ar st)
      | (Some c, ar) \<Rightarrow>
          rbind (ia32_get_closure_bridge pageSize bridge_page handler (with_arena ar st)) (\<lambda>(bridge, st1).
          rbind (ia32_closure_trampoline_code (ucast (range_address c)) (ucast entry) (ucast bridge) (new_ia32_asm (range_address c))) (\<lambda>a.
          rbind (CodePatch pageSize (range_address c) (asm_buffer a) st1) (\<lambda>st2.
            let cte = \<lparr>carry_handler = carried, carry_data = data, cte_address = raw_instruction_start c, cte_size = raw_instruction_size c\<rparr>
            in Inr (Some cte, st2\<lparr>pr_closures := (pr_closures st2)(entry \<mapsto> cte)\<rparr>)))))"

section \<open>The handler side\<close>

text \<open>\<^verbatim>\<open>RegisterContext\<close> lies on the stack; its \<^verbatim>\<open>esp\<close> is the word at offset 4. \<open>mem\<close> reads the stack by words.\<close>

definition ia32_ctx_esp :: "(u32 \<Rightarrow> u32) \<Rightarrow> u32 \<Rightarrow> u32" where
  "ia32_ctx_esp mem ctx = mem (ctx + 4)"

definition ia32_set_routing_bridge_next_hop :: "u32 \<Rightarrow> u32 \<Rightarrow> (u32 \<Rightarrow> u32) \<Rightarrow> u32 \<Rightarrow> u32" where
  "ia32_set_routing_bridge_next_hop ctx address mem =
     (let esp = ia32_ctx_esp mem ctx; entry_placeholder_stack_addr = esp - 4
      in mem(entry_placeholder_stack_addr := address))"

end
