(* ===== verification/Ia32_Hook.thy ===== *)
theory Ia32_Hook
  imports Ia32_Relocation Ia32_Closure Intercept_Routing
begin

text \<open>
  The 32-bit x86 back end of the routing, with the trampoline of \<^verbatim>\<open>trampoline-x86.cc\<close>. The addresses of the process
  have 64 bits; this back end uses their low halves. \<open>env_records\<close> is the memory behind the decoder's instruction records.
\<close>

record ia32_env = hook_env +
  env_records :: "nat \<Rightarrow> x86_insn_operand_spec list"

definition ia32_GenerateNormalTrampolineBuffer :: "u64 \<Rightarrow> u64 \<Rightarrow> u8 list result" where
  "ia32_GenerateNormalTrampolineBuffer from to =
     rbind (ia32_JmpNear (ucast to) (new_ia32_asm from)) (\<lambda>a. Inr (asm_buffer a))"

definition ia32_GenerateNearTrampolineBuffer :: "u64 \<Rightarrow> u64 \<Rightarrow> u8 list option" where
  "ia32_GenerateNearTrampolineBuffer src dst = None"

definition ia32_normal :: "'e hook_env_scheme \<Rightarrow> u64 \<Rightarrow> u64 \<Rightarrow> process \<Rightarrow> (u8 list \<times> process) result option" where
  "ia32_normal env src dst st = Some (rbind (ia32_GenerateNormalTrampolineBuffer src dst) (\<lambda>tb. Inr (tb, st)))"

definition ia32_near :: "'e hook_env_scheme \<Rightarrow> u64 \<Rightarrow> u64 \<Rightarrow> process \<Rightarrow> (u8 list option \<times> process) result option" where
  "ia32_near env src dst st = Some (Inr (ia32_GenerateNearTrampolineBuffer src dst, st))"

definition ia32_relocate ::
  "ia32_env \<Rightarrow> u8 list \<Rightarrow> MemoryChunk \<Rightarrow> MemoryChunk \<Rightarrow> process \<Rightarrow> (MemoryChunk \<times> MemoryChunk \<times> process) result option" where
  "ia32_relocate env buffer origin relocated st =
     ia32_GenRelocateCodeAndBranch (env_fuel env) (env_page_size env) (env_fresh env) (env_records env) buffer origin relocated st"

text \<open>The routing reads the address of the closure without a test for null.\<close>

definition ia32_closure :: "'e hook_env_scheme \<Rightarrow> ptr \<Rightarrow> ptr \<Rightarrow> process \<Rightarrow> (ClosureTrampolineEntry \<times> process) result option" where
  "ia32_closure env data handler st =
     Some (rbind (ia32_CreateClosureTrampoline (env_page_size env) (env_bridge_page env) (env_closure_page env)
             (env_bridge_handler env) (env_new_closure env) data handler st) (\<lambda>(c, st1).
       case c of None \<Rightarrow> Inl BAD_POINTER | Some cte \<Rightarrow> Inr (cte, st1)))"

definition ia32_backend :: "\<lparr>env_records :: nat \<Rightarrow> x86_insn_operand_spec list\<rparr> backend" where
  "ia32_backend = \<lparr>be_normal = ia32_normal, be_near = ia32_near, be_relocate = ia32_relocate, be_closure = ia32_closure\<rparr>"

end
