(* ===== verification/Ia32_Relocation_Correct.thy ===== *)
theory Ia32_Relocation_Correct
  imports Ia32_Relocation X86_Relocation_Correct
begin

text \<open>
  The 32-bit x86 relocator: what it writes, and that the retry with a larger chunk ends.
\<close>

section \<open>Sizes\<close>

text \<open>As for x64, how many bytes an instruction becomes does not depend on the places it moves between.\<close>

definition ia32_becomes :: "u8 list \<Rightarrow> nat \<Rightarrow> x86_insn_decode_t \<Rightarrow> nat \<Rightarrow> bool" where
  "ia32_becomes mem cur insn n \<longleftrightarrow> n \<le> 259 \<and>
     (\<forall>o_ip r_ip a. \<exists>bs. length bs = n \<and> ia32_relocate_insn mem cur o_ip r_ip insn a = Inr (a\<lparr>asm_buffer := asm_buffer a @ bs\<rparr>))"

lemma ia32_insn_cases:
  assumes "unat (insn_length insn) \<le> 20"
  shows "(\<forall>o_ip r_ip a. ia32_relocate_insn mem cur o_ip r_ip insn a = Inl UNIMPLEMENTED) \<or> (\<exists>n. ia32_becomes mem cur insn n)"
proof -
  let ?jcc = "primary_opcode insn \<ge> 0x70 \<and> primary_opcode insn \<le> 0x7F" and ?rel = "primary_opcode insn = 0xE8 \<or> primary_opcode insn = 0xE9"
  consider (jcc) "?jcc" | (jmp8) "\<not> ?jcc" "primary_opcode insn = 0xEB" | (rel32) "\<not> ?jcc" "primary_opcode insn \<noteq> 0xEB" "?rel"
    | (other) "\<not> ?jcc" "primary_opcode insn \<noteq> 0xEB" "\<not> ?rel" by blast
  then show ?thesis
  proof cases
    case jcc
    have "ia32_becomes mem cur insn 6"
      unfolding ia32_becomes_def ia32_relocate_insn_def if_P [OF jcc] Let_def
      using emit_thrice [of "le_bytes 1 (_ :: u8)" "le_bytes 1 (_ :: u8)" "le_bytes 4 (_ :: u32)"] by auto
    then show ?thesis by blast
  next
    case jmp8
    have "ia32_becomes mem cur insn 5"
      unfolding ia32_becomes_def ia32_relocate_insn_def if_not_P [OF jmp8(1)] if_P [OF jmp8(2)] Let_def
      using emit_twice [of "le_bytes 1 (_ :: u8)" "le_bytes 4 (_ :: u32)"] by auto
    then show ?thesis by blast
  next
    case rel32
    let ?xs = "take (unat (immediate_offset insn)) (drop cur mem)"
    have "ia32_becomes mem cur insn (length ?xs + 4)"
      unfolding ia32_becomes_def ia32_relocate_insn_def if_not_P [OF rel32(1)] if_not_P [OF rel32(2)] if_P [OF rel32(3)] Let_def
      using emit_twice [of ?xs "le_bytes 4 (_ :: u32)"] unat_u8_le [of "immediate_offset insn"] by (auto simp: min_def)
    then show ?thesis by blast
  next
    case other
    let ?xs = "take (unat (insn_length insn)) (drop cur mem)"
    have "(\<forall>o_ip r_ip a. ia32_relocate_insn mem cur o_ip r_ip insn a = Inl UNIMPLEMENTED) \<or> ia32_becomes mem cur insn (length ?xs)"
      using assms unfolding ia32_becomes_def ia32_relocate_insn_def if_not_P [OF other(1)] if_not_P [OF other(2)] if_not_P [OF other(3)]
      by (auto simp: emit_bytes_def intro!: exI [of _ ?xs])
    then show ?thesis by blast
  qed
qed

text \<open>
  The loop stops at an offset \<open>e\<close> within one instruction of the size asked for and emits \<open>n\<close> bytes, wherever the
  code is and goes; asked for any size up to \<open>e\<close> it does the same.
\<close>

definition ia32_loops_to :: "(nat \<Rightarrow> x86_insn_operand_spec list) \<Rightarrow> u8 list \<Rightarrow> nat \<Rightarrow> nat \<Rightarrow> nat \<Rightarrow> nat \<Rightarrow> bool" where
  "ia32_loops_to over mem p cur e n \<longleftrightarrow> p \<le> e \<and> cur \<le> e \<and> (e = cur \<or> e < p + 20) \<and> n \<le> 259 * (p - cur)
     \<and> (\<forall>ip a. \<exists>bs. length bs = n \<and> (\<forall>q. p \<le> q \<and> q \<le> e \<longrightarrow> ia32_loop over mem q cur ip a
            = Inr (ip + of_nat (e - cur), a\<lparr>asm_buffer := asm_buffer a @ bs\<rparr>)))"

lemma ia32_loop_step:
  assumes dec: "x86_insn_decode (over cur) zero_insn (drop cur mem) ia32_conf = Inr insn" and lt: "cur < p"
    and one: "ia32_becomes mem cur insn k" and rest: "ia32_loops_to over mem p (cur + unat (insn_length insn)) e n"
  shows "ia32_loops_to over mem p cur e (k + n)"
proof -
  let ?l = "unat (insn_length insn)"
  have l: "1 \<le> ?l" "?l \<le> 20" using decode_length_range [OF dec] by (auto simp: word_le_nat_alt)
  have ce: "cur + ?l \<le> e" and n: "n \<le> 259 * (p - (cur + ?l))" using rest by (auto simp: ia32_loops_to_def)
  have "e < p + 20" using rest lt l unfolding ia32_loops_to_def by linarith
  moreover have "k + n \<le> 259 * (p - cur)" using one n l lt unfolding ia32_becomes_def by linarith
  moreover have "\<exists>bs. length bs = k + n \<and> (\<forall>q. p \<le> q \<and> q \<le> e \<longrightarrow>
      ia32_loop over mem q cur ip a = Inr (ip + of_nat (e - cur), a\<lparr>asm_buffer := asm_buffer a @ bs\<rparr>))" for ip a
  proof -
    obtain bs where b: "length bs = k"
        "ia32_relocate_insn mem cur ip (realized_address a + of_nat (ip_offset a)) insn a = Inr (a\<lparr>asm_buffer := asm_buffer a @ bs\<rparr>)"
      using one unfolding ia32_becomes_def by blast
    let ?a = "a\<lparr>asm_buffer := asm_buffer a @ bs\<rparr>" and ?ip = "ip + ucast (insn_length insn)"
    have "\<exists>cs. length cs = n \<and> (\<forall>q. p \<le> q \<and> q \<le> e \<longrightarrow> ia32_loop over mem q (cur + ?l) ?ip ?a
        = Inr (?ip + of_nat (e - (cur + ?l)), ?a\<lparr>asm_buffer := asm_buffer ?a @ cs\<rparr>))"
      using rest unfolding ia32_loops_to_def by blast
    then obtain cs where c: "length cs = n" "\<And>q. p \<le> q \<Longrightarrow> q \<le> e \<Longrightarrow> ia32_loop over mem q (cur + ?l) ?ip ?a
        = Inr (?ip + of_nat (e - (cur + ?l)), a\<lparr>asm_buffer := asm_buffer a @ bs @ cs\<rparr>)" by auto
    have "(ucast (insn_length insn) :: u64) = of_nat ?l" by simp
    then have "ip + ucast (insn_length insn) + of_nat (e - (cur + ?l)) = (ip + of_nat (e - cur) :: u64)" using ce by (simp add: of_nat_diff)
    then show ?thesis using b c lt dec by (intro exI [of _ "bs @ cs"]) (auto simp: ia32_loop.simps [of over mem _ cur])
  qed
  ultimately show ?thesis using ce rest by (auto simp: ia32_loops_to_def)
qed

lemma ia32_loop_uniform:
  "(\<exists>err. \<forall>ip a. ia32_loop over mem p cur ip a = Inl err) \<or> (\<exists>e n. ia32_loops_to over mem p cur e n)"
proof (induction "p - cur" arbitrary: cur rule: less_induct)
  case less
  note unfold = ia32_loop.simps [of over mem p cur]
  show ?case
  proof (cases "cur < p")
    case False
    then have "ia32_loops_to over mem p cur cur 0" by (auto simp: ia32_loops_to_def ia32_loop.simps [of over mem _ cur])
    then show ?thesis by blast
  next
    case True
    show ?thesis
    proof (cases "x86_insn_decode (over cur) zero_insn (drop cur mem) ia32_conf")
      case (Inl err)
      then show ?thesis using True by (auto simp: unfold)
    next
      case (Inr insn)
      let ?c = "cur + unat (insn_length insn)"
      have l: "1 \<le> unat (insn_length insn)" "unat (insn_length insn) \<le> 20" using decode_length_range [OF Inr] by (auto simp: word_le_nat_alt)
      show ?thesis
      proof (cases "\<exists>k. ia32_becomes mem cur insn k")
        case False
        then show ?thesis using True Inr ia32_insn_cases [OF l(2), of mem cur] by (auto simp: unfold)
      next
        case ok: True
        then obtain k where k: "ia32_becomes mem cur insn k" by blast
        show ?thesis
        proof (cases "\<exists>err. \<forall>ip a. ia32_loop over mem p ?c ip a = Inl err")
          case err: True
          have "\<exists>a'. ia32_relocate_insn mem cur ip (realized_address a + of_nat (ip_offset a)) insn a = Inr a'" for ip a
            using k unfolding ia32_becomes_def by blast
          then show ?thesis using err True Inr by (metis (no_types, lifting) rbind_simps(2) unfold)
        next
          case False
          moreover have "p - ?c < p - cur" using True l by linarith
          ultimately obtain e n where "ia32_loops_to over mem p ?c e n" using less.hyps [of ?c] by blast
          then show ?thesis using ia32_loop_step [of over cur mem insn p k e n] Inr True k by blast
        qed
      qed
    qed
  qed
qed

section \<open>What is written\<close>

definition ia32_moved_code :: "u64 \<Rightarrow> u8 list \<Rightarrow> u64 \<Rightarrow> u8 list" where
  "ia32_moved_code at body back = body @ 0xe9 # le_bytes 4 (ucast back - (ucast at + of_nat (length body) + 5) :: u32)"

lemma length_ia32_moved_code [simp]: "length (ia32_moved_code at body back) = length body + 5"
  by (simp add: ia32_moved_code_def)

lemma ia32_JmpNear_emits:
  "ia32_JmpNear (ucast back) a = Inr (a\<lparr>asm_buffer := ia32_moved_code (realized_address a) (asm_buffer a) back\<rparr>)"
  by (simp add: ia32_JmpNear_def ia32_CurrentIP_def pc_offset_def Let_def emit_bytes_def ia32_moved_code_def le_bytes_numeral(1) add.commute)

lemma ia32_predefined:
  assumes "unat (raw_instruction_size c) < 2 ^ 31"
  shows "nat (sint (ucast (raw_instruction_size c) :: u32)) = unat (raw_instruction_size c)"
  using predefined_small [OF assms] by (simp add: predefined_relocate_size_def)

abbreviation ia32_at :: "u64 \<Rightarrow> ia32_asm" where
  "ia32_at address \<equiv> SetRealizedAddress address (new_ia32_asm 0)"

lemma ia32_fixed:
  assumes L: "ia32_loops_to over mem p 0 e n" and q: "p \<le> unat (raw_instruction_size origin)" "unat (raw_instruction_size origin) \<le> e"
    and e: "e < 2 ^ 31" "n + 5 < 2 ^ 30"
  obtains bs where "length bs = n" "\<And>q. p \<le> q \<Longrightarrow> q \<le> e \<Longrightarrow> ia32_loop over mem q 0 (raw_instruction_start origin) (ia32_at (raw_instruction_start relocated))
        = Inr (raw_instruction_start origin + of_nat e, (ia32_at (raw_instruction_start relocated))\<lparr>asm_buffer := bs\<rparr>)"
    "ia32_GenRelocateCodeFixed ps over mem origin relocated st =
       (if unat (raw_instruction_size relocated) < n + 5 then Inr (RT_FAILED, init_region_range (raw_instruction_start origin) (of_nat e), st)
        else rbind (FinalizeFromTurboAssembler ps 0 0 ((ia32_at (raw_instruction_start relocated))\<lparr>asm_buffer :=
                 ia32_moved_code (raw_instruction_start relocated) bs (raw_instruction_start origin + of_nat e)\<rparr>) st)
               (\<lambda>(_, _, st1). Inr (RT_SUCCESS, init_region_range (raw_instruction_start origin) (of_nat e), st1)))"
proof -
  let ?s = "raw_instruction_start origin" and ?r = "raw_instruction_start relocated"
  have z: "asm_buffer (ia32_at ?r) = []" "realized_address (ia32_at ?r) = ?r" by (simp_all add: SetRealizedAddress_def new_ia32_asm_def)
  obtain bs where b: "length bs = n" "\<forall>q. p \<le> q \<and> q \<le> e \<longrightarrow> ia32_loop over mem q 0 ?s (ia32_at ?r)
      = Inr (?s + of_nat e, (ia32_at ?r)\<lparr>asm_buffer := bs\<rparr>)"
    using L unfolding ia32_loops_to_def by (metis diff_zero append_Nil z(1))
  have u: "(ucast (of_nat e :: u64) :: u32) = of_nat e" using e by (simp add: unsigned_of_nat take_bit_nat_eq_self)
  have f: "of_nat (n + 5) > (w :: u64) \<longleftrightarrow> unat w < n + 5" for w
    using e(2) by (simp add: word_less_nat_alt unat_of_nat take_bit_nat_eq_self del: of_nat_add)
  have "unat (raw_instruction_size origin) < 2 ^ 31" using q(2) e(1) by linarith
  then have "ia32_loop over mem (nat (sint (ucast (raw_instruction_size origin) :: u32))) 0 ?s (ia32_at ?r)
      = Inr (?s + of_nat e, (ia32_at ?r)\<lparr>asm_buffer := bs\<rparr>)" using b(2) q by (simp add: ia32_predefined)
  then show thesis using that [OF b(1)] b z u f
    by (simp add: ia32_GenRelocateCodeFixed_def Let_def ia32_JmpNear_emits del: of_nat_add)
qed

lemma ia32_size_bound: "ia32_loops_to over mem p 0 e n \<Longrightarrow> p < 2 ^ 20 \<Longrightarrow> e < 2 ^ 31 \<and> n + 5 < 2 ^ 30"
  by (auto simp: ia32_loops_to_def)

lemma finalize_at:
  assumes "FinalizeFromTurboAssembler ps fresh extra a st = Inr (c, a', st')" and "realized_address a \<noteq> 0" and "length (asm_buffer a) < 2 ^ 63"
  shows "pr_mem st' = write_mem (realized_address a) (asm_buffer a) (pr_mem st)"
  using assms by (auto simp: FinalizeFromTurboAssembler_def rbind_Inr_iff CodePatch_eq split: if_splits)

text \<open>An attempt: no chunk can be had, or the instructions are relocated to a chunk of the size asked for.\<close>

lemma ia32_attempt:
  obtains (none) ar where "x86_try_again (Suc fuel) pageSize fresh over mem k sz origin relocated st = Some (Inr (origin, relocated, with_arena ar st))"
      "raw_instruction_start relocated = 0"
  | (some) rel st_next where "x86_try_again (Suc fuel) pageSize fresh over mem k sz origin relocated st
      = (case ia32_GenRelocateCodeFixed pageSize over mem origin rel st_next of
           Inl e \<Rightarrow> Some (Inl e)
         | Inr (RT_SUCCESS, origin', st2) \<Rightarrow> Some (Inr (origin', rel, st2))
         | Inr (RT_FAILED, origin', st2) \<Rightarrow>
             x86_try_again fuel pageSize fresh over mem (k + 1) (sz + 16) origin' (init_region_range 0 0) st2)"
      "raw_instruction_start relocated = 0 \<Longrightarrow> unat sz < 2 ^ 31 \<Longrightarrow> unat (raw_instruction_size rel) = unat sz"
      "pr_mem st_next = pr_mem st" "pr_interceptor st_next = pr_interceptor st"
proof (cases "raw_instruction_start relocated = 0")
  case True
  obtain c ar where c: "AllocateCodeChunk pageSize (fresh k) sz (pr_arena st) = (c, ar)" by fastforce
  show thesis
  proof (cases c)
    case None
    then show thesis using none True c by simp
  next
    case (Some d)
    then show thesis
      using some [where rel = "init_region_range (range_address d) (ucast (range_length d))" and st_next = "with_arena ar st"] True c
        allocated_length [of pageSize "fresh k" sz "pr_arena st" d ar] by (simp add: with_arena_def)
  qed
qed (use some [where rel = relocated and st_next = st] in simp)

lemma ia32_retry_returns:
  assumes L: "ia32_loops_to over mem p 0 e n" and p: "p < 2 ^ 20"
  shows "p \<le> unat (raw_instruction_size origin) \<Longrightarrow> unat (raw_instruction_size origin) \<le> e
    \<Longrightarrow> raw_instruction_start relocated = 0 \<Longrightarrow> n + 5 \<le> unat sz + 16 * fuel \<Longrightarrow> unat sz < 2 ^ 31
    \<Longrightarrow> \<exists>r. x86_try_again (Suc fuel) pageSize fresh over mem k sz origin relocated st = Some r"
proof (induction fuel arbitrary: k sz origin relocated st)
  case (0 k sz origin relocated st)
  note B = ia32_size_bound [OF L p]
  show ?case
  proof (cases rule: ia32_attempt [of 0 pageSize fresh over mem k sz origin relocated st])
    case (some rel st1)
    then have "\<not> unat (raw_instruction_size rel) < n + 5" using 0 by simp
    then show ?thesis unfolding some(1)
      by (rule_tac ia32_fixed [OF L 0(1,2) conjunct1 [OF B] conjunct2 [OF B], of rel pageSize st1]) (auto simp: rbind_def split: sum.splits)
  qed auto
next
  case (Suc fuel k sz origin relocated st)
  note B = ia32_size_bound [OF L p]
  show ?case
  proof (cases rule: ia32_attempt [of "Suc fuel" pageSize fresh over mem k sz origin relocated st])
    case (some rel st1)
    show ?thesis
    proof (cases "unat (raw_instruction_size rel) < n + 5")
      case True
      let ?o = "init_region_range (raw_instruction_start origin) (of_nat e)"
      have lt: "unat sz < n + 5" using some(2) Suc.prems True by simp
      then have "unat (sz + 16) = unat sz + 16" using B by (subst unat_add_lem [THEN iffD1]) auto
      then have "\<exists>r. x86_try_again (Suc fuel) pageSize fresh over mem (k + 1) (sz + 16) ?o (init_region_range 0 0) st1 = Some r"
        using Suc.prems L lt B by (intro Suc.IH) (auto simp: size_init_region start_init_region ia32_loops_to_def)
      then show ?thesis unfolding some(1) using True
        by (rule_tac ia32_fixed [OF L Suc.prems(1,2) conjunct1 [OF B] conjunct2 [OF B], of rel pageSize st1]) (simp del: x86_try_again.simps)
    next
      case False
      then show ?thesis unfolding some(1)
        by (rule_tac ia32_fixed [OF L Suc.prems(1,2) conjunct1 [OF B] conjunct2 [OF B], of rel pageSize st1]) (auto simp: rbind_def split: sum.splits)
    qed
  qed auto
qed

section \<open>The result of the relocation\<close>

text \<open>
  The relocation leaves the table alone; when it got memory at \<open>r\<close>, the instructions up to \<open>e\<close>, relocated to \<open>r\<close>, are
  written there with a jump to the instruction after them.
\<close>

definition ia32_moved ::
  "(nat \<Rightarrow> x86_insn_operand_spec list) \<Rightarrow> u8 list \<Rightarrow> nat \<Rightarrow> u64 \<Rightarrow> u64 \<Rightarrow> nat \<Rightarrow> u8 list \<Rightarrow> (u64 \<Rightarrow> u8) \<Rightarrow> (u64 \<Rightarrow> u8) \<Rightarrow> bool" where
  "ia32_moved over mem p s r e body m m' \<longleftrightarrow> p \<le> e \<and> e < p + 20 \<and> length body \<le> 259 * p
     \<and> ia32_loop over mem p 0 s (ia32_at r) = Inr (s + of_nat e, (ia32_at r)\<lparr>asm_buffer := body\<rparr>)
     \<and> m' = write_mem r (ia32_moved_code r body (s + of_nat e)) m"

definition ia32_relocation_result ::
  "(nat \<Rightarrow> x86_insn_operand_spec list) \<Rightarrow> u8 list \<Rightarrow> nat \<Rightarrow> u64 \<Rightarrow> MemoryChunk \<Rightarrow> MemoryChunk \<Rightarrow> process \<Rightarrow> process \<Rightarrow> bool" where
  "ia32_relocation_result over mem p s origin' relocated' st st' \<longleftrightarrow>
     pr_interceptor st' = pr_interceptor st \<and> raw_instruction_start origin' = s
     \<and> (raw_instruction_start relocated' = 0 \<or> (\<exists>e body. origin' = init_region_range s (of_nat e)
          \<and> ia32_moved over mem p s (raw_instruction_start relocated') e body (pr_mem st) (pr_mem st')))"

lemma ia32_retry_result:
  assumes L: "ia32_loops_to over mem p 0 e n" and p: "p < 2 ^ 20"
  shows "p \<le> unat (raw_instruction_size origin) \<Longrightarrow> unat (raw_instruction_size origin) \<le> e
    \<Longrightarrow> raw_instruction_start origin = s \<Longrightarrow> raw_instruction_start relocated = 0
    \<Longrightarrow> x86_try_again fuel pageSize fresh over mem k sz origin relocated st = Some (Inr (origin', relocated', st'))
    \<Longrightarrow> ia32_relocation_result over mem p s origin' relocated' st st'"
proof (induction fuel arbitrary: k sz origin relocated st)
  case (Suc fuel)
  note B = ia32_size_bound [OF L p]
  have e: "p \<le> e" "e < p + 20" "n \<le> 259 * p" using L by (auto simp: ia32_loops_to_def)
  show ?case
  proof (cases rule: ia32_attempt [of fuel pageSize fresh over mem k sz origin relocated st])
    case none
    then show ?thesis using Suc.prems(3-5) by (auto simp: ia32_relocation_result_def with_arena_def simp del: x86_try_again.simps)
  next
    case (some rel st1)
    obtain bs where b: "length bs = n" "\<And>q. p \<le> q \<Longrightarrow> q \<le> e \<Longrightarrow> ia32_loop over mem q 0 s (ia32_at (raw_instruction_start rel))
        = Inr (s + of_nat e, (ia32_at (raw_instruction_start rel))\<lparr>asm_buffer := bs\<rparr>)"
      and fx: "ia32_GenRelocateCodeFixed pageSize over mem origin rel st1 =
       (if unat (raw_instruction_size rel) < n + 5 then Inr (RT_FAILED, init_region_range s (of_nat e), st1)
        else rbind (FinalizeFromTurboAssembler pageSize 0 0 ((ia32_at (raw_instruction_start rel))\<lparr>asm_buffer :=
                 ia32_moved_code (raw_instruction_start rel) bs (s + of_nat e)\<rparr>) st1)
               (\<lambda>(_, _, st1). Inr (RT_SUCCESS, init_region_range s (of_nat e), st1)))"
      by (rule ia32_fixed [OF L Suc.prems(1,2) conjunct1 [OF B] conjunct2 [OF B], of rel pageSize st1, unfolded Suc.prems(3)]) blast
    show ?thesis
    proof (cases "unat (raw_instruction_size rel) < n + 5")
      case True
      then have r: "x86_try_again fuel pageSize fresh over mem (k + 1) (sz + 16) (init_region_range s (of_nat e)) (init_region_range 0 0) st1
          = Some (Inr (origin', relocated', st'))"
        using some(1) fx Suc.prems(5) by (simp del: x86_try_again.simps)
      have "ia32_relocation_result over mem p s origin' relocated' st1 st'"
        using e(1) B by (intro Suc.IH [OF _ _ _ _ r]) (simp_all add: start_init_region size_init_region)
      then show ?thesis using some(3,4) by (simp add: ia32_relocation_result_def)
    next
      case False
      let ?a = "(ia32_at (raw_instruction_start rel))\<lparr>asm_buffer := ia32_moved_code (raw_instruction_start rel) bs (s + of_nat e)\<rparr>"
      obtain c a' where r: "origin' = init_region_range s (of_nat e)" "relocated' = rel" "FinalizeFromTurboAssembler pageSize 0 0 ?a st1 = Inr (c, a', st')"
        using some(1) fx Suc.prems(5) False by (auto simp: rbind_def simp del: x86_try_again.simps split: sum.splits)
      have "pr_mem st' = write_mem (raw_instruction_start rel) (asm_buffer ?a) (pr_mem st1)" if "raw_instruction_start rel \<noteq> 0"
        using finalize_at [OF r(3)] that b(1) B by (simp add: SetRealizedAddress_def)
      then show ?thesis using b(2) [OF order.refl e(1)] e r(1,2) b(1) finalize_frame [OF r(3)] some(3,4)
        by (auto simp: ia32_relocation_result_def ia32_moved_def start_init_region)
    qed
  qed
qed simp

lemma ia32_result:
  assumes p: "unat (raw_instruction_size origin) < 2 ^ 20" and z: "raw_instruction_start relocated = 0"
    and r: "ia32_GenRelocateCodeAndBranch fuel pageSize fresh over mem origin relocated st = Some (Inr (origin', relocated', st'))"
  shows "ia32_relocation_result over mem (unat (raw_instruction_size origin)) (raw_instruction_start origin) origin' relocated' st st'"
proof (cases "\<exists>err. \<forall>ip a. ia32_loop over mem (unat (raw_instruction_size origin)) 0 ip a = Inl err")
  case True
  then have err: "\<exists>err. ia32_GenRelocateCodeFixed pageSize over mem origin rel st1 = Inl err" for rel st1
    using p by (auto simp: ia32_GenRelocateCodeFixed_def ia32_predefined Let_def)
  from r obtain f where f: "fuel = Suc f" by (cases fuel) (auto simp: ia32_GenRelocateCodeAndBranch_def)
  show ?thesis
  proof (cases rule: ia32_attempt [of f pageSize fresh over mem 0 32 origin relocated st])
    case none
    then show ?thesis using r z by (auto simp: f ia32_GenRelocateCodeAndBranch_def ia32_relocation_result_def with_arena_def simp del: x86_try_again.simps)
  next
    case (some rel st1)
    then show ?thesis using r err [of rel st1] by (auto simp: f ia32_GenRelocateCodeAndBranch_def simp del: x86_try_again.simps)
  qed
next
  case False
  then obtain e n where L: "ia32_loops_to over mem (unat (raw_instruction_size origin)) 0 e n" using ia32_loop_uniform by blast
  then have "unat (raw_instruction_size origin) \<le> e" by (simp add: ia32_loops_to_def)
  then show ?thesis using ia32_retry_result [OF L p order.refl _ refl z] r by (simp add: ia32_GenRelocateCodeAndBranch_def)
qed

text \<open>
  C15: the 32-bit x86 relocation returns: seventeen attempts for every byte of the prologue and three more are enough,
  whatever the arena and the system give.
\<close>

theorem ia32_relocation_returns:
  assumes p: "unat (raw_instruction_size origin) < 2 ^ 20" and fuel: "17 * unat (raw_instruction_size origin) + 3 \<le> fuel"
    and z: "raw_instruction_start relocated = 0"
  shows "\<exists>r. ia32_GenRelocateCodeAndBranch fuel pageSize fresh over mem origin relocated st = Some r"
proof -
  let ?p = "unat (raw_instruction_size origin)"
  obtain f where f: "fuel = Suc f" "17 * ?p + 2 \<le> f" using fuel by (cases fuel) auto
  show ?thesis
  proof (cases "\<exists>err. \<forall>ip a. ia32_loop over mem ?p 0 ip a = Inl err")
    case True
    then have err: "\<exists>err. ia32_GenRelocateCodeFixed pageSize over mem origin rel st1 = Inl err" for rel st1
      using p by (auto simp: ia32_GenRelocateCodeFixed_def ia32_predefined Let_def)
    show ?thesis unfolding ia32_GenRelocateCodeAndBranch_def f(1)
    proof (cases rule: ia32_attempt [of f pageSize fresh over mem 0 32 origin relocated st])
      case (some rel st1)
      then show "\<exists>r. x86_try_again (Suc f) pageSize fresh over mem 0 32 origin relocated st = Some r" using err [of rel st1] by auto
    qed auto
  next
    case False
    then obtain e n where L: "ia32_loops_to over mem ?p 0 e n" using ia32_loop_uniform by blast
    then have "?p \<le> e" "n \<le> 259 * ?p" by (auto simp: ia32_loops_to_def)
    then show ?thesis unfolding ia32_GenRelocateCodeAndBranch_def f(1) using f(2) z by (intro ia32_retry_returns [OF L p]) simp_all
  qed
qed

theorem ia32_relocation_returns_witness:
  "\<exists>r. ia32_GenRelocateCodeAndBranch 88 0x1000 (\<lambda>_. 0x60000000) (\<lambda>_. []) (replicate 25 0x90)
     (init_region_range 0x401000 5) (init_region_range 0 0) (new_process (\<lambda>_. 0)) = Some r"
proof -
  have "unat (raw_instruction_size (init_region_range 0x401000 5)) = 5" by (simp add: init_region_range_def raw_instruction_size_def)
  then show ?thesis by (intro ia32_relocation_returns) (simp_all add: start_init_region)
qed

end
