(* ===== verification/Ia32_Machine.thy ===== *)
theory Ia32_Machine
  imports Ia32_Assembler X64_Assembler_Correct
begin

text \<open>
  The part of the IA-32 instruction set that the assembler of \<open>Ia32_Assembler\<close> can produce: decoding, after the
  processor manual, from a function that gives the bytes at the instruction pointer, and execution. Then that every
  instruction the assembler emits is decoded to the instruction that was asked for.
\<close>

section \<open>Decoding\<close>

datatype ia32_insn =
    I_nop | I_pushf | I_popf | I_ret
  | I_push u8 | I_pop u8
  | I_mov_ri u8 u32 | I_mov_rr u8 u8 | I_mov_rm u8 effective_address | I_mov_mr effective_address u8 | I_mov_mi effective_address u32
  | I_add u8 u32 | I_sub u8 u32
  | I_jmp u32 | I_call u32 | I_call_r u8 | I_call_m effective_address

definition dword_at :: "(nat \<Rightarrow> u8) \<Rightarrow> nat \<Rightarrow> u32" where
  "dword_at f k = le_word (map (\<lambda>i. f (k + i)) [0..<4])"

text \<open>The displacement that follows at position \<open>k\<close>, and the position behind it.\<close>

definition disp_at :: "u8 \<Rightarrow> (nat \<Rightarrow> u8) \<Rightarrow> nat \<Rightarrow> u32 \<times> nat" where
  "disp_at md f k = (if md = 0 then (0, k) else if md = 1 then (scast (f k), k + 1) else (dword_at f k, k + 4))"

text \<open>The memory operand whose ModR/M byte is at position 1, and the position behind it.\<close>

definition mem_at :: "(nat \<Rightarrow> u8) \<Rightarrow> effective_address \<times> nat" where
  "mem_at f =
     (let md = drop_bit 6 (f 1); rm = f 1 AND 7
      in if rm = 4
         then (let s = f 2; ix = drop_bit 3 s AND 7; b = s AND 7;
                   idx = (if ix = 4 then None else Some (ix, drop_bit 6 s));
                   (d, k) = disp_at (if md = 0 \<and> b = 5 then 2 else md) f 3
               in (\<lparr>ea_base = (if md = 0 \<and> b = 5 then None else Some b), ea_index = idx, ea_disp = d\<rparr>, k))
         else if md = 0 \<and> rm = 5 then (\<lparr>ea_base = None, ea_index = None, ea_disp = dword_at f 2\<rparr>, 6)
         else (let (d, k) = disp_at md f 2 in (\<lparr>ea_base = Some rm, ea_index = None, ea_disp = d\<rparr>, k)))"

definition ia32_decode :: "(nat \<Rightarrow> u8) \<Rightarrow> (ia32_insn \<times> nat) option" where
  "ia32_decode f =
     (let b = f 0; direct = (drop_bit 6 (f 1) = 3); regop = drop_bit 3 (f 1) AND 7; rm = f 1 AND 7; (ea, k) = mem_at f
      in if b = 0x90 then Some (I_nop, 1)
         else if b = 0x9C then Some (I_pushf, 1)
         else if b = 0x9D then Some (I_popf, 1)
         else if b = 0xC3 then Some (I_ret, 1)
         else if b AND 0xF8 = 0x50 then Some (I_push (b AND 7), 1)
         else if b AND 0xF8 = 0x58 then Some (I_pop (b AND 7), 1)
         else if b AND 0xF8 = 0xB8 then Some (I_mov_ri (b AND 7) (dword_at f 1), 5)
         else if b = 0x89 then Some (if direct then (I_mov_rr rm regop, 2) else (I_mov_mr ea regop, k))
         else if b = 0x8B then Some (if direct then (I_mov_rr regop rm, 2) else (I_mov_rm regop ea, k))
         else if b = 0xC7 \<and> regop = 0 \<and> \<not> direct then Some (I_mov_mi ea (dword_at f k), k + 4)
         else if b = 0x81 \<and> regop = 0 \<and> direct then Some (I_add rm (dword_at f 2), 6)
         else if b = 0x81 \<and> regop = 5 \<and> direct then Some (I_sub rm (dword_at f 2), 6)
         else if b = 0xE8 then Some (I_call (dword_at f 1), 5)
         else if b = 0xE9 then Some (I_jmp (dword_at f 1), 5)
         else if b = 0xFF \<and> regop = 2 then Some (if direct then (I_call_r rm, 2) else (I_call_m ea, k))
         else None)"

section \<open>Execution\<close>

text \<open>\<open>ix_flags\<close> are the flags a program can save and set; what an addition or subtraction leaves there is a parameter.\<close>

record ia32_cpu =
  ix_reg :: "u8 \<Rightarrow> u32"
  ix_eip :: u32
  ix_flags :: u32
  ix_mem :: "u32 \<Rightarrow> u8"

type_synonym alu = "ia32_insn \<Rightarrow> u32 \<Rightarrow> u32 \<Rightarrow> u32"

definition rd32 :: "(u32 \<Rightarrow> u8) \<Rightarrow> u32 \<Rightarrow> u32" where
  "rd32 m a = le_word (map (\<lambda>i. m (a + of_nat i)) [0..<4])"

definition wr32 :: "u32 \<Rightarrow> u32 \<Rightarrow> (u32 \<Rightarrow> u8) \<Rightarrow> u32 \<Rightarrow> u8" where
  "wr32 a v m x = (if unat (x - a) < 4 then le_bytes 4 v ! unat (x - a) else m x)"

definition ea_addr :: "effective_address \<Rightarrow> (u8 \<Rightarrow> u32) \<Rightarrow> u32" where
  "ea_addr ea r = (case ea_base ea of None \<Rightarrow> 0 | Some b \<Rightarrow> r b)
     + (case ea_index ea of None \<Rightarrow> 0 | Some (i, sc) \<Rightarrow> push_bit (unat sc) (r i)) + ea_disp ea"

definition ix_push :: "u32 \<Rightarrow> ia32_cpu \<Rightarrow> ia32_cpu" where
  "ix_push v s = s\<lparr>ix_reg := (ix_reg s)(4 := ix_reg s 4 - 4), ix_mem := wr32 (ix_reg s 4 - 4) v (ix_mem s)\<rparr>"

definition ix_top :: "ia32_cpu \<Rightarrow> u32" where
  "ix_top s = rd32 (ix_mem s) (ix_reg s 4)"

definition ix_drop :: "ia32_cpu \<Rightarrow> ia32_cpu" where
  "ix_drop s = s\<lparr>ix_reg := (ix_reg s)(4 := ix_reg s 4 + 4)\<rparr>"

definition ix_set :: "u8 \<Rightarrow> u32 \<Rightarrow> ia32_cpu \<Rightarrow> ia32_cpu" where
  "ix_set r v s = s\<lparr>ix_reg := (ix_reg s)(r := v)\<rparr>"

text \<open>The effect of an instruction once \<^verbatim>\<open>eip\<close> has been moved behind it.\<close>

fun ia32_exec :: "alu \<Rightarrow> ia32_insn \<Rightarrow> ia32_cpu \<Rightarrow> ia32_cpu" where
  "ia32_exec alu I_nop s = s"
| "ia32_exec alu I_pushf s = ix_push (ix_flags s) s"
| "ia32_exec alu I_popf s = ix_drop (s\<lparr>ix_flags := ix_top s\<rparr>)"
| "ia32_exec alu I_ret s = ix_drop (s\<lparr>ix_eip := ix_top s\<rparr>)"
| "ia32_exec alu (I_push r) s = ix_push (ix_reg s r) s"
| "ia32_exec alu (I_pop r) s = ix_set r (ix_top s) (ix_drop s)"
| "ia32_exec alu (I_mov_ri r v) s = ix_set r v s"
| "ia32_exec alu (I_mov_rr d r) s = ix_set d (ix_reg s r) s"
| "ia32_exec alu (I_mov_rm r ea) s = ix_set r (rd32 (ix_mem s) (ea_addr ea (ix_reg s))) s"
| "ia32_exec alu (I_mov_mr ea r) s = s\<lparr>ix_mem := wr32 (ea_addr ea (ix_reg s)) (ix_reg s r) (ix_mem s)\<rparr>"
| "ia32_exec alu (I_mov_mi ea v) s = s\<lparr>ix_mem := wr32 (ea_addr ea (ix_reg s)) v (ix_mem s)\<rparr>"
| "ia32_exec alu (I_add r v) s = (ix_set r (ix_reg s r + v) s)\<lparr>ix_flags := alu (I_add r v) (ix_reg s r) (ix_flags s)\<rparr>"
| "ia32_exec alu (I_sub r v) s = (ix_set r (ix_reg s r - v) s)\<lparr>ix_flags := alu (I_sub r v) (ix_reg s r) (ix_flags s)\<rparr>"
| "ia32_exec alu (I_jmp d) s = s\<lparr>ix_eip := ix_eip s + d\<rparr>"
| "ia32_exec alu (I_call d) s = (ix_push (ix_eip s) s)\<lparr>ix_eip := ix_eip s + d\<rparr>"
| "ia32_exec alu (I_call_r r) s = (ix_push (ix_eip s) s)\<lparr>ix_eip := ix_reg s r\<rparr>"
| "ia32_exec alu (I_call_m ea) s = (ix_push (ix_eip s) s)\<lparr>ix_eip := rd32 (ix_mem s) (ea_addr ea (ix_reg s))\<rparr>"

definition ia32_do :: "alu \<Rightarrow> ia32_insn \<Rightarrow> nat \<Rightarrow> ia32_cpu \<Rightarrow> ia32_cpu" where
  "ia32_do alu i n s = ia32_exec alu i (s\<lparr>ix_eip := ix_eip s + of_nat n\<rparr>)"

inductive ia32_reaches :: "alu \<Rightarrow> ia32_cpu \<Rightarrow> ia32_cpu \<Rightarrow> bool" for alu where
  here: "ia32_reaches alu s s"
| step: "ia32_decode (\<lambda>i. ix_mem s (ix_eip s + of_nat i)) = Some (i, n) \<Longrightarrow> ia32_reaches alu (ia32_do alu i n s) t \<Longrightarrow> ia32_reaches alu s t"

lemma ia32_reaches_trans: "ia32_reaches alu s t \<Longrightarrow> ia32_reaches alu t u \<Longrightarrow> ia32_reaches alu s u"
  by (induction rule: ia32_reaches.induct) (auto intro: ia32_reaches.intros)

section \<open>The assembler and the decoder\<close>

text \<open>The bytes mean the instruction, whatever follows them.\<close>

definition ia32_means :: "u8 list \<Rightarrow> ia32_insn \<Rightarrow> bool" where
  "ia32_means bs i \<longleftrightarrow> (\<forall>f. (\<forall>k < length bs. f k = bs ! k) \<longrightarrow> ia32_decode f = Some (i, length bs))"

definition ia32_emits :: "ia32_op \<Rightarrow> ia32_insn \<Rightarrow> bool" where
  "ia32_emits e i \<longleftrightarrow> (\<exists>bs. ia32_means bs i \<and> (\<forall>a. e a = Inr (a\<lparr>asm_buffer := asm_buffer a @ bs\<rparr>)))"

text \<open>The operand means the address: its bytes, behind an opcode, with any register field.\<close>

definition opd_means :: "ia32_Operand \<Rightarrow> effective_address \<Rightarrow> bool" where
  "opd_means opd ea \<longleftrightarrow> opd \<noteq> [] \<and> drop_bit 6 (opd ! 0) \<noteq> 3 \<and>
     (\<forall>f. drop_bit 6 (f 1) = drop_bit 6 (opd ! 0) \<and> f 1 AND 7 = opd ! 0 AND 7 \<and> (\<forall>k < length opd - 1. f (k + 2) = opd ! (k + 1)) \<longrightarrow>
        mem_at f = (ea, length opd + 1))"


lemma code8_cases:
  assumes "(c :: u8) < 8"
  obtains "c = 0" | "c = 1" | "c = 2" | "c = 3" | "c = 4" | "c = 5" | "c = 6" | "c = 7"
proof -
  have "c < 16" using assms by (rule less_trans) simp
  then show thesis by (cases rule: code16_cases) (use assms that in auto)
qed

lemma code8_id:
  assumes "(c :: u8) < 8"
  shows "c AND 7 = c"
  using assms by (cases rule: code8_cases) simp_all

lemma modrm_pack:
  fixes md r rm :: u8
  assumes "md < 4" "r < 8" "rm < 8"
  shows "drop_bit 6 (push_bit 6 md OR push_bit 3 r OR rm) = md" "drop_bit 3 (push_bit 6 md OR push_bit 3 r OR rm) AND 7 = r"
    "(push_bit 6 md OR push_bit 3 r OR rm) AND 7 = rm"
  using sib_pack [OF assms(1), of r rm] by (simp_all add: code8_id assms(2,3))

lemma dword_at_bytes: "(\<And>i. i < 4 \<Longrightarrow> f (k + i) = le_bytes 4 v ! i) \<Longrightarrow> dword_at f k = v"
proof -
  assume "\<And>i. i < 4 \<Longrightarrow> f (k + i) = le_bytes 4 v ! i"
  then have "map (\<lambda>i. f (k + i)) [0..<4] = le_bytes 4 v" by (intro nth_equalityI) simp_all
  then show ?thesis by (simp add: dword_at_def)
qed

lemma ia32_disp8_scast: "ia32_disp8 d \<Longrightarrow> scast (ucast d :: u8) = d"
  by (rule scast_ucast_fits) (simp_all add: ia32_disp8_def)

text \<open>The displacement bytes behind a ModR/M byte, or behind a SIB byte, in each mode.\<close>

definition disp_bytes :: "u8 \<Rightarrow> u32 \<Rightarrow> u8 list" where
  "disp_bytes md d = (if md = 0 then [] else if md = 1 then [ucast d] else le_bytes 4 d)"

lemma disp_at_bytes:
  assumes "\<forall>i < length (disp_bytes md d). f (k + i) = disp_bytes md d ! i" and "md = 0 \<longrightarrow> d = 0" and "md = 1 \<longrightarrow> ia32_disp8 d"
  shows "disp_at md f k = (d, k + length (disp_bytes md d))"
proof -
  consider "md = 0" | "md = 1" | "md \<noteq> 0" "md \<noteq> 1" by blast
  then show ?thesis
  proof cases
    case 3
    then have "dword_at f k = d" using assms(1) by (intro dword_at_bytes) (simp add: disp_bytes_def)
    then show ?thesis using 3 by (simp add: disp_at_def disp_bytes_def)
  qed (use assms ia32_disp8_scast in \<open>simp_all add: disp_at_def disp_bytes_def\<close>)
qed

lemma opd_means_plain:
  assumes "md < 3" "rm < 8" "rm \<noteq> 4" "\<not> (md = 0 \<and> rm = 5)" "md = 0 \<longrightarrow> d = 0" "md = 1 \<longrightarrow> ia32_disp8 d"
  shows "opd_means ((push_bit 6 md OR rm) # disp_bytes md d) \<lparr>ea_base = Some rm, ea_index = None, ea_disp = d\<rparr>"
proof -
  have "md < 4" "md \<noteq> 3" using assms(1) by (auto simp: word_less_nat_alt)
  then have m: "drop_bit 6 (push_bit 6 md OR rm) = md" "(push_bit 6 md OR rm) AND 7 = rm" "md \<noteq> 3"
    using modrm_pack [of md 0 rm] assms(2) by simp_all
  have "disp_at md f 2 = (d, 2 + length (disp_bytes md d))" if "\<forall>k < length (disp_bytes md d). f (k + 2) = disp_bytes md d ! k" for f
    using that assms(5,6) by (intro disp_at_bytes) (simp_all add: add.commute)
  then show ?thesis unfolding opd_means_def using m assms(3,4) by (auto simp: mem_at_def Let_def)
qed

lemma opd_means_sib:
  assumes "md < 3" "sc < 4" "ix < 8" "b < 8" "md = 0 \<longrightarrow> d = 0" "md = 1 \<longrightarrow> ia32_disp8 d" "\<not> (md = 0 \<and> b = 5)"
  shows "opd_means ((push_bit 6 md OR 4) # (push_bit 6 sc OR push_bit 3 ix OR b) # disp_bytes md d)
     \<lparr>ea_base = Some b, ea_index = (if ix = 4 then None else Some (ix, sc)), ea_disp = d\<rparr>"
proof -
  have "md < 4" "md \<noteq> 3" using assms(1) by (auto simp: word_less_nat_alt)
  then have m: "drop_bit 6 (push_bit 6 md OR 4) = md" "(push_bit 6 md OR 4) AND 7 = 4" "md \<noteq> 3" using modrm_pack [of md 0 4] by simp_all
  note p = modrm_pack [OF assms(2-4)]
  let ?s = "push_bit 6 sc OR push_bit 3 ix OR b" and ?ds = "disp_bytes md d"
  have "mem_at f = (\<lparr>ea_base = Some b, ea_index = (if ix = 4 then None else Some (ix, sc)), ea_disp = d\<rparr>, length ?ds + 3)"
    if f: "drop_bit 6 (f 1) = md" "f 1 AND 7 = 4" "\<forall>k < Suc (length ?ds). f (k + 2) = (?s # ?ds) ! k" for f
  proof -
    have "f 2 = ?s" "\<And>k. k < length ?ds \<Longrightarrow> f (k + 3) = ?ds ! k"
      using f(3) [rule_format, of 0] f(3) [rule_format, of "Suc _"] by (simp_all add: numeral_2_eq_2 numeral_3_eq_3)
    moreover from this(2) have "disp_at md f 3 = (d, 3 + length ?ds)" using assms(5,6) by (intro disp_at_bytes) (simp_all add: add.commute)
    ultimately show ?thesis using f(1,2) p assms(7) by (auto simp: mem_at_def Let_def)
  qed
  then show ?thesis using m unfolding opd_means_def by simp
qed


lemma ia32_base_disp_means:
  assumes "reg_code base < 8"
  shows "opd_means (ia32_base_disp base disp) \<lparr>ea_base = Some (reg_code base), ea_index = None, ea_disp = disp\<rparr>"
proof -
  define md :: u8 where "md = (if disp = 0 \<and> reg_code base \<noteq> 5 then 0 else if ia32_disp8 disp then 1 else 2)"
  have md: "md < 3" "md = 0 \<longrightarrow> disp = 0" "md = 1 \<longrightarrow> ia32_disp8 disp" "\<not> (md = 0 \<and> reg_code base = 5)"
    by (auto simp: md_def split: if_splits)
  note d = ia32_base_disp_def Let_def ia32_SetModRM_def ia32_SetSIB_def ia32_SetDisp8_def ia32_SetDisp32_def esp_def ebp_def disp_bytes_def
  show ?thesis
  proof (cases "reg_code base = 4")
    case True
    have "ia32_base_disp base disp = (push_bit 6 md OR 4) # (push_bit 6 0 OR push_bit 3 4 OR 4) # disp_bytes md disp"
      using True by (auto simp: d md_def)
    then show ?thesis using opd_means_sib [OF md(1) _ _ _ md(2,3), of 0 4 4] True by simp
  next
    case False
    have "ia32_base_disp base disp = (push_bit 6 md OR reg_code base) # disp_bytes md disp" using False by (auto simp: d md_def)
    then show ?thesis using opd_means_plain [OF md(1) assms False md(4,2,3)] by simp
  qed
qed

lemma ia32_base_index_disp_means:
  assumes "reg_code base < 8" "reg_code index < 8" "reg_code index \<noteq> 4" "sc \<noteq> TIMES_16"
  shows "opd_means (ia32_base_index_disp base index sc disp)
     \<lparr>ea_base = Some (reg_code base), ea_index = Some (reg_code index, scale_code sc), ea_disp = disp\<rparr>"
proof -
  define md :: u8 where "md = (if disp = 0 \<and> reg_code base \<noteq> 5 then 0 else if ia32_disp8 disp then 1 else 2)"
  have md: "md < 3" "md = 0 \<longrightarrow> disp = 0" "md = 1 \<longrightarrow> ia32_disp8 disp" "\<not> (md = 0 \<and> reg_code base = 5)"
    by (auto simp: md_def split: if_splits)
  have "ia32_base_index_disp base index sc disp
      = (push_bit 6 md OR 4) # (push_bit 6 (scale_code sc) OR push_bit 3 (reg_code index) OR reg_code base) # disp_bytes md disp"
    using code8_id [OF assms(1)]
    by (auto simp: ia32_base_index_disp_def ia32_SetModRM_def ia32_SetSIB_def ia32_SetDisp8_def ia32_SetDisp32_def esp_def ebp_def disp_bytes_def md_def)
  then show ?thesis using opd_means_sib [OF md(1) scale_less [OF assms(4)] assms(2,1) md(2-4)] assms(3) by simp
qed

lemma ia32_fixed_disp_means:
  assumes "reg_code base < 8"
  shows "opd_means (ia32_fixed_disp base disp) \<lparr>ea_base = Some (reg_code base), ea_index = None, ea_disp = disp\<rparr>"
proof -
  note d = ia32_fixed_disp_def Let_def ia32_SetModRM_def ia32_SetSIB_def ia32_SetDisp32_def esp_def disp_bytes_def
  show ?thesis
  proof (cases "reg_code base = 4")
    case True
    have "ia32_fixed_disp base disp = (push_bit 6 2 OR 4) # (push_bit 6 0 OR push_bit 3 4 OR 4) # disp_bytes 2 disp" using True by (simp add: d)
    then show ?thesis using opd_means_sib [of 2 0 4 4 disp] True by simp
  next
    case False
    have "ia32_fixed_disp base disp = (push_bit 6 2 OR reg_code base) # disp_bytes 2 disp" using False by (simp add: d)
    then show ?thesis using opd_means_plain [of 2 "reg_code base" disp] assms False by simp
  qed
qed

text \<open>The bytes of an instruction with a memory operand.\<close>

lemma ModRM_RM_less: "ModRM_RM m < 8"
proof -
  have "unat (take_bit 3 m) < 2 ^ 3" by (simp only: unsigned_take_bit_eq take_bit_nat_less_exp)
  then show ?thesis by (simp add: ModRM_RM_def and_7 word_less_nat_alt)
qed

lemma mem_insn_at:
  assumes o: "opd_means opd ea" and r: "r < 8"
    and f: "\<forall>k < length bs. f k = bs ! k" "bs = opc # (push_bit 6 (ModRM_Mod (opd ! 0)) OR push_bit 3 r OR ModRM_RM (opd ! 0)) # drop 1 opd @ rest"
  shows "f 0 = opc" "mem_at f = (ea, length opd + 1)" "drop_bit 6 (f 1) \<noteq> 3" "drop_bit 3 (f 1) AND 7 = r"
    "\<And>i. i < length rest \<Longrightarrow> f (length opd + 1 + i) = rest ! i"
proof -
  have n: "opd \<noteq> []" and d: "drop_bit 6 (opd ! 0) \<noteq> 3" using o by (simp_all add: opd_means_def)
  have l: "length bs = length opd + 1 + length rest" using n f(2) by (cases opd) simp_all
  show "f 0 = opc" using f by auto
  have f1: "f 1 = push_bit 6 (ModRM_Mod (opd ! 0)) OR push_bit 3 r OR ModRM_RM (opd ! 0)" using f by auto
  note p = modrm_pack [OF ModRM_Mod_less r ModRM_RM_less, of "opd ! 0" "opd ! 0", folded f1]
  show "drop_bit 6 (f 1) \<noteq> 3" "drop_bit 3 (f 1) AND 7 = r" using p d by (simp_all add: ModRM_Mod_eq)
  have "f (k + 2) = opd ! (k + 1)" if "k < length opd - 1" for k
    using f(1) [rule_format, of "k + 2"] that l n by (cases opd) (simp_all add: f(2) nth_append)
  then show "mem_at f = (ea, length opd + 1)" using o p by (simp add: opd_means_def ModRM_Mod_eq ModRM_RM_def)
  fix i assume "i < length rest"
  then show "f (length opd + 1 + i) = rest ! i" using f(1) [rule_format, of "length opd + 1 + i"] l n by (cases opd) (simp_all add: f(2) nth_append)
qed

lemma ia32_emitsI:
  assumes "\<And>a. e a = Inr (a\<lparr>asm_buffer := asm_buffer a @ bs\<rparr>)" and "\<And>f. \<forall>k < length bs. f k = bs ! k \<Longrightarrow> ia32_decode f = Some (i, length bs)"
  shows "ia32_emits e i"
  using assms by (auto simp: ia32_emits_def ia32_means_def)

lemmas ia32_op_defs = ia32_nop_def ia32_ret_def ia32_push_def ia32_pop_def ia32_pushfq_def ia32_jmp_def ia32_sub_def ia32_add_def ia32_mov_ri_def
  ia32_mov_mi_def ia32_mov_rm_def ia32_mov_mr_def ia32_mov_rr_def ia32_call_m_def ia32_call_i_def ia32_call_r_def
  ia32_EmitOpcode_def ia32_EmitOpcode_Register_def ia32_Emit1_def ia32_EmitModRM_def ia32_EmitModRM_ExtraOpcode_Register_def
  ia32_EmitModRM_Register_Register_def ia32_EmitModRM_Update_Register_def ia32_EmitModRM_Update_ExtraOpcode_def
  ia32_OpEn_Register_MemOperand_def ia32_OpEn_Register_RegOperand_def ia32_OpEn_MemOperand_Immediate_def ia32_OpEn_RegOperand_Immediate_def
  ia32_OpEn_MemOperand_def ia32_OpEn_RegOperand_def ia32_OpEn_OpcodeRegister_Immediate_def ia32_EmitImmediate_def ia32_Imm_def emit_bytes_def

lemma ia32_emits_mem:
  assumes o: "opd_means opd ea" and r: "r < 8"
  shows "reg_code reg = r \<Longrightarrow> ia32_emits (ia32_mov_rm reg opd) (I_mov_rm r ea)"
    "reg_code reg = r \<Longrightarrow> ia32_emits (ia32_mov_mr opd reg) (I_mov_mr ea r)"
    "ia32_emits (ia32_call_m opd) (I_call_m ea)" "ia32_emits (ia32_mov_mi opd (ia32_Imm v 32)) (I_mov_mi ea v)"
proof -
  have n: "opd \<noteq> []" using o by (simp add: opd_means_def)
  let ?b = "\<lambda>opc r rest. opc # (push_bit 6 (ModRM_Mod (opd ! 0)) OR push_bit 3 r OR ModRM_RM (opd ! 0)) # drop 1 opd @ rest"
  have l: "length (?b opc r rest) = length opd + 1 + length rest" for opc r rest using n by (cases opd) simp_all
  note M = mem_insn_at [OF o]
  have D: "f 0 = opc" "mem_at f = (ea, length opd + 1)" "drop_bit 6 (f (Suc 0)) \<noteq> 3" "drop_bit 3 (f (Suc 0)) AND 7 = r"
    if "\<forall>k < length (?b opc r []). f k = ?b opc r [] ! k" "r < 8" for f opc r
    using M(1-4) [OF that(2,1) refl] by simp_all
  have "ia32_decode f = Some (I_mov_rm r ea, length (?b 0x8B r []))" if "\<forall>k < length (?b 0x8B r []). f k = ?b 0x8B r [] ! k" for f
    using D [OF that r] l [of "0x8B" r "[]"] by (simp add: ia32_decode_def)
  then show "ia32_emits (ia32_mov_rm reg opd) (I_mov_rm r ea)" if "reg_code reg = r"
    using that by (intro ia32_emitsI [where bs = "?b 0x8B r []"]) (simp_all add: ia32_op_defs le_bytes_numeral(1))
  have "ia32_decode f = Some (I_mov_mr ea r, length (?b 0x89 r []))" if "\<forall>k < length (?b 0x89 r []). f k = ?b 0x89 r [] ! k" for f
    using D [OF that r] l [of "0x89" r "[]"] by (simp add: ia32_decode_def)
  then show "ia32_emits (ia32_mov_mr opd reg) (I_mov_mr ea r)" if "reg_code reg = r"
    using that by (intro ia32_emitsI [where bs = "?b 0x89 r []"]) (simp_all add: ia32_op_defs le_bytes_numeral(1))
  have "ia32_decode f = Some (I_call_m ea, length (?b 0xFF 2 []))" if "\<forall>k < length (?b 0xFF 2 []). f k = ?b 0xFF 2 [] ! k" for f
    using D [OF that] l [of "0xFF" 2 "[]"] by (simp add: ia32_decode_def)
  then show "ia32_emits (ia32_call_m opd) (I_call_m ea)"
    by (intro ia32_emitsI [where bs = "?b 0xFF 2 []"]) (simp_all add: ia32_op_defs le_bytes_numeral(1))
  have "ia32_decode f = Some (I_mov_mi ea v, length (?b 0xC7 0 (le_bytes 4 v)))"
    if "\<forall>k < length (?b 0xC7 0 (le_bytes 4 v)). f k = ?b 0xC7 0 (le_bytes 4 v) ! k" for f
  proof -
    note m = M [of 0 "?b 0xC7 0 (le_bytes 4 v)" f "0xC7" "le_bytes 4 v", OF _ that refl, simplified]
    have "dword_at f (Suc (length opd)) = v" using m(5) by (intro dword_at_bytes) simp
    then show ?thesis using m(1-4) l [of "0xC7" 0 "le_bytes 4 v"] by (simp add: ia32_decode_def)
  qed
  then show "ia32_emits (ia32_mov_mi opd (ia32_Imm v 32)) (I_mov_mi ea v)"
    by (intro ia32_emitsI [where bs = "?b 0xC7 0 (le_bytes 4 v)"]) (simp_all add: ia32_op_defs le_bytes_numeral(1))
qed


lemma ia32_index_disp_means:
  assumes "reg_code index < 8" "reg_code index \<noteq> 4" "sc \<noteq> TIMES_16"
  shows "opd_means (ia32_index_disp index sc disp) \<lparr>ea_base = None, ea_index = Some (reg_code index, scale_code sc), ea_disp = disp\<rparr>"
proof -
  let ?s = "push_bit 6 (scale_code sc) OR push_bit 3 (reg_code index) OR 5"
  have e: "ia32_index_disp index sc disp = 4 # ?s # le_bytes 4 disp"
    by (simp add: ia32_index_disp_def ia32_SetModRM_def ia32_SetSIB_def ia32_SetDisp32_def esp_def ebp_def)
  note p = modrm_pack [OF scale_less [OF assms(3)] assms(1), of 5, simplified]
  have "mem_at f = (\<lparr>ea_base = None, ea_index = Some (reg_code index, scale_code sc), ea_disp = disp\<rparr>, 7)"
    if f: "drop_bit 6 (f 1) = 0" "f 1 AND 7 = 4" "\<forall>k < 5. f (k + 2) = (?s # le_bytes 4 disp) ! k" for f
  proof -
    have f2: "f 2 = ?s" and "\<And>k. k < 4 \<Longrightarrow> f (3 + k) = le_bytes 4 disp ! k"
      using f(3) [rule_format, of 0] f(3) [rule_format, of "Suc _"] by (simp_all add: numeral_2_eq_2 numeral_3_eq_3)
    then have "dword_at f 3 = disp" by (intro dword_at_bytes)
    then show ?thesis using f(1,2) p assms(2) by (simp add: mem_at_def disp_at_def f2)
  qed
  then show ?thesis unfolding e opd_means_def by simp
qed

lemma means_with_dword:
  assumes "\<And>f. f 0 = b \<Longrightarrow> dword_at f 1 = v \<Longrightarrow> ia32_decode f = Some (i, 5)"
  shows "ia32_means (b # le_bytes 4 v) i"
  unfolding ia32_means_def
proof (intro allI impI)
  fix f assume f: "\<forall>k < length (b # le_bytes 4 v). f k = (b # le_bytes 4 v) ! k"
  then have "dword_at f 1 = v" by (intro dword_at_bytes) auto
  then show "ia32_decode f = Some (i, length (b # le_bytes 4 v))" using f assms [of f] by auto
qed

lemma means_reg_dword:
  assumes "r < 8" "x < 8" and "\<And>f. f 0 = b \<Longrightarrow> drop_bit 6 (f 1) = 3 \<Longrightarrow> drop_bit 3 (f 1) AND 7 = x \<Longrightarrow> f 1 AND 7 = r \<Longrightarrow> dword_at f 2 = v
     \<Longrightarrow> ia32_decode f = Some (i, 6)"
  shows "ia32_means (b # (push_bit 6 3 OR push_bit 3 x OR r) # le_bytes 4 v) i"
  unfolding ia32_means_def
proof (intro allI impI)
  let ?bs = "b # (push_bit 6 3 OR push_bit 3 x OR r) # le_bytes 4 v"
  fix f assume f: "\<forall>k < length ?bs. f k = ?bs ! k"
  then have "dword_at f 2 = v" by (intro dword_at_bytes) auto
  moreover have "f 0 = b" "f 1 = push_bit 6 3 OR push_bit 3 x OR r" using f by auto
  ultimately show "ia32_decode f = Some (i, length ?bs)" using assms(3) [of f] modrm_pack [of 3 x r] assms(1,2) by simp
qed

lemma means_reg_reg:
  assumes "r < 8" "x < 8" and "\<And>f. f 0 = b \<Longrightarrow> drop_bit 6 (f 1) = 3 \<Longrightarrow> drop_bit 3 (f 1) AND 7 = x \<Longrightarrow> f 1 AND 7 = r \<Longrightarrow> ia32_decode f = Some (i, 2)"
  shows "ia32_means [b, push_bit 6 3 OR push_bit 3 x OR r] i"
  unfolding ia32_means_def
proof (intro allI impI)
  let ?bs = "[b, push_bit 6 3 OR push_bit 3 x OR r]"
  fix f assume f: "\<forall>k < length ?bs. f k = ?bs ! k"
  then have "f 0 = b" "f 1 = push_bit 6 3 OR push_bit 3 x OR r" by auto
  then show "ia32_decode f = Some (i, length ?bs)" using assms(3) [of f] modrm_pack [of 3 x r] assms(1,2) by simp
qed

lemma ia32_emits_means: "ia32_means bs i \<Longrightarrow> (\<And>a. e a = Inr (a\<lparr>asm_buffer := asm_buffer a @ bs\<rparr>)) \<Longrightarrow> ia32_emits e i"
  by (auto simp: ia32_emits_def)

lemma ia32_emits_plain:
  "ia32_emits ia32_nop I_nop" "ia32_emits ia32_ret I_ret" "ia32_emits ia32_pushfq I_pushf" "ia32_emits (emit_bytes [0x9c]) I_pushf"
  "ia32_emits (emit_bytes [0x9d]) I_popf"
  by (rule ia32_emits_means [of "[0x90]"] ia32_emits_means [of "[0xC3]"] ia32_emits_means [of "[0x9C]"] ia32_emits_means [of "[0x9D]"];
      simp add: ia32_op_defs le_bytes_numeral(1) ia32_means_def ia32_decode_def)+

lemma ia32_emits_opcode_reg:
  assumes "reg_code r < 8"
  shows "ia32_emits (ia32_push r) (I_push (reg_code r))" "ia32_emits (ia32_pop r) (I_pop (reg_code r))"
    "ia32_emits (ia32_mov_ri r (ia32_Imm v 32)) (I_mov_ri (reg_code r) v)"
proof -
  have "ia32_means [0x50 OR reg_code r] (I_push (reg_code r)) \<and> ia32_means [0x58 OR reg_code r] (I_pop (reg_code r))"
    using assms by (cases rule: code8_cases) (simp_all add: ia32_means_def ia32_decode_def)
  then show "ia32_emits (ia32_push r) (I_push (reg_code r))" "ia32_emits (ia32_pop r) (I_pop (reg_code r))"
    by (auto intro!: ia32_emits_means simp: ia32_op_defs le_bytes_numeral(1))
  have "ia32_means ((0xb8 OR reg_code r) # le_bytes 4 v) (I_mov_ri (reg_code r) v)"
    using assms by (cases rule: code8_cases) (auto intro!: means_with_dword simp: ia32_decode_def Let_def case_prod_beta)
  then show "ia32_emits (ia32_mov_ri r (ia32_Imm v 32)) (I_mov_ri (reg_code r) v)"
    by (auto intro!: ia32_emits_means simp: ia32_op_defs le_bytes_numeral(1))
qed

lemma ia32_emits_branch:
  "ia32_emits (ia32_jmp (ia32_Imm v n)) (I_jmp v)" "ia32_emits (ia32_call_i (ia32_Imm v 32)) (I_call v)"
proof -
  have "ia32_means (0xE9 # le_bytes 4 v) (I_jmp v)" "ia32_means (0xE8 # le_bytes 4 v) (I_call v)"
    by (rule means_with_dword, simp add: ia32_decode_def)+
  then show "ia32_emits (ia32_jmp (ia32_Imm v n)) (I_jmp v)" "ia32_emits (ia32_call_i (ia32_Imm v 32)) (I_call v)"
    by (auto intro!: ia32_emits_means simp: ia32_op_defs le_bytes_numeral(1))
qed

lemma ia32_emits_reg:
  assumes r: "reg_code r < 8"
  shows "ia32_emits (ia32_add r (ia32_Imm v 32)) (I_add (reg_code r) v)" "ia32_emits (ia32_sub r (ia32_Imm v 32)) (I_sub (reg_code r) v)"
    "ia32_emits (ia32_call_r r) (I_call_r (reg_code r))" "reg_code q < 8 \<Longrightarrow> ia32_emits (ia32_mov_rr r q) (I_mov_rr (reg_code r) (reg_code q))"
proof -
  have m: "ia32_means (0x81 # (push_bit 6 3 OR push_bit 3 0 OR reg_code r) # le_bytes 4 v) (I_add (reg_code r) v)"
       "ia32_means (0x81 # (push_bit 6 3 OR push_bit 3 5 OR reg_code r) # le_bytes 4 v) (I_sub (reg_code r) v)"
    by (rule means_reg_dword [OF r]; simp add: ia32_decode_def)+
  show "ia32_emits (ia32_add r (ia32_Imm v 32)) (I_add (reg_code r) v)" "ia32_emits (ia32_sub r (ia32_Imm v 32)) (I_sub (reg_code r) v)"
    by (rule ia32_emits_means [OF m(1)] ia32_emits_means [OF m(2)], simp add: ia32_op_defs le_bytes_numeral(1))+
  have m: "ia32_means [0xFF, push_bit 6 3 OR push_bit 3 2 OR reg_code r] (I_call_r (reg_code r))"
    by (rule means_reg_reg [OF r]) (simp_all add: ia32_decode_def)
  show "ia32_emits (ia32_call_r r) (I_call_r (reg_code r))" by (rule ia32_emits_means [OF m]) (simp add: ia32_op_defs le_bytes_numeral(1))
  have m: "ia32_means [0x8B, push_bit 6 3 OR push_bit 3 (reg_code r) OR reg_code q] (I_mov_rr (reg_code r) (reg_code q))" if "reg_code q < 8"
    by (rule means_reg_reg [OF that r]) (simp_all add: ia32_decode_def)
  show "ia32_emits (ia32_mov_rr r q) (I_mov_rr (reg_code r) (reg_code q))" if "reg_code q < 8"
    by (rule ia32_emits_means [OF m [OF that]]) (simp add: ia32_op_defs le_bytes_numeral(1))
qed


text \<open>
  C14: what the 32-bit x86 assembler emits is decoded, after the processor manual, to the instruction that was asked
  for: every instruction of the assembler, with every register, and for each of its three forms of address with every
  base, index, scale and displacement that the form allows. Immediates have 32 bits.
\<close>

theorem ia32_assembler_roundtrip:
  assumes "reg_code r < 8" and "reg_code q < 8" and "reg_code base < 8" and "reg_code index < 8" and "reg_code index \<noteq> 4" and "sc \<noteq> TIMES_16"
    and "(opd, ea) \<in> {(ia32_base_disp base d, \<lparr>ea_base = Some (reg_code base), ea_index = None, ea_disp = d\<rparr>),
       (ia32_index_disp index sc d, \<lparr>ea_base = None, ea_index = Some (reg_code index, scale_code sc), ea_disp = d\<rparr>),
       (ia32_base_index_disp base index sc d, \<lparr>ea_base = Some (reg_code base), ea_index = Some (reg_code index, scale_code sc), ea_disp = d\<rparr>)}"
    and "(e, i) \<in> {(ia32_nop, I_nop), (ia32_ret, I_ret), (ia32_pushfq, I_pushf), (ia32_push r, I_push (reg_code r)), (ia32_pop r, I_pop (reg_code r)),
       (ia32_mov_ri r (ia32_Imm v 32), I_mov_ri (reg_code r) v), (ia32_mov_rr r q, I_mov_rr (reg_code r) (reg_code q)),
       (ia32_mov_rm r opd, I_mov_rm (reg_code r) ea), (ia32_mov_mr opd r, I_mov_mr ea (reg_code r)), (ia32_mov_mi opd (ia32_Imm v 32), I_mov_mi ea v),
       (ia32_add r (ia32_Imm v 32), I_add (reg_code r) v), (ia32_sub r (ia32_Imm v 32), I_sub (reg_code r) v), (ia32_jmp (ia32_Imm v 32), I_jmp v),
       (ia32_call_i (ia32_Imm v 32), I_call v), (ia32_call_r r, I_call_r (reg_code r)), (ia32_call_m opd, I_call_m ea)}"
  shows "\<exists>bs. (\<forall>a. e a = Inr (a\<lparr>asm_buffer := asm_buffer a @ bs\<rparr>)) \<and> (\<forall>f. (\<forall>k < length bs. f k = bs ! k) \<longrightarrow> ia32_decode f = Some (i, length bs))"
proof -
  have "opd_means opd ea"
    using assms(7) ia32_base_disp_means [OF assms(3)] ia32_index_disp_means [OF assms(4-6)] ia32_base_index_disp_means [OF assms(3-6)] by auto
  note m = ia32_emits_mem [OF this assms(1)]
  have "ia32_emits e i"
    using assms(8) m(1,2) [OF refl] m(3,4) ia32_emits_plain ia32_emits_opcode_reg [OF assms(1)] ia32_emits_branch ia32_emits_reg [OF assms(1)] assms(2) by auto
  then show ?thesis by (auto simp: ia32_emits_def ia32_means_def)
qed

theorem ia32_assembler_roundtrip_witness:
  "\<exists>bs. (\<forall>a. ia32_mov_mr (ia32_base_disp esp 8) ebx a = Inr (a\<lparr>asm_buffer := asm_buffer a @ bs\<rparr>))
     \<and> (\<forall>f. (\<forall>k < length bs. f k = bs ! k) \<longrightarrow> ia32_decode f = Some (I_mov_mr \<lparr>ea_base = Some 4, ea_index = None, ea_disp = 8\<rparr> 3, length bs))"
  using ia32_assembler_roundtrip [of ebx eax esp ecx TIMES_1 "ia32_base_disp esp 8" "\<lparr>ea_base = Some 4, ea_index = None, ea_disp = 8\<rparr>" 8
      "ia32_mov_mr (ia32_base_disp esp 8) ebx" "I_mov_mr \<lparr>ea_base = Some 4, ea_index = None, ea_disp = 8\<rparr> 3" 0]
  by (simp add: ia32_regs)

section \<open>Straight code\<close>

definition ia32_code_at :: "(u32 \<Rightarrow> u8) \<Rightarrow> u32 \<Rightarrow> u8 list \<Rightarrow> bool" where
  "ia32_code_at m c bs \<longleftrightarrow> (\<forall>k < length bs. m (c + of_nat k) = bs ! k)"

lemma ia32_code_map: "ia32_code_at m c bs \<longleftrightarrow> map (\<lambda>k. m (c + of_nat k)) [0..<length bs] = bs"
proof
  assume "map (\<lambda>k. m (c + of_nat k)) [0..<length bs] = bs"
  then have e: "map (\<lambda>k. m (c + of_nat k)) [0..<length bs] ! k = bs ! k" for k by simp
  show "ia32_code_at m c bs" unfolding ia32_code_at_def
  proof (intro allI impI)
    fix k assume "k < length bs"
    then show "m (c + of_nat k) = bs ! k" using e [of k] by (subst (asm) nth_map) simp_all
  qed
qed (auto simp: ia32_code_at_def intro!: nth_equalityI)

lemma ia32_code_append: "ia32_code_at m c (xs @ ys) \<longleftrightarrow> ia32_code_at m c xs \<and> ia32_code_at m (c + of_nat (length xs)) ys"
proof -
  have "map (\<lambda>k. m (c + of_nat k)) [length xs..<length xs + length ys] = map (\<lambda>k. m (c + of_nat (length xs) + of_nat k)) [0..<length ys]"
    by (rule nth_equalityI) (simp_all add: add.assoc)
  then show ?thesis unfolding ia32_code_map length_append upt_add_eq_append [OF le0] map_append by (subst append_eq_append_conv) simp_all
qed

text \<open>The address an instruction stores a word to.\<close>

fun ia32_store :: "ia32_insn \<Rightarrow> ia32_cpu \<Rightarrow> u32 option" where
  "ia32_store I_pushf s = Some (ix_reg s 4 - 4)"
| "ia32_store (I_push r) s = Some (ix_reg s 4 - 4)"
| "ia32_store (I_call d) s = Some (ix_reg s 4 - 4)"
| "ia32_store (I_call_r r) s = Some (ix_reg s 4 - 4)"
| "ia32_store (I_call_m ea) s = Some (ix_reg s 4 - 4)"
| "ia32_store (I_mov_mr ea r) s = Some (ea_addr ea (ix_reg s))"
| "ia32_store (I_mov_mi ea v) s = Some (ea_addr ea (ix_reg s))"
| "ia32_store i s = None"

text \<open>The store lies in the \<open>n\<close> bytes from \<open>lo\<close> on.\<close>

definition stores_in :: "u32 \<Rightarrow> nat \<Rightarrow> ia32_insn \<Rightarrow> ia32_cpu \<Rightarrow> bool" where
  "stores_in lo n i s \<longleftrightarrow> (case ia32_store i s of None \<Rightarrow> True | Some a \<Rightarrow> unat (a - lo) + 4 \<le> n)"

lemma wr32_outside:
  assumes "unat (a - lo) + 4 \<le> n" and "n \<le> unat (x - lo)"
  shows "wr32 a v m x = m x"
proof -
  have "unat (x - a) = unat ((x - lo) - (a - lo))" by simp
  also have "\<dots> = unat (x - lo) - unat (a - lo)" using assms by (intro unat_sub) (simp add: word_le_nat_alt)
  finally have "4 \<le> unat (x - a)" using assms by linarith
  then show ?thesis by (simp add: wr32_def)
qed

lemma ia32_do_frame:
  assumes "stores_in lo n i s" and "n \<le> unat (x - lo)"
  shows "ix_mem (ia32_do alu i k s) x = ix_mem s x"
  using assms wr32_outside [of _ lo n x]
  by (cases i) (simp_all add: ia32_do_def stores_in_def ix_push_def ix_set_def ix_drop_def)

text \<open>A sequence of instructions with their lengths, run one after the other, with stores in the window only.\<close>

fun ia32_run :: "alu \<Rightarrow> (ia32_insn \<times> nat) list \<Rightarrow> ia32_cpu \<Rightarrow> ia32_cpu" where
  "ia32_run alu [] s = s"
| "ia32_run alu ((i, n) # p) s = ia32_run alu p (ia32_do alu i n s)"

fun ia32_straight :: "alu \<Rightarrow> u32 \<Rightarrow> nat \<Rightarrow> (ia32_insn \<times> nat) list \<Rightarrow> ia32_cpu \<Rightarrow> bool" where
  "ia32_straight alu lo w [] s \<longleftrightarrow> True"
| "ia32_straight alu lo w ((i, n) # p) s \<longleftrightarrow> stores_in lo w i s
     \<and> (p = [] \<or> ix_eip (ia32_do alu i n s) = ix_eip s + of_nat n \<and> ia32_straight alu lo w p (ia32_do alu i n s))"

lemma ia32_run_frame:
  "ia32_straight alu lo w p s \<Longrightarrow> w \<le> unat (x - lo) \<Longrightarrow> ix_mem (ia32_run alu p s) x = ix_mem s x"
  by (induction p arbitrary: s) (auto simp: ia32_do_frame)

lemma ia32_run_reaches:
  assumes "list_all2 ia32_means bss is" and "ia32_code_at (ix_mem s) (ix_eip s) (concat bss)"
    and "ia32_straight alu lo w (zip is (map length bss)) s" and "\<forall>k < length (concat bss). w \<le> unat (ix_eip s + of_nat k - lo)"
  shows "ia32_reaches alu s (ia32_run alu (zip is (map length bss)) s)"
  using assms
proof (induction arbitrary: s rule: list_all2_induct)
  case Nil
  then show ?case by (simp add: here)
next
  case (Cons bs bss i ins)
  let ?t = "ia32_do alu i (length bs) s"
  have c: "ia32_code_at (ix_mem s) (ix_eip s) bs" "ia32_code_at (ix_mem s) (ix_eip s + of_nat (length bs)) (concat bss)"
    using Cons.prems(1) by (simp_all add: ia32_code_append)
  then have "ia32_decode (\<lambda>k. ix_mem s (ix_eip s + of_nat k)) = Some (i, length bs)"
    using Cons.hyps(1) by (simp add: ia32_means_def ia32_code_at_def)
  moreover have "ia32_reaches alu ?t (ia32_run alu (zip ins (map length bss)) ?t)"
  proof (cases "bss = []")
    case True
    then show ?thesis by (simp add: here)
  next
    case False
    then have st: "stores_in lo w i s" "ix_eip ?t = ix_eip s + of_nat (length bs)" "ia32_straight alu lo w (zip ins (map length bss)) ?t"
      using Cons.prems(2) list_all2_lengthD [OF Cons.hyps(2)] by auto
    have ap: "w \<le> unat (ix_eip ?t + of_nat k - lo)" if "k < length (concat bss)" for k
      using Cons.prems(3) [rule_format, of "length bs + k"] that by (simp add: st(2) add.assoc)
    have "ia32_code_at (ix_mem ?t) (ix_eip ?t) (concat bss)"
      using c(2) ia32_do_frame [OF st(1)] ap by (simp add: ia32_code_at_def st(2))
    then show ?thesis using ap st(3) by (intro Cons.IH) simp_all
  qed
  ultimately show ?case by (simp add: ia32_reaches.step)
qed

lemma rd32_wr32 [simp]: "rd32 (wr32 a v m) a = v"
proof -
  have "unat (of_nat i :: u32) = i" if "i < 4" for i using that by (simp add: unat_of_nat take_bit_nat_eq_self)
  then have "map (\<lambda>i. wr32 a v m (a + of_nat i)) [0..<4] = le_bytes 4 v" by (intro nth_equalityI) (simp_all add: wr32_def)
  then show ?thesis by (simp add: rd32_def)
qed

lemma rd32_other:
  assumes "4 \<le> unat (b - a)" and "4 \<le> unat (a - b)"
  shows "rd32 (wr32 a v m) b = rd32 m b"
proof -
  have "4 \<le> unat (b + of_nat i - a)" if "i < 4" for i
  proof -
    have "a - b = 0 - (b - a)" by simp
    then have "unat (a - b) = 2 ^ 32 - unat (b - a)" using assms(1) unsigned_less [of a] unsigned_less [of b] by (auto simp: unat_sub_if' split: if_splits)
    then have "unat (b - a) + i < 2 ^ 32" "unat (of_nat i :: u32) = i" using assms(2) that by (simp_all add: unat_of_nat take_bit_nat_eq_self)
    then have "unat ((b - a) + of_nat i) = unat (b - a) + i" by (simp add: unat_word_ariths)
    then show ?thesis using assms(1) by (simp add: algebra_simps)
  qed
  then have "map (\<lambda>i. wr32 a v m (b + of_nat i)) [0..<4] = map (\<lambda>i. m (b + of_nat i)) [0..<4]" by (intro map_cong refl) (fastforce simp: wr32_def)
  then show ?thesis by (simp only: rd32_def)
qed

end
