(* ===== verification/Ia32_Hook_Correct.thy ===== *)
theory Ia32_Hook_Correct
  imports Ia32_Hook Ia32_Relocation_Correct Ia32_Machine
begin

text \<open>
  What \<^verbatim>\<open>DobbyHook\<close> and \<^verbatim>\<open>DobbyDestroy\<close> do with the 32-bit x86 back end, on the machine of \<open>Ia32_Machine\<close>.
\<close>

section \<open>The trampoline\<close>

definition ia32_tramp :: "u32 \<Rightarrow> u32 \<Rightarrow> u8 list" where
  "ia32_tramp from to = 0xe9 # le_bytes 4 (to - (from + 5))"

lemma length_ia32_tramp [simp]: "length (ia32_tramp from to) = 5"
  by (simp add: ia32_tramp_def)

lemma ia32_normal_eq: "ia32_normal env src dst st = Some (Inr (ia32_tramp (ucast src) (ucast dst), st))"
  by (simp add: ia32_normal_def ia32_GenerateNormalTrampolineBuffer_def ia32_JmpNear_emits ia32_moved_code_def new_ia32_asm_def ia32_tramp_def)

lemma ia32_moved_code_tramp: "ia32_moved_code at body back = body @ ia32_tramp (ucast at + of_nat (length body)) (ucast back)"
  by (simp add: ia32_moved_code_def ia32_tramp_def)

text \<open>The 32-bit address space is the lower part of the memory of the process.\<close>

abbreviation low_mem :: "(u64 \<Rightarrow> u8) \<Rightarrow> u32 \<Rightarrow> u8" where
  "low_mem m \<equiv> \<lambda>a. m (ucast a)"

lemma low_code:
  assumes "unat a + length bs \<le> 2 ^ 32"
  shows "ia32_code_at (low_mem m) (ucast a) bs \<longleftrightarrow> load_mem m a (length bs) = bs"
proof (cases "bs = []")
  case False
  then have a: "unat a < 2 ^ 32" using assms by (simp add: add_leD1 le_less_trans) (metis add_less_cancel_left length_greater_0_conv less_le_trans add.right_neutral)
  have "ucast (ucast a + of_nat k :: u32) = a + of_nat k" if "k < length bs" for k
  proof -
    have "unat (ucast a :: u32) = unat a" using a by (simp add: unsigned_ucast_eq take_bit_nat_eq_self)
    moreover have "ucast (ucast a :: u32) = a" 
    proof -
      have "ucast (ucast a :: u32) = take_bit 32 a" by (rule bit_word_eqI) (auto simp: bit_unsigned_iff bit_take_bit_iff)
      then show ?thesis using take_bit_word_less [OF a] by simp
    qed
    ultimately show ?thesis using ucast_add_small [of "ucast a" k] assms that by simp
  qed
  then have "map (\<lambda>k. m (ucast (ucast a + of_nat k :: u32))) [0..<length bs] = map (\<lambda>k. m (a + of_nat k)) [0..<length bs]" by simp
  then show ?thesis by (simp only: ia32_code_map load_mem_def)
qed (simp add: ia32_code_at_def load_mem_def)

lemma run_ia32_tramp:
  assumes "ia32_code_at (ix_mem s) (ix_eip s) (ia32_tramp (ix_eip s) to)"
  shows "ia32_reaches alu s (s\<lparr>ix_eip := to\<rparr>)"
proof -
  have "ia32_means (ia32_tramp (ix_eip s) to) (I_jmp (to - (ix_eip s + 5)))"
    unfolding ia32_tramp_def by (rule means_with_dword) (simp add: ia32_decode_def)
  then have "ia32_decode (\<lambda>k. ix_mem s (ix_eip s + of_nat k)) = Some (I_jmp (to - (ix_eip s + 5)), 5)"
    using assms by (simp add: ia32_means_def ia32_code_at_def)
  then show ?thesis using ia32_reaches.step [of s _ _ alu] here [of alu] by (fastforce simp: ia32_do_def)
qed

section \<open>The interpretation\<close>

lemma ia32_relocate_effect:
  assumes "ia32_relocate env buf origin relocated st = Some (Inr (origin', relocated', st1))"
    and "unat (raw_instruction_size origin) \<le> 64" and "raw_instruction_start relocated = 0"
  shows "ia32_relocation_result (env_records env) buf (unat (raw_instruction_size origin)) (raw_instruction_start origin) origin' relocated' st st1"
  using assms ia32_result by (simp add: ia32_relocate_def)

interpretation ia32: hook_backend ia32_backend "\<lambda>a. a"
proof
  fix env src dst st tb st1
  assume "be_normal ia32_backend env src dst st = Some (Inr (tb, st1))"
  then show "pr_interceptor st1 = pr_interceptor st \<and> length tb \<le> 64" by (auto simp: ia32_backend_def ia32_normal_eq)
next
  fix env src dst st b st1
  assume "be_near ia32_backend env src dst st = Some (Inr (b, st1))"
  then show "pr_interceptor st1 = pr_interceptor st \<and> (\<forall>tb. b = Some tb \<longrightarrow> length tb \<le> 64)"
    by (auto simp: ia32_backend_def ia32_near_def ia32_GenerateNearTrampolineBuffer_def)
next
  fix env buf origin relocated st origin' relocated' st1
  assume "be_relocate ia32_backend env buf origin relocated st = Some (Inr (origin', relocated', st1))"
    and "unat (raw_instruction_size origin) \<le> 64" "raw_instruction_start relocated = 0"
  then show "pr_interceptor st1 = pr_interceptor st \<and> raw_instruction_start origin' = raw_instruction_start origin"
    using ia32_relocate_effect by (simp add: ia32_backend_def ia32_relocation_result_def)
qed

section \<open>Hooking\<close>

lemma ia32_hook_effect:
  assumes h: "DobbyHook ia32_backend env address repl st = Some (Inr (RT_SUCCESS, Some oc, st'))"
    and t: "table_repr (SharedInstance (env_new_interceptor env) (pr_interceptor st)) es"
    and u: "node_unused (SharedInstance (env_new_interceptor env) (pr_interceptor st)) (env_new_node env)"
  obtains m2 en where "oc = relocated_origin_instructions en" "target_address en = address" "table_repr (pr_interceptor st') (en # es)"
    "pr_mem st' = write_mem address (ia32_tramp (ucast address) (ucast repl)) m2"
    "if oc = 0 then prologue_lost en
     else (\<exists>e body. ia32_moved (env_records env) (load_mem (pr_mem st) address (5 + relocate_window)) 5 address oc e body (pr_mem st) m2
        \<and> prologue_saved address e m2 en)"
proof -
  obtain tb st1 origin' relocated' st2 en where H:
    "trampoline_made ia32_backend env address repl (shared env st) tb st1"
    "be_relocate ia32_backend env (load_mem (pr_mem st1) address (length tb + relocate_window))
       (init_region_range address (of_nat (length tb))) (init_region_range 0 0) st1 = Some (Inr (origin', relocated', st2))"
    "relocated_origin_instructions en = raw_instruction_start relocated'"
    "if raw_instruction_start relocated' = 0 then prologue_lost en
     else prologue_saved address (unat (raw_instruction_size origin')) (pr_mem st2) en"
    "Some oc = Some (relocated_origin_instructions en)" "target_address en = address" "table_repr (pr_interceptor st') (en # es)"
    "pr_mem st' = write_mem address tb (pr_mem st2)"
    by (rule ia32.hook_effect [OF h t u])
  have tr: "tb = ia32_tramp (ucast address) (ucast repl)" "st1 = shared env st" using H(1)
    by (auto simp: trampoline_made_def ia32_backend_def ia32_normal_eq ia32_near_def ia32_GenerateNearTrampolineBuffer_def split: if_splits)
  have m: "pr_mem st1 = pr_mem st" by (simp add: tr(2) shared_def)
  have sz: "unat (raw_instruction_size (init_region_range address (of_nat 5))) = 5" using size_init_region [of 5 address] by simp
  have R: "ia32_relocation_result (env_records env) (load_mem (pr_mem st) address (5 + relocate_window)) 5 address origin' relocated' st1 st2"
    using ia32_relocate_effect [of env _ "init_region_range address (of_nat 5)" "init_region_range 0 0" st1 origin' relocated' st2] H(2) m sz
    by (simp add: tr(1) ia32_backend_def start_init_region)
  have "\<exists>e body. ia32_moved (env_records env) (load_mem (pr_mem st) address (5 + relocate_window)) 5 address oc e body (pr_mem st) (pr_mem st2)
      \<and> prologue_saved address e (pr_mem st2) en" if nz: "oc \<noteq> 0"
  proof -
    obtain e body where M: "origin' = init_region_range address (of_nat e)"
        "ia32_moved (env_records env) (load_mem (pr_mem st) address (5 + relocate_window)) 5 address oc e body (pr_mem st) (pr_mem st2)"
      using R nz H(3,5) m by (auto simp: ia32_relocation_result_def)
    then have "unat (raw_instruction_size origin') = e" using size_init_region [of e address] by (simp add: ia32_moved_def)
    then show ?thesis using M(2) H(3,4,5) nz by auto
  qed
  then show thesis using that [of en "pr_mem st2"] H tr(1) by (auto split: if_splits)
qed

text \<open>The code at \<open>oc\<close> and at the hooked address, when they do not overlap.\<close>

lemma ia32_hook_memory:
  assumes h: "DobbyHook ia32_backend env address repl st = Some (Inr (RT_SUCCESS, Some oc, st'))" and nz: "oc \<noteq> 0"
    and t: "table_repr (SharedInstance (env_new_interceptor env) (pr_interceptor st)) es"
    and u: "node_unused (SharedInstance (env_new_interceptor env) (pr_interceptor st)) (env_new_node env)"
  obtains e body en where "5 \<le> e" "e < 25" "length body \<le> 1295"
    "FindHookEntry address (pr_interceptor st') = Some (Inr (Some en))" "relocated_origin_instructions en = oc"
    "load_mem (pr_mem st') address 5 = ia32_tramp (ucast address) (ucast repl)"
    "ia32_loop (env_records env) (load_mem (pr_mem st) address (5 + relocate_window)) 5 0 address (ia32_at oc)
       = Inr (address + of_nat e, (ia32_at oc)\<lparr>asm_buffer := body\<rparr>)"
    "far oc (length body + 5) address 5 \<Longrightarrow> load_mem (pr_mem st') oc (length body + 5) = ia32_moved_code oc body (address + of_nat e)"
proof -
  let ?tb = "ia32_tramp (ucast address) (ucast repl)"
  obtain m2 en where H: "oc = relocated_origin_instructions en" "target_address en = address" "table_repr (pr_interceptor st') (en # es)"
    "pr_mem st' = write_mem address ?tb m2"
    "if oc = 0 then prologue_lost en
     else (\<exists>e body. ia32_moved (env_records env) (load_mem (pr_mem st) address (5 + relocate_window)) 5 address oc e body (pr_mem st) m2
        \<and> prologue_saved address e m2 en)"
    by (rule ia32_hook_effect [OF h t u])
  obtain e body where M: "ia32_moved (env_records env) (load_mem (pr_mem st) address (5 + relocate_window)) 5 address oc e body (pr_mem st) m2"
    using H(5) nz by auto
  then have b: "5 \<le> e" "e < 25" "length body \<le> 1295" "m2 = write_mem oc (ia32_moved_code oc body (address + of_nat e)) (pr_mem st)"
      "ia32_loop (env_records env) (load_mem (pr_mem st) address (5 + relocate_window)) 5 0 address (ia32_at oc)
         = Inr (address + of_nat e, (ia32_at oc)\<lparr>asm_buffer := body\<rparr>)" by (auto simp: ia32_moved_def)
  have "FindHookEntry address (pr_interceptor st') = Some (Inr (Some en))" using itc.find_law [OF H(3), of address] H(2) by simp
  moreover have "load_mem (pr_mem st') address 5 = ?tb" using load_written [of ?tb 0 5 address m2] by (simp add: H(4))
  moreover have "load_mem (pr_mem st') oc (length body + 5) = ia32_moved_code oc body (address + of_nat e)" if "far oc (length body + 5) address 5"
    using that load_far [of oc "length body + 5" address ?tb m2] b(3)
      load_written [of "ia32_moved_code oc body (address + of_nat e)" 0 "length body + 5" oc "pr_mem st"] by (simp add: H(4) b(4))
  ultimately show thesis using that [OF b(1-3) _ H(1) [symmetric] _ b(5)] by blast
qed

section \<open>A process to hook in\<close>

definition ia32_demo_env :: ia32_env where
  "ia32_demo_env = \<lparr>env_os = (\<lambda>_ h. h), env_page_size = 2 ^ 12, env_layout = [], env_arm = False, env_bytes_at = (\<lambda>_ _. []), env_junk = [],
     env_fresh = (\<lambda>_. 0x60000000), env_bridge_page = 0x60010000, env_closure_page = 0x60020000,
     env_bridge_handler = 0x70000000, env_new_interceptor = 0x10000, env_new_entry = 0x10100, env_new_route = 0x10200,
     env_new_node = 0x10300, env_new_closure = 0x10400, env_fuel = 1, env_records = (\<lambda>_. [])\<rparr>"

lemma ia32_demo_hook:
  "\<exists>st'. DobbyHook ia32_backend ia32_demo_env 0x50000800 0x40000000 (new_process (\<lambda>_. 0x90)) = Some (Inr (RT_SUCCESS, Some 0x60000000, st'))"
proof -
  have "case DobbyHook ia32_backend ia32_demo_env 0x50000800 0x40000000 (new_process (\<lambda>_. 0x90)) of
      Some (Inr (s, oc, st)) \<Rightarrow> s = RT_SUCCESS \<and> oc = Some 0x60000000 | _ \<Rightarrow> False"
    by code_simp
  then show ?thesis by (auto split: option.splits sum.splits)
qed

lemma ia32_demo_table:
  "table_repr (SharedInstance (env_new_interceptor ia32_demo_env) (pr_interceptor (new_process m))) []"
  "node_unused (SharedInstance (env_new_interceptor ia32_demo_env) (pr_interceptor (new_process m))) (env_new_node ia32_demo_env)"
  "env_page_size ia32_demo_env = 2 ^ 12"
  by (rule table_repr_new) (simp_all add: ia32_demo_env_def new_process_def node_unused_def SharedInstance_def INIT_LIST_HEAD_def)

section \<open>What a hook does\<close>

text \<open>
  C4: when \<^verbatim>\<open>DobbyHook\<close> succeeds on 32-bit x86 and the prologue could be relocated, the table finds the new entry;
  control that reaches the hooked address goes to the replacement with registers, flags and memory unchanged; and,
  unless the relocated code was placed over the prologue, \<^verbatim>\<open>*origin_call\<close> points to the instructions of the prologue,
  relocated to that place, followed by a jump that leads to the first instruction after the prologue.
\<close>

theorem ia32_DobbyHook_redirects:
  assumes "DobbyHook ia32_backend env address repl st = Some (Inr (RT_SUCCESS, Some oc, st'))" and "oc \<noteq> 0"
    and "table_repr (SharedInstance (env_new_interceptor env) (pr_interceptor st)) es"
    and "node_unused (SharedInstance (env_new_interceptor env) (pr_interceptor st)) (env_new_node env)"
    and "unat address + 5 \<le> 2 ^ 32" and "unat oc + 1300 \<le> 2 ^ 32"
  shows "\<exists>e body en. 5 \<le> e \<and> e < 25 \<and> FindHookEntry address (pr_interceptor st') = Some (Inr (Some en)) \<and> relocated_origin_instructions en = oc
     \<and> (\<forall>alu s. ix_mem s = low_mem (pr_mem st') \<and> ix_eip s = ucast address \<longrightarrow> ia32_reaches alu s (s\<lparr>ix_eip := ucast repl\<rparr>))
     \<and> ia32_loop (env_records env) (load_mem (pr_mem st) address (5 + relocate_window)) 5 0 address (SetRealizedAddress oc (new_ia32_asm 0))
         = Inr (address + of_nat e, (SetRealizedAddress oc (new_ia32_asm 0))\<lparr>asm_buffer := body\<rparr>)
     \<and> (far oc (length body + 5) address 5 \<longrightarrow> load_mem (pr_mem st') oc (length body) = body
         \<and> (\<forall>alu s. ix_mem s = low_mem (pr_mem st') \<and> ix_eip s = ucast oc + of_nat (length body)
              \<longrightarrow> ia32_reaches alu s (s\<lparr>ix_eip := ucast (address + of_nat e)\<rparr>)))"
proof -
  obtain e body en where H: "5 \<le> e" "e < 25" "length body \<le> 1295"
    "FindHookEntry address (pr_interceptor st') = Some (Inr (Some en))" "relocated_origin_instructions en = oc"
    "load_mem (pr_mem st') address 5 = ia32_tramp (ucast address) (ucast repl)"
    "ia32_loop (env_records env) (load_mem (pr_mem st) address (5 + relocate_window)) 5 0 address (ia32_at oc)
       = Inr (address + of_nat e, (ia32_at oc)\<lparr>asm_buffer := body\<rparr>)"
    "far oc (length body + 5) address 5 \<Longrightarrow> load_mem (pr_mem st') oc (length body + 5) = ia32_moved_code oc body (address + of_nat e)"
    by (rule ia32_hook_memory [OF assms(1-4)]) blast
  have "ia32_reaches alu s (s\<lparr>ix_eip := ucast repl\<rparr>)" if "ix_mem s = low_mem (pr_mem st')" "ix_eip s = ucast address" for alu s
    using low_code [of address "ia32_tramp (ucast address) (ucast repl)" "pr_mem st'"] assms(5) H(6) that by (intro run_ia32_tramp) simp
  moreover have "load_mem (pr_mem st') oc (length body) = body
      \<and> (\<forall>alu s. ix_mem s = low_mem (pr_mem st') \<and> ix_eip s = ucast oc + of_nat (length body)
           \<longrightarrow> ia32_reaches alu s (s\<lparr>ix_eip := ucast (address + of_nat e)\<rparr>))" if "far oc (length body + 5) address 5"
  proof -
    have c: "ia32_code_at (low_mem (pr_mem st')) (ucast oc) (ia32_moved_code oc body (address + of_nat e))"
      using low_code [of oc "ia32_moved_code oc body (address + of_nat e)" "pr_mem st'"] assms(6) H(3) H(8) [OF that] by simp
    then show ?thesis using low_code [of oc body "pr_mem st'"] assms(6) H(3)
      by (auto simp: ia32_moved_code_tramp ia32_code_append intro!: run_ia32_tramp)
  qed
  ultimately show ?thesis using H(1,2,4,5,7) by blast
qed

theorem ia32_DobbyHook_redirects_witness:
  "\<exists>st' en s t. DobbyHook ia32_backend ia32_demo_env 0x50000800 0x40000000 (new_process (\<lambda>_. 0x90)) = Some (Inr (RT_SUCCESS, Some 0x60000000, st'))
     \<and> FindHookEntry 0x50000800 (pr_interceptor st') = Some (Inr (Some en)) \<and> relocated_origin_instructions en = 0x60000000
     \<and> ix_mem s = low_mem (pr_mem st') \<and> ix_eip s = 0x50000800 \<and> ia32_reaches (\<lambda>_ _ f. f) s t \<and> ix_eip t = 0x40000000"
proof -
  obtain st' where h: "DobbyHook ia32_backend ia32_demo_env 0x50000800 0x40000000 (new_process (\<lambda>_. 0x90)) = Some (Inr (RT_SUCCESS, Some 0x60000000, st'))"
    using ia32_demo_hook by blast
  define s where "s = \<lparr>ix_reg = (\<lambda>_. 0), ix_eip = 0x50000800, ix_flags = 0, ix_mem = low_mem (pr_mem st')\<rparr>"
  have "ix_mem s = low_mem (pr_mem st') \<and> ix_eip s = ucast (0x50000800 :: u64)" by (simp add: s_def)
  then obtain en where "FindHookEntry 0x50000800 (pr_interceptor st') = Some (Inr (Some en))" "relocated_origin_instructions en = 0x60000000"
      "ia32_reaches (\<lambda>_ _ f. f) s (s\<lparr>ix_eip := ucast (0x40000000 :: u64)\<rparr>)"
    using ia32_DobbyHook_redirects [OF h _ ia32_demo_table(1,2)] by fastforce
  then show ?thesis using h by (intro exI [of _ st'] exI [of _ en] exI [of _ s] exI conjI) (assumption | simp add: s_def)+
qed

end
