(* ===== verification/Ia32_Closure_Correct.thy ===== *)
theory Ia32_Closure_Correct
  imports Ia32_Closure Ia32_Machine
begin

text \<open>
  What the closure trampoline and the closure bridge of the 32-bit x86 target do on the machine of \<open>Ia32_Machine\<close>.
\<close>

section \<open>The code\<close>

abbreviation based :: "u8 \<Rightarrow> u32 \<Rightarrow> effective_address" where
  "based r d \<equiv> \<lparr>ea_base = Some r, ea_index = None, ea_disp = d\<rparr>"

text \<open>The bridge as bytes and instructions: up to the call of the handler, and from there on.\<close>

definition bridge_enter :: "(u8 list \<times> ia32_insn) list" where
  "bridge_enter =
     [([0x81, 0xec, 0x20, 0x00, 0x00, 0x00], I_sub 4 32), ([0x89, 0x04, 0x24], I_mov_mr (based 4 0) 0),
      ([0x89, 0x5c, 0x24, 0x04], I_mov_mr (based 4 4) 3), ([0x89, 0x4c, 0x24, 0x08], I_mov_mr (based 4 8) 1),
      ([0x89, 0x54, 0x24, 0x0c], I_mov_mr (based 4 12) 2), ([0x89, 0x6c, 0x24, 0x10], I_mov_mr (based 4 16) 5),
      ([0x89, 0x64, 0x24, 0x14], I_mov_mr (based 4 20) 4), ([0x89, 0x7c, 0x24, 0x18], I_mov_mr (based 4 24) 7),
      ([0x89, 0x74, 0x24, 0x1c], I_mov_mr (based 4 28) 6), ([0x9c], I_pushf), ([0x58], I_pop 0),
      ([0x81, 0xec, 0x08, 0x00, 0x00, 0x00], I_sub 4 8), ([0x89, 0x44, 0x24, 0x04], I_mov_mr (based 4 4) 0), ([0x8b, 0xc4], I_mov_rr 0 4),
      ([0x81, 0xc0, 0x2c, 0x00, 0x00, 0x00], I_add 0 44), ([0x81, 0xec, 0x08, 0x00, 0x00, 0x00], I_sub 4 8),
      ([0x89, 0x44, 0x24, 0x04], I_mov_mr (based 4 4) 0), ([0x81, 0xec, 0x08, 0x00, 0x00, 0x00], I_sub 4 8),
      ([0x8b, 0x44, 0x24, 0x38], I_mov_rm 0 (based 4 56)), ([0x89, 0x44, 0x24, 0x04], I_mov_mr (based 4 4) 0), ([0x8b, 0xc4], I_mov_rr 0 4),
      ([0x81, 0xc0, 0x08, 0x00, 0x00, 0x00], I_add 0 8), ([0x89, 0x04, 0x24], I_mov_mr (based 4 0) 0), ([0x90], I_nop),
      ([0xe8, 0x00, 0x00, 0x00, 0x00], I_call 0), ([0x58], I_pop 0), ([0xff, 0x90, 0x29, 0x00, 0x00, 0x00], I_call_m (based 0 41))]"

definition bridge_leave :: "(u8 list \<times> ia32_insn) list" where
  "bridge_leave =
     [([0x90], I_nop), ([0x81, 0xc4, 0x08, 0x00, 0x00, 0x00], I_add 4 8), ([0x81, 0xc4, 0x08, 0x00, 0x00, 0x00], I_add 4 8),
      ([0x81, 0xc4, 0x04, 0x00, 0x00, 0x00], I_add 4 4), ([0x9d], I_popf), ([0x58], I_pop 0), ([0x5b], I_pop 3), ([0x59], I_pop 1),
      ([0x5a], I_pop 2), ([0x5d], I_pop 5), ([0x81, 0xc4, 0x04, 0x00, 0x00, 0x00], I_add 4 4), ([0x5f], I_pop 7), ([0x5e], I_pop 6),
      ([0xc3], I_ret)]"

fun bytes_at :: "(nat \<Rightarrow> u8) \<Rightarrow> nat \<Rightarrow> u8 list \<Rightarrow> bool" where
  "bytes_at f n [] \<longleftrightarrow> True"
| "bytes_at f n (b # bs) \<longleftrightarrow> f n = b \<and> bytes_at f (n + 1) bs"

lemma bytes_at_iff: "bytes_at f n bs \<longleftrightarrow> (\<forall>k < length bs. f (n + k) = bs ! k)"
  by (induction bs arbitrary: n) (auto simp: All_less_Suc2)

lemma meansI: "(\<And>f. bytes_at f 0 bs \<Longrightarrow> ia32_decode f = Some (i, length bs)) \<Longrightarrow> ia32_means bs i"
  by (simp add: ia32_means_def bytes_at_iff)

lemma dword_at_list:
  "dword_at f (Suc 0) = le_word [f 1, f 2, f 3, f 4]" "dword_at f 2 = le_word [f 2, f 3, f 4, f 5]" "dword_at f 3 = le_word [f 3, f 4, f 5, f 6]"
  by (simp_all add: dword_at_def upt_rec numeral_eq_Suc)

lemma bytes_at_numeral:
  "bytes_at f 0 [a] \<longleftrightarrow> f 0 = a"
  "bytes_at f 0 [a, b] \<longleftrightarrow> f 0 = a \<and> f 1 = b"
  "bytes_at f 0 [a, b, c] \<longleftrightarrow> f 0 = a \<and> f 1 = b \<and> f 2 = c"
  "bytes_at f 0 [a, b, c, d] \<longleftrightarrow> f 0 = a \<and> f 1 = b \<and> f 2 = c \<and> f 3 = d"
  "bytes_at f 0 [a, b, c, d, e] \<longleftrightarrow> f 0 = a \<and> f 1 = b \<and> f 2 = c \<and> f 3 = d \<and> f 4 = e"
  "bytes_at f 0 [a, b, c, d, e, g] \<longleftrightarrow> f 0 = a \<and> f 1 = b \<and> f 2 = c \<and> f 3 = d \<and> f 4 = e \<and> f 5 = g"
  by (simp_all add: numeral_eq_Suc)

declare bytes_at.simps [simp del]

lemmas means_simps = bytes_at_numeral ia32_decode_def mem_at_def disp_at_def dword_at_list le_simps

lemma list_allI: "P x \<Longrightarrow> list_all P xs \<Longrightarrow> list_all P (x # xs)" by simp

lemma bridge_means: "list_all (\<lambda>(bs, i). ia32_means bs i) bridge_enter" "list_all (\<lambda>(bs, i). ia32_means bs i) bridge_leave"
  unfolding bridge_enter_def bridge_leave_def
  by (rule list.pred_inject(1) | (rule list_allI, simp only: prod.case, rule meansI, simp add: means_simps))+

lemma rbind_Inr: "rbind m Inr = m" by (cases m) simp_all

lemma do_all_emits: "do_all (map emit_bytes bss) a = Inr (a\<lparr>asm_buffer := asm_buffer a @ concat bss\<rparr>)"
  by (induction bss arbitrary: a) (simp_all add: emit_bytes_def)

lemma bridge_ops:
  "ia32_bridge_save @ ia32_bridge_call handler = map emit_bytes (map fst (take 23 bridge_enter)) @ [ia32_CallFunction handler]"
  "ia32_bridge_restore = map emit_bytes (map fst (drop 1 bridge_leave))"
  unfolding ia32_bridge_save_def ia32_bridge_call_def ia32_bridge_restore_def bridge_enter_def bridge_leave_def
  by (simp_all add: fun_eq_iff ia32_op_defs ia32_regs ia32_base_disp_def ia32_SetModRM_def ia32_SetSIB_def ia32_SetDisp8_def ia32_SetDisp32_def
      ia32_disp8_def ModRM_Mod_def ModRM_RM_def le_bytes_numeral)

lemma ia32_CallFunction_emits:
  "ia32_CallFunction handler a = Inr (a\<lparr>asm_buffer := asm_buffer a @ [0x90, 0xe8, 0, 0, 0, 0, 0x58, 0xff, 0x90] @ [0xff, 0xff, 0xff, 0x7f] @ [0x90],
     ia32_data_labels := ia32_data_labels a @ [\<lparr>pos_raw = 0, near_link = 0,
       ia32_instructions = [(int (length (asm_buffer a)) + 13, kDisp32_off_7)], ia32_label_data = handler\<rparr>]\<rparr>)"
  by (simp add: ia32_CallFunction_def ia32_MovRipToRegister_def ia32_VOLATILE_REGISTER_def ia32_op_defs ia32_regs ia32_base_disp_def
      ia32_SetModRM_def ia32_SetDisp32_def ia32_disp8_def ModRM_Mod_def ModRM_RM_def le_bytes_numeral ia32_AppendRelocLabelEntry_def ia32_link_to_def
      new_ia32_label_def ip_offset_def)

lemma bridge_code:
  "\<exists>a. ia32_closure_bridge_code handler (new_ia32_asm 0) = Inr a
     \<and> asm_buffer a = concat (map fst (bridge_enter @ bridge_leave)) @ le_bytes 4 handler"
proof -
  let ?a = "new_ia32_asm 0" let ?pre = "concat (map fst (take 23 bridge_enter))" and ?post = "concat (map fst (drop 1 bridge_leave))"
  let ?c = "[0x90, 0xe8, 0, 0, 0, 0, 0x58, 0xff, 0x90] :: u8 list"
  let ?l = "\<lparr>pos_raw = 0, near_link = 0, ia32_instructions = [(105, kDisp32_off_7)], ia32_label_data = handler\<rparr>"
  let ?b = "?a\<lparr>asm_buffer := (?pre @ ?c) @ [0xff, 0xff, 0xff, 0x7f] @ 0x90 # ?post, ia32_data_labels := [?l]\<rparr>"
  have len: "length ?pre = 92" "length ?post = 33" by (simp_all add: bridge_enter_def bridge_leave_def)
  have "ia32_closure_bridge_code handler ?a = do_all ((ia32_bridge_save @ ia32_bridge_call handler) @ ia32_bridge_restore @ [ia32_RelocBind]) ?a"
    by (simp add: ia32_closure_bridge_code_def)
  also have "\<dots> = ia32_RelocBind ?b"
    unfolding bridge_ops do_all_append do_all_emits rbind_simps do_all.simps ia32_CallFunction_emits using len(1) by (simp add: new_ia32_asm_def do_all_emits rbind_Inr)
  also have "\<dots> = Inr (?b\<lparr>asm_buffer := (?pre @ ?c) @ le_bytes 4 (41 :: u32) @ 0x90 # ?post @ le_bytes 4 handler,
      ia32_data_labels := [bind_to 139 ?l]\<rparr>)"
  proof -
    have "store_bytes 101 (le_bytes 4 (41 :: u32)) ((?pre @ ?c) @ [0xff, 0xff, 0xff, 0x7f] @ 0x90 # ?post) = Inr ((?pre @ ?c) @ le_bytes 4 (41 :: u32) @ 0x90 # ?post)"
      using len by (simp add: store_bytes_def)
    then show ?thesis using len
      by (simp add: ia32_RelocBind_def ia32_PseudoBind_def ia32_link_instruction_def fix_bytes_def bind_to_def label_pos_def ia32_Emit_def emit_bytes_def del: append_assoc)
  qed
  finally show ?thesis by (simp add: bridge_enter_def bridge_leave_def le_bytes_numeral)
qed

section \<open>Running the bridge\<close>

text \<open>Addresses on the stack are taken from one base.\<close>

lemma slots:
  "(g :: u32) + numeral a - numeral b = g + (numeral a - numeral b)" "(g :: u32) + numeral a + numeral b = g + (numeral a + numeral b)"
  "unat (g + numeral a - (g + numeral b)) = unat (numeral a - numeral b :: u32)"
  by simp_all

lemma rd32_slot:
  assumes "4 \<le> unat (numeral b - numeral a :: u32)" and "4 \<le> unat (numeral a - numeral b :: u32)"
  shows "rd32 (wr32 (g + numeral a) v m) (g + numeral b) = rd32 m (g + numeral b)"
  using assms by (intro rd32_other) simp_all

definition program :: "(u8 list \<times> ia32_insn) list \<Rightarrow> (ia32_insn \<times> nat) list" where
  "program bis = zip (map snd bis) (map length (map fst bis))"

lemmas run_simps = program_def ia32_do_def ix_push_def ix_top_def ix_drop_def ix_set_def ea_addr_def stores_in_def slots rd32_slot

text \<open>The state at the call of the handler: the stack pointer is \<open>g + 68\<close>, the context is at \<open>g + 76\<close>.\<close>

definition context_holds :: "(u32 \<Rightarrow> u8) \<Rightarrow> u32 \<Rightarrow> u32 \<Rightarrow> u32 \<Rightarrow> (u8 \<Rightarrow> u32) \<Rightarrow> bool" where
  "context_holds m ctx sp fl r \<longleftrightarrow> rd32 m (ctx + 4) = sp \<and> rd32 m (ctx + 12) = fl \<and> rd32 m (ctx + 16) = r 0 \<and> rd32 m (ctx + 20) = r 3
     \<and> rd32 m (ctx + 24) = r 1 \<and> rd32 m (ctx + 28) = r 2 \<and> rd32 m (ctx + 32) = r 5 \<and> rd32 m (ctx + 40) = r 7 \<and> rd32 m (ctx + 44) = r 6"

lemma enter_run:
  fixes alu :: alu
  assumes sp: "ix_reg s 4 = g + 124"
  defines "u \<equiv> ia32_run alu (program (take 26 bridge_enter)) s"
  shows "ia32_straight alu (g + 64) 64 (program (take 26 bridge_enter)) s"
    "ix_reg u = (ix_reg s)(0 := ix_eip s + 98, 4 := g + 68)" "ix_eip u = ix_eip s + 99"
    "rd32 (ix_mem u) (g + 68) = g + 76" "rd32 (ix_mem u) (g + 72) = rd32 (ix_mem s) (g + 124)"
    "context_holds (ix_mem u) (g + 76) (g + 128) (alu (I_sub 4 32) (g + 124) (ix_flags s)) (ix_reg s)"
  unfolding u_def using sp
  by (simp_all add: bridge_enter_def run_simps context_holds_def fun_eq_iff)

lemma leave_run:
  fixes alu :: alu
  assumes sp: "ix_reg v 4 = g + 68"
  defines "w \<equiv> ia32_run alu (program bridge_leave) v"
  shows "ia32_straight alu lo 0 (program bridge_leave) v" "ix_eip w = rd32 (ix_mem v) (g + 124)" "ix_reg w 4 = g + 128" "ix_mem w = ix_mem v"
    "ix_flags w = alu (I_add 4 4) (g + 112) (rd32 (ix_mem v) (g + 88))"
    "context_holds (ix_mem v) (g + 76) (rd32 (ix_mem v) (g + 80)) (rd32 (ix_mem v) (g + 88)) (ix_reg w)"
  unfolding w_def using sp by (simp_all add: bridge_leave_def run_simps context_holds_def)

section \<open>The trampoline\<close>

definition tramp_listing :: "u32 \<Rightarrow> u32 \<Rightarrow> u32 \<Rightarrow> (u8 list \<times> ia32_insn) list" where
  "tramp_listing t entry b = [([0x81, 0xec, 4, 0, 0, 0], I_sub 4 4), ([0xc7, 0x04, 0x24] @ le_bytes 4 entry, I_mov_mi (based 4 0) entry),
     (0xe9 # le_bytes 4 (b - (t + 18)), I_jmp (b - (t + 18)))]"

lemma emits_exact: "ia32_emits e i \<Longrightarrow> e (new_ia32_asm 0) = Inr ((new_ia32_asm 0)\<lparr>asm_buffer := bs\<rparr>) \<Longrightarrow> ia32_means bs i"
  by (auto simp: ia32_emits_def new_ia32_asm_def)

lemma tramp_means: "list_all (\<lambda>(bs, i). ia32_means bs i) (tramp_listing t entry b)"
proof -
  have o: "opd_means (ia32_base_disp esp 0) (based 4 0)" using ia32_base_disp_means [of esp 0] by (simp add: esp_def)
  have "ia32_means ([0xc7, 0x04, 0x24] @ le_bytes 4 entry) (I_mov_mi (based 4 0) entry)"
    by (rule emits_exact [OF ia32_emits_mem(4) [OF o, of 0]]) (simp_all add: ia32_op_defs ia32_base_disp_def ia32_SetModRM_def ia32_SetSIB_def ia32_regs ModRM_Mod_def ModRM_RM_def
        new_ia32_asm_def le_bytes_numeral(1))
  moreover have "ia32_means (0xe9 # le_bytes 4 (b - (t + 18))) (I_jmp (b - (t + 18)))"
    by (rule emits_exact [OF ia32_emits_branch(1)]) (simp add: ia32_op_defs new_ia32_asm_def le_bytes_numeral(1))
  moreover have "ia32_means [0x81, 0xec, 4, 0, 0, 0] (I_sub 4 4)" by (rule meansI) (simp add: means_simps)
  ultimately show ?thesis by (simp add: tramp_listing_def)
qed

lemma tramp_code: "ia32_closure_trampoline_code t entry b a = Inr (a\<lparr>asm_buffer := asm_buffer a @ concat (map fst (tramp_listing t entry b))\<rparr>)"
  by (simp add: ia32_closure_trampoline_code_def tramp_listing_def ia32_op_defs ia32_base_disp_def ia32_SetModRM_def ia32_SetSIB_def ia32_regs ModRM_Mod_def
      ModRM_RM_def le_bytes_numeral Let_def)

lemma tramp_run:
  fixes alu :: alu and entry b :: u32
  assumes sp: "ix_reg s 4 = g + 128" and ip: "ix_eip s = t"
  defines "u \<equiv> ia32_run alu (program (tramp_listing t entry b)) s"
  shows "ia32_straight alu (g + 64) 64 (program (tramp_listing t entry b)) s" "ix_eip u = b" "ix_reg u = (ix_reg s)(4 := g + 124)"
    "rd32 (ix_mem u) (g + 124) = entry" "ix_flags u = alu (I_sub 4 4) (g + 128) (ix_flags s)"
  unfolding u_def using sp ip by (simp_all add: tramp_listing_def run_simps)

lemma listing_reaches:
  assumes "list_all (\<lambda>(bs, i). ia32_means bs i) bis" and "ia32_code_at (ix_mem s) (ix_eip s) (concat (map fst bis))"
    and "ia32_straight alu lo w (program bis) s" and "\<forall>k < length (concat (map fst bis)). w \<le> unat (ix_eip s + of_nat k - lo)"
  shows "ia32_reaches alu s (ia32_run alu (program bis) s)"
proof -
  have "list_all2 ia32_means (map fst bis) (map snd bis)" using assms(1) by (induction bis) auto
  then show ?thesis using ia32_run_reaches [of "map fst bis" "map snd bis" s alu lo w] assms(2-4) by (simp add: program_def)
qed

text \<open>Code outside the window is not changed by a run that stores in the window only.\<close>

lemma code_kept:
  assumes "ia32_code_at (ix_mem s) c bs" and "ia32_straight alu lo w p s" and "\<forall>k < length bs. w \<le> unat (c + of_nat k - lo)"
  shows "ia32_code_at (ix_mem (ia32_run alu p s)) c bs"
  using assms ia32_run_frame [OF assms(2)] by (simp add: ia32_code_at_def)

lemma code_dword: "ia32_code_at m c (le_bytes 4 v) \<Longrightarrow> rd32 m c = v"
  by (simp add: ia32_code_map rd32_def)

text \<open>From the entry of the bridge to the handler.\<close>

lemma bridge_to_handler:
  fixes alu :: alu
  assumes sp: "ix_reg s 4 = g + 124" and code: "ia32_code_at (ix_mem s) (ix_eip s) (concat (map fst (bridge_enter @ bridge_leave)) @ le_bytes 4 handler)"
    and ap: "\<forall>k < 143. 64 \<le> unat (ix_eip s + of_nat k - (g + 64))"
  obtains u where "ia32_reaches alu s u" "ix_eip u = handler" "ix_reg u 4 = g + 64" "rd32 (ix_mem u) (g + 64) = ix_eip s + 105"
    "rd32 (ix_mem u) (g + 68) = g + 76" "rd32 (ix_mem u) (g + 72) = rd32 (ix_mem s) (g + 124)"
    "context_holds (ix_mem u) (g + 76) (g + 128) (alu (I_sub 4 32) (g + 124) (ix_flags s)) (ix_reg s)"
    "\<And>x. 64 \<le> unat (x - (g + 64)) \<Longrightarrow> ix_mem u x = ix_mem s x"
proof -
  let ?p = "take 26 bridge_enter" let ?t = "ia32_run alu (program ?p) s" let ?i = "I_call_m (based 0 41)"
  let ?u = "ia32_do alu ?i 6 ?t"
  have len: "length (concat (map fst ?p)) = 99" "length (concat (map fst bridge_leave)) = 34" by (simp_all add: bridge_enter_def bridge_leave_def)
  have whole: "concat (map fst (bridge_enter @ bridge_leave)) = concat (map fst ?p) @ [0xff, 0x90, 0x29, 0, 0, 0] @ concat (map fst bridge_leave)"
    by (simp add: bridge_enter_def)
  have split: "bridge_enter = ?p @ [([0xff, 0x90, 0x29, 0, 0, 0], ?i)]" by (simp add: bridge_enter_def)
  note E = enter_run [OF sp, of alu]
  have c: "ia32_code_at (ix_mem s) (ix_eip s) (concat (map fst ?p))" "ia32_code_at (ix_mem s) (ix_eip s + 99) [0xff, 0x90, 0x29, 0, 0, 0]"
      "ia32_code_at (ix_mem s) (ix_eip s + 139) (le_bytes 4 handler)"
    using code len unfolding whole by (simp_all only: ia32_code_append length_append of_nat_add of_nat_numeral add.assoc) simp_all
  have r: "ia32_reaches alu s ?t"
  proof (rule listing_reaches [OF _ c(1) E(1)])
    show "list_all (\<lambda>(bs, i). ia32_means bs i) ?p" using bridge_means(1) by (subst (asm) split) simp
  qed (use ap len(1) in simp)
  have ap2: "64 \<le> unat (ix_eip s + of_nat m + of_nat j - (g + 64))" if "m + j < 143" for m j
    using ap [rule_format, OF that] by (simp add: add.assoc)
  have k: "ia32_code_at (ix_mem ?t) (ix_eip s + 99) [0xff, 0x90, 0x29, 0, 0, 0]" "ia32_code_at (ix_mem ?t) (ix_eip s + 139) (le_bytes 4 handler)"
    by (rule code_kept [OF c(2) E(1)]; use ap2 [of 99] in simp) (rule code_kept [OF c(3) E(1)]; use ap2 [of 139] in simp)
  have m: "ia32_means [0xff, 0x90, 0x29, 0, 0, 0] ?i" by (rule meansI) (simp add: means_simps)
  then have "ia32_decode (\<lambda>i. ix_mem ?t (ix_eip ?t + of_nat i)) = Some (?i, 6)" using k(1) E(3) by (simp add: ia32_means_def ia32_code_at_def)
  then have "ia32_reaches alu ?t ?u" by (rule ia32_reaches.step) (rule here)
  then have R: "ia32_reaches alu s ?u" using r ia32_reaches_trans by blast
  have S: "stores_in (g + 64) 64 ?i ?t" using E(2) by (simp add: run_simps)
  show thesis
  proof (rule that [OF R])
    show "ix_eip ?u = handler" using code_dword [OF k(2)] E(2) by (simp add: run_simps)
    show "\<And>x. 64 \<le> unat (x - (g + 64)) \<Longrightarrow> ix_mem ?u x = ix_mem s x" using ia32_do_frame [OF S] ia32_run_frame [OF E(1)] by simp
  qed (use E(2-6) in \<open>simp_all add: run_simps context_holds_def\<close>)
qed

text \<open>From the return of the handler to the next hop.\<close>

lemma bridge_to_next_hop:
  fixes alu :: alu
  assumes sp: "ix_reg v 4 = g + 68" and ip: "ix_eip v = b + 105"
    and code: "ia32_code_at (ix_mem v) b (concat (map fst (bridge_enter @ bridge_leave)) @ le_bytes 4 handler)"
  obtains w where "ia32_reaches alu v w" "ix_eip w = rd32 (ix_mem v) (g + 124)" "ix_reg w 4 = g + 128" "ix_mem w = ix_mem v"
    "ix_flags w = alu (I_add 4 4) (g + 112) (rd32 (ix_mem v) (g + 88))"
    "context_holds (ix_mem v) (g + 76) (rd32 (ix_mem v) (g + 80)) (rd32 (ix_mem v) (g + 88)) (ix_reg w)"
proof -
  have "length (concat (map fst bridge_enter)) = 105" by (simp add: bridge_enter_def)
  then have "ia32_code_at (ix_mem v) (ix_eip v) (concat (map fst bridge_leave))" using code by (simp add: ia32_code_append ip)
  then have "ia32_reaches alu v (ia32_run alu (program bridge_leave) v)"
    by (rule listing_reaches [OF bridge_means(2) _ leave_run(1) [OF sp, of _ 0]]) simp
  then show thesis using that leave_run(2-6) [OF sp, of alu] by blast
qed

text \<open>
  C13: the closure trampoline and the bridge of the 32-bit x86 target. Control that enters the trampoline reaches the
  handler with the two arguments on the stack, a register context and the closure entry; the context holds the
  registers and the stack pointer of the moment of entry, and nothing but 64 bytes below that stack pointer has been
  written. When the handler returns, with whatever it has changed outside the bridge, the registers are loaded from the
  context, the stack pointer is that of the entry, and control goes to the address in the word below it, which is the word
  \<^verbatim>\<open>set_routing_bridge_next_hop\<close> sets. The flags are not restored: an addition follows the instruction that loads them.
\<close>

theorem ia32_closure_bridge_runs:
  fixes alu :: alu
  assumes "ia32_closure_trampoline_code t entry b (new_ia32_asm x) = Inr at" and "ia32_closure_bridge_code handler (new_ia32_asm 0) = Inr ab"
    and "ia32_code_at (ix_mem s) t (asm_buffer at)" and "ia32_code_at (ix_mem s) b (asm_buffer ab)" and "ix_eip s = t"
    and "\<forall>k < length (asm_buffer at). 64 \<le> unat (t + of_nat k - (ix_reg s 4 - 64))"
    and "\<forall>k < length (asm_buffer ab). 64 \<le> unat (b + of_nat k - (ix_reg s 4 - 64))"
  shows "\<exists>u. ia32_reaches alu s u \<and> ix_eip u = handler
     \<and> (let ctx = rd32 (ix_mem u) (ix_reg u 4 + 4); ret = rd32 (ix_mem u) (ix_reg u 4)
        in rd32 (ix_mem u) (ix_reg u 4 + 8) = entry
         \<and> context_holds (ix_mem u) ctx (ix_reg s 4) (alu (I_sub 4 32) (ix_reg s 4 - 4) (alu (I_sub 4 4) (ix_reg s 4) (ix_flags s))) (ix_reg s)
         \<and> (\<forall>y. 64 \<le> unat (y - (ix_reg s 4 - 64)) \<longrightarrow> ix_mem u y = ix_mem s y)
         \<and> (\<forall>v. ix_eip v = ret \<and> ix_reg v 4 = ix_reg u 4 + 4 \<and> ia32_code_at (ix_mem v) b (asm_buffer ab) \<longrightarrow>
              (\<exists>w. ia32_reaches alu v w \<and> ix_eip w = rd32 (ix_mem v) (ix_reg s 4 - 4) \<and> ix_reg w 4 = ix_reg s 4 \<and> ix_mem w = ix_mem v
                 \<and> context_holds (ix_mem v) ctx (rd32 (ix_mem v) (ctx + 4)) (rd32 (ix_mem v) (ctx + 12)) (ix_reg w)
                 \<and> ix_flags w = alu (I_add 4 4) (ctx + 36) (rd32 (ix_mem v) (ctx + 12)))))"
proof -
  define g where "g = ix_reg s 4 - 128"
  have sp: "ix_reg s 4 = g + 128" by (simp add: g_def)
  have ab: "asm_buffer ab = concat (map fst (bridge_enter @ bridge_leave)) @ le_bytes 4 handler" using bridge_code [of handler] assms(2) by auto
  have at: "asm_buffer at = concat (map fst (tramp_listing t entry b))" using tramp_code assms(1) by (auto simp: new_ia32_asm_def)
  have n: "length (asm_buffer ab) = 143" unfolding ab by (simp add: bridge_enter_def bridge_leave_def)
  note T = tramp_run [OF sp assms(5), of alu entry b] let ?s1 = "ia32_run alu (program (tramp_listing t entry b)) s"
  have r1: "ia32_reaches alu s ?s1" using assms(3,5,6) by (intro listing_reaches [OF tramp_means _ T(1)]) (simp_all add: at sp slots)
  have c1: "ia32_code_at (ix_mem ?s1) b (asm_buffer ab)" using assms(7) by (intro code_kept [OF assms(4) T(1)]) (simp add: sp slots)
  obtain u where U: "ia32_reaches alu ?s1 u" "ix_eip u = handler" "ix_reg u 4 = g + 64" "rd32 (ix_mem u) (g + 64) = ix_eip ?s1 + 105"
    "rd32 (ix_mem u) (g + 68) = g + 76" "rd32 (ix_mem u) (g + 72) = rd32 (ix_mem ?s1) (g + 124)"
    "context_holds (ix_mem u) (g + 76) (g + 128) (alu (I_sub 4 32) (g + 124) (ix_flags ?s1)) (ix_reg ?s1)"
    "\<And>x. 64 \<le> unat (x - (g + 64)) \<Longrightarrow> ix_mem u x = ix_mem ?s1 x"
    by (rule bridge_to_handler [of ?s1 g handler alu]) (use T(2,3) c1 ab assms(7) n sp in \<open>simp_all add: slots\<close>)
  have "context_holds (ix_mem u) (g + 76) (g + 128) (alu (I_sub 4 32) (g + 124) (alu (I_sub 4 4) (g + 128) (ix_flags s))) (ix_reg s)"
    using U(7) by (simp add: T(3,5) context_holds_def)
  moreover have "\<exists>w. ia32_reaches alu v w \<and> ix_eip w = rd32 (ix_mem v) (g + 124) \<and> ix_reg w 4 = g + 128 \<and> ix_mem w = ix_mem v
      \<and> context_holds (ix_mem v) (g + 76) (rd32 (ix_mem v) (g + 80)) (rd32 (ix_mem v) (g + 88)) (ix_reg w)
      \<and> ix_flags w = alu (I_add 4 4) (g + 112) (rd32 (ix_mem v) (g + 88))"
    if "ix_eip v = b + 105" "ix_reg v 4 = g + 68" "ia32_code_at (ix_mem v) b (asm_buffer ab)" for v
    by (rule bridge_to_next_hop [OF that(2,1), of handler alu]) (use that(3) ab in auto)
  ultimately show ?thesis
    using ia32_reaches_trans [OF r1 U(1)] U(2-6,8) T(2,4) ia32_run_frame [OF T(1)] by (intro exI [of _ u]) (simp add: sp slots Let_def)
qed

definition ia32_placed :: "u32 \<Rightarrow> u8 list \<Rightarrow> (u32 \<Rightarrow> u8) \<Rightarrow> u32 \<Rightarrow> u8" where
  "ia32_placed c bs m x = (if unat (x - c) < length bs then bs ! unat (x - c) else m x)"

lemma ia32_code_placed: "length bs < 2 ^ 32 \<Longrightarrow> ia32_code_at (ia32_placed c bs m) c bs"
  by (simp add: ia32_code_at_def ia32_placed_def unat_of_nat take_bit_nat_eq_self)

lemma ia32_code_placed_other: "ia32_code_at m c bs \<Longrightarrow> \<forall>k < length bs. length ds \<le> unat (c + of_nat k - d) \<Longrightarrow> ia32_code_at (ia32_placed d ds m) c bs"
  by (auto simp: ia32_code_at_def ia32_placed_def not_le [symmetric])

lemma unat_offset: "n + k < 2 ^ 32 \<Longrightarrow> unat (of_nat n + of_nat k :: u32) = n + k"
  by (simp add: unat_of_nat take_bit_nat_eq_self flip: of_nat_add)

theorem ia32_closure_bridge_runs_witness:
  "\<exists>s u. ix_eip s = 0x1000 \<and> ix_reg s 4 = 0x900 \<and> ia32_reaches (\<lambda>_ _ f. f) s u \<and> ix_eip u = 0x3000 \<and> rd32 (ix_mem u) (ix_reg u 4 + 8) = 0x4000"
proof -
  obtain at where at: "ia32_closure_trampoline_code 0x1000 0x4000 0x2000 (new_ia32_asm 0x1000) = Inr at" using tramp_code by blast
  obtain ab where ab: "ia32_closure_bridge_code 0x3000 (new_ia32_asm 0) = Inr ab" "asm_buffer ab = concat (map fst (bridge_enter @ bridge_leave)) @ le_bytes 4 (0x3000 :: u32)"
    using bridge_code by blast
  have n: "length (asm_buffer at) = 18" "length (asm_buffer ab) = 143"
    using at tramp_code by (auto simp: tramp_listing_def new_ia32_asm_def ab(2) bridge_enter_def bridge_leave_def)
  define s where "s = \<lparr>ix_reg = (\<lambda>_. 0x900), ix_eip = 0x1000, ix_flags = 0, ix_mem = ia32_placed 0x1000 (asm_buffer at) (ia32_placed 0x2000 (asm_buffer ab) (\<lambda>_. 0))\<rparr>"
  have ap: "\<forall>k < 18. 64 \<le> unat (0x1000 + of_nat k - (0x900 - 64) :: u32)" "\<forall>k < 143. 64 \<le> unat (0x2000 + of_nat k - (0x900 - 64) :: u32)"
      "\<forall>k < 143. 18 \<le> unat (0x2000 + of_nat k - 0x1000 :: u32)"
    using unat_offset [of "0x740"] unat_offset [of "0x1740"] unat_offset [of "0x1000"] by (auto simp: algebra_simps)
  have c: "ia32_code_at (ix_mem s) 0x1000 (asm_buffer at)" "ia32_code_at (ix_mem s) 0x2000 (asm_buffer ab)"
    using n ap(3) by (auto simp: s_def intro!: ia32_code_placed ia32_code_placed_other)
  have e: "ix_eip s = 0x1000" "ix_reg s 4 = 0x900" by (simp_all add: s_def)
  have "\<forall>k < length (asm_buffer at). 64 \<le> unat (0x1000 + of_nat k - (ix_reg s 4 - 64))"
      "\<forall>k < length (asm_buffer ab). 64 \<le> unat (0x2000 + of_nat k - (ix_reg s 4 - 64))" unfolding n e using ap(1,2) by blast+
  from ia32_closure_bridge_runs [OF at ab(1) c e(1) this, of "\<lambda>_ _ f. f"] show ?thesis unfolding Let_def using e by blast
qed

end
