(* ===== verification/Spec2Isabelle.thy ===== *)
theory Spec2Isabelle
  imports X86_Decode_Correct X64_Assembler_Correct X86_Relocation_Correct X64_Hook_Correct A64_Hook_Correct Variable_Cache
    Proc_Maps_Correct Elf_Resolver_Correct So_Killer_Correct Arm_Hook_Correct Arm_Relocation_Limits
    Ia32_Hook_Correct Ia32_Closure_Correct
begin

text \<open>
  \<^bold>\<open>Verification of the Dobby hook framework in AndroidPatch.\<close>

  The repository is an Android patching tool whose native part, \<^verbatim>\<open>killer/src/main/cpp\<close>, is the hook framework
  Dobby. A hook replaces the first instructions of a function by a jump to a replacement (the trampoline), after
  these instructions have been moved elsewhere in a form that still does the same (the relocated code), so that
  the replacement can call the original. In the order of a call of \<^verbatim>\<open>DobbyHook\<close>: the hook table is asked whether
  the address is hooked; the routing has the trampoline for the target processor generated by an assembler into
  a code buffer; the relocator decodes the instructions under the trampoline and re-emits them with the same
  assembler into memory taken from an arena; the prologue is saved in the hook entry; the entry is filed; and the
  trampoline is copied over the function by \<^verbatim>\<open>CodePatch\<close>. \<^verbatim>\<open>DobbyDestroy\<close> copies the saved prologue back.

  \<^bold>\<open>Conventions.\<close> C integers are words of their width; an address is a 64-bit word. A function that may abort,
  dereference a null pointer or leave a buffer returns \<open>Inl\<close> of a \<open>fatal\<close> value; where a loop may not end the
  result is moreover an option, and the theorems say how much fuel is enough. What the operating system and
  \<^verbatim>\<open>new\<close> hand out, and files, are parameters. \<^verbatim>\<open>DLOG\<close> and \<^verbatim>\<open>DCHECK\<close> are void, as in the build without \<^verbatim>\<open>LOGGING_DEBUG\<close>;
  \<^verbatim>\<open>FATAL\<close>, \<^verbatim>\<open>UNREACHABLE\<close> and \<^verbatim>\<open>UNIMPLEMENTED\<close> abort.

  \<^bold>\<open>Theories\<close> (file names are under \<^verbatim>\<open>src/killer/src/main/cpp/Dobby/\<close>):

  \<^item> \<open>Dobby_Prelude\<close>: word types, results, the macros of \<^verbatim>\<open>utilities_macro.h\<close>, bit fields, little-endian bytes.
  \<^item> \<open>X86_Opcode_Tables\<close>, \<open>X86_Decode\<close>: \<^verbatim>\<open>x86_insn_decode/\<close>, the table-driven decoder; \<open>X86_Decode_Correct\<close>: it
    never reads outside its window, lengths are bounded, branches and RIP-relative operands decode exactly, and
    where lengths are wrong.
  \<^item> \<open>Lite_Containers\<close>: \<^verbatim>\<open>xnucxx/\<close> and the code buffers; growing buffers and arrays refine lists.
  \<^item> \<open>Assembler_Base\<close>, \<open>X64_Assembler\<close>: labels, operands and the instructions of \<^verbatim>\<open>assembler-x64\<close>;
    \<open>X64_Assembler_Correct\<close>: operands mean their address under the processor's rules, bound labels are reached.
  \<^item> \<open>Memory_Arena\<close>: \<^verbatim>\<open>MemoryArena.cc\<close> and \<^verbatim>\<open>NearMemoryArena.cc\<close>; chunks never overlap, near chunks are in range.
  \<^item> \<open>Interceptor\<close>: the hook table, a circular linked list in a store of nodes, refines a list of entries.
  \<^item> \<open>Code_Patch\<close>: the process (memory with page rights, arenas, table), \<^verbatim>\<open>CodePatch\<close> and the code builder.
  \<^item> \<open>X86_Relocation\<close>, \<open>X86_Relocation_Correct\<close>: \<^verbatim>\<open>X64InstructionRelocation.cc\<close>; the retry loop ends within the
    stated fuel (one attempt per growth of the estimate), the output has the stated shape, and which instructions
    keep their meaning.
  \<^item> \<open>Intercept_Routing\<close>: routing and the exported operations over a \<open>backend\<close>; the locale \<open>hook_backend\<close> states what
    the routing needs from a processor, and proves the effect of a hook once.
  \<^item> \<open>X64_Closure\<close>, \<open>X64_Hook\<close>, \<open>X64_Hook_Correct\<close>: the x64 back end, its interpretation, and the theorems about
    \<^verbatim>\<open>DobbyHook\<close> and \<^verbatim>\<open>DobbyDestroy\<close> on x64.
  \<^item> \<open>A64_Assembler\<close>, \<open>A64_Machine\<close>, \<open>A64_Assembler_Correct\<close>: the AArch64 assembler, the part of the architecture its
    code relies on, and what its code does there.
  \<^item> \<open>A64_Relocation\<close>, \<open>A64_Relocation_Correct\<close>, \<open>A64_Relocation_Sim\<close>: the AArch64 relocator, its equivalence with a
    one-pass layout, and the simulation of the original instructions by the relocated ones.
  \<^item> \<open>A64_Closure\<close>, \<open>A64_Hook\<close>, \<open>A64_Hook_Correct\<close>: the AArch64 back end, its interpretation, and the theorems about
    \<^verbatim>\<open>DobbyHook\<close> and \<^verbatim>\<open>DobbyDestroy\<close> on AArch64.
  \<^item> \<open>Arm_Assembler\<close>, \<open>Arm_Machine\<close>: the ARM and Thumb assemblers and trampolines, and the part of the two instruction sets
    their code relies on.
  \<^item> \<open>Arm_Relocation\<close>, \<open>Arm_Relocation_Correct\<close>, \<open>Arm_Relocation_Limits\<close>: \<^verbatim>\<open>ARMInstructionRelocation.cc\<close>; what the relocated
    Thumb-2 code does, that the relocation ends, and the instructions whose relocation changes the program.
  \<^item> \<open>Arm_Closure\<close>, \<open>Arm_Hook\<close>, \<open>Arm_Hook_Correct\<close>: the ARM closure trampolines, the ARM back end, its interpretation, and
    the theorems about \<^verbatim>\<open>DobbyHook\<close> and \<^verbatim>\<open>DobbyDestroy\<close> on ARM.
  \<^item> \<open>Ia32_Assembler\<close>, \<open>Ia32_Machine\<close>: the assembler of 32-bit x86, decoding and execution of the instructions it can emit
    after the processor manual, and that each is decoded to the instruction asked for.
  \<^item> \<open>Ia32_Relocation\<close>, \<open>Ia32_Relocation_Correct\<close>: \<^verbatim>\<open>X86InstructionRelocation.cc\<close>; that the retry ends, and what is written.
  \<^item> \<open>Ia32_Closure\<close>, \<open>Ia32_Closure_Correct\<close>: the closure trampoline and bridge, and a run of the bridge from the call to the
    next hop; \<open>Ia32_Hook\<close>, \<open>Ia32_Hook_Correct\<close>: the back end, its interpretation, and \<^verbatim>\<open>DobbyHook\<close> on 32-bit x86.
  \<^item> \<open>Variable_Cache\<close>: \<^verbatim>\<open>external_helper/variable_cache.c\<close>, a map with a file format that round-trips.
  \<^item> \<open>C_Library\<close>: \<^verbatim>\<open>fgets\<close>, the conversions of \<^verbatim>\<open>sscanf\<close> and \<^verbatim>\<open>strstr\<close>, with the lemmas that a printed number is read back.
  \<^item> \<open>Proc_Maps\<close>, \<open>Proc_Maps_Correct\<close>: \<^verbatim>\<open>PlatformUtil/Linux/ProcesssRuntimeUtility.cc\<close>; what it makes of a file of lines
    as the kernel prints them.
  \<^item> \<open>Elf_Resolver\<close>, \<open>Elf_Resolver_Correct\<close>: \<^verbatim>\<open>SymbolResolver/elf/dobby_symbol_resolver.cc\<close>; which address it finds in a
    well-formed file, and that it gives back what it takes from the system.
  \<^item> \<open>So_Killer\<close>, \<open>So_Killer_Correct\<close>: \<^verbatim>\<open>../so_killer.cpp\<close> and \<^verbatim>\<open>../dex_killer.cpp\<close>, the library that uses the framework;
    the hook of \<^verbatim>\<open>do_dlopen\<close>, its listener, and the copies of mapped files.

  \<^bold>\<open>Loops.\<close> Loops over data end structurally, or by the stated measures (bytes left in a file, instructions left in a
  window). The relocators' retry loops and the arenas' searches take fuel; the theorems on their termination give
  the number of rounds that is enough.

  \<^bold>\<open>Not modelled.\<close> Code for Darwin and Windows (the Mach-O resolver, the monitors and the XNU headers, \<^verbatim>\<open>substrated\<close>, the
  other platforms' patch tools); the deprecated x86 disassembler and the function wrapper, which the build leaves
  out; logging, threads and semaphores, cache maintenance, which have no effect on the state the theorems speak of;
  \<^verbatim>\<open>platform-posix.cc\<close>, whose system calls are the parameters of the arenas; the Bionic linker restriction, which
  depends on private structures of the linker; the XMM registers of x86, which no part uses.
\<close>

end
